(* ===== verification/Qla_Prelude.thy ===== *)
theory Qla_Prelude
  imports Main "HOL-Library.Word" "HOL-Library.More_List"
begin

unbundle bit_operations_syntax

text \<open>
  Shared vocabulary of the development: the machine integers of the C code, the byte and
  half-word macros of qla_def.h, the access functions for the 64-byte queue entries (an entry
  is sixteen 32-bit little-endian words, as \<open>uint32_t *\<close> sees it), the return codes, and
  the generic lemmas on words and lists that the component theories use through the
  collections \<open>entry_simps\<close> (access to queue entries) and \<open>ring_simps\<close> (ring arithmetic).
\<close>

named_theorems entry_simps
named_theorems ring_simps

section \<open>Machine integers\<close>

type_synonym u8 = "8 word"
type_synonym u16 = "16 word"
type_synonym u32 = "32 word"
type_synonym u64 = "64 word"

definition BIT :: "nat \<Rightarrow> 'a::len word" where
  "BIT n = push_bit n 1"

definition LSB :: "u16 \<Rightarrow> u8" where
  "LSB x = ucast x"

definition MSB :: "u16 \<Rightarrow> u8" where
  "MSB x = ucast (drop_bit 8 x)"

definition LSW :: "u32 \<Rightarrow> u16" where
  "LSW x = ucast x"

definition MSW :: "u32 \<Rightarrow> u16" where
  "MSW x = ucast (drop_bit 16 x)"

definition LSD :: "u64 \<Rightarrow> u32" where
  "LSD x = ucast x"

definition MSD :: "u64 \<Rightarrow> u32" where
  "MSD x = ucast (drop_bit 16 (drop_bit 16 x))"

definition MAKE_HANDLE :: "u16 \<Rightarrow> u32 \<Rightarrow> u32" where
  "MAKE_HANDLE x y = push_bit 16 (ucast x) OR y"

text \<open>A 64-bit DMA address is recovered from the two halves the driver stores.\<close>

definition join64 :: "u32 \<Rightarrow> u32 \<Rightarrow> u64" where
  "join64 lo hi = push_bit 32 (ucast hi) OR ucast lo"

lemma join64_LSD_MSD [simp]: "join64 (LSD x) (MSD x) = x"
proof (rule bit_word_eqI)
  fix n assume "n < LENGTH(64)"
  then show "bit (join64 (LSD x) (MSD x)) n = bit x n"
    by (auto simp: join64_def LSD_def MSD_def bit_or_iff bit_push_bit_iff bit_ucast_iff
        bit_drop_bit_eq bit_unsigned_iff bit_imp_le_length le_add_diff_inverse
        dest: bit_imp_le_length)
qed

lemma LSW_MAKE_HANDLE [simp]:
  "unat y < 65536 \<Longrightarrow> LSW (MAKE_HANDLE x y) = ucast y"
proof -
  assume "unat y < 65536"
  show ?thesis
    by (rule bit_word_eqI)
      (auto simp: LSW_def MAKE_HANDLE_def bit_ucast_iff bit_or_iff bit_push_bit_iff
        bit_unsigned_iff)
qed

lemma bit_small_u32: "unat (y::u32) < 2 ^ k \<Longrightarrow> k \<le> n \<Longrightarrow> \<not> bit y n"
proof -
  assume y: "unat y < 2 ^ k" and n: "k \<le> n"
  have "take_bit n (unat y) = unat y"
    using y n by (metis take_bit_nat_eq_self_iff less_le_trans one_le_numeral power_increasing)
  then have "\<not> bit (unat y) n" by (metis bit_take_bit_iff less_irrefl)
  then show ?thesis by (simp add: bit_unsigned_iff)
qed

lemma MSW_MAKE_HANDLE [simp]:
  assumes "unat y < 65536"
  shows "MSW (MAKE_HANDLE x y) = x"
proof (rule bit_word_eqI)
  fix n assume "n < LENGTH(16)"
  moreover have "\<not> bit y (16 + n)"
    using bit_small_u32 [of y 16 "16 + n"] assms by simp
  ultimately show "bit (MSW (MAKE_HANDLE x y)) n = bit x n"
    by (auto simp: MSW_def MAKE_HANDLE_def bit_ucast_iff bit_or_iff bit_push_bit_iff
        bit_unsigned_iff bit_drop_bit_eq)
qed

section \<open>Sub-fields of a 32-bit word\<close>

definition get_byte :: "nat \<Rightarrow> u32 \<Rightarrow> u8" where
  "get_byte k w = ucast (drop_bit (8 * k) w)"

definition put_byte :: "nat \<Rightarrow> u8 \<Rightarrow> u32 \<Rightarrow> u32" where
  "put_byte k b w = (w AND NOT (push_bit (8 * k) (mask 8))) OR push_bit (8 * k) (ucast b)"

definition get_half :: "nat \<Rightarrow> u32 \<Rightarrow> u16" where
  "get_half k w = ucast (drop_bit (16 * k) w)"

definition put_half :: "nat \<Rightarrow> u16 \<Rightarrow> u32 \<Rightarrow> u32" where
  "put_half k h w = (w AND NOT (push_bit (16 * k) (mask 16))) OR push_bit (16 * k) (ucast h)"

lemma get_put_byte_same [simp]: "k < 4 \<Longrightarrow> get_byte k (put_byte k b w) = b"
  by (rule bit_word_eqI)
    (auto simp: get_byte_def put_byte_def bit_ucast_iff bit_drop_bit_eq bit_or_iff bit_and_iff
      bit_not_iff bit_push_bit_iff bit_unsigned_iff bit_mask_iff)

lemma get_put_byte_other [simp]:
  "j < 4 \<Longrightarrow> k < 4 \<Longrightarrow> j \<noteq> k \<Longrightarrow> get_byte j (put_byte k b w) = get_byte j w"
  by (rule bit_word_eqI)
    (auto simp: get_byte_def put_byte_def bit_ucast_iff bit_drop_bit_eq bit_or_iff bit_and_iff
      bit_not_iff bit_push_bit_iff bit_unsigned_iff bit_mask_iff dest: bit_imp_le_length)

lemma get_put_half_same [simp]: "k < 2 \<Longrightarrow> get_half k (put_half k h w) = h"
  by (rule bit_word_eqI)
    (auto simp: get_half_def put_half_def bit_ucast_iff bit_drop_bit_eq bit_or_iff bit_and_iff
      bit_not_iff bit_push_bit_iff bit_unsigned_iff bit_mask_iff)

lemma get_put_half_other [simp]:
  "j < 2 \<Longrightarrow> k < 2 \<Longrightarrow> j \<noteq> k \<Longrightarrow> get_half j (put_half k h w) = get_half j w"
  by (rule bit_word_eqI)
    (auto simp: get_half_def put_half_def bit_ucast_iff bit_drop_bit_eq bit_or_iff bit_and_iff
      bit_not_iff bit_push_bit_iff bit_unsigned_iff bit_mask_iff dest: bit_imp_le_length)

section \<open>Queue entries in memory\<close>

text \<open>
  A queue is a flat list of 32-bit words; entry \<open>s\<close> occupies the words \<open>16 * s\<close> to
  \<open>16 * s + 15\<close> (\<open>REQUEST_ENTRY_SIZE\<close> is 64 bytes). A field is written at its byte
  offset inside the C structure. Writing through a pointer that has run past an entry lands
  in the next one, as in C, so that the absence of such writes is a theorem.
\<close>

definition put32 :: "nat \<Rightarrow> nat \<Rightarrow> u32 \<Rightarrow> u32 list \<Rightarrow> u32 list" where
  "put32 s off v m = m[16 * s + off div 4 := v]"

definition put16 :: "nat \<Rightarrow> nat \<Rightarrow> u16 \<Rightarrow> u32 list \<Rightarrow> u32 list" where
  "put16 s off v m =
     m[16 * s + off div 4 := put_half (off mod 4 div 2) v (m ! (16 * s + off div 4))]"

definition put8 :: "nat \<Rightarrow> nat \<Rightarrow> u8 \<Rightarrow> u32 list \<Rightarrow> u32 list" where
  "put8 s off v m =
     m[16 * s + off div 4 := put_byte (off mod 4) v (m ! (16 * s + off div 4))]"

definition get32 :: "nat \<Rightarrow> nat \<Rightarrow> u32 list \<Rightarrow> u32" where
  "get32 s off m = m ! (16 * s + off div 4)"

definition get16 :: "nat \<Rightarrow> nat \<Rightarrow> u32 list \<Rightarrow> u16" where
  "get16 s off m = get_half (off mod 4 div 2) (m ! (16 * s + off div 4))"

definition get8 :: "nat \<Rightarrow> nat \<Rightarrow> u32 list \<Rightarrow> u8" where
  "get8 s off m = get_byte (off mod 4) (m ! (16 * s + off div 4))"

text \<open>\<open>memset(p, 0, 4 * n)\<close> for a word pointer, and a run of word stores \<open>*p++ = v\<close>.\<close>

fun put_words :: "nat \<Rightarrow> u32 list \<Rightarrow> u32 list \<Rightarrow> u32 list" where
  "put_words p [] m = m"
| "put_words p (v # vs) m = put_words (Suc p) vs (m[p := v])"

definition zero_words :: "nat \<Rightarrow> nat \<Rightarrow> u32 list \<Rightarrow> u32 list" where
  "zero_words p n m = put_words p (replicate n 0) m"

text \<open>Four bytes as one little-endian word, and the byte-swapped word of \<open>swab32\<close>.\<close>

definition le32 :: "u8 \<Rightarrow> u8 \<Rightarrow> u8 \<Rightarrow> u8 \<Rightarrow> u32" where
  "le32 a b c d = put_byte 3 d (put_byte 2 c (put_byte 1 b (put_byte 0 a 0)))"

definition swab32 :: "u32 \<Rightarrow> u32" where
  "swab32 w = le32 (get_byte 3 w) (get_byte 2 w) (get_byte 1 w) (get_byte 0 w)"

text \<open>
  \<open>memcpy\<close> to byte \<open>off\<close> of entry \<open>s\<close>, and \<open>host_to_fcp_swap\<close> on \<open>n\<close> words: the fields of
  FCP payloads are big-endian, so every word is swapped in place.
\<close>

fun put_bytes :: "nat \<Rightarrow> nat \<Rightarrow> u8 list \<Rightarrow> u32 list \<Rightarrow> u32 list" where
  "put_bytes s off [] m = m"
| "put_bytes s off (b # bs) m = put_bytes s (Suc off) bs (put8 s off b m)"

definition host_to_fcp_swap :: "nat \<Rightarrow> nat \<Rightarrow> u32 list \<Rightarrow> u32 list" where
  "host_to_fcp_swap p n m = put_words p (map swab32 (take n (drop p m))) m"

text \<open>\<open>memcpy\<close> into a byte array: stores behind its end are dropped.\<close>

fun wr_bytes :: "nat \<Rightarrow> u8 list \<Rightarrow> u8 list \<Rightarrow> u8 list" where
  "wr_bytes p [] m = m"
| "wr_bytes p (b # bs) m = wr_bytes (Suc p) bs (m[p := b])"

lemma length_wr_bytes [simp]: "length (wr_bytes p bs m) = length m"
  by (induction bs arbitrary: p m) auto

lemma wr_bytes_other:
  "i < p \<or> p + length bs \<le> i \<Longrightarrow> wr_bytes p bs m ! i = m ! i"
proof (induction bs arbitrary: p m)
  case Nil
  then show ?case by simp
next
  case (Cons b bs)
  then have "p \<noteq> i" and "i < Suc p \<or> Suc p + length bs \<le> i" by auto
  then show ?case by (simp add: Cons.IH)
qed

lemma wr_bytes_inside:
  "p \<le> i \<Longrightarrow> i < p + length bs \<Longrightarrow> i < length m \<Longrightarrow> wr_bytes p bs m ! i = bs ! (i - p)"
proof (induction bs arbitrary: p m)
  case (Cons b bs)
  show ?case
  proof (cases "i = p")
    case True
    then show ?thesis using Cons.prems by (simp add: wr_bytes_other)
  next
    case False
    then have "wr_bytes (Suc p) bs (m[p := b]) ! i = bs ! (i - Suc p)"
      by (intro Cons.IH) (use Cons.prems in auto)
    then show ?thesis using False Cons.prems by (simp add: nth_Cons' )
  qed
qed simp

text \<open>A byte array of \<open>n\<close> bytes into which \<open>memcpy\<close> has copied a shorter one.\<close>

definition pad_bytes :: "nat \<Rightarrow> u8 list \<Rightarrow> u8 list" where
  "pad_bytes n bs = take n (bs @ replicate n 0)"

lemma length_pad_bytes [simp]: "length (pad_bytes n bs) = n"
  by (simp add: pad_bytes_def)

lemma length_put_words [simp]: "length (put_words p vs m) = length m"
  by (induction vs arbitrary: p m) auto

lemma length_put [simp]:
  "length (put32 s off v m) = length m"
  "length (put16 s off h m) = length m"
  "length (put8 s off b m) = length m"
  "length (zero_words p n m) = length m"
  by (simp_all add: put32_def put16_def put8_def zero_words_def)

lemma length_put_bytes [simp]: "length (put_bytes s off bs m) = length m"
  by (induction bs arbitrary: off m) auto

lemma length_host_to_fcp_swap [simp]: "length (host_to_fcp_swap p n m) = length m"
  by (simp add: host_to_fcp_swap_def)

lemma put_words_nth:
  "put_words p vs m ! i =
     (if p \<le> i \<and> i < p + length vs \<and> i < length m then vs ! (i - p) else m ! i)"
proof (induction vs arbitrary: p m i)
  case Nil
  then show ?case by auto
next
  case (Cons v vs)
  have neq: "p \<noteq> i \<Longrightarrow> m[p := v] ! i = m ! i" by simp
  show ?case
  proof (cases "Suc p \<le> i \<and> i < Suc p + length vs \<and> i < length m")
    case True
    then have "i - p = Suc (i - Suc p)" by arith
    with True show ?thesis by (simp add: Cons.IH)
  next
    case False
    then show ?thesis
      by (cases "i = p") (auto simp: Cons.IH neq nth_list_update list_update_beyond)
  qed
qed

lemma put_nth_other [simp]:
  "i \<noteq> 16 * s + off div 4 \<Longrightarrow> put32 s off v m ! i = m ! i"
  "i \<noteq> 16 * s + off div 4 \<Longrightarrow> put16 s off h m ! i = m ! i"
  "i \<noteq> 16 * s + off div 4 \<Longrightarrow> put8 s off b m ! i = m ! i"
  by (simp_all add: put32_def put16_def put8_def)

lemma zero_words_nth:
  "zero_words p n m ! i = (if p \<le> i \<and> i < p + n \<and> i < length m then 0 else m ! i)"
  by (auto simp: zero_words_def put_words_nth)

text \<open>Reading back a field: the same field, or a field of another word of the entry.\<close>

lemma get_put_same [entry_simps]:
  "16 * s + off div 4 < length m \<Longrightarrow> get32 s off (put32 s off v m) = v"
  "16 * s + off div 4 < length m \<Longrightarrow> get16 s off (put16 s off h m) = h"
  "16 * s + off div 4 < length m \<Longrightarrow> get8 s off (put8 s off b m) = b"
  by (simp_all add: get32_def put32_def get16_def put16_def get8_def put8_def)

lemma get_put_other_word [entry_simps]:
  "off div 4 \<noteq> off' div 4 \<Longrightarrow> get32 s off (put32 s off' v m) = get32 s off m"
  "off div 4 \<noteq> off' div 4 \<Longrightarrow> get32 s off (put16 s off' h m) = get32 s off m"
  "off div 4 \<noteq> off' div 4 \<Longrightarrow> get32 s off (put8 s off' b m) = get32 s off m"
  "off div 4 \<noteq> off' div 4 \<Longrightarrow> get16 s off (put32 s off' v m) = get16 s off m"
  "off div 4 \<noteq> off' div 4 \<Longrightarrow> get16 s off (put16 s off' h m) = get16 s off m"
  "off div 4 \<noteq> off' div 4 \<Longrightarrow> get16 s off (put8 s off' b m) = get16 s off m"
  "off div 4 \<noteq> off' div 4 \<Longrightarrow> get8 s off (put32 s off' v m) = get8 s off m"
  "off div 4 \<noteq> off' div 4 \<Longrightarrow> get8 s off (put16 s off' h m) = get8 s off m"
  "off div 4 \<noteq> off' div 4 \<Longrightarrow> get8 s off (put8 s off' b m) = get8 s off m"
  by (simp_all add: get32_def get16_def get8_def)

lemma get8_put8_same_word [entry_simps]:
  assumes "off mod 4 \<noteq> off' mod 4"
  shows "get8 s off (put8 s off' b m) = get8 s off m"
proof (cases "off div 4 = off' div 4 \<and> 16 * s + off div 4 < length m")
  case True
  with assms show ?thesis by (simp add: get8_def put8_def)
next
  case False
  then show ?thesis
    by (cases "off div 4 = off' div 4") (simp_all add: get8_def put8_def list_update_beyond)
qed

lemma get16_put16_same_word [entry_simps]:
  assumes "off mod 4 div 2 \<noteq> off' mod 4 div 2"
  shows "get16 s off (put16 s off' h m) = get16 s off m"
proof (cases "off div 4 = off' div 4 \<and> 16 * s + off div 4 < length m")
  case True
  with assms show ?thesis by (simp add: get16_def put16_def)
next
  case False
  then show ?thesis
    by (cases "off div 4 = off' div 4") (simp_all add: get16_def put16_def list_update_beyond)
qed

text \<open>A byte of the other half of the word survives a half-word store.\<close>

lemma get_byte_put_half:
  assumes "k < 4" and "j < 2" and "k div 2 \<noteq> j"
  shows "get_byte k (put_half j h w) = get_byte k w"
proof (rule bit_word_eqI)
  fix n assume n: "n < LENGTH(8)"
  have "\<not> (16 * j \<le> 8 * k + n \<and> 8 * k + n < 16 * j + 16)"
  proof -
    consider "j = 0" "2 \<le> k" | "j = 1" "k < 2" using assms by (cases j) auto
    then show ?thesis using n by cases auto
  qed
  then show "bit (get_byte k (put_half j h w)) n = bit (get_byte k w) n"
    using n assms(1)
    by (auto simp: get_byte_def put_half_def bit_ucast_iff bit_drop_bit_eq bit_or_iff bit_and_iff
      bit_not_iff bit_push_bit_iff bit_unsigned_iff bit_mask_iff dest: bit_imp_le_length)
qed

lemma get8_put16_other:
  assumes "off mod 4 div 2 \<noteq> off' mod 4 div 2"
  shows "get8 s off (put16 s off' h m) = get8 s off m"
proof (cases "off div 4 = off' div 4 \<and> 16 * s + off div 4 < length m")
  case True
  with assms show ?thesis by (simp add: get8_def put16_def get_byte_put_half)
next
  case False
  then show ?thesis
    by (cases "off div 4 = off' div 4") (simp_all add: get8_def put16_def list_update_beyond)
qed

lemma get_half_put_byte:
  assumes "k < 4" and "j < 2" and "k div 2 \<noteq> j"
  shows "get_half j (put_byte k b w) = get_half j w"
proof (rule bit_word_eqI)
  fix n assume n: "n < LENGTH(16)"
  have "\<not> (8 * k \<le> 16 * j + n \<and> 16 * j + n < 8 * k + 8)"
  proof -
    consider "j = 0" "2 \<le> k" | "j = 1" "k < 2" using assms by (cases j) auto
    then show ?thesis using n by cases auto
  qed
  then show "bit (get_half j (put_byte k b w)) n = bit (get_half j w) n"
    using n assms(2)
    by (auto simp: get_half_def put_byte_def bit_ucast_iff bit_drop_bit_eq bit_or_iff bit_and_iff
      bit_not_iff bit_push_bit_iff bit_unsigned_iff bit_mask_iff dest: bit_imp_le_length)
qed

lemma get16_put8_other:
  assumes "off mod 4 div 2 \<noteq> off' mod 4 div 2"
  shows "get16 s off (put8 s off' b m) = get16 s off m"
proof (cases "off div 4 = off' div 4 \<and> 16 * s + off div 4 < length m")
  case True
  with assms show ?thesis by (simp add: get16_def put8_def get_half_put_byte)
next
  case False
  then show ?thesis
    by (cases "off div 4 = off' div 4") (simp_all add: get16_def put8_def list_update_beyond)
qed

lemma get_put_words [entry_simps]:
  assumes "16 * s + off div 4 < p \<or> p + length vs \<le> 16 * s + off div 4"
  shows "get32 s off (put_words p vs m) = get32 s off m"
    and "get16 s off (put_words p vs m) = get16 s off m"
    and "get8 s off (put_words p vs m) = get8 s off m"
  using assms by (auto simp: get32_def get16_def get8_def put_words_nth)

text \<open>Byte runs: what \<open>memcpy\<close> leaves, and the words outside the run.\<close>

lemma put_bytes_nth_other:
  assumes "i < 16 * s + off div 4 \<or> 16 * s + (off + length bs + 3) div 4 \<le> i"
  shows "put_bytes s off bs m ! i = m ! i"
  using assms
proof (induction bs arbitrary: off m)
  case Nil
  then show ?case by simp
next
  case (Cons b bs)
  from Cons.prems have "i \<noteq> 16 * s + off div 4" by auto
  moreover have "i < 16 * s + Suc off div 4 \<or> 16 * s + (Suc off + length bs + 3) div 4 \<le> i"
    using Cons.prems by (auto intro: less_le_trans div_le_mono)
  ultimately show ?case by (simp add: Cons.IH)
qed

lemma get8_put8:
  assumes "16 * s + off div 4 < length m"
  shows "get8 s o' (put8 s off b m) = (if o' = off then b else get8 s o' m)"
proof (cases "o' div 4 = off div 4")
  case True
  then have "o' = off \<longleftrightarrow> o' mod 4 = off mod 4" by (metis div_mult_mod_eq)
  with True assms show ?thesis by (auto simp: get8_put8_same_word get_put_same)
next
  case False
  then show ?thesis by (auto simp: get_put_other_word)
qed

lemma get8_put_bytes:
  assumes "16 * s + (off + length bs + 3) div 4 \<le> length m"
  shows "get8 s o' (put_bytes s off bs m) =
    (if off \<le> o' \<and> o' < off + length bs then bs ! (o' - off) else get8 s o' m)"
  using assms
proof (induction bs arbitrary: off m)
  case Nil
  then show ?case by auto
next
  case (Cons b bs)
  have "16 * s + off div 4 < length m" using Cons.prems by auto
  then have one: "get8 s o' (put8 s off b m) = (if o' = off then b else get8 s o' m)"
    by (rule get8_put8)
  have "get8 s o' (put_bytes s (Suc off) bs (put8 s off b m)) =
      (if Suc off \<le> o' \<and> o' < Suc off + length bs then bs ! (o' - Suc off)
       else get8 s o' (put8 s off b m))"
    using Cons.prems by (intro Cons.IH) simp
  moreover have "Suc off \<le> o' \<Longrightarrow> (b # bs) ! (o' - off) = bs ! (o' - Suc off)"
    by (simp add: nth_Cons')
  ultimately show ?case using one by auto
qed

lemma host_to_fcp_swap_nth:
  assumes "p + n \<le> length m"
  shows "host_to_fcp_swap p n m ! i = (if p \<le> i \<and> i < p + n then swab32 (m ! i) else m ! i)"
  using assms by (auto simp: host_to_fcp_swap_def put_words_nth)

text \<open>Fields of other words survive the bulk stores.\<close>

lemma get_put_bytes_other [entry_simps]:
  assumes "o' div 4 < off div 4 \<or> (off + length bs + 3) div 4 \<le> o' div 4"
  shows "get32 s o' (put_bytes s off bs m) = get32 s o' m"
    and "get16 s o' (put_bytes s off bs m) = get16 s o' m"
    and "get8 s o' (put_bytes s off bs m) = get8 s o' m"
  using assms by (auto simp: get32_def get16_def get8_def put_bytes_nth_other)

lemma get_swap_other [entry_simps]:
  assumes "o' div 4 < a \<or> a + n \<le> o' div 4"
  shows "get32 s o' (host_to_fcp_swap (16 * s + a) n m) = get32 s o' m"
    and "get16 s o' (host_to_fcp_swap (16 * s + a) n m) = get16 s o' m"
    and "get8 s o' (host_to_fcp_swap (16 * s + a) n m) = get8 s o' m"
  using assms by (auto simp: get32_def get16_def get8_def host_to_fcp_swap_def put_words_nth)

lemma get_zero_words [entry_simps]:
  assumes "16 * s + o' div 4 < length m"
  shows "get32 s o' (zero_words (16 * s + a) n m) =
      (if a \<le> o' div 4 \<and> o' div 4 < a + n then 0 else get32 s o' m)"
    and "get16 s o' (zero_words (16 * s + a) n m) =
      (if a \<le> o' div 4 \<and> o' div 4 < a + n then 0 else get16 s o' m)"
    and "get8 s o' (zero_words (16 * s + a) n m) =
      (if a \<le> o' div 4 \<and> o' div 4 < a + n then 0 else get8 s o' m)"
  using assms
  by (auto simp: get32_def get16_def get8_def zero_words_nth get_half_def get_byte_def)

lemmas get_zero_words_2 [entry_simps] = get_zero_words [where a = 2, simplified]
lemmas get_zero_words_0 [entry_simps] = get_zero_words [where a = 0, simplified]

lemma get_byte_swab32 [simp]: "k < 4 \<Longrightarrow> get_byte k (swab32 w) = get_byte (3 - k) w"
proof -
  assume "k < 4"
  then consider "k = 0" | "k = 1" | "k = 2" | "k = 3" by linarith
  then show ?thesis by cases (simp_all add: swab32_def le32_def)
qed

text \<open>A swapped payload: byte \<open>i\<close> of the array is byte \<open>3 - i mod 4\<close> of its word.\<close>

lemma get8_swap:
  assumes "16 * s + a + n \<le> length m" and "i < 4 * n"
  shows "get8 s (4 * a + 4 * (i div 4) + (3 - i mod 4)) (host_to_fcp_swap (16 * s + a) n m) =
    get8 s (4 * a + i) m"
proof -
  have r: "i mod 4 < 4" by simp
  have a1: "(4 * a + 4 * (i div 4) + (3 - i mod 4)) div 4 = a + i div 4"
    by (simp add: div_add1_eq)
  have a2: "(4 * a + 4 * (i div 4) + (3 - i mod 4)) mod 4 = 3 - i mod 4"
  proof -
    have "4 * a + 4 * (i div 4) + (3 - i mod 4) = (3 - i mod 4) + (a + i div 4) * 4" by simp
    then show ?thesis by (simp only: mod_mult_self1) simp
  qed
  have lt: "a + i div 4 < a + n" using assms(2) by auto
  have m: "16 * s + (a + i div 4) < length m" using assms(1) lt by linarith
  have "3 - (3 - i mod 4) = i mod 4" using r by linarith
  then show ?thesis unfolding get8_def a1 a2
    using assms lt m by (simp add: host_to_fcp_swap_nth add.assoc)
qed

section \<open>Return codes\<close>

text \<open>qla_def.h: local function results. \<open>QLA_SUCCESS\<close> is \<open>MBS_COMMAND_COMPLETE & MBS_MASK\<close>.\<close>

definition QLA_SUCCESS :: int where "QLA_SUCCESS = 0"
definition QLA_FUNCTION_TIMEOUT :: int where "QLA_FUNCTION_TIMEOUT = 0x100"
definition QLA_FUNCTION_PARAMETER_ERROR :: int where "QLA_FUNCTION_PARAMETER_ERROR = 0x101"
definition QLA_FUNCTION_FAILED :: int where "QLA_FUNCTION_FAILED = 0x102"
definition QLA_MEMORY_ALLOC_FAILED :: int where "QLA_MEMORY_ALLOC_FAILED = 0x103"

lemmas qla_codes =
  QLA_SUCCESS_def QLA_FUNCTION_TIMEOUT_def QLA_FUNCTION_PARAMETER_ERROR_def
  QLA_FUNCTION_FAILED_def QLA_MEMORY_ALLOC_FAILED_def

lemma qla_success_neq [simp]:
  "QLA_SUCCESS \<noteq> QLA_FUNCTION_TIMEOUT" "QLA_FUNCTION_TIMEOUT \<noteq> QLA_SUCCESS"
  "QLA_SUCCESS \<noteq> QLA_FUNCTION_FAILED" "QLA_FUNCTION_FAILED \<noteq> QLA_SUCCESS"
  "QLA_SUCCESS \<noteq> QLA_MEMORY_ALLOC_FAILED" "QLA_MEMORY_ALLOC_FAILED \<noteq> QLA_SUCCESS"
  "QLA_FUNCTION_FAILED \<noteq> QLA_FUNCTION_TIMEOUT" "QLA_FUNCTION_TIMEOUT \<noteq> QLA_FUNCTION_FAILED"
  by (simp_all add: qla_codes)

end
