(* ===== verification/Qla_Types.thy ===== *)
theory Qla_Types
  imports Qla_Prelude
begin

text \<open>
  The data the I/O path works on (qla_def.h): the adapter-type predicates, the SCSI request
  block \<open>srb_t\<close> with the part of the mid-layer's \<open>struct scsi_cmnd\<close> the driver reads and
  writes, the request and response queues, and the adapter state that the submission and
  completion paths pass along. Pointers are numbers: an \<open>srb_t *\<close> is a \<open>sp_ptr\<close> into the
  store \<open>srbs\<close>, and \<open>ring_ptr\<close> counts entries from the start of the ring. What the kernel
  supplies (DMA mapping, LUN formatting, tag messages) and the values the hardware
  registers return are fields of the record \<open>kenv\<close>, which every operation takes.
\<close>

section \<open>Adapter types\<close>

definition DT_ISP2200 :: u32 where "DT_ISP2200 = BIT 1"
definition DT_ISP8001 :: u32 where "DT_ISP8001 = BIT 13"
definition DT_ISP8021 :: u32 where "DT_ISP8021 = BIT 14"
definition DT_ISP2031 :: u32 where "DT_ISP2031 = BIT 15"
definition DT_ISP8031 :: u32 where "DT_ISP8031 = BIT 16"
definition DT_ISPFX00 :: u32 where "DT_ISPFX00 = BIT 17"
definition DT_ISP8044 :: u32 where "DT_ISP8044 = BIT 18"
definition DT_ISP2071 :: u32 where "DT_ISP2071 = BIT 19"
definition DT_ISP2271 :: u32 where "DT_ISP2271 = BIT 20"
definition DT_ISP_LAST :: u32 where "DT_ISP_LAST = push_bit 1 DT_ISP2271"
definition DT_FWI2 :: u32 where "DT_FWI2 = BIT 27"
definition DT_EXTENDED_IDS :: u32 where "DT_EXTENDED_IDS = BIT 31"

definition DT_MASK :: "u32 \<Rightarrow> u32" where
  "DT_MASK dt = dt AND (DT_ISP_LAST - 1)"

definition IS_QLA2200 :: "u32 \<Rightarrow> bool" where
  "IS_QLA2200 dt \<longleftrightarrow> DT_MASK dt AND DT_ISP2200 \<noteq> 0"

definition IS_QLA81XX :: "u32 \<Rightarrow> bool" where
  "IS_QLA81XX dt \<longleftrightarrow> DT_MASK dt AND DT_ISP8001 \<noteq> 0"

definition IS_QLA82XX :: "u32 \<Rightarrow> bool" where
  "IS_QLA82XX dt \<longleftrightarrow> DT_MASK dt AND DT_ISP8021 \<noteq> 0"

definition IS_QLA8044 :: "u32 \<Rightarrow> bool" where
  "IS_QLA8044 dt \<longleftrightarrow> DT_MASK dt AND DT_ISP8044 \<noteq> 0"

definition IS_QLAFX00 :: "u32 \<Rightarrow> bool" where
  "IS_QLAFX00 dt \<longleftrightarrow> DT_MASK dt AND DT_ISPFX00 \<noteq> 0"

definition IS_QLA2031 :: "u32 \<Rightarrow> bool" where
  "IS_QLA2031 dt \<longleftrightarrow> DT_MASK dt AND DT_ISP2031 \<noteq> 0"

definition IS_QLA83XX :: "u32 \<Rightarrow> bool" where
  "IS_QLA83XX dt \<longleftrightarrow> DT_MASK dt AND DT_ISP2031 \<noteq> 0 \<or> DT_MASK dt AND DT_ISP8031 \<noteq> 0"

definition IS_QLA27XX :: "u32 \<Rightarrow> bool" where
  "IS_QLA27XX dt \<longleftrightarrow> DT_MASK dt AND DT_ISP2071 \<noteq> 0 \<or> DT_MASK dt AND DT_ISP2271 \<noteq> 0"

definition IS_P3P_TYPE :: "u32 \<Rightarrow> bool" where
  "IS_P3P_TYPE dt \<longleftrightarrow> IS_QLA82XX dt \<or> IS_QLA8044 dt"

definition IS_FWI2_CAPABLE :: "u32 \<Rightarrow> bool" where
  "IS_FWI2_CAPABLE dt \<longleftrightarrow> dt AND DT_FWI2 \<noteq> 0"

definition HAS_EXTENDED_IDS :: "u32 \<Rightarrow> bool" where
  "HAS_EXTENDED_IDS dt \<longleftrightarrow> dt AND DT_EXTENDED_IDS \<noteq> 0"

definition IS_PI_UNINIT_CAPABLE :: "u32 \<Rightarrow> bool" where
  "IS_PI_UNINIT_CAPABLE dt \<longleftrightarrow> IS_QLA83XX dt"

definition IS_SHADOW_REG_CAPABLE :: "u32 \<Rightarrow> bool" where
  "IS_SHADOW_REG_CAPABLE dt \<longleftrightarrow> IS_QLA27XX dt"

lemmas dt_defs =
  BIT_def DT_ISP2200_def DT_ISP8001_def DT_ISP8021_def DT_ISP2031_def DT_ISP8031_def
  DT_ISPFX00_def DT_ISP8044_def DT_ISP2071_def DT_ISP2271_def DT_ISP_LAST_def DT_FWI2_def
  DT_EXTENDED_IDS_def DT_MASK_def IS_QLA2200_def IS_QLA81XX_def IS_QLA82XX_def IS_QLA8044_def
  IS_QLAFX00_def IS_QLA83XX_def IS_QLA27XX_def IS_P3P_TYPE_def IS_FWI2_CAPABLE_def
  HAS_EXTENDED_IDS_def IS_PI_UNINIT_CAPABLE_def IS_SHADOW_REG_CAPABLE_def

section \<open>The mid-layer's command\<close>

datatype dma_direction = DMA_BIDIRECTIONAL | DMA_TO_DEVICE | DMA_FROM_DEVICE | DMA_NONE

datatype scsi_prot_op =
  SCSI_PROT_NORMAL | SCSI_PROT_READ_INSERT | SCSI_PROT_WRITE_STRIP | SCSI_PROT_READ_STRIP
| SCSI_PROT_WRITE_INSERT | SCSI_PROT_READ_PASS | SCSI_PROT_WRITE_PASS

datatype scsi_prot_type =
  SCSI_PROT_DIF_TYPE0 | SCSI_PROT_DIF_TYPE1 | SCSI_PROT_DIF_TYPE2 | SCSI_PROT_DIF_TYPE3

datatype tag_msg = HEAD_OF_QUEUE_TAG | ORDERED_QUEUE_TAG | SIMPLE_QUEUE_TAG

text \<open>
  A result is the word of the mid-layer: SCSI status in byte 0, host byte in byte 2, driver byte
  in byte 3.
\<close>

type_synonym scsi_result = u32

definition DID_OK :: u32 where "DID_OK = 0"
definition DID_BUS_BUSY :: u32 where "DID_BUS_BUSY = 2"
definition DID_ABORT :: u32 where "DID_ABORT = 5"
definition DID_ERROR :: u32 where "DID_ERROR = 7"
definition DID_RESET :: u32 where "DID_RESET = 8"
definition DID_TRANSPORT_DISRUPTED :: u32 where "DID_TRANSPORT_DISRUPTED = 14"

definition host_result :: "u32 \<Rightarrow> scsi_result" where
  "host_result did = push_bit 16 did"

text \<open>A protection tuple: guard, application tag, reference tag.\<close>

type_synonym dif_tuple = "u16 \<times> u16 \<times> u32"

text \<open>A DMA-mapped scatterlist element: \<open>sg_dma_address\<close> and \<open>sg_dma_len\<close>.\<close>

type_synonym sg = "u64 \<times> u32"

record scsi_cmnd =
  sc_data_direction :: dma_direction
  scsi_bufflen :: u32
  scsi_sglist :: "sg list"
  cmnd :: "u8 list"
  cmd_len :: u16
  lun :: u32
  sector_size :: u32
  underflow :: u32
  prot_op :: scsi_prot_op
  prot_type :: scsi_prot_type
  scsi_prot_sglist :: "sg list"
  scsi_lba :: u64
  host_guard_ip :: bool
  request_cpu :: int
  host_scribble :: u32
  resid :: u32
  sense_buffer :: "u8 list"
  cmd_result :: scsi_result
  prot_tuples :: "dif_tuple list list"

text \<open>
  \<open>struct fc_port\<close>: its number and addresses, which the request builders read, and separately
  the part that completions change (all commands of a port share it).
\<close>

record fc_port =
  fc_id :: nat
  loop_id :: u16
  d_id_domain :: u8
  d_id_area :: u8
  d_id_al_pa :: u8

record fc_state =
  fcport_state :: nat
  fc_vp_idx :: u16
  has_rport :: bool
  drport :: bool
  rport_deleted :: bool
  login_retry :: int
  port_type :: nat
  fc_flags :: u32
  supported_classes :: u32
  retry_delay_timestamp :: u64

text \<open>The part of a BSG job (\<open>struct fc_bsg_job\<close>) the pass-through IOCBs read and their completions fill.\<close>

record bsg_job =
  bsg_req_sgs :: "sg list"
  bsg_req_len :: u32
  bsg_rep_sgs :: "sg list"
  bsg_rep_len :: u32
  bsg_els_code :: u8
  bsg_command_code :: u8
  reply_len :: u32
  reply_payload_rcv_len :: u32
  ctels_status :: u32
  vendor_rsp0 :: u32
  sense_fw_status :: "u32 list"

type_synonym sp_ptr = nat

text \<open>
  \<open>srb_t\<close>: the members of the union \<open>u\<close> (\<open>iocb_cmd\<close>, \<open>bsg_job\<close>, \<open>scmd\<close>) are separate fields;
  the code reads the one that \<open>sp_type\<close> selects.
\<close>

record srb =
  sp_handle :: u32
  sp_flags :: u16
  sp_type :: u16
  sp_iocbs :: u16
  logio_flags :: u16
  tmf_flags :: u32
  tmf_lun :: u32
  abt_cmd_hndl :: u32
  sp_bsg :: bsg_job
  fcport :: fc_port
  cmd_present :: bool
  cmd :: scsi_cmnd
  request_sense_length :: u32
  request_sense_ptr :: nat
  logio_data0 :: u16
  logio_data1 :: u16
  tmf_data :: u32
  abt_comp_status :: u16

definition SRB_LOGIN_CMD :: u16 where "SRB_LOGIN_CMD = 1"
definition SRB_LOGOUT_CMD :: u16 where "SRB_LOGOUT_CMD = 2"
definition SRB_ELS_CMD_RPT :: u16 where "SRB_ELS_CMD_RPT = 3"
definition SRB_ELS_CMD_HST :: u16 where "SRB_ELS_CMD_HST = 4"
definition SRB_CT_CMD :: u16 where "SRB_CT_CMD = 5"
definition SRB_ADISC_CMD :: u16 where "SRB_ADISC_CMD = 6"
definition SRB_TM_CMD :: u16 where "SRB_TM_CMD = 7"
definition SRB_SCSI_CMD :: u16 where "SRB_SCSI_CMD = 8"
definition SRB_BIDI_CMD :: u16 where "SRB_BIDI_CMD = 9"
definition SRB_FXIOCB_DCMD :: u16 where "SRB_FXIOCB_DCMD = 10"
definition SRB_FXIOCB_BCMD :: u16 where "SRB_FXIOCB_BCMD = 11"
definition SRB_ABT_CMD :: u16 where "SRB_ABT_CMD = 12"

definition SRB_DMA_VALID :: u16 where "SRB_DMA_VALID = BIT 0"
definition SRB_CRC_CTX_DMA_VALID :: u16 where "SRB_CRC_CTX_DMA_VALID = BIT 2"
definition SRB_CRC_PROT_DMA_VALID :: u16 where "SRB_CRC_PROT_DMA_VALID = BIT 4"
definition SRB_CRC_CTX_DSD_VALID :: u16 where "SRB_CRC_CTX_DSD_VALID = BIT 5"

section \<open>Queues and the adapter\<close>

record req_que =
  ring :: "u32 list"
  ring_ptr :: nat
  ring_index :: u16
  cnt :: u16
  que_length :: u16
  que_id :: u16
  outstanding_cmds :: "sp_ptr option list"
  current_outstanding_cmd :: u32
  num_outstanding_cmds :: u16
  req_q_in :: u16

record qla_statistics =
  input_bytes :: u64
  output_bytes :: u64
  input_requests :: u64
  output_requests :: u64
  control_requests :: u32

record rsp_que =
  rsp_ring :: "u32 list"
  rsp_ring_ptr :: nat
  rsp_ring_index :: u16
  rsp_length :: u16
  rsp_id :: u16
  status_srb :: "sp_ptr option"
  rsp_req :: nat
  rsp_q_out :: u16

record vp_state =
  vps_idx :: u16
  vps_d_id :: "u8 \<times> u8 \<times> u8"
  vps_flags :: u64
  vps_dpc_flags :: u64

text \<open>
  The adapter (\<open>struct qla_hw_data\<close>) together with the port (\<open>scsi_qla_host_t\<close>) the paths run
  on; \<open>vps\<close> is the list of the virtual ports. \<open>vha_req\<close> is the number of the queue \<open>vha->req\<close>; \<open>nxdb_wr\<close> is the doorbell word of the
  P3P adapters. \<open>done_log\<close> and \<open>unmapped\<close> record the calls of \<open>sp->done\<close> and
  \<open>scsi_dma_unmap\<close>, latest first.
\<close>

record host =
  device_type :: u32
  mqenable :: bool
  enable_64bit_addressing :: bool
  portnum :: u16
  vp_idx :: u16
  marker_needed :: bool
  process_response_queue :: bool
  cpu_affinity_enabled :: bool
  max_rsp_queues :: u8
  vha_req :: nat
  req_q_map :: "nat \<Rightarrow> req_que option"
  rsp_q_map :: "nat \<Rightarrow> rsp_que option"
  srbs :: "sp_ptr \<Rightarrow> srb"
  qla_stats :: qla_statistics
  dpc_flags :: u64
  r_a_tov :: u16
  login_timeout :: u16
  vha_loop_id :: u16
  vha_d_id :: "u8 \<times> u8 \<times> u8"
  async_pd_dma :: u64
  nxdb_wr :: u32
  done_log :: "(sp_ptr \<times> scsi_result) list"
  unmapped :: "sp_ptr list"
  vha_online :: bool
  max_req_queues :: u8
  req_qid_map :: "nat \<Rightarrow> bool"
  fc_states :: "nat \<Rightarrow> fc_state"
  login_retry_count :: int
  vps :: "vp_state list"
  vha_port_name :: "u8 list"
  init_cb_port_name :: "u8 list"

text \<open>The signature of a response entry that has been consumed.\<close>

definition RESPONSE_PROCESSED :: u32 where "RESPONSE_PROCESSED = 0xDEADDEAD"

definition get_req :: "nat \<Rightarrow> host \<Rightarrow> req_que" where
  "get_req i h = the (req_q_map h i)"

definition set_req :: "nat \<Rightarrow> req_que \<Rightarrow> host \<Rightarrow> host" where
  "set_req i q h = h\<lparr>req_q_map := (req_q_map h)(i \<mapsto> q)\<rparr>"

definition get_rsp :: "nat \<Rightarrow> host \<Rightarrow> rsp_que" where
  "get_rsp i h = the (rsp_q_map h i)"

definition set_rsp :: "nat \<Rightarrow> rsp_que \<Rightarrow> host \<Rightarrow> host" where
  "set_rsp i q h = h\<lparr>rsp_q_map := (rsp_q_map h)(i \<mapsto> q)\<rparr>"

definition upd_sp :: "sp_ptr \<Rightarrow> (srb \<Rightarrow> srb) \<Rightarrow> host \<Rightarrow> host" where
  "upd_sp sp f h = h\<lparr>srbs := (srbs h)(sp := f (srbs h sp))\<rparr>"

lemma get_set_req [simp]:
  "get_req i (set_req j q h) = (if i = j then q else get_req i h)"
  "get_rsp i (set_req j q h) = get_rsp i h"
  "get_req i (set_rsp j r h) = get_req i h"
  "get_rsp i (set_rsp j r h) = (if i = j then r else get_rsp i h)"
  "get_req i (upd_sp sp f h) = get_req i h"
  "get_rsp i (upd_sp sp f h) = get_rsp i h"
  by (simp_all add: get_req_def set_req_def get_rsp_def set_rsp_def upd_sp_def)

lemma srbs_upd [simp]:
  "srbs (upd_sp sp f h) sp' = (if sp' = sp then f (srbs h sp) else srbs h sp')"
  "srbs (set_req i q h) = srbs h" "srbs (set_rsp i r h) = srbs h"
  by (simp_all add: upd_sp_def set_req_def set_rsp_def)

record kenv =
  dma_map_sg :: "sg list \<Rightarrow> sg list"
  int_to_scsilun :: "u32 \<Rightarrow> u8 list"
  scsi_populate_tag_msg :: "scsi_cmnd \<Rightarrow> tag_msg option"
  req_q_out :: "u16 \<Rightarrow> u16"

text \<open>\<open>vha->dpc_flags\<close>: the bit numbers the modelled code sets and tests.\<close>

definition ISP_ABORT_NEEDED :: nat where "ISP_ABORT_NEEDED = 2"
definition ABORT_ISP_ACTIVE :: nat where "ABORT_ISP_ACTIVE = 3"
definition REGISTER_FC4_NEEDED :: nat where "REGISTER_FC4_NEEDED = 9"
definition REGISTER_FDMI_NEEDED :: nat where "REGISTER_FDMI_NEEDED = 12"
definition VP_DPC_NEEDED :: nat where "VP_DPC_NEEDED = 14"
definition RELOGIN_NEEDED :: nat where "RELOGIN_NEEDED = 8"
definition FCPORT_UPDATE_NEEDED :: nat where "FCPORT_UPDATE_NEEDED = 13"
definition ISP_ABORT_RETRY :: nat where "ISP_ABORT_RETRY = 10"
definition FCOE_CTX_RESET_NEEDED :: nat where "FCOE_CTX_RESET_NEEDED = 18"

text \<open>Constants that several components read: entry types, port speeds, queue lengths.\<close>

definition ABORT_IOCB_TYPE :: u8 where "ABORT_IOCB_TYPE = 0x33"
definition CT_IOCB_TYPE :: u8 where "CT_IOCB_TYPE = 0x29"
definition ELS_IOCB_TYPE :: u8 where "ELS_IOCB_TYPE = 0x53"
definition LOGINOUT_PORT_IOCB_TYPE :: u8 where "LOGINOUT_PORT_IOCB_TYPE = 0x52"
definition MBX_IOCB_TYPE :: u8 where "MBX_IOCB_TYPE = 0x39"
definition PORT_SPEED_1GB :: u16 where "PORT_SPEED_1GB = 0"
definition PORT_SPEED_UNKNOWN :: u16 where "PORT_SPEED_UNKNOWN = 0xFFFF"
definition REQUEST_ENTRY_CNT_24XX :: u16 where "REQUEST_ENTRY_CNT_24XX = 2048"
definition RESPONSE_ENTRY_CNT_MQ :: u16 where "RESPONSE_ENTRY_CNT_MQ = 128"

lemmas srb_consts =
  SRB_LOGIN_CMD_def SRB_LOGOUT_CMD_def SRB_ELS_CMD_RPT_def SRB_ELS_CMD_HST_def SRB_CT_CMD_def
  SRB_FXIOCB_DCMD_def SRB_FXIOCB_BCMD_def SRB_ABT_CMD_def SRB_ADISC_CMD_def SRB_TM_CMD_def SRB_SCSI_CMD_def
  SRB_BIDI_CMD_def SRB_DMA_VALID_def SRB_CRC_CTX_DMA_VALID_def SRB_CRC_PROT_DMA_VALID_def
  SRB_CRC_CTX_DSD_VALID_def

end
