(* ===== verification/Iocb_Ring.thy ===== *)
theory Iocb_Ring
  imports Qla_Types
begin

text \<open>
  The request ring and the table of outstanding commands (qla_iocb.c, qla_inline.h): how many
  ring entries a command takes, the ring-index step, the head-room computation from the
  firmware's out pointer, and the scan for a free handle. The invariant \<open>ring_inv\<close> bounds the
  driver's free count \<open>cnt\<close> by what the firmware has really consumed.
\<close>

section \<open>Entry counts\<close>

definition qla2x00_calc_iocbs_32 :: "u16 \<Rightarrow> u16" where
  "qla2x00_calc_iocbs_32 dsds =
     (let iocbs = 1
      in if dsds > 3
         then let iocbs = iocbs + (dsds - 3) div 7
              in if (dsds - 3) mod 7 \<noteq> 0 then iocbs + 1 else iocbs
         else iocbs)"

definition qla2x00_calc_iocbs_64 :: "u16 \<Rightarrow> u16" where
  "qla2x00_calc_iocbs_64 dsds =
     (let iocbs = 1
      in if dsds > 2
         then let iocbs = iocbs + (dsds - 2) div 5
              in if (dsds - 2) mod 5 \<noteq> 0 then iocbs + 1 else iocbs
         else iocbs)"

definition qla24xx_calc_iocbs :: "u16 \<Rightarrow> u16" where
  "qla24xx_calc_iocbs dsds =
     (let iocbs = 1
      in if dsds > 1
         then let iocbs = iocbs + (dsds - 1) div 5
              in if (dsds - 1) mod 5 \<noteq> 0 then iocbs + 1 else iocbs
         else iocbs)"

definition QLA_DSDS_PER_IOCB :: u16 where "QLA_DSDS_PER_IOCB = 37"

definition qla24xx_calc_dsd_lists :: "u16 \<Rightarrow> u16" where
  "qla24xx_calc_dsd_lists dsds =
     (let dsd_lists = dsds div QLA_DSDS_PER_IOCB
      in if dsds mod QLA_DSDS_PER_IOCB \<noteq> 0 then dsd_lists + 1 else dsd_lists)"

text \<open>
  The number of continuation entries that \<open>n\<close> segments need when the command entry holds
  \<open>first\<close> of them and a continuation holds \<open>cap\<close>, over the naturals.
\<close>

definition conts :: "nat \<Rightarrow> nat \<Rightarrow> nat \<Rightarrow> nat" where
  "conts first cap n = (n - first + cap - 1) div cap"

lemma div_round_up:
  assumes "0 < (c::nat)"
  shows "(m + c - 1) div c = m div c + (if m mod c = 0 then 0 else 1)"
proof -
  have eq: "m = m div c * c + m mod c" by simp
  show ?thesis
  proof (cases "m mod c = 0")
    case True
    then have "m + c - 1 = (c - 1) + m div c * c" using eq assms by linarith
    then have "(m + c - 1) div c = (c - 1) div c + m div c"
      using assms by (metis add.commute div_mult_self1 less_irrefl)
    with True assms show ?thesis by simp
  next
    case False
    then have "m + c - 1 = (m mod c - 1) + (m div c + 1) * c"
      using eq assms unfolding add_mult_distrib by linarith
    then have "(m + c - 1) div c = (m mod c - 1) div c + (m div c + 1)"
      using assms by (metis add.commute div_mult_self1 less_irrefl)
    moreover have "(m mod c - 1) div c = 0"
      using assms by (simp add: less_imp_diff_less)
    ultimately show ?thesis using False by simp
  qed
qed

lemma round_up_word:
  fixes x d c :: u16
  assumes "d < x" and "1 < c"
  shows "unat (1 + (x - d) div c + (if (x - d) mod c \<noteq> 0 then 1 else 0)) =
    1 + (unat x - unat d + unat c - 1) div unat c"
proof -
  have dx: "unat (x - d) = unat x - unat d"
    using assms(1) by (simp add: unat_sub)
  have c0: "1 < unat c" using assms(2) by (simp add: word_less_nat_alt)
  have q: "unat ((x - d) div c) = (unat x - unat d) div unat c"
    by (simp add: unat_div dx)
  have m: "((x - d) mod c \<noteq> 0) = ((unat x - unat d) mod unat c \<noteq> 0)"
    by (metis dx unat_eq_zero unat_mod)
  have x16: "unat x < 65536" using unsigned_less [of x] by simp
  have half: "(unat x - unat d) div unat c \<le> (unat x - unat d) div 2"
    using c0 by (intro div_le_mono2) auto
  then have small: "unat ((x - d) div c) < 32768" using q x16 by linarith
  have one: "unat (1 + (x - d) div c) = 1 + unat ((x - d) div c)"
    using small by (simp add: unat_word_ariths)
  have two: "unat (1 + (x - d) div c + 1) = 2 + unat ((x - d) div c)"
    using small by (simp add: unat_word_ariths)
  have "0 < unat c" using c0 by simp
  then show ?thesis
    using one two q m div_round_up [of "unat c" "unat x - unat d"] by simp
qed

lemma unat_calc_iocbs_32:
  "unat (qla2x00_calc_iocbs_32 n) = 1 + conts 3 7 (unat n)"
proof (cases "3 < n")
  case True
  with round_up_word [of 3 n 7] show ?thesis
    by (simp add: qla2x00_calc_iocbs_32_def conts_def Let_def split: if_splits)
next
  case False
  then have "unat n \<le> 3" by (simp add: word_less_nat_alt)
  with False show ?thesis by (simp add: qla2x00_calc_iocbs_32_def conts_def)
qed

lemma unat_calc_iocbs_64:
  "unat (qla2x00_calc_iocbs_64 n) = 1 + conts 2 5 (unat n)"
proof (cases "2 < n")
  case True
  with round_up_word [of 2 n 5] show ?thesis
    by (simp add: qla2x00_calc_iocbs_64_def conts_def Let_def split: if_splits)
next
  case False
  then have "unat n \<le> 2" by (simp add: word_less_nat_alt)
  with False show ?thesis by (simp add: qla2x00_calc_iocbs_64_def conts_def)
qed

lemma unat_calc_iocbs_24xx:
  "unat (qla24xx_calc_iocbs n) = 1 + conts 1 5 (unat n)"
proof (cases "1 < n")
  case True
  with round_up_word [of 1 n 5] show ?thesis
    by (simp add: qla24xx_calc_iocbs_def conts_def Let_def split: if_splits)
next
  case False
  then have "unat n \<le> 1" by (simp add: word_less_nat_alt)
  with False show ?thesis by (simp add: qla24xx_calc_iocbs_def conts_def)
qed

section \<open>Stepping the ring and computing head room\<close>

definition ring_advance :: "req_que \<Rightarrow> req_que" where
  "ring_advance q =
     (let q = q\<lparr>ring_index := ring_index q + 1\<rparr>
      in if ring_index q = que_length q then q\<lparr>ring_index := 0, ring_ptr := 0\<rparr>
         else q\<lparr>ring_ptr := ring_ptr q + 1\<rparr>)"

text \<open>The free count as the code recomputes it from the firmware's out index.\<close>

definition ring_free :: "req_que \<Rightarrow> u16 \<Rightarrow> u16" where
  "ring_free q out =
     (if ring_index q < out then out - ring_index q
      else que_length q - (ring_index q - out))"

text \<open>
  The check of the SCSI submission paths: \<open>req_cnt + 2\<close> entries must be free, after one
  refresh of \<open>cnt\<close>. The sum is an \<open>int\<close> in C, so it does not wrap.
\<close>

definition req_room :: "req_que \<Rightarrow> u16 \<Rightarrow> u16 \<Rightarrow> bool \<times> req_que" where
  "req_room q out req_cnt =
     (if unat (cnt q) < unat req_cnt + 2
      then let q = q\<lparr>cnt := ring_free q out\<rparr>
           in (if unat (cnt q) < unat req_cnt + 2 then (False, q) else (True, q))
      else (True, q))"

text \<open>The check of \<open>qla2x00_alloc_iocbs\<close>, which keeps no reserve.\<close>

definition alloc_room :: "req_que \<Rightarrow> u16 \<Rightarrow> u16 \<Rightarrow> bool \<times> req_que" where
  "alloc_room q out req_cnt =
     (let q = (if cnt q < req_cnt then q\<lparr>cnt := ring_free q out\<rparr> else q)
      in if cnt q < req_cnt then (False, q) else (True, q))"

text \<open>
  The ring invariant. \<open>out\<close> is the firmware's out index and \<open>pend\<close> the number of entries it
  has not consumed yet; the driver sees \<open>out\<close> only, and never \<open>pend\<close>.
\<close>

definition ring_wf :: "req_que \<Rightarrow> bool" where
  "ring_wf q \<longleftrightarrow> ring_index q < que_length q \<and> ring_ptr q = unat (ring_index q)
     \<and> 16 * unat (que_length q) \<le> length (ring q)"

definition ring_inv :: "req_que \<Rightarrow> u16 \<Rightarrow> nat \<Rightarrow> bool" where
  "ring_inv q out pend \<longleftrightarrow> ring_wf q \<and> out < que_length q
     \<and> (unat out + pend) mod unat (que_length q) = ring_ptr q
     \<and> pend + unat (cnt q) \<le> unat (que_length q) \<and> pend < unat (que_length q)"

lemma ring_advance_fields [simp]:
  "ring (ring_advance q) = ring q" "cnt (ring_advance q) = cnt q"
  "que_length (ring_advance q) = que_length q" "que_id (ring_advance q) = que_id q"
  "outstanding_cmds (ring_advance q) = outstanding_cmds q"
  "current_outstanding_cmd (ring_advance q) = current_outstanding_cmd q"
  "num_outstanding_cmds (ring_advance q) = num_outstanding_cmds q"
  "req_q_in (ring_advance q) = req_q_in q"
  by (simp_all add: ring_advance_def Let_def)

lemma Suc_mod_ring:
  "i < n \<Longrightarrow> Suc i mod n = (if Suc i = n then 0 else Suc i)"
  by auto

lemma unat_Suc_ring:
  assumes "i < (n :: u16)"
  shows "unat (i + 1) = Suc (unat i)"
proof -
  have "unat i < unat n" using assms by (simp add: word_less_nat_alt)
  moreover have "unat n < 65536" using unsigned_less [of n] by simp
  ultimately show ?thesis by (simp add: unat_word_ariths)
qed

lemma ring_advance_ptr:
  assumes "ring_wf q"
  shows "ring_wf (ring_advance q)"
    and "ring_ptr (ring_advance q) = Suc (ring_ptr q) mod unat (que_length q)"
proof -
  have lt: "ring_index q < que_length q" and eq: "ring_ptr q = unat (ring_index q)"
    using assms by (auto simp: ring_wf_def)
  have u: "unat (ring_index q + 1) = Suc (unat (ring_index q))"
    using lt by (rule unat_Suc_ring)
  have ltn: "unat (ring_index q) < unat (que_length q)"
    using lt by (simp add: word_less_nat_alt)
  have wrap: "ring_index q + 1 = que_length q \<longleftrightarrow> Suc (unat (ring_index q)) = unat (que_length q)"
    using u by (metis word_unat_eq_iff)
  show "ring_ptr (ring_advance q) = Suc (ring_ptr q) mod unat (que_length q)"
    using wrap eq ltn by (simp add: ring_advance_def Let_def Suc_mod_ring)
  show "ring_wf (ring_advance q)"
    using assms wrap u ltn
    by (auto simp: ring_advance_def Let_def ring_wf_def word_less_nat_alt)
qed

lemma ring_advance_pow:
  assumes "ring_wf q"
  shows "ring_wf ((ring_advance ^^ k) q)"
    and "ring_ptr ((ring_advance ^^ k) q) = (ring_ptr q + k) mod unat (que_length q)"
    and "que_length ((ring_advance ^^ k) q) = que_length q"
proof -
  have "ring_wf ((ring_advance ^^ k) q)
      \<and> ring_ptr ((ring_advance ^^ k) q) = (ring_ptr q + k) mod unat (que_length q)
      \<and> que_length ((ring_advance ^^ k) q) = que_length q"
  proof (induction k)
    case 0
    have "ring_ptr q < unat (que_length q)"
      using assms by (simp add: ring_wf_def word_less_nat_alt)
    with assms show ?case by simp
  next
    case (Suc k)
    then show ?case by (simp add: ring_advance_ptr mod_Suc_eq)
  qed
  then show "ring_wf ((ring_advance ^^ k) q)"
    and "ring_ptr ((ring_advance ^^ k) q) = (ring_ptr q + k) mod unat (que_length q)"
    and "que_length ((ring_advance ^^ k) q) = que_length q" by auto
qed

text \<open>The refreshed count is exactly the number of entries that are not pending.\<close>

lemma ring_free_pend:
  assumes "ring_inv q out pend"
  shows "unat (ring_free q out) = unat (que_length q) - pend"
proof -
  let ?L = "unat (que_length q)" and ?i = "unat (ring_index q)" and ?o = "unat out"
  from assms have i: "?i < ?L" and o: "?o < ?L" and p: "pend < ?L" and m: "(?o + pend) mod ?L = ?i"
    by (auto simp: ring_inv_def ring_wf_def word_less_nat_alt)
  have le: "ring_index q < out \<longleftrightarrow> ?i < ?o" by (simp add: word_less_nat_alt)
  show ?thesis
  proof (cases "?o + pend < ?L")
    case True
    then have "?i = ?o + pend" using m by simp
    moreover have "unat (ring_index q - out) = ?i - ?o"
      using \<open>?i = ?o + pend\<close> by (simp add: unat_sub word_le_nat_alt)
    moreover have "unat (que_length q - (ring_index q - out)) = ?L - (?i - ?o)"
      using calculation i by (subst unat_sub) (auto simp: word_le_nat_alt)
    ultimately show ?thesis using le by (simp add: ring_free_def)
  next
    case False
    moreover from this p o have "?o + pend - ?L < ?L" by linarith
    ultimately have "?i = ?o + pend - ?L" using m by (simp add: le_mod_geq)
    then have "?i < ?o" using p False by linarith
    then have "unat (out - ring_index q) = ?o - ?i"
      by (simp add: unat_sub word_le_nat_alt)
    then show ?thesis using le \<open>?i < ?o\<close> \<open>?i = ?o + pend - ?L\<close> False
      by (simp add: ring_free_def)
  qed
qed

text \<open>The entries a command of \<open>n\<close> entries starting at slot \<open>s\<close> occupies.\<close>

definition cmd_slots :: "nat \<Rightarrow> nat \<Rightarrow> nat \<Rightarrow> nat set" where
  "cmd_slots L s n = (\<lambda>j. (s + j) mod L) ` {..<n}"

lemma cmd_slots_disjoint:
  assumes "a + b \<le> L"
  shows "cmd_slots L s a \<inter> cmd_slots L (s + a) b = {}"
proof -
  have "(s + i) mod L \<noteq> (s + a + j) mod L" if "i < a" "j < b" for i j
  proof
    assume "(s + i) mod L = (s + a + j) mod L"
    then have "(s + a + j) mod L = (s + i) mod L" by simp
    then have "L dvd (s + a + j) - (s + i)" using that by (subst (asm) mod_eq_dvd_iff_nat) auto
    moreover have "(s + a + j) - (s + i) < L" "0 < (s + a + j) - (s + i)" using that assms by auto
    ultimately show False by (auto dest: dvd_imp_le)
  qed
  then show ?thesis by (auto simp: cmd_slots_def)
qed

lemma cmd_slots_mod [simp]: "cmd_slots L (s mod L) n = cmd_slots L s n"
  by (auto simp: cmd_slots_def mod_add_left_eq)

section \<open>The contract of a head-room check\<close>

text \<open>
  A head-room check may refresh \<open>cnt\<close> and nothing else; when it grants \<open>n\<close> entries, \<open>gap\<close> more
  are free, and when it refuses, they really are not. The clients are the submission paths:
  the entries they write are not pending, and, with a positive gap, the ring never becomes
  full, so that the firmware can tell it from an empty one.
\<close>

locale ring_reserve =
  fixes room :: "req_que \<Rightarrow> u16 \<Rightarrow> u16 \<Rightarrow> bool \<times> req_que"
    and gap :: nat
  assumes room_frame: "room q out n = (b, q') \<Longrightarrow> q' = q\<lparr>cnt := cnt q'\<rparr>"
    and room_inv: "ring_inv q out pend \<Longrightarrow> room q out n = (b, q') \<Longrightarrow> ring_inv q' out pend"
    and room_enough: "room q out n = (True, q') \<Longrightarrow> unat n + gap \<le> unat (cnt q')"
    and room_refused: "ring_inv q out pend \<Longrightarrow> room q out n = (False, q') \<Longrightarrow>
          unat (que_length q) < pend + unat n + gap"
begin

lemma room_same:
  assumes "room q out n = (b, q')"
  shows "ring q' = ring q" "ring_ptr q' = ring_ptr q" "que_length q' = que_length q"
    "que_id q' = que_id q" "outstanding_cmds q' = outstanding_cmds q"
    "current_outstanding_cmd q' = current_outstanding_cmd q"
    "num_outstanding_cmds q' = num_outstanding_cmds q" "ring_index q' = ring_index q"
    "req_q_in q' = req_q_in q"
  by (subst room_frame [OF assms], simp)+

lemma granted:
  assumes "ring_inv q out pend" and "room q out n = (True, q')"
  shows "pend + unat n + gap \<le> unat (que_length q)"
  using room_inv [OF assms] room_enough [OF assms(2)] room_same(3) [OF assms(2)]
  by (auto simp: ring_inv_def)

lemma granted_free:
  assumes "ring_inv q out pend" and "room q out n = (True, q')"
  shows "cmd_slots (unat (que_length q)) (ring_ptr q) (unat n)
    \<inter> cmd_slots (unat (que_length q)) (unat out) pend = {}"
proof -
  have "pend + unat n \<le> unat (que_length q)" using granted [OF assms] by simp
  moreover have "(unat out + pend) mod unat (que_length q) = ring_ptr q"
    using assms(1) by (simp add: ring_inv_def)
  ultimately show ?thesis
    using cmd_slots_disjoint [of pend "unat n" _ "unat out"] by (metis cmd_slots_mod inf_commute)
qed

lemma taken:
  assumes "ring_inv q out pend" and "room q out n = (True, q')"
    and "ring_wf p" "que_length p = que_length q" "cnt p = cnt q' - n"
    and "ring_ptr p = (ring_ptr q + unat n) mod unat (que_length q)"
  shows "pend + unat n + unat (cnt p) \<le> unat (que_length p)"
    and "(unat out + (pend + unat n)) mod unat (que_length p) = ring_ptr p"
proof -
  have "n \<le> cnt q'" using room_enough [OF assms(2)] by (simp add: word_le_nat_alt)
  then have "unat (cnt p) = unat (cnt q') - unat n" by (simp add: assms(5) unat_sub)
  then show "pend + unat n + unat (cnt p) \<le> unat (que_length p)"
    using room_inv [OF assms(1,2)] room_enough [OF assms(2)] room_same(3) [OF assms(2)] assms(4)
    by (auto simp: ring_inv_def)
  have "(unat out + pend) mod unat (que_length q) = ring_ptr q"
    using assms(1) by (simp add: ring_inv_def)
  then have "(unat out + pend + unat n) mod unat (que_length q)
      = (ring_ptr q + unat n) mod unat (que_length q)"
    using mod_add_left_eq by metis
  then show "(unat out + (pend + unat n)) mod unat (que_length p) = ring_ptr p"
    using assms by (simp add: add.assoc)
qed

end

locale ring_reserve_gap = ring_reserve +
  assumes gap_pos: "0 < gap"
begin

lemma taken_inv:
  assumes "ring_inv q out pend" and "room q out n = (True, q')"
    and "ring_wf p" "que_length p = que_length q" "cnt p = cnt q' - n"
    and "ring_ptr p = (ring_ptr q + unat n) mod unat (que_length q)"
  shows "ring_inv p out (pend + unat n)"
  using taken [OF assms] granted [OF assms(1,2)] gap_pos assms
  by (auto simp: ring_inv_def)

end

lemma ring_inv_refresh:
  assumes "ring_inv q out pend"
  shows "ring_inv (q\<lparr>cnt := ring_free q out\<rparr>) out pend"
  using assms ring_free_pend [OF assms] by (auto simp: ring_inv_def ring_wf_def)

interpretation req_room: ring_reserve_gap req_room 2
proof (unfold_locales, goal_cases)
  case (4 q out pend n q')
  then show ?case using ring_free_pend [of q out pend]
    by (auto simp: req_room_def Let_def split: if_splits)
qed (auto simp: req_room_def Let_def intro: ring_inv_refresh split: if_splits)

interpretation alloc_room: ring_reserve alloc_room 0
proof (unfold_locales, goal_cases)
  case (4 q out pend n q')
  then show ?case using ring_free_pend [of q out pend]
    by (auto simp: alloc_room_def Let_def word_less_nat_alt split: if_splits)
qed (auto simp: alloc_room_def Let_def word_le_nat_alt not_less intro: ring_inv_refresh split: if_splits)

end
