(* ===== verification/Iocb_Build.thy ===== *)
theory Iocb_Build
  imports Iocb_Ring
begin

text \<open>
  Loading the data segments of a command into its queue entries (qla_iocb.c): the
  continuation entries and the builders of command types 2, 3 and 7. The firmware's reading
  of the entries is \<open>seg_word\<close>, the word at which the \<open>k\<close>-th segment descriptor must be; the
  central lemma \<open>load_segs_spec\<close> says that the builders put every descriptor there, advance
  the ring by the entries \<open>calc_iocbs\<close> counted, and write nothing else.
\<close>

section \<open>Entry types\<close>

definition COMMAND_TYPE :: u32 where "COMMAND_TYPE = 0x11"
definition COMMAND_A64_TYPE :: u32 where "COMMAND_A64_TYPE = 0x19"
definition COMMAND_TYPE_7 :: u32 where "COMMAND_TYPE_7 = 0x18"
definition CONTINUE_TYPE :: u32 where "CONTINUE_TYPE = 0x02"
definition CONTINUE_A64_TYPE :: u32 where "CONTINUE_A64_TYPE = 0x0A"
definition CONTINUE_A64_TYPE_FX00 :: u32 where "CONTINUE_A64_TYPE_FX00 = 0x03"

definition CF_WRITE :: u16 where "CF_WRITE = BIT 6"
definition CF_READ :: u16 where "CF_READ = BIT 5"
definition TMF_READ_DATA :: u16 where "TMF_READ_DATA = BIT 1"
definition TMF_WRITE_DATA :: u16 where "TMF_WRITE_DATA = BIT 0"

text \<open>Byte offsets of the fields of \<open>cmd_entry_t\<close> (types 2 and 3) and \<open>struct cmd_type_7\<close>.\<close>

abbreviation (input) "ENTRY_TYPE_OFF \<equiv> 0 :: nat"
abbreviation (input) "ENTRY_COUNT_OFF \<equiv> 1 :: nat"
abbreviation (input) "ENTRY_STATUS_OFF \<equiv> 3 :: nat"
abbreviation (input) "HANDLE_OFF \<equiv> 4 :: nat"
abbreviation (input) "CMD_TARGET_OFF \<equiv> 8 :: nat"
abbreviation (input) "CMD_LUN_OFF \<equiv> 10 :: nat"
abbreviation (input) "CMD_CONTROL_FLAGS_OFF \<equiv> 12 :: nat"
abbreviation (input) "CMD_DSEG_COUNT_OFF \<equiv> 18 :: nat"
abbreviation (input) "CMD_CDB_WORD \<equiv> 5 :: nat"
abbreviation (input) "CMD_BYTE_COUNT_OFF \<equiv> 36 :: nat"
abbreviation (input) "CMD_DSEG_0_WORD \<equiv> 10 :: nat"
abbreviation (input) "CT7_NPORT_HANDLE_OFF \<equiv> 8 :: nat"
abbreviation (input) "CT7_DSEG_COUNT_OFF \<equiv> 12 :: nat"
abbreviation (input) "CT7_LUN_WORD \<equiv> 4 :: nat"
abbreviation (input) "CT7_TASK_MGMT_FLAGS_OFF \<equiv> 24 :: nat"
abbreviation (input) "CT7_TASK_OFF \<equiv> 26 :: nat"
abbreviation (input) "CT7_CDB_WORD \<equiv> 7 :: nat"
abbreviation (input) "CT7_BYTE_COUNT_OFF \<equiv> 44 :: nat"
abbreviation (input) "CT7_PORT_ID_OFF \<equiv> 48 :: nat"
abbreviation (input) "CT7_VP_INDEX_OFF \<equiv> 51 :: nat"
abbreviation (input) "CT7_DSEG_0_WORD \<equiv> 13 :: nat"

section \<open>Continuation entries\<close>

definition qla2x00_prep_cont_type0_iocb :: "req_que \<Rightarrow> req_que" where
  "qla2x00_prep_cont_type0_iocb q =
     (let q = ring_advance q
      in q\<lparr>ring := put32 (ring_ptr q) ENTRY_TYPE_OFF CONTINUE_TYPE (ring q)\<rparr>)"

definition qla2x00_prep_cont_type1_iocb :: "u32 \<Rightarrow> req_que \<Rightarrow> req_que" where
  "qla2x00_prep_cont_type1_iocb dt q =
     (let q = ring_advance q
      in q\<lparr>ring := put32 (ring_ptr q) ENTRY_TYPE_OFF
             (if IS_QLAFX00 dt then CONTINUE_A64_TYPE_FX00 else CONTINUE_A64_TYPE) (ring q)\<rparr>)"

text \<open>One descriptor: \<open>*cur_dsd++ = ...\<close> two or three times.\<close>

definition dsd32 :: "sg \<Rightarrow> u32 list" where
  "dsd32 sg = [ucast (fst sg), snd sg]"

definition dsd64 :: "sg \<Rightarrow> u32 list" where
  "dsd64 sg = [LSD (fst sg), MSD (fst sg), snd sg]"

text \<open>
  The loop over the mapped segments. \<open>avail\<close> is \<open>avail_dsds\<close>, \<open>cur\<close> is \<open>cur_dsd\<close> as a word
  index of the ring; a new continuation entry starts its descriptors at word \<open>off\<close> and
  holds \<open>cap\<close> of them.
\<close>

fun load_segs :: "(req_que \<Rightarrow> req_que) \<Rightarrow> nat \<Rightarrow> nat \<Rightarrow> (sg \<Rightarrow> u32 list) \<Rightarrow> sg list \<Rightarrow> nat \<Rightarrow> nat
    \<Rightarrow> req_que \<Rightarrow> req_que" where
  "load_segs prep off cap dsd [] avail cur q = q"
| "load_segs prep off cap dsd (sg # sgs) avail cur q =
     (let (q, cur, avail) =
            (if avail = 0 then let q = prep q in (q, 16 * ring_ptr q + off, cap)
             else (q, cur, avail));
          q = q\<lparr>ring := put_words cur (dsd sg) (ring q)\<rparr>
      in load_segs prep off cap dsd sgs (avail - 1) (cur + length (dsd sg)) q)"

section \<open>The builders\<close>

definition qla2x00_get_cmd_direction :: "scsi_cmnd \<Rightarrow> qla_statistics \<Rightarrow> u16 \<times> qla_statistics" where
  "qla2x00_get_cmd_direction c st =
     (case sc_data_direction c of
        DMA_TO_DEVICE \<Rightarrow>
          (CF_WRITE, st\<lparr>output_bytes := output_bytes st + ucast (scsi_bufflen c),
                       output_requests := output_requests st + 1\<rparr>)
      | DMA_FROM_DEVICE \<Rightarrow>
          (CF_READ, st\<lparr>input_bytes := input_bytes st + ucast (scsi_bufflen c),
                      input_requests := input_requests st + 1\<rparr>)
      | _ \<Rightarrow> (0, st))"

definition qla2x00_build_scsi_iocbs_32 ::
    "scsi_cmnd \<Rightarrow> sg list \<Rightarrow> req_que \<Rightarrow> qla_statistics \<Rightarrow> req_que \<times> qla_statistics" where
  "qla2x00_build_scsi_iocbs_32 c segs q st =
     (let s = ring_ptr q;
          q = q\<lparr>ring := put32 s ENTRY_TYPE_OFF COMMAND_TYPE (ring q)\<rparr>
      in if scsi_bufflen c = 0 \<or> sc_data_direction c = DMA_NONE
         then (q\<lparr>ring := put32 s CMD_BYTE_COUNT_OFF 0 (ring q)\<rparr>, st)
         else let (cflags, st) = qla2x00_get_cmd_direction c st;
                  q = q\<lparr>ring := put16 s CMD_CONTROL_FLAGS_OFF
                         (get16 s CMD_CONTROL_FLAGS_OFF (ring q) OR cflags) (ring q)\<rparr>
              in (load_segs qla2x00_prep_cont_type0_iocb 2 7 dsd32 segs 3
                    (16 * s + CMD_DSEG_0_WORD) q, st))"

definition qla2x00_build_scsi_iocbs_64 ::
    "u32 \<Rightarrow> scsi_cmnd \<Rightarrow> sg list \<Rightarrow> req_que \<Rightarrow> qla_statistics \<Rightarrow> req_que \<times> qla_statistics" where
  "qla2x00_build_scsi_iocbs_64 dt c segs q st =
     (let s = ring_ptr q;
          q = q\<lparr>ring := put32 s ENTRY_TYPE_OFF COMMAND_A64_TYPE (ring q)\<rparr>
      in if scsi_bufflen c = 0 \<or> sc_data_direction c = DMA_NONE
         then (q\<lparr>ring := put32 s CMD_BYTE_COUNT_OFF 0 (ring q)\<rparr>, st)
         else let (cflags, st) = qla2x00_get_cmd_direction c st;
                  q = q\<lparr>ring := put16 s CMD_CONTROL_FLAGS_OFF
                         (get16 s CMD_CONTROL_FLAGS_OFF (ring q) OR cflags) (ring q)\<rparr>
              in (load_segs (qla2x00_prep_cont_type1_iocb dt) 1 5 dsd64 segs 2
                    (16 * s + CMD_DSEG_0_WORD) q, st))"

definition qla24xx_build_scsi_iocbs ::
    "u32 \<Rightarrow> scsi_cmnd \<Rightarrow> sg list \<Rightarrow> req_que \<Rightarrow> qla_statistics \<Rightarrow> req_que \<times> qla_statistics" where
  "qla24xx_build_scsi_iocbs dt c segs q st =
     (let s = ring_ptr q;
          q = q\<lparr>ring := put32 s ENTRY_TYPE_OFF COMMAND_TYPE_7 (ring q)\<rparr>
      in if scsi_bufflen c = 0 \<or> sc_data_direction c = DMA_NONE
         then (q\<lparr>ring := put32 s CT7_BYTE_COUNT_OFF 0 (ring q)\<rparr>, st)
         else let (q, st) =
                (case sc_data_direction c of
                   DMA_TO_DEVICE \<Rightarrow>
                     (q\<lparr>ring := put16 s CT7_TASK_MGMT_FLAGS_OFF TMF_WRITE_DATA (ring q)\<rparr>,
                      st\<lparr>output_bytes := output_bytes st + ucast (scsi_bufflen c),
                         output_requests := output_requests st + 1\<rparr>)
                 | DMA_FROM_DEVICE \<Rightarrow>
                     (q\<lparr>ring := put16 s CT7_TASK_MGMT_FLAGS_OFF TMF_READ_DATA (ring q)\<rparr>,
                      st\<lparr>input_bytes := input_bytes st + ucast (scsi_bufflen c),
                         input_requests := input_requests st + 1\<rparr>)
                 | _ \<Rightarrow> (q, st))
              in (load_segs (qla2x00_prep_cont_type1_iocb dt) 1 5 dsd64 segs 1
                    (16 * s + CT7_DSEG_0_WORD) q, st))"

section \<open>Where the firmware looks for a descriptor\<close>

text \<open>
  \<open>seg_word L s w first cap k\<close> is the first word of the \<open>k\<close>-th descriptor of a command whose
  entry is slot \<open>s\<close> of a ring of \<open>L\<close>: descriptors have \<open>w\<close> words and end at the end of their
  entry; the command entry holds \<open>first\<close> of them, each continuation \<open>cap\<close>.
\<close>

definition seg_word :: "nat \<Rightarrow> nat \<Rightarrow> nat \<Rightarrow> nat \<Rightarrow> nat \<Rightarrow> nat \<Rightarrow> nat" where
  "seg_word L s w first cap k =
     (if k < first then 16 * s + 16 - w * first + w * k
      else 16 * ((s + 1 + (k - first) div cap) mod L) + 16 - w * cap + w * ((k - first) mod cap))"

text \<open>The firmware's view of the descriptors, as 64-bit and as 32-bit segments.\<close>

definition fw_segs64 :: "nat \<Rightarrow> nat \<Rightarrow> nat \<Rightarrow> nat \<Rightarrow> nat \<Rightarrow> u32 list \<Rightarrow> sg list" where
  "fw_segs64 L s first cap n m =
     map (\<lambda>k. let p = seg_word L s 3 first cap k in (join64 (m ! p) (m ! (p + 1)), m ! (p + 2)))
       [0..<n]"

definition fw_segs32 :: "nat \<Rightarrow> nat \<Rightarrow> nat \<Rightarrow> nat \<Rightarrow> nat \<Rightarrow> u32 list \<Rightarrow> sg list" where
  "fw_segs32 L s first cap n m =
     map (\<lambda>k. let p = seg_word L s 2 first cap k in (ucast (m ! p), m ! (p + 1))) [0..<n]"

text \<open>Both continuation routines step the ring and write one word of the new entry.\<close>

definition cont_prep :: "u32 \<Rightarrow> req_que \<Rightarrow> req_que" where
  "cont_prep v q =
     (let q = ring_advance q in q\<lparr>ring := (ring q)[16 * ring_ptr q := v]\<rparr>)"

lemma prep_type0_eq: "qla2x00_prep_cont_type0_iocb = cont_prep CONTINUE_TYPE"
  by (rule ext) (simp add: qla2x00_prep_cont_type0_iocb_def cont_prep_def put32_def Let_def)

lemma prep_type1_eq:
  "qla2x00_prep_cont_type1_iocb dt =
     cont_prep (if IS_QLAFX00 dt then CONTINUE_A64_TYPE_FX00 else CONTINUE_A64_TYPE)"
  by (rule ext) (simp add: qla2x00_prep_cont_type1_iocb_def cont_prep_def put32_def Let_def)

text \<open>The words a load may write: the rest of the command entry and the continuations.\<close>

definition seg_region :: "nat \<Rightarrow> nat \<Rightarrow> nat \<Rightarrow> nat \<Rightarrow> nat \<Rightarrow> nat set" where
  "seg_region L s w avail n =
     {i. 16 * s + 16 - w * avail \<le> i \<and> i < 16 * s + 16
         \<or> (\<exists>j < n. i div 16 = (s + 1 + j) mod L)}"

definition segs_loaded ::
    "u32 \<Rightarrow> nat \<Rightarrow> nat \<Rightarrow> (sg \<Rightarrow> u32 list) \<Rightarrow> nat \<Rightarrow> sg list \<Rightarrow> req_que \<Rightarrow> req_que \<Rightarrow> bool" where
  "segs_loaded v w cap dsd avail sgs q q' \<longleftrightarrow>
     (let L = unat (que_length q); s = ring_ptr q; n = conts avail cap (length sgs)
      in q' = ((ring_advance ^^ n) q)\<lparr>ring := ring q'\<rparr> \<and> length (ring q') = length (ring q)
       \<and> (\<forall>k < length sgs. \<forall>i < w. ring q' ! (seg_word L s w avail cap k + i) = dsd (sgs ! k) ! i)
       \<and> (\<forall>i. i \<notin> seg_region L s w avail n \<longrightarrow> ring q' ! i = ring q ! i)
       \<and> (\<forall>j < n. ring q' ! (16 * ((s + 1 + j) mod L)) = v))"

lemma conts_Suc:
  "0 < avail \<Longrightarrow> conts avail cap (Suc m) = conts (avail - 1) cap m"
  by (simp add: conts_def)

lemma conts_0_Suc:
  assumes "0 < cap"
  shows "conts 0 cap (Suc m) = Suc (conts cap cap (Suc m))"
proof (cases "Suc m \<le> cap")
  case True
  have "(m + cap) div cap = 1"
    using True by (simp add: div_add_self2 assms)
  with True assms show ?thesis by (simp add: conts_def)
next
  case False
  then have "Suc m + cap - 1 = (Suc m - cap + cap - 1) + cap" using assms by linarith
  then have "(Suc m + cap - 1) div cap = Suc ((Suc m - cap + cap - 1) div cap)"
    using assms by (metis div_add_self2 less_irrefl Suc_eq_plus1 add.commute)
  then show ?thesis by (simp add: conts_def)
qed

lemma seg_word_Suc:
  assumes "0 < avail" and "w * avail \<le> 16"
  shows "seg_word L s w avail cap (Suc k) = seg_word L s w (avail - 1) cap k"
proof (cases "Suc k < avail")
  case True
  obtain a where a: "avail = Suc a" using assms(1) by (cases avail) auto
  with True assms show ?thesis by (simp add: seg_word_def)
next
  case False
  with assms show ?thesis by (simp add: seg_word_def)
qed

lemma seg_word_0:
  assumes "0 < cap" and "s < L"
  shows "seg_word L s w 0 cap k = seg_word L (Suc s mod L) w cap cap k"
proof (cases "k < cap")
  case True
  then show ?thesis by (simp add: seg_word_def)
next
  case False
  then have "k div cap = Suc ((k - cap) div cap)" "k mod cap = (k - cap) mod cap"
    using assms(1) by (simp_all add: le_div_geq le_mod_geq)
  moreover have "(Suc s mod L + Suc ((k - cap) div cap)) mod L
      = (Suc s + Suc ((k - cap) div cap)) mod L" by (rule mod_add_left_eq)
  ultimately show ?thesis using False by (simp add: seg_word_def)
qed

lemma ring_advance_pow_ring:
  "(ring_advance ^^ m) (q\<lparr>ring := r\<rparr>) = ((ring_advance ^^ m) q)\<lparr>ring := r\<rparr>"
  by (induction m) (simp_all add: ring_advance_def Let_def)

text \<open>The two cases of the loop body, as facts about \<open>segs_loaded\<close>.\<close>

lemma segs_loaded_Cons:
  assumes wf: "ring_wf q" and a: "0 < avail" "w * avail \<le> 16" and len: "length (dsd sg) = w"
    and fit: "conts avail cap (Suc (length sgs)) < unat (que_length q)"
    and q1: "q1 = q\<lparr>ring := put_words (16 * ring_ptr q + 16 - w * avail) (dsd sg) (ring q)\<rparr>"
    and IH: "segs_loaded v w cap dsd (avail - 1) sgs q1 q'"
  shows "segs_loaded v w cap dsd avail (sg # sgs) q q'"
proof -
  let ?L = "unat (que_length q)" and ?s = "ring_ptr q"
  let ?n = "conts (avail - 1) cap (length sgs)" and ?cur = "16 * ring_ptr q + 16 - w * avail"
  obtain b where b: "avail = Suc b" using a by (cases avail) auto
  have s: "?s < ?L" "16 * ?L \<le> length (ring q)"
    using wf by (auto simp: ring_wf_def word_less_nat_alt)
  have n: "conts avail cap (length (sg # sgs)) = ?n" using a by (simp add: conts_Suc)
  have n_lt: "?n < ?L" using fit a by (simp add: conts_Suc)
  have cur: "?cur + w = 16 * ?s + 16 - w * (avail - 1)" using a(2) unfolding b by simp
  have own: "?cur + i \<notin> seg_region ?L ?s w (avail - 1) ?n" if "i < w" for i
  proof -
    have "w \<le> w * avail" using b by simp
    then have "?cur + i < 16 * ?s + 16" "16 * ?s \<le> ?cur + i" using a(2) that by linarith+
    then have d: "(?cur + i) div 16 = ?s" by simp
    have "?s \<noteq> (?s + 1 + j) mod ?L" if "j < ?n" for j
    proof
      assume "?s = (?s + 1 + j) mod ?L"
      then have "(?s + 1 + j) mod ?L = ?s mod ?L" using s by simp
      then have "?L dvd (?s + 1 + j) - ?s" by (simp add: mod_eq_dvd_iff_nat)
      then show False using that n_lt by (auto dest: dvd_imp_le)
    qed
    moreover have "\<not> 16 * ?s + 16 - w * (avail - 1) \<le> ?cur + i" using cur that by linarith
    ultimately show ?thesis using d by (simp add: seg_region_def)
  qed
  have f1: "ring_ptr q1 = ?s" "que_length q1 = que_length q" "length (ring q1) = length (ring q)"
    by (simp_all add: q1)
  have IHs: "q' = ((ring_advance ^^ ?n) q1)\<lparr>ring := ring q'\<rparr>" "length (ring q') = length (ring q)"
    "\<And>k i. k < length sgs \<Longrightarrow> i < w \<Longrightarrow>
       ring q' ! (seg_word ?L ?s w (avail - 1) cap k + i) = dsd (sgs ! k) ! i"
    "\<And>i. i \<notin> seg_region ?L ?s w (avail - 1) ?n \<Longrightarrow> ring q' ! i = ring q1 ! i"
    "\<And>j. j < ?n \<Longrightarrow> ring q' ! (16 * ((?s + 1 + j) mod ?L)) = v"
    using IH unfolding segs_loaded_def Let_def f1 by auto
  have le: "w \<le> w * avail" using b by simp
  have inrange: "?cur + i < length (ring q)" if "i < w" for i
  proof -
    have "?cur + i < 16 * ?s + 16" using a(2) le that by linarith
    moreover have "16 * ?s + 16 \<le> 16 * ?L" using s(1) by simp
    ultimately show ?thesis using s(2) by linarith
  qed
  have words: "ring q' ! (seg_word ?L ?s w avail cap k + i) = dsd ((sg # sgs) ! k) ! i"
    if "k < length (sg # sgs)" "i < w" for k i
  proof (cases k)
    case 0
    have "ring q' ! (?cur + i) = ring q1 ! (?cur + i)" by (rule IHs(4)) (rule own [OF that(2)])
    also have "... = dsd sg ! i" using inrange [OF that(2)] that(2)
      by (simp add: q1 put_words_nth len)
    finally show ?thesis using 0 a by (simp add: seg_word_def)
  next
    case (Suc k')
    then show ?thesis using that a IHs(3) [of k' i] by (simp add: seg_word_Suc)
  qed
  have frame: "ring q' ! i = ring q ! i" if "i \<notin> seg_region ?L ?s w avail ?n" for i
  proof -
    have "i \<notin> seg_region ?L ?s w (avail - 1) ?n" and out: "\<not> (?cur \<le> i \<and> i < ?cur + w)"
      using that cur le a(2) by (auto simp: seg_region_def)
    then have "ring q' ! i = ring q1 ! i" by (simp add: IHs(4))
    with out show ?thesis by (auto simp: q1 put_words_nth len)
  qed
  show ?thesis unfolding segs_loaded_def Let_def n
    using IHs(1,2,5) words frame by (simp add: q1 ring_advance_pow_ring)
qed

lemma segs_loaded_cont:
  assumes wf: "ring_wf q" and c: "0 < cap" "w * cap \<le> 15"
    and fit: "conts 0 cap (length (sg # sgs)) < unat (que_length q)"
    and IH: "segs_loaded v w cap dsd cap (sg # sgs) (cont_prep v q) q'"
  shows "segs_loaded v w cap dsd 0 (sg # sgs) q q'"
proof -
  let ?L = "unat (que_length q)" and ?s = "ring_ptr q" and ?q1 = "cont_prep v q"
  let ?n = "conts cap cap (length (sg # sgs))" and ?s1 = "Suc (ring_ptr q) mod unat (que_length q)"
  have s: "?s < ?L" "16 * ?L \<le> length (ring q)"
    using wf by (auto simp: ring_wf_def word_less_nat_alt)
  have n: "conts 0 cap (length (sg # sgs)) = Suc ?n"
    using conts_0_Suc [OF c(1), of "length sgs"] by simp
  have q1: "?q1 = (ring_advance q)\<lparr>ring := (ring q)[16 * ?s1 := v]\<rparr>"
    using wf by (simp add: cont_prep_def Let_def ring_advance_ptr)
  have f1: "ring_ptr ?q1 = ?s1" "que_length ?q1 = que_length q"
    "ring ?q1 = (ring q)[16 * ?s1 := v]"
    using wf by (simp_all add: q1 ring_advance_ptr)
  have mod1: "(?s1 + 1 + j) mod ?L = (?s + 1 + Suc j) mod ?L" for j
    using mod_add_left_eq [of "Suc ?s" ?L "Suc j"] by simp
  have IHs: "q' = ((ring_advance ^^ ?n) ?q1)\<lparr>ring := ring q'\<rparr>" "length (ring q') = length (ring q)"
    "\<And>k i. k < length (sg # sgs) \<Longrightarrow> i < w \<Longrightarrow>
       ring q' ! (seg_word ?L ?s1 w cap cap k + i) = dsd ((sg # sgs) ! k) ! i"
    "\<And>i. i \<notin> seg_region ?L ?s1 w cap ?n \<Longrightarrow> ring q' ! i = ring ?q1 ! i"
    "\<And>j. j < ?n \<Longrightarrow> ring q' ! (16 * ((?s + 1 + Suc j) mod ?L)) = v"
    using IH unfolding segs_loaded_def Let_def f1 mod1 by auto
  have s1: "?s1 < ?L" using s by simp
  have hdr: "16 * ?s1 \<notin> seg_region ?L ?s1 w cap ?n"
  proof -
    have "?s1 \<noteq> (?s1 + 1 + j) mod ?L" if "j < ?n" for j
    proof
      assume "?s1 = (?s1 + 1 + j) mod ?L"
      then have "(?s1 + 1 + j) mod ?L = ?s1 mod ?L" using s1 by simp
      then have "?L dvd (?s1 + 1 + j) - ?s1" by (subst (asm) mod_eq_dvd_iff_nat) auto
      then have "?L \<le> Suc j" by (auto dest: dvd_imp_le)
      then show False using that fit n by simp
    qed
    then show ?thesis using c(2) by (auto simp: seg_region_def)
  qed
  have head: "ring q' ! (16 * ((?s + 1 + j) mod ?L)) = v" if "j < Suc ?n" for j
  proof (cases j)
    case 0
    have "ring q' ! (16 * ?s1) = ring ?q1 ! (16 * ?s1)" by (rule IHs(4)) (rule hdr)
    then show ?thesis using 0 s s1 by (simp add: f1)
  next
    case (Suc i)
    then show ?thesis using IHs(5) [of i] that by simp
  qed
  have frame: "ring q' ! i = ring q ! i" if out: "i \<notin> seg_region ?L ?s w 0 (Suc ?n)" for i
  proof -
    have a: "i div 16 \<noteq> (?s + 1 + j) mod ?L" if "j < Suc ?n" for j
      using out that unfolding seg_region_def by blast
    have b: "i div 16 \<noteq> ?s1" using a [of 0] by simp
    then have "i \<noteq> 16 * ?s1" and "\<not> (16 * ?s1 + 16 - w * cap \<le> i \<and> i < 16 * ?s1 + 16)"
      using c(2) by auto
    moreover have "i div 16 \<noteq> (?s1 + 1 + j) mod ?L" if "j < ?n" for j
      unfolding mod1 using a [of "Suc j"] that by simp
    ultimately show ?thesis using IHs(4) [of i] by (simp add: f1 seg_region_def)
  qed
  have fin: "q' = ((ring_advance ^^ Suc ?n) q)\<lparr>ring := ring q'\<rparr>"
    using IHs(1) unfolding q1 by (simp add: ring_advance_pow_ring funpow_swap1)
  show ?thesis unfolding segs_loaded_def Let_def n
    using fin IHs(2,3) frame head by (simp add: seg_word_0 [OF c(1) s(1)])
qed

text \<open>The loop loads every segment.\<close>

lemma load_segs_spec:
  assumes "ring_wf q" and "w * avail \<le> 16" and "0 < w" and "0 < cap" and "w * cap \<le> 15"
    and "\<And>sg. length (dsd sg) = w" and "off = 16 - w * cap"
    and "cur = 16 * ring_ptr q + 16 - w * avail"
    and "conts avail cap (length sgs) < unat (que_length q)"
  shows "segs_loaded v w cap dsd avail sgs q
    (load_segs (cont_prep v) off cap dsd sgs avail cur q)"
  using assms
proof (induction sgs arbitrary: avail cur q)
  case Nil
  then show ?case by (simp add: segs_loaded_def conts_def)
next
  case (Cons sg sgs)
  have step: "segs_loaded v w cap dsd a (sg # sgs) p (load_segs (cont_prep v) off cap dsd sgs (a - 1)
        (c + length (dsd sg)) (p\<lparr>ring := put_words c (dsd sg) (ring p)\<rparr>))"
    if H: "ring_wf p" "0 < a" "w * a \<le> 16" "c = 16 * ring_ptr p + 16 - w * a"
      "conts a cap (length (sg # sgs)) < unat (que_length p)" for a c p
  proof (rule segs_loaded_Cons)
    let ?p = "p\<lparr>ring := put_words c (dsd sg) (ring p)\<rparr>"
    obtain b where b: "a = Suc b" using H(2) by (cases a) auto
    show "?p = p\<lparr>ring := put_words (16 * ring_ptr p + 16 - w * a) (dsd sg) (ring p)\<rparr>"
      using H by simp
    show "segs_loaded v w cap dsd (a - 1) sgs ?p (load_segs (cont_prep v) off cap dsd sgs (a - 1)
        (c + length (dsd sg)) ?p)"
      using H Cons.prems by (intro Cons.IH) (auto simp: ring_wf_def conts_Suc b)
  qed (use H Cons.prems in auto)
  show ?case
  proof (cases "avail = 0")
    case False
    then show ?thesis using step [of q avail cur] Cons.prems by simp
  next
    case True
    let ?q1 = "cont_prep v q"
    have wf1: "ring_wf ?q1"
      using ring_advance_ptr(1) [OF Cons.prems(1)]
      by (auto simp: cont_prep_def Let_def ring_wf_def)
    have l1: "que_length ?q1 = que_length q" by (simp add: cont_prep_def Let_def)
    have c1: "conts cap cap (length (sg # sgs)) < unat (que_length ?q1)"
      using Cons.prems(9) True conts_0_Suc [OF Cons.prems(4), of "length sgs"] l1 by simp
    have "segs_loaded v w cap dsd cap (sg # sgs) ?q1 (load_segs (cont_prep v) off cap dsd
        (sg # sgs) 0 cur q)"
      using step [OF wf1 Cons.prems(4) _ refl c1] Cons.prems by (simp add: Let_def)
    then show ?thesis unfolding True
      using Cons.prems True by (intro segs_loaded_cont) auto
  qed
qed

lemma segs_loaded_fw:
  "segs_loaded v 3 cap dsd64 avail sgs q q' \<Longrightarrow>
     fw_segs64 (unat (que_length q)) (ring_ptr q) avail cap (length sgs) (ring q') = sgs"
  "segs_loaded v 2 cap dsd32 avail sgs q q' \<Longrightarrow> \<forall>sg \<in> set sgs. unat (fst sg) < 2 ^ 32 \<Longrightarrow>
     fw_segs32 (unat (que_length q)) (ring_ptr q) avail cap (length sgs) (ring q') = sgs"
proof -
  let ?p = "\<lambda>w k. seg_word (unat (que_length q)) (ring_ptr q) w avail cap k"
  assume "segs_loaded v 3 cap dsd64 avail sgs q q'"
  then have w: "ring q' ! (?p 3 k + i) = dsd64 (sgs ! k) ! i" if "k < length sgs" "i < 3" for k i
    using that by (simp add: segs_loaded_def Let_def)
  have "ring q' ! ?p 3 k = LSD (fst (sgs ! k))" "ring q' ! (?p 3 k + 1) = MSD (fst (sgs ! k))"
    "ring q' ! (?p 3 k + 2) = snd (sgs ! k)" if "k < length sgs" for k
    using w [OF that, of 0] w [OF that, of 1] w [OF that, of 2] by (simp_all add: dsd64_def)
  then show "fw_segs64 (unat (que_length q)) (ring_ptr q) avail cap (length sgs) (ring q') = sgs"
    by (intro nth_equalityI) (simp_all add: fw_segs64_def Let_def)
next
  let ?p = "\<lambda>w k. seg_word (unat (que_length q)) (ring_ptr q) w avail cap k"
  assume "segs_loaded v 2 cap dsd32 avail sgs q q'"
  then have w: "ring q' ! (?p 2 k + i) = dsd32 (sgs ! k) ! i" if "k < length sgs" "i < 2" for k i
    using that by (simp add: segs_loaded_def Let_def)
  assume small: "\<forall>sg \<in> set sgs. unat (fst sg) < 2 ^ 32"
  have ret: "ucast (ucast a :: u32) = a" if "unat a < 2 ^ 32" for a :: u64
    by (rule word_unat_eq_iff [THEN iffD2])
      (use that in \<open>simp add: unsigned_ucast_eq unsigned_take_bit_eq take_bit_nat_eq_self_iff\<close>)
  have "ring q' ! ?p 2 k = ucast (fst (sgs ! k))" "ring q' ! (?p 2 k + 1) = snd (sgs ! k)"
    if "k < length sgs" for k
    using w [OF that, of 0] w [OF that, of 1] by (simp_all add: dsd32_def)
  then show "fw_segs32 (unat (que_length q)) (ring_ptr q) avail cap (length sgs) (ring q') = sgs"
    using small by (intro nth_equalityI) (simp_all add: fw_segs32_def Let_def ret)
qed

lemma segs_loaded_frame:
  assumes "segs_loaded v w cap dsd avail sgs q q'" and "ring_wf q" and "w * avail \<le> 16"
  shows "ring_ptr q' = (ring_ptr q + conts avail cap (length sgs)) mod unat (que_length q)"
    and "ring_wf q'"
    and "i div 16 \<notin> cmd_slots (unat (que_length q)) (ring_ptr q) (1 + conts avail cap (length sgs))
      \<Longrightarrow> ring q' ! i = ring q ! i"
    and "conts avail cap (length sgs) < unat (que_length q) \<Longrightarrow> i < 16 - w * avail \<Longrightarrow>
      ring q' ! (16 * ring_ptr q + i) = ring q ! (16 * ring_ptr q + i)"
proof -
  let ?L = "unat (que_length q)" and ?s = "ring_ptr q" and ?n = "conts avail cap (length sgs)"
  have e: "q' = ((ring_advance ^^ ?n) q)\<lparr>ring := ring q'\<rparr>" "length (ring q') = length (ring q)"
    and f: "\<And>i. i \<notin> seg_region ?L ?s w avail ?n \<Longrightarrow> ring q' ! i = ring q ! i"
    using assms(1) by (auto simp: segs_loaded_def Let_def)
  have s: "?s < ?L" using assms(2) by (simp add: ring_wf_def word_less_nat_alt)
  have adv: "ring ((ring_advance ^^ m) q) = ring q" for m by (induction m) simp_all
  show "ring_ptr q' = (?s + ?n) mod ?L"
    by (subst e(1)) (simp add: ring_advance_pow [OF assms(2)])
  have wf_n: "ring_wf ((ring_advance ^^ ?n) q)" by (rule ring_advance_pow [OF assms(2)])
  then show "ring_wf q'"
    by (subst e(1)) (use e(2) in \<open>simp add: ring_wf_def adv\<close>)
  show "ring q' ! i = ring q ! i" if out: "i div 16 \<notin> cmd_slots ?L ?s (1 + ?n)"
  proof (rule f)
    have "i div 16 \<noteq> (?s + j) mod ?L" if "j < 1 + ?n" for j
      using out that by (auto simp: cmd_slots_def)
    note this [of 0] this [of "Suc j" for j]
    then show "i \<notin> seg_region ?L ?s w avail ?n"
      using s assms(3) by (auto simp: seg_region_def)
  qed
  show "ring q' ! (16 * ?s + i) = ring q ! (16 * ?s + i)"
    if n: "?n < ?L" and i: "i < 16 - w * avail"
  proof (rule f)
    have "?s \<noteq> (?s + 1 + j) mod ?L" if "j < ?n" for j
    proof
      assume "?s = (?s + 1 + j) mod ?L"
      then have "(?s + 1 + j) mod ?L = ?s mod ?L" using s by simp
      then have "?L dvd (?s + 1 + j) - ?s" by (simp add: mod_eq_dvd_iff_nat)
      then show False using that n by (auto dest: dvd_imp_le)
    qed
    then show "16 * ?s + i \<notin> seg_region ?L ?s w avail ?n"
      using i by (auto simp: seg_region_def)
  qed
qed

section \<open>What the builders leave in the ring\<close>

lemma ring_wf_ring [simp]:
  "length r = length (ring q) \<Longrightarrow> ring_wf (q\<lparr>ring := r\<rparr>) = ring_wf q"
  by (simp add: ring_wf_def)

text \<open>
  The shared part of the three proofs: \<open>r\<close> is the ring after the header stores of the builder,
  which touch the command entry below its first descriptor only.
\<close>

lemma build_result:
  assumes wf: "ring_wf q" and r: "length r = length (ring q)" "0 < w" "0 < cap" "w * cap \<le> 15"
    "w * avail \<le> 16" "\<And>sg. length (dsd sg) = w"
    and same: "\<And>i. i div 16 \<noteq> ring_ptr q \<Longrightarrow> r ! i = ring q ! i"
    and n: "n = 1 + conts avail cap (length segs)" "n \<le> unat (que_length q)"
    and q': "q' = load_segs (cont_prep v) (16 - w * cap) cap dsd segs avail
               (16 * ring_ptr q + (16 - w * avail)) (q\<lparr>ring := r\<rparr>)"
  shows "segs_loaded v w cap dsd avail segs (q\<lparr>ring := r\<rparr>) q'"
    and "ring_ptr q' = (ring_ptr q + (n - 1)) mod unat (que_length q)" and "ring_wf q'"
    and "\<forall>i. i div 16 \<notin> cmd_slots (unat (que_length q)) (ring_ptr q) n \<longrightarrow> ring q' ! i = ring q ! i"
    and "i < 16 - w * avail \<Longrightarrow> ring q' ! (16 * ring_ptr q + i) = r ! (16 * ring_ptr q + i)"
    and "q' = ((ring_advance ^^ (n - 1)) q)\<lparr>ring := ring q'\<rparr>"
    and "length (ring q') = length (ring q)"
proof -
  let ?q = "q\<lparr>ring := r\<rparr>"
  have wf1: "ring_wf ?q" using wf r(1) by simp
  have lt: "conts avail cap (length segs) < unat (que_length ?q)" using n by simp
  show sl: "segs_loaded v w cap dsd avail segs ?q q'"
    unfolding q' using r lt by (intro load_segs_spec [OF wf1]) auto
  show "q' = ((ring_advance ^^ (n - 1)) q)\<lparr>ring := ring q'\<rparr>"
    and "length (ring q') = length (ring q)"
    using sl n r(1) by (simp_all add: segs_loaded_def Let_def ring_advance_pow_ring)
  note fr = segs_loaded_frame [OF sl wf1 r(5)]
  show "ring_ptr q' = (ring_ptr q + (n - 1)) mod unat (que_length q)" "ring_wf q'"
    using fr(1,2) n by simp_all
  show "i < 16 - w * avail \<Longrightarrow> ring q' ! (16 * ring_ptr q + i) = r ! (16 * ring_ptr q + i)"
    using fr(4) [OF lt, of i] by simp
  show "\<forall>i. i div 16 \<notin> cmd_slots (unat (que_length q)) (ring_ptr q) n \<longrightarrow> ring q' ! i = ring q ! i"
  proof (intro allI impI)
    fix i assume out: "i div 16 \<notin> cmd_slots (unat (que_length q)) (ring_ptr q) n"
    moreover have "ring_ptr q \<in> cmd_slots (unat (que_length q)) (ring_ptr q) n"
      using n wf by (auto simp: cmd_slots_def ring_wf_def word_less_nat_alt intro!: image_eqI [of _ _ 0])
    ultimately have "i div 16 \<noteq> ring_ptr q" by metis
    then have "r ! i = ring q ! i" by (rule same)
    then show "ring q' ! i = ring q ! i" using fr(3) [of i] out n by simp
  qed
qed

lemma put_div_other:
  "off < 64 \<Longrightarrow> i div 16 \<noteq> s \<Longrightarrow> put32 s off v m ! i = m ! i"
  "off < 64 \<Longrightarrow> i div 16 \<noteq> s \<Longrightarrow> put16 s off h m ! i = m ! i"
  "off < 64 \<Longrightarrow> i div 16 \<noteq> s \<Longrightarrow> put8 s off b m ! i = m ! i"
  by (rule put_nth_other, auto)+

lemma slot_in_ring:
  "ring_wf q \<Longrightarrow> i < 16 \<Longrightarrow> 16 * ring_ptr q + i < length (ring q)"
proof -
  assume "ring_wf q" "i < 16"
  then have "ring_ptr q + 1 \<le> unat (que_length q)" "16 * unat (que_length q) \<le> length (ring q)"
    by (auto simp: ring_wf_def word_less_nat_alt)
  then show ?thesis using \<open>i < 16\<close> by linarith
qed

lemma unat_of_nat_u16: "n < 65536 \<Longrightarrow> unat (of_nat n :: u16) = n"
  by (simp add: unat_of_nat take_bit_nat_eq_self_iff)

definition dir_task_flags :: "dma_direction \<Rightarrow> u16 option" where
  "dir_task_flags d = (case d of DMA_TO_DEVICE \<Rightarrow> Some TMF_WRITE_DATA
     | DMA_FROM_DEVICE \<Rightarrow> Some TMF_READ_DATA | _ \<Rightarrow> None)"

lemma build_24xx_spec:
  assumes "ring_wf q" and "scsi_bufflen c \<noteq> 0" and "sc_data_direction c \<noteq> DMA_NONE"
    and "length segs < 65536" and "iocbs = unat (qla24xx_calc_iocbs (of_nat (length segs)))"
    and "iocbs \<le> unat (que_length q)"
    and "qla24xx_build_scsi_iocbs dt c segs q st = (q', st')"
  shows "fw_segs64 (unat (que_length q)) (ring_ptr q) 1 5 (length segs) (ring q') = segs
    \<and> get32 (ring_ptr q) ENTRY_TYPE_OFF (ring q') = COMMAND_TYPE_7
    \<and> (\<forall>f. dir_task_flags (sc_data_direction c) = Some f \<longrightarrow>
         get16 (ring_ptr q) CT7_TASK_MGMT_FLAGS_OFF (ring q') = f)
    \<and> ring_wf q' \<and> ring_ptr q' = (ring_ptr q + (iocbs - 1)) mod unat (que_length q)
    \<and> (\<forall>i. i div 16 \<notin> cmd_slots (unat (que_length q)) (ring_ptr q) iocbs \<longrightarrow>
         ring q' ! i = ring q ! i)
    \<and> (\<forall>j < 13. j \<noteq> 0 \<longrightarrow> j \<noteq> 6 \<longrightarrow>
         ring q' ! (16 * ring_ptr q + j) = ring q ! (16 * ring_ptr q + j))
    \<and> get8 (ring_ptr q) CT7_TASK_OFF (ring q') = get8 (ring_ptr q) CT7_TASK_OFF (ring q)
    \<and> q' = ((ring_advance ^^ (iocbs - 1)) q)\<lparr>ring := ring q'\<rparr> \<and> length (ring q') = length (ring q)"
proof -
  let ?s = "ring_ptr q"
  let ?r0 = "put32 ?s ENTRY_TYPE_OFF COMMAND_TYPE_7 (ring q)"
  let ?r = "case dir_task_flags (sc_data_direction c) of None \<Rightarrow> ?r0
    | Some f \<Rightarrow> put16 ?s CT7_TASK_MGMT_FLAGS_OFF f ?r0"
  define v where "v = (if IS_QLAFX00 dt then CONTINUE_A64_TYPE_FX00 else CONTINUE_A64_TYPE)"
  have q': "q' = load_segs (cont_prep v) (16 - 3 * 5) 5 dsd64 segs 1
      (16 * ?s + (16 - 3 * 1)) (q\<lparr>ring := ?r\<rparr>)"
    using assms(2,3,7) unfolding qla24xx_build_scsi_iocbs_def v_def
    by (cases "sc_data_direction c") (auto simp: prep_type1_eq dir_task_flags_def Let_def)
  have len: "length ?r = length (ring q)" by (simp split: option.split)
  have same: "i div 16 \<noteq> ?s \<Longrightarrow> ?r ! i = ring q ! i" for i
    by (simp add: put_div_other split: option.split)
  have n: "iocbs = 1 + conts 1 5 (length segs)"
    using assms(4,5) by (simp add: unat_calc_iocbs_24xx unat_of_nat_u16)
  have w: "length (dsd64 sg) = 3" for sg by (simp add: dsd64_def)
  note br = build_result [OF assms(1) len _ _ _ _ w same n assms(6) q', simplified]
  have d: "get32 ?s 0 (ring q') = get32 ?s 0 ?r" "get16 ?s 24 (ring q') = get16 ?s 24 ?r"
    using br(5) [of 0] br(5) [of 6] by (simp_all add: get32_def get16_def)
  have "get32 ?s 0 ?r = COMMAND_TYPE_7" "\<forall>f. dir_task_flags (sc_data_direction c) = Some f \<longrightarrow>
      get16 ?s 24 ?r = f"
    using slot_in_ring [OF assms(1), of 0] slot_in_ring [OF assms(1), of 6]
    by (auto simp: entry_simps split: option.split)
  moreover have "ring q' ! (16 * ?s + j) = ring q ! (16 * ?s + j)"
    if "j < 13" "j \<noteq> 0" "j \<noteq> 6" for j
    using br(5) [of j] that by (simp split: option.split)
  moreover have "get8 ?s 26 (ring q') = get8 ?s 26 ?r"
    using br(5) [of 6] by (simp add: get8_def)
  moreover have "get8 ?s 26 ?r = get8 ?s 26 (ring q)"
    by (auto simp: get8_put16_other entry_simps split: option.split)
  ultimately show ?thesis using br(2-4,6,7) segs_loaded_fw(1) [OF br(1)] d by simp
qed

text \<open>
  C5. A command-type-7 build of an FWI2 adapter: with the entries \<open>qla24xx_calc_iocbs\<close> counts
  available in the ring, the firmware reads back exactly the mapped segments, in order, across
  continuation entries and the ring wrap; the entry has the right type and data direction, the
  ring pointer has moved to the last entry used, and no word of any other entry changes.
\<close>
theorem build_24xx_loads_segments:
  assumes "ring_wf q" and "scsi_bufflen c \<noteq> 0" and "sc_data_direction c \<noteq> DMA_NONE"
    and "length segs < 65536" and "iocbs = unat (qla24xx_calc_iocbs (of_nat (length segs)))"
    and "iocbs \<le> unat (que_length q)"
    and "qla24xx_build_scsi_iocbs dt c segs q st = (q', st')"
  shows "fw_segs64 (unat (que_length q)) (ring_ptr q) 1 5 (length segs) (ring q') = segs
    \<and> get32 (ring_ptr q) ENTRY_TYPE_OFF (ring q') = COMMAND_TYPE_7
    \<and> (\<forall>f. dir_task_flags (sc_data_direction c) = Some f \<longrightarrow>
         get16 (ring_ptr q) CT7_TASK_MGMT_FLAGS_OFF (ring q') = f)
    \<and> ring_wf q' \<and> ring_ptr q' = (ring_ptr q + (iocbs - 1)) mod unat (que_length q)
    \<and> (\<forall>i. i div 16 \<notin> cmd_slots (unat (que_length q)) (ring_ptr q) iocbs \<longrightarrow>
         ring q' ! i = ring q ! i)"
  using build_24xx_spec [OF assms] by simp

text \<open>
  C6. The same for a command type 3 (64-bit addresses, two descriptors in the command entry) of
  the older adapters, with the entries \<open>qla2x00_calc_iocbs_64\<close> counts.
\<close>
theorem build_64_loads_segments:
  assumes "ring_wf q" and "scsi_bufflen c \<noteq> 0" and "sc_data_direction c \<noteq> DMA_NONE"
    and "length segs < 65536" and "iocbs = unat (qla2x00_calc_iocbs_64 (of_nat (length segs)))"
    and "iocbs \<le> unat (que_length q)"
    and "qla2x00_build_scsi_iocbs_64 dt c segs q st = (q', st')"
  shows "fw_segs64 (unat (que_length q)) (ring_ptr q) 2 5 (length segs) (ring q') = segs
    \<and> get32 (ring_ptr q) ENTRY_TYPE_OFF (ring q') = COMMAND_A64_TYPE
    \<and> get16 (ring_ptr q) CMD_CONTROL_FLAGS_OFF (ring q') =
        get16 (ring_ptr q) CMD_CONTROL_FLAGS_OFF (ring q) OR fst (qla2x00_get_cmd_direction c st)
    \<and> ring_wf q' \<and> ring_ptr q' = (ring_ptr q + (iocbs - 1)) mod unat (que_length q)
    \<and> (\<forall>i. i div 16 \<notin> cmd_slots (unat (que_length q)) (ring_ptr q) iocbs \<longrightarrow>
         ring q' ! i = ring q ! i)"
proof -
  let ?s = "ring_ptr q"
  let ?r0 = "put32 ?s ENTRY_TYPE_OFF COMMAND_A64_TYPE (ring q)"
  let ?r = "put16 ?s CMD_CONTROL_FLAGS_OFF
    (get16 ?s CMD_CONTROL_FLAGS_OFF ?r0 OR fst (qla2x00_get_cmd_direction c st)) ?r0"
  define v where "v = (if IS_QLAFX00 dt then CONTINUE_A64_TYPE_FX00 else CONTINUE_A64_TYPE)"
  have q': "q' = load_segs (cont_prep v) (16 - 3 * 5) 5 dsd64 segs 2
      (16 * ?s + (16 - 3 * 2)) (q\<lparr>ring := ?r\<rparr>)"
    using assms(2,3,7) unfolding qla2x00_build_scsi_iocbs_64_def v_def
    by (auto simp: prep_type1_eq Let_def split: prod.splits)
  have len: "length ?r = length (ring q)" by simp
  have same: "i div 16 \<noteq> ?s \<Longrightarrow> ?r ! i = ring q ! i" for i
    by (simp add: put_div_other)
  have n: "iocbs = 1 + conts 2 5 (length segs)"
    using assms(4,5) by (simp add: unat_calc_iocbs_64 unat_of_nat_u16)
  have w: "length (dsd64 sg) = 3" for sg by (simp add: dsd64_def)
  note br = build_result [OF assms(1) len _ _ _ _ w same n assms(6) q', simplified]
  have d: "get32 ?s 0 (ring q') = get32 ?s 0 ?r" "get16 ?s 12 (ring q') = get16 ?s 12 ?r"
    using br(5) [of 0] br(5) [of 3] by (simp_all add: get32_def get16_def)
  have "get32 ?s 0 ?r = COMMAND_A64_TYPE" "get16 ?s 12 ?r =
      get16 ?s 12 (ring q) OR fst (qla2x00_get_cmd_direction c st)"
    using slot_in_ring [OF assms(1), of 0] slot_in_ring [OF assms(1), of 3]
    by (simp_all add: entry_simps)
  then show ?thesis using br(2-4) segs_loaded_fw(1) [OF br(1)] d by simp
qed

text \<open>
  A command type 2 carries 32-bit addresses, three descriptors in the command entry and
  seven per continuation: the segments are read back when their addresses fit 32 bits, which
  is what the driver's DMA mask asks for where it selects this builder.
\<close>
theorem build_32_loads_segments:
  assumes "ring_wf q" and "scsi_bufflen c \<noteq> 0" and "sc_data_direction c \<noteq> DMA_NONE"
    and "length segs < 65536" and "iocbs = unat (qla2x00_calc_iocbs_32 (of_nat (length segs)))"
    and "iocbs \<le> unat (que_length q)" and "\<forall>sg \<in> set segs. unat (fst sg) < 2 ^ 32"
    and "qla2x00_build_scsi_iocbs_32 c segs q st = (q', st')"
  shows "fw_segs32 (unat (que_length q)) (ring_ptr q) 3 7 (length segs) (ring q') = segs
    \<and> get32 (ring_ptr q) ENTRY_TYPE_OFF (ring q') = COMMAND_TYPE
    \<and> get16 (ring_ptr q) CMD_CONTROL_FLAGS_OFF (ring q') =
        get16 (ring_ptr q) CMD_CONTROL_FLAGS_OFF (ring q) OR fst (qla2x00_get_cmd_direction c st)
    \<and> ring_wf q' \<and> ring_ptr q' = (ring_ptr q + (iocbs - 1)) mod unat (que_length q)
    \<and> (\<forall>i. i div 16 \<notin> cmd_slots (unat (que_length q)) (ring_ptr q) iocbs \<longrightarrow>
         ring q' ! i = ring q ! i)"
proof -
  let ?s = "ring_ptr q"
  let ?r0 = "put32 ?s ENTRY_TYPE_OFF COMMAND_TYPE (ring q)"
  let ?r = "put16 ?s CMD_CONTROL_FLAGS_OFF
    (get16 ?s CMD_CONTROL_FLAGS_OFF ?r0 OR fst (qla2x00_get_cmd_direction c st)) ?r0"
  have q': "q' = load_segs (cont_prep CONTINUE_TYPE) (16 - 2 * 7) 7 dsd32 segs 3
      (16 * ?s + (16 - 2 * 3)) (q\<lparr>ring := ?r\<rparr>)"
    using assms(2,3,8) unfolding qla2x00_build_scsi_iocbs_32_def
    by (auto simp: prep_type0_eq Let_def split: prod.splits)
  have len: "length ?r = length (ring q)" by simp
  have same: "i div 16 \<noteq> ?s \<Longrightarrow> ?r ! i = ring q ! i" for i
    by (simp add: put_div_other)
  have n: "iocbs = 1 + conts 3 7 (length segs)"
    using assms(4,5) by (simp add: unat_calc_iocbs_32 unat_of_nat_u16)
  have w: "length (dsd32 sg) = 2" for sg by (simp add: dsd32_def)
  note br = build_result [OF assms(1) len _ _ _ _ w same n assms(6) q', simplified]
  have d: "get32 ?s 0 (ring q') = get32 ?s 0 ?r" "get16 ?s 12 (ring q') = get16 ?s 12 ?r"
    using br(5) [of 0] br(5) [of 3] by (simp_all add: get32_def get16_def)
  have "get32 ?s 0 ?r = COMMAND_TYPE" "get16 ?s 12 ?r =
      get16 ?s 12 (ring q) OR fst (qla2x00_get_cmd_direction c st)"
    using slot_in_ring [OF assms(1), of 0] slot_in_ring [OF assms(1), of 3]
    by (simp_all add: entry_simps)
  then show ?thesis using br(2-4) segs_loaded_fw(2) [OF br(1) assms(7)] d by simp
qed

section \<open>Sample command\<close>

text \<open>A write of five segments from the last slot of a four-entry ring, so that it wraps.\<close>

definition sample_sc :: scsi_cmnd where
  "sample_sc = \<lparr>sc_data_direction = DMA_TO_DEVICE, scsi_bufflen = 0xA00,
     scsi_sglist = [(0x100001000, 0x200), (0x2000, 0x200), (0x3000, 0x200), (0x4000, 0x200),
       (0x5000, 0x200)],
     cmnd = [0x2A, 0, 0, 0, 0, 0, 0, 0, 5, 0], cmd_len = 10, lun = 0, sector_size = 512,
     underflow = 0, prot_op = SCSI_PROT_NORMAL, prot_type = SCSI_PROT_DIF_TYPE0,
     scsi_prot_sglist = [], scsi_lba = 0, host_guard_ip = False, request_cpu = 0,
     host_scribble = 0, resid = 0, sense_buffer = replicate 96 0, cmd_result = 0,
     prot_tuples = []\<rparr>"

definition sample_ring :: req_que where
  "sample_ring = \<lparr>ring = replicate 64 0, ring_ptr = 3, ring_index = 3, cnt = 4, que_length = 4,
     que_id = 0, outstanding_cmds = replicate 8 None, current_outstanding_cmd = 1,
     num_outstanding_cmds = 8, req_q_in = 3\<rparr>"

definition sample_stats :: qla_statistics where
  "sample_stats = \<lparr>input_bytes = 0, output_bytes = 0, input_requests = 0, output_requests = 0,
     control_requests = 0\<rparr>"

definition sample_segs32 :: "sg list" where
  "sample_segs32 = [(0x1000, 0x200), (0x2000, 0x200), (0x3000, 0x200), (0x4000, 0x600)]"

lemma sample_facts:
  "scsi_bufflen sample_sc \<noteq> 0" "sc_data_direction sample_sc = DMA_TO_DEVICE"
  "length (scsi_sglist sample_sc) = 5" "ring_ptr sample_ring = 3"
  "que_length sample_ring = 4" "length sample_segs32 = 4"
  "\<forall>sg \<in> set sample_segs32. unat (fst sg) < 2 ^ 32"
  by (simp_all add: sample_sc_def sample_ring_def sample_segs32_def)

lemma sample_ring_wf: "ring_wf sample_ring"
  by (simp add: ring_wf_def sample_ring_def)

theorem build_24xx_witness:
  "fw_segs64 4 3 1 5 5 (ring (fst (qla24xx_build_scsi_iocbs DT_FWI2 sample_sc
      (scsi_sglist sample_sc) sample_ring sample_stats))) = scsi_sglist sample_sc"
  using build_24xx_loads_segments [OF sample_ring_wf _ _ _ refl _ prod.collapse [symmetric],
      of sample_sc "scsi_sglist sample_sc" DT_FWI2 sample_stats]
  by (simp add: sample_facts unat_calc_iocbs_24xx conts_def)

theorem build_64_witness:
  "fw_segs64 4 3 2 5 5 (ring (fst (qla2x00_build_scsi_iocbs_64 0 sample_sc
      (scsi_sglist sample_sc) sample_ring sample_stats))) = scsi_sglist sample_sc"
  using build_64_loads_segments [OF sample_ring_wf _ _ _ refl _ prod.collapse [symmetric],
      of sample_sc "scsi_sglist sample_sc" 0 sample_stats]
  by (simp add: sample_facts unat_calc_iocbs_64 conts_def)

theorem build_32_witness:
  "fw_segs32 4 3 3 7 4 (ring (fst (qla2x00_build_scsi_iocbs_32 sample_sc
      sample_segs32 sample_ring sample_stats))) = sample_segs32"
  using build_32_loads_segments [OF sample_ring_wf _ _ _ refl _ sample_facts(7)
      prod.collapse [symmetric], of sample_sc sample_stats]
  by (simp add: sample_facts unat_calc_iocbs_32 conts_def)

end
