(* ===== verification/Handle_Table.thy ===== *)
theory Handle_Table
  imports Iocb_Ring
begin

text \<open>
  The outstanding-command array of a request queue. Handles run from 1 to
  \<open>num_outstanding_cmds - 1\<close>; slot 0 is never used. The submission paths scan for a free
  handle starting after the last one given out; the completion paths clear the slot. The
  locale \<open>handle_table\<close> is the contract between the two.
\<close>

section \<open>The contract\<close>

locale handle_table =
  fixes inv :: "'q \<Rightarrow> bool"
    and slots :: "'q \<Rightarrow> u32 set"
    and lookup :: "'q \<Rightarrow> u32 \<Rightarrow> sp_ptr option"
    and find :: "'q \<Rightarrow> u32 option"
    and store :: "'q \<Rightarrow> u32 \<Rightarrow> sp_ptr \<Rightarrow> 'q"
    and release :: "'q \<Rightarrow> u32 \<Rightarrow> 'q"
  assumes find_free: "inv q \<Longrightarrow> find q = Some h \<Longrightarrow> h \<in> slots q \<and> lookup q h = None"
    and find_full: "inv q \<Longrightarrow> find q = None \<Longrightarrow> h \<in> slots q \<Longrightarrow> lookup q h \<noteq> None"
    and store_inv: "inv q \<Longrightarrow> h \<in> slots q \<Longrightarrow> inv (store q h sp)"
    and store_slots: "slots (store q h sp) = slots q"
    and store_lookup: "inv q \<Longrightarrow> h \<in> slots q \<Longrightarrow> h' \<in> slots q \<Longrightarrow>
          lookup (store q h sp) h' = (if h' = h then Some sp else lookup q h')"
    and release_inv: "inv q \<Longrightarrow> h \<in> slots q \<Longrightarrow> inv (release q h)"
    and release_slots: "slots (release q h) = slots q"
    and release_lookup: "inv q \<Longrightarrow> h \<in> slots q \<Longrightarrow> h' \<in> slots q \<Longrightarrow>
          lookup (release q h) h' = (if h' = h then None else lookup q h')"
begin

text \<open>No command sits under two handles.\<close>

definition unique :: "'q \<Rightarrow> bool" where
  "unique q \<longleftrightarrow> (\<forall>h \<in> slots q. \<forall>h' \<in> slots q.
     lookup q h \<noteq> None \<longrightarrow> lookup q h = lookup q h' \<longrightarrow> h = h')"

definition fresh :: "'q \<Rightarrow> sp_ptr \<Rightarrow> bool" where
  "fresh q sp \<longleftrightarrow> (\<forall>h \<in> slots q. lookup q h \<noteq> Some sp)"

lemma store_unique:
  assumes "inv q" and "unique q" and "fresh q sp" and "find q = Some h"
  shows "unique (store q h sp)"
  using assms find_free [OF assms(1,4)]
  unfolding unique_def fresh_def store_slots
  by (auto simp: store_lookup)

lemma release_unique:
  assumes "inv q" and "unique q" and "h \<in> slots q"
  shows "unique (release q h)"
  using assms unfolding unique_def release_slots
  by (auto simp: release_lookup)

text \<open>A stored command is found under its handle and nothing else moves.\<close>

lemma store_then_lookup:
  assumes "inv q" and "find q = Some h"
  shows "lookup (store q h sp) h = Some sp"
    and "h' \<in> slots q \<Longrightarrow> lookup q h' = Some sp' \<Longrightarrow> lookup (store q h sp) h' = Some sp'"
  using assms find_free [OF assms] by (auto simp: store_lookup)

text \<open>Releasing what was stored restores the table.\<close>

lemma release_after_store:
  assumes "inv q" and "find q = Some h" and "h' \<in> slots q"
  shows "lookup (release (store q h sp) h) h' = lookup q h'"
proof -
  have "h \<in> slots q" and "lookup q h = None"
    using find_free [OF assms(1,2)] by auto
  with assms show ?thesis
    by (simp add: release_lookup store_lookup store_inv store_slots)
qed

end

section \<open>The scan of the driver\<close>

function find_handle_loop :: "req_que \<Rightarrow> nat \<Rightarrow> u32 \<Rightarrow> u32 option" where
  "find_handle_loop q index handle =
     (if index < unat (num_outstanding_cmds q)
      then let handle = handle + 1;
               handle = (if handle = ucast (num_outstanding_cmds q) then 1 else handle)
           in (if outstanding_cmds q ! unat handle = None then Some handle
               else find_handle_loop q (Suc index) handle)
      else if index = unat (num_outstanding_cmds q) then None else Some handle)"
  by pat_completeness auto
termination
  by (relation "measure (\<lambda>(q, index, handle). unat (num_outstanding_cmds q) - index)") auto

declare find_handle_loop.simps [simp del]

definition find_handle :: "req_que \<Rightarrow> u32 option" where
  "find_handle q = find_handle_loop q 1 (current_outstanding_cmd q)"

definition put_handle :: "req_que \<Rightarrow> u32 \<Rightarrow> sp_ptr \<Rightarrow> req_que" where
  "put_handle q h sp =
     q\<lparr>current_outstanding_cmd := h, outstanding_cmds := (outstanding_cmds q)[unat h := Some sp]\<rparr>"

definition clear_handle :: "req_que \<Rightarrow> u32 \<Rightarrow> req_que" where
  "clear_handle q h = q\<lparr>outstanding_cmds := (outstanding_cmds q)[unat h := None]\<rparr>"

definition handle_slots :: "req_que \<Rightarrow> u32 set" where
  "handle_slots q = {h. 1 \<le> unat h \<and> unat h < unat (num_outstanding_cmds q)}"

definition handle_lookup :: "req_que \<Rightarrow> u32 \<Rightarrow> sp_ptr option" where
  "handle_lookup q h = outstanding_cmds q ! unat h"

definition handles_wf :: "req_que \<Rightarrow> bool" where
  "handles_wf q \<longleftrightarrow> length (outstanding_cmds q) = unat (num_outstanding_cmds q)
     \<and> current_outstanding_cmd q \<in> handle_slots q"

lemma unat_num_less: "unat (num_outstanding_cmds q) < 65536"
  using unsigned_less [of "num_outstanding_cmds q"] by simp

text \<open>One step of the scan, on naturals: the cyclic successor among 1 to \<open>n - 1\<close>.\<close>

definition next_handle :: "nat \<Rightarrow> nat \<Rightarrow> nat" where
  "next_handle n h = (if Suc h = n then 1 else Suc h)"

lemma handle_step:
  assumes "h \<in> handle_slots q"
  shows "unat (if h + 1 = ucast (num_outstanding_cmds q) then 1 else h + 1 :: u32) =
      next_handle (unat (num_outstanding_cmds q)) (unat h)"
    and "(if h + 1 = ucast (num_outstanding_cmds q) then 1 else h + 1 :: u32) \<in> handle_slots q"
proof -
  let ?n = "num_outstanding_cmds q"
  have lt: "1 \<le> unat h" "unat h < unat ?n" using assms by (auto simp: handle_slots_def)
  have "unat h + 1 < 4294967296" using lt unat_num_less [of q] by linarith
  then have u: "unat (h + 1) = Suc (unat h)" by (simp add: unat_word_ariths)
  have c: "unat (ucast ?n :: u32) = unat ?n"
    by (simp add: unsigned_ucast_eq take_bit_nat_eq_self_iff)
      (use unat_num_less [of q] in simp)
  have eq: "h + 1 = ucast ?n \<longleftrightarrow> Suc (unat h) = unat ?n"
    using u c by (metis word_unat_eq_iff)
  show "unat (if h + 1 = ucast ?n then 1 else h + 1 :: u32) = next_handle (unat ?n) (unat h)"
    using u eq by (simp add: next_handle_def)
  then show "(if h + 1 = ucast ?n then 1 else h + 1 :: u32) \<in> handle_slots q"
    using lt unfolding handle_slots_def next_handle_def by (auto split: if_splits)
qed

lemma find_loop_Some:
  assumes "find_handle_loop q index h = Some h'" and "h \<in> handle_slots q"
    and "index \<le> unat (num_outstanding_cmds q)"
  shows "h' \<in> handle_slots q \<and> handle_lookup q h' = None"
  using assms
proof (induction q index h rule: find_handle_loop.induct)
  case (1 q index h)
  let ?h = "if h + 1 = ucast (num_outstanding_cmds q) then 1 else h + 1 :: u32"
  have step: "?h \<in> handle_slots q" using "1.prems"(2) by (rule handle_step)
  show ?case
  proof (cases "index < unat (num_outstanding_cmds q)")
    case True
    show ?thesis
    proof (cases "outstanding_cmds q ! unat ?h = None")
      case free: True
      then have "h' = ?h" using True "1.prems"(1)
        by (simp add: find_handle_loop.simps [of q index h] Let_def)
      then show ?thesis using step free by (simp add: handle_lookup_def)
    next
      case occ: False
      then have "find_handle_loop q (Suc index) ?h = Some h'" using True "1.prems"(1)
        by (simp add: find_handle_loop.simps [of q index h] Let_def split: if_splits)
      then show ?thesis using "1.IH" [OF True refl refl occ] step True by simp
    qed
  next
    case False
    then have "find_handle_loop q index h = None" using "1.prems"(3)
      by (subst find_handle_loop.simps) auto
    then show ?thesis using "1.prems"(1) by simp
  qed
qed

text \<open>A failed scan has visited every handle: the \<open>k\<close>-th successor of the start is occupied.\<close>

lemma find_loop_None:
  assumes "find_handle_loop q index h = None" and "h \<in> handle_slots q"
    and "k < unat (num_outstanding_cmds q) - index"
  shows "outstanding_cmds q !
      ((next_handle (unat (num_outstanding_cmds q)) ^^ Suc k) (unat h)) \<noteq> None"
  using assms
proof (induction q index h arbitrary: k rule: find_handle_loop.induct)
  case (1 q index h)
  let ?h = "if h + 1 = ucast (num_outstanding_cmds q) then 1 else h + 1 :: u32"
  let ?nx = "next_handle (unat (num_outstanding_cmds q))"
  have step: "?h \<in> handle_slots q" "unat ?h = ?nx (unat h)"
    using "1.prems"(2) by (simp_all add: handle_step)
  have lt: "index < unat (num_outstanding_cmds q)" using "1.prems"(3) by simp
  then have occ: "outstanding_cmds q ! unat ?h \<noteq> None"
      and rest: "find_handle_loop q (Suc index) ?h = None"
    using "1.prems"(1)
    by (simp_all add: find_handle_loop.simps [of q index h] Let_def split: if_splits)
  show ?case
  proof (cases k)
    case 0
    then show ?thesis using occ step(2) by simp
  next
    case (Suc j)
    have "outstanding_cmds q ! ((?nx ^^ Suc j) (unat ?h)) \<noteq> None"
      using "1.IH" [OF lt refl refl occ rest step(1)] "1.prems"(3) Suc by simp
    then show ?thesis using Suc step(2) by (simp add: funpow_swap1)
  qed
qed

lemma next_handle_pow:
  assumes "1 \<le> h" and "h < n"
  shows "(next_handle n ^^ k) h = (h - 1 + k) mod (n - 1) + 1"
proof (induction k)
  case 0
  show ?case using assms by simp
next
  case (Suc k)
  have n0: "0 < n - 1" using assms by simp
  have "Suc ((h - 1 + k) mod (n - 1)) mod (n - 1) = Suc (h - 1 + k) mod (n - 1)"
    by (rule mod_Suc_eq)
  moreover have "(h - 1 + k) mod (n - 1) < n - 1" using n0 by simp
  ultimately show ?case using Suc assms
    by (auto simp: next_handle_def Suc_mod_ring split: if_splits)
qed

lemma next_handle_covers:
  assumes "1 \<le> h" and "h < n" and "1 \<le> t" and "t < n"
  shows "\<exists>k < n - 1. (next_handle n ^^ Suc k) h = t"
proof -
  let ?m = "n - 1"
  let ?k = "(if h < t then t - h - 1 else t + ?m - h - 1)"
  have eq: "(h - 1 + Suc ?k) mod ?m = t - 1"
  proof (cases "h < t")
    case True
    then have "h - 1 + Suc ?k = t - 1" using assms by simp
    then show ?thesis using assms by simp
  next
    case False
    then have "h - 1 + Suc ?k = (t - 1) + ?m" using assms by simp
    moreover have "t - 1 < ?m" using assms by linarith
    ultimately show ?thesis by (metis mod_add_self2 mod_less)
  qed
  moreover have "?k < ?m" using assms by auto
  moreover have "(next_handle n ^^ Suc ?k) h = t"
    using eq assms by (simp only: next_handle_pow)
  ultimately show ?thesis by blast
qed

lemma find_handle_None:
  assumes "handles_wf q" and "find_handle q = None" and "h \<in> handle_slots q"
  shows "handle_lookup q h \<noteq> None"
proof -
  let ?n = "unat (num_outstanding_cmds q)" and ?c = "unat (current_outstanding_cmd q)"
  have c: "current_outstanding_cmd q \<in> handle_slots q" using assms(1) by (simp add: handles_wf_def)
  then have "\<exists>k < ?n - 1. (next_handle ?n ^^ Suc k) ?c = unat h"
    using assms(3) by (intro next_handle_covers) (auto simp: handle_slots_def)
  then show ?thesis
    using find_loop_None [OF assms(2) [unfolded find_handle_def] c]
    by (force simp: handle_lookup_def)
qed

text \<open>The driver's table keeps the contract.\<close>

interpretation ht: handle_table handles_wf handle_slots handle_lookup find_handle put_handle
  clear_handle
proof (unfold_locales, goal_cases)
  case (1 q h)
  then have c: "current_outstanding_cmd q \<in> handle_slots q" by (simp add: handles_wf_def)
  then have "1 \<le> unat (num_outstanding_cmds q)" by (auto simp: handle_slots_def)
  with 1 c find_loop_Some [of q 1 "current_outstanding_cmd q" h] show ?case
    by (simp add: find_handle_def)
next
  case (2 q h)
  then show ?case by (rule find_handle_None)
qed (auto simp: put_handle_def clear_handle_def handles_wf_def handle_slots_def
    handle_lookup_def nth_list_update word_unat_eq_iff)

section \<open>The scan finds a handle exactly when there is one\<close>

text \<open>
  C6. The scan that every submission path runs: it returns a handle between 1 and
  \<open>num_outstanding_cmds - 1\<close> whose slot is empty, or nothing, and nothing only when every slot
  is taken; it starts after the handle given out last and wraps past slot 0.
\<close>
theorem handle_scan_correct:
  assumes "handles_wf q"
  shows "(case find_handle q of
      Some h \<Rightarrow> 1 \<le> unat h \<and> unat h < unat (num_outstanding_cmds q)
        \<and> outstanding_cmds q ! unat h = None
    | None \<Rightarrow> (\<forall>i. 1 \<le> i \<longrightarrow> i < unat (num_outstanding_cmds q) \<longrightarrow> outstanding_cmds q ! i \<noteq> None))"
proof (cases "find_handle q")
  case None
  have "outstanding_cmds q ! i \<noteq> None" if "1 \<le> i" "i < unat (num_outstanding_cmds q)" for i
  proof -
    have "i < 65536" using that(2) unat_num_less [of q] by linarith
    then have "unat (of_nat i :: u32) = i" by (simp add: unat_of_nat take_bit_nat_eq_self_iff)
    then show ?thesis using ht.find_full [OF assms None, of "of_nat i"] that
      by (simp add: handle_slots_def handle_lookup_def)
  qed
  with None show ?thesis by simp
next
  case (Some h)
  then show ?thesis using ht.find_free [OF assms Some]
    by (simp add: handle_slots_def handle_lookup_def)
qed

text \<open>
  The table as the submission and completion paths use it: entering a fresh command under
  the handle the scan returned keeps every command under one handle only, and clearing that
  handle afterwards restores what every handle stood for.
\<close>
theorem handle_store_release:
  assumes "handles_wf q" and "find_handle q = Some h"
    and "\<forall>x \<in> handle_slots q. \<forall>y \<in> handle_slots q.
           handle_lookup q x \<noteq> None \<longrightarrow> handle_lookup q x = handle_lookup q y \<longrightarrow> x = y"
    and "\<forall>x \<in> handle_slots q. handle_lookup q x \<noteq> Some sp"
  shows "(\<forall>x \<in> handle_slots q. \<forall>y \<in> handle_slots q. handle_lookup (put_handle q h sp) x \<noteq> None \<longrightarrow>
      handle_lookup (put_handle q h sp) x = handle_lookup (put_handle q h sp) y \<longrightarrow> x = y)
    \<and> handle_lookup (put_handle q h sp) h = Some sp
    \<and> (\<forall>x \<in> handle_slots q. handle_lookup (clear_handle (put_handle q h sp) h) x = handle_lookup q x)"
proof -
  have "ht.unique q" using assms(3) unfolding ht.unique_def .
  moreover have "ht.fresh q sp" using assms(4) unfolding ht.fresh_def .
  ultimately have u: "ht.unique (put_handle q h sp)"
    using ht.store_unique [OF assms(1) _ _ assms(2)] by blast
  note un = u [unfolded ht.unique_def ht.store_slots]
  note lk = ht.store_then_lookup(1) [OF assms(1,2), of sp]
  note rl = ht.release_after_store [OF assms(1,2), of _ sp]
  show ?thesis by (rule conjI [OF un conjI [OF lk ballI [OF rl]]])
qed

definition table_sample :: req_que where
  "table_sample = \<lparr>ring = [], ring_ptr = 0, ring_index = 0, cnt = 0, que_length = 1, que_id = 0,
     outstanding_cmds = [None, Some 5, None, Some 6], current_outstanding_cmd = 3,
     num_outstanding_cmds = 4, req_q_in = 0\<rparr>"

lemma table_sample_find: "handles_wf table_sample" "find_handle table_sample = Some 2"
  subgoal by (simp add: handles_wf_def handle_slots_def table_sample_def)
  subgoal unfolding find_handle_def
    by (subst find_handle_loop.simps, subst find_handle_loop.simps) (simp add: table_sample_def)
  done

lemma table_sample_slots:
  "x \<in> handle_slots table_sample \<longleftrightarrow> x = 1 \<or> x = 2 \<or> x = 3"
proof -
  have u: "unat x = unat (1 :: u32) \<longleftrightarrow> x = 1" "unat x = unat (2 :: u32) \<longleftrightarrow> x = 2"
    "unat x = unat (3 :: u32) \<longleftrightarrow> x = 3"
    by (simp_all only: word_unat_eq_iff)
  have "unat (num_outstanding_cmds table_sample) = 4" by (simp add: table_sample_def)
  then have "x \<in> handle_slots table_sample \<longleftrightarrow> unat x = 1 \<or> unat x = 2 \<or> unat x = 3"
    unfolding handle_slots_def mem_Collect_eq by linarith
  moreover have "unat (1 :: u32) = 1" "unat (2 :: u32) = 2" "unat (3 :: u32) = 3" by simp_all
  ultimately show ?thesis using u by (simp only:)
qed

theorem handle_scan_witness: "outstanding_cmds table_sample ! 2 = None"
  using handle_scan_correct [OF table_sample_find(1)] table_sample_find(2) by simp

theorem handle_store_release_witness:
  "handle_lookup (clear_handle (put_handle table_sample 2 9) 2) 3 = Some 6"
proof -
  have l: "handle_lookup table_sample 1 = Some 5" "handle_lookup table_sample 2 = None"
    "handle_lookup table_sample 3 = Some 6"
    by (simp_all add: handle_lookup_def table_sample_def)
  have "\<forall>x \<in> handle_slots table_sample. \<forall>y \<in> handle_slots table_sample.
      handle_lookup table_sample x \<noteq> None \<longrightarrow>
      handle_lookup table_sample x = handle_lookup table_sample y \<longrightarrow> x = y"
    by (intro ballI impI, unfold table_sample_slots, elim disjE) (simp_all add: l)
  moreover have "\<forall>x \<in> handle_slots table_sample. handle_lookup table_sample x \<noteq> Some 9"
    by (intro ballI impI, unfold table_sample_slots, elim disjE) (simp_all add: l)
  moreover have "3 \<in> handle_slots table_sample" by (simp add: table_sample_slots)
  ultimately show ?thesis
    using handle_store_release [OF table_sample_find, of 9] l(3) by metis
qed

end
