(* ===== verification/Iocb_Control.thy ===== *)
theory Iocb_Control
  imports Iocb_Build Handle_Table
begin

text \<open>
  Control entries (qla_iocb.c): allocation of ring entries for everything but SCSI commands
  (\<open>qla2x00_alloc_iocbs\<close>), the doorbell (\<open>qla2x00_start_iocbs\<close>), the marker, and the entries
  \<open>qla2x00_start_sp\<close> builds for logins, logouts, ADISC, task management, aborts and
  pass-through commands. A builder works on the ring words at entry \<open>s\<close>.
\<close>

section \<open>Entry types and flags\<close>

definition MARKER_TYPE :: u8 where "MARKER_TYPE = 0x04"
definition TSK_MGMT_IOCB_TYPE :: u8 where "TSK_MGMT_IOCB_TYPE = 0x14"

definition MK_SYNC_ALL :: u8 where "MK_SYNC_ALL = 2"
definition SRB_LOGIN_COND_PLOGI :: u16 where "SRB_LOGIN_COND_PLOGI = BIT 1"
definition SRB_LOGIN_SKIP_PRLI :: u16 where "SRB_LOGIN_SKIP_PRLI = BIT 2"
definition LCF_COMMAND_PLOGI :: u16 where "LCF_COMMAND_PLOGI = 0"
definition LCF_COND_PLOGI :: u16 where "LCF_COND_PLOGI = BIT 4"
definition LCF_SKIP_PRLI :: u16 where "LCF_SKIP_PRLI = BIT 5"
definition LCF_COMMAND_ADISC :: u16 where "LCF_COMMAND_ADISC = 3"
definition LCF_COMMAND_LOGO :: u16 where "LCF_COMMAND_LOGO = 8"
definition LCF_IMPL_LOGO :: u16 where "LCF_IMPL_LOGO = BIT 4"
definition MBC_GET_PORT_DATABASE :: u16 where "MBC_GET_PORT_DATABASE = 0x64"
definition MBC_LOGIN_FABRIC_PORT :: u16 where "MBC_LOGIN_FABRIC_PORT = 0x6F"
definition MBC_LOGOUT_FABRIC_PORT :: u16 where "MBC_LOGOUT_FABRIC_PORT = 0x71"
definition TCF_LUN_RESET :: u32 where "TCF_LUN_RESET = BIT 4"
definition EST_SOFI3 :: u8 where "EST_SOFI3 = push_bit 4 1"

section \<open>Shared stores\<close>

definition SET_TARGET_ID :: "u32 \<Rightarrow> nat \<Rightarrow> nat \<Rightarrow> u16 \<Rightarrow> u32 list \<Rightarrow> u32 list" where
  "SET_TARGET_ID dt s off from m =
     (if HAS_EXTENDED_IDS dt then put16 s off from m else put8 s (off + 1) (ucast from) m)"

definition put_port_id :: "nat \<Rightarrow> nat \<Rightarrow> fc_port \<Rightarrow> u32 list \<Rightarrow> u32 list" where
  "put_port_id s off fc m =
     (let m = put8 s off (d_id_al_pa fc) m;
          m = put8 s (off + 1) (d_id_area fc) m
      in put8 s (off + 2) (d_id_domain fc) m)"

definition put_addr :: "nat \<Rightarrow> nat \<Rightarrow> u64 \<Rightarrow> u32 list \<Rightarrow> u32 list" where
  "put_addr s off a m = put32 s (off + 4) (MSD a) (put32 s off (LSD a) m)"

lemma length_shared [simp]:
  "length (SET_TARGET_ID dt s off from m) = length m"
  "length (put_port_id s off fc m) = length m"
  "length (put_addr s off a m) = length m"
  by (simp_all add: SET_TARGET_ID_def put_port_id_def put_addr_def Let_def)

section \<open>Allocation and doorbell\<close>

definition qla2x00_alloc_iocbs :: "kenv \<Rightarrow> sp_ptr option \<Rightarrow> host \<Rightarrow> nat option \<times> host" where
  "qla2x00_alloc_iocbs k osp h =
     (let cmd_array =
        (case osp of None \<Rightarrow> Some (1, 0, h)
         | Some sp \<Rightarrow>
             (let req = get_req 0 h
              in case find_handle req of None \<Rightarrow> None
                 | Some handle \<Rightarrow>
                     (let h = set_req 0 (put_handle req handle sp) h;
                          h = upd_sp sp (\<lambda>s. s\<lparr>sp_handle := handle\<rparr>) h
                      in Some (if sp_type (srbs h sp) \<noteq> SRB_SCSI_CMD then sp_iocbs (srbs h sp)
                               else 1, handle, h))))
      in case cmd_array of None \<Rightarrow> (None, h)
         | Some (req_cnt, handle, h) \<Rightarrow>
             (let (ok, req) = alloc_room (get_req 0 h) (req_q_out k (que_id (get_req 0 h))) req_cnt
              in if \<not> ok then (None, set_req 0 req h)
                 else let req = req\<lparr>cnt := cnt req - req_cnt\<rparr>;
                          s = ring_ptr req;
                          m = zero_words (16 * s) 16 (ring req);
                          m = put8 s ENTRY_COUNT_OFF (ucast req_cnt) m;
                          m = (if IS_QLAFX00 (device_type h)
                               then put16 s HANDLE_OFF (ucast handle) m
                               else put32 s HANDLE_OFF handle m)
                      in (Some s, set_req 0 (req\<lparr>ring := m\<rparr>) h)))"

text \<open>The step and the doorbell; on P3P adapters the queue is always queue 0.\<close>

definition qla82xx_start_iocbs :: "host \<Rightarrow> host" where
  "qla82xx_start_iocbs h =
     (let req = ring_advance (get_req 0 h);
          dbval = 0x04 OR push_bit 5 (ucast (portnum h));
          dbval = dbval OR push_bit 8 (ucast (que_id req)) OR push_bit 16 (ucast (ring_index req))
      in (set_req 0 req h)\<lparr>nxdb_wr := dbval\<rparr>)"

definition ring_doorbell :: "req_que \<Rightarrow> req_que" where
  "ring_doorbell q = (let q = ring_advance q in q\<lparr>req_q_in := ring_index q\<rparr>)"

definition qla2x00_start_iocbs :: "nat \<Rightarrow> host \<Rightarrow> host" where
  "qla2x00_start_iocbs i h =
     (if IS_P3P_TYPE (device_type h) then qla82xx_start_iocbs h
      else set_req i (ring_doorbell (get_req i h)) h)"

section \<open>Marker\<close>

definition qla2x00_marker :: "kenv \<Rightarrow> u16 \<Rightarrow> u16 \<Rightarrow> u8 \<Rightarrow> host \<Rightarrow> int \<times> host" where
  "qla2x00_marker k loopid luna type h =
     (case qla2x00_alloc_iocbs k None h of
        (None, h) \<Rightarrow> (QLA_FUNCTION_FAILED, h)
      | (Some s, h) \<Rightarrow>
          (let req = get_req 0 h;
               m = put8 s ENTRY_TYPE_OFF MARKER_TYPE (ring req);
               m = put8 s 10 type m;
               m = (if type \<noteq> MK_SYNC_ALL
                    then if IS_FWI2_CAPABLE (device_type h)
                         then let m = put16 s 8 loopid m;
                                  m = put8 s 17 (LSB luna) m;
                                  m = put8 s 18 (MSB luna) m;
                                  m = host_to_fcp_swap (16 * s + 4) 2 m;
                                  m = put8 s 13 (ucast (vp_idx h)) m
                              in put32 s HANDLE_OFF
                                   (MAKE_HANDLE (que_id req) (get32 s HANDLE_OFF m)) m
                         else let m = SET_TARGET_ID (device_type h) s 8 loopid m
                              in put16 s 14 luna m
                    else m);
               h = set_req 0 (req\<lparr>ring := m\<rparr>) h
           in (QLA_SUCCESS, qla2x00_start_iocbs 0 h)))"

section \<open>Login, logout, ADISC\<close>

definition qla24xx_login_iocb :: "host \<Rightarrow> srb \<Rightarrow> nat \<Rightarrow> u32 list \<Rightarrow> u32 list" where
  "qla24xx_login_iocb h sp s m =
     (let m = put8 s ENTRY_TYPE_OFF LOGINOUT_PORT_IOCB_TYPE m;
          m = put16 s 12 LCF_COMMAND_PLOGI m;
          m = (if logio_flags sp AND SRB_LOGIN_COND_PLOGI \<noteq> 0
               then put16 s 12 (get16 s 12 m OR LCF_COND_PLOGI) m else m);
          m = (if logio_flags sp AND SRB_LOGIN_SKIP_PRLI \<noteq> 0
               then put16 s 12 (get16 s 12 m OR LCF_SKIP_PRLI) m else m);
          m = put16 s 10 (loop_id (fcport sp)) m;
          m = put_port_id s 16 (fcport sp) m
      in put8 s 14 (ucast (vp_idx h)) m)"

definition qla2x00_login_iocb :: "host \<Rightarrow> srb \<Rightarrow> nat \<Rightarrow> u32 list \<Rightarrow> u32 list" where
  "qla2x00_login_iocb h sp s m =
     (let m = put8 s ENTRY_TYPE_OFF MBX_IOCB_TYPE m;
          m = SET_TARGET_ID (device_type h) s 8 (loop_id (fcport sp)) m;
          m = put16 s 24 MBC_LOGIN_FABRIC_PORT m;
          opts = (if logio_flags sp AND SRB_LOGIN_COND_PLOGI \<noteq> 0 then BIT 0 else 0);
          opts = opts OR (if logio_flags sp AND SRB_LOGIN_SKIP_PRLI \<noteq> 0 then BIT 1 else 0);
          m = (if HAS_EXTENDED_IDS (device_type h)
               then put16 s 38 opts (put16 s 26 (loop_id (fcport sp)) m)
               else put16 s 26 (push_bit 8 (loop_id (fcport sp)) OR opts) m);
          m = put16 s 28 (ucast (d_id_domain (fcport sp))) m;
          m = put16 s 30 (push_bit 8 (ucast (d_id_area (fcport sp)))
                OR ucast (d_id_al_pa (fcport sp))) m
      in put16 s 36 (vp_idx h) m)"

definition qla24xx_logout_iocb :: "host \<Rightarrow> srb \<Rightarrow> nat \<Rightarrow> u32 list \<Rightarrow> u32 list" where
  "qla24xx_logout_iocb h sp s m =
     (let m = put8 s ENTRY_TYPE_OFF LOGINOUT_PORT_IOCB_TYPE m;
          m = put16 s 12 (LCF_COMMAND_LOGO OR LCF_IMPL_LOGO) m;
          m = put16 s 10 (loop_id (fcport sp)) m;
          m = put_port_id s 16 (fcport sp) m
      in put8 s 14 (ucast (vp_idx h)) m)"

definition qla2x00_logout_iocb :: "host \<Rightarrow> srb \<Rightarrow> nat \<Rightarrow> u32 list \<Rightarrow> u32 list" where
  "qla2x00_logout_iocb h sp s m =
     (let m = put8 s ENTRY_TYPE_OFF MBX_IOCB_TYPE m;
          m = SET_TARGET_ID (device_type h) s 8 (loop_id (fcport sp)) m;
          m = put16 s 24 MBC_LOGOUT_FABRIC_PORT m;
          m = put16 s 26 (if HAS_EXTENDED_IDS (device_type h) then loop_id (fcport sp)
                else push_bit 8 (loop_id (fcport sp))) m;
          m = put16 s 28 (ucast (d_id_domain (fcport sp))) m;
          m = put16 s 30 (push_bit 8 (ucast (d_id_area (fcport sp)))
                OR ucast (d_id_al_pa (fcport sp))) m
      in put16 s 36 (vp_idx h) m)"

definition qla24xx_adisc_iocb :: "host \<Rightarrow> srb \<Rightarrow> nat \<Rightarrow> u32 list \<Rightarrow> u32 list" where
  "qla24xx_adisc_iocb h sp s m =
     (let m = put8 s ENTRY_TYPE_OFF LOGINOUT_PORT_IOCB_TYPE m;
          m = put16 s 12 LCF_COMMAND_ADISC m;
          m = put16 s 10 (loop_id (fcport sp)) m
      in put8 s 14 (ucast (vp_idx h)) m)"

definition qla2x00_adisc_iocb :: "host \<Rightarrow> srb \<Rightarrow> nat \<Rightarrow> u32 list \<Rightarrow> u32 list" where
  "qla2x00_adisc_iocb h sp s m =
     (let m = put8 s ENTRY_TYPE_OFF MBX_IOCB_TYPE m;
          m = SET_TARGET_ID (device_type h) s 8 (loop_id (fcport sp)) m;
          m = put16 s 24 MBC_GET_PORT_DATABASE m;
          m = (if HAS_EXTENDED_IDS (device_type h)
               then put16 s 38 (BIT 0) (put16 s 26 (loop_id (fcport sp)) m)
               else put16 s 26 (push_bit 8 (loop_id (fcport sp)) OR BIT 0) m);
          m = put16 s 28 (MSW (LSD (async_pd_dma h))) m;
          m = put16 s 30 (LSW (LSD (async_pd_dma h))) m;
          m = put16 s 32 (MSW (MSD (async_pd_dma h))) m;
          m = put16 s 34 (LSW (MSD (async_pd_dma h))) m
      in put16 s 36 (vp_idx h) m)"

section \<open>Task management and abort\<close>

definition qla24xx_tm_iocb :: "kenv \<Rightarrow> host \<Rightarrow> srb \<Rightarrow> nat \<Rightarrow> u32 list \<Rightarrow> u32 list" where
  "qla24xx_tm_iocb k h sp s m =
     (let flags = tmf_flags sp;
          m = put8 s ENTRY_TYPE_OFF TSK_MGMT_IOCB_TYPE m;
          m = put8 s ENTRY_COUNT_OFF 1 m;
          m = put32 s HANDLE_OFF
                (MAKE_HANDLE (que_id (get_req (vha_req h) h)) (get32 s HANDLE_OFF m)) m;
          m = put16 s 8 (loop_id (fcport sp)) m;
          m = put16 s 14 (r_a_tov h div 10 * 2) m;
          m = put32 s 24 flags m;
          m = put_port_id s 48 (fcport sp) m;
          m = put8 s 51 (ucast (vp_idx h)) m
      in if flags = TCF_LUN_RESET
         then host_to_fcp_swap (16 * s + 4) 2 (put_bytes s 16 (int_to_scsilun k (tmf_lun sp)) m)
         else m)"

definition qla24xx_abort_iocb :: "host \<Rightarrow> srb \<Rightarrow> nat \<Rightarrow> u32 list \<Rightarrow> u32 list" where
  "qla24xx_abort_iocb h sp s m =
     (let q = que_id (get_req (vha_req h) h);
          m = zero_words (16 * s) 16 m;
          m = put8 s ENTRY_TYPE_OFF ABORT_IOCB_TYPE m;
          m = put8 s ENTRY_COUNT_OFF 1 m;
          m = put32 s HANDLE_OFF (MAKE_HANDLE q (sp_handle sp)) m;
          m = put16 s 8 (loop_id (fcport sp)) m;
          m = put32 s 12 (MAKE_HANDLE q (abt_cmd_hndl sp)) m;
          m = put_port_id s 48 (fcport sp) m;
          m = put8 s 51 (ucast (vp_idx h)) m
      in put16 s 16 q m)"

section \<open>Pass-through: ELS and CT\<close>

definition qla24xx_els_iocb ::
    "host \<Rightarrow> srb \<Rightarrow> nat \<Rightarrow> req_que \<Rightarrow> qla_statistics \<Rightarrow> req_que \<times> qla_statistics" where
  "qla24xx_els_iocb h sp s q st =
     (let job = sp_bsg sp;
          m = put8 s ENTRY_TYPE_OFF ELS_IOCB_TYPE (ring q);
          m = put8 s ENTRY_COUNT_OFF 1 m;
          m = put8 s 2 0 m;
          m = put8 s ENTRY_STATUS_OFF 0 m;
          m = put32 s HANDLE_OFF (sp_handle sp) m;
          m = put16 s 10 (loop_id (fcport sp)) m;
          m = put16 s 12 (of_nat (length (bsg_req_sgs job))) m;
          m = put8 s 14 (ucast (vp_idx h)) m;
          m = put8 s 15 EST_SOFI3 m;
          m = put16 s 20 (of_nat (length (bsg_rep_sgs job))) m;
          m = put8 s 22 (if sp_type sp = SRB_ELS_CMD_RPT then bsg_els_code job
                         else bsg_command_code job) m;
          m = put_port_id s 24 (fcport sp) m;
          m = put16 s 30 0 m;
          m = put32 s 32 (bsg_rep_len job) m;
          m = put32 s 36 (bsg_req_len job) m;
          m = put_addr s 40 (fst (hd (bsg_req_sgs job))) m;
          m = put32 s 48 (snd (hd (bsg_req_sgs job))) m;
          m = put_addr s 52 (fst (hd (bsg_rep_sgs job))) m;
          m = put32 s 60 (snd (hd (bsg_rep_sgs job))) m
      in (q\<lparr>ring := m\<rparr>, st\<lparr>control_requests := control_requests st + 1\<rparr>))"

text \<open>
  The two CT builders. \<open>entry_count\<close> starts at one and grows with each continuation; the
  count of the loop is the number of continuations the load needs, and what is stored is its
  low byte.
\<close>

fun ct_entry_count :: "nat \<Rightarrow> nat \<Rightarrow> sg list \<Rightarrow> nat" where
  "ct_entry_count avail n [] = n"
| "ct_entry_count avail n (sg # sgs) =
     (if avail = 0 then ct_entry_count 4 (Suc n) sgs else ct_entry_count (avail - 1) n sgs)"

definition qla2x00_ct_iocb ::
    "host \<Rightarrow> srb \<Rightarrow> nat \<Rightarrow> req_que \<Rightarrow> qla_statistics \<Rightarrow> req_que \<times> qla_statistics" where
  "qla2x00_ct_iocb h sp s q st =
     (let job = sp_bsg sp;
          m = zero_words (16 * s) 16 (ring q);
          m = put8 s ENTRY_TYPE_OFF CT_IOCB_TYPE m;
          m = put8 s ENTRY_STATUS_OFF 0 m;
          m = put32 s HANDLE_OFF (sp_handle sp) m;
          m = SET_TARGET_ID (device_type h) s 8 (loop_id (fcport sp)) m;
          m = put16 s 10 0 m;
          m = put16 s 12 0 m;
          m = put16 s 16 0 m;
          m = put16 s 18 (of_nat (length (bsg_req_sgs job))) m;
          m = put16 s 20 (of_nat (length (bsg_req_sgs job) + 1)) m;
          m = put32 s 36 (bsg_req_len job) m;
          m = put32 s 32 (bsg_rep_len job) m;
          m = put_addr s 40 (fst (hd (bsg_req_sgs job))) m;
          m = put32 s 48 (get32 s 36 m) m;
          m = put_addr s 52 (fst (hd (bsg_rep_sgs job))) m;
          m = put32 s 60 (get32 s 32 m) m;
          tot_dsds = unat (of_nat (length (bsg_rep_sgs job)) :: u16);
          sgs = take tot_dsds (bsg_rep_sgs job);
          q = load_segs (qla2x00_prep_cont_type1_iocb (device_type h)) 1 5 dsd64 sgs 1
                (16 * s + 13) (q\<lparr>ring := m\<rparr>);
          m = put8 s ENTRY_COUNT_OFF (of_nat (ct_entry_count 1 1 sgs)) (ring q)
      in (q\<lparr>ring := m\<rparr>, st\<lparr>control_requests := control_requests st + 1\<rparr>))"

definition qla24xx_ct_iocb :: "host \<Rightarrow> srb \<Rightarrow> nat \<Rightarrow> req_que \<Rightarrow> req_que" where
  "qla24xx_ct_iocb h sp s q =
     (let job = sp_bsg sp;
          m = put8 s ENTRY_TYPE_OFF CT_IOCB_TYPE (ring q);
          m = put8 s ENTRY_STATUS_OFF 0 m;
          m = put8 s 2 0 m;
          m = put32 s HANDLE_OFF (sp_handle sp) m;
          m = put16 s 10 (loop_id (fcport sp)) m;
          m = put8 s 14 (ucast (vp_idx h)) m;
          m = put16 s 8 0 m;
          m = put16 s 12 (of_nat (length (bsg_req_sgs job))) m;
          m = put16 s 16 0 m;
          m = put16 s 20 (of_nat (length (bsg_rep_sgs job))) m;
          m = put32 s 32 (bsg_rep_len job) m;
          m = put32 s 36 (bsg_req_len job) m;
          m = put_addr s 40 (fst (hd (bsg_req_sgs job))) m;
          m = put32 s 48 (snd (hd (bsg_req_sgs job))) m;
          tot_dsds = unat (of_nat (length (bsg_rep_sgs job)) :: u16);
          sgs = take tot_dsds (bsg_rep_sgs job);
          q = load_segs (qla2x00_prep_cont_type1_iocb (device_type h)) 1 5 dsd64 sgs 1
                (16 * s + 13) (q\<lparr>ring := m\<rparr>);
          m = put8 s ENTRY_COUNT_OFF (of_nat (ct_entry_count 1 1 sgs)) (ring q)
      in q\<lparr>ring := m\<rparr>)"

section \<open>Starting a control command\<close>

text \<open>
  \<open>fx\<close> stands for the builders of the ISPFX00 family (qla_mr.c), which write the one entry
  \<open>s\<close> of the queue and are not modelled here. The conditional on \<open>ha\<close> selects the second
  argument on FWI2 adapters.
\<close>

definition start_sp_entry ::
    "(host \<Rightarrow> srb \<Rightarrow> nat \<Rightarrow> req_que \<Rightarrow> req_que) \<Rightarrow> kenv \<Rightarrow> host \<Rightarrow> srb \<Rightarrow> nat \<Rightarrow> req_que \<Rightarrow> qla_statistics
      \<Rightarrow> req_que \<times> qla_statistics" where
  "start_sp_entry fx k h sp s q st =
     (let fwi2 = IS_FWI2_CAPABLE (device_type h); on = (\<lambda>f. (q\<lparr>ring := f s (ring q)\<rparr>, st))
      in if sp_type sp = SRB_LOGIN_CMD
         then on (if fwi2 then qla24xx_login_iocb h sp else qla2x00_login_iocb h sp)
         else if sp_type sp = SRB_LOGOUT_CMD
         then on (if fwi2 then qla24xx_logout_iocb h sp else qla2x00_logout_iocb h sp)
         else if sp_type sp = SRB_ELS_CMD_RPT \<or> sp_type sp = SRB_ELS_CMD_HST
         then qla24xx_els_iocb h sp s q st
         else if sp_type sp = SRB_CT_CMD
         then if fwi2 then (qla24xx_ct_iocb h sp s q, st) else qla2x00_ct_iocb h sp s q st
         else if sp_type sp = SRB_ADISC_CMD
         then on (if fwi2 then qla24xx_adisc_iocb h sp else qla2x00_adisc_iocb h sp)
         else if sp_type sp = SRB_TM_CMD
         then if IS_QLAFX00 (device_type h) then (fx h sp s q, st) else on (qla24xx_tm_iocb k h sp)
         else if sp_type sp = SRB_FXIOCB_DCMD \<or> sp_type sp = SRB_FXIOCB_BCMD
         then (fx h sp s q, st)
         else if sp_type sp = SRB_ABT_CMD
         then if IS_QLAFX00 (device_type h) then (fx h sp s q, st) else on (qla24xx_abort_iocb h sp)
         else (q, st))"

definition qla2x00_start_sp ::
    "(host \<Rightarrow> srb \<Rightarrow> nat \<Rightarrow> req_que \<Rightarrow> req_que) \<Rightarrow> kenv \<Rightarrow> sp_ptr \<Rightarrow> host \<Rightarrow> int \<times> host" where
  "qla2x00_start_sp fx k sp h =
     (case qla2x00_alloc_iocbs k (Some sp) h of
        (None, h) \<Rightarrow> (QLA_FUNCTION_FAILED, h)
      | (Some s, h) \<Rightarrow>
          (let (q, st) = start_sp_entry fx k h (srbs h sp) s (get_req 0 h) (qla_stats h);
               h = (set_req 0 q h)\<lparr>qla_stats := st\<rparr>
           in (QLA_SUCCESS, qla2x00_start_iocbs 0 h)))"

end
