(* ===== verification/Iocb_Submit.thy ===== *)
theory Iocb_Submit
  imports Iocb_Control
begin

text \<open>
  Submission of SCSI commands (qla_iocb.c): \<open>qla2x00_start_scsi\<close>, \<open>qla24xx_start_scsi\<close> and the
  bidirectional loopback command \<open>qla2x00_start_bidir\<close>. The work on the request queue alone is
  in \<open>qla2x00_load_cmd\<close> and \<open>qla24xx_load_cmd\<close> (from "Build command packet" to the doorbell); the
  handlers add the marker, the handle scan, the DMA mapping and the head-room check.
\<close>

section \<open>Filling the command entry\<close>

definition CF_SIMPLE_TAG :: u16 where "CF_SIMPLE_TAG = BIT 3"
definition CF_ORDERED_TAG :: u16 where "CF_ORDERED_TAG = BIT 2"
definition CF_HEAD_TAG :: u16 where "CF_HEAD_TAG = BIT 1"
definition TSK_SIMPLE :: u8 where "TSK_SIMPLE = 0"
definition TSK_HEAD_OF_QUEUE :: u8 where "TSK_HEAD_OF_QUEUE = 1"
definition TSK_ORDERED :: u8 where "TSK_ORDERED = 2"

definition cmd_tag_flags :: "tag_msg option \<Rightarrow> u16" where
  "cmd_tag_flags t = (case t of Some HEAD_OF_QUEUE_TAG \<Rightarrow> CF_HEAD_TAG
     | Some ORDERED_QUEUE_TAG \<Rightarrow> CF_ORDERED_TAG | _ \<Rightarrow> CF_SIMPLE_TAG)"

definition cmd_task :: "tag_msg option \<Rightarrow> u8" where
  "cmd_task t = (case t of Some HEAD_OF_QUEUE_TAG \<Rightarrow> TSK_HEAD_OF_QUEUE
     | Some ORDERED_QUEUE_TAG \<Rightarrow> TSK_ORDERED | _ \<Rightarrow> TSK_SIMPLE)"

definition qla2x00_fill_cmd ::
    "kenv \<Rightarrow> u32 \<Rightarrow> fc_port \<Rightarrow> scsi_cmnd \<Rightarrow> u32 \<Rightarrow> u16 \<Rightarrow> nat \<Rightarrow> u32 list \<Rightarrow> u32 list" where
  "qla2x00_fill_cmd k dt fc c handle tot_dsds s m =
     (let m = put32 s HANDLE_OFF handle m;
          m = zero_words (16 * s + 2) 14 m;
          m = put16 s CMD_DSEG_COUNT_OFF tot_dsds m;
          m = SET_TARGET_ID dt s CMD_TARGET_OFF (loop_id fc) m;
          m = put16 s CMD_LUN_OFF (ucast (lun c)) m;
          m = put16 s CMD_CONTROL_FLAGS_OFF (cmd_tag_flags (scsi_populate_tag_msg k c)) m;
          m = put_bytes s 20 (take (unat (cmd_len c)) (cmnd c)) m
      in put32 s CMD_BYTE_COUNT_OFF (scsi_bufflen c) m)"

definition qla24xx_fill_cmd ::
    "kenv \<Rightarrow> u16 \<Rightarrow> u16 \<Rightarrow> fc_port \<Rightarrow> scsi_cmnd \<Rightarrow> u32 \<Rightarrow> u16 \<Rightarrow> nat \<Rightarrow> u32 list \<Rightarrow> u32 list" where
  "qla24xx_fill_cmd k qid vp fc c handle tot_dsds s m =
     (let m = put32 s HANDLE_OFF (MAKE_HANDLE qid handle) m;
          m = zero_words (16 * s + 2) 14 m;
          m = put16 s CT7_DSEG_COUNT_OFF tot_dsds m;
          m = put16 s CT7_NPORT_HANDLE_OFF (loop_id fc) m;
          m = put_port_id s CT7_PORT_ID_OFF fc m;
          m = put8 s CT7_VP_INDEX_OFF (ucast vp) m;
          m = put_bytes s 16 (int_to_scsilun k (lun c)) m;
          m = host_to_fcp_swap (16 * s + CT7_LUN_WORD) 2 m;
          m = put8 s CT7_TASK_OFF (cmd_task (scsi_populate_tag_msg k c)) m;
          m = put_bytes s 28 (take (unat (cmd_len c)) (cmnd c)) m;
          m = host_to_fcp_swap (16 * s + CT7_CDB_WORD) 4 m
      in put32 s CT7_BYTE_COUNT_OFF (scsi_bufflen c) m)"

section \<open>The queue's part of a submission\<close>

definition qla2x00_load_cmd ::
    "kenv \<Rightarrow> u32 \<Rightarrow> bool \<Rightarrow> fc_port \<Rightarrow> sp_ptr \<Rightarrow> scsi_cmnd \<Rightarrow> u32 \<Rightarrow> sg list \<Rightarrow> u16
      \<Rightarrow> req_que \<Rightarrow> qla_statistics \<Rightarrow> req_que \<times> qla_statistics" where
  "qla2x00_load_cmd k dt b64 fc sp c handle segs req_cnt q st =
     (let tot_dsds = of_nat (length segs) :: u16;
          q = put_handle q handle sp;
          q = q\<lparr>cnt := cnt q - req_cnt\<rparr>;
          s = ring_ptr q;
          q = q\<lparr>ring := qla2x00_fill_cmd k dt fc c handle tot_dsds s (ring q)\<rparr>;
          segs = take (unat tot_dsds) segs;
          (q, st) = (if b64 then qla2x00_build_scsi_iocbs_64 dt c segs q st
                     else qla2x00_build_scsi_iocbs_32 c segs q st);
          q = q\<lparr>ring := put8 s ENTRY_COUNT_OFF (ucast req_cnt) (ring q)\<rparr>
      in (ring_doorbell q, st))"

definition qla24xx_load_cmd ::
    "kenv \<Rightarrow> u32 \<Rightarrow> u16 \<Rightarrow> u16 \<Rightarrow> fc_port \<Rightarrow> sp_ptr \<Rightarrow> scsi_cmnd \<Rightarrow> u32 \<Rightarrow> sg list \<Rightarrow> u16
      \<Rightarrow> req_que \<Rightarrow> qla_statistics \<Rightarrow> req_que \<times> qla_statistics" where
  "qla24xx_load_cmd k dt vp rsp fc sp c handle segs req_cnt q st =
     (let tot_dsds = of_nat (length segs) :: u16;
          q = put_handle q handle sp;
          q = q\<lparr>cnt := cnt q - req_cnt\<rparr>;
          s = ring_ptr q;
          q = q\<lparr>ring := qla24xx_fill_cmd k (que_id q) vp fc c handle tot_dsds s (ring q)\<rparr>;
          (q, st) = qla24xx_build_scsi_iocbs dt c (take (unat tot_dsds) segs) q st;
          q = q\<lparr>ring := put8 s ENTRY_COUNT_OFF (ucast req_cnt) (ring q)\<rparr>;
          q = q\<lparr>ring := put8 s ENTRY_STATUS_OFF (ucast rsp) (ring q)\<rparr>
      in (ring_doorbell q, st))"

section \<open>The handlers\<close>

definition send_marker :: "kenv \<Rightarrow> host \<Rightarrow> bool \<times> host" where
  "send_marker k h =
     (if marker_needed h
      then let (rv, h) = qla2x00_marker k 0 0 MK_SYNC_ALL h
           in if rv \<noteq> QLA_SUCCESS then (False, h) else (True, h\<lparr>marker_needed := False\<rparr>)
      else (True, h))"

text \<open>\<open>nseg\<close>: no list at all is no segment; a list that \<open>dma_map_sg\<close> cannot map is an error.\<close>

definition map_cmd :: "kenv \<Rightarrow> scsi_cmnd \<Rightarrow> sg list option" where
  "map_cmd k c =
     (if scsi_sglist c \<noteq> []
      then let segs = dma_map_sg k (scsi_sglist c) in if segs = [] then None else Some segs
      else Some [])"

definition queue_unmap :: "sp_ptr \<Rightarrow> sg list \<Rightarrow> host \<Rightarrow> host" where
  "queue_unmap sp segs h =
     (if (of_nat (length segs) :: u16) \<noteq> 0 then h\<lparr>unmapped := sp # unmapped h\<rparr> else h)"

definition note_handle :: "sp_ptr \<Rightarrow> u32 \<Rightarrow> host \<Rightarrow> host" where
  "note_handle sp handle =
     upd_sp sp (\<lambda>s. s\<lparr>sp_handle := handle, cmd := (cmd s)\<lparr>host_scribble := handle\<rparr>\<rparr>)"

definition qla25xx_set_que :: "srb \<Rightarrow> host \<Rightarrow> nat" where
  "qla25xx_set_que sp h =
     (let affinity = request_cpu (cmd sp)
      in if cpu_affinity_enabled h \<and> affinity \<ge> 0 \<and> affinity < uint (max_rsp_queues h) - 1
         then nat (affinity + 1) else 0)"

definition poll_rsp :: "(nat \<Rightarrow> host \<Rightarrow> host) \<Rightarrow> nat \<Rightarrow> host \<Rightarrow> host" where
  "poll_rsp process r h =
     (if process_response_queue h
        \<and> get32 (rsp_ring_ptr (get_rsp r h)) 60 (rsp_ring (get_rsp r h)) \<noteq> RESPONSE_PROCESSED
      then process r h else h)"

definition qla2x00_start_scsi ::
    "(nat \<Rightarrow> host \<Rightarrow> host) \<Rightarrow> kenv \<Rightarrow> sp_ptr \<Rightarrow> host \<Rightarrow> int \<times> host" where
  "qla2x00_start_scsi process k sp h =
     (case send_marker k h of
        (False, h) \<Rightarrow> (QLA_FUNCTION_FAILED, h)
      | (True, h) \<Rightarrow>
      (case find_handle (get_req 0 h) of
        None \<Rightarrow> (QLA_FUNCTION_FAILED, h)
      | Some handle \<Rightarrow>
      (case map_cmd k (cmd (srbs h sp)) of
        None \<Rightarrow> (QLA_FUNCTION_FAILED, h)
      | Some segs \<Rightarrow>
          (let b64 = enable_64bit_addressing h;
               tot_dsds = of_nat (length segs);
               req_cnt = (if b64 then qla2x00_calc_iocbs_64 tot_dsds
                          else qla2x00_calc_iocbs_32 tot_dsds);
               (ok, req) = req_room (get_req 0 h) (req_q_out k (que_id (get_req 0 h))) req_cnt
           in if \<not> ok then (QLA_FUNCTION_FAILED, queue_unmap sp segs (set_req 0 req h))
              else let h = note_handle sp handle h;
                       (req, st) = qla2x00_load_cmd k (device_type h) b64 (fcport (srbs h sp)) sp
                          (cmd (srbs h sp)) handle segs req_cnt req (qla_stats h);
                       h = upd_sp sp (\<lambda>s. s\<lparr>sp_flags := sp_flags s OR SRB_DMA_VALID\<rparr>)
                             ((set_req 0 req h)\<lparr>qla_stats := st\<rparr>)
                   in (QLA_SUCCESS, poll_rsp process 0 h)))))"

definition qla24xx_start_scsi ::
    "(nat \<Rightarrow> host \<Rightarrow> host) \<Rightarrow> kenv \<Rightarrow> sp_ptr \<Rightarrow> host \<Rightarrow> int \<times> host" where
  "qla24xx_start_scsi process k sp h =
     (let rsp = qla25xx_set_que (srbs h sp) h; qi = vha_req h
      in case send_marker k h of
        (False, h) \<Rightarrow> (QLA_FUNCTION_FAILED, h)
      | (True, h) \<Rightarrow>
      (case find_handle (get_req qi h) of
        None \<Rightarrow> (QLA_FUNCTION_FAILED, h)
      | Some handle \<Rightarrow>
      (case map_cmd k (cmd (srbs h sp)) of
        None \<Rightarrow> (QLA_FUNCTION_FAILED, h)
      | Some segs \<Rightarrow>
          (let req_cnt = qla24xx_calc_iocbs (of_nat (length segs));
               (ok, req) = req_room (get_req qi h) (req_q_out k (que_id (get_req qi h))) req_cnt
           in if \<not> ok then (QLA_FUNCTION_FAILED, queue_unmap sp segs (set_req qi req h))
              else let h = note_handle sp handle h;
                       (req, st) = qla24xx_load_cmd k (device_type h) (vp_idx h)
                          (rsp_id (get_rsp rsp h)) (fcport (srbs h sp)) sp
                          (cmd (srbs h sp)) handle segs req_cnt req (qla_stats h);
                       h = upd_sp sp (\<lambda>s. s\<lparr>sp_flags := sp_flags s OR SRB_DMA_VALID\<rparr>)
                             ((set_req qi req h)\<lparr>qla_stats := st\<rparr>)
                   in (QLA_SUCCESS, poll_rsp process rsp h)))))"

section \<open>Bidirectional command\<close>

definition COMMAND_BIDIRECTIONAL :: u32 where "COMMAND_BIDIRECTIONAL = 0x75"
definition BD_WRITE_DATA :: u16 where "BD_WRITE_DATA = BIT 0"
definition BD_READ_DATA :: u16 where "BD_READ_DATA = BIT 1"
definition BD_WRAP_BACK :: u16 where "BD_WRAP_BACK = BIT 3"
definition FX00_DEF_RATOV :: u16 where "FX00_DEF_RATOV = 10"
definition EXT_STATUS_BUSY :: int where "EXT_STATUS_BUSY = 2"
definition EXT_STATUS_MAILBOX :: int where "EXT_STATUS_MAILBOX = 11"

definition qla2x00_get_async_timeout :: "host \<Rightarrow> u16" where
  "qla2x00_get_async_timeout h =
     (if IS_QLAFX00 (device_type h) then FX00_DEF_RATOV * 2
      else if \<not> IS_FWI2_CAPABLE (device_type h) then login_timeout h
      else r_a_tov h div 10 * 2)"

text \<open>
  The two loops, first the write segments and then the read segments, continue the same
  descriptor run: the second starts where the first has stopped.
\<close>

definition qla25xx_build_bidir_iocb ::
    "host \<Rightarrow> srb \<Rightarrow> req_que \<Rightarrow> qla_statistics \<Rightarrow> req_que \<times> qla_statistics" where
  "qla25xx_build_bidir_iocb h sp q st =
     (let job = sp_bsg sp;
          s = ring_ptr q;
          m = put32 s ENTRY_TYPE_OFF COMMAND_BIDIRECTIONAL (ring q);
          m = put16 s 12 (of_nat (length (bsg_req_sgs job))) m;
          m = put16 s 14 (of_nat (length (bsg_rep_sgs job))) m;
          m = put16 s 24 (BD_WRITE_DATA OR BD_READ_DATA OR BD_WRAP_BACK) m;
          m = put32 s 44 (bsg_req_len job) m;
          m = put32 s 40 (bsg_req_len job) m;
          m = put16 s 10 (qla2x00_get_async_timeout h + 2) m;
          st = st\<lparr>output_bytes := output_bytes st + ucast (bsg_req_len job),
                  output_requests := output_requests st + 1\<rparr>;
          sgs = bsg_req_sgs job @ bsg_rep_sgs job;
          q = load_segs (qla2x00_prep_cont_type1_iocb (device_type h)) 1 5 dsd64 sgs 1
                (16 * s + 13) (q\<lparr>ring := m\<rparr>);
          m = put8 s ENTRY_COUNT_OFF (of_nat (ct_entry_count 1 1 sgs)) (ring q)
      in (q\<lparr>ring := m\<rparr>, st))"

definition qla2x00_start_bidir :: "kenv \<Rightarrow> sp_ptr \<Rightarrow> u32 \<Rightarrow> host \<Rightarrow> int \<times> host" where
  "qla2x00_start_bidir k sp tot_dsds h =
     (let qi = vha_req h
      in case send_marker k h of
        (False, h) \<Rightarrow> (EXT_STATUS_MAILBOX, h)
      | (True, h) \<Rightarrow>
      (case find_handle (get_req qi h) of
        None \<Rightarrow> (EXT_STATUS_BUSY, h)
      | Some handle \<Rightarrow>
          (let req_cnt = qla24xx_calc_iocbs (ucast tot_dsds);
               (ok, req) = req_room (get_req qi h) (req_q_out k (que_id (get_req qi h))) req_cnt
           in if \<not> ok then (EXT_STATUS_BUSY, set_req qi req h)
              else let s = ring_ptr req;
                       m = put32 s HANDLE_OFF (MAKE_HANDLE (que_id req) handle) (ring req);
                       m = zero_words (16 * s + 2) 14 m;
                       m = put16 s 8 (vha_loop_id h) m;
                       (domain, area, al_pa) = vha_d_id h;
                       m = put8 s 48 al_pa m;
                       m = put8 s 49 area m;
                       m = put8 s 50 domain m;
                       (req, st) = qla25xx_build_bidir_iocb h (srbs h sp) (req\<lparr>ring := m\<rparr>)
                         (qla_stats h);
                       req = req\<lparr>ring := put8 s ENTRY_STATUS_OFF
                               (ucast (rsp_id (get_rsp 0 h))) (ring req)\<rparr>;
                       req = put_handle req handle sp;
                       h = upd_sp sp (\<lambda>s. s\<lparr>sp_handle := handle\<rparr>) h;
                       req = req\<lparr>cnt := cnt req - req_cnt\<rparr>;
                       h = (set_req qi req h)\<lparr>qla_stats := st\<rparr>
                   in (QLA_SUCCESS, qla2x00_start_iocbs qi h))))"

section \<open>What the command entry holds\<close>

text \<open>The fields the firmware reads from a command-type-7 entry before its descriptors.\<close>

lemma fill24_fields:
  assumes "16 * s + 16 \<le> length m" and "unat (cmd_len c) \<le> 16"
    and "length (int_to_scsilun k (lun c)) = 8"
    and m': "m' = qla24xx_fill_cmd k qid vp fc c handle tot s m"
  shows "length m' = length m"
    and "i div 16 \<noteq> s \<Longrightarrow> m' ! i = m ! i"
    and "get32 s 4 m' = MAKE_HANDLE qid handle"
    and "get16 s 8 m' = loop_id fc"
    and "get16 s 12 m' = tot"
    and "get32 s 44 m' = scsi_bufflen c"
    and "get8 s 48 m' = d_id_al_pa fc" "get8 s 49 m' = d_id_area fc" "get8 s 50 m' = d_id_domain fc"
    and "get8 s 51 m' = ucast vp"
    and "get8 s 26 m' = cmd_task (scsi_populate_tag_msg k c)"
    and "j < length (take (unat (cmd_len c)) (cmnd c)) \<Longrightarrow>
      get8 s (28 + 4 * (j div 4) + (3 - j mod 4)) m' = cmnd c ! j"
    and "j < 8 \<Longrightarrow> get8 s (16 + 4 * (j div 4) + (3 - j mod 4)) m' = int_to_scsilun k (lun c) ! j"
proof -
  have cdb: "(28 + length (take (unat (cmd_len c)) (cmnd c)) + 3) div 4 \<le> 11"
    using assms(2) by simp
  note d = m' qla24xx_fill_cmd_def Let_def put_port_id_def
  show "length m' = length m" by (simp add: d)
  show "get32 s 4 m' = MAKE_HANDLE qid handle"
    using assms(1,3) cdb by (simp add: d entry_simps)
  show "get16 s 8 m' = loop_id fc" "get16 s 12 m' = tot" "get32 s 44 m' = scsi_bufflen c"
    using assms(1,3) cdb by (simp_all add: d entry_simps)
  show "get8 s 48 m' = d_id_al_pa fc" "get8 s 49 m' = d_id_area fc" "get8 s 50 m' = d_id_domain fc"
    "get8 s 51 m' = ucast vp" "get8 s 26 m' = cmd_task (scsi_populate_tag_msg k c)"
    using assms(1,3) cdb by (simp_all add: d entry_simps)
  show "m' ! i = m ! i" if "i div 16 \<noteq> s"
  proof -
    have i: "i < 16 * s + a \<or> 16 * s + b \<le> i" if "b \<le> 16" for a b
      using that \<open>i div 16 \<noteq> s\<close> by (cases "i < 16 * s") auto
    have p: "put_bytes s 16 (int_to_scsilun k (lun c)) n ! i = n ! i"
      "put_bytes s 28 (take (unat (cmd_len c)) (cmnd c)) n ! i = n ! i" for n
      using i [of 6 4] i [of "(28 + length (take (unat (cmd_len c)) (cmnd c)) + 3) div 4" 7] cdb
      by (auto simp: put_bytes_nth_other assms(3))
    show ?thesis using that i [of 6 4] i [of 11 7] i [of 16 2] assms(1)
      by (auto simp: d put_div_other host_to_fcp_swap_nth zero_words_nth p)
  qed
  show "get8 s (28 + 4 * (j div 4) + (3 - j mod 4)) m' = cmnd c ! j"
    if "j < length (take (unat (cmd_len c)) (cmnd c))"
  proof -
    have j: "j < 16" "j < unat (cmd_len c)" "j < length (cmnd c)" using that assms(2) by auto
    define x where "x = 28 + 4 * (j div 4) + (3 - j mod 4)"
    have x: "x div 4 = 7 + j div 4" by (simp add: x_def div_add1_eq)
    have sw: "16 * s + 7 + 4 \<le> length n \<Longrightarrow>
        get8 s x (host_to_fcp_swap (16 * s + 7) 4 n) = get8 s (28 + j) n" for n
      using get8_swap [of s 7 4 n j] j unfolding x_def by simp
    show ?thesis unfolding x_def [symmetric]
      using assms(1,3) cdb j by (simp add: d entry_simps x sw get8_put_bytes)
  qed
  show "get8 s (16 + 4 * (j div 4) + (3 - j mod 4)) m' = int_to_scsilun k (lun c) ! j" if "j < 8"
  proof -
    define x where "x = 16 + 4 * (j div 4) + (3 - j mod 4)"
    have x: "x div 4 = 4 + j div 4" by (simp add: x_def div_add1_eq)
    have sw: "16 * s + 4 + 2 \<le> length n \<Longrightarrow>
        get8 s x (host_to_fcp_swap (16 * s + 4) 2 n) = get8 s (16 + j) n" for n
      using get8_swap [of s 4 2 n j] that unfolding x_def by simp
    have lt: "x div 4 < 6" "4 \<le> x div 4" using that unfolding x by auto
    show ?thesis unfolding x_def [symmetric]
      using assms(1,3) cdb lt that by (simp add: d entry_simps sw get8_put_bytes)
  qed
qed

text \<open>A command without a data phase has no segments.\<close>

definition has_data :: "scsi_cmnd \<Rightarrow> bool" where
  "has_data c \<longleftrightarrow> scsi_bufflen c \<noteq> 0 \<and> sc_data_direction c \<noteq> DMA_NONE"

lemma ring_advance_pow_fields [simp]:
  "ring ((ring_advance ^^ m) q) = ring q" "cnt ((ring_advance ^^ m) q) = cnt q"
  "que_length ((ring_advance ^^ m) q) = que_length q" "que_id ((ring_advance ^^ m) q) = que_id q"
  "outstanding_cmds ((ring_advance ^^ m) q) = outstanding_cmds q"
  "current_outstanding_cmd ((ring_advance ^^ m) q) = current_outstanding_cmd q"
  "num_outstanding_cmds ((ring_advance ^^ m) q) = num_outstanding_cmds q"
  "req_q_in ((ring_advance ^^ m) q) = req_q_in q"
  by (induction m) simp_all

text \<open>The same, with the data-less command: what every build of a type 7 entry guarantees.\<close>

lemma build_24xx_any:
  assumes "ring_wf q" and "has_data c \<or> segs = []" and "length segs < 65536"
    and "iocbs = unat (qla24xx_calc_iocbs (of_nat (length segs)))" and "iocbs \<le> unat (que_length q)"
    and "qla24xx_build_scsi_iocbs dt c segs q st = (q', st')"
  shows "(has_data c \<longrightarrow>
      fw_segs64 (unat (que_length q)) (ring_ptr q) 1 5 (length segs) (ring q') = segs)
    \<and> get32 (ring_ptr q) ENTRY_TYPE_OFF (ring q') = COMMAND_TYPE_7
    \<and> (\<forall>i. i div 16 \<notin> cmd_slots (unat (que_length q)) (ring_ptr q) iocbs \<longrightarrow>
         ring q' ! i = ring q ! i)
    \<and> (\<forall>j < 13. j \<noteq> 0 \<longrightarrow> j \<noteq> 6 \<longrightarrow> j \<noteq> 11 \<longrightarrow>
         ring q' ! (16 * ring_ptr q + j) = ring q ! (16 * ring_ptr q + j))
    \<and> get32 (ring_ptr q) CT7_BYTE_COUNT_OFF (ring q') =
        (if has_data c then get32 (ring_ptr q) CT7_BYTE_COUNT_OFF (ring q) else 0)
    \<and> get8 (ring_ptr q) CT7_TASK_OFF (ring q') = get8 (ring_ptr q) CT7_TASK_OFF (ring q)
    \<and> q' = ((ring_advance ^^ (iocbs - 1)) q)\<lparr>ring := ring q'\<rparr> \<and> length (ring q') = length (ring q)"
proof (cases "has_data c")
  case True
  then show ?thesis
    using build_24xx_spec [OF assms(1) _ _ assms(3-6)] by (simp add: has_data_def get32_def)
next
  case False
  let ?s = "ring_ptr q"
  have n: "iocbs = 1" using False assms(2,4) by (simp add: unat_calc_iocbs_24xx conts_def)
  have q': "q' = q\<lparr>ring := put32 ?s CT7_BYTE_COUNT_OFF 0
      (put32 ?s ENTRY_TYPE_OFF COMMAND_TYPE_7 (ring q))\<rparr>"
    using False assms(6) by (auto simp: qla24xx_build_scsi_iocbs_def has_data_def Let_def)
  have in_slot: "?s \<in> cmd_slots (unat (que_length q)) ?s iocbs"
    using n assms(1) by (auto simp: cmd_slots_def ring_wf_def word_less_nat_alt)
  have other: "ring q' ! i = ring q ! i" if "i div 16 \<noteq> ?s" for i
    using that by (simp add: q' put_div_other)
  have "i div 16 \<notin> cmd_slots (unat (que_length q)) ?s iocbs \<longrightarrow> ring q' ! i = ring q ! i" for i
    using other in_slot by metis
  then show ?thesis using False n slot_in_ring [OF assms(1), of 0] slot_in_ring [OF assms(1), of 11]
    by (simp add: q' entry_simps)
qed

text \<open>
  What the firmware must find in the entries of a command-type-7 request at slot \<open>s\<close>: the
  abstract content of the command, read through the field offsets of the hardware interface.
\<close>

definition ct7_request :: "kenv \<Rightarrow> u16 \<Rightarrow> u16 \<Rightarrow> u16 \<Rightarrow> fc_port \<Rightarrow> scsi_cmnd \<Rightarrow> u32 \<Rightarrow> sg list \<Rightarrow> u16
    \<Rightarrow> nat \<Rightarrow> nat \<Rightarrow> u32 list \<Rightarrow> bool" where
  "ct7_request k qid vp rsp fc c handle segs iocbs L s m \<longleftrightarrow>
     get8 s ENTRY_TYPE_OFF m = ucast COMMAND_TYPE_7
   \<and> get8 s ENTRY_COUNT_OFF m = ucast iocbs \<and> get8 s ENTRY_STATUS_OFF m = ucast rsp
   \<and> get32 s HANDLE_OFF m = MAKE_HANDLE qid handle
   \<and> get16 s CT7_NPORT_HANDLE_OFF m = loop_id fc
   \<and> get8 s 48 m = d_id_al_pa fc \<and> get8 s 49 m = d_id_area fc \<and> get8 s 50 m = d_id_domain fc
   \<and> get8 s CT7_VP_INDEX_OFF m = ucast vp
   \<and> get8 s CT7_TASK_OFF m = cmd_task (scsi_populate_tag_msg k c)
   \<and> (\<forall>j < 8. get8 s (16 + 4 * (j div 4) + (3 - j mod 4)) m = int_to_scsilun k (lun c) ! j)
   \<and> (\<forall>j < length (take (unat (cmd_len c)) (cmnd c)).
        get8 s (28 + 4 * (j div 4) + (3 - j mod 4)) m = cmnd c ! j)
   \<and> get16 s CT7_DSEG_COUNT_OFF m = of_nat (length segs)
   \<and> get32 s CT7_BYTE_COUNT_OFF m = (if has_data c then scsi_bufflen c else 0)
   \<and> (has_data c \<longrightarrow> fw_segs64 L s 1 5 (length segs) m = segs)"

lemma cong_fields:
  assumes "m' ! (16 * s + off div 4) = m ! (16 * s + off div 4)"
  shows "get32 s off m' = get32 s off m" "get16 s off m' = get16 s off m" "get8 s off m' = get8 s off m"
  using assms by (simp_all add: get32_def get16_def get8_def)

text \<open>Descriptors lie above the first word of their entry.\<close>

lemma seg_word_entry:
  assumes "first \<le> 5"
  shows "\<exists>x y. seg_word L s 3 first 5 k = 16 * x + y \<and> 1 \<le> y \<and> y + 2 < 16"
proof (cases "k < first")
  case True
  then have "seg_word L s 3 first 5 k = 16 * s + (16 - 3 * first + 3 * k)"
    using assms by (simp add: seg_word_def)
  moreover have "1 \<le> 16 - 3 * first + 3 * k" "16 - 3 * first + 3 * k + 2 < 16"
    using True assms by auto
  ultimately show ?thesis by blast
next
  case False
  have "(k - first) mod 5 < 5" by simp
  then have "1 \<le> 1 + 3 * ((k - first) mod 5)" "1 + 3 * ((k - first) mod 5) + 2 < 16" by auto
  moreover have "seg_word L s 3 first 5 k =
      16 * ((s + 1 + (k - first) div 5) mod L) + (1 + 3 * ((k - first) mod 5))"
    using False by (simp add: seg_word_def)
  ultimately show ?thesis by blast
qed

lemma fw_segs64_put8:
  assumes "off < 4" and "first \<le> 5"
  shows "fw_segs64 L s first 5 n (put8 s' off b m) = fw_segs64 L s first 5 n m"
proof -
  have ne: "16 * s' \<noteq> seg_word L s 3 first 5 k + i" if "i < 3" for k i
  proof -
    obtain x y where "seg_word L s 3 first 5 k = 16 * x + y" "1 \<le> y" "y + 2 < 16"
      using seg_word_entry [OF assms(2)] by blast
    with that show ?thesis by presburger
  qed
  show ?thesis
    unfolding fw_segs64_def Let_def using ne [of 0] ne [of 1] ne [of 2] assms(1)
    by (simp add: put8_def)
qed

lemma load_24xx:
  assumes wf: "ring_wf q" and data: "has_data c \<or> segs = []" and len: "length segs < 65536"
    and n: "n = qla24xx_calc_iocbs (of_nat (length segs))" and fit: "unat n \<le> unat (que_length q)"
    and cdb: "unat (cmd_len c) \<le> 16" and lunb: "length (int_to_scsilun k (lun c)) = 8"
    and load: "qla24xx_load_cmd k dt vp rsp fc sp c handle segs n q st = (q', st')"
  shows "ct7_request k (que_id q) vp rsp fc c handle segs n (unat (que_length q)) (ring_ptr q) (ring q')"
    and "\<forall>i. i div 16 \<notin> cmd_slots (unat (que_length q)) (ring_ptr q) (unat n) \<longrightarrow>
      ring q' ! i = ring q ! i"
    and "ring_wf q'" and "ring_ptr q' = (ring_ptr q + unat n) mod unat (que_length q)"
    and "que_length q' = que_length q" and "que_id q' = que_id q" and "cnt q' = cnt q - n"
    and "outstanding_cmds q' = (outstanding_cmds q)[unat handle := Some sp]"
    and "current_outstanding_cmd q' = handle" and "num_outstanding_cmds q' = num_outstanding_cmds q"
    and "req_q_in q' = ring_index q'"
proof -
  let ?s = "ring_ptr q" and ?L = "unat (que_length q)"
  let ?m0 = "qla24xx_fill_cmd k (que_id q) vp fc c handle (of_nat (length segs)) ?s (ring q)"
  define q0 where "q0 = (put_handle q handle sp)\<lparr>cnt := cnt q - n, ring := ?m0\<rparr>"
  obtain q1 st1 where b: "qla24xx_build_scsi_iocbs dt c segs q0 st = (q1, st1)" by fastforce
  have tk: "take (unat (of_nat (length segs) :: u16)) segs = segs"
    using len by (simp add: unat_of_nat_u16)
  let ?m2 = "put8 ?s ENTRY_STATUS_OFF (ucast rsp) (put8 ?s ENTRY_COUNT_OFF (ucast n) (ring q1))"
  have f0: "ring_ptr q0 = ?s" "que_length q0 = que_length q" "ring q0 = ?m0" "que_id q0 = que_id q"
    "cnt q0 = cnt q - n" "outstanding_cmds q0 = (outstanding_cmds q)[unat handle := Some sp]"
    "current_outstanding_cmd q0 = handle" "num_outstanding_cmds q0 = num_outstanding_cmds q"
    "ring_index q0 = ring_index q"
    by (simp_all add: q0_def put_handle_def)
  have q': "q' = ring_doorbell (q1\<lparr>ring := ?m2\<rparr>)"
    using load b by (simp add: qla24xx_load_cmd_def q0_def put_handle_def Let_def tk split: prod.splits)
  have s16: "16 * ?s + 16 \<le> length (ring q)" using slot_in_ring [OF wf, of 15] by simp
  note fill = fill24_fields [OF s16 cdb lunb refl, where qid = "que_id q" and vp = vp and fc = fc
      and handle = handle and tot = "of_nat (length segs)"]
  have wf0: "ring_wf q0" using wf unfolding ring_wf_def f0 fill(1) .
  have n': "unat n = unat (qla24xx_calc_iocbs (of_nat (length segs)))" by (simp add: n)
  note any = build_24xx_any [OF wf0 data len n' _ b, unfolded f0, OF fit]
  have n1: "1 \<le> unat n" by (simp add: n unat_calc_iocbs_24xx)
  have adv: "q1 = ((ring_advance ^^ (unat n - 1)) q0)\<lparr>ring := ring q1\<rparr>"
    and len1: "length (ring q1) = length (ring q)" using any fill(1) by simp_all
  have pow: "q' = ((ring_advance ^^ unat n) q0)\<lparr>ring := ?m2,
      req_q_in := ring_index ((ring_advance ^^ unat n) q0)\<rparr>"
  proof -
    obtain m where m: "unat n = Suc m" using n1 by (cases "unat n") auto
    have "ring_advance (q1\<lparr>ring := ?m2\<rparr>) = ((ring_advance ^^ unat n) q0)\<lparr>ring := ?m2\<rparr>"
      by (subst adv) (simp add: m ring_advance_pow_ring [of 1, simplified])
    then show ?thesis unfolding q' ring_doorbell_def Let_def by simp
  qed
  note rp = ring_advance_pow [OF wf0, of "unat n", unfolded f0]
  show "ring_ptr q' = (?s + unat n) mod ?L" "que_length q' = que_length q" "que_id q' = que_id q"
    "cnt q' = cnt q - n" "outstanding_cmds q' = (outstanding_cmds q)[unat handle := Some sp]"
    "current_outstanding_cmd q' = handle" "num_outstanding_cmds q' = num_outstanding_cmds q"
    "req_q_in q' = ring_index q'"
    by (simp_all add: pow rp f0)
  have "length ?m2 = length (ring ((ring_advance ^^ unat n) q0))"
    using len1 fill(1) by (simp add: f0)
  then show "ring_wf q'" using rp(1) unfolding pow ring_wf_def by simp
  have in_slot: "?s \<in> cmd_slots ?L ?s (unat n)"
    using n1 wf by (auto simp: cmd_slots_def ring_wf_def word_less_nat_alt intro!: image_eqI [of _ _ 0])
  show "\<forall>i. i div 16 \<notin> cmd_slots ?L ?s (unat n) \<longrightarrow> ring q' ! i = ring q ! i"
  proof (intro allI impI)
    fix i assume out: "i div 16 \<notin> cmd_slots ?L ?s (unat n)"
    then have ne: "i div 16 \<noteq> ?s" using in_slot by metis
    have "ring q1 ! i = ?m0 ! i" using any out by blast
    then show "ring q' ! i = ring q ! i" using ne fill(2) by (simp add: pow put_div_other)
  qed
  have hdr: "ring q' ! (16 * ?s + j) = ?m0 ! (16 * ?s + j)" if "j < 13" "j \<noteq> 0" "j \<noteq> 6" "j \<noteq> 11" for j
    using any that by (simp add: pow)
  have r0: "16 * ?s < length (ring q1)" using s16 len1 by simp
  have rq: "ring q' = ?m2" by (simp add: pow)
  have c32: "get32 ?s off (ring q') = get32 ?s off ?m0"
    and c16: "get16 ?s off (ring q') = get16 ?s off ?m0"
    and c8: "get8 ?s off (ring q') = get8 ?s off ?m0"
    if "off div 4 < 13" "off div 4 \<noteq> 0" "off div 4 \<noteq> 6" "off div 4 \<noteq> 11" for off
    by (rule cong_fields, rule hdr, use that in auto)+
  have w0: "get8 ?s 0 (ring q') = ucast COMMAND_TYPE_7" "get8 ?s 1 (ring q') = ucast n"
    "get8 ?s 3 (ring q') = ucast rsp"
  proof -
    have "get8 ?s 0 (ring q1) = ucast (get32 ?s 0 (ring q1))"
      by (simp add: get32_def get8_def get_byte_def)
    then show "get8 ?s 0 (ring q') = ucast COMMAND_TYPE_7" using any
      unfolding rq by (simp add: entry_simps)
    show "get8 ?s 1 (ring q') = ucast n" "get8 ?s 3 (ring q') = ucast rsp"
      using r0 unfolding rq by (simp_all add: entry_simps)
  qed
  have w6: "get8 ?s 26 (ring q') = cmd_task (scsi_populate_tag_msg k c)"
    using any unfolding rq by (simp add: entry_simps fill(11))
  have w11: "get32 ?s 44 (ring q') = (if has_data c then scsi_bufflen c else 0)"
    using any unfolding rq by (simp add: entry_simps fill(6))
  have segs: "has_data c \<longrightarrow> fw_segs64 ?L ?s 1 5 (length segs) (ring q') = segs"
    using any unfolding rq by (simp add: fw_segs64_put8)
  have luns: "get8 ?s (16 + 4 * (j div 4) + (3 - j mod 4)) (ring q') = int_to_scsilun k (lun c) ! j"
    if "j < 8" for j
  proof -
    have "(16 + 4 * (j div 4) + (3 - j mod 4)) div 4 = 4 + j div 4" by (simp add: div_add1_eq)
    moreover have "j div 4 < 2" using that by auto
    ultimately have "get8 ?s (16 + 4 * (j div 4) + (3 - j mod 4)) (ring q')
        = get8 ?s (16 + 4 * (j div 4) + (3 - j mod 4)) ?m0" by (intro c8) linarith+
    also have "... = int_to_scsilun k (lun c) ! j" by (rule fill(13) [OF that])
    finally show ?thesis .
  qed
  have cdbs: "get8 ?s (28 + 4 * (j div 4) + (3 - j mod 4)) (ring q') = cmnd c ! j"
    if "j < length (take (unat (cmd_len c)) (cmnd c))" for j
  proof -
    have "(28 + 4 * (j div 4) + (3 - j mod 4)) div 4 = 7 + j div 4" by (simp add: div_add1_eq)
    moreover have "j div 4 < 4" using that cdb by auto
    ultimately have "get8 ?s (28 + 4 * (j div 4) + (3 - j mod 4)) (ring q')
        = get8 ?s (28 + 4 * (j div 4) + (3 - j mod 4)) ?m0" by (intro c8) linarith+
    also have "... = cmnd c ! j" by (rule fill(12) [OF that])
    finally show ?thesis .
  qed
  show "ct7_request k (que_id q) vp rsp fc c handle segs n ?L ?s (ring q')"
    unfolding ct7_request_def
    using w0 w6 w11 segs luns cdbs by (simp add: c32 c16 c8 fill(3-5,7-10))
qed

end
