(* ===== verification/Ring_Fifo.thy ===== *)
theory Ring_Fifo
  imports Iocb_Submit
begin

text \<open>
  The request ring as a queue of commands. The abstract state is the list of commands handed
  to the firmware and not yet fetched; a submission appends one, a fetch removes the first. The
  step relation interleaves the driver's submissions (granted or refused), completions and the
  firmware's fetches in any order; the invariant says that the entries from the out pointer on
  hold exactly those commands, complete and in order.
\<close>

record pending =
  p_fc :: fc_port
  p_sc :: scsi_cmnd
  p_handle :: u32
  p_segs :: "sg list"
  p_rsp :: u16

definition p_iocbs :: "pending \<Rightarrow> u16" where
  "p_iocbs p = qla24xx_calc_iocbs (of_nat (length (p_segs p)))"

definition p_total :: "pending list \<Rightarrow> nat" where
  "p_total ps = sum_list (map (\<lambda>p. unat (p_iocbs p)) ps)"

text \<open>What the submission path assumes of a command: the mid-layer's part of the contract.\<close>

definition pending_ok :: "kenv \<Rightarrow> pending \<Rightarrow> bool" where
  "pending_ok k p \<longleftrightarrow> (has_data (p_sc p) \<or> p_segs p = []) \<and> length (p_segs p) < 65536
     \<and> unat (cmd_len (p_sc p)) \<le> 16 \<and> length (int_to_scsilun k (lun (p_sc p))) = 8"

fun fifo_layout :: "kenv \<Rightarrow> u16 \<Rightarrow> u16 \<Rightarrow> nat \<Rightarrow> nat \<Rightarrow> pending list \<Rightarrow> u32 list \<Rightarrow> bool" where
  "fifo_layout k qid vp L s [] m = True"
| "fifo_layout k qid vp L s (p # ps) m =
     (ct7_request k qid vp (p_rsp p) (p_fc p) (p_sc p) (p_handle p) (p_segs p) (p_iocbs p) L
        (s mod L) m
      \<and> fifo_layout k qid vp L (s + unat (p_iocbs p)) ps m)"

type_synonym fifo_state = "req_que \<times> u16 \<times> pending list"

inductive fifo_step :: "kenv \<Rightarrow> u32 \<Rightarrow> u16 \<Rightarrow> fifo_state \<Rightarrow> fifo_state \<Rightarrow> bool"
  for k :: kenv and dt :: u32 and vp :: u16 where
  submit: "pending_ok k p \<Longrightarrow> find_handle q = Some (p_handle p) \<Longrightarrow>
      req_room q out (p_iocbs p) = (True, qr) \<Longrightarrow>
      qla24xx_load_cmd k dt vp (p_rsp p) (p_fc p) sp (p_sc p) (p_handle p) (p_segs p)
        (p_iocbs p) qr st = (q', st') \<Longrightarrow>
      fifo_step k dt vp (q, out, ps) (q', out, ps @ [p])"
| refuse: "req_room q out n = (False, q') \<Longrightarrow> fifo_step k dt vp (q, out, ps) (q', out, ps)"
| fetch: "unat out' = (unat out + unat (p_iocbs p)) mod unat (que_length q) \<Longrightarrow>
      fifo_step k dt vp (q, out, p # ps) (q, out', ps)"
| complete: "h \<in> handle_slots q \<Longrightarrow>
      fifo_step k dt vp (q, out, ps) (clear_handle q h, out, ps)"

inductive_cases fifo_stepE: "fifo_step k dt vp (q, out, ps) (q', out', ps')"

inductive fifo_reach :: "kenv \<Rightarrow> u32 \<Rightarrow> u16 \<Rightarrow> fifo_state \<Rightarrow> fifo_state \<Rightarrow> bool"
  for k :: kenv and dt :: u32 and vp :: u16 and start :: fifo_state where
  reach_start: "fifo_reach k dt vp start start"
| reach_step: "fifo_reach k dt vp start x \<Longrightarrow> fifo_step k dt vp x y \<Longrightarrow> fifo_reach k dt vp start y"

definition fifo_inv :: "kenv \<Rightarrow> u16 \<Rightarrow> u16 \<Rightarrow> nat \<Rightarrow> fifo_state \<Rightarrow> bool" where
  "fifo_inv k qid vp L = (\<lambda>(q, out, ps). ring_inv q out (p_total ps) \<and> handles_wf q
     \<and> (\<forall>p \<in> set ps. pending_ok k p)
     \<and> que_id q = qid \<and> unat (que_length q) = L \<and> fifo_layout k qid vp L (unat out) ps (ring q))"

section \<open>A request depends on its own entries only\<close>

lemma div16: "y < 16 \<Longrightarrow> (16 * x + y) div 16 = (x :: nat)"
  by simp

lemma seg_word_slot:
  assumes "k < n" and "i < 3" and "first \<le> 5" and "0 < L" and "s < L"
  shows "(seg_word L s 3 first 5 k + i) div 16 \<in> cmd_slots L s (1 + conts first 5 n)"
proof (cases "k < first")
  case True
  then have "seg_word L s 3 first 5 k + i = 16 * s + (16 - 3 * first + 3 * k + i)"
    using assms(3) by (simp add: seg_word_def)
  moreover have "16 - 3 * first + 3 * k + i < 16" using True assms(2,3) by auto
  ultimately have "(seg_word L s 3 first 5 k + i) div 16 = s" by simp
  then show ?thesis using assms(4,5) by (auto simp: cmd_slots_def intro!: image_eqI [of _ _ 0])
next
  case False
  let ?j = "(k - first) div 5"
  have "(k - first) mod 5 < 5" by simp
  then have "1 + 3 * ((k - first) mod 5) + i < 16" using assms(2) by linarith
  moreover have "seg_word L s 3 first 5 k + i =
      16 * ((s + 1 + ?j) mod L) + (1 + 3 * ((k - first) mod 5) + i)"
    using False by (simp add: seg_word_def)
  ultimately have "(seg_word L s 3 first 5 k + i) div 16 = (s + (1 + ?j)) mod L"
    using div16 [of "1 + 3 * ((k - first) mod 5) + i" "(s + 1 + ?j) mod L"]
    by (metis add.assoc)
  moreover have "?j < conts first 5 n"
  proof -
    have "k - first + 5 \<le> n - first + 4" using assms(1) False by simp
    then have "(k - first + 5) div 5 \<le> (n - first + 5 - 1) div 5" by (intro div_le_mono) simp
    then show ?thesis by (simp add: conts_def)
  qed
  ultimately show ?thesis by (auto simp: cmd_slots_def intro!: image_eqI [of _ _ "1 + ?j"])
qed

lemma ct7_request_frame:
  assumes req: "ct7_request k qid vp rsp fc c handle segs n L s m"
    and n: "unat n = 1 + conts 1 5 (length segs)" and s: "s < L"
    and cdb: "unat (cmd_len c) \<le> 16"
    and same: "\<And>i. i div 16 \<in> cmd_slots L s (unat n) \<Longrightarrow> m' ! i = m ! i"
  shows "ct7_request k qid vp rsp fc c handle segs n L s m'"
proof -
  have in0: "s \<in> cmd_slots L s (unat n)"
    using s n by (auto simp: cmd_slots_def intro!: image_eqI [of _ _ 0])
  have w: "m' ! (16 * s + off div 4) = m ! (16 * s + off div 4)" if "off < 64" for off
    using that in0 by (intro same) auto
  note g = cong_fields [OF w]
  have "m' ! (seg_word L s 3 1 5 k + i) = m ! (seg_word L s 3 1 5 k + i)"
    if "k < length segs" "i < 3" for k i
    using seg_word_slot [of k "length segs" i 1 L s] that s n by (intro same) simp
  note this [of _ 0] this [of _ 1] this [of _ 2]
  then have "fw_segs64 L s 1 5 (length segs) m' = fw_segs64 L s 1 5 (length segs) m"
    by (simp add: fw_segs64_def Let_def)
  moreover have "16 + 4 * (j div 4) + (3 - j mod 4) < 64" if "j < 8" for j :: nat
    using that by auto
  moreover have "28 + 4 * (j div 4) + (3 - j mod 4) < 64"
    if "j < length (take (unat (cmd_len c)) (cmnd c))" for j
    using that cdb by auto
  ultimately show ?thesis using req unfolding ct7_request_def by (simp add: g)
qed

lemma p_iocbs_conts:
  "length (p_segs p) < 65536 \<Longrightarrow> unat (p_iocbs p) = 1 + conts 1 5 (length (p_segs p))"
  by (simp add: p_iocbs_def unat_calc_iocbs_24xx unat_of_nat_u16)

section \<open>The invariant\<close>

lemma cmd_slots_add:
  "cmd_slots L s (a + b) = cmd_slots L s a \<union> cmd_slots L (s + a) b"
proof -
  have "{..<a + b} = {..<a} \<union> {a..<a + b}" by auto
  also have "{a..<a + b} = (+) a ` {..<b}"
    using image_add_atLeastLessThan [of a 0 b] by (simp add: atLeast0LessThan add.commute)
  finally show ?thesis by (simp only: cmd_slots_def image_Un image_image add.assoc)
qed

lemma fifo_layout_append:
  "fifo_layout k qid vp L s (ps @ qs) m \<longleftrightarrow>
     fifo_layout k qid vp L s ps m \<and> fifo_layout k qid vp L (s + p_total ps) qs m"
  by (induction ps arbitrary: s) (auto simp: p_total_def add.assoc)

lemma fifo_layout_frame:
  assumes "fifo_layout k qid vp L s ps m" and "\<forall>p \<in> set ps. pending_ok k p" and "0 < L"
    and "\<And>i. i div 16 \<in> cmd_slots L s (p_total ps) \<Longrightarrow> m' ! i = m ! i"
  shows "fifo_layout k qid vp L s ps m'"
  using assms
proof (induction ps arbitrary: s)
  case Nil
  then show ?case by simp
next
  case (Cons p ps)
  have t: "p_total (p # ps) = unat (p_iocbs p) + p_total ps" by (simp add: p_total_def)
  have same: "m' ! i = m ! i" if "i div 16 \<in> cmd_slots L s (unat (p_iocbs p))
      \<or> i div 16 \<in> cmd_slots L (s + unat (p_iocbs p)) (p_total ps)" for i
    using Cons.prems(4) that by (auto simp: t cmd_slots_add)
  have "ct7_request k qid vp (p_rsp p) (p_fc p) (p_sc p) (p_handle p) (p_segs p) (p_iocbs p) L
      (s mod L) m'"
  proof (rule ct7_request_frame)
    show "ct7_request k qid vp (p_rsp p) (p_fc p) (p_sc p) (p_handle p) (p_segs p) (p_iocbs p) L
      (s mod L) m" using Cons.prems(1) by simp
  qed (use Cons.prems same in \<open>auto simp: pending_ok_def p_iocbs_conts\<close>)
  moreover have "fifo_layout k qid vp L (s + unat (p_iocbs p)) ps m'"
    using Cons.prems same by (intro Cons.IH) auto
  ultimately show ?case by simp
qed

lemma fifo_layout_mod:
  "a mod L = b mod L \<Longrightarrow> fifo_layout k qid vp L a ps m \<longleftrightarrow> fifo_layout k qid vp L b ps m"
proof (induction ps arbitrary: a b)
  case Nil
  then show ?case by simp
next
  case (Cons p ps)
  have "(a + unat (p_iocbs p)) mod L = (b + unat (p_iocbs p)) mod L"
    using Cons.prems by (rule mod_add_cong) (rule refl)
  then have "fifo_layout k qid vp L (a + unat (p_iocbs p)) ps m =
      fifo_layout k qid vp L (b + unat (p_iocbs p)) ps m" by (rule Cons.IH)
  then show ?case unfolding fifo_layout.simps Cons.prems by (rule arg_cong)
qed

lemma fifo_submit:
  assumes inv: "fifo_inv k qid vp L (q, out, ps)" and ok: "pending_ok k p"
    and h: "find_handle q = Some (p_handle p)" and room: "req_room q out (p_iocbs p) = (True, q1)"
    and load: "qla24xx_load_cmd k dt vp (p_rsp p) (p_fc p) sp (p_sc p) (p_handle p) (p_segs p)
        (p_iocbs p) q1 st = (q', st')"
  shows "fifo_inv k qid vp L (q', out, ps @ [p])"
proof -
  have ri: "ring_inv q out (p_total ps)" and hw: "handles_wf q" and L: "unat (que_length q) = L"
    and lay: "fifo_layout k qid vp L (unat out) ps (ring q)" and oks: "\<forall>p \<in> set ps. pending_ok k p"
    and qid: "que_id q = qid"
    using inv by (auto simp: fifo_inv_def)
  note sm = req_room.room_same [OF room]
  have ri1: "ring_inv q1 out (p_total ps)" by (rule req_room.room_inv [OF ri room])
  then have wf1: "ring_wf q1" and L0: "0 < L" using L sm by (auto simp: ring_inv_def word_less_nat_alt)
  have gr: "p_total ps + unat (p_iocbs p) + 2 \<le> L" using req_room.granted [OF ri room] L by simp
  note ld = load_24xx [OF wf1 _ _ p_iocbs_def _ _ _ load, unfolded sm, folded L]
  have pre: "has_data (p_sc p) \<or> p_segs p = []" "length (p_segs p) < 65536"
    "unat (p_iocbs p) \<le> unat (que_length q)" "unat (cmd_len (p_sc p)) \<le> 16"
    "length (int_to_scsilun k (lun (p_sc p))) = 8"
    using ok gr L by (auto simp: pending_ok_def)
  note ld = ld [OF pre]
  have ri': "ring_inv q' out (p_total ps + unat (p_iocbs p))"
    using ld by (intro req_room.taken_inv [OF ri room]) auto
  have hs: "p_handle p \<in> handle_slots q" using ht.find_free [OF hw h] by simp
  have hw': "handles_wf q'" using hw hs ld by (simp add: handles_wf_def handle_slots_def)
  have ptr: "ring_ptr q = (unat out + p_total ps) mod L" using ri L by (simp add: ring_inv_def)
  have free: "cmd_slots L (unat out) (p_total ps) \<inter> cmd_slots L (ring_ptr q) (unat (p_iocbs p)) = {}"
    using req_room.granted_free [OF ri room] L by auto
  have "ring q' ! i = ring q ! i" if "i div 16 \<in> cmd_slots L (unat out) (p_total ps)" for i
    using that free ld(2) L by blast
  then have lay': "fifo_layout k qid vp L (unat out) ps (ring q')"
    by (rule fifo_layout_frame [OF lay oks L0])
  show ?thesis
    using ri' hw' lay' oks ok ld(1,5,6) L qid ptr
    by (simp add: fifo_inv_def fifo_layout_append p_total_def)
qed

lemma fifo_fetch:
  assumes inv: "fifo_inv k qid vp L (q, out, p # ps)"
    and out': "unat out' = (unat out + unat (p_iocbs p)) mod unat (que_length q)"
  shows "fifo_inv k qid vp L (q, out', ps)"
proof -
  have ri: "ring_inv q out (p_total (p # ps))" and L: "unat (que_length q) = L"
    using inv by (auto simp: fifo_inv_def)
  have t: "p_total (p # ps) = unat (p_iocbs p) + p_total ps" by (simp add: p_total_def)
  have L0: "0 < L" using ri L by (auto simp: ring_inv_def)
  have lt: "out' < que_length q" using out' L L0 by (simp add: word_less_nat_alt)
  have "(unat out' + p_total ps) mod L = (unat out + p_total (p # ps)) mod L"
    unfolding out' L t by (simp add: mod_add_left_eq add.assoc)
  then have "ring_inv q out' (p_total ps)" using ri lt L t by (auto simp: ring_inv_def)
  moreover have "fifo_layout k qid vp L (unat out') ps m \<longleftrightarrow>
      fifo_layout k qid vp L (unat out + unat (p_iocbs p)) ps m" for m
    by (rule fifo_layout_mod) (simp add: out' L)
  ultimately show ?thesis using inv by (auto simp: fifo_inv_def)
qed

lemma clear_handle_fields [simp]:
  "ring (clear_handle q h) = ring q" "que_id (clear_handle q h) = que_id q"
  "que_length (clear_handle q h) = que_length q"
  "ring_inv (clear_handle q h) out n = ring_inv q out n"
  by (simp_all add: clear_handle_def ring_inv_def ring_wf_def)

lemma fifo_step_inv:
  assumes "fifo_step k dt vp x y" and "fifo_inv k qid vp L x"
  shows "fifo_inv k qid vp L y"
  using assms
proof (induction rule: fifo_step.induct)
  case (submit p q out qr sp st q' st' ps)
  show ?case by (rule fifo_submit [OF submit(5,1-4)])
next
  case (refuse q out n q' ps)
  then have "ring_inv q out (p_total ps)" by (simp add: fifo_inv_def)
  then have "ring_inv q' out (p_total ps)" using refuse(1) by (rule req_room.room_inv)
  then show ?case using refuse(2) req_room.room_same [OF refuse(1)]
    by (simp add: fifo_inv_def handles_wf_def handle_slots_def)
next
  case (fetch out' out p q ps)
  show ?case by (rule fifo_fetch [OF fetch(2,1)])
next
  case (complete h q out ps)
  then have "handles_wf q" by (simp add: fifo_inv_def)
  then have "handles_wf (clear_handle q h)" using complete(1) by (rule ht.release_inv)
  then show ?case using complete(2) by (simp add: fifo_inv_def)
qed

lemma fifo_reach_inv:
  "fifo_reach k dt vp x y \<Longrightarrow> fifo_inv k qid vp L x \<Longrightarrow> fifo_inv k qid vp L y"
  by (induction rule: fifo_reach.induct) (auto intro: fifo_step_inv)

text \<open>
  C1. The request ring refines a FIFO of commands. From an empty, well-formed queue and through
  any interleaving of submissions (granted or refused), fetches by the firmware and
  completions, the entries from the out index on hold exactly the commands submitted and not
  yet fetched, in order and complete (header, CDB, LUN, every data segment), the free count is
  safe, and the ring never becomes full.
\<close>
theorem ring_refines_fifo:
  assumes "ring_inv q0 out0 0" and "handles_wf q0"
    and "fifo_reach k dt vp (q0, out0, []) (q, out, ps)"
  shows "fifo_layout k (que_id q0) vp (unat (que_length q0)) (unat out) ps (ring q)
    \<and> ring_inv q out (p_total ps) \<and> handles_wf q \<and> que_length q = que_length q0"
proof -
  have "fifo_inv k (que_id q0) vp (unat (que_length q0)) (q0, out0, [])"
    using assms(1,2) by (simp add: fifo_inv_def p_total_def)
  from fifo_reach_inv [OF assms(3) this] show ?thesis by (simp add: fifo_inv_def word_unat_eq_iff)
qed

text \<open>A sample environment: single-level LUNs, identity mapping, no tag message.\<close>

definition sample_kenv :: kenv where
  "sample_kenv = \<lparr>dma_map_sg = (\<lambda>l. l),
     int_to_scsilun = (\<lambda>l. [0, ucast l, 0, 0, 0, 0, 0, 0]),
     scsi_populate_tag_msg = (\<lambda>c. None), req_q_out = (\<lambda>i. 3)\<rparr>"

definition sample_port :: fc_port where
  "sample_port = \<lparr>fc_id = 0, loop_id = 0x81, d_id_domain = 1, d_id_area = 2, d_id_al_pa = 3\<rparr>"

definition sample_pending :: pending where
  "sample_pending = \<lparr>p_fc = sample_port, p_sc = sample_sc, p_handle = 2,
     p_segs = scsi_sglist sample_sc, p_rsp = 0\<rparr>"

definition sample_submitted :: req_que where
  "sample_submitted = fst (qla24xx_load_cmd sample_kenv DT_FWI2 0 0 sample_port 7 sample_sc 2
     (scsi_sglist sample_sc) 2 sample_ring sample_stats)"

lemma sample_pending_ok: "pending_ok sample_kenv sample_pending" "p_iocbs sample_pending = 2"
proof -
  show "pending_ok sample_kenv sample_pending"
    by (simp add: pending_ok_def has_data_def sample_pending_def sample_sc_def sample_kenv_def)
  have "unat (p_iocbs sample_pending) = unat (2 :: u16)"
    by (simp add: p_iocbs_conts sample_pending_def sample_facts conts_def)
  then show "p_iocbs sample_pending = 2" by (rule word_unat_eq_iff [THEN iffD2])
qed

lemma sample_ring_ok:
  "ring_inv sample_ring 3 0" "handles_wf sample_ring" "find_handle sample_ring = Some 2"
  "req_room sample_ring 3 2 = (True, sample_ring)"
  subgoal by (simp add: ring_inv_def sample_ring_wf) (simp add: sample_ring_def)
  subgoal by (simp add: handles_wf_def handle_slots_def sample_ring_def)
  subgoal unfolding find_handle_def by (subst find_handle_loop.simps) (simp add: sample_ring_def)
  subgoal by (simp add: req_room_def sample_ring_def)
  done

theorem ring_refines_fifo_witness:
  "fifo_layout sample_kenv 0 0 4 3 [sample_pending] (ring sample_submitted)"
proof -
  obtain st' where ld: "qla24xx_load_cmd sample_kenv DT_FWI2 0 0 sample_port 7 sample_sc 2
      (scsi_sglist sample_sc) 2 sample_ring sample_stats = (sample_submitted, st')"
    unfolding sample_submitted_def by (metis prod.collapse)
  have "fifo_step sample_kenv DT_FWI2 0 (sample_ring, 3, []) (sample_submitted, 3, [] @ [sample_pending])"
    by (rule fifo_step.submit [OF sample_pending_ok(1), where qr = sample_ring and sp = 7 and
        st = sample_stats and st' = st'])
      (use ld sample_ring_ok sample_pending_ok in \<open>simp_all add: sample_pending_def\<close>)
  then have "fifo_reach sample_kenv DT_FWI2 0 (sample_ring, 3, []) (sample_submitted, 3, [sample_pending])"
    using fifo_reach.intros by (metis append_Nil)
  from ring_refines_fifo [OF sample_ring_ok(1,2) this] show ?thesis
    by (simp add: sample_ring_def)
qed

end
