(* ===== verification/Start_Scsi.thy ===== *)
theory Start_Scsi
  imports Ring_Fifo
begin

text \<open>
  What the submission handlers promise their caller (\<open>qla2xxx_queuecommand\<close>, which retries or
  fails the command on a non-zero return): success exactly when a handle, a DMA mapping and
  room are available; no trace of a refused command; and a complete command behind a doorbell
  otherwise.
\<close>

section \<open>qla24xx_start_scsi\<close>

lemma find_handle_iff:
  assumes "handles_wf q"
  shows "find_handle q \<noteq> None \<longleftrightarrow> (\<exists>hnd \<in> handle_slots q. handle_lookup q hnd = None)"
  using ht.find_free [OF assms] ht.find_full [OF assms] by (cases "find_handle q") auto

lemma set_req_fields [simp]:
  "device_type (set_req i q h) = device_type h" "vp_idx (set_req i q h) = vp_idx h"
  "vha_req (set_req i q h) = vha_req h" "qla_stats (set_req i q h) = qla_stats h"
  "rsp_q_map (set_req i q h) = rsp_q_map h" "done_log (set_req i q h) = done_log h"
  "unmapped (set_req i q h) = unmapped h" "marker_needed (set_req i q h) = marker_needed h"
  "process_response_queue (set_req i q h) = process_response_queue h"
  by (simp_all add: set_req_def)

lemma upd_sp_fields [simp]:
  "device_type (upd_sp sp f h) = device_type h" "vp_idx (upd_sp sp f h) = vp_idx h"
  "vha_req (upd_sp sp f h) = vha_req h" "qla_stats (upd_sp sp f h) = qla_stats h"
  "rsp_q_map (upd_sp sp f h) = rsp_q_map h" "done_log (upd_sp sp f h) = done_log h"
  "unmapped (upd_sp sp f h) = unmapped h" "req_q_map (upd_sp sp f h) = req_q_map h"
  by (simp_all add: upd_sp_def)

lemma get_req_fields [simp]:
  "get_req i (h\<lparr>qla_stats := st\<rparr>) = get_req i h" "get_req i (h\<lparr>unmapped := u\<rparr>) = get_req i h"
  "get_req i (h\<lparr>marker_needed := b\<rparr>) = get_req i h" "get_req i (h\<lparr>nxdb_wr := d\<rparr>) = get_req i h"
  by (simp_all add: get_req_def)

lemma get_req_unmapped: "get_req i (h\<lparr>unmapped := u\<rparr>) = get_req i h"
  by (simp add: get_req_def)

lemma note_handle_simps [simp]:
  "get_req i (note_handle sp hnd h) = get_req i h" "get_rsp i (note_handle sp hnd h) = get_rsp i h"
  "device_type (note_handle sp hnd h) = device_type h" "vp_idx (note_handle sp hnd h) = vp_idx h"
  "qla_stats (note_handle sp hnd h) = qla_stats h"
  "fcport (srbs (note_handle sp hnd h) x) = fcport (srbs h x)"
  by (simp_all add: note_handle_def)

text \<open>The command as the handler has it when the entry is filled.\<close>

definition started_cmd :: "host \<Rightarrow> sp_ptr \<Rightarrow> u32 \<Rightarrow> scsi_cmnd" where
  "started_cmd h sp hnd = (cmd (srbs h sp))\<lparr>host_scribble := hnd\<rparr>"

lemma cmd_note_handle: "cmd (srbs (note_handle sp hnd h) sp) = started_cmd h sp hnd"
  by (simp add: note_handle_def started_cmd_def)

lemma start_24xx_cases:
  assumes "\<not> marker_needed h" and "qla24xx_start_scsi process k sp h = (rv, h')"
  obtains (no_handle) "find_handle (get_req (vha_req h) h) = None" "rv = QLA_FUNCTION_FAILED" "h' = h"
  | (no_map) "find_handle (get_req (vha_req h) h) \<noteq> None" "map_cmd k (cmd (srbs h sp)) = None"
      "rv = QLA_FUNCTION_FAILED" "h' = h"
  | (no_room) segs q1 where "find_handle (get_req (vha_req h) h) \<noteq> None"
      "map_cmd k (cmd (srbs h sp)) = Some segs"
      "req_room (get_req (vha_req h) h) (req_q_out k (que_id (get_req (vha_req h) h)))
        (qla24xx_calc_iocbs (of_nat (length segs))) = (False, q1)"
      "rv = QLA_FUNCTION_FAILED" "h' = queue_unmap sp segs (set_req (vha_req h) q1 h)"
  | (queued) hnd segs q1 q2 st where "find_handle (get_req (vha_req h) h) = Some hnd"
      "map_cmd k (cmd (srbs h sp)) = Some segs"
      "req_room (get_req (vha_req h) h) (req_q_out k (que_id (get_req (vha_req h) h)))
        (qla24xx_calc_iocbs (of_nat (length segs))) = (True, q1)"
      "qla24xx_load_cmd k (device_type h) (vp_idx h)
        (rsp_id (get_rsp (qla25xx_set_que (srbs h sp) h) h)) (fcport (srbs h sp)) sp
        (started_cmd h sp hnd) hnd segs (qla24xx_calc_iocbs (of_nat (length segs))) q1 (qla_stats h)
        = (q2, st)"
      "rv = QLA_SUCCESS"
      "h' = poll_rsp process (qla25xx_set_que (srbs h sp) h)
        (upd_sp sp (\<lambda>s. s\<lparr>sp_flags := sp_flags s OR SRB_DMA_VALID\<rparr>)
          ((set_req (vha_req h) q2 (note_handle sp hnd h))\<lparr>qla_stats := st\<rparr>))"
  using assms
  by (force simp: qla24xx_start_scsi_def send_marker_def Let_def cmd_note_handle
      split: option.splits prod.splits if_splits)



lemma started_cmd_simps [simp]:
  "cmd_len (started_cmd h sp hnd) = cmd_len (cmd (srbs h sp))"
  "cmnd (started_cmd h sp hnd) = cmnd (cmd (srbs h sp))"
  "lun (started_cmd h sp hnd) = lun (cmd (srbs h sp))"
  "has_data (started_cmd h sp hnd) = has_data (cmd (srbs h sp))"
  "scsi_bufflen (started_cmd h sp hnd) = scsi_bufflen (cmd (srbs h sp))"
  by (simp_all add: started_cmd_def has_data_def)

text \<open>The state right after the doorbell, before the response queue is polled.\<close>

definition queued_24xx ::
    "kenv \<Rightarrow> sp_ptr \<Rightarrow> nat \<Rightarrow> host \<Rightarrow> u32 \<Rightarrow> sg list \<Rightarrow> host \<Rightarrow> bool" where
  "queued_24xx k sp pend h hnd segs h2 \<longleftrightarrow>
     (let q = get_req (vha_req h) h; q2 = get_req (vha_req h) h2;
          n = qla24xx_calc_iocbs (of_nat (length segs)); L = unat (que_length q)
      in hnd \<in> handle_slots q \<and> handle_lookup q hnd = None
       \<and> map_cmd k (cmd (srbs h sp)) = Some segs
       \<and> ct7_request k (que_id q) (vp_idx h) (rsp_id (get_rsp (qla25xx_set_que (srbs h sp) h) h))
           (fcport (srbs h sp)) (started_cmd h sp hnd) hnd segs n L (ring_ptr q) (ring q2)
       \<and> ring_inv q2 (req_q_out k (que_id q)) (pend + unat n) \<and> handles_wf q2
       \<and> req_q_in q2 = ring_index q2
       \<and> (\<forall>x \<in> handle_slots q. handle_lookup q2 x = (if x = hnd then Some sp else handle_lookup q x))
       \<and> (\<forall>i. i div 16 \<in> cmd_slots L (unat (req_q_out k (que_id q))) pend \<longrightarrow> ring q2 ! i = ring q ! i)
       \<and> sp_handle (srbs h2 sp) = hnd \<and> sp_flags (srbs h2 sp) = sp_flags (srbs h sp) OR SRB_DMA_VALID
       \<and> done_log h2 = done_log h \<and> unmapped h2 = unmapped h)"

text \<open>
  C2. A successful \<open>qla24xx_start_scsi\<close> has put the command under a handle that was free, noted
  the handle in the command block, built a complete type 7 request at the ring pointer without
  touching any entry the firmware has still to fetch, and rung the doorbell with the new index;
  all of this before the response queue is polled.
\<close>
theorem start_24xx_success_queued:
  assumes "\<not> marker_needed h" and "handles_wf (get_req (vha_req h) h)"
    and "ring_inv (get_req (vha_req h) h) (req_q_out k (que_id (get_req (vha_req h) h))) pend"
    and "qla24xx_start_scsi process k sp h = (QLA_SUCCESS, h')"
    and "unat (cmd_len (cmd (srbs h sp))) \<le> 16"
    and "length (int_to_scsilun k (lun (cmd (srbs h sp)))) = 8"
    and "\<forall>segs. map_cmd k (cmd (srbs h sp)) = Some segs \<longrightarrow> length segs < 65536
           \<and> (has_data (cmd (srbs h sp)) \<or> segs = [])"
  shows "\<exists>hnd segs h2. queued_24xx k sp pend h hnd segs h2
    \<and> h' = poll_rsp process (qla25xx_set_que (srbs h sp) h) h2"
  using assms(1,4)
proof (cases rule: start_24xx_cases)
  case (queued hnd segs q1 q2 st)
  let ?q = "get_req (vha_req h) h" and ?n = "qla24xx_calc_iocbs (of_nat (length segs))"
  let ?h2 = "upd_sp sp (\<lambda>s. s\<lparr>sp_flags := sp_flags s OR SRB_DMA_VALID\<rparr>)
          ((set_req (vha_req h) q2 (note_handle sp hnd h))\<lparr>qla_stats := st\<rparr>)"
  note sm = req_room.room_same [OF queued(3)]
  note ri1 = req_room.room_inv [OF assms(3) queued(3)]
  have wf1: "ring_wf q1" using ri1 by (simp add: ring_inv_def)
  have fit: "unat ?n \<le> unat (que_length q1)"
    using req_room.granted [OF assms(3) queued(3)] sm by simp
  have pre: "has_data (started_cmd h sp hnd) \<or> segs = []" "length segs < 65536"
    "unat (cmd_len (started_cmd h sp hnd)) \<le> 16"
    "length (int_to_scsilun k (lun (started_cmd h sp hnd))) = 8"
    using assms(5-7) queued(2) by auto
  note ld = load_24xx [OF wf1 pre(1,2) refl fit pre(3,4) queued(4), unfolded sm]
  have inv2: "ring_inv q2 (req_q_out k (que_id ?q)) (pend + unat ?n)"
    using ld by (intro req_room.taken_inv [OF assms(3) queued(3)]) auto
  have free: "hnd \<in> handle_slots ?q" "handle_lookup ?q hnd = None"
    using ht.find_free [OF assms(2) queued(1)] by auto
  have tab: "outstanding_cmds q2 = outstanding_cmds (put_handle ?q hnd sp)"
    "num_outstanding_cmds q2 = num_outstanding_cmds ?q" "current_outstanding_cmd q2 = hnd"
    using ld by (simp_all add: put_handle_def)
  have hw2: "handles_wf q2"
    using assms(2) free tab by (simp add: handles_wf_def handle_slots_def put_handle_def)
  have look: "handle_lookup q2 x = (if x = hnd then Some sp else handle_lookup ?q x)"
    if "x \<in> handle_slots ?q" for x
    using ht.store_lookup [OF assms(2) free(1) that, of sp] tab by (simp add: handle_lookup_def)
  have keep: "ring q2 ! i = ring ?q ! i"
    if "i div 16 \<in> cmd_slots (unat (que_length ?q)) (unat (req_q_out k (que_id ?q))) pend" for i
    using ld(2) req_room.granted_free [OF assms(3) queued(3)] that by blast
  have "queued_24xx k sp pend h hnd segs ?h2"
    unfolding queued_24xx_def Let_def
    using free queued(2) ld inv2 hw2 look keep
    by (simp add: note_handle_def)
  then show ?thesis using queued(6) by blast
qed (auto simp: QLA_SUCCESS_def QLA_FUNCTION_FAILED_def)

section \<open>Sample adapter\<close>

definition sample_bsg :: bsg_job where
  "sample_bsg = \<lparr>bsg_req_sgs = [], bsg_req_len = 0, bsg_rep_sgs = [], bsg_rep_len = 0,
     bsg_els_code = 0, bsg_command_code = 0, reply_len = 0, reply_payload_rcv_len = 0,
     ctels_status = 0, vendor_rsp0 = 0, sense_fw_status = []\<rparr>"

definition sample_srb :: srb where
  "sample_srb = \<lparr>sp_handle = 0, sp_flags = 0, sp_type = SRB_SCSI_CMD, sp_iocbs = 1,
     logio_flags = 0, tmf_flags = 0, tmf_lun = 0, abt_cmd_hndl = 0, sp_bsg = sample_bsg,
     fcport = sample_port, cmd_present = True, cmd = sample_sc, request_sense_length = 0,
     request_sense_ptr = 0, logio_data0 = 0, logio_data1 = 0, tmf_data = 0, abt_comp_status = 0\<rparr>"

definition sample_rsp :: rsp_que where
  "sample_rsp = \<lparr>rsp_ring = replicate 64 0xDEADDEAD, rsp_ring_ptr = 0, rsp_ring_index = 0,
     rsp_length = 4, rsp_id = 0, status_srb = None, rsp_req = 0, rsp_q_out = 0\<rparr>"

definition sample_fc_state :: fc_state where
  "sample_fc_state = \<lparr>fcport_state = 4, fc_vp_idx = 0, has_rport = True, drport = False,
     rport_deleted = False, login_retry = 0, port_type = 5, fc_flags = 0, supported_classes = 0,
     retry_delay_timestamp = 0\<rparr>"

definition sample_host :: host where
  "sample_host = \<lparr>device_type = DT_FWI2, mqenable = False, enable_64bit_addressing = True,
     portnum = 0, vp_idx = 0, marker_needed = False, process_response_queue = False,
     cpu_affinity_enabled = False, max_rsp_queues = 1, vha_req = 0,
     req_q_map = [0 \<mapsto> sample_ring], rsp_q_map = [0 \<mapsto> sample_rsp], srbs = (\<lambda>i. sample_srb),
     qla_stats = sample_stats, dpc_flags = 0, r_a_tov = 100, login_timeout = 20,
     vha_loop_id = 0x7C, vha_d_id = (1, 2, 0xEF), async_pd_dma = 0, nxdb_wr = 0,
     done_log = [], unmapped = [], vha_online = True, max_req_queues = 1,
     req_qid_map = (\<lambda>i. i = 0), fc_states = (\<lambda>i. sample_fc_state), login_retry_count = 30,
     vps = [], vha_port_name = [], init_cb_port_name = []\<rparr>"

lemma sample_host_facts [simp]:
  "\<not> marker_needed sample_host" "vha_req sample_host = 0" "get_req 0 sample_host = sample_ring"
  "srbs sample_host sp = sample_srb" "cmd sample_srb = sample_sc" "done_log sample_host = []"
  "que_id sample_ring = 0" "req_q_out sample_kenv i = 3" "unmapped sample_host = []"
  "map_cmd sample_kenv sample_sc = Some (scsi_sglist sample_sc)" "has_data sample_sc"
  "cmd_len sample_sc = 10" "length (int_to_scsilun sample_kenv l) = 8"
  by (simp_all add: sample_host_def sample_srb_def sample_kenv_def get_req_def map_cmd_def
      sample_sc_def sample_ring_def has_data_def)

lemma sample_slot_free:
  "\<exists>hnd \<in> handle_slots sample_ring. handle_lookup sample_ring hnd = None"
  by (rule bexI [of _ 2]) (simp_all add: handle_slots_def handle_lookup_def sample_ring_def)

lemma sample_calc_word: "qla24xx_calc_iocbs 5 = 2"
proof -
  have "unat (qla24xx_calc_iocbs 5) = unat (2 :: u16)"
    by (simp add: unat_calc_iocbs_24xx conts_def)
  then show ?thesis by (rule word_unat_eq_iff [THEN iffD2])
qed

lemma sample_calc [simp]: "unat (qla24xx_calc_iocbs 5) = 2"
  by (simp add: unat_calc_iocbs_24xx conts_def)


theorem start_24xx_success_queued_witness:
  "\<exists>hnd segs h2. queued_24xx sample_kenv 7 0 sample_host hnd segs h2"
proof -
  have "fst (qla24xx_start_scsi (\<lambda>r h. h) sample_kenv 7 sample_host) = QLA_SUCCESS"
    by (simp add: qla24xx_start_scsi_def send_marker_def Let_def sample_ring_ok sample_facts
        numeral_eq_Suc sample_calc_word split: prod.splits)
  then obtain h' where "qla24xx_start_scsi (\<lambda>r h. h) sample_kenv 7 sample_host = (QLA_SUCCESS, h')"
    by (metis prod.collapse)
  from start_24xx_success_queued [OF _ _ _ this, where pend = 0] show ?thesis
    using sample_ring_ok by (auto simp: sample_facts)
qed

text \<open>The same adapter with a mapping that fails.\<close>

definition nomap_kenv :: kenv where
  "nomap_kenv = sample_kenv\<lparr>dma_map_sg := (\<lambda>l. [])\<rparr>"


end
