(* ===== verification/Control_Props.thy ===== *)
theory Control_Props
  imports Start_Scsi
begin

text \<open>
  What the control path guarantees: a successful allocation hands out a cleared entry that is
  not pending and touches nothing else; the two ways in which \<open>qla2x00_alloc_iocbs\<close> departs from
  the discipline of the SCSI paths (no reserve, and a handle entered in the table before the
  room check); and the entry that \<open>qla2x00_start_sp\<close> builds for a login.
\<close>

section \<open>Allocation\<close>

lemma ring_advance_index:
  "ring_index (ring_advance q) =
     (if ring_index q + 1 = que_length q then 0 else ring_index q + 1)"
  by (simp add: ring_advance_def Let_def)

lemma entry_cleared:
  assumes "16 * s + 16 \<le> length m"
  shows "\<forall>i. i div 16 \<noteq> s \<longrightarrow>
      put32 s HANDLE_OFF hnd (put8 s ENTRY_COUNT_OFF n (zero_words (16 * s) 16 m)) ! i = m ! i"
  by (auto simp: put_div_other zero_words_nth)

text \<open>
  A granted allocation for a marker or a control command: the entry is the one at the ring
  pointer, it is not one the firmware has still to fetch, it is all zero but for its count and
  handle, and no word of another entry changes.
\<close>
theorem alloc_iocbs_grants_free_entry:
  assumes "ring_inv (get_req 0 h) (req_q_out k (que_id (get_req 0 h))) pend"
    and "\<not> IS_QLAFX00 (device_type h)"
    and "qla2x00_alloc_iocbs k None h = (Some s, h')"
  shows "s = ring_ptr (get_req 0 h)
    \<and> s \<notin> cmd_slots (unat (que_length (get_req 0 h))) (unat (req_q_out k (que_id (get_req 0 h)))) pend
    \<and> get8 s ENTRY_COUNT_OFF (ring (get_req 0 h')) = 1 \<and> get32 s HANDLE_OFF (ring (get_req 0 h')) = 0
    \<and> (\<forall>j < 16. j \<noteq> 0 \<longrightarrow> j \<noteq> 1 \<longrightarrow> ring (get_req 0 h') ! (16 * s + j) = 0)
    \<and> (\<forall>i. i div 16 \<noteq> s \<longrightarrow> ring (get_req 0 h') ! i = ring (get_req 0 h) ! i)"
proof -
  let ?q = "get_req 0 h"
  obtain q1 where room: "alloc_room ?q (req_q_out k (que_id ?q)) 1 = (True, q1)"
    and s: "s = ring_ptr q1" and h': "ring (get_req 0 h') = put32 s HANDLE_OFF 0
      (put8 s ENTRY_COUNT_OFF 1 (zero_words (16 * s) 16 (ring q1)))"
    using assms(2,3)
    by (auto simp: qla2x00_alloc_iocbs_def Let_def split: prod.splits if_splits)
  note sm = alloc_room.room_same [OF room]
  have wf: "ring_wf ?q" using assms(1) by (simp add: ring_inv_def)
  have s': "s = ring_ptr ?q" using s sm by simp
  have len: "16 * s + 16 \<le> length (ring ?q)" using slot_in_ring [OF wf, of 15] s' by simp
  have L: "s < unat (que_length ?q)" using wf s' by (simp add: ring_wf_def word_less_nat_alt)
  have "s \<in> cmd_slots (unat (que_length ?q)) s (unat (1 :: u16))"
    using L by (auto simp: cmd_slots_def)
  then have "s \<notin> cmd_slots (unat (que_length ?q)) (unat (req_q_out k (que_id ?q))) pend"
    using alloc_room.granted_free [OF assms(1) room] s' by blast
  moreover have "ring (get_req 0 h') ! (16 * s + j) = 0" if "j < 16" "j \<noteq> 0" "j \<noteq> 1" for j
    using that len sm unfolding h' by (simp add: zero_words_nth)
  ultimately show ?thesis using s' entry_cleared [OF len, of 0 1] len sm unfolding h'
    by (simp add: entry_simps)
qed

text \<open>
  Without a reserve the ring can become full: with one entry left, the marker is still
  granted, the in index meets the firmware's out index as if the ring were empty, and the next
  head-room computation believes the whole ring to be free.
\<close>
theorem marker_can_fill_ring:
  assumes "ring_inv (get_req 0 h) (req_q_out k (que_id (get_req 0 h))) pend"
    and "pend + 1 = unat (que_length (get_req 0 h))" and "\<not> IS_P3P_TYPE (device_type h)"
    and "qla2x00_marker k l luna MK_SYNC_ALL h = (rv, h')"
  shows "rv = QLA_SUCCESS
    \<and> ring_index (get_req 0 h') = req_q_out k (que_id (get_req 0 h))
    \<and> ring_free (get_req 0 h') (req_q_out k (que_id (get_req 0 h))) = que_length (get_req 0 h')"
proof -
  let ?q = "get_req 0 h" and ?out = "req_q_out k (que_id (get_req 0 h))"
  have wf: "ring_wf ?q" using assms(1) by (simp add: ring_inv_def)
  obtain b q1 where room: "alloc_room ?q ?out 1 = (b, q1)" by fastforce
  have b: "b" using alloc_room.room_refused [OF assms(1), of 1 q1] room assms(2) by (cases b) auto
  note sm = alloc_room.room_same [OF room]
  obtain m c where h': "get_req 0 h' = ring_doorbell (q1\<lparr>cnt := c, ring := m\<rparr>)" and rv: "rv = QLA_SUCCESS"
    using assms(3,4) room b
    by (auto simp: qla2x00_marker_def qla2x00_alloc_iocbs_def qla2x00_start_iocbs_def Let_def)
  have idx: "ring_index (get_req 0 h') = ring_index (ring_advance ?q)"
    "que_length (get_req 0 h') = que_length ?q"
    using sm unfolding h' ring_doorbell_def Let_def by (simp_all add: ring_advance_index)
  have "ring_ptr (ring_advance ?q) = Suc (ring_ptr ?q) mod unat (que_length ?q)"
    by (rule ring_advance_ptr [OF wf])
  moreover have "ring_ptr ?q = (unat ?out + pend) mod unat (que_length ?q)"
    and "unat ?out < unat (que_length ?q)"
    using assms(1) by (auto simp: ring_inv_def word_less_nat_alt)
  ultimately have "ring_ptr (ring_advance ?q) = (unat ?out + unat (que_length ?q)) mod unat (que_length ?q)"
    using assms(2) by (metis Suc_eq_plus1 add.assoc mod_Suc_eq)
  then have "ring_ptr (ring_advance ?q) = unat ?out"
    using \<open>unat ?out < unat (que_length ?q)\<close> by simp
  then have out: "ring_index (ring_advance ?q) = ?out"
    using ring_advance_ptr(1) [OF wf] by (simp add: ring_wf_def word_unat_eq_iff)
  then show ?thesis using idx rv by (simp add: ring_free_def)
qed

text \<open>
  An allocation that finds a handle but no room returns nothing, and yet leaves the command
  in the table under that handle: the caller, told of a failure, frees a command the table
  still refers to.
\<close>
theorem alloc_iocbs_leaves_handle:
  assumes "handles_wf (get_req 0 h)" and "find_handle (get_req 0 h) = Some hnd"
    and "ring_inv (get_req 0 h) (req_q_out k (que_id (get_req 0 h))) pend"
    and "sp_type (srbs h sp) \<noteq> SRB_SCSI_CMD"
    and "unat (que_length (get_req 0 h)) < pend + unat (sp_iocbs (srbs h sp))"
    and "qla2x00_start_sp fx k sp h = (rv, h')"
  shows "rv = QLA_FUNCTION_FAILED \<and> handle_lookup (get_req 0 h') hnd = Some sp
    \<and> handle_lookup (get_req 0 h) hnd = None"
proof -
  let ?q = "put_handle (get_req 0 h) hnd sp" and ?out = "req_q_out k (que_id (get_req 0 h))"
  let ?n = "sp_iocbs (srbs h sp)"
  have inv: "ring_inv ?q ?out pend"
    using assms(3) by (simp add: put_handle_def ring_inv_def ring_wf_def)
  obtain b q1 where room: "alloc_room ?q ?out ?n = (b, q1)" by fastforce
  have nb: "\<not> b" using alloc_room.granted [OF inv, of ?n q1] room assms(5)
    by (cases b) (auto simp: put_handle_def)
  have look: "handle_lookup ?q hnd = Some sp"
    using ht.store_then_lookup(1) [OF assms(1,2)] .
  have "qla2x00_start_sp fx k sp h = (QLA_FUNCTION_FAILED,
      set_req 0 q1 (upd_sp sp (\<lambda>s. s\<lparr>sp_handle := hnd\<rparr>) (set_req 0 ?q h)))"
    using assms(2,4) room nb
    by (simp add: qla2x00_start_sp_def qla2x00_alloc_iocbs_def Let_def put_handle_def)
  then show ?thesis using assms(6) look alloc_room.room_same [OF room] ht.find_free [OF assms(1,2)]
    by (auto simp: handle_lookup_def)
qed

section \<open>Fabric login\<close>

lemma start_iocbs_ring [simp]:
  "ring (get_req 0 (qla2x00_start_iocbs 0 h)) = ring (get_req 0 h)"
  "outstanding_cmds (get_req 0 (qla2x00_start_iocbs 0 h)) = outstanding_cmds (get_req 0 h)"
  "srbs (qla2x00_start_iocbs 0 h) = srbs h"
  by (simp_all add: qla2x00_start_iocbs_def qla82xx_start_iocbs_def ring_doorbell_def Let_def)

definition login_flags :: "u16 \<Rightarrow> u16" where
  "login_flags f = LCF_COMMAND_PLOGI
     OR (if f AND SRB_LOGIN_COND_PLOGI \<noteq> 0 then LCF_COND_PLOGI else 0)
     OR (if f AND SRB_LOGIN_SKIP_PRLI \<noteq> 0 then LCF_SKIP_PRLI else 0)"

lemma login_24xx_fields:
  assumes "16 * s + 16 \<le> length m"
  shows "get8 s 0 (qla24xx_login_iocb h sp s m) = LOGINOUT_PORT_IOCB_TYPE"
    "get8 s 1 (qla24xx_login_iocb h sp s m) = get8 s 1 m"
    "get32 s 4 (qla24xx_login_iocb h sp s m) = get32 s 4 m"
    "get16 s 10 (qla24xx_login_iocb h sp s m) = loop_id (fcport sp)"
    "get16 s 12 (qla24xx_login_iocb h sp s m) = login_flags (logio_flags sp)"
    "get8 s 14 (qla24xx_login_iocb h sp s m) = ucast (vp_idx h)"
    "get8 s 16 (qla24xx_login_iocb h sp s m) = d_id_al_pa (fcport sp)"
    "get8 s 17 (qla24xx_login_iocb h sp s m) = d_id_area (fcport sp)"
    "get8 s 18 (qla24xx_login_iocb h sp s m) = d_id_domain (fcport sp)"
  using assms
  by (simp_all add: qla24xx_login_iocb_def put_port_id_def Let_def entry_simps login_flags_def
      get8_put16_other get16_put8_other or.assoc)

text \<open>
  A login started on an FWI2 adapter: the command is in the table under its handle, and the
  entry at the ring pointer carries that handle, the port's loop id and port id, and the login
  options the caller asked for.
\<close>
theorem start_sp_login_entry:
  assumes "ring_wf (get_req 0 h)" and "handles_wf (get_req 0 h)"
    and "IS_FWI2_CAPABLE (device_type h)" and "\<not> IS_QLAFX00 (device_type h)"
    and "sp_type (srbs h sp) = SRB_LOGIN_CMD" and "qla2x00_start_sp fx k sp h = (QLA_SUCCESS, h')"
    and "s = ring_ptr (get_req 0 h)" and "m = ring (get_req 0 h')" and "p = fcport (srbs h sp)"
  shows "handle_lookup (get_req 0 h') (sp_handle (srbs h' sp)) = Some sp
    \<and> get8 s ENTRY_TYPE_OFF m = LOGINOUT_PORT_IOCB_TYPE
    \<and> get8 s ENTRY_COUNT_OFF m = ucast (sp_iocbs (srbs h sp))
    \<and> get32 s HANDLE_OFF m = sp_handle (srbs h' sp)
    \<and> get16 s 10 m = loop_id p \<and> get16 s 12 m = login_flags (logio_flags (srbs h sp))
    \<and> get8 s 14 m = ucast (vp_idx h)
    \<and> (get8 s 16 m, get8 s 17 m, get8 s 18 m) = (d_id_al_pa p, d_id_area p, d_id_domain p)"
proof -
  let ?out = "req_q_out k (que_id (get_req 0 h))" and ?n = "sp_iocbs (srbs h sp)"
  have ty: "sp_type (srbs h sp) \<noteq> SRB_SCSI_CMD" using assms(5) by (simp add: srb_consts)
  obtain hnd where f: "find_handle (get_req 0 h) = Some hnd"
    using assms(6) by (cases "find_handle (get_req 0 h)")
      (auto simp: qla2x00_start_sp_def qla2x00_alloc_iocbs_def QLA_SUCCESS_def QLA_FUNCTION_FAILED_def)
  let ?q = "put_handle (get_req 0 h) hnd sp"
  obtain b q1 where room: "alloc_room ?q ?out ?n = (b, q1)" by fastforce
  have que: "que_id ?q = que_id (get_req 0 h)" by (simp add: put_handle_def)
  have b: b using assms(6) f room ty que
    by (cases b) (auto simp: qla2x00_start_sp_def qla2x00_alloc_iocbs_def Let_def QLA_SUCCESS_def
        QLA_FUNCTION_FAILED_def)
  note sm = alloc_room.room_same [OF room]
  have s: "ring_ptr q1 = s" using sm assms(7) by (simp add: put_handle_def)
  have len: "16 * s + 16 \<le> length (ring q1)"
    using slot_in_ring [OF assms(1), of 15] sm assms(7) by (simp add: put_handle_def)
  let ?h1 = "upd_sp sp (\<lambda>s. s\<lparr>sp_handle := hnd\<rparr>) (set_req 0 ?q h)"
  let ?m = "put32 s HANDLE_OFF hnd (put8 s ENTRY_COUNT_OFF (ucast ?n) (zero_words (16 * s) 16 (ring q1)))"
  let ?h2 = "set_req 0 (q1\<lparr>cnt := cnt q1 - ?n, ring := ?m\<rparr>) ?h1"
  have m: "m = qla24xx_login_iocb ?h2 (srbs ?h2 sp) s ?m"
    and tab: "outstanding_cmds (get_req 0 h') = outstanding_cmds ?q"
    and sp: "sp_handle (srbs h' sp) = hnd"
    using assms(3-6,8) f room b ty que s sm(5)
    by (auto simp: qla2x00_start_sp_def qla2x00_alloc_iocbs_def start_sp_entry_def Let_def)
  have "16 * s + 16 \<le> length ?m" using len by simp
  note fields = login_24xx_fields [OF this, where h = ?h2 and sp = "srbs ?h2 sp", folded m]
  have "handle_lookup (get_req 0 h') hnd = Some sp"
    using ht.store_then_lookup(1) [OF assms(2) f, of sp] tab by (simp add: handle_lookup_def)
  then show ?thesis using fields sp assms(9) len by (simp add: entry_simps)
qed

section \<open>Samples\<close>

text \<open>Queue 0 with three entries pending, one left.\<close>

definition nearly_full_host :: host where
  "nearly_full_host = (set_req 0 (sample_ring\<lparr>ring_ptr := 2, ring_index := 2, cnt := 1\<rparr>) sample_host)
     \<lparr>srbs := (\<lambda>i. sample_srb\<lparr>sp_type := SRB_LOGIN_CMD, sp_iocbs := 2\<rparr>)\<rparr>"

definition login_host :: host where
  "login_host = sample_host\<lparr>srbs := (\<lambda>i. sample_srb\<lparr>sp_type := SRB_LOGIN_CMD, sp_iocbs := 1\<rparr>)\<rparr>"

lemma nearly_full_req:
  "get_req 0 nearly_full_host = sample_ring\<lparr>ring_ptr := 2, ring_index := 2, cnt := 1\<rparr>"
  by (simp add: nearly_full_host_def get_req_def set_req_def)

lemma nearly_full_facts:
  "ring_inv (get_req 0 nearly_full_host) (req_q_out sample_kenv (que_id (get_req 0 nearly_full_host))) 3"
  "handles_wf (get_req 0 nearly_full_host)" "find_handle (get_req 0 nearly_full_host) = Some 2"
  "unat (que_length (get_req 0 nearly_full_host)) = 4"
  "\<not> IS_QLAFX00 (device_type nearly_full_host)" "\<not> IS_P3P_TYPE (device_type nearly_full_host)"
  "sp_type (srbs nearly_full_host 7) \<noteq> SRB_SCSI_CMD" "sp_iocbs (srbs nearly_full_host 7) = 2"
  subgoal by (simp add: nearly_full_req ring_inv_def ring_wf_def) (simp add: sample_ring_def)
  subgoal by (simp add: nearly_full_req handles_wf_def handle_slots_def) (simp add: sample_ring_def)
  subgoal unfolding find_handle_def nearly_full_req
    by (subst find_handle_loop.simps) (simp add: sample_ring_def)
  subgoal by (simp add: nearly_full_req) (simp add: sample_ring_def)
  by (simp_all add: nearly_full_host_def set_req_def sample_host_def dt_defs srb_consts)

theorem marker_can_fill_ring_witness:
  "ring_free (get_req 0 (snd (qla2x00_marker sample_kenv 0 0 MK_SYNC_ALL nearly_full_host))) 3 = 4"
proof -
  have q: "req_q_out sample_kenv (que_id (get_req 0 nearly_full_host)) = 3"
    by (simp add: sample_kenv_def)
  have l: "que_length (get_req 0 (snd (qla2x00_marker sample_kenv 0 0 MK_SYNC_ALL nearly_full_host))) = 4"
    using nearly_full_facts(6)
    by (simp add: qla2x00_marker_def qla2x00_alloc_iocbs_def qla2x00_start_iocbs_def ring_doorbell_def
        alloc_room_def Let_def nearly_full_req split: prod.splits) (simp add: sample_ring_def)
  show ?thesis
    using marker_can_fill_ring [OF nearly_full_facts(1) _ nearly_full_facts(6)
        prod.collapse [symmetric], of 0 0] nearly_full_facts(4) q l by simp
qed

theorem alloc_iocbs_leaves_handle_witness:
  "handle_lookup (get_req 0 (snd (qla2x00_start_sp (\<lambda>h sp s q. q) sample_kenv 7 nearly_full_host))) 2
     = Some 7"
  using alloc_iocbs_leaves_handle [OF nearly_full_facts(2,3,1,7) _ prod.collapse [symmetric]]
    nearly_full_facts(4,8) by simp

theorem alloc_iocbs_grants_witness:
  "ring_ptr sample_ring \<notin> cmd_slots 4 3 0
    \<and> fst (qla2x00_alloc_iocbs sample_kenv None sample_host) = Some 3"
proof -
  have d: "\<not> IS_QLAFX00 (device_type sample_host)" by (simp add: sample_host_def dt_defs)
  have e: "fst (qla2x00_alloc_iocbs sample_kenv None sample_host) = Some 3"
    using sample_ring_ok by (simp add: qla2x00_alloc_iocbs_def alloc_room_def Let_def)
      (simp add: sample_ring_def)
  then have "qla2x00_alloc_iocbs sample_kenv None sample_host
      = (Some 3, snd (qla2x00_alloc_iocbs sample_kenv None sample_host))"
    by (metis prod.collapse)
  from alloc_iocbs_grants_free_entry [OF _ d this, of 0] e sample_ring_ok(1) show ?thesis
    by (simp add: sample_facts)
qed

theorem start_sp_login_entry_witness:
  "get16 3 10 (ring (get_req 0 (snd (qla2x00_start_sp (\<lambda>h sp s q. q) sample_kenv 7 login_host)))) = 0x81"
proof -
  have f: "get_req 0 login_host = sample_ring" "IS_FWI2_CAPABLE (device_type login_host)"
    "\<not> IS_QLAFX00 (device_type login_host)" "sp_type (srbs login_host 7) = SRB_LOGIN_CMD"
    "sp_iocbs (srbs login_host 7) = 1" "loop_id (fcport (srbs login_host 7)) = 0x81"
    by (simp_all add: login_host_def get_req_def sample_host_def dt_defs sample_srb_def sample_port_def)
  have room: "alloc_room (put_handle sample_ring 2 7) 3 1 = (True, put_handle sample_ring 2 7)"
    by (simp add: alloc_room_def put_handle_def sample_ring_def)
  have e: "fst (qla2x00_start_sp (\<lambda>h sp s q. q) sample_kenv 7 login_host) = QLA_SUCCESS"
    using f sample_ring_ok(3) room
    by (simp add: qla2x00_start_sp_def qla2x00_alloc_iocbs_def Let_def srb_consts put_handle_def
        split: prod.splits)
  have "qla2x00_start_sp (\<lambda>h sp s q. q) sample_kenv 7 login_host
      = (QLA_SUCCESS, snd (qla2x00_start_sp (\<lambda>h sp s q. q) sample_kenv 7 login_host))"
    by (metis e prod.collapse)
  from start_sp_login_entry [OF _ _ f(2-4) this refl refl refl] show ?thesis
    using f sample_ring_ok sample_ring_wf by (simp add: sample_facts)
qed

end
