(* ===== verification/Fwdt_Template.thy ===== *)
theory Fwdt_Template
  imports Qla_Types
begin

text \<open>
  The firmware-dump template engine of the ISP27xx (qla_tmpl.c, qla_tmpl.h). A template is a
  list of packed entries in a byte buffer. The walk runs twice over the same code: without a
  buffer, to compute how large a dump can get, and with the dump buffer, to capture it. The
  state of a walk is the byte memory the template lies in, the length \<open>*len\<close> accumulated so far
  and the hardware; \<open>real\<close> says whether \<open>buf\<close> is non-NULL (it then is the buffer the template was
  copied to, \<open>tmp\<close> itself). Lengths are natural numbers: \<open>ulong\<close> has 64 bits. A write past the
  end of the memory is dropped by the model; that none happens is a theorem.
\<close>

section \<open>Bytes\<close>

definition rd8 :: "u8 list \<Rightarrow> nat \<Rightarrow> u8" where
  "rd8 m p = nth_default 0 m p"

definition rd16 :: "u8 list \<Rightarrow> nat \<Rightarrow> u16" where
  "rd16 m p = ucast (rd8 m p) OR push_bit 8 (ucast (rd8 m (p + 1)))"

definition rd32 :: "u8 list \<Rightarrow> nat \<Rightarrow> u32" where
  "rd32 m p = ucast (rd8 m p) OR push_bit 8 (ucast (rd8 m (p + 1)))
     OR push_bit 16 (ucast (rd8 m (p + 2))) OR push_bit 24 (ucast (rd8 m (p + 3)))"

fun le_bytes :: "nat \<Rightarrow> 'a::len word \<Rightarrow> u8 list" where
  "le_bytes 0 v = []"
| "le_bytes (Suc n) v = ucast v # le_bytes n (drop_bit 8 v)"

definition wr32 :: "nat \<Rightarrow> u32 \<Rightarrow> u8 list \<Rightarrow> u8 list" where
  "wr32 p v m = wr_bytes p (le_bytes 4 v) m"

definition wr64 :: "nat \<Rightarrow> u64 \<Rightarrow> u8 list \<Rightarrow> u8 list" where
  "wr64 p v m = wr_bytes p (le_bytes 8 v) m"

section \<open>The adapter and the hardware\<close>

record fw_queue =
  fq_length :: u16
  fq_ring :: "u8 list"
  fq_shadow :: "u16 option"

record fw_ctx =
  fw_memory_size :: u32
  fw_shared_ram_start :: u32
  fw_shared_ram_end :: u32
  cx_max_req_queues :: u8
  cx_max_rsp_queues :: u8
  cx_req :: "nat \<Rightarrow> fw_queue option"
  cx_rsp :: "nat \<Rightarrow> fw_queue option"
  fce :: "u8 list option"
  fce_wr :: u64
  fce_dma :: u64
  fce_mb :: "u16 list"
  eft :: "u8 list option"
  eft_dma :: u64

text \<open>
  The device as the walk uses it: register accesses at a byte offset, the two RAM readers of
  qla_dbg.c (address, number of words; the bytes they stored), the RISC controls and the PCI
  configuration read.
\<close>

record 'w fw_hw =
  hw_rd8 :: "nat \<Rightarrow> 'w \<Rightarrow> u8 \<times> 'w"
  hw_rd16 :: "nat \<Rightarrow> 'w \<Rightarrow> u16 \<times> 'w"
  hw_rd32 :: "nat \<Rightarrow> 'w \<Rightarrow> u32 \<times> 'w"
  hw_wr32 :: "nat \<Rightarrow> u32 \<Rightarrow> 'w \<Rightarrow> 'w"
  hw_dump_ram :: "u32 \<Rightarrow> u32 \<Rightarrow> 'w \<Rightarrow> u8 list \<times> 'w"
  hw_dump_mpi_ram :: "u32 \<Rightarrow> u32 \<Rightarrow> 'w \<Rightarrow> u8 list \<times> 'w"
  hw_pause_risc :: "'w \<Rightarrow> 'w"
  hw_soft_reset :: "'w \<Rightarrow> 'w"
  hw_pci_config :: "nat \<Rightarrow> 'w \<Rightarrow> u32 option \<times> 'w"

record 'w fw_walk =
  wmem :: "u8 list"
  wlen :: nat
  wworld :: 'w

section \<open>Primitives\<close>

definition insert_bytes :: "u8 list \<Rightarrow> bool \<Rightarrow> 'w fw_walk \<Rightarrow> 'w fw_walk" where
  "insert_bytes bs real s =
     (if real then s\<lparr>wmem := wr_bytes (wlen s) bs (wmem s)\<rparr> else s)"

definition qla27xx_insert16 :: "u16 \<Rightarrow> bool \<Rightarrow> 'w fw_walk \<Rightarrow> 'w fw_walk" where
  "qla27xx_insert16 v real s =
     (let s = insert_bytes (le_bytes 2 v) real s in s\<lparr>wlen := wlen s + 2\<rparr>)"

definition qla27xx_insert32 :: "u32 \<Rightarrow> bool \<Rightarrow> 'w fw_walk \<Rightarrow> 'w fw_walk" where
  "qla27xx_insert32 v real s =
     (let s = insert_bytes (le_bytes 4 v) real s in s\<lparr>wlen := wlen s + 4\<rparr>)"

definition qla27xx_insertbuf :: "u8 list option \<Rightarrow> nat \<Rightarrow> bool \<Rightarrow> 'w fw_walk \<Rightarrow> 'w fw_walk" where
  "qla27xx_insertbuf mem sz real s =
     (let s = (case mem of Some bs \<Rightarrow> insert_bytes (take sz bs) real s | None \<Rightarrow> s)
      in s\<lparr>wlen := wlen s + sz\<rparr>)"

definition qla27xx_read8 :: "'w fw_hw \<Rightarrow> nat \<Rightarrow> bool \<Rightarrow> 'w fw_walk \<Rightarrow> 'w fw_walk" where
  "qla27xx_read8 hw window real s =
     (let (value, w) = (if real then hw_rd8 hw window (wworld s) else (NOT 0, wworld s))
      in qla27xx_insert32 (ucast value) real (s\<lparr>wworld := w\<rparr>))"

definition qla27xx_read16 :: "'w fw_hw \<Rightarrow> nat \<Rightarrow> bool \<Rightarrow> 'w fw_walk \<Rightarrow> 'w fw_walk" where
  "qla27xx_read16 hw window real s =
     (let (value, w) = (if real then hw_rd16 hw window (wworld s) else (NOT 0, wworld s))
      in qla27xx_insert32 (ucast value) real (s\<lparr>wworld := w\<rparr>))"

definition qla27xx_read32 :: "'w fw_hw \<Rightarrow> nat \<Rightarrow> bool \<Rightarrow> 'w fw_walk \<Rightarrow> 'w fw_walk" where
  "qla27xx_read32 hw window real s =
     (let (value, w) = (if real then hw_rd32 hw window (wworld s) else (NOT 0, wworld s))
      in qla27xx_insert32 value real (s\<lparr>wworld := w\<rparr>))"

definition qla27xx_read_vector :: "'w fw_hw \<Rightarrow> nat \<Rightarrow> nat \<Rightarrow> bool \<Rightarrow> 'w fw_walk \<Rightarrow> 'w fw_walk" where
  "qla27xx_read_vector hw width =
     (if width = 1 then qla27xx_read8 hw else if width = 2 then qla27xx_read16 hw
      else qla27xx_read32 hw)"

definition qla27xx_read_reg :: "'w fw_hw \<Rightarrow> nat \<Rightarrow> bool \<Rightarrow> 'w fw_walk \<Rightarrow> 'w fw_walk" where
  "qla27xx_read_reg hw offset real s = qla27xx_read32 hw offset real s"

definition qla27xx_write_reg :: "'w fw_hw \<Rightarrow> nat \<Rightarrow> u32 \<Rightarrow> bool \<Rightarrow> 'w fw_walk \<Rightarrow> 'w fw_walk" where
  "qla27xx_write_reg hw offset data real s =
     (if real then s\<lparr>wworld := hw_wr32 hw offset data (wworld s)\<rparr> else s)"

definition IOBASE_ADDR :: nat where "IOBASE_ADDR = 0x54"

fun read_window_loop :: "'w fw_hw \<Rightarrow> nat \<Rightarrow> nat \<Rightarrow> u32 \<Rightarrow> nat \<Rightarrow> bool \<Rightarrow> 'w fw_walk \<Rightarrow> 'w fw_walk" where
  "read_window_loop hw width 0 addr window real s = s"
| "read_window_loop hw width (Suc count) addr window real s =
     (let s = qla27xx_insert32 addr real s;
          s = qla27xx_read_vector hw width window real s
      in read_window_loop hw width count (addr + 1) (window + width) real s)"

definition qla27xx_read_window ::
    "'w fw_hw \<Rightarrow> u32 \<Rightarrow> nat \<Rightarrow> nat \<Rightarrow> nat \<Rightarrow> bool \<Rightarrow> 'w fw_walk \<Rightarrow> 'w fw_walk" where
  "qla27xx_read_window hw addr offset count width real s =
     (let s = qla27xx_write_reg hw IOBASE_ADDR addr real s
      in read_window_loop hw width count addr offset real s)"

text \<open>Stores into the entry itself happen only in the dump buffer.\<close>

definition edit_entry :: "(u8 list \<Rightarrow> u8 list) \<Rightarrow> bool \<Rightarrow> 'w fw_walk \<Rightarrow> 'w fw_walk" where
  "edit_entry f real s = (if real then s\<lparr>wmem := f (wmem s)\<rparr> else s)"

definition DRIVER_FLAG_SKIP_ENTRY :: u8 where "DRIVER_FLAG_SKIP_ENTRY = BIT 7"

definition qla27xx_skip_entry :: "nat \<Rightarrow> bool \<Rightarrow> 'w fw_walk \<Rightarrow> 'w fw_walk" where
  "qla27xx_skip_entry e =
     edit_entry (\<lambda>m. m[e + 15 := rd8 m (e + 15) OR DRIVER_FLAG_SKIP_ENTRY])"

section \<open>The entries\<close>

type_synonym 'w fw_call = "nat \<Rightarrow> bool \<Rightarrow> 'w fw_walk \<Rightarrow> bool \<times> 'w fw_walk"

definition qla27xx_fwdt_entry_t0 :: "'w fw_call" where
  "qla27xx_fwdt_entry_t0 e real s = (False, qla27xx_skip_entry e real s)"

definition qla27xx_fwdt_entry_t255 :: "'w fw_call" where
  "qla27xx_fwdt_entry_t255 e real s = (True, qla27xx_skip_entry e real s)"

definition qla27xx_fwdt_entry_t256 :: "'w fw_hw \<Rightarrow> 'w fw_call" where
  "qla27xx_fwdt_entry_t256 hw e real s =
     (let m = wmem s
      in (False, qla27xx_read_window hw (rd32 m (e + 16)) (unat (rd8 m (e + 23)))
            (unat (rd16 m (e + 21))) (unat (rd8 m (e + 20))) real s))"

definition qla27xx_fwdt_entry_t257 :: "'w fw_hw \<Rightarrow> 'w fw_call" where
  "qla27xx_fwdt_entry_t257 hw e real s =
     (let m = wmem s;
          s = qla27xx_write_reg hw IOBASE_ADDR (rd32 m (e + 16)) real s
      in (False, qla27xx_write_reg hw (unat (rd8 m (e + 24))) (rd32 m (e + 20)) real s))"

definition qla27xx_fwdt_entry_t258 :: "'w fw_hw \<Rightarrow> 'w fw_call" where
  "qla27xx_fwdt_entry_t258 hw e real s =
     (let m = wmem s;
          s = qla27xx_write_reg hw (unat (rd8 m (e + 24))) (rd32 m (e + 28)) real s
      in (False, qla27xx_read_window hw (rd32 m (e + 16)) (unat (rd8 m (e + 23)))
            (unat (rd16 m (e + 21))) (unat (rd8 m (e + 20))) real s))"

definition qla27xx_fwdt_entry_t259 :: "'w fw_hw \<Rightarrow> 'w fw_call" where
  "qla27xx_fwdt_entry_t259 hw e real s =
     (let m = wmem s;
          s = qla27xx_write_reg hw IOBASE_ADDR (rd32 m (e + 16)) real s;
          s = qla27xx_write_reg hw (unat (rd8 m (e + 27))) (rd32 m (e + 28)) real s
      in (False, qla27xx_write_reg hw (unat (rd8 m (e + 26))) (rd32 m (e + 20)) real s))"

definition qla27xx_fwdt_entry_t260 :: "'w fw_hw \<Rightarrow> 'w fw_call" where
  "qla27xx_fwdt_entry_t260 hw e real s =
     (let off = rd8 (wmem s) (e + 16);
          s = qla27xx_insert32 (ucast off) real s
      in (False, qla27xx_read_reg hw (unat off) real s))"

definition qla27xx_fwdt_entry_t261 :: "'w fw_hw \<Rightarrow> 'w fw_call" where
  "qla27xx_fwdt_entry_t261 hw e real s =
     (False, qla27xx_write_reg hw (unat (rd8 (wmem s) (e + 16))) (rd32 (wmem s) (e + 20)) real s)"

definition T262_RAM_AREA_CRITICAL_RAM :: u8 where "T262_RAM_AREA_CRITICAL_RAM = 1"
definition T262_RAM_AREA_EXTERNAL_RAM :: u8 where "T262_RAM_AREA_EXTERNAL_RAM = 2"
definition T262_RAM_AREA_SHARED_RAM :: u8 where "T262_RAM_AREA_SHARED_RAM = 3"

text \<open>The area selects start and end, and (in the dump) the entry records them; None: unknown area.\<close>

definition t262_range :: "fw_ctx \<Rightarrow> nat \<Rightarrow> u8 list \<Rightarrow> (u32 \<times> u32 \<times> (u8 list \<Rightarrow> u8 list)) option" where
  "t262_range cx e m =
     (let area = rd8 m (e + 16); start = rd32 m (e + 20); fin = rd32 m (e + 24)
      in if area = T262_RAM_AREA_CRITICAL_RAM then Some (start, fin, \<lambda>m. m)
         else if area = T262_RAM_AREA_EXTERNAL_RAM
         then Some (start, fw_memory_size cx, wr32 (e + 24) (fw_memory_size cx))
         else if area = T262_RAM_AREA_SHARED_RAM
         then Some (fw_shared_ram_start cx, fw_shared_ram_end cx,
                wr32 (e + 24) (fw_shared_ram_end cx) \<circ> wr32 (e + 20) (fw_shared_ram_start cx))
         else None)"

definition qla27xx_fwdt_entry_t262 :: "'w fw_hw \<Rightarrow> fw_ctx \<Rightarrow> 'w fw_call" where
  "qla27xx_fwdt_entry_t262 hw cx e real s =
     (case t262_range cx e (wmem s) of
        None \<Rightarrow> (False, qla27xx_skip_entry e real s)
      | Some (start, fin, edit) \<Rightarrow>
          (let s = edit_entry edit real s
           in if fin < start \<or> fin = 0 then (False, qla27xx_skip_entry e real s)
              else let dwords = unat fin - unat start + 1;
                       s = (if real
                            then let (bs, w) = hw_dump_ram hw start (of_nat dwords) (wworld s)
                                 in insert_bytes bs real (s\<lparr>wworld := w\<rparr>)
                            else s)
                   in (False, s\<lparr>wlen := wlen s + dwords * 4\<rparr>)))"

definition T263_QUEUE_TYPE_REQ :: u8 where "T263_QUEUE_TYPE_REQ = 1"
definition T263_QUEUE_TYPE_RSP :: u8 where "T263_QUEUE_TYPE_RSP = 2"

text \<open>
  The loop over the queues; both queues have 64-byte entries. \<open>dflt\<close> is the length assumed for a
  queue that does not exist, which is counted in a dry run only.
\<close>

fun t263_queues :: "(nat \<Rightarrow> fw_queue option) \<Rightarrow> u16 \<Rightarrow> nat list \<Rightarrow> bool \<Rightarrow> 'w fw_walk \<times> u32
    \<Rightarrow> 'w fw_walk \<times> u32" where
  "t263_queues qs dflt [] real (s, count) = (s, count)"
| "t263_queues qs dflt (i # is) real (s, count) =
     (if qs i \<noteq> None \<or> \<not> real
      then let len = (case qs i of Some q \<Rightarrow> fq_length q | None \<Rightarrow> dflt);
               s = qla27xx_insert16 (of_nat i) real s;
               s = qla27xx_insert16 len real s;
               s = qla27xx_insertbuf (map_option fq_ring (qs i)) (unat len * 64) real s
           in t263_queues qs dflt is real (s, count + 1)
      else t263_queues qs dflt is real (s, count))"

definition qla27xx_fwdt_entry_t263 :: "fw_ctx \<Rightarrow> 'w fw_call" where
  "qla27xx_fwdt_entry_t263 cx e real s =
     (let qt = rd8 (wmem s) (e + 20);
          (s, count) =
            (if qt = T263_QUEUE_TYPE_REQ
             then t263_queues (cx_req cx) REQUEST_ENTRY_CNT_24XX
                    [0..<unat (cx_max_req_queues cx)] real (s, 0)
             else if qt = T263_QUEUE_TYPE_RSP
             then t263_queues (cx_rsp cx) RESPONSE_ENTRY_CNT_MQ
                    [0..<unat (cx_max_rsp_queues cx)] real (s, 0)
             else (qla27xx_skip_entry e real s, 0))
      in (False, edit_entry (wr32 (e + 16) count) real s))"

definition FCE_SIZE :: nat where "FCE_SIZE = 0x400 * 64"
definition EFT_SIZE :: nat where "EFT_SIZE = 0x4000 * 4"

definition t264_edit :: "fw_ctx \<Rightarrow> nat \<Rightarrow> u8 list \<Rightarrow> u8 list" where
  "t264_edit cx e m =
     (let m = wr32 (e + 16) (of_nat FCE_SIZE) m;
          m = wr64 (e + 20) (fce_wr cx) m;
          m = wr64 (e + 28) (fce_dma cx) m;
          m = wr32 (e + 36) (ucast (fce_mb cx ! 0)) m;
          m = wr32 (e + 40) (ucast (fce_mb cx ! 2)) m;
          m = wr32 (e + 44) (ucast (fce_mb cx ! 3)) m;
          m = wr32 (e + 48) (ucast (fce_mb cx ! 4)) m;
          m = wr32 (e + 52) (ucast (fce_mb cx ! 5)) m
      in wr32 (e + 56) (ucast (fce_mb cx ! 6)) m)"

definition qla27xx_fwdt_entry_t264 :: "fw_ctx \<Rightarrow> 'w fw_call" where
  "qla27xx_fwdt_entry_t264 cx e real s =
     (case fce cx of
        Some bs \<Rightarrow> (False, qla27xx_insertbuf (Some bs) FCE_SIZE real
                              (edit_entry (t264_edit cx e) real s))
      | None \<Rightarrow> (False, qla27xx_skip_entry e real s))"

definition qla27xx_fwdt_entry_t265 :: "'w fw_hw \<Rightarrow> 'w fw_call" where
  "qla27xx_fwdt_entry_t265 hw e real s =
     (False, if real then s\<lparr>wworld := hw_pause_risc hw (wworld s)\<rparr> else s)"

definition qla27xx_fwdt_entry_t266 :: "'w fw_hw \<Rightarrow> 'w fw_call" where
  "qla27xx_fwdt_entry_t266 hw e real s =
     (False, if real then s\<lparr>wworld := hw_soft_reset hw (wworld s)\<rparr> else s)"

definition qla27xx_fwdt_entry_t267 :: "'w fw_hw \<Rightarrow> 'w fw_call" where
  "qla27xx_fwdt_entry_t267 hw e real s =
     (False, qla27xx_write_reg hw (unat (rd8 (wmem s) (e + 16))) (rd32 (wmem s) (e + 20)) real s)"

definition T268_BUF_TYPE_EXTD_TRACE :: u8 where "T268_BUF_TYPE_EXTD_TRACE = 1"

definition qla27xx_fwdt_entry_t268 :: "fw_ctx \<Rightarrow> 'w fw_call" where
  "qla27xx_fwdt_entry_t268 cx e real s =
     (if rd8 (wmem s) (e + 16) = T268_BUF_TYPE_EXTD_TRACE
      then (case eft cx of
              Some bs \<Rightarrow> (False, qla27xx_insertbuf (Some bs) EFT_SIZE real
                (edit_entry (wr64 (e + 24) (eft_dma cx) \<circ> wr32 (e + 20) (of_nat EFT_SIZE)) real s))
            | None \<Rightarrow> (False, qla27xx_skip_entry e real s))
      else (False, qla27xx_skip_entry e real s))"

definition qla27xx_fwdt_entry_t269 :: "'w fw_call" where
  "qla27xx_fwdt_entry_t269 e real s =
     (let s = qla27xx_insert32 0xAAAAAAAA real s;
          s = qla27xx_insert32 0xBBBBBBBB real s;
          s = qla27xx_insert32 0xCCCCCCCC real s;
          s = qla27xx_insert32 0xDDDDDDDD real s;
          s = qla27xx_insert32 (of_nat (wlen s + 4)) real s
      in (False, edit_entry (wr32 (e + 16) 20) real s))"

text \<open>The address is a \<open>ulong\<close>; registers and the dump take its low word.\<close>

fun t270_loop :: "'w fw_hw \<Rightarrow> nat \<Rightarrow> nat \<Rightarrow> bool \<Rightarrow> 'w fw_walk \<Rightarrow> 'w fw_walk" where
  "t270_loop hw 0 addr real s = s"
| "t270_loop hw (Suc dwords) addr real s =
     (let s = qla27xx_write_reg hw 0xC0 (of_nat addr OR 0x80000000) real s;
          s = qla27xx_insert32 (of_nat addr) real s;
          s = qla27xx_read_reg hw 0xC4 real s
      in t270_loop hw dwords (addr + 4) real s)"

definition qla27xx_fwdt_entry_t270 :: "'w fw_hw \<Rightarrow> 'w fw_call" where
  "qla27xx_fwdt_entry_t270 hw e real s =
     (let m = wmem s;
          s = qla27xx_write_reg hw IOBASE_ADDR 0x40 real s
      in (False, t270_loop hw (unat (rd32 m (e + 20))) (unat (rd32 m (e + 16))) real s))"

definition qla27xx_fwdt_entry_t271 :: "'w fw_hw \<Rightarrow> 'w fw_call" where
  "qla27xx_fwdt_entry_t271 hw e real s =
     (let m = wmem s;
          s = qla27xx_write_reg hw IOBASE_ADDR 0x40 real s;
          s = qla27xx_write_reg hw 0xC4 (rd32 m (e + 20)) real s
      in (False, qla27xx_write_reg hw 0xC0 (rd32 m (e + 16)) real s))"

definition qla27xx_fwdt_entry_t272 :: "'w fw_hw \<Rightarrow> 'w fw_call" where
  "qla27xx_fwdt_entry_t272 hw e real s =
     (let dwords = rd32 (wmem s) (e + 20); start = rd32 (wmem s) (e + 16);
          s = (if real then let (bs, w) = hw_dump_mpi_ram hw start dwords (wworld s)
                            in insert_bytes bs real (s\<lparr>wworld := w\<rparr>)
               else s)
      in (False, s\<lparr>wlen := wlen s + unat dwords * 4\<rparr>))"

fun t273_loop :: "'w fw_hw \<Rightarrow> nat \<Rightarrow> nat \<Rightarrow> bool \<Rightarrow> 'w fw_walk \<Rightarrow> 'w fw_walk" where
  "t273_loop hw 0 addr real s = s"
| "t273_loop hw (Suc dwords) addr real s =
     (let (v, w) = hw_pci_config hw addr (wworld s);
          s = s\<lparr>wworld := w\<rparr>;
          s = qla27xx_insert32 (of_nat addr) real s;
          s = qla27xx_insert32 (case v of Some value \<Rightarrow> value | None \<Rightarrow> NOT 0) real s
      in t273_loop hw dwords (addr + 4) real s)"

definition qla27xx_fwdt_entry_t273 :: "'w fw_hw \<Rightarrow> 'w fw_call" where
  "qla27xx_fwdt_entry_t273 hw e real s =
     (let m = wmem s
      in (False, t273_loop hw (unat (rd32 m (e + 20))) (unat (rd32 m (e + 16))) real s))"

definition T274_QUEUE_TYPE_REQ_SHAD :: u8 where "T274_QUEUE_TYPE_REQ_SHAD = 1"
definition T274_QUEUE_TYPE_RSP_SHAD :: u8 where "T274_QUEUE_TYPE_RSP_SHAD = 2"

fun t274_queues :: "(nat \<Rightarrow> fw_queue option) \<Rightarrow> nat list \<Rightarrow> bool \<Rightarrow> 'w fw_walk \<times> u32
    \<Rightarrow> 'w fw_walk \<times> u32" where
  "t274_queues qs [] real (s, count) = (s, count)"
| "t274_queues qs (i # is) real (s, count) =
     (if qs i \<noteq> None \<or> \<not> real
      then let v = (case qs i of Some q \<Rightarrow> (case fq_shadow q of Some x \<Rightarrow> ucast x | None \<Rightarrow> 0)
                     | None \<Rightarrow> 0);
               s = qla27xx_insert16 (of_nat i) real s;
               s = qla27xx_insert16 1 real s;
               s = qla27xx_insert32 v real s
           in t274_queues qs is real (s, count + 1)
      else t274_queues qs is real (s, count))"

definition qla27xx_fwdt_entry_t274 :: "fw_ctx \<Rightarrow> 'w fw_call" where
  "qla27xx_fwdt_entry_t274 cx e real s =
     (let qt = rd8 (wmem s) (e + 20);
          (s, count) =
            (if qt = T274_QUEUE_TYPE_REQ_SHAD
             then t274_queues (cx_req cx) [0..<unat (cx_max_req_queues cx)] real (s, 0)
             else if qt = T274_QUEUE_TYPE_RSP_SHAD
             then t274_queues (cx_rsp cx) [0..<unat (cx_max_rsp_queues cx)] real (s, 0)
             else (qla27xx_skip_entry e real s, 0));
          s = edit_entry (wr32 (e + 16) count) real s
      in (False, if count = 0 then qla27xx_skip_entry e real s else s))"

definition qla27xx_fwdt_entry_t275 :: "'w fw_call" where
  "qla27xx_fwdt_entry_t275 e real s =
     (let len = unat (rd32 (wmem s) (e + 16)); esize = unat (rd32 (wmem s) (e + 4))
      in if len = 0 then (False, qla27xx_skip_entry e real s)
         else if 20 + len > esize then (False, qla27xx_skip_entry e real s)
         else (False, qla27xx_insertbuf (Some (take len (drop (e + 20) (wmem s)))) len real s))"

definition qla27xx_fwdt_entry_other :: "'w fw_call" where
  "qla27xx_fwdt_entry_other e real s = (False, qla27xx_skip_entry e real s)"

section \<open>The dispatch table and the walk\<close>

definition ql27xx_fwdt_entry_call_list :: "'w fw_hw \<Rightarrow> fw_ctx \<Rightarrow> (u32 \<times> 'w fw_call) list" where
  "ql27xx_fwdt_entry_call_list hw cx =
     [(0, qla27xx_fwdt_entry_t0), (255, qla27xx_fwdt_entry_t255),
      (256, qla27xx_fwdt_entry_t256 hw), (257, qla27xx_fwdt_entry_t257 hw),
      (258, qla27xx_fwdt_entry_t258 hw), (259, qla27xx_fwdt_entry_t259 hw),
      (260, qla27xx_fwdt_entry_t260 hw), (261, qla27xx_fwdt_entry_t261 hw),
      (262, qla27xx_fwdt_entry_t262 hw cx), (263, qla27xx_fwdt_entry_t263 cx),
      (264, qla27xx_fwdt_entry_t264 cx), (265, qla27xx_fwdt_entry_t265 hw),
      (266, qla27xx_fwdt_entry_t266 hw), (267, qla27xx_fwdt_entry_t267 hw),
      (268, qla27xx_fwdt_entry_t268 cx), (269, qla27xx_fwdt_entry_t269),
      (270, qla27xx_fwdt_entry_t270 hw), (271, qla27xx_fwdt_entry_t271 hw),
      (272, qla27xx_fwdt_entry_t272 hw), (273, qla27xx_fwdt_entry_t273 hw),
      (274, qla27xx_fwdt_entry_t274 cx), (275, qla27xx_fwdt_entry_t275),
      (-1, qla27xx_fwdt_entry_other)]"

fun qla27xx_find_entry :: "(u32 \<times> 'w fw_call) list \<Rightarrow> u32 \<Rightarrow> 'w fw_call" where
  "qla27xx_find_entry ((t, call) # xs) ty =
     (if t < ty then qla27xx_find_entry xs ty else if t = ty then call
      else qla27xx_fwdt_entry_other)"
| "qla27xx_find_entry [] ty = qla27xx_fwdt_entry_other"

text \<open>
  The loop \<open>while (count--)\<close>: it returns the state, what is left in \<open>count\<close> (a \<open>ulong\<close>, which the
  last test decrements below zero when the loop runs to the end) and the last entry.
\<close>

fun walk_loop :: "'w fw_hw \<Rightarrow> fw_ctx \<Rightarrow> nat \<Rightarrow> nat \<Rightarrow> bool \<Rightarrow> 'w fw_walk \<Rightarrow> 'w fw_walk \<times> u64 \<times> nat" where
  "walk_loop hw cx 0 e real s = (s, - 1, e)"
| "walk_loop hw cx (Suc count) e real s =
     (let (fin, s) = qla27xx_find_entry (ql27xx_fwdt_entry_call_list hw cx) (rd32 (wmem s) e) e real s
      in if fin then (s, of_nat count, e)
         else walk_loop hw cx count (e + unat (rd32 (wmem s) (e + 4))) real s)"

definition qla27xx_walk_template :: "'w fw_hw \<Rightarrow> fw_ctx \<Rightarrow> bool \<Rightarrow> 'w fw_walk \<Rightarrow> 'w fw_walk \<times> u64 \<times> nat" where
  "qla27xx_walk_template hw cx real s =
     walk_loop hw cx (unat (rd32 (wmem s) 16)) (unat (rd32 (wmem s) 4)) real s"

section \<open>Validity, size and capture\<close>

fun sum_words :: "nat \<Rightarrow> nat \<Rightarrow> u8 list \<Rightarrow> u64 \<Rightarrow> u64" where
  "sum_words 0 p m acc = acc"
| "sum_words (Suc n) p m acc = sum_words n (p + 4) m (acc + ucast (rd32 m p))"

definition qla27xx_template_checksum :: "u8 list \<Rightarrow> nat \<Rightarrow> u32" where
  "qla27xx_template_checksum m sz =
     (let acc = sum_words (sz div 4) 0 m 0;
          acc = (acc AND 0xFFFFFFFF) + drop_bit 32 acc
      in ucast (NOT acc))"

definition qla27xx_verify_template_checksum :: "u8 list \<Rightarrow> bool" where
  "qla27xx_verify_template_checksum m \<longleftrightarrow> qla27xx_template_checksum m (unat (rd32 m 8)) = 0"

definition TEMPLATE_TYPE_FWDUMP :: u32 where "TEMPLATE_TYPE_FWDUMP = 99"

definition qla27xx_verify_template_header :: "u8 list \<Rightarrow> bool" where
  "qla27xx_verify_template_header m \<longleftrightarrow> rd32 m 0 = TEMPLATE_TYPE_FWDUMP"

definition qla27xx_fwdt_template_valid :: "u8 list \<Rightarrow> bool" where
  "qla27xx_fwdt_template_valid m \<longleftrightarrow>
     qla27xx_verify_template_header m \<and> qla27xx_verify_template_checksum m"

text \<open>What \<open>ql27xx_edit_template\<close> reads: the time, the parsed version string, the firmware's versions.\<close>

record fw_info =
  jiffies :: u32
  version_bytes :: "u8 list"
  fw_major_version :: u16
  fw_minor_version :: u16
  fw_subminor_version :: u16
  fw_attributes :: u16
  fw_attributes_h :: u16
  fw_attributes_ext :: "u16 list"

definition qla27xx_driver_info :: "fw_info \<Rightarrow> u8 list \<Rightarrow> u8 list" where
  "qla27xx_driver_info fi m =
     (let v = (\<lambda>i. ucast (nth_default 0 (version_bytes fi) i) :: u32);
          m = wr32 36 (push_bit 24 (v 3) OR push_bit 16 (v 2) OR push_bit 8 (v 1) OR v 0) m;
          m = wr32 40 (push_bit 8 (v 5) OR v 4) m
      in wr32 44 0x12345678 m)"

definition qla27xx_firmware_info :: "fw_info \<Rightarrow> u8 list \<Rightarrow> u8 list" where
  "qla27xx_firmware_info fi m =
     (let ext = (\<lambda>i. ucast (nth_default 0 (fw_attributes_ext fi) i) :: u32);
          m = wr32 144 (ucast (fw_major_version fi)) m;
          m = wr32 148 (ucast (fw_minor_version fi)) m;
          m = wr32 152 (ucast (fw_subminor_version fi)) m;
          m = wr32 156 (push_bit 16 (ucast (fw_attributes_h fi)) OR ucast (fw_attributes fi)) m
      in wr32 160 (push_bit 16 (ext 1) OR ext 0) m)"

definition ql27xx_edit_template :: "fw_info \<Rightarrow> u8 list \<Rightarrow> u8 list" where
  "ql27xx_edit_template fi m =
     qla27xx_firmware_info fi (qla27xx_driver_info fi (wr32 24 (jiffies fi) m))"

definition qla27xx_fwdt_calculate_dump_size :: "'w fw_hw \<Rightarrow> fw_ctx \<Rightarrow> u8 list \<Rightarrow> 'w \<Rightarrow> nat \<times> 'w" where
  "qla27xx_fwdt_calculate_dump_size hw cx tmp w =
     (if qla27xx_fwdt_template_valid tmp
      then let (s, r) = qla27xx_walk_template hw cx False
                 \<lparr>wmem = tmp, wlen = unat (rd32 tmp 8), wworld = w\<rparr>
           in (wlen s, wworld s)
      else (0, w))"

text \<open>
  The capture: \<open>fw_dump\<close> is the allocated buffer, which the template is copied to. The result
  is the buffer, \<open>fw_dump_len\<close> and \<open>fw_dumped\<close>; None: the template is not valid.
\<close>

definition qla27xx_execute_fwdt_template ::
    "'w fw_hw \<Rightarrow> fw_ctx \<Rightarrow> fw_info \<Rightarrow> u8 list \<Rightarrow> u8 list \<Rightarrow> 'w \<Rightarrow> (u8 list \<times> nat \<times> 'w) option" where
  "qla27xx_execute_fwdt_template hw cx fi tmp fw_dump w =
     (if qla27xx_fwdt_template_valid tmp
      then let len = unat (rd32 tmp 8);
               m = wr_bytes 0 (take len tmp) fw_dump;
               m = ql27xx_edit_template fi m;
               (s, r) = qla27xx_walk_template hw cx True \<lparr>wmem = m, wlen = len, wworld = w\<rparr>
           in Some (wmem s, wlen s, wworld s)
      else None)"

definition qla27xx_fwdump ::
    "'w fw_hw \<Rightarrow> fw_ctx \<Rightarrow> fw_info \<Rightarrow> u8 list option \<Rightarrow> u8 list option \<Rightarrow> 'w
      \<Rightarrow> (u8 list \<times> nat \<times> 'w) option" where
  "qla27xx_fwdump hw cx fi tmp fw_dump w =
     (case fw_dump of None \<Rightarrow> None
      | Some d \<Rightarrow> (case tmp of None \<Rightarrow> None
        | Some t \<Rightarrow> qla27xx_execute_fwdt_template hw cx fi t d w))"

end
