(* ===== verification/Fwdt_Props.thy ===== *)
theory Fwdt_Props
  imports Fwdt_Template
begin

text \<open>
  The two runs of a template agree: each entry adds the same number of bytes in the dry run and
  in the capture up to what the adapter has gained or lost in between, the capture writes only
  its own entry's fixed part and the space from \<open>len\<close> on, and so the size computed first bounds
  the dump.
\<close>

named_theorems fw_len
named_theorems fw_touch

section \<open>Bytes\<close>

lemma length_le_bytes [simp]: "length (le_bytes n v) = n"
  by (induction n arbitrary: v) auto

lemma length_wr [simp]: "length (wr32 p v m) = length m" "length (wr64 p x m) = length m"
  by (simp_all add: wr32_def wr64_def)

lemma wr_other:
  "i < p \<or> p + 4 \<le> i \<Longrightarrow> wr32 p v m ! i = m ! i"
  "i < p \<or> p + 8 \<le> i \<Longrightarrow> wr64 p x m ! i = m ! i"
  by (simp_all add: wr32_def wr64_def wr_bytes_other)

section \<open>What a step may touch\<close>

definition touches :: "nat set \<Rightarrow> 'w fw_walk \<Rightarrow> 'w fw_walk \<Rightarrow> bool" where
  "touches E s s' \<longleftrightarrow> length (wmem s') = length (wmem s) \<and> wlen s \<le> wlen s'
     \<and> (\<forall>p. p \<notin> E \<longrightarrow> p < wlen s \<or> wlen s' \<le> p \<longrightarrow> wmem s' ! p = wmem s ! p)"

lemma touches_refl [fw_touch]: "touches E s s"
  by (simp add: touches_def)

lemma touches_trans: "touches E s s' \<Longrightarrow> touches E s' s'' \<Longrightarrow> touches E s s''"
  unfolding touches_def by (metis le_trans less_le_trans)

lemma touches_world [fw_touch]: "touches E s s' \<Longrightarrow> touches E s (s'\<lparr>wworld := w\<rparr>)"
  by (simp add: touches_def)

lemma touches_from_world: "touches E (s\<lparr>wworld := w\<rparr>) s' \<longleftrightarrow> touches E s s'"
  by (simp add: touches_def)

lemma touches_len: "touches E s (s\<lparr>wlen := wlen s + n\<rparr>)"
  by (simp add: touches_def)

lemma touches_insert:
  assumes "length bs \<le> n"
  shows "touches E s ((insert_bytes bs real s)\<lparr>wlen := wlen s + n\<rparr>)"
  using assms by (auto simp: touches_def insert_bytes_def wr_bytes_other)

lemma insert_bytes_fields [simp]:
  "wlen (insert_bytes bs real s) = wlen s" "wworld (insert_bytes bs real s) = wworld s"
  by (simp_all add: insert_bytes_def)

lemma insert_len [fw_len]:
  "wlen (qla27xx_insert16 v real s) = wlen s + 2"
  "wlen (qla27xx_insert32 x real s) = wlen s + 4"
  "wlen (qla27xx_insertbuf mem n real s) = wlen s + n"
  by (simp_all add: qla27xx_insert16_def qla27xx_insert32_def qla27xx_insertbuf_def Let_def
      split: option.split)

lemma insert_touch [fw_touch]:
  "touches E s (qla27xx_insert16 v real s)" "touches E s (qla27xx_insert32 x real s)"
  unfolding qla27xx_insert16_def qla27xx_insert32_def Let_def insert_bytes_fields
  by (rule touches_insert, simp)+

lemma insertbuf_touch [fw_touch]: "touches E s (qla27xx_insertbuf mem n real s)"
proof (cases mem)
  case None
  then show ?thesis by (simp add: qla27xx_insertbuf_def touches_def)
next
  case (Some bs)
  then show ?thesis
    using touches_insert [of "take n bs" n E s real] by (simp add: qla27xx_insertbuf_def Let_def)
qed

lemma read_len [fw_len]:
  "wlen (qla27xx_read8 hw a real s) = wlen s + 4"
  "wlen (qla27xx_read16 hw a real s) = wlen s + 4"
  "wlen (qla27xx_read32 hw a real s) = wlen s + 4"
  "wlen (qla27xx_read_vector hw n a real s) = wlen s + 4"
  "wlen (qla27xx_read_reg hw a real s) = wlen s + 4"
  by (simp_all add: qla27xx_read8_def qla27xx_read16_def qla27xx_read32_def Let_def fw_len
      qla27xx_read_vector_def qla27xx_read_reg_def split: prod.split)

lemma insert32_world_touch: "touches E s (qla27xx_insert32 x real (s\<lparr>wworld := w\<rparr>))"
  using insert_touch(2) [of E "s\<lparr>wworld := w\<rparr>" x real] by (simp add: touches_from_world)

lemma read_touch [fw_touch]:
  "touches E s (qla27xx_read8 hw a real s)" "touches E s (qla27xx_read16 hw a real s)"
  "touches E s (qla27xx_read32 hw a real s)" "touches E s (qla27xx_read_vector hw n a real s)"
  "touches E s (qla27xx_read_reg hw a real s)"
  by (simp_all add: qla27xx_read8_def qla27xx_read16_def qla27xx_read32_def Let_def
      insert32_world_touch insert_touch(2) qla27xx_read_vector_def qla27xx_read_reg_def split: prod.split)

lemma write_reg_fields [simp, fw_len]:
  "wlen (qla27xx_write_reg hw a d real s) = wlen s"
  "wmem (qla27xx_write_reg hw a d real s) = wmem s"
  by (simp_all add: qla27xx_write_reg_def)

lemma write_reg_touch [fw_touch]: "touches E s (qla27xx_write_reg hw a d real s)"
  by (simp add: touches_def)

lemma window_len [fw_len]: "wlen (read_window_loop hw n c a x real s) = wlen s + 8 * c"
  by (induction hw n c a x real s rule: read_window_loop.induct) (simp_all add: Let_def fw_len)

lemma window_touch [fw_touch]: "touches E s (read_window_loop hw n c a x real s)"
proof (induction hw n c a x real s rule: read_window_loop.induct)
  case (2 hw n c a x real s)
  then show ?case unfolding read_window_loop.simps Let_def
    by (meson touches_trans insert_touch(2) read_touch(4))
qed (simp add: touches_refl)

lemma read_window_len [fw_len]: "wlen (qla27xx_read_window hw a off c n real s) = wlen s + 8 * c"
  by (simp add: qla27xx_read_window_def Let_def fw_len)

lemma read_window_touch [fw_touch]: "touches E s (qla27xx_read_window hw a off c n real s)"
  unfolding qla27xx_read_window_def Let_def
  by (meson touches_trans write_reg_touch window_touch)

lemma edit_len [fw_len]: "wlen (edit_entry f real s) = wlen s"
  by (simp add: edit_entry_def)

lemma edit_touch:
  assumes "\<And>m. length (f m) = length m" and "\<And>m p. p \<notin> E \<Longrightarrow> f m ! p = m ! p"
  shows "touches E s (edit_entry f real s)"
  using assms by (auto simp: touches_def edit_entry_def)

lemma skip_len [fw_len]: "wlen (qla27xx_skip_entry e real s) = wlen s"
  by (simp add: qla27xx_skip_entry_def fw_len)

lemma skip_touch [fw_touch]: "e + 15 \<in> E \<Longrightarrow> touches E s (qla27xx_skip_entry e real s)"
  unfolding qla27xx_skip_entry_def by (rule edit_touch) (simp, metis nth_list_update_neq)

section \<open>How many bytes an entry adds\<close>

definition queue_bytes :: "(nat \<Rightarrow> fw_queue option) \<Rightarrow> u16 \<Rightarrow> bool \<Rightarrow> nat \<Rightarrow> nat" where
  "queue_bytes qs dflt real i =
     (if qs i \<noteq> None \<or> \<not> real
      then 4 + unat (case qs i of Some q \<Rightarrow> fq_length q | None \<Rightarrow> dflt) * 64 else 0)"

definition shadow_bytes :: "(nat \<Rightarrow> fw_queue option) \<Rightarrow> bool \<Rightarrow> nat \<Rightarrow> nat" where
  "shadow_bytes qs real i = (if qs i \<noteq> None \<or> \<not> real then 8 else 0)"

lemma t263_queues_len:
  "wlen (fst (t263_queues qs dflt is real (s, c))) = wlen s + sum_list (map (queue_bytes qs dflt real) is)"
  by (induction "is" arbitrary: s c; cases real) (simp_all add: Let_def fw_len queue_bytes_def)

lemma t263_queues_touch: "touches E s (fst (t263_queues qs dflt is real (s, c)))"
proof (induction "is" arbitrary: s c)
  case (Cons i xs)
  note step = touches_trans [OF touches_trans [OF touches_trans [OF insert_touch(1)
        insert_touch(1)] insertbuf_touch] Cons]
  show ?case unfolding t263_queues.simps Let_def 
    by (cases "qs i \<noteq> None \<or> \<not> real") (simp_all only: if_True if_False step Cons)
qed (simp add: touches_refl)

lemma t274_queues_len:
  "wlen (fst (t274_queues qs is real (s, c))) = wlen s + sum_list (map (shadow_bytes qs real) is)"
  by (induction "is" arbitrary: s c; cases real) (simp_all add: Let_def fw_len shadow_bytes_def)

lemma t274_queues_touch: "touches E s (fst (t274_queues qs is real (s, c)))"
proof (induction "is" arbitrary: s c)
  case (Cons i xs)
  note step = touches_trans [OF touches_trans [OF touches_trans [OF insert_touch(1)
        insert_touch(1)] insert_touch(2)] Cons]
  show ?case unfolding t274_queues.simps Let_def 
    by (cases "qs i \<noteq> None \<or> \<not> real") (simp_all only: if_True if_False step Cons)
qed (simp add: touches_refl)

lemma t270_len: "wlen (t270_loop hw n a real s) = wlen s + 8 * n"
  by (induction hw n a real s rule: t270_loop.induct) (simp_all add: Let_def fw_len)

lemma t270_touch: "touches E s (t270_loop hw n a real s)"
proof (induction hw n a real s rule: t270_loop.induct)
  case (2 hw n a real s)
  then show ?case unfolding t270_loop.simps Let_def
    by (meson touches_trans fw_touch)
qed (simp add: touches_refl)

lemma t273_len: "wlen (t273_loop hw n a real s) = wlen s + 8 * n"
  by (induction hw n a real s rule: t273_loop.induct) (simp_all add: Let_def fw_len split: prod.split)

lemma t273_touch: "touches E s (t273_loop hw n a real s)"
proof (induction hw n a real s rule: t273_loop.induct)
  case (2 hw n a real s)
  obtain v w where vw: "hw_pci_config hw a (wworld s) = (v, w)" by fastforce
  note IH = "2.IH" [OF vw [symmetric] refl refl refl refl]
  show ?case unfolding t273_loop.simps Let_def vw prod.case
    by (rule touches_trans [OF touches_trans [OF insert32_world_touch insert_touch(2)] IH])
qed (simp add: touches_refl)

definition ram_out :: "fw_ctx \<Rightarrow> nat \<Rightarrow> u8 list \<Rightarrow> nat" where
  "ram_out cx e m =
     (case t262_range cx e m of None \<Rightarrow> 0
      | Some (start, fin, edit) \<Rightarrow>
          if fin < start \<or> fin = 0 then 0 else (unat fin - unat start + 1) * 4)"

definition entry_out :: "fw_ctx \<Rightarrow> bool \<Rightarrow> u32 \<Rightarrow> nat \<Rightarrow> u8 list \<Rightarrow> nat" where
  "entry_out cx real ty e m =
     (if ty = 256 \<or> ty = 258 then 8 * unat (rd16 m (e + 21))
      else if ty = 260 then 8
      else if ty = 262 then ram_out cx e m
      else if ty = 263
      then if rd8 m (e + 20) = T263_QUEUE_TYPE_REQ
           then sum_list (map (queue_bytes (cx_req cx) REQUEST_ENTRY_CNT_24XX real)
                  [0..<unat (cx_max_req_queues cx)])
           else if rd8 m (e + 20) = T263_QUEUE_TYPE_RSP
           then sum_list (map (queue_bytes (cx_rsp cx) RESPONSE_ENTRY_CNT_MQ real)
                  [0..<unat (cx_max_rsp_queues cx)])
           else 0
      else if ty = 264 then if fce cx = None then 0 else FCE_SIZE
      else if ty = 268
      then if rd8 m (e + 16) = T268_BUF_TYPE_EXTD_TRACE \<and> eft cx \<noteq> None then EFT_SIZE else 0
      else if ty = 269 then 20
      else if ty = 270 \<or> ty = 273 then 8 * unat (rd32 m (e + 20))
      else if ty = 272 then 4 * unat (rd32 m (e + 20))
      else if ty = 274
      then if rd8 m (e + 20) = T274_QUEUE_TYPE_REQ_SHAD
           then sum_list (map (shadow_bytes (cx_req cx) real) [0..<unat (cx_max_req_queues cx)])
           else if rd8 m (e + 20) = T274_QUEUE_TYPE_RSP_SHAD
           then sum_list (map (shadow_bytes (cx_rsp cx) real) [0..<unat (cx_max_rsp_queues cx)])
           else 0
      else if ty = 275
      then let len = unat (rd32 m (e + 16))
           in if 20 + len > unat (rd32 m (e + 4)) then 0 else len
      else 0)"

text \<open>The fixed part of an entry: the fields the code reads or edits lie in it.\<close>

definition entry_min :: "u32 \<Rightarrow> nat" where
  "entry_min ty =
     (if ty \<in> {260, 269, 275} then 20
      else if ty \<in> {256, 261, 263, 267, 270, 271, 272, 273, 274} then 24
      else if ty \<in> {257, 262} then 28
      else if ty \<in> {258, 259, 268} then 32
      else if ty = 264 then 60 else 16)"

abbreviation (input) "entry_edits ty e \<equiv> {p. e + 15 \<le> p \<and> p < e + entry_min ty}"

text \<open>The two RAM readers never store more words than asked for.\<close>

definition hw_ok :: "'w fw_hw \<Rightarrow> bool" where
  "hw_ok hw \<longleftrightarrow> (\<forall>a n w. length (fst (hw_dump_ram hw a n w)) \<le> 4 * unat n)
     \<and> (\<forall>a n w. length (fst (hw_dump_mpi_ram hw a n w)) \<le> 4 * unat n)"

text \<open>What every entry of type \<open>ty\<close> must satisfy.\<close>

definition entry_good :: "fw_ctx \<Rightarrow> u32 \<Rightarrow> 'w fw_call \<Rightarrow> bool" where
  "entry_good cx ty call \<longleftrightarrow> (\<forall>e real s.
     fst (call e real s) = (ty = 255)
   \<and> wlen (snd (call e real s)) = wlen s + entry_out cx real ty e (wmem s)
   \<and> touches (entry_edits ty e) s (snd (call e real s))
   \<and> (\<not> real \<longrightarrow> wmem (snd (call e real s)) = wmem s))"

lemma dry_mem [simp]:
  "wmem (insert_bytes bs False s) = wmem s" "wmem (qla27xx_insert16 v False s) = wmem s"
  "wmem (qla27xx_insert32 x False s) = wmem s" "wmem (qla27xx_insertbuf mem n False s) = wmem s"
  "wmem (qla27xx_read8 hw a False s) = wmem s" "wmem (qla27xx_read16 hw a False s) = wmem s"
  "wmem (qla27xx_read32 hw a False s) = wmem s" "wmem (qla27xx_read_reg hw a False s) = wmem s"
  "wmem (qla27xx_read_vector hw k a False s) = wmem s"
  "wmem (edit_entry f False s) = wmem s" "wmem (qla27xx_skip_entry e False s) = wmem s"
  by (simp_all add: insert_bytes_def qla27xx_insert16_def qla27xx_insert32_def qla27xx_insertbuf_def
      qla27xx_read8_def qla27xx_read16_def qla27xx_read32_def qla27xx_read_reg_def Let_def
      qla27xx_read_vector_def edit_entry_def qla27xx_skip_entry_def split: option.split)

lemma dry_mem_loops [simp]:
  "wmem (qla27xx_read_window hw ad off c n False s) = wmem s"
  "wmem (read_window_loop hw n c a x False s) = wmem s"
  "wmem (fst (t263_queues qs d is False (s, k))) = wmem s"
  "wmem (fst (t274_queues qs is False (s, k))) = wmem s"
  "wmem (t270_loop hw c y False s) = wmem s" "wmem (t273_loop hw c y False s) = wmem s"
proof -
  show "wmem (read_window_loop hw n c a x False s) = wmem s" for a x s
    by (induction c arbitrary: a x s) (simp_all add: Let_def)
  then show "wmem (qla27xx_read_window hw ad off c n False s) = wmem s"
    by (simp add: qla27xx_read_window_def)
  show "wmem (fst (t263_queues qs d is False (s, k))) = wmem s"
    by (induction "is" arbitrary: s k) (simp_all add: Let_def)
  show "wmem (fst (t274_queues qs is False (s, k))) = wmem s"
    by (induction "is" arbitrary: s k) (simp_all add: Let_def)
  show "wmem (t270_loop hw c y False s) = wmem s"
    by (induction c arbitrary: y s) (simp_all add: Let_def)
  show "wmem (t273_loop hw c y False s) = wmem s"
    by (induction c arbitrary: y s) (simp_all add: Let_def split: prod.split)
qed

lemma entry_goodI:
  assumes "\<And>e real s. fst (call e real s) = (ty = 255)"
    and "\<And>e real s. wlen (snd (call e real s)) = wlen s + entry_out cx real ty e (wmem s)"
    and "\<And>e real s. touches (entry_edits ty e) s (snd (call e real s))"
    and "\<And>e s. wmem (snd (call e False s)) = wmem s"
  shows "entry_good cx ty call"
proof -
  have "\<not> real \<longrightarrow> wmem (snd (call e real s)) = wmem s" for e real s
    using assms(4) by (cases real) auto
  with assms(1-3) show ?thesis unfolding entry_good_def by blast
qed

text \<open>The same facts in step form, so that a chain of primitives simplifies from the inside.\<close>

lemma touch_steps:
  assumes "touches E s s'"
  shows "touches E s (qla27xx_insert16 v real s')" "touches E s (qla27xx_insert32 x real s')"
    "touches E s (qla27xx_insertbuf mem n real s')" "touches E s (qla27xx_read_reg hw a real s')"
    "touches E s (qla27xx_write_reg hw a d real s')" "touches E s (s'\<lparr>wworld := w\<rparr>)"
    "touches E s (qla27xx_read_window hw y off c n real s')"
    "touches E s (t270_loop hw c k real s')" "touches E s (t273_loop hw c k real s')"
    "e + 15 \<in> E \<Longrightarrow> touches E s (qla27xx_skip_entry e real s')"
    "(\<And>m. length (f m) = length m) \<Longrightarrow> (\<And>m p. p \<notin> E \<Longrightarrow> f m ! p = m ! p) \<Longrightarrow>
       touches E s (edit_entry f real s')"
    "length bs \<le> n \<Longrightarrow> touches E s ((insert_bytes bs real s')\<lparr>wlen := wlen s' + n\<rparr>)"
    "touches E s (s'\<lparr>wlen := wlen s' + n\<rparr>)"
  by (rule touches_trans [OF assms]; simp add: fw_touch t270_touch t273_touch touches_insert
      touches_len edit_touch)+

lemma good_plain:
  "entry_good cx 0 qla27xx_fwdt_entry_t0" "entry_good cx 255 qla27xx_fwdt_entry_t255"
  "entry_good cx 256 (qla27xx_fwdt_entry_t256 hw)" "entry_good cx 257 (qla27xx_fwdt_entry_t257 hw)"
  "entry_good cx 258 (qla27xx_fwdt_entry_t258 hw)" "entry_good cx 259 (qla27xx_fwdt_entry_t259 hw)"
  "entry_good cx 260 (qla27xx_fwdt_entry_t260 hw)" "entry_good cx 261 (qla27xx_fwdt_entry_t261 hw)"
  "entry_good cx 265 (qla27xx_fwdt_entry_t265 hw)" "entry_good cx 266 (qla27xx_fwdt_entry_t266 hw)"
  "entry_good cx 267 (qla27xx_fwdt_entry_t267 hw)" "entry_good cx 271 (qla27xx_fwdt_entry_t271 hw)"
  unfolding qla27xx_fwdt_entry_t0_def qla27xx_fwdt_entry_t255_def qla27xx_fwdt_entry_t256_def
    qla27xx_fwdt_entry_t257_def qla27xx_fwdt_entry_t258_def qla27xx_fwdt_entry_t259_def
    qla27xx_fwdt_entry_t260_def qla27xx_fwdt_entry_t261_def qla27xx_fwdt_entry_t265_def
    qla27xx_fwdt_entry_t266_def qla27xx_fwdt_entry_t267_def qla27xx_fwdt_entry_t271_def
  by (rule entry_goodI; simp add: Let_def fw_len entry_out_def entry_min_def fw_touch
      touch_steps)+

lemma edit_steps:
  assumes "touches E s s'"
  shows "(\<And>p. a \<le> p \<Longrightarrow> p < a + 4 \<Longrightarrow> p \<in> E) \<Longrightarrow> touches E s (edit_entry (wr32 a v) real s')"
    and "(\<And>p. e + 15 \<le> p \<Longrightarrow> p < e + 60 \<Longrightarrow> p \<in> E) \<Longrightarrow>
      touches E s (edit_entry (t264_edit cx e) real s')"
    and "(\<And>p. e + 15 \<le> p \<Longrightarrow> p < e + 32 \<Longrightarrow> p \<in> E) \<Longrightarrow>
      touches E s (edit_entry (wr64 (e + 24) x \<circ> wr32 (e + 20) y) real s')"
proof -
  have o32: "wr32 b u m ! p = m ! p" if "\<not> (b \<le> p \<and> p < b + 4)" for b u m p
    using that by (intro wr_other) auto
  have o64: "wr64 b u m ! p = m ! p" if "\<not> (b \<le> p \<and> p < b + 8)" for b u m p
    using that by (intro wr_other) auto
  show "touches E s (edit_entry (wr32 a v) real s')"
    if "\<And>p. a \<le> p \<Longrightarrow> p < a + 4 \<Longrightarrow> p \<in> E"
    by (rule touches_trans [OF assms edit_touch]) (simp, rule o32, use that in blast)
  show "touches E s (edit_entry (t264_edit cx e) real s')"
    if H: "\<And>p. e + 15 \<le> p \<Longrightarrow> p < e + 60 \<Longrightarrow> p \<in> E"
  proof (rule touches_trans [OF assms edit_touch])
    fix m p assume "p \<notin> E"
    then have "\<not> (e + 15 \<le> p \<and> p < e + 60)" using H by blast
    then consider "p < e + 15" | "e + 60 \<le> p" by linarith
    then show "t264_edit cx e m ! p = m ! p"
      by cases (simp_all add: t264_edit_def Let_def o32 o64)
  qed (simp add: t264_edit_def Let_def)
  show "touches E s (edit_entry (wr64 (e + 24) x \<circ> wr32 (e + 20) y) real s')"
    if H: "\<And>p. e + 15 \<le> p \<Longrightarrow> p < e + 32 \<Longrightarrow> p \<in> E"
  proof (rule touches_trans [OF assms edit_touch])
    fix m p assume "p \<notin> E"
    then have "\<not> (e + 15 \<le> p \<and> p < e + 32)" using H by blast
    then consider "p < e + 15" | "e + 32 \<le> p" by linarith
    then show "(wr64 (e + 24) x \<circ> wr32 (e + 20) y) m ! p = m ! p" by cases (simp_all add: o32 o64)
  qed simp
qed

lemma good_loops:
  "entry_good cx 269 qla27xx_fwdt_entry_t269" "entry_good cx 270 (qla27xx_fwdt_entry_t270 hw)"
  "entry_good cx 273 (qla27xx_fwdt_entry_t273 hw)" "entry_good cx 275 qla27xx_fwdt_entry_t275"
  unfolding qla27xx_fwdt_entry_t269_def qla27xx_fwdt_entry_t270_def qla27xx_fwdt_entry_t273_def
    qla27xx_fwdt_entry_t275_def
  by (rule entry_goodI; simp add: Let_def fw_len t270_len t273_len entry_out_def entry_min_def
      fw_touch touch_steps edit_steps)+

lemma good_buffers:
  "entry_good cx 264 (qla27xx_fwdt_entry_t264 cx)" "entry_good cx 268 (qla27xx_fwdt_entry_t268 cx)"
  unfolding qla27xx_fwdt_entry_t264_def qla27xx_fwdt_entry_t268_def
  by (rule entry_goodI; simp add: Let_def fw_len entry_out_def entry_min_def
      fw_touch touch_steps edit_steps split: option.split)+

lemma good_queues:
  "entry_good cx 263 (qla27xx_fwdt_entry_t263 cx)" "entry_good cx 274 (qla27xx_fwdt_entry_t274 cx)"
  unfolding qla27xx_fwdt_entry_t263_def qla27xx_fwdt_entry_t274_def
  by (rule entry_goodI; simp add: Let_def fw_len entry_out_def entry_min_def case_prod_unfold
      t263_queues_len t274_queues_len t263_queues_touch t274_queues_touch
      fw_touch touch_steps edit_steps)+

lemma t262_edit:
  assumes "t262_range cx e m = Some (a, b, f)"
  shows "length (f m') = length m'"
    and "\<not> (e + 15 \<le> p \<and> p < e + 28) \<Longrightarrow> f m' ! p = m' ! p"
  using assms by (auto simp: t262_range_def Let_def wr_other split: if_splits)

lemma dump_bound:
  assumes "hw_ok hw"
  shows "length (fst (hw_dump_ram hw a (of_nat d) w)) \<le> d * 4"
    and "length (fst (hw_dump_mpi_ram hw a x w)) \<le> unat x * 4"
proof -
  have "length (fst (hw_dump_ram hw a (of_nat d) w)) \<le> 4 * unat (of_nat d :: u32)"
    using assms by (simp add: hw_ok_def)
  also have "... \<le> d * 4" by (simp add: unat_of_nat)
  finally show "length (fst (hw_dump_ram hw a (of_nat d) w)) \<le> d * 4" .
  show "length (fst (hw_dump_mpi_ram hw a x w)) \<le> unat x * 4"
    using assms by (simp add: hw_ok_def mult.commute)
qed

lemma dump_touch:
  assumes "touches E s s'" and "length (fst r) \<le> n"
  shows "touches E s ((insert_bytes (fst r) real (s'\<lparr>wworld := w\<rparr>))\<lparr>wlen := wlen s' + n\<rparr>)"
  using touch_steps(12) [OF touch_steps(6) [OF assms(1), of w] assms(2)] by simp

lemma good_ram:
  assumes "hw_ok hw"
  shows "entry_good cx 262 (qla27xx_fwdt_entry_t262 hw cx)"
    and "entry_good cx 272 (qla27xx_fwdt_entry_t272 hw)"
proof -
  show "entry_good cx 262 (qla27xx_fwdt_entry_t262 hw cx)"
  proof (rule entry_goodI)
    fix e real and s :: "'a fw_walk"
    let ?E = "entry_edits 262 e"
    show "touches ?E s (snd (qla27xx_fwdt_entry_t262 hw cx e real s))"
    proof (cases "t262_range cx e (wmem s)")
      case None
      then show ?thesis by (simp add: qla27xx_fwdt_entry_t262_def entry_min_def fw_touch)
    next
      case (Some t)
      obtain a b f where t: "t = (a, b, f)" by (cases t) auto
      note ed = t262_edit [OF Some [unfolded t]]
      have et: "touches ?E s (edit_entry f real s)"
        by (rule edit_touch) (use ed in \<open>auto simp: entry_min_def\<close>)
      define d where "d = unat b - unat a + 1"
      have skip: "touches ?E s (qla27xx_skip_entry e real (edit_entry f real s))"
        by (rule touch_steps [OF et]) (simp add: entry_min_def)
      have size: "qla27xx_fwdt_entry_t262 hw cx e real s =
         (if b < a \<or> b = 0 then (False, qla27xx_skip_entry e real (edit_entry f real s))
          else let s = edit_entry f real s;
                   s' = (if real then insert_bytes (fst (hw_dump_ram hw a (of_nat d) (wworld s)))
                           real (s\<lparr>wworld := snd (hw_dump_ram hw a (of_nat d) (wworld s))\<rparr>) else s)
               in (False, s'\<lparr>wlen := wlen s' + d * 4\<rparr>))"
        unfolding qla27xx_fwdt_entry_t262_def Some t option.case prod.case Let_def d_def
          case_prod_unfold fst_conv snd_conv by (rule refl)
      show ?thesis
        unfolding size Let_def
        using skip dump_touch [OF et dump_bound(1) [OF assms, of a d "wworld (edit_entry f real s)"],
            of real "snd (hw_dump_ram hw a (of_nat d) (wworld (edit_entry f real s)))"]
          touch_steps(13) [OF et, of "d * 4"] by (cases real) (simp_all split: if_split)
    qed
  qed (simp_all add: qla27xx_fwdt_entry_t262_def entry_out_def ram_out_def Let_def fw_len
      case_prod_unfold split: option.split)
  show "entry_good cx 272 (qla27xx_fwdt_entry_t272 hw)"
    by (rule entry_goodI)
      (simp_all add: qla27xx_fwdt_entry_t272_def entry_out_def Let_def case_prod_unfold
        dump_touch touches_refl dump_bound [OF assms] touches_len)
qed

end
