(* ===== verification/Fwdt_Walk.thy ===== *)
theory Fwdt_Walk
  imports Fwdt_Props
begin

text \<open>
  The walk as a whole: the dispatch table, the size computed by the dry run, and the capture
  that must fit in it.
\<close>

section \<open>The dispatch table\<close>

lemma find_entry_miss: "ty \<notin> fst ` set xs \<Longrightarrow> qla27xx_find_entry xs ty = qla27xx_fwdt_entry_other"
  by (induction xs) auto

lemma find_entry_map_of:
  assumes "sorted_wrt (<) (map fst xs)"
  shows "qla27xx_find_entry xs ty =
    (case map_of xs ty of Some call \<Rightarrow> call | None \<Rightarrow> qla27xx_fwdt_entry_other)"
  using assms
proof (induction xs)
  case (Cons x xs)
  obtain t call where x: "x = (t, call)" by (cases x)
  have "map_of xs ty = None" if "ty < t"
    using Cons.prems that by (auto simp: x map_of_eq_None_iff)
  then show ?case using Cons by (auto simp: x)
qed simp

lemma call_list_sorted: "sorted_wrt (<) (map fst (ql27xx_fwdt_entry_call_list hw cx))"
  by (simp add: ql27xx_fwdt_entry_call_list_def word_gt_0)

text \<open>
  The scan of the dispatch table, which stops at the first type not below the one looked
  for, finds the handler the table lists for every type and the default handler for a type
  that is not listed.
\<close>

theorem find_entry_dispatch:
  "qla27xx_find_entry (ql27xx_fwdt_entry_call_list hw cx) ty =
     (case map_of (ql27xx_fwdt_entry_call_list hw cx) ty of
        Some call \<Rightarrow> call | None \<Rightarrow> qla27xx_fwdt_entry_other)"
  by (rule find_entry_map_of [OF call_list_sorted])

abbreviation (input) "known_types \<equiv>
  ({0, 255, 256, 257, 258, 259, 260, 261, 262, 263, 264, 265, 266, 267, 268, 269, 270, 271,
    272, 273, 274, 275} :: u32 set)"

lemma good_other: "ty \<notin> known_types \<Longrightarrow> entry_good cx ty qla27xx_fwdt_entry_other"
  unfolding qla27xx_fwdt_entry_other_def
  by (rule entry_goodI; simp add: fw_len entry_out_def fw_touch entry_min_def)

lemma find_entry_good:
  assumes "hw_ok hw"
  shows "entry_good cx ty (qla27xx_find_entry (ql27xx_fwdt_entry_call_list hw cx) ty)"
proof (cases "ty \<in> known_types")
  case True
  then show ?thesis
    by (elim insertE emptyE)
      (simp_all add: ql27xx_fwdt_entry_call_list_def good_plain good_loops good_buffers
        good_queues good_ram [OF assms])
next
  case False
  have "qla27xx_find_entry (ql27xx_fwdt_entry_call_list hw cx) ty = qla27xx_fwdt_entry_other"
  proof (cases "ty = -1")
    case True
    then show ?thesis by (simp add: ql27xx_fwdt_entry_call_list_def word_gt_0)
  next
    case other: False
    show ?thesis
      by (rule find_entry_miss) (use False other in \<open>simp add: ql27xx_fwdt_entry_call_list_def\<close>)
  qed
  then show ?thesis using good_other [OF False] by simp
qed

section \<open>Well-formed templates\<close>

fun entries_wf :: "nat \<Rightarrow> nat \<Rightarrow> nat \<Rightarrow> u8 list \<Rightarrow> bool" where
  "entries_wf 0 e ts m = True"
| "entries_wf (Suc n) e ts m =
     (let ty = rd32 m e; sz = unat (rd32 m (e + 4))
      in entry_min ty \<le> sz \<and> e + sz \<le> ts \<and> (ty = 255 \<or> entries_wf n (e + sz) ts m))"

fun total_out :: "fw_ctx \<Rightarrow> bool \<Rightarrow> nat \<Rightarrow> nat \<Rightarrow> u8 list \<Rightarrow> nat" where
  "total_out cx real 0 e m = 0"
| "total_out cx real (Suc n) e m =
     (let ty = rd32 m e
      in entry_out cx real ty e m
         + (if ty = 255 then 0 else total_out cx real n (e + unat (rd32 m (e + 4))) m))"

definition agree :: "nat \<Rightarrow> nat \<Rightarrow> u8 list \<Rightarrow> u8 list \<Rightarrow> bool" where
  "agree a b m m' \<longleftrightarrow> (\<forall>p. a \<le> p \<longrightarrow> p < b \<longrightarrow> rd8 m p = rd8 m' p)"

lemma agree_mono: "agree a b m m' \<Longrightarrow> a \<le> a' \<Longrightarrow> agree a' b m m'"
  by (auto simp: agree_def)

lemma agree_trans: "agree a b m m' \<Longrightarrow> agree a b m' m'' \<Longrightarrow> agree a b m m''"
  by (simp add: agree_def)

lemma agree_rd:
  assumes "agree a b m m'" "a \<le> p"
  shows "p + 1 \<le> b \<Longrightarrow> rd8 m p = rd8 m' p" "p + 2 \<le> b \<Longrightarrow> rd16 m p = rd16 m' p"
    "p + 4 \<le> b \<Longrightarrow> rd32 m p = rd32 m' p"
  using assms by (simp_all add: agree_def rd16_def rd32_def)

lemma entry_out_agree:
  assumes "agree e b m m'" and "e + entry_min ty \<le> b"
  shows "entry_out cx real ty e m = entry_out cx real ty e m'"
proof -
  note r = agree_rd [OF assms(1)]
  have size: "rd32 m (e + 4) = rd32 m' (e + 4)"
    by (rule r) (use assms(2) in \<open>auto simp: entry_min_def split: if_splits\<close>)
  have same: "rd8 m (e + k) = rd8 m' (e + k)" if "k + 1 \<le> entry_min ty" for k
    by (rule r) (use assms(2) that in auto)
  have same16: "rd16 m (e + k) = rd16 m' (e + k)" if "k + 2 \<le> entry_min ty" for k
    by (rule r) (use assms(2) that in auto)
  have same32: "rd32 m (e + k) = rd32 m' (e + k)" if "k + 4 \<le> entry_min ty" for k
    by (rule r) (use assms(2) that in auto)
  show ?thesis
  proof (cases "ty \<in> {256, 258, 260, 262, 263, 264, 268, 269, 270, 272, 273, 274, 275}")
    case True
    then show ?thesis
      by (elim insertE emptyE; hypsubst)
        (simp_all only: entry_out_def ram_out_def t262_range_def,
         simp_all add: entry_min_def size same same16 same32)
  next
    case False
    then show ?thesis by (simp add: entry_out_def)
  qed
qed

lemma entry_min_ge: "16 \<le> entry_min ty"
  by (simp add: entry_min_def)

lemma entries_agree:
  "agree e ts m m' \<Longrightarrow> entries_wf n e ts m \<Longrightarrow>
    entries_wf n e ts m' \<and> total_out cx real n e m = total_out cx real n e m'"
proof (induction n arbitrary: e)
  case (Suc n)
  let ?sz = "unat (rd32 m (e + 4))"
  have wf: "entry_min (rd32 m e) \<le> ?sz" "e + ?sz \<le> ts"
      "rd32 m e = 255 \<or> entries_wf n (e + ?sz) ts m"
    using Suc.prems by (simp_all add: Let_def)
  have "e + 16 \<le> ts" using wf entry_min_ge [of "rd32 m e"] by linarith
  then have same: "rd32 m e = rd32 m' e" "rd32 m (e + 4) = rd32 m' (e + 4)"
    by (simp_all add: agree_rd [OF Suc.prems(1)])
  have out: "entry_out cx real (rd32 m e) e m = entry_out cx real (rd32 m e) e m'"
    by (rule entry_out_agree [OF Suc.prems(1)]) (use wf in simp)
  show ?case
    using wf Suc.IH [OF agree_mono [OF Suc.prems(1)], of "e + ?sz"] out
    by (auto simp: Let_def same)
qed simp

section \<open>The walk\<close>

fun walk_end :: "nat \<Rightarrow> nat \<Rightarrow> u8 list \<Rightarrow> u64 \<times> nat" where
  "walk_end 0 e m = (-1, e)"
| "walk_end (Suc n) e m =
     (if rd32 m e = 255 then (of_nat n, e) else walk_end n (e + unat (rd32 m (e + 4))) m)"

lemma walk_end_agree:
  "agree e ts m m' \<Longrightarrow> entries_wf n e ts m \<Longrightarrow> walk_end n e m = walk_end n e m'"
proof (induction n arbitrary: e)
  case (Suc n)
  let ?sz = "unat (rd32 m (e + 4))"
  have wf: "entry_min (rd32 m e) \<le> ?sz" "e + ?sz \<le> ts"
      "rd32 m e = 255 \<or> entries_wf n (e + ?sz) ts m"
    using Suc.prems by (simp_all add: Let_def)
  have "e + 16 \<le> ts" using wf entry_min_ge [of "rd32 m e"] by linarith
  then have same: "rd32 m e = rd32 m' e" "rd32 m (e + 4) = rd32 m' (e + 4)"
    by (simp_all add: agree_rd [OF Suc.prems(1)])
  show ?case
    using wf Suc.IH [OF agree_mono [OF Suc.prems(1)], of "e + ?sz"] by (auto simp: same)
qed simp

lemma touches_mono: "touches E s s' \<Longrightarrow> E \<subseteq> F \<Longrightarrow> touches F s s'"
  by (auto simp: touches_def)

lemma touches_agree:
  assumes "touches E s s'" "b \<le> wlen s" "\<And>p. p \<in> E \<Longrightarrow> p < a"
  shows "agree a b (wmem s) (wmem s')"
proof -
  have "wmem s' ! p = wmem s ! p" if "a \<le> p" "p < b" for p
    using assms that unfolding touches_def by (metis leD less_le_trans)
  moreover have "length (wmem s') = length (wmem s)" using assms(1) by (simp add: touches_def)
  ultimately show ?thesis by (simp add: agree_def rd8_def nth_default_def)
qed

lemma walk_loop_effect:
  assumes "hw_ok hw"
  shows "entries_wf n e ts (wmem s) \<Longrightarrow> ts \<le> wlen s \<Longrightarrow>
    wlen (fst (walk_loop hw cx n e real s)) = wlen s + total_out cx real n e (wmem s)
  \<and> touches {p. e + 15 \<le> p \<and> p < ts} s (fst (walk_loop hw cx n e real s))
  \<and> (\<not> real \<longrightarrow> wmem (fst (walk_loop hw cx n e real s)) = wmem s)
  \<and> snd (walk_loop hw cx n e real s) = walk_end n e (wmem s)"
proof (induction n arbitrary: e s)
  case 0
  then show ?case by (simp add: touches_refl)
next
  case (Suc n)
  let ?m = "wmem s" let ?ty = "rd32 ?m e" let ?sz = "unat (rd32 ?m (e + 4))"
  let ?call = "qla27xx_find_entry (ql27xx_fwdt_entry_call_list hw cx) ?ty"
  obtain fin s1 where c: "?call e real s = (fin, s1)" by (cases "?call e real s")
  have wf: "entry_min ?ty \<le> ?sz" "e + ?sz \<le> ts" "?ty = 255 \<or> entries_wf n (e + ?sz) ts ?m"
    using Suc.prems by (simp_all add: Let_def)
  have ge: "e + 16 \<le> e + ?sz" using wf(1) entry_min_ge [of ?ty] by linarith
  have good: "fin = (?ty = 255)" "wlen s1 = wlen s + entry_out cx real ?ty e ?m"
      "touches (entry_edits ?ty e) s s1" "\<not> real \<Longrightarrow> wmem s1 = ?m"
    using find_entry_good [OF assms, of cx ?ty] unfolding entry_good_def by (metis c fst_conv snd_conv)+
  have t1: "touches {p. e + 15 \<le> p \<and> p < ts} s s1"
    by (rule touches_mono [OF good(3)]) (use wf in auto)
  have head: "rd32 (wmem s1) (e + 4) = rd32 ?m (e + 4)"
  proof -
    have "rd8 (wmem s1) p = rd8 ?m p" if "p < e + 15" for p
    proof -
      have "p < wlen s" using that ge wf(2) Suc.prems(2) by linarith
      then show ?thesis using good(3) that by (simp add: touches_def rd8_def nth_default_def)
    qed
    then show ?thesis by (simp add: rd32_def)
  qed
  show ?case
  proof (cases "?ty = 255")
    case True
    then have "qla27xx_find_entry (ql27xx_fwdt_entry_call_list hw cx) 255 e real s = (True, s1)"
      using c good(1) by simp
    then have step: "walk_loop hw cx (Suc n) e real s = (s1, of_nat n, e)"
      using True by simp
    show ?thesis unfolding step using True good t1 by (simp add: Let_def)
  next
    case False
    have ag: "agree (e + ?sz) ts ?m (wmem s1)"
      by (rule touches_agree [OF good(3) Suc.prems(2)]) (use wf in auto)
    have rest: "entries_wf n (e + ?sz) ts ?m" using wf(3) False by simp
    have IH: "wlen (fst (walk_loop hw cx n (e + ?sz) real s1))
          = wlen s1 + total_out cx real n (e + ?sz) (wmem s1)
        \<and> touches {p. e + ?sz + 15 \<le> p \<and> p < ts} s1 (fst (walk_loop hw cx n (e + ?sz) real s1))
        \<and> (\<not> real \<longrightarrow> wmem (fst (walk_loop hw cx n (e + ?sz) real s1)) = wmem s1)
        \<and> snd (walk_loop hw cx n (e + ?sz) real s1) = walk_end n (e + ?sz) (wmem s1)"
      by (rule Suc.IH) (use entries_agree [OF ag rest] good(2) Suc.prems(2) in auto)
    have t2: "touches {p. e + 15 \<le> p \<and> p < ts} s (fst (walk_loop hw cx n (e + ?sz) real s1))"
      by (rule touches_trans [OF t1 touches_mono [OF conjunct1 [OF conjunct2 [OF IH]]]]) auto
    have step: "walk_loop hw cx (Suc n) e real s = walk_loop hw cx n (e + ?sz) real s1"
      using c good(1) False head by simp
    show ?thesis
      unfolding step
      using IH t2 good(2,4) entries_agree [OF ag rest, of cx real] walk_end_agree [OF ag rest] False
      by (simp add: Let_def)
  qed
qed

section \<open>What grows and what does not\<close>

text \<open>
  The adapter at the capture (\<open>cx\<close>) against the adapter the size was computed on (\<open>cx0\<close>):
  queues may come and go but none is longer than the one measured (or than the default length
  a missing one was measured with), and no trace buffer was enabled in between.
\<close>

definition queues_fit :: "(nat \<Rightarrow> fw_queue option) \<Rightarrow> (nat \<Rightarrow> fw_queue option) \<Rightarrow> u16 \<Rightarrow> u8 \<Rightarrow> bool" where
  "queues_fit qs qs0 dflt n \<longleftrightarrow> (\<forall>i \<in> set [0..<unat n]. case qs i of None \<Rightarrow> True
     | Some q \<Rightarrow> fq_length q \<le> (case qs0 i of Some q0 \<Rightarrow> fq_length q0 | None \<Rightarrow> dflt))"

definition ctx_fits :: "fw_ctx \<Rightarrow> fw_ctx \<Rightarrow> bool" where
  "ctx_fits cx cx0 \<longleftrightarrow>
     fw_memory_size cx = fw_memory_size cx0 \<and> fw_shared_ram_start cx = fw_shared_ram_start cx0
   \<and> fw_shared_ram_end cx = fw_shared_ram_end cx0
   \<and> cx_max_req_queues cx = cx_max_req_queues cx0 \<and> cx_max_rsp_queues cx = cx_max_rsp_queues cx0
   \<and> queues_fit (cx_req cx) (cx_req cx0) REQUEST_ENTRY_CNT_24XX (cx_max_req_queues cx)
   \<and> queues_fit (cx_rsp cx) (cx_rsp cx0) RESPONSE_ENTRY_CNT_MQ (cx_max_rsp_queues cx)
   \<and> (fce cx0 = None \<longrightarrow> fce cx = None) \<and> (eft cx0 = None \<longrightarrow> eft cx = None)"

lemma queue_bytes_fit:
  assumes "queues_fit qs qs0 dflt n"
  shows "sum_list (map (queue_bytes qs dflt True) [0..<unat n])
         \<le> sum_list (map (queue_bytes qs0 dflt False) [0..<unat n])"
  using assms
  by (intro sum_list_mono)
    (fastforce simp: queues_fit_def queue_bytes_def word_le_nat_alt split: option.splits)

lemma shadow_bytes_fit:
  "sum_list (map (shadow_bytes qs True) xs) \<le> sum_list (map (shadow_bytes qs0 False) xs)"
  by (intro sum_list_mono) (simp add: shadow_bytes_def)

lemma entry_out_fits:
  assumes "ctx_fits cx cx0"
  shows "entry_out cx True ty e m \<le> entry_out cx0 False ty e m"
proof -
  have q: "sum_list (map (queue_bytes (cx_req cx) REQUEST_ENTRY_CNT_24XX True)
        [0..<unat (cx_max_req_queues cx)])
      \<le> sum_list (map (queue_bytes (cx_req cx0) REQUEST_ENTRY_CNT_24XX False)
        [0..<unat (cx_max_req_queues cx)])"
    and q': "sum_list (map (queue_bytes (cx_rsp cx) RESPONSE_ENTRY_CNT_MQ True)
        [0..<unat (cx_max_rsp_queues cx)])
      \<le> sum_list (map (queue_bytes (cx_rsp cx0) RESPONSE_ENTRY_CNT_MQ False)
        [0..<unat (cx_max_rsp_queues cx)])"
    using assms by (auto simp: ctx_fits_def intro!: queue_bytes_fit)
  have ram: "ram_out cx e m = ram_out cx0 e m"
    using assms by (simp add: ram_out_def t262_range_def Let_def ctx_fits_def)
  have "cx_max_req_queues cx0 = cx_max_req_queues cx" "cx_max_rsp_queues cx0 = cx_max_rsp_queues cx"
      "fce cx0 = None \<Longrightarrow> fce cx = None" "eft cx0 = None \<Longrightarrow> eft cx = None"
    using assms by (simp_all add: ctx_fits_def)
  then show ?thesis
    using q q' by (auto simp: entry_out_def ram shadow_bytes_fit Let_def)
qed

lemma total_out_fits:
  assumes "ctx_fits cx cx0"
  shows "total_out cx True n e m \<le> total_out cx0 False n e m"
  by (induction n arbitrary: e) (simp_all add: Let_def add_mono entry_out_fits [OF assms])

text \<open>When every queue exists, the capture is as long as the dry run says.\<close>

definition all_queues :: "fw_ctx \<Rightarrow> bool" where
  "all_queues cx \<longleftrightarrow> (\<forall>i \<in> set [0..<unat (cx_max_req_queues cx)]. cx_req cx i \<noteq> None)
     \<and> (\<forall>i \<in> set [0..<unat (cx_max_rsp_queues cx)]. cx_rsp cx i \<noteq> None)"

lemma entry_out_exact:
  assumes "all_queues cx"
  shows "entry_out cx True ty e m = entry_out cx False ty e m"
proof -
  have "map (queue_bytes (cx_req cx) d True) [0..<unat (cx_max_req_queues cx)]
      = map (queue_bytes (cx_req cx) d False) [0..<unat (cx_max_req_queues cx)]"
    "map (queue_bytes (cx_rsp cx) d True) [0..<unat (cx_max_rsp_queues cx)]
      = map (queue_bytes (cx_rsp cx) d False) [0..<unat (cx_max_rsp_queues cx)]"
    "map (shadow_bytes (cx_req cx) True) [0..<unat (cx_max_req_queues cx)]
      = map (shadow_bytes (cx_req cx) False) [0..<unat (cx_max_req_queues cx)]"
    "map (shadow_bytes (cx_rsp cx) True) [0..<unat (cx_max_rsp_queues cx)]
      = map (shadow_bytes (cx_rsp cx) False) [0..<unat (cx_max_rsp_queues cx)]" for d
    using assms by (auto simp: all_queues_def queue_bytes_def shadow_bytes_def)
  then show ?thesis by (simp only: entry_out_def)
qed

lemma total_out_exact:
  assumes "all_queues cx"
  shows "total_out cx True n e m = total_out cx False n e m"
  by (induction n arbitrary: e) (simp_all add: Let_def entry_out_exact [OF assms])

section \<open>The copy of the template in the dump\<close>

definition template_ok :: "u8 list \<Rightarrow> bool" where
  "template_ok m \<longleftrightarrow>
     (let off = unat (rd32 m 4); ts = unat (rd32 m 8)
      in 164 \<le> off \<and> off \<le> ts \<and> ts \<le> length m \<and> entries_wf (unat (rd32 m 16)) off ts m)"

definition edited :: "nat set" where
  "edited = {24..<28} \<union> {36..<48} \<union> {144..<164}"

lemma edit_template_other: "p \<notin> edited \<Longrightarrow> ql27xx_edit_template fi m ! p = m ! p"
  by (auto simp: edited_def ql27xx_edit_template_def qla27xx_firmware_info_def
      qla27xx_driver_info_def Let_def intro!: wr_other(1) [THEN trans])

lemma length_edit_template [simp]: "length (ql27xx_edit_template fi m) = length m"
  by (simp add: ql27xx_edit_template_def qla27xx_firmware_info_def qla27xx_driver_info_def Let_def)

definition dump_start :: "fw_info \<Rightarrow> u8 list \<Rightarrow> u8 list \<Rightarrow> u8 list" where
  "dump_start fi tmp d = ql27xx_edit_template fi (wr_bytes 0 (take (unat (rd32 tmp 8)) tmp) d)"

lemma dump_start_copy:
  assumes "template_ok tmp" "unat (rd32 tmp 8) \<le> length d" "p < unat (rd32 tmp 8)" "p \<notin> edited"
  shows "rd8 (dump_start fi tmp d) p = rd8 tmp p"
  using assms
  by (simp add: dump_start_def edit_template_other wr_bytes_inside rd8_def nth_default_def
      template_ok_def Let_def)

end
