(* ===== verification/Fwdt_Claims.thy ===== *)
theory Fwdt_Claims
  imports Fwdt_Walk
begin

text \<open>
  What the dump-template engine guarantees: the size computed before the dump bounds the
  capture, is exact when every queue exists, and the checksum test is the one's-complement sum.
\<close>

section \<open>A concrete template\<close>

text \<open>
  A small template: a header, one RAM entry (type 262, area 1, words 0x100 to 0x101), one queue
  entry (type 263) and the end entry; and an adapter with one request queue of two allowed.
\<close>

definition sample_template :: "u8 list" where
  "sample_template =
     wr32 0 99 (wr32 4 164 (wr32 8 232 (wr32 16 3 (wr32 28 0xFFFFF8BA (
       wr32 164 262 (wr32 168 28 (wr_bytes 180 [1] (wr32 184 0x100 (wr32 188 0x101 (
       wr32 192 263 (wr32 196 24 (wr_bytes 212 [1] (
       wr32 216 255 (wr32 220 16 (replicate 232 0)))))))))))))))"

definition sample_hw :: "nat fw_hw" where
  "sample_hw = \<lparr>hw_rd8 = \<lambda>a n. (1, n), hw_rd16 = \<lambda>a n. (2, n), hw_rd32 = \<lambda>a n. (3, n),
     hw_wr32 = \<lambda>a v n. Suc n, hw_dump_ram = \<lambda>a k n. (replicate (unat k) 0xAB, Suc n),
     hw_dump_mpi_ram = \<lambda>a k n. ([], Suc n), hw_pause_risc = Suc, hw_soft_reset = Suc,
     hw_pci_config = \<lambda>a n. (None, n)\<rparr>"

definition sample_ctx :: "u8 \<Rightarrow> fw_ctx" where
  "sample_ctx n = \<lparr>fw_memory_size = 0x1000, fw_shared_ram_start = 0, fw_shared_ram_end = 0,
     cx_max_req_queues = n, cx_max_rsp_queues = 0,
     cx_req = \<lambda>i. if i = 0 then Some \<lparr>fq_length = 2, fq_ring = [7], fq_shadow = None\<rparr> else None,
     cx_rsp = \<lambda>i. None, fce = None, fce_wr = 0, fce_dma = 0, fce_mb = [], eft = None, eft_dma = 0\<rparr>"

lemma sample_hw_ok: "hw_ok sample_hw"
  by (simp add: hw_ok_def sample_hw_def)

lemma sample_template_ok: "template_ok sample_template"
  by code_simp

lemma sample_template_valid: "qla27xx_fwdt_template_valid sample_template"
  by code_simp

lemma sample_size:
  "fst (qla27xx_fwdt_calculate_dump_size sample_hw (sample_ctx 1) sample_template 0) = 372"
  by code_simp

definition sample_info :: fw_info where
  "sample_info = \<lparr>jiffies = 7, version_bytes = [8, 7], fw_major_version = 8, fw_minor_version = 1,
     fw_subminor_version = 0, fw_attributes = 0, fw_attributes_h = 0, fw_attributes_ext = []\<rparr>"

lemma sample_fits: "ctx_fits (sample_ctx 1) (sample_ctx 1)"
  by (simp add: ctx_fits_def queues_fit_def sample_ctx_def)

lemma sample_queues: "all_queues (sample_ctx 1)"
  by (simp add: all_queues_def sample_ctx_def)

section \<open>Size and capture\<close>

lemma dry_size:
  assumes "hw_ok hw" "template_ok tmp" "qla27xx_fwdt_template_valid tmp"
  shows "fst (qla27xx_fwdt_calculate_dump_size hw cx tmp w) =
    unat (rd32 tmp 8) + total_out cx False (unat (rd32 tmp 16)) (unat (rd32 tmp 4)) tmp"
proof -
  let ?s = "\<lparr>wmem = tmp, wlen = unat (rd32 tmp 8), wworld = w\<rparr>"
  have "entries_wf (unat (rd32 tmp 16)) (unat (rd32 tmp 4)) (unat (rd32 tmp 8)) (wmem ?s)"
    using assms(2) by (simp add: template_ok_def Let_def)
  from walk_loop_effect [OF assms(1) this, of cx False] show ?thesis
    using assms(3)
    by (simp add: qla27xx_fwdt_calculate_dump_size_def qla27xx_walk_template_def case_prod_unfold
        Let_def)
qed

lemma dump_start_head:
  assumes "template_ok tmp" "unat (rd32 tmp 8) \<le> length d"
  shows "rd32 (dump_start fi tmp d) 4 = rd32 tmp 4" "rd32 (dump_start fi tmp d) 16 = rd32 tmp 16"
    and "agree (unat (rd32 tmp 4)) (unat (rd32 tmp 8)) tmp (dump_start fi tmp d)"
proof -
  have "164 \<le> unat (rd32 tmp 8)" using assms(1) by (simp add: template_ok_def Let_def)
  then have c: "rd8 (dump_start fi tmp d) p = rd8 tmp p" if "p < 24" for p
    using dump_start_copy [OF assms, of p] that by (simp add: edited_def)
  show "rd32 (dump_start fi tmp d) 4 = rd32 tmp 4" "rd32 (dump_start fi tmp d) 16 = rd32 tmp 16"
    by (simp_all add: rd32_def c)
  show "agree (unat (rd32 tmp 4)) (unat (rd32 tmp 8)) tmp (dump_start fi tmp d)"
    using dump_start_copy [OF assms] assms(1)
    by (auto simp: agree_def template_ok_def Let_def edited_def)
qed

lemma capture_spec:
  assumes "hw_ok hw" "template_ok tmp" "qla27xx_fwdt_template_valid tmp"
    and "unat (rd32 tmp 8) \<le> length d"
  obtains s :: "'w fw_walk" where
    "qla27xx_execute_fwdt_template hw cx fi tmp d w = Some (wmem s, wlen s, wworld s)"
    "wlen s = unat (rd32 tmp 8) + total_out cx True (unat (rd32 tmp 16)) (unat (rd32 tmp 4)) tmp"
    "length (wmem s) = length d" "\<And>p. wlen s \<le> p \<Longrightarrow> wmem s ! p = d ! p"
proof -
  let ?n = "unat (rd32 tmp 16)" let ?e = "unat (rd32 tmp 4)" let ?ts = "unat (rd32 tmp 8)"
  let ?s = "\<lparr>wmem = dump_start fi tmp d, wlen = ?ts, wworld = w\<rparr>"
  note hd = dump_start_head [OF assms(2,4), of fi]
  have "164 \<le> ?ts" and wf: "entries_wf ?n ?e ?ts tmp"
    using assms(2) by (simp_all add: template_ok_def Let_def)
  note ag = entries_agree [OF hd(3) wf]
  obtain s where s: "fst (walk_loop hw cx ?n ?e True ?s) = s" by blast
  have eff: "wlen s = ?ts + total_out cx True ?n ?e tmp"
      "touches {p. ?e + 15 \<le> p \<and> p < ?ts} ?s s"
    using walk_loop_effect [OF assms(1), of ?n ?e ?ts ?s cx True] ag by (simp_all add: s)
  show ?thesis
  proof (rule that [of s])
    show "qla27xx_execute_fwdt_template hw cx fi tmp d w = Some (wmem s, wlen s, wworld s)"
      using assms(3) s hd(1,2)
      by (simp add: qla27xx_execute_fwdt_template_def Let_def qla27xx_walk_template_def
          case_prod_unfold dump_start_def [symmetric])
    show "wlen s = ?ts + total_out cx True ?n ?e tmp" by (fact eff)
    show "length (wmem s) = length d" using eff(2) by (simp add: touches_def dump_start_def)
    fix p
    assume that: "wlen s \<le> p"
    show "wmem s ! p = d ! p"
    proof -
      have p: "?ts \<le> p" using that eff(1) by simp
      then have "p \<notin> edited" using \<open>164 \<le> ?ts\<close> by (auto simp: edited_def)
      then have "dump_start fi tmp d ! p = d ! p"
        using p by (simp add: dump_start_def edit_template_other wr_bytes_other)
      then show ?thesis using eff(2) that p by (simp add: touches_def)
    qed
  qed
qed

text \<open>
  C6. The size computed when the dump buffer is allocated bounds the capture: for a valid,
  well-formed template and an adapter that has not outgrown the one measured, the capture
  produces no more bytes than \<open>qla27xx_fwdt_calculate_dump_size\<close> returned, and in a larger buffer
  leaves every byte from there on as it was, so nothing is written behind the allocation.
\<close>

theorem fwdt_capture_fits:
  assumes "hw_ok hw" "hw_ok hw0" "template_ok tmp" "qla27xx_fwdt_template_valid tmp"
    and "ctx_fits cx cx0" "fst (qla27xx_fwdt_calculate_dump_size hw0 cx0 tmp w0) \<le> length d"
  shows "\<exists>d' n w'. qla27xx_execute_fwdt_template hw cx fi tmp d w = Some (d', n, w')
    \<and> unat (rd32 tmp 8) \<le> n \<and> n \<le> fst (qla27xx_fwdt_calculate_dump_size hw0 cx0 tmp w0)
    \<and> length d' = length d
    \<and> (\<forall>p \<ge> fst (qla27xx_fwdt_calculate_dump_size hw0 cx0 tmp w0). d' ! p = d ! p)"
proof -
  note size = dry_size [OF assms(2-4), of cx0 w0]
  have "unat (rd32 tmp 8) \<le> length d" using assms(6) size by simp
  then obtain s :: "'a fw_walk" where s:
    "qla27xx_execute_fwdt_template hw cx fi tmp d w = Some (wmem s, wlen s, wworld s)"
    "wlen s = unat (rd32 tmp 8) + total_out cx True (unat (rd32 tmp 16)) (unat (rd32 tmp 4)) tmp"
    "length (wmem s) = length d" "\<And>p. wlen s \<le> p \<Longrightarrow> wmem s ! p = d ! p"
    using capture_spec [OF assms(1,3,4), of d cx fi w] by blast
  have n: "wlen s \<le> fst (qla27xx_fwdt_calculate_dump_size hw0 cx0 tmp w0)"
    using s(2) size total_out_fits [OF assms(5)] by simp
  have "unat (rd32 tmp 8) \<le> wlen s" using s(2) by simp
  with n s(1,3) s(4) [OF le_trans [OF n]] show ?thesis by blast
qed

lemma fwdt_capture_fits_witness:
  "\<exists>d' n w'. qla27xx_execute_fwdt_template sample_hw (sample_ctx 1) sample_info sample_template
      (replicate 400 9) 0 = Some (d', n, w')
    \<and> 232 \<le> n \<and> n \<le> 372 \<and> length d' = 400 \<and> (\<forall>p \<ge> 372. d' ! p = replicate 400 9 ! p)"
proof -
  have ts: "unat (rd32 sample_template 8) = 232" by code_simp
  have room: "fst (qla27xx_fwdt_calculate_dump_size sample_hw (sample_ctx 1) sample_template 0)
      \<le> length (replicate 400 (9 :: u8))"
    by (simp add: sample_size)
  show ?thesis
    using fwdt_capture_fits [OF sample_hw_ok sample_hw_ok sample_template_ok sample_template_valid
        sample_fits room, of sample_info 0]
    by (simp only: sample_size ts length_replicate)
qed

text \<open>
  C7. When nothing changed between sizing and capture and every queue exists, the dump is
  exactly as long as computed.
\<close>

theorem fwdt_capture_exact:
  assumes "hw_ok hw" "hw_ok hw0" "template_ok tmp" "qla27xx_fwdt_template_valid tmp"
    and "all_queues cx" "fst (qla27xx_fwdt_calculate_dump_size hw0 cx tmp w0) \<le> length d"
  shows "\<exists>d' w'. qla27xx_execute_fwdt_template hw cx fi tmp d w =
    Some (d', fst (qla27xx_fwdt_calculate_dump_size hw0 cx tmp w0), w')"
proof -
  note size = dry_size [OF assms(2-4), of cx w0]
  have "unat (rd32 tmp 8) \<le> length d" using assms(6) size by simp
  then obtain s :: "'a fw_walk" where
    "qla27xx_execute_fwdt_template hw cx fi tmp d w = Some (wmem s, wlen s, wworld s)"
    "wlen s = unat (rd32 tmp 8) + total_out cx True (unat (rd32 tmp 16)) (unat (rd32 tmp 4)) tmp"
    "length (wmem s) = length d" "\<And>p. wlen s \<le> p \<Longrightarrow> wmem s ! p = d ! p"
    using capture_spec [OF assms(1,3,4), of d cx fi w] by blast
  then show ?thesis using size total_out_exact [OF assms(5)] by simp
qed

lemma fwdt_capture_exact_witness:
  "\<exists>d' w'. qla27xx_execute_fwdt_template sample_hw (sample_ctx 1) sample_info sample_template
      (replicate 400 9) 0 = Some (d', 372, w')"
proof -
  have room: "fst (qla27xx_fwdt_calculate_dump_size sample_hw (sample_ctx 1) sample_template 0)
      \<le> length (replicate 400 (9 :: u8))"
    by (simp add: sample_size)
  show ?thesis
    using fwdt_capture_exact [OF sample_hw_ok sample_hw_ok sample_template_ok
        sample_template_valid sample_queues room, of sample_info 0]
    by (simp only: sample_size)
qed

section \<open>The end of the walk\<close>

fun end_index :: "nat \<Rightarrow> nat \<Rightarrow> u8 list \<Rightarrow> nat option" where
  "end_index 0 e m = None"
| "end_index (Suc n) e m =
     (if rd32 m e = 255 then Some 0
      else map_option Suc (end_index n (e + unat (rd32 m (e + 4))) m))"

lemma walk_end_index:
  "fst (walk_end n e m) = (case end_index n e m of Some k \<Rightarrow> of_nat (n - 1 - k) | None \<Rightarrow> -1)"
  by (induction n arbitrary: e) (auto split: option.split)

text \<open>
  C15. What the walk reports as the residual count: the number of entries behind the end entry
  if there is one; if the loop runs out of entries, not 0 but the wrapped-around \<open>-1\<close>, so that
  the residual message is printed for a template whose every entry was processed.
\<close>

theorem fwdt_walk_residual:
  assumes "hw_ok hw" "template_ok (wmem s)" "unat (rd32 (wmem s) 8) \<le> wlen s"
  shows "fst (snd (qla27xx_walk_template hw cx real s)) =
    (case end_index (unat (rd32 (wmem s) 16)) (unat (rd32 (wmem s) 4)) (wmem s) of
       Some k \<Rightarrow> of_nat (unat (rd32 (wmem s) 16) - 1 - k)
     | None \<Rightarrow> -1)"
proof -
  have "entries_wf (unat (rd32 (wmem s) 16)) (unat (rd32 (wmem s) 4)) (unat (rd32 (wmem s) 8))
      (wmem s)"
    using assms(2) by (simp add: template_ok_def Let_def)
  from walk_loop_effect [OF assms(1) this assms(3), of cx real] show ?thesis
    by (simp add: qla27xx_walk_template_def walk_end_index)
qed

text \<open>The template without its end entry (a count of 2): every entry is processed, the residual is -1.\<close>

lemma fwdt_walk_residual_witness:
  "fst (snd (qla27xx_walk_template sample_hw (sample_ctx 1) False
     \<lparr>wmem = wr32 16 2 sample_template, wlen = 232, wworld = 0\<rparr>)) = -1"
proof -
  let ?m = "wr32 16 2 sample_template"
  have "template_ok ?m" "unat (rd32 ?m 8) = 232"
    "end_index (unat (rd32 ?m 16)) (unat (rd32 ?m 4)) ?m = None"
    by code_simp+
  then show ?thesis
    using fwdt_walk_residual [OF sample_hw_ok, of "\<lparr>wmem = ?m, wlen = 232, wworld = 0\<rparr>" "sample_ctx 1" False]
    by simp
qed

section \<open>The checksum\<close>

fun word_sum :: "nat \<Rightarrow> nat \<Rightarrow> u8 list \<Rightarrow> nat" where
  "word_sum 0 p m = 0"
| "word_sum (Suc n) p m = unat (rd32 m p) + word_sum n (p + 4) m"

lemma unat_u32_bound: "unat (x :: u32) < 4294967296"
  by (rule order.strict_trans2 [OF unsigned_less]) simp

lemma word_sum_bound: "word_sum n p m \<le> n * (2 ^ 32 - 1)"
proof (induction n arbitrary: p)
  case (Suc n)
  have "unat (rd32 m p) \<le> 2 ^ 32 - 1" using unat_u32_bound [of "rd32 m p"] by simp
  then show ?case using Suc [of "p + 4"] by simp
qed simp

lemma sum_words_word_sum: "sum_words n p m acc = acc + of_nat (word_sum n p m)"
  by (induction n arbitrary: p acc) (simp_all add: of_nat_unat algebra_simps)

lemma fold_multiple:
  fixes S :: nat
  assumes "S < 2 ^ 62"
  shows "(S mod 2 ^ 32 + S div 2 ^ 32) mod 2 ^ 32 = 2 ^ 32 - 1 \<longleftrightarrow> 0 < S \<and> (2 ^ 32 - 1) dvd S"
proof -
  define lo where "lo = S mod 2 ^ 32"
  define hi where "hi = S div 2 ^ 32"
  have S: "S = lo + 4294967296 * hi" by (simp add: lo_def hi_def)
  have b: "lo < 4294967296" "hi < 1073741824"
    using assms by (simp_all add: lo_def hi_def less_mult_imp_div_less)
  have "(lo + hi) mod 4294967296 = 4294967295 \<longleftrightarrow> lo + hi = 4294967295"
  proof (cases "lo + hi < 4294967296")
    case False
    then have "(lo + hi) mod 4294967296 = lo + hi - 4294967296"
      using b by (simp add: le_mod_geq)
    then show ?thesis using b False by simp
  qed simp
  also have "... \<longleftrightarrow> 0 < S \<and> 4294967295 dvd S"
  proof
    assume "lo + hi = 4294967295"
    then have "S = 4294967295 * (1 + hi)" using S by simp
    then show "0 < S \<and> 4294967295 dvd S" by simp
  next
    assume H: "0 < S \<and> 4294967295 dvd S"
    then have "4294967295 dvd (lo + hi) + 4294967295 * hi" using S by (simp add: algebra_simps)
    then have "4294967295 dvd lo + hi" using dvd_add_left_iff [of 4294967295 "4294967295 * hi" "lo + hi"] by simp
    then obtain k where k: "lo + hi = 4294967295 * k" by (elim dvdE)
    then have "k = 1" using b H S by (cases k; cases "k - 1") auto
    then show "lo + hi = 4294967295" using k by simp
  qed
  finally show ?thesis by (simp add: lo_def hi_def)
qed

lemma ucast_not_zero: "ucast (NOT x) = (0 :: u32) \<longleftrightarrow> ucast (x :: u64) = (-1 :: u32)"
proof -
  have "ucast (NOT x) = NOT (ucast x :: u32)" by (rule bit_word_eqI) (simp add: bit_simps)
  then show ?thesis by (metis bit.compl_zero bit.double_compl)
qed

lemma of_nat_minus_one: "(of_nat n :: u32) = -1 \<longleftrightarrow> n mod 2 ^ 32 = 2 ^ 32 - 1"
proof -
  have "(of_nat n :: u32) = -1 \<longleftrightarrow> unat (of_nat n :: u32) = unat (-1 :: u32)"
    by (rule word_unat_eq_iff)
  also have "... \<longleftrightarrow> n mod 2 ^ 32 = 2 ^ 32 - 1" by (simp add: unat_of_nat unsigned_minus_1_eq_mask mask_eq_exp_minus_1)
  finally show ?thesis .
qed

lemma ucast_of_nat_64: "ucast (of_nat n :: u64) = (of_nat n :: u32)"
  by (simp add: unsigned_of_nat word_of_nat_eq_iff)

lemma word_add_of_nat: "unat (x :: u64) = a \<Longrightarrow> unat y = b \<Longrightarrow> x + y = of_nat (a + b)"
  by auto

text \<open>
  C8. The checksum test accepts a template iff the sum of its words is a positive multiple of
  \<open>2 ^ 32 - 1\<close>: the single folding of the 64-bit sum is the full one's-complement test for every
  template size the header can name.
\<close>

theorem fwdt_checksum_ones_complement:
  "qla27xx_verify_template_checksum m \<longleftrightarrow>
     0 < word_sum (unat (rd32 m 8) div 4) 0 m
   \<and> (2 ^ 32 - 1) dvd word_sum (unat (rd32 m 8) div 4) 0 m"
proof -
  let ?n = "unat (rd32 m 8) div 4"
  define S where "S = word_sum ?n 0 m"
  have n: "?n < 2 ^ 30" using unat_u32_bound [of "rd32 m 8"] by simp
  have "S \<le> ?n * (2 ^ 32 - 1)" unfolding S_def by (rule word_sum_bound)
  also have "... \<le> (2 ^ 30 - 1) * (2 ^ 32 - 1)" using n by (intro mult_le_mono) auto
  also have "... < (2::nat) ^ 62" by simp
  finally have S: "S < 2 ^ 62" .
  define acc :: u64 where "acc = of_nat S"
  have u: "unat acc = S" using S by (simp add: acc_def unat_of_nat)
  have "unat (acc AND 0xFFFFFFFF) = S mod 2 ^ 32"
  proof -
    have "acc AND 0xFFFFFFFF = take_bit 32 acc"
      by (simp only: take_bit_eq_mask mask_eq_exp_minus_1) simp
    then have "unat (acc AND 0xFFFFFFFF) = take_bit 32 (unat acc)"
      by (simp only: unsigned_take_bit_eq)
    then show ?thesis using u by (simp only: take_bit_eq_mod)
  qed
  moreover have "unat (drop_bit 32 acc) = S div 2 ^ 32"
    by (simp only: unat_drop_bit_eq u) (rule drop_bit_eq_div)
  ultimately have f: "(acc AND 0xFFFFFFFF) + drop_bit 32 acc = of_nat (S mod 2 ^ 32 + S div 2 ^ 32)"
    by (rule word_add_of_nat)
  have "qla27xx_verify_template_checksum m
      \<longleftrightarrow> ucast (NOT ((acc AND 0xFFFFFFFF) + drop_bit 32 acc)) = (0 :: u32)"
    by (simp add: qla27xx_verify_template_checksum_def qla27xx_template_checksum_def Let_def
        sum_words_word_sum acc_def S_def)
  also have "... \<longleftrightarrow> (of_nat (S mod 2 ^ 32 + S div 2 ^ 32) :: u32) = -1"
    unfolding f ucast_not_zero ucast_of_nat_64 ..
  also have "... \<longleftrightarrow> (S mod 2 ^ 32 + S div 2 ^ 32) mod 2 ^ 32 = 2 ^ 32 - 1"
    by (rule of_nat_minus_one)
  finally show ?thesis using fold_multiple [OF S] by (simp add: S_def)
qed

end
