(* ===== verification/Isr_Status.thy ===== *)
theory Isr_Status
  imports Handle_Table Qla_Types
begin

text \<open>
  Completion of commands (qla_isr.c): a response entry names the command by its handle; the
  handlers look it up, take it out of the table, translate the firmware's status into a result
  and call \<open>sp->done\<close>, which the model records in \<open>done_log\<close>. An entry is the slot \<open>s\<close> of the
  response ring \<open>ri\<close>; bytes a handler reads through a pointer it has moved behind the ring are 0.
\<close>

section \<open>Environment and small steps\<close>

text \<open>
  The kernel: \<open>jiffies\<close> and \<open>HZ\<close>, the size of \<open>struct fc_bsg_reply\<close> and
  \<open>scsi_build_sense_buffer(1, buf, key, asc, ascq)\<close>.
\<close>

record ienv =
  jiffies_now :: u64
  HZ :: nat
  sizeof_bsg_reply :: u32
  scsi_build_sense_buffer :: "u8 \<Rightarrow> u8 \<Rightarrow> u8 \<Rightarrow> u8 list \<Rightarrow> u8 list"

definition set_dpc :: "nat \<Rightarrow> host \<Rightarrow> host" where
  "set_dpc b h = h\<lparr>dpc_flags := dpc_flags h OR BIT b\<rparr>"

definition request_reset :: "host \<Rightarrow> host" where
  "request_reset h =
     set_dpc (if IS_P3P_TYPE (device_type h) then FCOE_CTX_RESET_NEEDED else ISP_ABORT_NEEDED) h"

definition sp_done :: "sp_ptr \<Rightarrow> scsi_result \<Rightarrow> host \<Rightarrow> host" where
  "sp_done sp res h = h\<lparr>done_log := (sp, res) # done_log h\<rparr>"

definition upd_cmd :: "sp_ptr \<Rightarrow> (scsi_cmnd \<Rightarrow> scsi_cmnd) \<Rightarrow> host \<Rightarrow> host" where
  "upd_cmd sp f = upd_sp sp (\<lambda>s. s\<lparr>cmd := f (cmd s)\<rparr>)"

definition upd_bsg :: "sp_ptr \<Rightarrow> (bsg_job \<Rightarrow> bsg_job) \<Rightarrow> host \<Rightarrow> host" where
  "upd_bsg sp f = upd_sp sp (\<lambda>s. s\<lparr>sp_bsg := f (sp_bsg s)\<rparr>)"

definition upd_fc :: "nat \<Rightarrow> (fc_state \<Rightarrow> fc_state) \<Rightarrow> host \<Rightarrow> host" where
  "upd_fc f g h = h\<lparr>fc_states := (fc_states h)(f := g (fc_states h f))\<rparr>"

definition free_slot :: "nat \<Rightarrow> u32 \<Rightarrow> host \<Rightarrow> host" where
  "free_slot ri index h = set_req ri (clear_handle (get_req ri h) index) h"

text \<open>\<open>req->outstanding_cmds[index]\<close>.\<close>

definition cmd_at :: "nat \<Rightarrow> u32 \<Rightarrow> host \<Rightarrow> sp_ptr option" where
  "cmd_at ri index h = outstanding_cmds (get_req ri h) ! unat index"

definition ring_byte :: "u32 list \<Rightarrow> nat \<Rightarrow> u8" where
  "ring_byte m b = get_byte (b mod 4) (nth_default 0 m (b div 4))"

definition ring_bytes :: "u32 list \<Rightarrow> nat \<Rightarrow> nat \<Rightarrow> u8 list" where
  "ring_bytes m b n = map (\<lambda>i. ring_byte m (b + i)) [0..<n]"

section \<open>Fast completion and the lookup of a command\<close>

definition qla2x00_process_completed_request :: "nat \<Rightarrow> u32 \<Rightarrow> host \<Rightarrow> host" where
  "qla2x00_process_completed_request ri index h =
     (if ucast (num_outstanding_cmds (get_req ri h)) \<le> index then request_reset h
      else case cmd_at ri index h of
             Some sp \<Rightarrow> sp_done sp (host_result DID_OK) (free_slot ri index h)
           | None \<Rightarrow> request_reset h)"

definition qla2x00_get_sp_from_handle :: "nat \<Rightarrow> u32 \<Rightarrow> host \<Rightarrow> sp_ptr option \<times> host" where
  "qla2x00_get_sp_from_handle ri handle h =
     (let index = ucast (LSW handle) :: u32
      in if ucast (num_outstanding_cmds (get_req ri h)) \<le> index then (None, request_reset h)
         else case cmd_at ri index h of
                None \<Rightarrow> (None, h)
              | Some sp \<Rightarrow>
                  if sp_handle (srbs h sp) \<noteq> index then (None, h)
                  else (Some sp, free_slot ri index h))"

section \<open>Login, mailbox, pass-through, abort and task-management completions\<close>

definition MBS_COMMAND_COMPLETE :: u16 where "MBS_COMMAND_COMPLETE = 0x4000"
definition MBS_COMMAND_ERROR :: u16 where "MBS_COMMAND_ERROR = 0x4005"
definition MBS_PORT_ID_USED :: u16 where "MBS_PORT_ID_USED = 0x4007"
definition MBS_LOOP_ID_USED :: u16 where "MBS_LOOP_ID_USED = 0x4008"
definition SRB_LOGIN_RETRIED :: u16 where "SRB_LOGIN_RETRIED = BIT 0"
definition QLA_LOGIO_LOGIN_RETRIED :: u16 where "QLA_LOGIO_LOGIN_RETRIED = BIT 0"
definition FCT_INITIATOR :: nat where "FCT_INITIATOR = 4"
definition FCT_TARGET :: nat where "FCT_TARGET = 5"
definition FCF_FCP2_DEVICE :: u32 where "FCF_FCP2_DEVICE = BIT 2"
definition FC_COS_CLASS2 :: u32 where "FC_COS_CLASS2 = 4"
definition FC_COS_CLASS3 :: u32 where "FC_COS_CLASS3 = 8"
definition LSC_SCODE_PORTID_USED :: u32 where "LSC_SCODE_PORTID_USED = 0x1A"
definition LSC_SCODE_NPORT_USED :: u32 where "LSC_SCODE_NPORT_USED = 0x1B"
definition CS_COMPLETE :: u16 where "CS_COMPLETE = 0"
definition CS_INCOMPLETE :: u16 where "CS_INCOMPLETE = 1"
definition CS_RESET :: u16 where "CS_RESET = 4"
definition CS_ABORTED :: u16 where "CS_ABORTED = 5"
definition CS_TIMEOUT :: u16 where "CS_TIMEOUT = 6"
definition CS_DATA_OVERRUN :: u16 where "CS_DATA_OVERRUN = 7"
definition CS_DIF_ERROR :: u16 where "CS_DIF_ERROR = 12"
definition CS_DATA_UNDERRUN :: u16 where "CS_DATA_UNDERRUN = 0x15"
definition CS_QUEUE_FULL :: u16 where "CS_QUEUE_FULL = 0x1C"
definition CS_PORT_UNAVAILABLE :: u16 where "CS_PORT_UNAVAILABLE = 0x28"
definition CS_PORT_LOGGED_OUT :: u16 where "CS_PORT_LOGGED_OUT = 0x29"
definition CS_PORT_CONFIG_CHG :: u16 where "CS_PORT_CONFIG_CHG = 0x2A"
definition CS_PORT_BUSY :: u16 where "CS_PORT_BUSY = 0x2B"

definition set_logio :: "sp_ptr \<Rightarrow> u16 \<Rightarrow> u16 \<Rightarrow> host \<Rightarrow> host" where
  "set_logio sp d0 d1 = upd_sp sp (\<lambda>s. s\<lparr>logio_data0 := d0, logio_data1 := d1\<rparr>)"

definition logio_data1_init :: "srb \<Rightarrow> u16" where
  "logio_data1_init s =
     (if logio_flags s AND SRB_LOGIN_RETRIED \<noteq> 0 then QLA_LOGIO_LOGIN_RETRIED else 0)"

definition qla2x00_mbx_iocb_entry :: "nat \<Rightarrow> u32 list \<Rightarrow> nat \<Rightarrow> host \<Rightarrow> host" where
  "qla2x00_mbx_iocb_entry ri m s h =
     (case qla2x00_get_sp_from_handle ri (get32 s 4 m) h of
        (None, h) \<Rightarrow> h
      | (Some sp, h) \<Rightarrow>
          (let f = fc_id (fcport (srbs h sp)); d1 = logio_data1_init (srbs h sp);
               login = (sp_type (srbs h sp) = SRB_LOGIN_CMD);
               mb0 = get16 s 24 m; mb1 = get16 s 26 m;
               status = (if get16 s 10 m = 0x30 \<and> login \<and> mb0 = MBS_COMMAND_COMPLETE then 0
                         else get16 s 10 m)
           in sp_done sp 0
               (if get8 s 3 m \<noteq> 0 then set_logio sp MBS_COMMAND_ERROR d1 h
                else if status = 0 \<and> mb0 = MBS_COMMAND_COMPLETE
                then let h = set_logio sp MBS_COMMAND_COMPLETE d1 h
                     in if login
                        then upd_fc f (\<lambda>x. if mb1 AND BIT 0 \<noteq> 0 then x\<lparr>port_type := FCT_INITIATOR\<rparr>
                               else if mb1 AND BIT 1 \<noteq> 0
                               then x\<lparr>port_type := FCT_TARGET, fc_flags := fc_flags x OR FCF_FCP2_DEVICE\<rparr>
                               else x\<lparr>port_type := FCT_TARGET\<rparr>) h
                        else h
                else if mb0 = MBS_PORT_ID_USED then set_logio sp mb0 mb1 h
                else if mb0 = MBS_LOOP_ID_USED then set_logio sp mb0 d1 h
                else set_logio sp MBS_COMMAND_ERROR d1 h)))"

definition FC_CTELS_STATUS_OK :: u32 where "FC_CTELS_STATUS_OK = 0"

definition qla2x00_ct_entry :: "ienv \<Rightarrow> nat \<Rightarrow> u32 list \<Rightarrow> nat \<Rightarrow> host \<Rightarrow> host" where
  "qla2x00_ct_entry ie ri m s h =
     (case qla2x00_get_sp_from_handle ri (get32 s 4 m) h of
        (None, h) \<Rightarrow> h
      | (Some sp, h) \<Rightarrow>
          (let cs = get16 s 10 m;
               h = upd_bsg sp (\<lambda>j. j\<lparr>ctels_status := FC_CTELS_STATUS_OK,
                                     reply_len := sizeof_bsg_reply ie\<rparr>) h
           in if cs = CS_DATA_UNDERRUN
              then sp_done sp (host_result DID_OK)
                     (upd_bsg sp (\<lambda>j. j\<lparr>reply_payload_rcv_len := ucast (get16 s 16 m)\<rparr>) h)
              else if cs \<noteq> CS_COMPLETE
              then sp_done sp (host_result DID_ERROR)
                     (upd_bsg sp (\<lambda>j. j\<lparr>reply_payload_rcv_len := 0\<rparr>) h)
              else sp_done sp (host_result DID_OK)
                     (upd_bsg sp (\<lambda>j. j\<lparr>reply_payload_rcv_len := bsg_rep_len j, reply_len := 0\<rparr>) h)))"

text \<open>
  The three status words are 32-bit fields read through \<open>le16_to_cpu\<close>. Although a result is
  computed, the command is always completed with 0.
\<close>

definition low16 :: "u32 \<Rightarrow> u32" where
  "low16 x = ucast (ucast x :: u16)"

definition qla24xx_els_ct_entry :: "ienv \<Rightarrow> nat \<Rightarrow> u32 list \<Rightarrow> nat \<Rightarrow> host \<Rightarrow> host" where
  "qla24xx_els_ct_entry ie ri m s h =
     (case qla2x00_get_sp_from_handle ri (get32 s 4 m) h of
        (None, h) \<Rightarrow> h
      | (Some sp, h) \<Rightarrow>
          (let t = sp_type (srbs h sp)
           in if t \<noteq> SRB_ELS_CMD_RPT \<and> t \<noteq> SRB_ELS_CMD_HST \<and> t \<noteq> SRB_CT_CMD then h
              else let cs = get16 s 8 m;
                       fw = [ucast cs, low16 (get32 s 36 m), low16 (get32 s 40 m)];
                       h = upd_bsg sp (\<lambda>j. j\<lparr>ctels_status := FC_CTELS_STATUS_OK,
                                             reply_len := sizeof_bsg_reply ie + 12\<rparr>) h;
                       h = (if cs = CS_DATA_UNDERRUN
                            then upd_bsg sp (\<lambda>j. j\<lparr>reply_payload_rcv_len := low16 (get32 s 32 m),
                                                   sense_fw_status := fw\<rparr>) h
                            else if cs \<noteq> CS_COMPLETE
                            then upd_bsg sp (\<lambda>j. j\<lparr>reply_payload_rcv_len := 0, sense_fw_status := fw\<rparr>) h
                            else upd_bsg sp (\<lambda>j. j\<lparr>reply_payload_rcv_len := bsg_rep_len j,
                                                   reply_len := 0\<rparr>) h)
                   in sp_done sp 0 h))"

definition logio_param :: "nat \<Rightarrow> u32 list \<Rightarrow> nat \<Rightarrow> u32" where
  "logio_param i m s = get32 s (20 + 4 * i) m"

definition login_port :: "u32 list \<Rightarrow> nat \<Rightarrow> fc_state \<Rightarrow> fc_state" where
  "login_port m s x =
     (let iop0 = logio_param 0 m s;
          x = (if iop0 AND BIT 4 \<noteq> 0
               then let x = x\<lparr>port_type := FCT_TARGET\<rparr>
                    in if iop0 AND BIT 8 \<noteq> 0 then x\<lparr>fc_flags := fc_flags x OR FCF_FCP2_DEVICE\<rparr> else x
               else if iop0 AND BIT 5 \<noteq> 0 then x\<lparr>port_type := FCT_INITIATOR\<rparr> else x);
          x = (if logio_param 7 m s \<noteq> 0 \<or> logio_param 8 m s \<noteq> 0
               then x\<lparr>supported_classes := supported_classes x OR FC_COS_CLASS2\<rparr> else x)
      in if logio_param 9 m s \<noteq> 0 \<or> logio_param 10 m s \<noteq> 0
         then x\<lparr>supported_classes := supported_classes x OR FC_COS_CLASS3\<rparr> else x)"

definition qla24xx_logio_entry :: "nat \<Rightarrow> u32 list \<Rightarrow> nat \<Rightarrow> host \<Rightarrow> host" where
  "qla24xx_logio_entry ri m s h =
     (case qla2x00_get_sp_from_handle ri (get32 s 4 m) h of
        (None, h) \<Rightarrow> h
      | (Some sp, h) \<Rightarrow>
          (let f = fc_id (fcport (srbs h sp)); d1 = logio_data1_init (srbs h sp)
           in sp_done sp 0
               (if get8 s 3 m \<noteq> 0 then set_logio sp MBS_COMMAND_ERROR d1 h
                else if get16 s 8 m = CS_COMPLETE
                then let h = set_logio sp MBS_COMMAND_COMPLETE d1 h
                     in if sp_type (srbs h sp) \<noteq> SRB_LOGIN_CMD then h else upd_fc f (login_port m s) h
                else if logio_param 0 m s = LSC_SCODE_PORTID_USED
                then set_logio sp MBS_PORT_ID_USED (LSW (logio_param 1 m s)) h
                else if logio_param 0 m s = LSC_SCODE_NPORT_USED
                then set_logio sp MBS_LOOP_ID_USED d1 h
                else set_logio sp MBS_COMMAND_ERROR d1 h)))"

definition SS_MASK :: u16 where "SS_MASK = 0xFFF"
definition SS_RESIDUAL_UNDER :: u16 where "SS_RESIDUAL_UNDER = BIT 11"
definition SS_RESIDUAL_OVER :: u16 where "SS_RESIDUAL_OVER = BIT 10"
definition SS_SENSE_LEN_VALID :: u16 where "SS_SENSE_LEN_VALID = BIT 9"
definition SS_RESPONSE_INFO_LEN_VALID :: u16 where "SS_RESPONSE_INFO_LEN_VALID = BIT 8"
definition SS_CHECK_CONDITION :: u8 where "SS_CHECK_CONDITION = BIT 1"

definition qla24xx_tm_iocb_entry :: "nat \<Rightarrow> u32 list \<Rightarrow> nat \<Rightarrow> host \<Rightarrow> host" where
  "qla24xx_tm_iocb_entry ri m s h =
     (case qla2x00_get_sp_from_handle ri (get32 s 4 m) h of
        (None, h) \<Rightarrow> h
      | (Some sp, h) \<Rightarrow>
          (let failed =
             (if get8 s 3 m \<noteq> 0 then True
              else if get16 s 8 m \<noteq> CS_COMPLETE then True
              else if get16 s 22 m AND SS_RESPONSE_INFO_LEN_VALID \<noteq> 0
              then \<not> get32 s 32 m < 4 \<and> get8 s 39 m \<noteq> 0
              else False)
           in sp_done sp 0 (upd_sp sp (\<lambda>x. x\<lparr>tmf_data :=
                (if failed then of_int QLA_FUNCTION_FAILED else of_int QLA_SUCCESS)\<rparr>) h)))"

definition qla24xx_abort_iocb_entry :: "nat \<Rightarrow> u32 list \<Rightarrow> nat \<Rightarrow> host \<Rightarrow> host" where
  "qla24xx_abort_iocb_entry ri m s h =
     (case qla2x00_get_sp_from_handle ri (get32 s 4 m) h of
        (None, h) \<Rightarrow> h
      | (Some sp, h) \<Rightarrow> sp_done sp 0 (upd_sp sp (\<lambda>x. x\<lparr>abt_comp_status := get16 s 8 m\<rparr>) h))"

section \<open>Sense data and protection errors\<close>

definition SCSI_SENSE_BUFFERSIZE :: u32 where "SCSI_SENSE_BUFFERSIZE = 96"

text \<open>
  \<open>memcpy(cp->sense_buffer, sense_data, sense_len)\<close>; \<open>sense_off\<close> is the byte offset of the sense
  data in the ring. What does not fit into this entry is expected in continuation entries.
\<close>

definition qla2x00_handle_sense ::
    "sp_ptr \<Rightarrow> u32 list \<Rightarrow> nat \<Rightarrow> u32 \<Rightarrow> u32 \<Rightarrow> nat \<Rightarrow> scsi_result \<Rightarrow> host \<Rightarrow> host" where
  "qla2x00_handle_sense sp m sense_off par_sense_len sense_len rsp res h =
     (let track = (if SCSI_SENSE_BUFFERSIZE \<le> sense_len then SCSI_SENSE_BUFFERSIZE else sense_len);
          now = (if par_sense_len < track then par_sense_len else track);
          h = upd_cmd sp (\<lambda>c. c\<lparr>sense_buffer :=
                wr_bytes 0 (ring_bytes m sense_off (unat now)) (sense_buffer c)\<rparr>) h;
          h = upd_sp sp (\<lambda>x. x\<lparr>request_sense_ptr := unat now, request_sense_length := track - now\<rparr>) h
      in if track - now \<noteq> 0
         then upd_cmd sp (\<lambda>c. c\<lparr>cmd_result := res\<rparr>)
                (set_rsp rsp ((get_rsp rsp h)\<lparr>status_srb := Some sp\<rparr>) h)
         else h)"

text \<open>
  The loop over the protection scatterlist: \<open>blocks\<close> done, \<open>k\<close> tuples passed; it returns the last
  \<open>k\<close> and, when it stopped, the element and the tuple in it.
\<close>

fun find_prot_sg :: "sg list \<Rightarrow> nat \<Rightarrow> u32 \<Rightarrow> u32 \<Rightarrow> u32 \<times> (nat \<times> u32) option" where
  "find_prot_sg [] i k blocks = (k, None)"
| "find_prot_sg (sg # sgs) i k blocks =
     (let num_ent = snd sg div 8
      in if k + num_ent < blocks then find_prot_sg sgs (Suc i) (k + num_ent) blocks
         else (blocks, Some (i, blocks - k - 1)))"

definition patch_tuple :: "scsi_prot_type \<Rightarrow> dif_tuple \<Rightarrow> dif_tuple" where
  "patch_tuple t x = (case x of (g, a, r) \<Rightarrow>
     (g, 0xFFFF, if t = SCSI_PROT_DIF_TYPE3 then 0xFFFFFFFF else r))"

definition ILLEGAL_REQUEST :: u8 where "ILLEGAL_REQUEST = 5"
definition DRIVER_SENSE :: u32 where "DRIVER_SENSE = 8"
definition SAM_STAT_CHECK_CONDITION :: u32 where "SAM_STAT_CHECK_CONDITION = 2"

definition set_driver_byte :: "u32 \<Rightarrow> u32 \<Rightarrow> u32" where
  "set_driver_byte st res = (res AND 0x00FFFFFF) OR push_bit 24 st"

definition set_host_byte :: "u32 \<Rightarrow> u32 \<Rightarrow> u32" where
  "set_host_byte st res = (res AND 0xFF00FFFF) OR push_bit 16 st"

definition dif_sense :: "ienv \<Rightarrow> u8 \<Rightarrow> scsi_cmnd \<Rightarrow> scsi_cmnd" where
  "dif_sense ie ascq c = c\<lparr>
     sense_buffer := scsi_build_sense_buffer ie ILLEGAL_REQUEST 0x10 ascq (sense_buffer c),
     cmd_result := set_host_byte DID_ABORT (set_driver_byte DRIVER_SENSE (cmd_result c))
       OR push_bit 1 SAM_STAT_CHECK_CONDITION\<rparr>"

text \<open>\<open>d\<close> is the byte offset of \<open>sts24->data\<close>; the result is the return value and the command.\<close>

definition qla2x00_handle_dif_error :: "ienv \<Rightarrow> u32 list \<Rightarrow> nat \<Rightarrow> scsi_cmnd \<Rightarrow> int \<times> scsi_cmnd" where
  "qla2x00_handle_dif_error ie m s c =
     (let a_app = get16 s 48 m; a_guard = get16 s 50 m; a_ref = get32 s 52 m;
          e_app = get16 s 56 m; e_guard = get16 s 58 m; e_ref = get32 s 60 m
      in if a_app = 0xFFFF \<and> (prot_type c \<noteq> SCSI_PROT_DIF_TYPE3 \<or> a_ref = 0xFFFFFFFF)
         then let blocks_done = e_ref - ucast (scsi_lba c) + 1;
                  c = c\<lparr>resid := scsi_bufflen c - blocks_done * sector_size c,
                        cmd_result := host_result DID_OK\<rparr>
              in if scsi_prot_sglist c = [] then (0, c)
                 else (case find_prot_sg (scsi_prot_sglist c) 0 0 blocks_done of
                         (k, hit) \<Rightarrow>
                           if k \<noteq> blocks_done then (1, c)
                           else (case hit of None \<Rightarrow> (0, c)
                             | Some (i, j) \<Rightarrow> (0, c\<lparr>prot_tuples := (prot_tuples c)[i :=
                                 (prot_tuples c ! i)[unat j :=
                                   patch_tuple (prot_type c) (prot_tuples c ! i ! unat j)]]\<rparr>)))
         else if e_guard \<noteq> a_guard then (1, dif_sense ie 1 c)
         else if e_ref \<noteq> a_ref then (1, dif_sense ie 3 c)
         else if e_app \<noteq> a_app then (1, dif_sense ie 2 c)
         else (1, c))"

section \<open>Bidirectional commands\<close>

definition EXT_STATUS_OK :: u32 where "EXT_STATUS_OK = 0"
definition EXT_STATUS_ERR :: u32 where "EXT_STATUS_ERR = 1"
definition EXT_STATUS_DATA_OVERRUN :: u32 where "EXT_STATUS_DATA_OVERRUN = 7"
definition EXT_STATUS_DATA_UNDERRUN :: u32 where "EXT_STATUS_DATA_UNDERRUN = 8"
definition EXT_STATUS_DMA_ERR :: u32 where "EXT_STATUS_DMA_ERR = 29"
definition EXT_STATUS_TIMEOUT :: u32 where "EXT_STATUS_TIMEOUT = 30"
definition CS_BIDIR_RD_OVERRUN :: u16 where "CS_BIDIR_RD_OVERRUN = 0x700"
definition CS_BIDIR_RD_WR_OVERRUN :: u16 where "CS_BIDIR_RD_WR_OVERRUN = 0x707"
definition CS_BIDIR_RD_OVERRUN_WR_UNDERRUN :: u16 where
  "CS_BIDIR_RD_OVERRUN_WR_UNDERRUN = 0x715"
definition CS_BIDIR_RD_UNDERRUN :: u16 where "CS_BIDIR_RD_UNDERRUN = 0x1500"
definition CS_BIDIR_RD_UNDERRUN_WR_OVERRUN :: u16 where
  "CS_BIDIR_RD_UNDERRUN_WR_OVERRUN = 0x1507"
definition CS_BIDIR_RD_WR_UNDERRUN :: u16 where "CS_BIDIR_RD_WR_UNDERRUN = 0x1515"
definition CS_BIDIR_DMA :: u16 where "CS_BIDIR_DMA = 0x200"

definition bidir_status :: "u16 \<Rightarrow> u32" where
  "bidir_status cs =
     (if cs = CS_COMPLETE then EXT_STATUS_OK
      else if cs = CS_DATA_OVERRUN then EXT_STATUS_DATA_OVERRUN
      else if cs = CS_DATA_UNDERRUN then EXT_STATUS_DATA_UNDERRUN
      else if cs = CS_BIDIR_RD_OVERRUN \<or> cs = CS_BIDIR_RD_WR_OVERRUN
        \<or> cs = CS_BIDIR_RD_OVERRUN_WR_UNDERRUN then EXT_STATUS_DATA_OVERRUN
      else if cs = CS_BIDIR_RD_UNDERRUN \<or> cs = CS_BIDIR_RD_UNDERRUN_WR_OVERRUN
        \<or> cs = CS_BIDIR_RD_WR_UNDERRUN then EXT_STATUS_DATA_UNDERRUN
      else if cs = CS_BIDIR_DMA then EXT_STATUS_DMA_ERR
      else if cs = CS_TIMEOUT then EXT_STATUS_TIMEOUT
      else EXT_STATUS_ERR)"

definition qla25xx_process_bidir_status_iocb ::
    "ienv \<Rightarrow> nat \<Rightarrow> u32 list \<Rightarrow> nat \<Rightarrow> u32 \<Rightarrow> host \<Rightarrow> host" where
  "qla25xx_process_bidir_status_iocb ie ri m s index h =
     (if ucast (num_outstanding_cmds (get_req ri h)) \<le> index then set_dpc ISP_ABORT_NEEDED h
      else case cmd_at ri index h of
        None \<Rightarrow> set_dpc ISP_ABORT_NEEDED h
      | Some sp \<Rightarrow>
          (let h = free_slot ri index h;
               fwi2 = IS_FWI2_CAPABLE (device_type h);
               cs = (if fwi2 then get16 s 8 m else get16 s 10 m);
               scsi = (if fwi2 then get16 s 22 m else get16 s 8 m) AND SS_MASK;
               len = bsg_rep_len (sp_bsg (srbs h sp));
               h = (if cs = CS_COMPLETE
                    then if scsi = 0
                         then (upd_bsg sp (\<lambda>j. j\<lparr>reply_payload_rcv_len := bsg_rep_len j\<rparr>) h)
                                \<lparr>qla_stats := (qla_stats h)
                                   \<lparr>input_bytes := input_bytes (qla_stats h) + ucast len,
                                    input_requests := input_requests (qla_stats h) + 1\<rparr>\<rparr>
                         else h
                    else upd_bsg sp (\<lambda>j. j\<lparr>reply_payload_rcv_len := 0\<rparr>) h);
               h = upd_bsg sp (\<lambda>j. j\<lparr>vendor_rsp0 := bidir_status cs,
                                     reply_len := sizeof_bsg_reply ie\<rparr>) h
           in sp_done sp (push_bit 6 DID_OK) h))"

section \<open>Losing a port\<close>

definition FCS_DEVICE_DEAD :: nat where "FCS_DEVICE_DEAD = 2"
definition FCS_DEVICE_LOST :: nat where "FCS_DEVICE_LOST = 3"
definition FCS_ONLINE :: nat where "FCS_ONLINE = 4"

definition qla2x00_set_fcport_state :: "nat \<Rightarrow> nat \<Rightarrow> host \<Rightarrow> host" where
  "qla2x00_set_fcport_state f st = upd_fc f (\<lambda>x. x\<lparr>fcport_state := st\<rparr>)"

definition qla2x00_schedule_rport_del :: "nat \<Rightarrow> bool \<Rightarrow> host \<Rightarrow> host" where
  "qla2x00_schedule_rport_del f defer h =
     (if \<not> has_rport (fc_states h f) then h
      else if defer then set_dpc FCPORT_UPDATE_NEEDED (upd_fc f (\<lambda>x. x\<lparr>drport := True\<rparr>) h)
      else upd_fc f (\<lambda>x. x\<lparr>rport_deleted := True\<rparr>) h)"

definition qla2x00_mark_device_lost :: "u16 \<Rightarrow> nat \<Rightarrow> bool \<Rightarrow> bool \<Rightarrow> host \<Rightarrow> host" where
  "qla2x00_mark_device_lost vp f do_login defer h =
     (if IS_QLAFX00 (device_type h)
      then qla2x00_schedule_rport_del f defer (qla2x00_set_fcport_state f FCS_DEVICE_LOST h)
      else
        (let h = (if fcport_state (fc_states h f) = FCS_ONLINE \<and> vp = fc_vp_idx (fc_states h f)
                  then qla2x00_schedule_rport_del f defer
                         (qla2x00_set_fcport_state f FCS_DEVICE_LOST h)
                  else h);
             h = (if fcport_state (fc_states h f) \<noteq> FCS_DEVICE_DEAD
                  then qla2x00_set_fcport_state f FCS_DEVICE_LOST h else h)
         in if \<not> do_login then h
            else if login_retry (fc_states h f) = 0
            then set_dpc RELOGIN_NEEDED (upd_fc f (\<lambda>x. x\<lparr>login_retry := login_retry_count h\<rparr>) h)
            else h))"

definition qla2x00_set_retry_delay_timestamp :: "ienv \<Rightarrow> nat \<Rightarrow> u16 \<Rightarrow> host \<Rightarrow> host" where
  "qla2x00_set_retry_delay_timestamp ie f retry_delay h =
     (if retry_delay \<noteq> 0
      then upd_fc f (\<lambda>x. x\<lparr>retry_delay_timestamp :=
             jiffies_now ie + of_nat (unat retry_delay * HZ ie div 10)\<rparr>) h
      else h)"

section \<open>The status entry\<close>

definition SAM_STAT_BUSY :: u8 where "SAM_STAT_BUSY = 0x08"
definition SAM_STAT_TASK_SET_FULL :: u8 where "SAM_STAT_TASK_SET_FULL = 0x28"
definition STATUS_MASK :: u16 where "STATUS_MASK = 0xFE"
definition SF_LOGOUT_SENT :: u16 where "SF_LOGOUT_SENT = BIT 13"

text \<open>What the handler reads from the entry, in the layout of the adapter.\<close>

record sts_fields =
  f_comp_status :: u16
  f_scsi_status :: u16
  f_state_flags :: u16
  f_status_flags :: u16
  f_sense_len :: u32
  f_par_sense_len :: u32
  f_rsp_info_len :: u32
  f_resid_len :: u32
  f_fw_resid_len :: u32
  f_rsp_info_3 :: u8
  f_sense_off :: nat
  f_retry_delay :: u16

definition when_flag :: "u16 \<Rightarrow> u16 \<Rightarrow> u32 \<Rightarrow> u32" where
  "when_flag flags f v = (if flags AND f \<noteq> 0 then v else 0)"

text \<open>
  The lengths as read; \<open>m\<close> is the ring after the response data of an FWI2 entry has been swapped.
  Response data comes first in an FWI2 entry, the sense data behind it.
\<close>

definition sts_read :: "bool \<Rightarrow> u32 list \<Rightarrow> nat \<Rightarrow> sts_fields" where
  "sts_read fwi2 m s =
     (let scsi = (if fwi2 then get16 s 22 m else get16 s 8 m) AND SS_MASK;
          cs = (if fwi2 then get16 s 8 m else get16 s 10 m);
          rlen = when_flag scsi SS_RESPONSE_INFO_LEN_VALID
                   (if fwi2 then get32 s 32 m else ucast (get16 s 16 m));
          has_rsp = (scsi AND SS_RESPONSE_INFO_LEN_VALID \<noteq> 0)
      in if fwi2
         then \<lparr>f_comp_status = cs, f_scsi_status = scsi, f_state_flags = get16 s 18 m,
                f_status_flags = 0,
                f_sense_len = when_flag scsi SS_SENSE_LEN_VALID (get32 s 28 m),
                f_par_sense_len = (if has_rsp then 28 - rlen else 28),
                f_rsp_info_len = rlen,
                f_resid_len = when_flag scsi (SS_RESIDUAL_UNDER OR SS_RESIDUAL_OVER) (get32 s 24 m),
                f_fw_resid_len = (if cs = CS_DATA_UNDERRUN then get32 s 12 m else 0),
                f_rsp_info_3 = get8 s 39 m,
                f_sense_off = 64 * s + 36 + (if has_rsp then unat rlen else 0),
                f_retry_delay = (if 0 < get16 s 20 m \<and> get16 s 20 m < 0xFFF1 then get16 s 20 m else 0)\<rparr>
         else \<lparr>f_comp_status = cs, f_scsi_status = scsi, f_state_flags = 0,
                f_status_flags = get16 s 14 m,
                f_sense_len = when_flag scsi SS_SENSE_LEN_VALID (ucast (get16 s 18 m)),
                f_par_sense_len = 32, f_rsp_info_len = rlen, f_resid_len = get32 s 20 m,
                f_fw_resid_len = 0, f_rsp_info_3 = get8 s 27 m, f_sense_off = 64 * s + 32,
                f_retry_delay = 0\<rparr>)"

definition lscsi_status :: "sts_fields \<Rightarrow> u8" where
  "lscsi_status f = ucast (f_scsi_status f AND STATUS_MASK)"

text \<open>The tail shared by the completed and the underrun case: a check condition brings sense data.\<close>

definition report_sense :: "sp_ptr \<Rightarrow> u32 list \<Rightarrow> sts_fields \<Rightarrow> nat \<Rightarrow> scsi_result \<Rightarrow> host \<Rightarrow> host" where
  "report_sense sp m f rsp res h =
     (if lscsi_status f \<noteq> SS_CHECK_CONDITION then h
      else let h = upd_cmd sp (\<lambda>c. c\<lparr>sense_buffer := replicate (unat SCSI_SENSE_BUFFERSIZE) 0\<rparr>) h
           in if f_scsi_status f AND SS_SENSE_LEN_VALID = 0 then h
              else qla2x00_handle_sense sp m (f_sense_off f) (f_par_sense_len f) (f_sense_len f) rsp res h)"

definition with_status :: "u32 \<Rightarrow> u8 \<Rightarrow> scsi_result" where
  "with_status did st = host_result did OR ucast st"

definition underflow_hit :: "scsi_cmnd \<Rightarrow> u8 \<Rightarrow> u32 \<Rightarrow> bool" where
  "underflow_hit c lscsi r \<longleftrightarrow> lscsi = 0 \<and> scsi_bufflen c - r < underflow c"

definition complete_normal :: "sp_ptr \<Rightarrow> u32 list \<Rightarrow> sts_fields \<Rightarrow> nat \<Rightarrow> host \<Rightarrow> scsi_result \<times> host" where
  "complete_normal sp m f rsp h =
     (let lscsi = lscsi_status f; res = with_status DID_OK lscsi
      in if f_scsi_status f = 0 then (host_result DID_OK, h)
         else if f_scsi_status f AND (SS_RESIDUAL_UNDER OR SS_RESIDUAL_OVER) \<noteq> 0
         then let h = upd_cmd sp (\<lambda>c. c\<lparr>resid := f_resid_len f\<rparr>) h
              in if underflow_hit (cmd (srbs h sp)) lscsi (f_resid_len f)
                 then (host_result DID_ERROR, h)
                 else (res, report_sense sp m f rsp res h)
         else (res, report_sense sp m f rsp res h))"

definition complete_underrun ::
    "bool \<Rightarrow> sp_ptr \<Rightarrow> u32 list \<Rightarrow> sts_fields \<Rightarrow> nat \<Rightarrow> host \<Rightarrow> scsi_result \<times> host" where
  "complete_underrun fwi2 sp m f rsp h =
     (let lscsi = lscsi_status f;
          r = (if fwi2 then f_fw_resid_len f else f_resid_len f);
          h = upd_cmd sp (\<lambda>c. c\<lparr>resid := r\<rparr>) h;
          finish = (\<lambda>res. (res, report_sense sp m f rsp res h))
      in if f_scsi_status f AND SS_RESIDUAL_UNDER \<noteq> 0
         then if fwi2 \<and> f_fw_resid_len f \<noteq> f_resid_len f then finish (with_status DID_ERROR lscsi)
              else if underflow_hit (cmd (srbs h sp)) lscsi r then (host_result DID_ERROR, h)
              else finish (with_status DID_OK lscsi)
         else if lscsi \<noteq> SAM_STAT_TASK_SET_FULL \<and> lscsi \<noteq> SAM_STAT_BUSY
         then finish (with_status DID_ERROR lscsi)
         else finish (with_status DID_OK lscsi))"

definition complete_port_event :: "bool \<Rightarrow> nat \<Rightarrow> u16 \<Rightarrow> sts_fields \<Rightarrow> host \<Rightarrow> scsi_result \<times> host" where
  "complete_port_event fwi2 fc cs f h =
     (host_result DID_TRANSPORT_DISRUPTED,
      if cs = CS_TIMEOUT \<and> (fwi2 \<or> f_status_flags f AND SF_LOGOUT_SENT = 0) then h
      else if fcport_state (fc_states h fc) = FCS_ONLINE
      then qla2x00_mark_device_lost (fc_vp_idx (fc_states h fc)) fc True True h
      else h)"

definition port_events :: "u16 list" where
  "port_events = [CS_PORT_LOGGED_OUT, CS_PORT_CONFIG_CHG, CS_PORT_BUSY, CS_INCOMPLETE,
     CS_PORT_UNAVAILABLE, CS_TIMEOUT, CS_RESET]"

definition complete_switch ::
    "ienv \<Rightarrow> bool \<Rightarrow> sp_ptr \<Rightarrow> u32 list \<Rightarrow> nat \<Rightarrow> sts_fields \<Rightarrow> u16 \<Rightarrow> nat \<Rightarrow> host \<Rightarrow> scsi_result \<times> host" where
  "complete_switch ie fwi2 sp m s f cs rsp h =
     (if cs = CS_COMPLETE \<or> cs = CS_QUEUE_FULL then complete_normal sp m f rsp h
      else if cs = CS_DATA_UNDERRUN then complete_underrun fwi2 sp m f rsp h
      else if cs \<in> set port_events then complete_port_event fwi2 (fc_id (fcport (srbs h sp))) cs f h
      else if cs = CS_ABORTED then (host_result DID_RESET, h)
      else if cs = CS_DIF_ERROR
      then let h = upd_cmd sp (\<lambda>c. snd (qla2x00_handle_dif_error ie m s c)) h
           in (cmd_result (cmd (srbs h sp)), h)
      else (host_result DID_ERROR, h))"

text \<open>
  The slow path, from the point where the slot has been freed: transport errors in the response
  data, overrun, the retry delay, the translation and the call of \<open>done\<close>, which is left to the
  continuation entries when sense data is still missing.
\<close>

definition status_slow :: "ienv \<Rightarrow> nat \<Rightarrow> nat \<Rightarrow> sp_ptr \<Rightarrow> host \<Rightarrow> host" where
  "status_slow ie rsp s sp h =
     (let fwi2 = IS_FWI2_CAPABLE (device_type h);
          h = (if fwi2 then set_rsp rsp ((get_rsp rsp h)
                 \<lparr>rsp_ring := host_to_fcp_swap (16 * s + 9) 7 (rsp_ring (get_rsp rsp h))\<rparr>) h else h);
          m = rsp_ring (get_rsp rsp h);
          f = sts_read fwi2 m s;
          lscsi = lscsi_status f;
          (res, h) =
            (if f_scsi_status f AND SS_RESPONSE_INFO_LEN_VALID \<noteq> 0 \<and> 3 < f_rsp_info_len f
                \<and> f_rsp_info_3 f \<noteq> 0
             then (host_result DID_BUS_BUSY, h)
             else let cs = (if fwi2 \<and> f_comp_status f = CS_COMPLETE
                              \<and> f_scsi_status f AND SS_RESIDUAL_OVER \<noteq> 0
                            then CS_DATA_OVERRUN else f_comp_status f);
                      h = (if lscsi = SAM_STAT_TASK_SET_FULL \<or> lscsi = SAM_STAT_BUSY
                           then qla2x00_set_retry_delay_timestamp ie (fc_id (fcport (srbs h sp)))
                                  (f_retry_delay f) h
                           else h)
                  in complete_switch ie fwi2 sp m s f cs rsp h)
      in if status_srb (get_rsp rsp h) = None then sp_done sp res h else h)"

text \<open>\<open>find_first_zero_bit(map, n)\<close>.\<close>

fun first_zero_bit :: "(nat \<Rightarrow> bool) \<Rightarrow> nat \<Rightarrow> nat \<Rightarrow> nat" where
  "first_zero_bit f 0 i = i"
| "first_zero_bit f (Suc n) i = (if f i then first_zero_bit f n (Suc i) else i)"

definition qla2x00_status_entry :: "ienv \<Rightarrow> nat \<Rightarrow> nat \<Rightarrow> host \<Rightarrow> host" where
  "qla2x00_status_entry ie rsp s h =
     (let m = rsp_ring (get_rsp rsp h);
          fwi2 = IS_FWI2_CAPABLE (device_type h);
          f = sts_read fwi2 m s;
          handle = ucast (LSW (get32 s 4 m)) :: u32;
          que = unat (MSW (get32 s 4 m))
      in if req_q_map h que = None
            \<or> first_zero_bit (req_qid_map h) (unat (max_req_queues h)) 0 \<le> que
         then h
         else case (if handle < ucast (num_outstanding_cmds (get_req que h))
                    then cmd_at que handle h else None) of
           None \<Rightarrow> if dpc_flags h AND BIT ABORT_ISP_ACTIVE = 0 then request_reset h else h
         | Some sp \<Rightarrow>
             if f_state_flags f AND BIT 1 \<noteq> 0 \<and> sp_type (srbs h sp) = SRB_BIDI_CMD
             then qla25xx_process_bidir_status_iocb ie que m s handle h
             else if sp_type (srbs h sp) = SRB_TM_CMD then qla24xx_tm_iocb_entry que m s h
             else if f_comp_status f = CS_COMPLETE \<and> f_scsi_status f = 0
             then qla2x00_process_completed_request que handle h
             else let h = free_slot que handle h
                  in if \<not> cmd_present (srbs h sp) then h else status_slow ie rsp s sp h)"

section \<open>Continuation and error entries\<close>

definition qla2x00_status_cont_entry :: "nat \<Rightarrow> nat \<Rightarrow> host \<Rightarrow> host" where
  "qla2x00_status_cont_entry rsp s h =
     (case status_srb (get_rsp rsp h) of
        None \<Rightarrow> h
      | Some sp \<Rightarrow>
          (let sense_len = request_sense_length (srbs h sp); p = request_sense_ptr (srbs h sp)
           in if sense_len = 0 then h
              else if \<not> cmd_present (srbs h sp)
              then set_rsp rsp ((get_rsp rsp h)\<lparr>status_srb := None\<rparr>) h
              else let sz = (if 60 < sense_len then 60 else ucast (ucast sense_len :: u8));
                       h = (if IS_FWI2_CAPABLE (device_type h)
                            then set_rsp rsp ((get_rsp rsp h)\<lparr>rsp_ring :=
                                   host_to_fcp_swap (16 * s + 1) 15 (rsp_ring (get_rsp rsp h))\<rparr>) h
                            else h);
                       bs = ring_bytes (rsp_ring (get_rsp rsp h)) (64 * s + 4) (unat sz);
                       h = upd_cmd sp (\<lambda>c. c\<lparr>sense_buffer := wr_bytes p bs (sense_buffer c)\<rparr>) h;
                       h = upd_sp sp (\<lambda>x. x\<lparr>request_sense_ptr := p + unat sz,
                                             request_sense_length := sense_len - sz\<rparr>) h
                   in if sense_len - sz = 0
                      then sp_done sp (cmd_result (cmd (srbs h sp)))
                             (set_rsp rsp ((get_rsp rsp h)\<lparr>status_srb := None\<rparr>) h)
                      else h))"

definition RF_BUSY :: u8 where "RF_BUSY = BIT 1"

definition qla2x00_error_entry :: "nat \<Rightarrow> nat \<Rightarrow> host \<Rightarrow> host" where
  "qla2x00_error_entry rsp s h =
     (let m = rsp_ring (get_rsp rsp h); que = unat (MSW (get32 s 4 m))
      in if unat (max_req_queues h) \<le> que \<or> req_q_map h que = None then request_reset h
         else case qla2x00_get_sp_from_handle que (get32 s 4 m) h of
                (Some sp, h) \<Rightarrow>
                  sp_done sp (host_result (if get8 s 3 m AND RF_BUSY \<noteq> 0 then DID_BUS_BUSY else DID_ERROR)) h
              | (None, h) \<Rightarrow> request_reset h)"

end
