(* ===== verification/Isr_Queue.thy ===== *)
theory Isr_Queue
  imports Isr_Status
begin

text \<open>
  The response queue (qla_isr.c): the loops that consume entries until they meet one whose
  signature says it has been processed, the dispatch on the entry type, and the report-id entry
  of qla_mbx.c. The adapter is not writing while a loop runs: a run consumes what was posted
  before it.
\<close>

section \<open>Report id acquisition\<close>

definition VP_IDX_ACQUIRED :: nat where "VP_IDX_ACQUIRED = 0"

definition acquire_id :: "u8 \<times> u8 \<times> u8 \<Rightarrow> vp_state \<Rightarrow> vp_state" where
  "acquire_id d v = v\<lparr>vps_d_id := d, vps_flags := vps_flags v OR BIT VP_IDX_ACQUIRED,
     vps_dpc_flags := vps_dpc_flags v OR BIT REGISTER_FC4_NEEDED OR BIT REGISTER_FDMI_NEEDED\<rparr>"

text \<open>The first virtual port of the list with that index; None: no such port.\<close>

fun update_vp :: "u16 \<Rightarrow> (vp_state \<Rightarrow> vp_state) \<Rightarrow> vp_state list \<Rightarrow> vp_state list option" where
  "update_vp i f [] = None"
| "update_vp i f (v # vs) =
     (if i = vps_idx v then Some (f v # vs) else map_option ((#) v) (update_vp i f vs))"

definition qla24xx_report_id_acquisition :: "u32 list \<Rightarrow> nat \<Rightarrow> host \<Rightarrow> host" where
  "qla24xx_report_id_acquisition m s h =
     (let stat = get16 s 10 m; vp_idx = LSB stat;
          d_id = (get8 s 14 m, get8 s 13 m, get8 s 12 m)
      in if get8 s 3 m \<noteq> 0 then h
         else if get8 s 15 m \<noteq> 1 then h
         else if vp_idx = 0
         then let wwpn = (if MSB stat = 0 \<and> get8 s 17 m AND BIT 6 \<noteq> 0
                          then ring_bytes m (64 * s + 40) 8 else take 8 (init_cb_port_name h));
                  h = h\<lparr>vha_port_name := wwpn\<rparr>
              in set_dpc VP_DPC_NEEDED (set_dpc REGISTER_FDMI_NEEDED (set_dpc REGISTER_FC4_NEEDED h))
         else if MSB stat \<noteq> 0 \<and> MSB stat \<noteq> 2 then h
         else case update_vp (ucast vp_idx) (acquire_id d_id) (vps h) of
                None \<Rightarrow> h
              | Some vs \<Rightarrow> set_dpc VP_DPC_NEEDED (h\<lparr>vps := vs\<rparr>))"

section \<open>The dispatch on the entry type\<close>

definition STATUS_TYPE :: u8 where "STATUS_TYPE = 0x03"
definition STATUS_TYPE_21 :: u8 where "STATUS_TYPE_21 = 0x21"
definition STATUS_TYPE_22 :: u8 where "STATUS_TYPE_22 = 0x22"
definition STATUS_CONT_TYPE :: u8 where "STATUS_CONT_TYPE = 0x10"
definition VP_RPT_ID_IOCB_TYPE :: u8 where "VP_RPT_ID_IOCB_TYPE = 0x32"

text \<open>The handles of a fast-post entry, as 32-bit and as 16-bit array.\<close>

definition handles21 :: "u32 list \<Rightarrow> nat \<Rightarrow> u32 list" where
  "handles21 m s = map (\<lambda>i. nth_default 0 m (16 * s + 1 + i)) [0..<unat (get8 s 2 m)]"

definition handles22 :: "u32 list \<Rightarrow> nat \<Rightarrow> u32 list" where
  "handles22 m s = map (\<lambda>i. ucast (get_half (i mod 2) (nth_default 0 m (16 * s + 1 + i div 2))))
     [0..<unat (get8 s 2 m)]"

definition entry_2x00 :: "ienv \<Rightarrow> nat \<Rightarrow> nat \<Rightarrow> host \<Rightarrow> host" where
  "entry_2x00 ie rsp s h =
     (let m = rsp_ring (get_rsp rsp h); ri = rsp_req (get_rsp rsp h); t = get8 s 0 m
      in if get8 s 3 m \<noteq> 0 then qla2x00_error_entry rsp s h
         else if t = STATUS_TYPE then qla2x00_status_entry ie rsp s h
         else if t = STATUS_TYPE_21
         then foldl (\<lambda>h i. qla2x00_process_completed_request ri i h) h (handles21 m s)
         else if t = STATUS_TYPE_22
         then foldl (\<lambda>h i. qla2x00_process_completed_request ri i h) h (handles22 m s)
         else if t = STATUS_CONT_TYPE then qla2x00_status_cont_entry rsp s h
         else if t = MBX_IOCB_TYPE then qla2x00_mbx_iocb_entry ri m s h
         else if t = CT_IOCB_TYPE then qla2x00_ct_entry ie ri m s h
         else h)"

definition entry_24xx :: "ienv \<Rightarrow> nat \<Rightarrow> nat \<Rightarrow> host \<Rightarrow> host" where
  "entry_24xx ie rsp s h =
     (let m = rsp_ring (get_rsp rsp h); ri = rsp_req (get_rsp rsp h); t = get8 s 0 m
      in if get8 s 3 m \<noteq> 0 then qla2x00_error_entry rsp s h
         else if t = STATUS_TYPE then qla2x00_status_entry ie rsp s h
         else if t = STATUS_CONT_TYPE then qla2x00_status_cont_entry rsp s h
         else if t = VP_RPT_ID_IOCB_TYPE then qla24xx_report_id_acquisition m s h
         else if t = LOGINOUT_PORT_IOCB_TYPE then qla24xx_logio_entry ri m s h
         else if t = CT_IOCB_TYPE \<or> t = ELS_IOCB_TYPE then qla24xx_els_ct_entry ie ri m s h
         else if t = ABORT_IOCB_TYPE then qla24xx_abort_iocb_entry ri m s h
         else h)"

section \<open>The loops\<close>

definition rsp_advance :: "rsp_que \<Rightarrow> rsp_que" where
  "rsp_advance q =
     (let i = rsp_ring_index q + 1
      in if i = rsp_length q then q\<lparr>rsp_ring_index := 0, rsp_ring_ptr := 0\<rparr>
         else q\<lparr>rsp_ring_index := i, rsp_ring_ptr := rsp_ring_ptr q + 1\<rparr>)"

definition rsp_mark :: "nat \<Rightarrow> rsp_que \<Rightarrow> rsp_que" where
  "rsp_mark s q = q\<lparr>rsp_ring := put32 s 60 RESPONSE_PROCESSED (rsp_ring q)\<rparr>"

definition rsp_pending :: "nat \<Rightarrow> host \<Rightarrow> bool" where
  "rsp_pending rsp h \<longleftrightarrow> get32 (rsp_ring_ptr (get_rsp rsp h)) 60 (rsp_ring (get_rsp rsp h)) \<noteq> RESPONSE_PROCESSED"

definition rsp_step :: "(nat \<Rightarrow> host \<Rightarrow> host) \<Rightarrow> nat \<Rightarrow> host \<Rightarrow> host" where
  "rsp_step entry rsp h =
     (let s = rsp_ring_ptr (get_rsp rsp h);
          h = set_rsp rsp (rsp_advance (get_rsp rsp h)) h;
          h = entry s h
      in set_rsp rsp (rsp_mark s (get_rsp rsp h)) h)"

fun rsp_loop :: "(nat \<Rightarrow> host \<Rightarrow> host) \<Rightarrow> nat \<Rightarrow> nat \<Rightarrow> host \<Rightarrow> host option" where
  "rsp_loop entry rsp 0 h = None"
| "rsp_loop entry rsp (Suc n) h =
     (if rsp_pending rsp h then rsp_loop entry rsp n (rsp_step entry rsp h) else Some h)"

definition rsp_finish :: "nat \<Rightarrow> host \<Rightarrow> host" where
  "rsp_finish rsp h = set_rsp rsp ((get_rsp rsp h)\<lparr>rsp_q_out := rsp_ring_index (get_rsp rsp h)\<rparr>) h"

text \<open>
  The loops may run once per slot of the ring; None would mean that this was not enough.
\<close>

definition qla2x00_process_response_queue :: "ienv \<Rightarrow> nat \<Rightarrow> host \<Rightarrow> host option" where
  "qla2x00_process_response_queue ie rsp h =
     (if \<not> vha_online h then Some h
      else map_option (rsp_finish rsp)
             (rsp_loop (entry_2x00 ie rsp) rsp (Suc (unat (rsp_length (get_rsp rsp h)))) h))"

definition qla24xx_process_response_queue :: "ienv \<Rightarrow> nat \<Rightarrow> host \<Rightarrow> host option" where
  "qla24xx_process_response_queue ie rsp h =
     (if \<not> vha_online h then Some h
      else map_option (rsp_finish rsp)
             (rsp_loop (entry_24xx ie rsp) rsp (Suc (unat (rsp_length (get_rsp rsp h)))) h))"

end
