(* ===== verification/Isr_Once.thy ===== *)
theory Isr_Once
  imports Isr_Queue
begin

text \<open>
  Every command is completed at most once: a command in hand (taken out of the table, neither
  completed nor waiting for sense data) is what the handlers complete, and each of them keeps the
  invariant that commands in a table, commands waiting for sense data and completed commands are
  disjoint. The handlers' effects on it are those on \<open>track\<close>, so that all other updates vanish.
\<close>

named_theorems track_simps

section \<open>The tracked part of the state\<close>

type_synonym tracked =
  "(nat \<Rightarrow> req_que option) \<times> sp_ptr list \<times> (nat \<Rightarrow> (sp_ptr option \<times> nat) option)"

definition track :: "host \<Rightarrow> tracked" where
  "track h = (req_q_map h, map fst (done_log h),
     \<lambda>r. map_option (\<lambda>q. (status_srb q, rsp_req q)) (rsp_q_map h r))"

text \<open>Where a command is outstanding: queue number and slot.\<close>

definition slots_of :: "(nat \<Rightarrow> req_que option) \<Rightarrow> sp_ptr \<Rightarrow> (nat \<times> nat) set" where
  "slots_of rq sp = {(ri, i). \<exists>q. rq ri = Some q \<and> i < length (outstanding_cmds q)
     \<and> outstanding_cmds q ! i = Some sp}"

definition waiting :: "(nat \<Rightarrow> (sp_ptr option \<times> nat) option) \<Rightarrow> sp_ptr \<Rightarrow> nat set" where
  "waiting rs sp = {r. \<exists>ri. rs r = Some (Some sp, ri)}"

definition in_hand :: "sp_ptr \<Rightarrow> tracked \<Rightarrow> bool" where
  "in_hand sp t = (case t of (rq, dn, rs) \<Rightarrow>
     slots_of rq sp = {} \<and> sp \<notin> set dn \<and> waiting rs sp = {})"

definition once_ok :: "tracked \<Rightarrow> bool" where
  "once_ok t = (case t of (rq, dn, rs) \<Rightarrow>
     (\<forall>sp x y. x \<in> slots_of rq sp \<longrightarrow> y \<in> slots_of rq sp \<longrightarrow> x = y)
   \<and> (\<forall>sp. slots_of rq sp \<noteq> {} \<longrightarrow> sp \<notin> set dn \<and> waiting rs sp = {})
   \<and> (\<forall>sp r r'. r \<in> waiting rs sp \<longrightarrow> r' \<in> waiting rs sp \<longrightarrow> r = r')
   \<and> (\<forall>sp. waiting rs sp \<noteq> {} \<longrightarrow> sp \<notin> set dn)
   \<and> distinct dn
   \<and> (\<forall>ri q. rq ri = Some q \<longrightarrow> length (outstanding_cmds q) = unat (num_outstanding_cmds q))
   \<and> (\<forall>r st ri. rs r = Some (st, ri) \<longrightarrow> rq ri \<noteq> None))"

definition done_once :: "host \<Rightarrow> bool" where
  "done_once h = once_ok (track h)"

lemma track_upd [track_simps]:
  "track (set_dpc b h) = track h" "track (request_reset h) = track h"
  "track (upd_sp sp f h) = track h" "track (upd_cmd sp g h) = track h"
  "track (upd_bsg sp j h) = track h" "track (upd_fc n k h) = track h"
  "track (h\<lparr>qla_stats := st\<rparr>) = track h" "track (h\<lparr>vha_port_name := nm\<rparr>) = track h"
  "track (h\<lparr>vps := vs\<rparr>) = track h" "track (set_logio sp d0 d1 h) = track h"
  by (simp_all add: track_def set_dpc_def request_reset_def upd_sp_def upd_cmd_def upd_bsg_def
      upd_fc_def set_logio_def)

lemma track_set_rsp:
  assumes "rsp_q_map h r = Some q0"
  shows "track (set_rsp r q h) =
    (let (rq, dn, rs) = track h in (rq, dn, rs(r \<mapsto> (status_srb q, rsp_req q))))"
  by (auto simp: track_def set_rsp_def)

lemma track_ring [track_simps]:
  assumes "rsp_q_map h r = Some q0" "status_srb q = status_srb q0" "rsp_req q = rsp_req q0"
  shows "track (set_rsp r q h) = track h"
  using assms by (auto simp: track_set_rsp [OF assms(1)]) (auto simp: track_def)

lemma track_done:
  "track (sp_done sp res h) = (let (rq, dn, rs) = track h in (rq, sp # dn, rs))"
  by (simp add: track_def sp_done_def)

section \<open>Taking a command and completing it\<close>

lemma once_done:
  assumes "once_ok (track h)" "in_hand sp (track h)"
  shows "once_ok (track (sp_done sp res h))"
  using assms unfolding track_done by (auto simp: once_ok_def in_hand_def split: prod.splits)

lemma slots_of_free:
  assumes "rq ri = Some q"
  shows "slots_of (rq(ri \<mapsto> clear_handle q index)) sp = slots_of rq sp - {(ri, unat index)}"
proof -
  have "i < length (outstanding_cmds q) \<Longrightarrow>
    (outstanding_cmds q)[unat index := None] ! i = Some sp \<longleftrightarrow>
      i \<noteq> unat index \<and> outstanding_cmds q ! i = Some sp" for i
    by (cases "i = unat index") auto
  then show ?thesis using assms by (auto simp: slots_of_def clear_handle_def split: if_splits)
qed

lemma once_free:
  assumes once: "once_ok (track h)" and q: "req_q_map h ri = Some q"
    and at: "cmd_at ri index h = Some sp" and lt: "index < ucast (num_outstanding_cmds q)"
  shows "once_ok (track (free_slot ri index h)) \<and> in_hand sp (track (free_slot ri index h))"
proof -
  obtain dn rs where t: "track h = (req_q_map h, dn, rs)" by (simp add: track_def)
  have tf: "track (free_slot ri index h) = ((req_q_map h)(ri \<mapsto> clear_handle q index), dn, rs)"
    using t q by (simp add: track_def free_slot_def set_req_def get_req_def)
  have "unat index < unat (num_outstanding_cmds q)"
    using lt by (simp add: word_less_nat_alt unsigned_ucast_eq take_bit_eq_mod)
  moreover have "length (outstanding_cmds q) = unat (num_outstanding_cmds q)"
    using once q by (simp add: t once_ok_def)
  ultimately have mem: "(ri, unat index) \<in> slots_of (req_q_map h) sp"
    using at q by (simp add: slots_of_def cmd_at_def get_req_def)
  have sl: "slots_of ((req_q_map h)(ri \<mapsto> clear_handle q index)) sp' =
      slots_of (req_q_map h) sp' - {(ri, unat index)}" for sp'
    by (rule slots_of_free [where rq = "req_q_map h", OF q])
  have "slots_of (req_q_map h) sp = {(ri, unat index)}"
    using once mem by (auto simp: t once_ok_def)
  then have hand: "in_hand sp (track (free_slot ri index h))"
    using once by (auto simp: tf sl in_hand_def t once_ok_def)
  have "once_ok (track (free_slot ri index h))"
    using once q unfolding tf once_ok_def t prod.case sl
    by (auto simp: clear_handle_def split: if_splits)
  with hand show ?thesis by simp
qed

section \<open>What a handler does to the response queues\<close>

text \<open>
  The handler of the entry in slot \<open>s\<close> of ring \<open>rsp\<close> may change that entry and the command waiting
  for sense data, nothing else in any response queue.
\<close>

definition rsp_frame :: "nat \<Rightarrow> nat \<Rightarrow> host \<Rightarrow> host \<Rightarrow> bool" where
  "rsp_frame rsp s h h' \<longleftrightarrow>
     (\<exists>st m. rsp_q_map h' = (rsp_q_map h)(rsp \<mapsto> (get_rsp rsp h)\<lparr>status_srb := st, rsp_ring := m\<rparr>)
        \<and> length m = length (rsp_ring (get_rsp rsp h))
        \<and> (\<forall>i. i < 16 * s \<or> 16 * s + 16 \<le> i \<longrightarrow> m ! i = rsp_ring (get_rsp rsp h) ! i))"

lemma rsp_frameI:
  assumes "rsp_q_map h' = (rsp_q_map h)(rsp \<mapsto> (get_rsp rsp h)\<lparr>status_srb := st, rsp_ring := m\<rparr>)"
    and "length m = length (rsp_ring (get_rsp rsp h))"
    and "\<And>i. i < 16 * s \<or> 16 * s + 16 \<le> i \<Longrightarrow> m ! i = rsp_ring (get_rsp rsp h) ! i"
  shows "rsp_frame rsp s h h'"
  using assms unfolding rsp_frame_def by blast

lemma rsp_frame_same:
  assumes "rsp_q_map h rsp = Some q" "rsp_q_map h' = rsp_q_map h"
  shows "rsp_frame rsp s h h'"
proof -
  have "rsp_q_map h' = (rsp_q_map h)(rsp \<mapsto> (get_rsp rsp h)
      \<lparr>status_srb := status_srb q, rsp_ring := rsp_ring q\<rparr>)"
    using assms by (simp add: get_rsp_def map_upd_triv)
  then show ?thesis by (rule rsp_frameI) (use assms in \<open>simp_all add: get_rsp_def\<close>)
qed

lemma rsp_frame_trans:
  assumes "rsp_frame rsp s h h'" "rsp_frame rsp s h' h''"
  shows "rsp_frame rsp s h h''"
proof -
  obtain st m where 1: "rsp_q_map h' = (rsp_q_map h)(rsp \<mapsto> (get_rsp rsp h)\<lparr>status_srb := st, rsp_ring := m\<rparr>)"
      "length m = length (rsp_ring (get_rsp rsp h))"
      "\<forall>i. i < 16 * s \<or> 16 * s + 16 \<le> i \<longrightarrow> m ! i = rsp_ring (get_rsp rsp h) ! i"
    using assms(1) unfolding rsp_frame_def by blast
  then have g: "get_rsp rsp h' = (get_rsp rsp h)\<lparr>status_srb := st, rsp_ring := m\<rparr>"
    by (simp add: get_rsp_def)
  obtain st' m' where 2: "rsp_q_map h'' = (rsp_q_map h')(rsp \<mapsto> (get_rsp rsp h')\<lparr>status_srb := st', rsp_ring := m'\<rparr>)"
      "length m' = length (rsp_ring (get_rsp rsp h'))"
      "\<forall>i. i < 16 * s \<or> 16 * s + 16 \<le> i \<longrightarrow> m' ! i = rsp_ring (get_rsp rsp h') ! i"
    using assms(2) unfolding rsp_frame_def by blast
  show ?thesis by (rule rsp_frameI [where st = st' and m = m']) (use 1 2 g in auto)
qed

lemma rsp_frame_set:
  assumes "rsp_frame rsp s h h'" "length m = length (rsp_ring (get_rsp rsp h'))"
    and "\<And>i. i < 16 * s \<or> 16 * s + 16 \<le> i \<Longrightarrow> m ! i = rsp_ring (get_rsp rsp h') ! i"
  shows "rsp_frame rsp s h (set_rsp rsp ((get_rsp rsp h')\<lparr>status_srb := st, rsp_ring := m\<rparr>) h')"
  by (rule rsp_frame_trans [OF assms(1)])
    (rule rsp_frameI [where st = st and m = m], use assms(2,3) in \<open>simp_all add: set_rsp_def\<close>)

lemma rsp_map_upd [simp]:
  "rsp_q_map (set_dpc b h) = rsp_q_map h" "rsp_q_map (request_reset h) = rsp_q_map h"
  "rsp_q_map (upd_sp sp f h) = rsp_q_map h" "rsp_q_map (upd_cmd sp g h) = rsp_q_map h"
  "rsp_q_map (upd_bsg sp j h) = rsp_q_map h" "rsp_q_map (upd_fc n k h) = rsp_q_map h"
  "rsp_q_map (set_logio sp d0 d1 h) = rsp_q_map h" "rsp_q_map (sp_done sp res h) = rsp_q_map h"
  "rsp_q_map (free_slot ri index h) = rsp_q_map h"
  by (simp_all add: set_dpc_def request_reset_def upd_sp_def upd_cmd_def upd_bsg_def
      upd_fc_def set_logio_def sp_done_def free_slot_def set_req_def)

section \<open>The handlers\<close>

lemma get_sp_once:
  assumes "once_ok (track h)" "req_q_map h ri \<noteq> None"
    and "qla2x00_get_sp_from_handle ri w h = (r, h')"
  shows "once_ok (track h')" and "\<And>sp. r = Some sp \<Longrightarrow> in_hand sp (track h')"
    and "rsp_q_map h' = rsp_q_map h"
proof -
  obtain q where q: "req_q_map h ri = Some q" using assms(2) by auto
  then have "get_req ri h = q" by (simp add: get_req_def)
  have "once_ok (track h') \<and> (\<forall>sp. r = Some sp \<longrightarrow> in_hand sp (track h'))
      \<and> rsp_q_map h' = rsp_q_map h"
  proof (cases "cmd_at ri (ucast (LSW w)) h")
    case None
    then show ?thesis using assms(1,3)
      by (auto simp: qla2x00_get_sp_from_handle_def Let_def track_simps split: if_splits)
  next
    case (Some sp)
    note free = once_free [OF assms(1) q Some]
    show ?thesis
      using assms(1,3) free \<open>get_req ri h = q\<close>
      by (simp add: qla2x00_get_sp_from_handle_def Let_def Some not_le split: if_splits)
        (auto simp: track_simps)
  qed
  then show "once_ok (track h')" "\<And>sp. r = Some sp \<Longrightarrow> in_hand sp (track h')"
    "rsp_q_map h' = rsp_q_map h" by auto
qed

lemma done_step:
  "once_ok (track h') \<Longrightarrow> in_hand sp (track h') \<Longrightarrow> track h = track h' \<Longrightarrow>
    once_ok (track (sp_done sp res h))"
  by (simp add: once_done)

text \<open>
  The shape of most handlers: look up, update, complete. The two parts of the conclusion are
  proved together from what the lookup guarantees.
\<close>

lemma lookup_once:
  assumes "once_ok (track h)" "req_q_map h ri \<noteq> None"
    and "\<And>h'. qla2x00_get_sp_from_handle ri w h = (None, h') \<Longrightarrow> once_ok (track h') \<Longrightarrow>
      rsp_q_map h' = rsp_q_map h \<Longrightarrow> P"
    and "\<And>sp h'. qla2x00_get_sp_from_handle ri w h = (Some sp, h') \<Longrightarrow> once_ok (track h') \<Longrightarrow>
      rsp_q_map h' = rsp_q_map h \<Longrightarrow> in_hand sp (track h') \<Longrightarrow>
      (\<And>h2 res. track h2 = track h' \<Longrightarrow> once_ok (track (sp_done sp res h2))) \<Longrightarrow> P"
  shows P
proof -
  obtain r h' where e: "qla2x00_get_sp_from_handle ri w h = (r, h')" by fastforce
  note get = get_sp_once [OF assms(1,2) e]
  show P
  proof (cases r)
    case None
    then show P using assms(3) [of h'] e get by simp
  next
    case (Some sp)
    have "once_ok (track (sp_done sp res h2))" if "track h2 = track h'" for h2 res
      using done_step [OF get(1) get(2) [OF Some] that] .
    then show P using assms(4) [of sp h'] e get Some by simp
  qed
qed

lemma mbx_entry_once:
  assumes "once_ok (track h)" "req_q_map h ri \<noteq> None"
  shows "once_ok (track (qla2x00_mbx_iocb_entry ri m s h)) \<and> rsp_q_map (qla2x00_mbx_iocb_entry ri m s h) = rsp_q_map h"
  by (rule lookup_once [OF assms, of "get32 s 4 m"]; simp add: qla2x00_mbx_iocb_entry_def Let_def track_simps)

lemma logio_entry_once:
  assumes "once_ok (track h)" "req_q_map h ri \<noteq> None"
  shows "once_ok (track (qla24xx_logio_entry ri m s h)) \<and> rsp_q_map (qla24xx_logio_entry ri m s h) = rsp_q_map h"
  by (rule lookup_once [OF assms, of "get32 s 4 m"]; simp add: qla24xx_logio_entry_def Let_def track_simps)

lemma tm_entry_once:
  assumes "once_ok (track h)" "req_q_map h ri \<noteq> None"
  shows "once_ok (track (qla24xx_tm_iocb_entry ri m s h)) \<and> rsp_q_map (qla24xx_tm_iocb_entry ri m s h) = rsp_q_map h"
  by (rule lookup_once [OF assms, of "get32 s 4 m"]; simp add: qla24xx_tm_iocb_entry_def Let_def track_simps)

lemma abort_entry_once:
  assumes "once_ok (track h)" "req_q_map h ri \<noteq> None"
  shows "once_ok (track (qla24xx_abort_iocb_entry ri m s h)) \<and> rsp_q_map (qla24xx_abort_iocb_entry ri m s h) = rsp_q_map h"
  by (rule lookup_once [OF assms, of "get32 s 4 m"]; simp add: qla24xx_abort_iocb_entry_def Let_def track_simps)

lemma ct_entry_once:
  assumes "once_ok (track h)" "req_q_map h ri \<noteq> None"
  shows "once_ok (track (qla2x00_ct_entry ie ri m s h)) \<and> rsp_q_map (qla2x00_ct_entry ie ri m s h) = rsp_q_map h"
  by (rule lookup_once [OF assms, of "get32 s 4 m"]; simp add: qla2x00_ct_entry_def Let_def track_simps)

lemma els_ct_entry_once:
  assumes "once_ok (track h)" "req_q_map h ri \<noteq> None"
  shows "once_ok (track (qla24xx_els_ct_entry ie ri m s h)) \<and> rsp_q_map (qla24xx_els_ct_entry ie ri m s h) = rsp_q_map h"
  by (rule lookup_once [OF assms, of "get32 s 4 m"]; simp add: qla24xx_els_ct_entry_def Let_def track_simps)

lemma completed_once:
  assumes "once_ok (track h)" "req_q_map h ri \<noteq> None"
  shows "once_ok (track (qla2x00_process_completed_request ri i h))"
    and "rsp_q_map (qla2x00_process_completed_request ri i h) = rsp_q_map h"
    and "req_q_map (qla2x00_process_completed_request ri i h) ri \<noteq> None"
proof -
  obtain q where q: "req_q_map h ri = Some q" using assms(2) by auto
  then have g: "get_req ri h = q" by (simp add: get_req_def)
  show "once_ok (track (qla2x00_process_completed_request ri i h))"
    using assms(1) once_free [OF assms(1) q, of i]
    by (auto simp: qla2x00_process_completed_request_def g track_simps not_le
        intro!: once_done split: option.split)
  show "rsp_q_map (qla2x00_process_completed_request ri i h) = rsp_q_map h"
    by (simp add: qla2x00_process_completed_request_def split: option.split)
  show "req_q_map (qla2x00_process_completed_request ri i h) ri \<noteq> None"
    using q by (auto simp: qla2x00_process_completed_request_def request_reset_def set_dpc_def
        sp_done_def free_slot_def set_req_def split: option.split)
qed

lemma completed_list_once:
  "once_ok (track h) \<Longrightarrow> req_q_map h ri \<noteq> None \<Longrightarrow>
    once_ok (track (foldl (\<lambda>h i. qla2x00_process_completed_request ri i h) h is))
  \<and> rsp_q_map (foldl (\<lambda>h i. qla2x00_process_completed_request ri i h) h is) = rsp_q_map h"
proof (induction "is" arbitrary: h)
  case (Cons i xs)
  show ?case
    using Cons.IH [OF completed_once(1) [OF Cons.prems] completed_once(3) [OF Cons.prems]]
      completed_once(2) [OF Cons.prems] by simp
qed simp

lemma bidir_once:
  assumes "once_ok (track h)" "req_q_map h ri = Some q"
  shows "once_ok (track (qla25xx_process_bidir_status_iocb ie ri m s i h))"
    and "rsp_q_map (qla25xx_process_bidir_status_iocb ie ri m s i h) = rsp_q_map h"
proof -
  have g: "get_req ri h = q" using assms(2) by (simp add: get_req_def)
  show "once_ok (track (qla25xx_process_bidir_status_iocb ie ri m s i h))"
  proof (cases "ucast (num_outstanding_cmds q) \<le> i")
    case True
    then show ?thesis
      using assms(1) by (simp add: qla25xx_process_bidir_status_iocb_def g track_simps)
  next
    case lt: False
    show ?thesis
    proof (cases "cmd_at ri i h")
      case None
      then show ?thesis
        using assms(1) by (simp add: qla25xx_process_bidir_status_iocb_def g track_simps)
    next
      case (Some sp)
      have free: "once_ok (track (free_slot ri i h)) \<and> in_hand sp (track (free_slot ri i h))"
        by (rule once_free [OF assms Some]) (use lt in simp)
      show ?thesis
        unfolding qla25xx_process_bidir_status_iocb_def g Some Let_def option.case
        by (simp only: lt if_False, rule done_step [OF conjunct1 [OF free] conjunct2 [OF free]])
          (simp add: track_simps)
    qed
  qed
  show "rsp_q_map (qla25xx_process_bidir_status_iocb ie ri m s i h) = rsp_q_map h"
    by (simp add: qla25xx_process_bidir_status_iocb_def Let_def split: option.split)
qed

lemma report_id_once:
  "track (qla24xx_report_id_acquisition m s h) = track h"
  "rsp_q_map (qla24xx_report_id_acquisition m s h) = rsp_q_map h"
  by (simp_all add: qla24xx_report_id_acquisition_def Let_def track_simps split: option.split)

lemma mark_lost_once:
  "track (qla2x00_mark_device_lost vp f dl df h) = track h"
  "rsp_q_map (qla2x00_mark_device_lost vp f dl df h) = rsp_q_map h"
  "track (qla2x00_set_retry_delay_timestamp ie f d h) = track h"
  "rsp_q_map (qla2x00_set_retry_delay_timestamp ie f d h) = rsp_q_map h"
  by (simp_all add: qla2x00_mark_device_lost_def qla2x00_schedule_rport_del_def
      qla2x00_set_fcport_state_def qla2x00_set_retry_delay_timestamp_def Let_def track_simps)

section \<open>The status entry\<close>

text \<open>
  The slow path starts with a command in hand; at its end the command is still in hand or waits
  for sense data.
\<close>

definition held :: "nat \<Rightarrow> nat \<Rightarrow> sp_ptr \<Rightarrow> host \<Rightarrow> host \<Rightarrow> bool" where
  "held rsp s sp h0 h \<longleftrightarrow> rsp_frame rsp s h0 h \<and> rsp_q_map h rsp \<noteq> None
     \<and> once_ok (track h) \<and> in_hand sp (track h)"

definition held_or_waits :: "nat \<Rightarrow> nat \<Rightarrow> sp_ptr \<Rightarrow> host \<Rightarrow> host \<Rightarrow> bool" where
  "held_or_waits rsp s sp h0 h \<longleftrightarrow> rsp_frame rsp s h0 h \<and> rsp_q_map h rsp \<noteq> None
     \<and> once_ok (track h) \<and> (status_srb (get_rsp rsp h) = None \<longrightarrow> in_hand sp (track h))"

lemma held_weaken: "held rsp s sp h0 h \<Longrightarrow> held_or_waits rsp s sp h0 h"
  by (simp add: held_def held_or_waits_def)

lemma held_upd:
  assumes "held rsp s sp h0 h" "track h' = track h" "rsp_q_map h' = rsp_q_map h"
  shows "held rsp s sp h0 h'"
  using assms unfolding held_def
  by (metis (no_types, lifting) rsp_frame_same rsp_frame_trans not_None_eq)

lemma held_or_waits_upd:
  assumes "held_or_waits rsp s sp h0 h" "track h' = track h" "rsp_q_map h' = rsp_q_map h"
  shows "held_or_waits rsp s sp h0 h'"
proof -
  obtain q where q: "rsp_q_map h rsp = Some q" using assms(1) by (auto simp: held_or_waits_def)
  have "rsp_frame rsp s h0 h'"
    using assms(1) rsp_frame_trans rsp_frame_same [OF q assms(3)]
    by (fastforce simp: held_or_waits_def)
  then show ?thesis using assms by (simp add: held_or_waits_def get_rsp_def)
qed

lemma held_upds:
  assumes "held rsp s sp h0 h"
  shows "held rsp s sp h0 (upd_cmd p f h)" "held rsp s sp h0 (upd_sp p g h)"
    "held rsp s sp h0 (qla2x00_mark_device_lost vp fc dl df h)"
    "held rsp s sp h0 (qla2x00_set_retry_delay_timestamp ie fc d h)"
  by (rule held_upd [OF assms]; simp add: track_simps mark_lost_once)+

lemma once_wait:
  assumes "once_ok (track h)" "in_hand sp (track h)" "rsp_q_map h r = Some q"
    and "rsp_req q' = rsp_req q" "status_srb q' = Some sp"
  shows "once_ok (track (set_rsp r q' h))"
proof -
  obtain rq dn rs where t: "track h = (rq, dn, rs)" by (cases "track h")
  have rs: "rs r = Some (status_srb q, rsp_req q)" using t assms(3) by (auto simp: track_def)
  have w: "waiting (rs(r \<mapsto> (Some sp, rsp_req q))) sp' =
      (if sp' = sp then {r} else waiting rs sp' - {r})" for sp'
    using assms(2) by (auto simp: waiting_def in_hand_def t split: if_splits)
  show ?thesis
    using assms(1,2) rs unfolding track_set_rsp [OF assms(3)] t assms(4,5) once_ok_def in_hand_def
    by (auto simp: w split: if_splits)
qed

lemma once_unwait:
  assumes "once_ok (track h)" "rsp_q_map h r = Some q" "status_srb q = Some sp"
    and "rsp_req q' = rsp_req q" "status_srb q' = None"
  shows "once_ok (track (set_rsp r q' h)) \<and> in_hand sp (track (set_rsp r q' h))"
proof -
  obtain rq dn rs where t: "track h = (rq, dn, rs)" by (cases "track h")
  have rs: "rs r = Some (Some sp, rsp_req q)" using t assms(2,3) by (auto simp: track_def)
  have w: "waiting (rs(r \<mapsto> (None, rsp_req q))) sp' = waiting rs sp' - {r}" for sp'
    by (auto simp: waiting_def split: if_splits)
  have r: "r \<in> waiting rs sp" using rs by (auto simp: waiting_def)
  have "waiting rs sp = {r}" using assms(1) r by (auto simp: once_ok_def t)
  then have hand: "in_hand sp (track (set_rsp r q' h))"
    using assms(1) unfolding track_set_rsp [OF assms(2)] t assms(4,5) once_ok_def in_hand_def
    by (auto simp: w)
  have "once_ok (track (set_rsp r q' h))"
    using assms(1) rs unfolding track_set_rsp [OF assms(2)] t assms(4,5) once_ok_def
    by (auto simp: w split: if_splits)
  with hand show ?thesis by simp
qed

lemma set_rsp_rsp_map [simp]: "rsp_q_map (set_rsp r q h) r = Some q"
  by (simp add: set_rsp_def)

lemma handle_sense_held:
  assumes "held rsp s sp h0 h"
  shows "held_or_waits rsp s sp h0 (qla2x00_handle_sense sp m off par len rsp res h)"
proof -
  define h2 where "h2 = (let track = (if SCSI_SENSE_BUFFERSIZE \<le> len then SCSI_SENSE_BUFFERSIZE else len);
      now = (if par < track then par else track);
      h = upd_cmd sp (\<lambda>c. c\<lparr>sense_buffer := wr_bytes 0 (ring_bytes m off (unat now)) (sense_buffer c)\<rparr>) h
    in upd_sp sp (\<lambda>x. x\<lparr>request_sense_ptr := unat now, request_sense_length := track - now\<rparr>) h)"
  have h2: "held rsp s sp h0 h2"
    unfolding h2_def Let_def by (intro held_upds assms)
  then obtain q where q: "rsp_q_map h2 rsp = Some q" by (auto simp: held_def)
  define h3 where "h3 = set_rsp rsp ((get_rsp rsp h2)\<lparr>status_srb := Some sp\<rparr>) h2"
  have g: "get_rsp rsp h2 = q" using q by (simp add: get_rsp_def)
  have "rsp_frame rsp s h0 h3"
    using rsp_frame_set [of rsp s h0 h2 "rsp_ring q" "Some sp"] h2 g
    by (simp add: h3_def held_def)
  moreover have "once_ok (track h3)"
    unfolding h3_def g by (rule once_wait [OF _ _ q]) (use h2 in \<open>simp_all add: held_def\<close>)
  ultimately have "held_or_waits rsp s sp h0 h3"
    by (simp add: held_or_waits_def h3_def get_rsp_def)
  then have "held_or_waits rsp s sp h0 (upd_cmd sp (\<lambda>c. c\<lparr>cmd_result := res\<rparr>) h3)"
    by (rule held_or_waits_upd) (simp_all add: track_simps)
  with held_weaken [OF h2] show ?thesis
    unfolding qla2x00_handle_sense_def h3_def h2_def Let_def by (simp only: split: if_split) blast
qed

lemma report_sense_held:
  "held rsp s sp h0 h \<Longrightarrow> held_or_waits rsp s sp h0 (report_sense sp m f rsp res h)"
  by (simp add: report_sense_def Let_def held_weaken held_upds handle_sense_held)

lemma complete_switch_held:
  assumes "held rsp s sp h0 h"
  shows "held_or_waits rsp s sp h0 (snd (complete_switch ie fwi2 sp m e f cs rsp h))"
proof -
  note report = report_sense_held [OF held_upds(1) [OF assms]] report_sense_held [OF assms]
  have "held_or_waits rsp s sp h0 (snd (complete_normal sp m f rsp h))"
    unfolding complete_normal_def Let_def
    by (simp add: report held_weaken held_upds assms)
  moreover have "held_or_waits rsp s sp h0 (snd (complete_underrun fwi2 sp m f rsp h))"
    unfolding complete_underrun_def Let_def
    by (simp add: report held_weaken held_upds assms)
  moreover have "held_or_waits rsp s sp h0 (snd (complete_port_event fwi2 fc cs f h))" for fc
    unfolding complete_port_event_def
    by (simp add: held_weaken held_upds assms)
  ultimately show ?thesis
    unfolding complete_switch_def Let_def
    by (simp add: held_weaken held_upds assms)
qed

lemma swap_frame:
  assumes "rsp_q_map h rsp = Some q" "16 * s + 16 \<le> length (rsp_ring (get_rsp rsp h))"
    and "p + n \<le> 16"
  shows "rsp_frame rsp s h (set_rsp rsp ((get_rsp rsp h)
      \<lparr>rsp_ring := host_to_fcp_swap (16 * s + p) n (rsp_ring (get_rsp rsp h))\<rparr>) h)"
    and "track (set_rsp rsp ((get_rsp rsp h)
      \<lparr>rsp_ring := host_to_fcp_swap (16 * s + p) n (rsp_ring (get_rsp rsp h))\<rparr>) h) = track h"
proof -
  let ?m = "host_to_fcp_swap (16 * s + p) n (rsp_ring (get_rsp rsp h))"
  have "?m ! i = rsp_ring (get_rsp rsp h) ! i" if "i < 16 * s \<or> 16 * s + 16 \<le> i" for i
    using that assms(2,3) by (subst host_to_fcp_swap_nth) auto
  then have "rsp_frame rsp s h (set_rsp rsp ((get_rsp rsp h)
      \<lparr>status_srb := status_srb (get_rsp rsp h), rsp_ring := ?m\<rparr>) h)"
    by (intro rsp_frame_set rsp_frame_same [OF assms(1)]) simp_all
  then show "rsp_frame rsp s h (set_rsp rsp ((get_rsp rsp h)\<lparr>rsp_ring := ?m\<rparr>) h)" by simp
  show "track (set_rsp rsp ((get_rsp rsp h)\<lparr>rsp_ring := ?m\<rparr>) h) = track h"
    using assms(1) by (intro track_ring [OF assms(1)]) (simp_all add: get_rsp_def)
qed

lemma swap_held:
  assumes "held rsp s sp h0 h" "16 * s + 16 \<le> length (rsp_ring (get_rsp rsp h))"
    and "p + n \<le> 16"
  shows "held rsp s sp h0 (set_rsp rsp ((get_rsp rsp h)
    \<lparr>rsp_ring := host_to_fcp_swap (16 * s + p) n (rsp_ring (get_rsp rsp h))\<rparr>) h)"
proof -
  obtain q where q: "rsp_q_map h rsp = Some q" using assms(1) by (auto simp: held_def)
  show ?thesis
    using assms(1) swap_frame [OF q assms(2,3)] rsp_frame_trans by (auto simp: held_def)
qed

lemma status_slow_held:
  assumes "held rsp s sp h0 h" "16 * s + 16 \<le> length (rsp_ring (get_rsp rsp h))"
  shows "rsp_frame rsp s h0 (status_slow ie rsp s sp h) \<and> once_ok (track (status_slow ie rsp s sp h))"
proof -
  define h2 where "h2 = (if IS_FWI2_CAPABLE (device_type h) then set_rsp rsp ((get_rsp rsp h)
    \<lparr>rsp_ring := host_to_fcp_swap (16 * s + 9) 7 (rsp_ring (get_rsp rsp h))\<rparr>) h else h)"
  have h2: "held rsp s sp h0 h2"
    using swap_held [OF assms, of 9 7] assms(1) by (simp add: h2_def)
  have fin: "rsp_frame rsp s h0 (if status_srb (get_rsp rsp h3) = None then sp_done sp res h3 else h3)
      \<and> once_ok (track (if status_srb (get_rsp rsp h3) = None then sp_done sp res h3 else h3))"
    if H: "held_or_waits rsp s sp h0 h3" for res h3
  proof -
    obtain q where q: "rsp_q_map h3 rsp = Some q" using H by (auto simp: held_or_waits_def)
    have "rsp_frame rsp s h3 (sp_done sp res h3)" by (rule rsp_frame_same [OF q]) simp
    then show ?thesis
      using H rsp_frame_trans once_done by (auto simp: held_or_waits_def)
  qed
  show ?thesis
    unfolding status_slow_def Let_def h2_def [symmetric] case_prod_unfold
    by (rule fin) (simp add: held_weaken h2 complete_switch_held held_upds)
qed

end
