(* ===== verification/Isr_Loop.thy ===== *)
theory Isr_Loop
  imports Isr_Once
begin

text \<open>
  The response-queue loops: each iteration consumes one entry, so they end after at most one turn
  of the ring, with every pending entry processed in order; and no command is completed twice.
\<close>

section \<open>One entry\<close>

definition entry_sound :: "nat \<Rightarrow> nat \<Rightarrow> (host \<Rightarrow> host) \<Rightarrow> bool" where
  "entry_sound rsp s f \<longleftrightarrow> (\<forall>h. once_ok (track h) \<longrightarrow> rsp_q_map h rsp \<noteq> None
     \<longrightarrow> 16 * s + 16 \<le> length (rsp_ring (get_rsp rsp h))
     \<longrightarrow> rsp_frame rsp s h (f h) \<and> once_ok (track (f h)))"

lemma entry_soundI:
  assumes "\<And>h q. once_ok (track h) \<Longrightarrow> rsp_q_map h rsp = Some q \<Longrightarrow>
    16 * s + 16 \<le> length (rsp_ring (get_rsp rsp h)) \<Longrightarrow>
    rsp_frame rsp s h (f h) \<and> once_ok (track (f h))"
  shows "entry_sound rsp s f"
  using assms unfolding entry_sound_def by (metis not_None_eq)

lemma once_okD: "once_ok (rq, dn, rs) \<Longrightarrow> rs r = Some (st, ri) \<Longrightarrow> rq ri \<noteq> None"
  unfolding once_ok_def prod.case by blast

lemma rsp_req_exists:
  assumes "once_ok (track h)" "rsp_q_map h rsp = Some q"
  shows "req_q_map h (rsp_req (get_rsp rsp h)) \<noteq> None"
  by (rule once_okD [OF assms(1) [unfolded track_def], where r = rsp and st = "status_srb q"]) (use assms(2) in \<open>simp add: get_rsp_def\<close>)

lemma status_entry_sound: "entry_sound rsp s (qla2x00_status_entry ie rsp s)"
proof (rule entry_soundI)
  fix h q
  assume once: "once_ok (track h)" and q: "rsp_q_map h rsp = Some q"
    and room: "16 * s + 16 \<le> length (rsp_ring (get_rsp rsp h))"
  let ?m = "rsp_ring (get_rsp rsp h)"
  let ?handle = "ucast (LSW (get32 s 4 ?m)) :: u32" let ?que = "unat (MSW (get32 s 4 ?m))"
  note same = rsp_frame_same [OF q]
  have quiet: "rsp_frame rsp s h h'" "once_ok (track h')"
    if "track h' = track h" "rsp_q_map h' = rsp_q_map h" for h'
    using that once same by auto
  show "rsp_frame rsp s h (qla2x00_status_entry ie rsp s h)
      \<and> once_ok (track (qla2x00_status_entry ie rsp s h))"
  proof (cases "req_q_map h ?que = None
      \<or> first_zero_bit (req_qid_map h) (unat (max_req_queues h)) 0 \<le> ?que")
    case True
    then show ?thesis using quiet [of h] by (simp add: qla2x00_status_entry_def Let_def)
  next
    case okq: False
    then obtain rq where rq: "req_q_map h ?que = Some rq" by auto
    then have g: "get_req ?que h = rq" by (simp add: get_req_def)
    show ?thesis
    proof (cases "if ?handle < ucast (num_outstanding_cmds rq) then cmd_at ?que ?handle h else None")
      case None
      then show ?thesis
        using okq quiet [of h] quiet [of "request_reset h"]
        unfolding qla2x00_status_entry_def Let_def g None
        by (simp add: track_simps)
    next
      case (Some sp)
      then have lt: "?handle < ucast (num_outstanding_cmds rq)" and at: "cmd_at ?que ?handle h = Some sp"
        by (auto split: if_splits)
      note free = once_free [OF once rq at lt]
      have hold: "held rsp s sp h (free_slot ?que ?handle h)"
        using free same [of "free_slot ?que ?handle h" s] q by (simp add: held_def)
      have room2: "16 * s + 16 \<le> length (rsp_ring (get_rsp rsp (free_slot ?que ?handle h)))"
        using room by (simp add: get_rsp_def)
      have "req_q_map h ?que \<noteq> None" using rq by simp
      note parts = bidir_once [OF once rq, of ie ?m s ?handle]
        tm_entry_once [OF once \<open>req_q_map h ?que \<noteq> None\<close>, of ?m s]
        completed_once [OF once \<open>req_q_map h ?que \<noteq> None\<close>, of ?handle]
        status_slow_held [OF hold room2, of ie] hold [unfolded held_def]
      show ?thesis
        using okq rq parts same
        unfolding qla2x00_status_entry_def Let_def g Some option.case by simp
    qed
  qed
qed

lemma error_entry_sound: "entry_sound rsp s (qla2x00_error_entry rsp s)"
proof (rule entry_soundI)
  fix h q
  assume once: "once_ok (track h)" and q: "rsp_q_map h rsp = Some q"
  let ?m = "rsp_ring (get_rsp rsp h)" let ?que = "unat (MSW (get32 s 4 ?m))"
  have "once_ok (track (qla2x00_error_entry rsp s h))
      \<and> rsp_q_map (qla2x00_error_entry rsp s h) = rsp_q_map h"
  proof (cases "unat (max_req_queues h) \<le> ?que \<or> req_q_map h ?que = None")
    case True
    then show ?thesis using once by (simp add: qla2x00_error_entry_def Let_def track_simps)
  next
    case False
    then obtain rq where rq: "req_q_map h ?que = Some rq" and max: "\<not> unat (max_req_queues h) \<le> ?que"
      by auto
    then have "req_q_map h ?que \<noteq> None" by simp
    then show ?thesis
      by (rule lookup_once [OF once, of _ "get32 s 4 ?m"])
        (use max in \<open>simp_all add: qla2x00_error_entry_def Let_def track_simps rq\<close>)
  qed
  then show "rsp_frame rsp s h (qla2x00_error_entry rsp s h)
      \<and> once_ok (track (qla2x00_error_entry rsp s h))"
    using rsp_frame_same [OF q] by simp
qed

lemma cont_entry_sound: "entry_sound rsp s (qla2x00_status_cont_entry rsp s)"
proof (rule entry_soundI)
  fix h q
  assume once: "once_ok (track h)" and q: "rsp_q_map h rsp = Some q"
    and room: "16 * s + 16 \<le> length (rsp_ring (get_rsp rsp h))"
  let ?h' = "qla2x00_status_cont_entry rsp s h"
  have g: "get_rsp rsp h = q" using q by (simp add: get_rsp_def)
  have keep: "rsp_frame rsp s h h" by (rule rsp_frame_same [OF q]) simp
  show "rsp_frame rsp s h ?h' \<and> once_ok (track ?h')"
  proof (cases "status_srb q")
    case None
    then show ?thesis using keep once by (simp add: qla2x00_status_cont_entry_def g)
  next
    case (Some sp)
    have drop: "rsp_frame rsp s h (set_rsp rsp ((get_rsp rsp h2)\<lparr>status_srb := None\<rparr>) h2)
        \<and> once_ok (track (set_rsp rsp ((get_rsp rsp h2)\<lparr>status_srb := None\<rparr>) h2))
        \<and> in_hand sp (track (set_rsp rsp ((get_rsp rsp h2)\<lparr>status_srb := None\<rparr>) h2))"
      if fr: "rsp_frame rsp s h h2" and tr: "track h2 = track h" for h2
    proof -
      obtain st m where h2: "rsp_q_map h2 = (rsp_q_map h)(rsp \<mapsto> (get_rsp rsp h)\<lparr>status_srb := st, rsp_ring := m\<rparr>)"
        using fr unfolding rsp_frame_def by blast
      obtain q2 where q2: "rsp_q_map h2 rsp = Some q2" using h2 by simp
      have st: "status_srb q2 = Some sp"
        using tr q q2 Some by (auto simp: track_def fun_eq_iff dest!: spec [of _ rsp])
      have g2: "get_rsp rsp h2 = q2" using q2 by (simp add: get_rsp_def)
      have "once_ok (track h2)" using once tr by simp
      from once_unwait [OF this q2 st, of "q2\<lparr>status_srb := None\<rparr>"]
      have 1: "once_ok (track (set_rsp rsp (q2\<lparr>status_srb := None\<rparr>) h2))
          \<and> in_hand sp (track (set_rsp rsp (q2\<lparr>status_srb := None\<rparr>) h2))" by simp
      have "rsp_frame rsp s h (set_rsp rsp ((get_rsp rsp h2)\<lparr>status_srb := None, rsp_ring := rsp_ring q2\<rparr>) h2)"
        by (rule rsp_frame_set [OF fr]) (simp_all add: g2)
      then show ?thesis using 1 by (simp add: g2)
    qed
    note sp = Some
    show ?thesis
    proof (cases "request_sense_length (srbs h sp) = 0")
      case True
      then show ?thesis using keep once by (simp add: qla2x00_status_cont_entry_def g sp Let_def)
    next
      case len: False
      show ?thesis
      proof (cases "cmd_present (srbs h sp)")
        case False
        then show ?thesis
          using drop [OF keep] len by (simp add: qla2x00_status_cont_entry_def g sp Let_def)
      next
        case True
        define h1 where "h1 = (if IS_FWI2_CAPABLE (device_type h)
          then set_rsp rsp ((get_rsp rsp h)\<lparr>rsp_ring :=
            host_to_fcp_swap (16 * s + 1) 15 (rsp_ring (get_rsp rsp h))\<rparr>) h else h)"
        have h1: "rsp_frame rsp s h h1 \<and> track h1 = track h"
          using swap_frame [OF q room, of 1 15] keep by (simp add: h1_def)
        have upd: "rsp_frame rsp s h h2" if "rsp_q_map h2 = rsp_q_map h1" for h2
        proof -
          obtain q1 where "rsp_q_map h1 rsp = Some q1" using q by (cases "IS_FWI2_CAPABLE (device_type h)") (auto simp: h1_def)
          from rsp_frame_trans [OF conjunct1 [OF h1] rsp_frame_same [OF this that]] show ?thesis .
        qed
        define len p and sz :: u32 where "len = request_sense_length (srbs h sp)"
          and "p = request_sense_ptr (srbs h sp)"
          and "sz = (if 60 < len then 60 else ucast (ucast len :: u8))"
        define bs where "bs = ring_bytes (rsp_ring (get_rsp rsp h1)) (64 * s + 4) (unat sz)"
        define h2 where "h2 = upd_sp sp (\<lambda>x. x\<lparr>request_sense_ptr := p + unat sz,
              request_sense_length := len - sz\<rparr>)
            (upd_cmd sp (\<lambda>c. c\<lparr>sense_buffer := wr_bytes p bs (sense_buffer c)\<rparr>) h1)"
        have fr: "rsp_frame rsp s h h2" by (rule upd) (simp add: h2_def)
        have tr: "track h2 = track h" using h1 by (simp add: h2_def track_simps)
        note fin = drop [OF fr tr]
        let ?d = "set_rsp rsp ((get_rsp rsp h2)\<lparr>status_srb := None\<rparr>) h2"
        have fr2: "rsp_frame rsp s h (sp_done sp res ?d)" for res
          by (rule rsp_frame_trans [OF conjunct1 [OF fin] rsp_frame_same]) (simp_all add: set_rsp_def)
        have on2: "once_ok (track (sp_done sp res ?d))" for res
          using fin once_done by blast
        have "?h' = (if len - sz = 0 then sp_done sp (cmd_result (cmd (srbs h2 sp))) ?d else h2)"
          using len True
          unfolding qla2x00_status_cont_entry_def sp [folded g] option.case Let_def
            h1_def [symmetric] len_def [symmetric] p_def [symmetric] sz_def [symmetric]
            bs_def [symmetric] h2_def [symmetric] by simp
        then show ?thesis using fr fr2 on2 once tr by simp
      qed
    qed
  qed
qed

lemma quiet_sound:
  assumes "\<And>h. once_ok (track h) \<Longrightarrow> rsp_q_map h rsp \<noteq> None \<Longrightarrow>
    once_ok (track (f h)) \<and> rsp_q_map (f h) = rsp_q_map h"
  shows "entry_sound rsp s f"
proof (rule entry_soundI)
  fix h q
  assume "once_ok (track h)" "rsp_q_map h rsp = Some q"
  then show "rsp_frame rsp s h (f h) \<and> once_ok (track (f h))"
    using assms [of h] rsp_frame_same by auto
qed

lemma entry_2x00_sound: "entry_sound rsp s (entry_2x00 ie rsp s)"
proof (rule entry_soundI)
  fix h q
  assume h: "once_ok (track h)" "rsp_q_map h rsp = Some q"
    "16 * s + 16 \<le> length (rsp_ring (get_rsp rsp h))"
  note req = rsp_req_exists [OF h(1,2)]
  note parts = status_entry_sound [unfolded entry_sound_def, rule_format, OF h(1) _ h(3), of ie]
    error_entry_sound [unfolded entry_sound_def, rule_format, OF h(1) _ h(3)]
    cont_entry_sound [unfolded entry_sound_def, rule_format, OF h(1) _ h(3)]
  note flat = mbx_entry_once [OF h(1) req] ct_entry_once [OF h(1) req]
    completed_list_once [OF h(1) req]
  show "rsp_frame rsp s h (entry_2x00 ie rsp s h) \<and> once_ok (track (entry_2x00 ie rsp s h))"
    unfolding entry_2x00_def Let_def
    by (simp add: parts h flat rsp_frame_same [OF h(2)])
qed

lemma entry_24xx_sound: "entry_sound rsp s (entry_24xx ie rsp s)"
proof (rule entry_soundI)
  fix h q
  assume h: "once_ok (track h)" "rsp_q_map h rsp = Some q"
    "16 * s + 16 \<le> length (rsp_ring (get_rsp rsp h))"
  note req = rsp_req_exists [OF h(1,2)]
  note parts = status_entry_sound [unfolded entry_sound_def, rule_format, OF h(1) _ h(3), of ie]
    error_entry_sound [unfolded entry_sound_def, rule_format, OF h(1) _ h(3)]
    cont_entry_sound [unfolded entry_sound_def, rule_format, OF h(1) _ h(3)]
  note flat = logio_entry_once [OF h(1) req] els_ct_entry_once [OF h(1) req]
    abort_entry_once [OF h(1) req] report_id_once
  show "rsp_frame rsp s h (entry_24xx ie rsp s h) \<and> once_ok (track (entry_24xx ie rsp s h))"
    unfolding entry_24xx_def Let_def
    by (simp add: parts h flat rsp_frame_same [OF h(2)])
qed

section \<open>One iteration\<close>

definition rsp_inv :: "nat \<Rightarrow> host \<Rightarrow> bool" where
  "rsp_inv rsp h \<longleftrightarrow> rsp_q_map h rsp \<noteq> None \<and> once_ok (track h)
     \<and> (let q = get_rsp rsp h
        in rsp_ring_ptr q = unat (rsp_ring_index q) \<and> rsp_ring_index q < rsp_length q
         \<and> length (rsp_ring q) = 16 * unat (rsp_length q))"

definition unprocessed :: "rsp_que \<Rightarrow> nat set" where
  "unprocessed q = {i. i < unat (rsp_length q) \<and> get32 i 60 (rsp_ring q) \<noteq> RESPONSE_PROCESSED}"

definition same_slot :: "nat \<Rightarrow> rsp_que \<Rightarrow> rsp_que \<Rightarrow> bool" where
  "same_slot i q q' \<longleftrightarrow> (\<forall>j < 16. rsp_ring q' ! (16 * i + j) = rsp_ring q ! (16 * i + j))"

lemma same_slot_unprocessed:
  "same_slot i q q' \<Longrightarrow> rsp_length q' = rsp_length q \<Longrightarrow> i \<in> unprocessed q' \<longleftrightarrow> i \<in> unprocessed q"
  by (simp add: unprocessed_def same_slot_def get32_def)

lemma rsp_advance_ptr:
  assumes "rsp_ring_ptr q = unat (rsp_ring_index q)" "rsp_ring_index q < rsp_length q"
  shows "rsp_ring_ptr (rsp_advance q) = (rsp_ring_ptr q + 1) mod unat (rsp_length q)"
    and "rsp_ring_ptr (rsp_advance q) = unat (rsp_ring_index (rsp_advance q))"
    and "rsp_ring_index (rsp_advance q) < rsp_length q"
proof -
  have lt: "unat (rsp_ring_index q) < unat (rsp_length q)"
    using assms(2) by (simp add: word_less_nat_alt)
  have suc: "unat (rsp_ring_index q + 1) = unat (rsp_ring_index q) + 1"
    using unat_Suc_ring [OF assms(2)] by simp
  show "rsp_ring_ptr (rsp_advance q) = (rsp_ring_ptr q + 1) mod unat (rsp_length q)"
    "rsp_ring_ptr (rsp_advance q) = unat (rsp_ring_index (rsp_advance q))"
    "rsp_ring_index (rsp_advance q) < rsp_length q"
    using lt suc assms(1) by (auto simp: rsp_advance_def Let_def word_less_nat_alt word_unat_eq_iff)
qed

lemma rsp_advance_fields [simp]:
  "rsp_length (rsp_advance q) = rsp_length q" "rsp_ring (rsp_advance q) = rsp_ring q"
  "status_srb (rsp_advance q) = status_srb q" "rsp_req (rsp_advance q) = rsp_req q"
  by (simp_all add: rsp_advance_def Let_def)

lemma rsp_step_spec:
  assumes inv: "rsp_inv rsp h" and sound: "entry_sound rsp (rsp_ring_ptr (get_rsp rsp h)) (entry (rsp_ring_ptr (get_rsp rsp h)))"
  defines "q \<equiv> get_rsp rsp h" and "q' \<equiv> get_rsp rsp (rsp_step entry rsp h)"
  shows "rsp_inv rsp (rsp_step entry rsp h)"
    and "rsp_length q' = rsp_length q"
    and "rsp_ring_ptr q' = (rsp_ring_ptr q + 1) mod unat (rsp_length q)"
    and "\<And>i. i < unat (rsp_length q) \<Longrightarrow> i \<noteq> rsp_ring_ptr q \<Longrightarrow> same_slot i q q'"
    and "rsp_ring_ptr q \<notin> unprocessed q'"
proof -
  let ?s = "rsp_ring_ptr q"
  have q0: "rsp_q_map h rsp = Some q" using inv by (auto simp: rsp_inv_def q_def get_rsp_def)
  have inv': "?s = unat (rsp_ring_index q)" "rsp_ring_index q < rsp_length q"
      "length (rsp_ring q) = 16 * unat (rsp_length q)" "once_ok (track h)"
    using inv by (simp_all add: rsp_inv_def Let_def q_def)
  have room: "?s < unat (rsp_length q)" using inv'(1,2) by (simp add: word_less_nat_alt)
  define h1 where "h1 = set_rsp rsp (rsp_advance q) h"
  have t1: "track h1 = track h" unfolding h1_def by (rule track_ring [OF q0]) simp_all
  have g1: "get_rsp rsp h1 = rsp_advance q" by (simp add: h1_def get_rsp_def)
  have "rsp_frame rsp ?s h1 (entry ?s h1) \<and> once_ok (track (entry ?s h1))"
    using sound [folded q_def, unfolded entry_sound_def] inv'(3,4) room t1 g1
    by (simp add: h1_def)
  then obtain st m where fr: "rsp_q_map (entry ?s h1) = (rsp_q_map h1)(rsp \<mapsto> (rsp_advance q)\<lparr>status_srb := st, rsp_ring := m\<rparr>)"
      "length m = length (rsp_ring q)" "\<forall>i. i < 16 * ?s \<or> 16 * ?s + 16 \<le> i \<longrightarrow> m ! i = rsp_ring q ! i"
    and on: "once_ok (track (entry ?s h1))"
    unfolding rsp_frame_def g1 by auto
  let ?q2 = "(rsp_advance q)\<lparr>status_srb := st, rsp_ring := m\<rparr>"
  have q2: "rsp_q_map (entry ?s h1) rsp = Some ?q2" "get_rsp rsp (entry ?s h1) = ?q2"
    using fr(1) by (simp_all add: get_rsp_def)
  have step: "rsp_step entry rsp h = set_rsp rsp (rsp_mark ?s ?q2) (entry ?s h1)"
    unfolding rsp_step_def Let_def q_def [symmetric] h1_def [symmetric] q2(2) ..
  have q': "q' = rsp_mark ?s ?q2" by (simp add: q'_def step)
  have t3: "track (rsp_step entry rsp h) = track (entry ?s h1)"
    unfolding step by (rule track_ring [OF q2(1)]) (simp_all add: rsp_mark_def)
  note adv = rsp_advance_ptr [OF inv'(1,2)]
  show "rsp_length q' = rsp_length q" by (simp add: q' rsp_mark_def)
  show "rsp_ring_ptr q' = (?s + 1) mod unat (rsp_length q)" using adv(1) by (simp add: q' rsp_mark_def)
  have "rsp_q_map (rsp_step entry rsp h) rsp \<noteq> None" by (simp add: step)
  then show "rsp_inv rsp (rsp_step entry rsp h)"
    using adv(2,3) inv'(3) fr(2) on
    unfolding rsp_inv_def t3 q'_def [symmetric] Let_def q' by (simp add: rsp_mark_def)
  show "same_slot i q q'" if "i < unat (rsp_length q)" "i \<noteq> ?s" for i
    unfolding same_slot_def
  proof (intro allI impI)
    fix j :: nat assume j: "j < 16"
    have "16 * i + j < 16 * ?s \<or> 16 * ?s + 16 \<le> 16 * i + j" using that(2) j by linarith
    then show "rsp_ring q' ! (16 * i + j) = rsp_ring q ! (16 * i + j)"
      using fr(3) by (auto simp: q' rsp_mark_def put32_def)
  qed
  show "?s \<notin> unprocessed q'"
    using room inv'(3) fr(2) by (simp add: unprocessed_def q' rsp_mark_def get32_def put32_def)
qed

section \<open>The whole loop\<close>

lemma finite_unprocessed [simp]: "finite (unprocessed q)"
  by (simp add: unprocessed_def)

text \<open>The \<open>k\<close> entries from the ring pointer on, all pending, have been consumed, and nothing else.\<close>

definition consumed :: "rsp_que \<Rightarrow> nat \<Rightarrow> rsp_que \<Rightarrow> bool" where
  "consumed q k q' \<longleftrightarrow>
     rsp_length q' = rsp_length q \<and> k \<le> card (unprocessed q)
   \<and> rsp_ring_ptr q' = (rsp_ring_ptr q + k) mod unat (rsp_length q)
   \<and> (\<forall>j < k. (rsp_ring_ptr q + j) mod unat (rsp_length q) \<in> unprocessed q - unprocessed q')
   \<and> (\<forall>i < unat (rsp_length q). (\<forall>j < k. i \<noteq> (rsp_ring_ptr q + j) mod unat (rsp_length q))
        \<longrightarrow> same_slot i q q')"

lemma consumed_none: "rsp_ring_ptr q < unat (rsp_length q) \<Longrightarrow> consumed q 0 q"
  by (simp add: consumed_def same_slot_def)

lemma unprocessed_one:
  assumes "rsp_length q1 = rsp_length q"
    and "\<And>i. i < unat (rsp_length q) \<Longrightarrow> i \<noteq> s \<Longrightarrow> same_slot i q q1" "s \<notin> unprocessed q1"
  shows "unprocessed q1 = unprocessed q - {s}"
proof (rule set_eqI)
  fix i
  show "i \<in> unprocessed q1 \<longleftrightarrow> i \<in> unprocessed q - {s}"
  proof (cases "i < unat (rsp_length q) \<and> i \<noteq> s")
    case True
    then show ?thesis using same_slot_unprocessed [OF assms(2) assms(1)] by simp
  next
    case False
    then show ?thesis using assms(1,3) by (auto simp: unprocessed_def)
  qed
qed

lemma consumed_Suc:
  assumes len: "rsp_length q1 = rsp_length q"
    and ptr: "rsp_ring_ptr q < unat (rsp_length q)"
      "rsp_ring_ptr q1 = (rsp_ring_ptr q + 1) mod unat (rsp_length q)"
    and rest: "\<And>i. i < unat (rsp_length q) \<Longrightarrow> i \<noteq> rsp_ring_ptr q \<Longrightarrow> same_slot i q q1"
    and here: "rsp_ring_ptr q \<in> unprocessed q" "rsp_ring_ptr q \<notin> unprocessed q1"
    and c: "consumed q1 k q'"
  shows "consumed q (Suc k) q'"
proof -
  let ?n = "unat (rsp_length q)"
  define slot where "slot = (\<lambda>j. (rsp_ring_ptr q + j) mod ?n)"
  have un: "unprocessed q1 = unprocessed q - {rsp_ring_ptr q}"
    by (rule unprocessed_one [OF len rest here(2)])
  have slot1: "(rsp_ring_ptr q1 + j) mod unat (rsp_length q1) = slot (Suc j)" for j
    unfolding slot_def ptr(2) len by (simp add: mod_add_left_eq)
  have slot0: "slot 0 = rsp_ring_ptr q" using ptr(1) by (simp add: slot_def)
  have d: "rsp_length q' = rsp_length q" "k \<le> card (unprocessed q1)" "rsp_ring_ptr q' = slot (Suc k)"
      "\<forall>j < k. slot (Suc j) \<in> unprocessed q1 - unprocessed q'"
      "\<forall>i < ?n. (\<forall>j < k. i \<noteq> slot (Suc j)) \<longrightarrow> same_slot i q1 q'"
    using c unfolding consumed_def slot1 by (simp_all add: len)
  have first: "slot 0 \<notin> unprocessed q'"
  proof (cases "\<exists>j < k. slot 0 = slot (Suc j)")
    case True
    then show ?thesis using d(4) by force
  next
    case False
    then have "same_slot (slot 0) q1 q'" using d(5) ptr(1) slot0 by simp
    then show ?thesis using same_slot_unprocessed [of "slot 0" q1 q'] d(1) len here(2) slot0 by simp
  qed
  have in_slots: "slot j \<in> unprocessed q - unprocessed q'" if "j < Suc k" for j
  proof (cases j)
    case 0
    then show ?thesis using first here slot0 by simp
  next
    case (Suc i)
    then show ?thesis using d(4) that un by auto
  qed
  have others: "same_slot i q q'" if "i < ?n" "\<forall>j < Suc k. i \<noteq> slot j" for i
  proof -
    have "same_slot i q q1" using that slot0 by (intro rest) auto
    moreover have "same_slot i q1 q'" using that d(5) by auto
    ultimately show ?thesis by (simp add: same_slot_def)
  qed
  have "card (unprocessed q) = Suc (card (unprocessed q1))"
    unfolding un by (rule card_Suc_Diff1 [OF finite_unprocessed here(1), symmetric])
  then show ?thesis
    using d(1-3) in_slots others unfolding consumed_def slot_def by simp
qed

lemma rsp_loop_drains:
  assumes sound: "\<And>s. entry_sound rsp s (entry s)"
  shows "rsp_inv rsp h \<Longrightarrow> card (unprocessed (get_rsp rsp h)) < fuel \<Longrightarrow>
    \<exists>h' k. rsp_loop entry rsp fuel h = Some h' \<and> rsp_inv rsp h' \<and> \<not> rsp_pending rsp h'
      \<and> consumed (get_rsp rsp h) k (get_rsp rsp h')"
proof (induction fuel arbitrary: h)
  case (Suc fuel)
  let ?q = "get_rsp rsp h"
  have ptr: "rsp_ring_ptr ?q < unat (rsp_length ?q)"
    using Suc.prems(1) by (simp add: rsp_inv_def Let_def word_less_nat_alt)
  show ?case
  proof (cases "rsp_pending rsp h")
    case False
    then show ?thesis using Suc.prems(1) consumed_none [OF ptr] by auto
  next
    case True
    let ?h1 = "rsp_step entry rsp h" let ?q1 = "get_rsp rsp ?h1"
    note step = rsp_step_spec [where entry = entry, OF Suc.prems(1) sound]
    have here: "rsp_ring_ptr ?q \<in> unprocessed ?q"
      using True ptr by (simp add: unprocessed_def rsp_pending_def)
    have "unprocessed ?q1 = unprocessed ?q - {rsp_ring_ptr ?q}"
      by (rule unprocessed_one [OF step(2,4,5)])
    then have "Suc (card (unprocessed ?q1)) = card (unprocessed ?q)"
      using card_Suc_Diff1 [OF finite_unprocessed here] by (simp only:)
    then have "card (unprocessed ?q1) < fuel" using Suc.prems(2) by linarith
    then obtain h' k where IH: "rsp_loop entry rsp fuel ?h1 = Some h'" "rsp_inv rsp h'"
        "\<not> rsp_pending rsp h'" "consumed ?q1 k (get_rsp rsp h')"
      using Suc.IH [OF step(1)] by blast
    have "consumed ?q (Suc k) (get_rsp rsp h')"
      by (rule consumed_Suc [OF step(2) ptr step(3,4) here step(5) IH(4)])
    then show ?thesis using IH True by auto
  qed
qed simp

end
