(* ===== verification/Isr_Claims.thy ===== *)
theory Isr_Claims
  imports Isr_Loop Start_Scsi
begin

text \<open>
  What the completion path guarantees: a run over the response queue ends, consumes exactly the
  pending entries in ring order, and completes every command at most once; what a lookup by
  handle returns; and when a command is reported as successful.
\<close>

section \<open>Runs over the response queue\<close>

lemma unprocessed_bound: "card (unprocessed q) < Suc (unat (rsp_length q))"
proof -
  have "card (unprocessed q) \<le> card {0..<unat (rsp_length q)}"
    by (rule card_mono) (auto simp: unprocessed_def)
  then show ?thesis by simp
qed

lemma rsp_finish_inv:
  assumes "rsp_inv rsp h"
  shows "rsp_inv rsp (rsp_finish rsp h)" "track (rsp_finish rsp h) = track h"
    and "rsp_pending rsp (rsp_finish rsp h) = rsp_pending rsp h"
    and "get_rsp rsp (rsp_finish rsp h) = (get_rsp rsp h)\<lparr>rsp_q_out := rsp_ring_index (get_rsp rsp h)\<rparr>"
proof -
  obtain q where q: "rsp_q_map h rsp = Some q" using assms by (auto simp: rsp_inv_def)
  show t: "track (rsp_finish rsp h) = track h"
    unfolding rsp_finish_def by (rule track_ring [OF q]) (use q in \<open>simp_all add: get_rsp_def\<close>)
  show "get_rsp rsp (rsp_finish rsp h) = (get_rsp rsp h)\<lparr>rsp_q_out := rsp_ring_index (get_rsp rsp h)\<rparr>"
    by (simp add: rsp_finish_def)
  then show "rsp_inv rsp (rsp_finish rsp h)" "rsp_pending rsp (rsp_finish rsp h) = rsp_pending rsp h"
    using assms unfolding rsp_inv_def t by (simp_all add: Let_def rsp_pending_def rsp_finish_def)
qed

lemma consumed_q_out: "consumed q k (q'\<lparr>rsp_q_out := x\<rparr>) = consumed q k q'"
  by (simp add: consumed_def same_slot_def unprocessed_def)

lemma process_spec:
  assumes "rsp_inv rsp h" "\<And>s. entry_sound rsp s (entry s)"
  obtains h' k where
    "map_option (rsp_finish rsp) (rsp_loop entry rsp (Suc (unat (rsp_length (get_rsp rsp h)))) h) = Some h'"
    "rsp_inv rsp h'" "\<not> rsp_pending rsp h'" "consumed (get_rsp rsp h) k (get_rsp rsp h')"
    "rsp_q_out (get_rsp rsp h') = rsp_ring_index (get_rsp rsp h')"
proof -
  obtain h1 k where h1:
    "rsp_loop entry rsp (Suc (unat (rsp_length (get_rsp rsp h)))) h = Some h1"
    "rsp_inv rsp h1" "\<not> rsp_pending rsp h1" "consumed (get_rsp rsp h) k (get_rsp rsp h1)"
    using rsp_loop_drains [OF assms(2,1) unprocessed_bound] by blast
  show ?thesis
    by (rule that [of "rsp_finish rsp h1" k])
      (use h1 rsp_finish_inv [OF h1(2)] in \<open>simp_all add: consumed_q_out\<close>)
qed

section \<open>A concrete adapter\<close>

text \<open>Command 7 is outstanding under handle 2; a status entry for it is posted in slot 0.\<close>

definition isr_env :: ienv where
  "isr_env = \<lparr>jiffies_now = 1000, HZ = 100, sizeof_bsg_reply = 16,
     scsi_build_sense_buffer = (\<lambda>key asc ascq b. b[0 := 0x72, 1 := key, 2 := asc, 3 := ascq])\<rparr>"

definition isr_req :: req_que where
  "isr_req = sample_ring\<lparr>outstanding_cmds := (replicate 8 None)[2 := Some 7]\<rparr>"

definition isr_rsp :: "u32 list \<Rightarrow> rsp_que" where
  "isr_rsp entry = sample_rsp\<lparr>rsp_ring := entry @ replicate 48 0xDEADDEAD\<rparr>"

definition isr_host :: "u32 list \<Rightarrow> host" where
  "isr_host entry = sample_host\<lparr>req_q_map := [0 \<mapsto> isr_req], rsp_q_map := [0 \<mapsto> isr_rsp entry],
     srbs := (\<lambda>i. sample_srb\<lparr>sp_handle := 2\<rparr>)\<rparr>"

definition good_entry :: "u32 list" where
  "good_entry = [0x00000003, 2, 0, 0, 0, 0, 0, 0, 0, 0, 0, 0, 0, 0, 0, 0]"

lemma isr_req_slots:
  "slots_of [0 \<mapsto> isr_req] sp = (if sp = 7 then {(0, 2)} else {})"
  by (auto simp: slots_of_def isr_req_def sample_ring_def nth_list_update split: if_splits)

lemma isr_rsp_waiting:
  "waiting (\<lambda>r. map_option (\<lambda>q. (status_srb q, rsp_req q)) (if r = 0 then Some (isr_rsp e) else None)) sp
    = {}"
  by (auto simp: waiting_def isr_rsp_def sample_rsp_def split: if_splits)

lemma isr_host_inv: "length e = 16 \<Longrightarrow> rsp_inv 0 (isr_host e)"
  unfolding rsp_inv_def once_ok_def track_def
  by (auto simp: isr_req_slots isr_rsp_waiting isr_host_def sample_host_def)
    (auto simp: isr_rsp_def sample_rsp_def isr_req_def sample_ring_def get_rsp_def split: if_splits)

lemma isr_host_online: "vha_online (isr_host e)"
  by (simp add: isr_host_def sample_host_def)

text \<open>
  C9. A run of \<open>qla24xx_process_response_queue\<close> on a snapshot of the ring ends within one turn. It
  consumes the pending entries from the ring pointer on, in order and each once, marks them
  processed, leaves every other entry as it was, stops at a processed entry, and tells the
  adapter the new index.
\<close>

theorem response_queue_24xx_drains:
  assumes "rsp_inv rsp h" "vha_online h"
  shows "\<exists>h' k. qla24xx_process_response_queue ie rsp h = Some h' \<and> rsp_inv rsp h'
    \<and> consumed (get_rsp rsp h) k (get_rsp rsp h') \<and> \<not> rsp_pending rsp h'
    \<and> rsp_q_out (get_rsp rsp h') = rsp_ring_index (get_rsp rsp h')"
  by (rule process_spec [where entry = "entry_24xx ie rsp", OF assms(1) entry_24xx_sound])
    (use assms(2) in \<open>auto simp: qla24xx_process_response_queue_def\<close>)

lemma response_queue_24xx_drains_witness:
  "\<exists>h' k. qla24xx_process_response_queue isr_env 0 (isr_host good_entry) = Some h'
    \<and> rsp_inv 0 h' \<and> consumed (get_rsp 0 (isr_host good_entry)) k (get_rsp 0 h') \<and> \<not> rsp_pending 0 h'
    \<and> rsp_q_out (get_rsp 0 h') = rsp_ring_index (get_rsp 0 h')"
  by (rule response_queue_24xx_drains [OF isr_host_inv isr_host_online]) (simp add: good_entry_def)

text \<open>
  C24. The same for \<open>qla2x00_process_response_queue\<close> with its fast-post and mailbox entries.
\<close>

theorem response_queue_2x00_drains:
  assumes "rsp_inv rsp h" "vha_online h"
  shows "\<exists>h' k. qla2x00_process_response_queue ie rsp h = Some h' \<and> rsp_inv rsp h'
    \<and> consumed (get_rsp rsp h) k (get_rsp rsp h') \<and> \<not> rsp_pending rsp h'
    \<and> rsp_q_out (get_rsp rsp h') = rsp_ring_index (get_rsp rsp h')"
  by (rule process_spec [where entry = "entry_2x00 ie rsp", OF assms(1) entry_2x00_sound])
    (use assms(2) in \<open>auto simp: qla2x00_process_response_queue_def\<close>)

lemma response_queue_2x00_drains_witness:
  "\<exists>h' k. qla2x00_process_response_queue isr_env 0 (isr_host good_entry) = Some h'
    \<and> rsp_inv 0 h' \<and> consumed (get_rsp 0 (isr_host good_entry)) k (get_rsp 0 h') \<and> \<not> rsp_pending 0 h'
    \<and> rsp_q_out (get_rsp 0 h') = rsp_ring_index (get_rsp 0 h')"
  by (rule response_queue_2x00_drains [OF isr_host_inv isr_host_online]) (simp add: good_entry_def)

lemma process_inv:
  assumes "rsp_inv rsp h"
    and "qla24xx_process_response_queue ie rsp h = Some h' \<or> qla2x00_process_response_queue ie rsp h = Some h'"
  shows "rsp_inv rsp h'"
proof -
  obtain h1 where 1: "map_option (rsp_finish rsp) (rsp_loop (entry_24xx ie rsp) rsp
      (Suc (unat (rsp_length (get_rsp rsp h)))) h) = Some h1" "rsp_inv rsp h1"
    by (rule process_spec [OF assms(1) entry_24xx_sound])
  obtain h2 where 2: "map_option (rsp_finish rsp) (rsp_loop (entry_2x00 ie rsp) rsp
      (Suc (unat (rsp_length (get_rsp rsp h)))) h) = Some h2" "rsp_inv rsp h2"
    by (rule process_spec [OF assms(1) entry_2x00_sound])
  show ?thesis
    using assms 1 2 unfolding qla24xx_process_response_queue_def qla2x00_process_response_queue_def
    by (auto simp del: rsp_loop.simps split: if_splits)
qed

text \<open>
  C10. A command is completed at most once: after a run of either loop no command occurs twice among
  the completed ones, and none of them is still in a command table or waiting for sense data.
\<close>

theorem completed_at_most_once:
  assumes "rsp_inv rsp h"
    and "qla24xx_process_response_queue ie rsp h = Some h' \<or> qla2x00_process_response_queue ie rsp h = Some h'"
  shows "distinct (map fst (done_log h'))
    \<and> (\<forall>sp \<in> fst ` set (done_log h'). slots_of (req_q_map h') sp = {}
       \<and> (\<forall>r q. rsp_q_map h' r = Some q \<longrightarrow> status_srb q \<noteq> Some sp))"
proof (rule conjI)
  have once: "once_ok (track h')" using process_inv [OF assms] by (simp add: rsp_inv_def)
  then show "distinct (map fst (done_log h'))" by (simp add: once_ok_def track_def)
  show "\<forall>sp \<in> fst ` set (done_log h'). slots_of (req_q_map h') sp = {}
       \<and> (\<forall>r q. rsp_q_map h' r = Some q \<longrightarrow> status_srb q \<noteq> Some sp)"
  proof (intro ballI conjI allI impI)
    fix sp assume sp: "sp \<in> fst ` set (done_log h')"
    show "slots_of (req_q_map h') sp = {}" using once sp by (auto simp: once_ok_def track_def)
    fix r q assume q: "rsp_q_map h' r = Some q"
    show "status_srb q \<noteq> Some sp"
    proof
      assume "status_srb q = Some sp"
      then have "r \<in> waiting (\<lambda>r. map_option (\<lambda>q. (status_srb q, rsp_req q)) (rsp_q_map h' r)) sp"
        using q by (simp add: waiting_def)
      then show False using once sp by (auto simp: once_ok_def track_def)
    qed
  qed
qed

lemma isr_host_runs:
  "length e = 16 \<Longrightarrow> \<exists>h'. qla24xx_process_response_queue isr_env 0 (isr_host e) = Some h'"
  by (rule process_spec [where entry = "entry_24xx isr_env 0", OF isr_host_inv entry_24xx_sound])
    (auto simp: qla24xx_process_response_queue_def isr_host_online)

lemma completed_at_most_once_witness:
  "\<exists>h'. qla24xx_process_response_queue isr_env 0 (isr_host good_entry) = Some h'
    \<and> distinct (map fst (done_log h'))
    \<and> (\<forall>sp \<in> fst ` set (done_log h'). slots_of (req_q_map h') sp = {}
       \<and> (\<forall>r q. rsp_q_map h' r = Some q \<longrightarrow> status_srb q \<noteq> Some sp))"
proof -
  have e: "length good_entry = 16" by (simp add: good_entry_def)
  obtain h' where "qla24xx_process_response_queue isr_env 0 (isr_host good_entry) = Some h'"
    using isr_host_runs [OF e] by blast
  with completed_at_most_once [OF isr_host_inv [OF e] disjI1 [OF this]] show ?thesis by blast
qed

lemma unat_ucast_up:
  assumes "LENGTH('a::len) \<le> LENGTH('b::len)"
  shows "unat (ucast (x :: 'a word) :: 'b word) = unat x"
proof -
  have "unat x < 2 ^ LENGTH('b)"
    by (rule order.strict_trans2 [OF unsigned_less]) (use assms in \<open>simp add: power_increasing\<close>)
  then show ?thesis by (simp add: unsigned_ucast_eq take_bit_nat_eq_self)
qed

lemma ucast_up_0_iff: "ucast (x :: u8) = (0 :: u32) \<longleftrightarrow> x = 0"
proof -
  have "unat (ucast x :: u32) = unat x" by (simp add: unat_ucast_up)
  then show ?thesis by (simp add: word_unat_eq_iff)
qed

section \<open>The lookup by handle\<close>

text \<open>
  A completion's handle yields a command exactly when its low half is in range, the slot holds
  a command and that command was issued under this handle; then the slot is freed and nothing else
  changes. Otherwise no slot is freed, and the adapter reset is requested only for an index out
  of range.
\<close>

theorem lookup_by_handle:
  assumes "req_q_map h ri = Some q"
  shows "qla2x00_get_sp_from_handle ri w h =
    (if unat (LSW w) < unat (num_outstanding_cmds q)
     then (case outstanding_cmds q ! unat (LSW w) of
             None \<Rightarrow> (None, h)
           | Some sp \<Rightarrow> if sp_handle (srbs h sp) = ucast (LSW w)
               then (Some sp, h\<lparr>req_q_map := (req_q_map h)(ri \<mapsto>
                      q\<lparr>outstanding_cmds := (outstanding_cmds q)[unat (LSW w) := None]\<rparr>)\<rparr>)
               else (None, h))
     else (None, request_reset h))"
proof -
  have u: "unat (ucast (LSW w) :: u32) = unat (LSW w)" by (simp add: unat_ucast_up)
  have le: "ucast (num_outstanding_cmds q) \<le> (ucast (LSW w) :: u32) \<longleftrightarrow> \<not> unat (LSW w) < unat (num_outstanding_cmds q)"
    by (simp add: word_le_nat_alt u unat_ucast_up not_less)
  show ?thesis
    using assms(1)
    by (simp add: qla2x00_get_sp_from_handle_def Let_def get_req_def le cmd_at_def u
        free_slot_def set_req_def clear_handle_def split: option.split)
qed

lemma lookup_by_handle_witness:
  "fst (qla2x00_get_sp_from_handle 0 2 (isr_host good_entry)) = Some 7
   \<and> cmd_at 0 2 (snd (qla2x00_get_sp_from_handle 0 2 (isr_host good_entry))) = None"
proof -
  have q: "req_q_map (isr_host good_entry) 0 = Some isr_req" by (simp add: isr_host_def)
  have w: "LSW 2 = 2" by (simp add: LSW_def)
  have "srbs (isr_host good_entry) 7 = sample_srb\<lparr>sp_handle := 2\<rparr>" by (simp add: isr_host_def)
  then show ?thesis
    unfolding lookup_by_handle [OF q] w
    by (simp add: isr_req_def sample_ring_def cmd_at_def get_req_def)
qed

section \<open>When a command is successful\<close>

text \<open>
  C11. The slow path reports a command as successful (the result word 0) only if the firmware said
  complete, queue full or underrun with SCSI status 0, or flagged a protection error the handler
  could dismiss; and if a residual was reported, the bytes that did arrive reach what the mid-layer
  requires.
\<close>

theorem success_is_sound:
  assumes "complete_switch ie fwi2 sp m s f cs rsp h = (0, h')"
  shows "cs \<in> {CS_COMPLETE, CS_QUEUE_FULL, CS_DATA_UNDERRUN, CS_DIF_ERROR}
    \<and> (cs \<noteq> CS_DIF_ERROR \<longrightarrow> lscsi_status f = 0)
    \<and> (cs \<in> {CS_COMPLETE, CS_QUEUE_FULL} \<longrightarrow> f_scsi_status f \<noteq> 0 \<longrightarrow>
         f_scsi_status f AND (SS_RESIDUAL_UNDER OR SS_RESIDUAL_OVER) \<noteq> 0 \<longrightarrow>
         underflow (cmd (srbs h sp)) \<le> scsi_bufflen (cmd (srbs h sp)) - f_resid_len f)
    \<and> (cs = CS_DATA_UNDERRUN \<longrightarrow> f_scsi_status f AND SS_RESIDUAL_UNDER \<noteq> 0
       \<and> underflow (cmd (srbs h sp)) \<le> scsi_bufflen (cmd (srbs h sp))
           - (if fwi2 then f_fw_resid_len f else f_resid_len f)
       \<and> (fwi2 \<longrightarrow> f_fw_resid_len f = f_resid_len f))"
proof -
  have ws: "with_status DID_OK st = 0 \<longleftrightarrow> st = 0" "with_status DID_ERROR st \<noteq> 0"
      "host_result DID_ERROR \<noteq> 0" "host_result DID_RESET \<noteq> 0"
      "host_result DID_TRANSPORT_DISRUPTED \<noteq> 0" for st
    by (simp_all add: with_status_def host_result_def or_eq_0_iff ucast_up_0_iff DID_OK_def DID_ERROR_def
        DID_RESET_def DID_TRANSPORT_DISRUPTED_def)
  have busy: "SAM_STAT_TASK_SET_FULL \<noteq> 0" "SAM_STAT_BUSY \<noteq> 0"
    by (simp_all add: SAM_STAT_TASK_SET_FULL_def SAM_STAT_BUSY_def)
  consider "cs = CS_COMPLETE \<or> cs = CS_QUEUE_FULL" | "cs = CS_DATA_UNDERRUN" | "cs = CS_DIF_ERROR"
    using assms ws by (auto simp: complete_switch_def complete_port_event_def split: if_splits)
  then show ?thesis
  proof cases
    case 1
    then have "complete_normal sp m f rsp h = (0, h')" using assms by (simp add: complete_switch_def)
    then show ?thesis
      using 1 ws
      by (auto simp: complete_normal_def Let_def underflow_hit_def not_less lscsi_status_def
          CS_COMPLETE_def CS_QUEUE_FULL_def CS_DATA_UNDERRUN_def upd_cmd_def split: if_splits)
  next
    case 2
    then have "complete_underrun fwi2 sp m f rsp h = (0, h')"
      using assms by (simp add: complete_switch_def CS_COMPLETE_def CS_QUEUE_FULL_def CS_DATA_UNDERRUN_def)
    then show ?thesis
      using 2 ws busy
      by (auto simp: complete_underrun_def Let_def underflow_hit_def not_less
          CS_COMPLETE_def CS_QUEUE_FULL_def CS_DATA_UNDERRUN_def CS_DIF_ERROR_def upd_cmd_def split: if_splits)
  next
    case 3
    then show ?thesis
      by (simp add: CS_COMPLETE_def CS_QUEUE_FULL_def CS_DATA_UNDERRUN_def CS_DIF_ERROR_def)
  qed
qed

text \<open>A write of 0xA00 bytes of which 0x200 are missing, as the target and the firmware agree.\<close>

definition underrun_fields :: sts_fields where
  "underrun_fields = \<lparr>f_comp_status = CS_DATA_UNDERRUN, f_scsi_status = 0x800, f_state_flags = 0,
     f_status_flags = 0, f_sense_len = 0, f_par_sense_len = 28, f_rsp_info_len = 0,
     f_resid_len = 0x200, f_fw_resid_len = 0x200, f_rsp_info_3 = 0, f_sense_off = 36, f_retry_delay = 0\<rparr>"

lemma success_is_sound_witness:
  "fst (complete_switch isr_env True 7 [] 0 underrun_fields CS_DATA_UNDERRUN 0 (isr_host good_entry)) = 0
   \<and> f_scsi_status underrun_fields AND SS_RESIDUAL_UNDER \<noteq> 0"
proof -
  let ?r = "complete_switch isr_env True 7 [] 0 underrun_fields CS_DATA_UNDERRUN 0 (isr_host good_entry)"
  have z: "fst ?r = 0"
    by (simp add: complete_switch_def complete_underrun_def underrun_fields_def Let_def lscsi_status_def
        STATUS_MASK_def SS_RESIDUAL_UNDER_def BIT_def CS_COMPLETE_def CS_QUEUE_FULL_def
        CS_DATA_UNDERRUN_def underflow_hit_def isr_host_def sample_srb_def sample_sc_def upd_cmd_def
        with_status_def host_result_def DID_OK_def)
  then have "?r = (0, snd ?r)" by (metis prod.collapse)
  from success_is_sound [OF this] z show ?thesis by simp
qed

end
