(* ===== verification/Isr_Sense.thy ===== *)
theory Isr_Sense
  imports Isr_Claims
begin

text \<open>
  Sense data that does not fit into the status entry: it is put together from the continuation
  entries in order, and the command is completed with its last byte. Then the cases in which the
  handlers do not do what they are meant to: the result of a failed pass-through, the status byte
  of a protection error, the bytes behind an entry, the command that is never completed.
\<close>

section \<open>Reassembly\<close>

lemma wr_bytes_append: "wr_bytes p (a @ b) m = wr_bytes (p + length a) b (wr_bytes p a m)"
  by (induction a arbitrary: p m) auto

definition cont_data :: "bool \<Rightarrow> u32 list \<Rightarrow> nat \<Rightarrow> u8 list" where
  "cont_data fwi2 m s =
     ring_bytes (if fwi2 then host_to_fcp_swap (16 * s + 1) 15 m else m) (64 * s + 4) 60"

lemma length_cont_data [simp]: "length (cont_data fwi2 m s) = 60"
  by (simp add: cont_data_def ring_bytes_def)

lemma ring_bytes_take: "k \<le> n \<Longrightarrow> ring_bytes m b k = take k (ring_bytes m b n)"
  by (simp add: ring_bytes_def take_map)

lemma ring_bytes_cong:
  assumes "\<And>i. i < n \<Longrightarrow> nth_default 0 m ((b + i) div 4) = nth_default 0 m' ((b + i) div 4)"
  shows "ring_bytes m b n = ring_bytes m' b n"
  using assms by (simp add: ring_bytes_def ring_byte_def)

lemma cont_data_cong:
  assumes "length m' = length m" "16 * s + 16 \<le> length m" "\<And>j. j < 16 \<Longrightarrow> m' ! (16 * s + j) = m ! (16 * s + j)"
  shows "cont_data fwi2 m' s = cont_data fwi2 m s"
  unfolding cont_data_def
proof (rule ring_bytes_cong)
  fix i :: nat assume "i < 60"
  define j where "j = (4 + i) div 4"
  have j: "1 \<le> j" "j < 16" using \<open>i < 60\<close> by (simp_all add: j_def less_mult_imp_div_less)
  have e: "(64 * s + 4 + i) div 4 = 16 * s + j" by (simp add: j_def)
  show "nth_default 0 (if fwi2 then host_to_fcp_swap (16 * s + 1) 15 m' else m') ((64 * s + 4 + i) div 4)
      = nth_default 0 (if fwi2 then host_to_fcp_swap (16 * s + 1) 15 m else m) ((64 * s + 4 + i) div 4)"
    unfolding e using assms j by (simp add: nth_default_def host_to_fcp_swap_nth)
qed

text \<open>The command waiting for sense data: how much is missing and where it goes.\<close>

definition awaiting :: "nat \<Rightarrow> sp_ptr \<Rightarrow> nat \<Rightarrow> nat \<Rightarrow> u8 list \<Rightarrow> host \<Rightarrow> bool" where
  "awaiting rsp sp p n buf h \<longleftrightarrow> status_srb (get_rsp rsp h) = Some sp \<and> cmd_present (srbs h sp)
     \<and> request_sense_ptr (srbs h sp) = p \<and> unat (request_sense_length (srbs h sp)) = n
     \<and> sense_buffer (cmd (srbs h sp)) = buf"

lemma cont_size:
  "unat (if 60 < n then 60 else ucast (ucast (n :: u32) :: u8) :: u32) = min (unat n) 60"
proof (cases "60 < n")
  case True
  then show ?thesis by (simp add: word_less_nat_alt min_def)
next
  case False
  then have le: "unat n \<le> 60" by (simp add: word_less_nat_alt)
  have "unat (ucast (ucast n :: u8) :: u32) = unat (ucast n :: u8)" by (simp add: unat_ucast_up)
  also have "... = unat n" using le by (simp add: unsigned_ucast_eq take_bit_nat_eq_self)
  finally show ?thesis using False le by simp
qed

lemma cont_step:
  fixes s :: nat
  assumes "awaiting rsp sp p n buf h" "0 < n"
  defines "h' \<equiv> qla2x00_status_cont_entry rsp s h" and "k \<equiv> min n 60"
  defines "buf' \<equiv> wr_bytes p (take k (cont_data (IS_FWI2_CAPABLE (device_type h)) (rsp_ring (get_rsp rsp h)) s)) buf"
  shows "n \<le> 60 \<Longrightarrow> status_srb (get_rsp rsp h') = None \<and> sense_buffer (cmd (srbs h' sp)) = buf'
        \<and> done_log h' = (sp, cmd_result (cmd (srbs h sp))) # done_log h"
    and "60 < n \<Longrightarrow> awaiting rsp sp (p + 60) (n - 60) buf' h' \<and> done_log h' = done_log h
        \<and> cmd_result (cmd (srbs h' sp)) = cmd_result (cmd (srbs h sp))"
    and "device_type h' = device_type h"
    and "rsp_ring (get_rsp rsp h') = (if IS_FWI2_CAPABLE (device_type h)
      then host_to_fcp_swap (16 * s + 1) 15 (rsp_ring (get_rsp rsp h)) else rsp_ring (get_rsp rsp h))"
proof -
  note a = assms(1) [unfolded awaiting_def]
  let ?len = "request_sense_length (srbs h sp)"
  define sz :: u32 where "sz = (if 60 < ?len then 60 else ucast (ucast ?len :: u8))"
  have sz: "unat sz = k" using a cont_size [of ?len] by (simp add: sz_def k_def)
  have nz: "?len \<noteq> 0" using a assms(2) by (metis less_irrefl unsigned_0)
  have sub: "unat (?len - sz) = n - k"
    using a sz by (simp add: k_def unat_sub word_le_nat_alt)
  then have sub0: "?len - sz = 0 \<longleftrightarrow> n \<le> 60"
    using a by (metis diff_is_0_eq k_def min_def nat_le_linear unat_eq_zero unsigned_0)
  define h1 where "h1 = (if IS_FWI2_CAPABLE (device_type h) then set_rsp rsp ((get_rsp rsp h)
      \<lparr>rsp_ring := host_to_fcp_swap (16 * s + 1) 15 (rsp_ring (get_rsp rsp h))\<rparr>) h else h)"
  define h2 where "h2 = upd_sp sp (\<lambda>x. x\<lparr>request_sense_ptr := p + unat sz, request_sense_length := ?len - sz\<rparr>)
      (upd_cmd sp (\<lambda>c. c\<lparr>sense_buffer :=
         wr_bytes p (ring_bytes (rsp_ring (get_rsp rsp h1)) (64 * s + 4) (unat sz)) (sense_buffer c)\<rparr>) h1)"
  have ring1: "rsp_ring (get_rsp rsp h1) = (if IS_FWI2_CAPABLE (device_type h)
      then host_to_fcp_swap (16 * s + 1) 15 (rsp_ring (get_rsp rsp h)) else rsp_ring (get_rsp rsp h))"
    and fix1: "srbs h1 = srbs h" "done_log h1 = done_log h" "device_type h1 = device_type h"
      "status_srb (get_rsp rsp h1) = status_srb (get_rsp rsp h)"
    by (simp_all add: h1_def set_rsp_def get_rsp_def)
  have data: "ring_bytes (rsp_ring (get_rsp rsp h1)) (64 * s + 4) (unat sz) =
      take k (cont_data (IS_FWI2_CAPABLE (device_type h)) (rsp_ring (get_rsp rsp h)) s)"
    unfolding cont_data_def ring1 sz by (rule ring_bytes_take) (simp add: k_def)
  have h': "h' = (if ?len - sz = 0
      then sp_done sp (cmd_result (cmd (srbs h2 sp))) (set_rsp rsp ((get_rsp rsp h2)\<lparr>status_srb := None\<rparr>) h2)
      else h2)"
    using a nz
    unfolding h'_def qla2x00_status_cont_entry_def Let_def h2_def h1_def sz_def by simp
  have two: "srbs h2 sp = (srbs h sp)\<lparr>cmd := (cmd (srbs h sp))\<lparr>sense_buffer := buf'\<rparr>,
      request_sense_ptr := p + k, request_sense_length := ?len - sz\<rparr>"
      "done_log h2 = done_log h" "device_type h2 = device_type h" "get_rsp rsp h2 = get_rsp rsp h1"
    using a data [unfolded sz] fix1 unfolding h2_def upd_cmd_def buf'_def
    by (simp_all add: sz)
  show "status_srb (get_rsp rsp h') = None \<and> sense_buffer (cmd (srbs h' sp)) = buf'
      \<and> done_log h' = (sp, cmd_result (cmd (srbs h sp))) # done_log h" if "n \<le> 60"
    using that sub0 two unfolding h' by (simp add: sp_done_def set_rsp_def get_rsp_def)
  show "awaiting rsp sp (p + 60) (n - 60) buf' h' \<and> done_log h' = done_log h
      \<and> cmd_result (cmd (srbs h' sp)) = cmd_result (cmd (srbs h sp))" if "60 < n"
    using that sub0 two a fix1 sub unfolding h' awaiting_def by (simp add: k_def)
  show "device_type h' = device_type h"
    using two unfolding h' by (simp add: sp_done_def set_rsp_def)
  show "rsp_ring (get_rsp rsp h') = (if IS_FWI2_CAPABLE (device_type h)
      then host_to_fcp_swap (16 * s + 1) 15 (rsp_ring (get_rsp rsp h)) else rsp_ring (get_rsp rsp h))"
    using two ring1 unfolding h' by (simp add: sp_done_def set_rsp_def get_rsp_def)
qed

lemma swap_other_slot:
  assumes "s' \<noteq> s" "16 * s + 16 \<le> length m" "16 * s' + 16 \<le> length m" "j < 16"
  shows "host_to_fcp_swap (16 * s + 1) 15 m ! (16 * s' + j) = m ! (16 * s' + j)"
proof -
  have "16 * s' + j < 16 * s + 1 \<or> 16 * s + 16 \<le> 16 * s' + j" using assms(1,4) by linarith
  then show ?thesis using assms by (subst host_to_fcp_swap_nth) auto
qed

text \<open>
  C12. Sense data is reassembled: when \<open>n\<close> bytes are missing and the continuation entries in the slots
  \<open>ss\<close> are just enough for them, handling these entries in order appends their first \<open>n\<close> bytes to
  the sense buffer, and the last of them completes the command, once, with the stored result.
\<close>

theorem sense_reassembled:
  assumes "awaiting rsp sp p n buf h" "distinct ss" "\<forall>s \<in> set ss. 16 * s + 16 \<le> length (rsp_ring (get_rsp rsp h))"
    and "0 < n" "n \<le> 60 * length ss" "60 * length ss < n + 60"
  shows "let h' = foldl (\<lambda>h s. qla2x00_status_cont_entry rsp s h) h ss;
             fwi2 = IS_FWI2_CAPABLE (device_type h); m = rsp_ring (get_rsp rsp h)
         in status_srb (get_rsp rsp h') = None
          \<and> sense_buffer (cmd (srbs h' sp)) = wr_bytes p (take n (concat (map (cont_data fwi2 m) ss))) buf
          \<and> done_log h' = (sp, cmd_result (cmd (srbs h sp))) # done_log h"
  using assms
proof (induction ss arbitrary: h p n buf)
  case (Cons s ss)
  let ?h1 = "qla2x00_status_cont_entry rsp s h"
  let ?fwi2 = "IS_FWI2_CAPABLE (device_type h)" let ?m = "rsp_ring (get_rsp rsp h)"
  note step = cont_step [OF Cons.prems(1,4), of s]
  show ?case
  proof (cases "n \<le> 60")
    case True
    then have "ss = []" using Cons.prems(6) by (cases ss) auto
    then show ?thesis using step(1) [OF True] True by (simp add: Let_def min_def)
  next
    case False
    then have more: "60 < n" by simp
    let ?m1 = "rsp_ring (get_rsp rsp ?h1)"
    have len1: "length ?m1 = length ?m" using step(4) by simp
    have same: "cont_data ?fwi2 ?m1 s' = cont_data ?fwi2 ?m s'" if "s' \<in> set ss" for s'
    proof (rule cont_data_cong [OF len1])
      show r: "16 * s' + 16 \<le> length ?m" using Cons.prems(3) that by simp
      show "?m1 ! (16 * s' + j) = ?m ! (16 * s' + j)" if j: "j < 16" for j
        using swap_other_slot [of s' s ?m j] \<open>s' \<in> set ss\<close> Cons.prems(2,3) r j step(4) by auto
    qed
    have "let h' = foldl (\<lambda>h s. qla2x00_status_cont_entry rsp s h) ?h1 ss;
             fwi2 = IS_FWI2_CAPABLE (device_type ?h1); m = ?m1
         in status_srb (get_rsp rsp h') = None
          \<and> sense_buffer (cmd (srbs h' sp)) = wr_bytes (p + 60)
               (take (n - 60) (concat (map (cont_data fwi2 m) ss)))
               (wr_bytes p (take (min n 60) (cont_data ?fwi2 ?m s)) buf)
          \<and> done_log h' = (sp, cmd_result (cmd (srbs ?h1 sp))) # done_log ?h1"
      by (rule Cons.IH [OF conjunct1 [OF step(2) [OF more]]])
        (use Cons.prems more len1 in auto)
    moreover have "map (cont_data ?fwi2 ?m1) ss = map (cont_data ?fwi2 ?m) ss"
      using same by simp
    ultimately show ?thesis
      using step(2) [OF more] step(3) more
      by (simp add: Let_def wr_bytes_append min_def)
  qed
qed simp

text \<open>Seventy bytes are missing; they come from the continuation entries in slots 1 and 2.\<close>

definition sense_host :: host where
  "sense_host = (isr_host good_entry)
     \<lparr>rsp_q_map := [0 \<mapsto> sample_rsp\<lparr>status_srb := Some 7\<rparr>],
      srbs := (\<lambda>i. sample_srb\<lparr>request_sense_length := 70, request_sense_ptr := 20\<rparr>)\<rparr>"

lemma sense_reassembled_witness:
  "let h' = foldl (\<lambda>h s. qla2x00_status_cont_entry 0 s h) sense_host [1, 2]
   in status_srb (get_rsp 0 h') = None
    \<and> sense_buffer (cmd (srbs h' 7)) = wr_bytes 20 (take 70 (concat (map (cont_data
         (IS_FWI2_CAPABLE (device_type sense_host)) (rsp_ring (get_rsp 0 sense_host))) [1, 2])))
         (replicate 96 0)
    \<and> done_log h' = [(7, 0)]"
proof -
  have "awaiting 0 7 20 70 (replicate 96 0) sense_host"
    by (simp add: awaiting_def sense_host_def isr_host_def sample_srb_def sample_sc_def get_rsp_def)
  moreover have "\<forall>s \<in> set [1, 2]. 16 * s + 16 \<le> length (rsp_ring (get_rsp 0 sense_host))"
    by (simp add: sense_host_def get_rsp_def sample_rsp_def)
  moreover have "done_log sense_host = []" "cmd_result (cmd (srbs sense_host 7)) = 0"
    by (simp_all add: sense_host_def isr_host_def sample_host_def sample_srb_def sample_sc_def)
  ultimately show ?thesis
    using sense_reassembled [of 0 7 20 70 "replicate 96 0" sense_host "[1, 2]"]
    by (simp add: Let_def del: foldl_Cons)
qed

section \<open>Where the handlers go wrong\<close>

text \<open>
  A failed pass-through: for the same failing completion status the handler of the ISP2x00
  completes the job with DID_ERROR, the handler of the ISP24xx with 0: it computes the result and
  does not use it.
\<close>

theorem els_ct_failure_reported_ok:
  assumes "qla2x00_get_sp_from_handle ri (get32 s 4 m) h = (Some sp, h1)"
    and "sp_type (srbs h1 sp) \<in> {SRB_ELS_CMD_RPT, SRB_ELS_CMD_HST, SRB_CT_CMD}"
    and "get16 s 8 m \<notin> {CS_COMPLETE, CS_DATA_UNDERRUN}" "get16 s 10 m \<notin> {CS_COMPLETE, CS_DATA_UNDERRUN}"
  shows "done_log (qla24xx_els_ct_entry ie ri m s h) = (sp, 0) # done_log h1
    \<and> done_log (qla2x00_ct_entry ie ri m s h) = (sp, host_result DID_ERROR) # done_log h1"
  using assms
  by (auto simp: qla24xx_els_ct_entry_def qla2x00_ct_entry_def Let_def sp_done_def upd_bsg_def upd_sp_def)

lemma els_ct_failure_reported_ok_witness:
  "done_log (qla24xx_els_ct_entry isr_env 0 [0x29, 2, 0x50005, 0, 0, 0, 0, 0, 0, 0, 0] 0
     ((isr_host good_entry)\<lparr>srbs := (\<lambda>i. sample_srb\<lparr>sp_handle := 2, sp_type := SRB_CT_CMD\<rparr>)\<rparr>)) = [(7, 0)]"
proof -
  let ?h = "(isr_host good_entry)\<lparr>srbs := (\<lambda>i. sample_srb\<lparr>sp_handle := 2, sp_type := SRB_CT_CMD\<rparr>)\<rparr>"
  let ?m = "[0x29, 2, 0x50005, 0, 0, 0, 0, 0, 0, 0, 0] :: u32 list"
  have w: "get32 0 4 ?m = 2" by (simp add: get32_def)
  have "qla2x00_get_sp_from_handle 0 (get32 0 4 ?m) ?h = (Some 7, free_slot 0 2 ?h)"
    unfolding w by (simp add: qla2x00_get_sp_from_handle_def cmd_at_def get_req_def isr_host_def
        isr_req_def sample_ring_def LSW_def)
  moreover have "sp_type (srbs (free_slot 0 2 ?h) 7) = SRB_CT_CMD" "done_log (free_slot 0 2 ?h) = []"
    by (simp_all add: free_slot_def set_req_def isr_host_def sample_host_def)
  moreover have "get16 0 8 ?m = 5" "get16 0 10 ?m = 5" by (simp_all add: get16_def get_half_def)
  ultimately show ?thesis
    using els_ct_failure_reported_ok [of 0 0 ?m ?h 7 "free_slot 0 2 ?h" isr_env]
    by (simp add: CS_COMPLETE_def CS_DATA_UNDERRUN_def)
qed

text \<open>
  A protection error: for a command without an earlier result, any mismatch of guard, reference
  or application tag that is not dismissed ends with the status byte 4, condition met, and not
  with 2, check condition: the already shifted status is shifted once more.
\<close>

theorem dif_error_status_byte:
  assumes "\<not> (get16 s 48 m = 0xFFFF \<and> (prot_type c \<noteq> SCSI_PROT_DIF_TYPE3 \<or> get32 s 52 m = 0xFFFFFFFF))"
    and "get16 s 58 m \<noteq> get16 s 50 m \<or> get32 s 60 m \<noteq> get32 s 52 m \<or> get16 s 56 m \<noteq> get16 s 48 m"
    and "cmd_result c = 0"
  shows "fst (qla2x00_handle_dif_error ie m s c) = 1
    \<and> cmd_result (snd (qla2x00_handle_dif_error ie m s c)) = 0x08050004
    \<and> cmd_result (snd (qla2x00_handle_dif_error ie m s c)) AND 0xFF \<noteq> SAM_STAT_CHECK_CONDITION"
proof -
  have r: "cmd_result (dif_sense ie a c) = 0x08050004" for a
    using assms(3) by (simp add: dif_sense_def set_host_byte_def set_driver_byte_def DID_ABORT_def
        DRIVER_SENSE_def SAM_STAT_CHECK_CONDITION_def)
  have "\<exists>a. qla2x00_handle_dif_error ie m s c = (1, dif_sense ie a c)"
    using assms(1,2) by (auto simp: qla2x00_handle_dif_error_def Let_def)
  then show ?thesis using r by (auto simp: SAM_STAT_CHECK_CONDITION_def)
qed

lemma dif_error_status_byte_witness:
  "cmd_result (snd (qla2x00_handle_dif_error isr_env
     (replicate 12 0 @ [0x00010000, 5, 0x00020000, 5]) 0 sample_sc)) = 0x08050004"
proof -
  let ?m = "replicate 12 0 @ [0x00010000, 5, 0x00020000, 5] :: u32 list"
  have "get16 0 48 ?m = 0" "get16 0 50 ?m = 1" "get16 0 58 ?m = 2"
    by (simp_all add: get16_def get_half_def nth_append)
  then show ?thesis
    using dif_error_status_byte [of 0 ?m sample_sc isr_env] by (simp add: sample_sc_def)
qed

section \<open>Reading behind the entry\<close>

text \<open>
  With more than 28 bytes of response data announced, the space left for sense data in the entry
  of an ISP24xx wraps around: the bytes copied to the sense buffer, up to 96, are then read from
  behind the entry.
\<close>

theorem sense_read_behind_entry:
  assumes "f = sts_read True m s" "f_scsi_status f AND SS_RESPONSE_INFO_LEN_VALID \<noteq> 0"
    and "28 < f_rsp_info_len f" "f_rsp_info_len f < 0x80000000"
  shows "64 * (s + 1) < f_sense_off f
    \<and> sense_buffer (cmd (srbs (qla2x00_handle_sense sp m (f_sense_off f) (f_par_sense_len f)
          (f_sense_len f) rsp res h) sp))
      = wr_bytes 0 (ring_bytes m (f_sense_off f) (min 96 (unat (f_sense_len f))))
          (sense_buffer (cmd (srbs h sp)))"
proof -
  let ?r = "f_rsp_info_len f"
  have f: "f_sense_off f = 64 * s + 36 + unat ?r" "f_par_sense_len f = 28 - ?r"
    using assms(1,2) by (simp_all add: sts_read_def Let_def when_flag_def)
  have r: "28 < unat ?r" "unat ?r < 0x80000000" using assms(3,4) by (simp_all add: word_less_nat_alt)
  define track where "track = (if SCSI_SENSE_BUFFERSIZE \<le> f_sense_len f then SCSI_SENSE_BUFFERSIZE
    else f_sense_len f)"
  have t: "unat track = min 96 (unat (f_sense_len f))"
    by (simp add: track_def SCSI_SENSE_BUFFERSIZE_def word_le_nat_alt)
  have "96 < unat (28 - ?r)"
    using r by (simp add: unat_sub_if' word_le_nat_alt)
  then have now: "(if f_par_sense_len f < track then f_par_sense_len f else track) = track"
    using t by (simp add: f word_less_nat_alt)
  show ?thesis
    using r unfolding qla2x00_handle_sense_def Let_def track_def [symmetric] now
    by (simp add: f(1) t upd_cmd_def)
qed

text \<open>An entry of 40 bytes of response data and 20 bytes of sense data.\<close>

definition long_rsp_ring :: "u32 list" where
  "long_rsp_ring = [3, 2, 0, 0, 0, 0x03020000, 0, 20, 40, 0, 0, 0, 0, 0, 0, 0] @ replicate 16 0x41414141"

lemma sense_read_behind_entry_witness:
  "64 < f_sense_off (sts_read True long_rsp_ring 0)
   \<and> take 4 (sense_buffer (cmd (srbs (qla2x00_handle_sense 7 long_rsp_ring (f_sense_off (sts_read True long_rsp_ring 0))
        (f_par_sense_len (sts_read True long_rsp_ring 0)) (f_sense_len (sts_read True long_rsp_ring 0)) 0 0
        (isr_host good_entry)) 7))) = [0x41, 0x41, 0x41, 0x41]"
proof -
  let ?f = "sts_read True long_rsp_ring 0"
  have f: "f_scsi_status ?f = 0x302" "f_rsp_info_len ?f = 40" "f_sense_len ?f = 20" "f_sense_off ?f = 76"
    by (simp_all add: sts_read_def Let_def long_rsp_ring_def get16_def get32_def get_half_def when_flag_def
        SS_MASK_def SS_RESPONSE_INFO_LEN_VALID_def SS_SENSE_LEN_VALID_def BIT_def)
  have b: "ring_bytes long_rsp_ring 76 20 = replicate 20 0x41" by code_simp
  have w: "take 4 (wr_bytes 0 (replicate 20 0x41) (replicate 96 (0 :: u8))) = [0x41, 0x41, 0x41, 0x41]"
    by code_simp
  have "sense_buffer (cmd (srbs (isr_host good_entry) 7)) = replicate 96 0"
    by (simp add: isr_host_def sample_srb_def sample_sc_def)
  moreover have "f_scsi_status ?f AND SS_RESPONSE_INFO_LEN_VALID \<noteq> 0" "28 < f_rsp_info_len ?f"
      "f_rsp_info_len ?f < 0x80000000" "min 96 (unat (f_sense_len ?f)) = 20"
    by (simp_all add: f SS_RESPONSE_INFO_LEN_VALID_def BIT_def)
  ultimately show ?thesis
    using sense_read_behind_entry [OF refl, of long_rsp_ring 0 7 0 0 "isr_host good_entry"] b w
    by (simp only: f(4)) simp
qed

section \<open>The command behind one that waits for sense data\<close>

definition raw_status :: "bool \<Rightarrow> u32 list \<Rightarrow> nat \<Rightarrow> u16" where
  "raw_status fwi2 m s = (if fwi2 then get16 s 22 m else get16 s 8 m) AND SS_MASK"

lemma complete_switch_quiet:
  assumes "lscsi_status f \<noteq> SS_CHECK_CONDITION"
  shows "track (snd (complete_switch ie fwi2 sp m s f cs rsp h)) = track h
    \<and> rsp_q_map (snd (complete_switch ie fwi2 sp m s f cs rsp h)) = rsp_q_map h"
  using assms
  by (simp add: complete_switch_def complete_normal_def complete_underrun_def complete_port_event_def
      Let_def report_sense_def track_simps mark_lost_once)

text \<open>
  When another command of the same response queue still waits for sense data, a command that fails
  without sense data is lost: its slot has been freed, and it is neither completed nor kept.
\<close>

theorem lost_behind_sense:
  assumes "in_hand sp (track h)" "rsp_q_map h rsp = Some q" "status_srb q = Some other"
    and "16 * s + 16 \<le> length (rsp_ring q)"
    and "ucast (raw_status (IS_FWI2_CAPABLE (device_type h)) (rsp_ring q) s AND STATUS_MASK) \<noteq> SS_CHECK_CONDITION"
  shows "in_hand sp (track (status_slow ie rsp s sp h))
    \<and> map fst (done_log (status_slow ie rsp s sp h)) = map fst (done_log h)"
proof -
  let ?fwi2 = "IS_FWI2_CAPABLE (device_type h)"
  have g: "get_rsp rsp h = q" using assms(2) by (simp add: get_rsp_def)
  define h1 where "h1 = (if ?fwi2 then set_rsp rsp ((get_rsp rsp h)
      \<lparr>rsp_ring := host_to_fcp_swap (16 * s + 9) 7 (rsp_ring (get_rsp rsp h))\<rparr>) h else h)"
  define f where "f = sts_read ?fwi2 (rsp_ring (get_rsp rsp h1)) s"
  have t1: "track h1 = track h"
    unfolding h1_def using track_ring [OF assms(2), of "(get_rsp rsp h)\<lparr>rsp_ring := host_to_fcp_swap (16 * s + 9) 7 (rsp_ring (get_rsp rsp h))\<rparr>"]
    by (simp add: g)
  have st1: "status_srb (get_rsp rsp h1) = Some other" using assms(3) by (simp add: h1_def g)
  have "get16 s 22 (rsp_ring (get_rsp rsp h1)) = get16 s 22 (rsp_ring q)" if ?fwi2
    using that assms(4) by (simp add: h1_def g get16_def host_to_fcp_swap_nth)
  moreover have "\<not> ?fwi2 \<Longrightarrow> h1 = h" by (simp add: h1_def)
  ultimately have "f_scsi_status f = raw_status ?fwi2 (rsp_ring q) s"
    by (auto simp: f_def sts_read_def Let_def raw_status_def g)
  then have l: "lscsi_status f \<noteq> SS_CHECK_CONDITION" using assms(5) by (simp add: lscsi_status_def)
  define h2 where "h2 = (if lscsi_status f = SAM_STAT_TASK_SET_FULL \<or> lscsi_status f = SAM_STAT_BUSY
      then qla2x00_set_retry_delay_timestamp ie (fc_id (fcport (srbs h1 sp))) (f_retry_delay f) h1 else h1)"
  have h2: "track h2 = track h" "rsp_q_map h2 = rsp_q_map h1"
    using t1 by (simp_all add: h2_def mark_lost_once)
  have "\<exists>h3. status_slow ie rsp s sp h = h3 \<and> track h3 = track h \<and> rsp_q_map h3 = rsp_q_map h1"
  proof -
    have keep: "(if status_srb (get_rsp rsp h3) = None then sp_done sp res h3 else h3) = h3"
      if "rsp_q_map h3 = rsp_q_map h1" for res h3
      using that st1 by (simp add: get_rsp_def)
    note sw = complete_switch_quiet [OF l, of ie ?fwi2 sp "rsp_ring (get_rsp rsp h1)" s _ rsp h2]
    show ?thesis
      unfolding status_slow_def Let_def h1_def [symmetric] f_def [symmetric] h2_def [symmetric] case_prod_unfold
      using sw h2 t1 by (simp add: keep)
  qed
  then show ?thesis using assms(1) by (auto simp: track_def)
qed

text \<open>Command 9 fails without sense data while command 7 waits.\<close>

lemma lost_behind_sense_witness:
  "in_hand 9 (track (status_slow isr_env 0 1 9 sense_host))"
proof -
  have q: "rsp_q_map sense_host 0 = Some (sample_rsp\<lparr>status_srb := Some 7\<rparr>)" by (simp add: sense_host_def)
  have "slots_of [0 \<mapsto> isr_req] 9 = {}" using isr_req_slots [of 9] by simp
  then have "in_hand 9 (track sense_host)"
    by (simp add: in_hand_def track_def sense_host_def isr_host_def sample_host_def waiting_def)
  moreover have "device_type sense_host = DT_FWI2"
    by (simp add: sense_host_def isr_host_def sample_host_def)
  then have "ucast (raw_status (IS_FWI2_CAPABLE (device_type sense_host)) (rsp_ring (sample_rsp\<lparr>status_srb := Some 7\<rparr>)) 1
      AND STATUS_MASK) \<noteq> SS_CHECK_CONDITION"
    by (simp add: raw_status_def sample_rsp_def get16_def get_half_def SS_MASK_def
        STATUS_MASK_def SS_CHECK_CONDITION_def BIT_def dt_defs)
  moreover have "16 * 1 + 16 \<le> length (rsp_ring (sample_rsp\<lparr>status_srb := Some 7\<rparr>))"
    by (simp add: sample_rsp_def)
  ultimately show ?thesis
    using lost_behind_sense [OF _ q, of 9 7 1 isr_env] by simp
qed

end
