(* ===== verification/Idc_83xx.thy ===== *)
theory Idc_83xx
  imports Qla_Types "HOL-Library.Monad_Syntax"
begin

text \<open>
  Inter-driver communication of the ISP83xx (qla_os.c 4124-4766, qla_init.c 525-596 and 4130-4389,
  qla_mbx.c 5168-5323): the functions of the adapter coordinate resets through remote registers
  that are guarded by a lock register. What the firmware and the other functions do is behind the
  record \<open>idc_io\<close>: its world \<open>'w\<close> changes at every mailbox command and at every wait. \<open>jiffies\<close> is a
  number, since a 64-bit counter does not wrap in practice and \<open>time_after\<close> is made for it.
  The code's endless loops take fuel \<open>N\<close>: None means that a loop did not end within \<open>N\<close> turns.
\<close>

section \<open>The adapter and one driver instance\<close>

text \<open>
  \<open>io_mbx\<close> is \<open>qla2x00_mailbox_command\<close>: the outgoing registers, its return code, the incoming
  registers. \<open>io_junk\<close> is what an uninitialised \<open>uint32_t\<close> holds, \<open>io_mctp\<close> is \<open>qla2xxx_mctp_dump\<close>,
  which only saves a dump.
\<close>

record 'w idc_io =
  io_mbx :: "u16 list \<Rightarrow> 'w \<Rightarrow> int \<times> (nat \<Rightarrow> u16) \<times> 'w"
  io_msleep :: "nat \<Rightarrow> 'w \<Rightarrow> 'w"
  io_relax :: "'w \<Rightarrow> 'w"
  io_in_interrupt :: "'w \<Rightarrow> bool"
  io_jiffies :: "'w \<Rightarrow> nat"
  io_HZ :: u32
  io_msecs :: "nat \<Rightarrow> u32"
  io_junk :: u32
  io_dontresethba :: bool
  io_mctp :: "'w \<Rightarrow> int \<times> 'w"

datatype idc_work = Work_idc_aen | Work_nic_core_reset | Work_idc_state_handler
  | Work_nic_core_unrecoverable

text \<open>
  What the driver did, in order: the lock call returned (having found the lock granted or not),
  the unlock call returned, a remote register was written, the handler for a failed device ran
  (it aborts all commands and marks all ports lost), a firmware dump was taken.
\<close>

datatype idc_ev = Idc_locked bool | Idc_unlocked | Idc_write u32 u32 | Idc_dev_failed | Idc_fw_dump

record 'w idc =
  world :: 'w
  idc_dt :: u32
  portnum :: u16
  fcoe_dev_init_timeout :: u32
  fcoe_reset_timeout :: u32
  idc_audit_ts :: u32
  nic_core_reset_owner :: bool
  nic_core_hung :: bool
  nic_core_reset_hdlr_active :: bool
  quiesce_owner :: bool
  dflg_dev_failed :: bool
  idc_online :: bool
  idc_init_done :: bool
  dpc_lp_wq :: bool
  dpc_hp_wq :: bool
  queued_work :: "idc_work list"
  idc_trace :: "idc_ev list"

definition log_ev :: "idc_ev \<Rightarrow> 'w idc \<Rightarrow> 'w idc" where
  "log_ev e s = s\<lparr>idc_trace := idc_trace s @ [e]\<rparr>"

definition now :: "'w idc_io \<Rightarrow> 'w idc \<Rightarrow> nat" where
  "now io s = io_jiffies io (world s)"

definition msleep :: "'w idc_io \<Rightarrow> nat \<Rightarrow> 'w idc \<Rightarrow> 'w idc" where
  "msleep io ms s = s\<lparr>world := io_msleep io ms (world s)\<rparr>"

definition secs :: "'w idc_io \<Rightarrow> u32 \<Rightarrow> nat" where
  "secs io t = unat (t * io_HZ io)"

section \<open>Registers\<close>

definition QLA83XX_IDC_DEV_STATE :: u32 where "QLA83XX_IDC_DEV_STATE = 0x22102384"
definition QLA83XX_IDC_MAJOR_VERSION :: u32 where "QLA83XX_IDC_MAJOR_VERSION = 0x22102380"
definition QLA83XX_IDC_MINOR_VERSION :: u32 where "QLA83XX_IDC_MINOR_VERSION = 0x22102398"
definition QLA83XX_IDC_DRV_PRESENCE :: u32 where "QLA83XX_IDC_DRV_PRESENCE = 0x22102388"
definition QLA83XX_IDC_DRIVER_ACK :: u32 where "QLA83XX_IDC_DRIVER_ACK = 0x2210238c"
definition QLA83XX_IDC_CONTROL :: u32 where "QLA83XX_IDC_CONTROL = 0x22102390"
definition QLA83XX_IDC_AUDIT :: u32 where "QLA83XX_IDC_AUDIT = 0x22102394"
definition QLA83XX_IDC_LOCK_RECOVERY :: u32 where "QLA83XX_IDC_LOCK_RECOVERY = 0x2210239c"
definition QLA83XX_DRIVER_LOCKID :: u32 where "QLA83XX_DRIVER_LOCKID = 0x22102104"
definition QLA83XX_DRIVER_LOCK :: u32 where "QLA83XX_DRIVER_LOCK = 0x8111c028"
definition QLA83XX_DRIVER_UNLOCK :: u32 where "QLA83XX_DRIVER_UNLOCK = 0x8111c02c"
definition QLA83XX_DEV_PARTINFO1 :: u32 where "QLA83XX_DEV_PARTINFO1 = 0x221023e0"
definition QLA83XX_DEV_PARTINFO2 :: u32 where "QLA83XX_DEV_PARTINFO2 = 0x221023e4"
definition QLA83XX_FW_HEARTBEAT :: u32 where "QLA83XX_FW_HEARTBEAT = 0x221020b0"
definition QLA83XX_SUPP_IDC_MAJOR_VERSION :: u32 where "QLA83XX_SUPP_IDC_MAJOR_VERSION = 1"
definition QLA83XX_SUPP_IDC_MINOR_VERSION :: u32 where "QLA83XX_SUPP_IDC_MINOR_VERSION = 0"
definition QLA83XX_IDC_RESET_DISABLED :: u32 where "QLA83XX_IDC_RESET_DISABLED = BIT 0"
definition QLA83XX_IDC_GRACEFUL_RESET :: u32 where "QLA83XX_IDC_GRACEFUL_RESET = BIT 1"
definition QLA83XX_IDC_INITIALIZATION_TIMEOUT :: u32 where "QLA83XX_IDC_INITIALIZATION_TIMEOUT = 30"
definition QLA83XX_IDC_RESET_ACK_TIMEOUT :: u32 where "QLA83XX_IDC_RESET_ACK_TIMEOUT = 10"
definition QLA83XX_CLASS_TYPE_FCOE :: u32 where "QLA83XX_CLASS_TYPE_FCOE = 2"
definition IDC_LOCK_RECOVERY_STAGE1 :: u32 where "IDC_LOCK_RECOVERY_STAGE1 = 1"
definition IDC_LOCK_RECOVERY_STAGE2 :: u32 where "IDC_LOCK_RECOVERY_STAGE2 = 2"
definition IDC_AUDIT_TIMESTAMP :: u32 where "IDC_AUDIT_TIMESTAMP = 0"
definition IDC_AUDIT_COMPLETION :: u32 where "IDC_AUDIT_COMPLETION = 1"
definition QLA8XXX_DEV_COLD :: u32 where "QLA8XXX_DEV_COLD = 1"
definition QLA8XXX_DEV_INITIALIZING :: u32 where "QLA8XXX_DEV_INITIALIZING = 2"
definition QLA8XXX_DEV_READY :: u32 where "QLA8XXX_DEV_READY = 3"
definition QLA8XXX_DEV_NEED_RESET :: u32 where "QLA8XXX_DEV_NEED_RESET = 4"
definition QLA8XXX_DEV_NEED_QUIESCENT :: u32 where "QLA8XXX_DEV_NEED_QUIESCENT = 5"
definition QLA8XXX_DEV_FAILED :: u32 where "QLA8XXX_DEV_FAILED = 6"
definition QLA8XXX_DEV_QUIESCENT :: u32 where "QLA8XXX_DEV_QUIESCENT = 7"
definition QLA8XXX_BAD_VALUE :: u32 where "QLA8XXX_BAD_VALUE = 0xbad0bad0"
definition QLA_TEST_FAILED :: int where "QLA_TEST_FAILED = 3"
definition MBC_WRITE_REMOTE_REG :: u16 where "MBC_WRITE_REMOTE_REG = 1"
definition MBC_READ_REMOTE_REG :: u16 where "MBC_READ_REMOTE_REG = 9"
definition MBC_RESTART_NIC_FIRMWARE :: u16 where "MBC_RESTART_NIC_FIRMWARE = 0x3d"
definition MBC_GET_PORT_CONFIG :: u16 where "MBC_GET_PORT_CONFIG = 0x123"

definition mailbox :: "'w idc_io \<Rightarrow> u16 list \<Rightarrow> 'w idc \<Rightarrow> int \<times> (nat \<Rightarrow> u16) \<times> 'w idc" where
  "mailbox io mb s = (case io_mbx io mb (world s) of (rv, mb', w) \<Rightarrow> (rv, mb', s\<lparr>world := w\<rparr>))"

definition qla83xx_wr_reg :: "'w idc_io \<Rightarrow> u32 \<Rightarrow> u32 \<Rightarrow> 'w idc \<Rightarrow> int \<times> 'w idc" where
  "qla83xx_wr_reg io reg data s =
     (if \<not> IS_QLA83XX (idc_dt s) \<and> \<not> IS_QLA27XX (idc_dt s) then (QLA_FUNCTION_FAILED, s)
      else case mailbox io [MBC_WRITE_REMOTE_REG, LSW reg, MSW reg, LSW data, MSW data]
                  (log_ev (Idc_write reg data) s) of
             (rv, mb, s) \<Rightarrow> (rv, s))"

text \<open>
  A read stores through \<open>*data\<close> only when the command succeeds; \<open>d\<close> is the variable's old value.
\<close>

fun rd_loop :: "'w idc_io \<Rightarrow> nat \<Rightarrow> nat \<Rightarrow> u32 \<Rightarrow> u32 \<Rightarrow> 'w idc \<Rightarrow> (int \<times> u32 \<times> 'w idc) option" where
  "rd_loop io 0 lim reg d s = None"
| "rd_loop io (Suc n) lim reg d s =
     (case mailbox io [MBC_READ_REMOTE_REG, LSW reg, MSW reg] s of
        (rv, mb, s) \<Rightarrow>
          if rv \<noteq> QLA_SUCCESS then Some (rv, d, s)
          else let v = ucast (mb 3) OR push_bit 16 (ucast (mb 4))
               in if v = QLA8XXX_BAD_VALUE
                  then if lim < now io s then Some (QLA_FUNCTION_FAILED, v, s)
                       else rd_loop io n lim reg v (msleep io 100 s)
                  else Some (rv, v, s))"

definition qla83xx_rd_reg :: "'w idc_io \<Rightarrow> nat \<Rightarrow> u32 \<Rightarrow> u32 \<Rightarrow> 'w idc \<Rightarrow> (int \<times> u32 \<times> 'w idc) option" where
  "qla83xx_rd_reg io N reg d s =
     (if \<not> IS_QLA83XX (idc_dt s) \<and> \<not> IS_QLA27XX (idc_dt s) then Some (QLA_FUNCTION_FAILED, d, s)
      else rd_loop io N (now io s + secs io 2) reg d s)"

definition qla83xx_restart_nic_firmware :: "'w idc_io \<Rightarrow> 'w idc \<Rightarrow> int \<times> 'w idc" where
  "qla83xx_restart_nic_firmware io s =
     (if \<not> IS_QLA83XX (idc_dt s) then (QLA_FUNCTION_FAILED, s)
      else case mailbox io [MBC_RESTART_NIC_FIRMWARE] s of
             (rv, mb, s) \<Rightarrow> (rv, if rv \<noteq> QLA_SUCCESS then log_ev Idc_fw_dump s else s))"

text \<open>Only the return code is used by the callers here.\<close>

definition qla81xx_get_port_config :: "'w idc_io \<Rightarrow> 'w idc \<Rightarrow> int \<times> 'w idc" where
  "qla81xx_get_port_config io s =
     (if \<not> IS_QLA81XX (idc_dt s) \<and> \<not> IS_QLA83XX (idc_dt s) \<and> \<not> IS_QLA8044 (idc_dt s)
        \<and> \<not> IS_QLA27XX (idc_dt s) then (QLA_FUNCTION_FAILED, s)
      else case mailbox io [MBC_GET_PORT_CONFIG] s of (rv, mb, s) \<Rightarrow> (rv, s))"

section \<open>The lock\<close>

definition qla83xx_wait_logic :: "'w idc_io \<Rightarrow> 'w idc \<Rightarrow> 'w idc" where
  "qla83xx_wait_logic io s =
     (if \<not> io_in_interrupt io (world s) then msleep io 100 s
      else s\<lparr>world := io_relax io (world s)\<rparr>)"

definition recovery_stage_mask :: u32 where "recovery_stage_mask = 0x3"
definition recovery_owner_mask :: u32 where "recovery_owner_mask = 0x3c"

definition stage2_value :: "u32 \<Rightarrow> u32" where
  "stage2_value data = data AND (IDC_LOCK_RECOVERY_STAGE2 OR NOT recovery_stage_mask)"

text \<open>The forced unlock of the owner of the recovery, once its claim has been read back.\<close>

definition force_unlock :: "'w idc_io \<Rightarrow> nat \<Rightarrow> u32 \<Rightarrow> 'w idc \<Rightarrow> (int \<times> 'w idc) option" where
  "force_unlock io N data s =
     (case qla83xx_wr_reg io QLA83XX_IDC_LOCK_RECOVERY (stage2_value data) s of
        (rv, s) \<Rightarrow>
        if rv \<noteq> QLA_SUCCESS then Some (rv, s)
        else do {
          (rv, data, s) \<leftarrow> qla83xx_rd_reg io N QLA83XX_DRIVER_UNLOCK (stage2_value data) s;
          if rv \<noteq> QLA_SUCCESS then Some (rv, s)
          else case qla83xx_wr_reg io QLA83XX_DRIVER_LOCKID 0xff s of
            (rv, s) \<Rightarrow> if rv \<noteq> QLA_SUCCESS then Some (rv, s)
              else Some (qla83xx_wr_reg io QLA83XX_IDC_LOCK_RECOVERY 0 s)
        })"

definition qla83xx_force_lock_recovery :: "'w idc_io \<Rightarrow> nat \<Rightarrow> 'w idc \<Rightarrow> (int \<times> 'w idc) option" where
  "qla83xx_force_lock_recovery io N s = do {
     (rv, data, s) \<leftarrow> qla83xx_rd_reg io N QLA83XX_IDC_LOCK_RECOVERY (io_junk io) s;
     if rv \<noteq> QLA_SUCCESS then Some (rv, s)
     else if data AND recovery_stage_mask > 0 then Some (QLA_SUCCESS, s)
     else let data = IDC_LOCK_RECOVERY_STAGE1 OR push_bit 2 (ucast (portnum s))
       in case qla83xx_wr_reg io QLA83XX_IDC_LOCK_RECOVERY data s of
         (rv, s) \<Rightarrow>
         if rv \<noteq> QLA_SUCCESS then Some (rv, s)
         else do {
           (rv, data, s) \<leftarrow> qla83xx_rd_reg io N QLA83XX_IDC_LOCK_RECOVERY data (msleep io 200 s);
           if rv \<noteq> QLA_SUCCESS then Some (rv, s)
           else if drop_bit 2 (data AND recovery_owner_mask) = ucast (portnum s)
           then force_unlock io N data s
           else Some (QLA_SUCCESS, s)
         }
   }"

fun recovery_loop :: "'w idc_io \<Rightarrow> nat \<Rightarrow> nat \<Rightarrow> nat \<Rightarrow> 'w idc \<Rightarrow> (int \<times> 'w idc) option" where
  "recovery_loop io N 0 lim s = None"
| "recovery_loop io N (Suc n) lim s = do {
     (rv, o_id, s) \<leftarrow> qla83xx_rd_reg io N QLA83XX_DRIVER_LOCKID (io_junk io) s;
     if rv \<noteq> QLA_SUCCESS then Some (rv, s)
     else if lim \<le> now io s
     then do {
       (rv, s) \<leftarrow> qla83xx_force_lock_recovery io N s;
       Some (if rv = QLA_SUCCESS then QLA_SUCCESS else QLA_FUNCTION_FAILED, s)
     }
     else do {
       (rv, n_id, s) \<leftarrow> qla83xx_rd_reg io N QLA83XX_DRIVER_LOCKID (io_junk io) s;
       if rv \<noteq> QLA_SUCCESS then Some (rv, s)
       else if o_id = n_id then recovery_loop io N n lim (qla83xx_wait_logic io s)
       else Some (QLA_SUCCESS, s)
     }
   }"

definition qla83xx_idc_lock_recovery :: "'w idc_io \<Rightarrow> nat \<Rightarrow> 'w idc \<Rightarrow> (int \<times> 'w idc) option" where
  "qla83xx_idc_lock_recovery io N s = recovery_loop io N N (now io s + secs io 2) s"

text \<open>
  The lock call returns nothing: it ends when the lock was granted, but also when a register
  could not be read or the recovery failed.
\<close>

fun lock_loop :: "'w idc_io \<Rightarrow> nat \<Rightarrow> nat \<Rightarrow> 'w idc \<Rightarrow> 'w idc option" where
  "lock_loop io N 0 s = None"
| "lock_loop io N (Suc n) s = do {
     (rv, data, s) \<leftarrow> qla83xx_rd_reg io N QLA83XX_DRIVER_LOCK (io_junk io) s;
     if rv \<noteq> QLA_SUCCESS then Some (log_ev (Idc_locked False) s)
     else if data \<noteq> 0
     then Some (log_ev (Idc_locked True)
            (snd (qla83xx_wr_reg io QLA83XX_DRIVER_LOCKID (ucast (portnum s)) s)))
     else do {
       (_, _, s) \<leftarrow> qla83xx_rd_reg io N QLA83XX_DRIVER_LOCKID (io_junk io) s;
       (rv, s) \<leftarrow> qla83xx_idc_lock_recovery io N s;
       if rv = QLA_SUCCESS then lock_loop io N n (qla83xx_wait_logic io s)
       else Some (log_ev (Idc_locked False) s)
     }
   }"

definition qla83xx_idc_lock :: "'w idc_io \<Rightarrow> nat \<Rightarrow> 'w idc \<Rightarrow> 'w idc option" where
  "qla83xx_idc_lock io N s = lock_loop io N N s"

text \<open>Eleven attempts, with a wait between them.\<close>

fun unlock_loop :: "'w idc_io \<Rightarrow> nat \<Rightarrow> nat \<Rightarrow> u32 \<Rightarrow> 'w idc \<Rightarrow> 'w idc option" where
  "unlock_loop io N retries data s = do {
     (rv, data, s) \<leftarrow> qla83xx_rd_reg io N QLA83XX_DRIVER_LOCKID data s;
     if rv = QLA_SUCCESS \<and> data = ucast (portnum s)
     then do {
       (_, _, s) \<leftarrow> qla83xx_rd_reg io N QLA83XX_DRIVER_UNLOCK data s;
       Some (snd (qla83xx_wr_reg io QLA83XX_DRIVER_LOCKID 0xff s))
     }
     else (case retries of
             0 \<Rightarrow> Some s
           | Suc r \<Rightarrow> unlock_loop io N r data (qla83xx_wait_logic io s))
   }"

declare unlock_loop.simps [simp del]

definition qla83xx_idc_unlock :: "'w idc_io \<Rightarrow> nat \<Rightarrow> 'w idc \<Rightarrow> 'w idc option" where
  "qla83xx_idc_unlock io N s = map_option (log_ev Idc_unlocked) (unlock_loop io N 10 (io_junk io) s)"

text \<open>The lock is given up for a while, so that the other functions can proceed.\<close>

definition yield_lock :: "'w idc_io \<Rightarrow> nat \<Rightarrow> nat \<Rightarrow> 'w idc \<Rightarrow> 'w idc option" where
  "yield_lock io N ms s = do {
     s \<leftarrow> qla83xx_idc_unlock io N s;
     qla83xx_idc_lock io N (msleep io ms s)
   }"

end
