(* ===== verification/Idc_State.thy ===== *)
theory Idc_State
  imports Idc_83xx
begin

text \<open>
  The IDC state machine of the ISP83xx: presence and acknowledge bits, the election of the reset
  owner, the handlers for the device states, and the entry points (fw load, reset, work items,
  the 8200 event, the sysfs requests).
\<close>

section \<open>Presence, acknowledge and control bits\<close>

definition port_bit :: "'w idc \<Rightarrow> u32" where
  "port_bit s = push_bit (unat (portnum s)) 1"

definition set_drv_presence :: "'w idc_io \<Rightarrow> nat \<Rightarrow> 'w idc \<Rightarrow> (int \<times> 'w idc) option" where
  "set_drv_presence io N s = do {
     (rv, p, s) \<leftarrow> qla83xx_rd_reg io N QLA83XX_IDC_DRV_PRESENCE (io_junk io) s;
     Some (if rv = QLA_SUCCESS
           then qla83xx_wr_reg io QLA83XX_IDC_DRV_PRESENCE (p OR port_bit s) s else (rv, s))
   }"

definition clear_drv_presence :: "'w idc_io \<Rightarrow> nat \<Rightarrow> 'w idc \<Rightarrow> (int \<times> 'w idc) option" where
  "clear_drv_presence io N s = do {
     (rv, p, s) \<leftarrow> qla83xx_rd_reg io N QLA83XX_IDC_DRV_PRESENCE (io_junk io) s;
     Some (if rv = QLA_SUCCESS
           then qla83xx_wr_reg io QLA83XX_IDC_DRV_PRESENCE (p AND NOT (port_bit s)) s else (rv, s))
   }"

definition qla83xx_set_drv_presence :: "'w idc_io \<Rightarrow> nat \<Rightarrow> 'w idc \<Rightarrow> (int \<times> 'w idc) option" where
  "qla83xx_set_drv_presence io N s = do {
     s \<leftarrow> qla83xx_idc_lock io N s;
     (rv, s) \<leftarrow> set_drv_presence io N s;
     s \<leftarrow> qla83xx_idc_unlock io N s;
     Some (rv, s)
   }"

definition qla83xx_clear_drv_presence :: "'w idc_io \<Rightarrow> nat \<Rightarrow> 'w idc \<Rightarrow> (int \<times> 'w idc) option" where
  "qla83xx_clear_drv_presence io N s = do {
     s \<leftarrow> qla83xx_idc_lock io N s;
     (rv, s) \<leftarrow> clear_drv_presence io N s;
     s \<leftarrow> qla83xx_idc_unlock io N s;
     Some (rv, s)
   }"

definition set_drv_ack :: "'w idc_io \<Rightarrow> nat \<Rightarrow> 'w idc \<Rightarrow> (int \<times> 'w idc) option" where
  "set_drv_ack io N s = do {
     (rv, a, s) \<leftarrow> qla83xx_rd_reg io N QLA83XX_IDC_DRIVER_ACK (io_junk io) s;
     Some (if rv = QLA_SUCCESS
           then qla83xx_wr_reg io QLA83XX_IDC_DRIVER_ACK (a OR port_bit s) s else (rv, s))
   }"

definition clear_drv_ack :: "'w idc_io \<Rightarrow> nat \<Rightarrow> 'w idc \<Rightarrow> (int \<times> 'w idc) option" where
  "clear_drv_ack io N s = do {
     (rv, a, s) \<leftarrow> qla83xx_rd_reg io N QLA83XX_IDC_DRIVER_ACK (io_junk io) s;
     Some (if rv = QLA_SUCCESS
           then qla83xx_wr_reg io QLA83XX_IDC_DRIVER_ACK (a AND NOT (port_bit s)) s else (rv, s))
   }"

definition set_idc_control :: "'w idc_io \<Rightarrow> u32 \<Rightarrow> 'w idc \<Rightarrow> int \<times> 'w idc" where
  "set_idc_control io c = qla83xx_wr_reg io QLA83XX_IDC_CONTROL c"

definition get_idc_control :: "'w idc_io \<Rightarrow> nat \<Rightarrow> u32 \<Rightarrow> 'w idc \<Rightarrow> (int \<times> u32 \<times> 'w idc) option" where
  "get_idc_control io N d = qla83xx_rd_reg io N QLA83XX_IDC_CONTROL d"

definition qla83xx_check_driver_presence :: "'w idc_io \<Rightarrow> nat \<Rightarrow> 'w idc \<Rightarrow> (int \<times> 'w idc) option" where
  "qla83xx_check_driver_presence io N s = do {
     (_, p, s) \<leftarrow> qla83xx_rd_reg io N QLA83XX_IDC_DRV_PRESENCE 0 s;
     Some (if p AND port_bit s \<noteq> 0 then QLA_SUCCESS else QLA_TEST_FAILED, s)
   }"

section \<open>The reset owner\<close>

text \<open>The class of function \<open>i\<close>: four bits each, eight functions to a register.\<close>

definition class_type :: "u32 \<Rightarrow> nat \<Rightarrow> u32" where
  "class_type info i = drop_bit (i * 4) info AND 3"

text \<open>The first FCoE function other than \<open>port\<close> in one register, functions counted from \<open>base\<close>.\<close>

fun find_fcoe :: "u32 \<Rightarrow> u16 \<Rightarrow> nat \<Rightarrow> nat list \<Rightarrow> u16 option" where
  "find_fcoe info port base [] = None"
| "find_fcoe info port base (i # is) =
     (if class_type info i = QLA83XX_CLASS_TYPE_FCOE \<and> of_nat (i + base) \<noteq> port
      then Some (of_nat (i + base)) else find_fcoe info port base is)"

definition fcoe_other_function :: "u32 \<Rightarrow> u32 \<Rightarrow> u16 \<Rightarrow> u16" where
  "fcoe_other_function info1 info2 port =
     (case find_fcoe info1 port 0 [0..<8] of
        Some f \<Rightarrow> f
      | None \<Rightarrow> (case find_fcoe info2 port 8 [0..<8] of Some f \<Rightarrow> f | None \<Rightarrow> 0xffff))"

definition claims_reset :: "u32 \<Rightarrow> u32 \<Rightarrow> u32 \<Rightarrow> u16 \<Rightarrow> bool" where
  "claims_reset presence info1 info2 port =
     (let other = fcoe_other_function info1 info2 port;
          mask = NOT (push_bit (unat port) 1 OR
                      (if other = 0xffff then 0 else push_bit (unat other) (1::u32)))
      in presence AND mask = 0 \<and> port < other)"

definition qla83xx_reset_ownership :: "'w idc_io \<Rightarrow> nat \<Rightarrow> 'w idc \<Rightarrow> 'w idc option" where
  "qla83xx_reset_ownership io N s = do {
     (_, p, s) \<leftarrow> qla83xx_rd_reg io N QLA83XX_IDC_DRV_PRESENCE (io_junk io) s;
     (_, i1, s) \<leftarrow> qla83xx_rd_reg io N QLA83XX_DEV_PARTINFO1 (io_junk io) s;
     (_, i2, s) \<leftarrow> qla83xx_rd_reg io N QLA83XX_DEV_PARTINFO2 (io_junk io) s;
     Some (if claims_reset p i1 i2 (portnum s) then s\<lparr>nic_core_reset_owner := True\<rparr> else s)
   }"

section \<open>Audit\<close>

definition qla83xx_idc_audit :: "'w idc_io \<Rightarrow> u32 \<Rightarrow> 'w idc \<Rightarrow> 'w idc" where
  "qla83xx_idc_audit io audit_type s =
     (if audit_type = IDC_AUDIT_TIMESTAMP
      then let s = s\<lparr>idc_audit_ts := io_msecs io (now io s) div 1000\<rparr>
           in snd (qla83xx_wr_reg io QLA83XX_IDC_AUDIT
                (ucast (portnum s) OR push_bit 7 IDC_AUDIT_TIMESTAMP OR push_bit 8 (idc_audit_ts s)) s)
      else if audit_type = IDC_AUDIT_COMPLETION
      then let secs = (io_msecs io (now io s) - io_msecs io (unat (idc_audit_ts s))) div 1000
           in snd (qla83xx_wr_reg io QLA83XX_IDC_AUDIT
                (ucast (portnum s) OR push_bit 7 IDC_AUDIT_COMPLETION OR push_bit 8 secs) s)
      else s)"

section \<open>The device states\<close>

fun need_reset_loop :: "'w idc_io \<Rightarrow> nat \<Rightarrow> nat \<Rightarrow> nat \<Rightarrow> u32 \<Rightarrow> u32 \<Rightarrow> 'w idc \<Rightarrow> 'w idc option" where
  "need_reset_loop io N 0 lim ack pres s = None"
| "need_reset_loop io N (Suc n) lim ack pres s = do {
     (_, ack, s) \<leftarrow> qla83xx_rd_reg io N QLA83XX_IDC_DRIVER_ACK ack s;
     (_, pres, s) \<leftarrow> qla83xx_rd_reg io N QLA83XX_IDC_DRV_PRESENCE pres s;
     if ack AND pres = pres then Some s
     else if lim \<le> now io s
     then Some (if ack \<noteq> pres then snd (qla83xx_wr_reg io QLA83XX_IDC_DRV_PRESENCE ack s) else s)
     else do {
       s \<leftarrow> yield_lock io N 1000 s;
       need_reset_loop io N n lim ack pres s
     }
   }"

definition qla83xx_need_reset_handler :: "'w idc_io \<Rightarrow> nat \<Rightarrow> 'w idc \<Rightarrow> 'w idc option" where
  "qla83xx_need_reset_handler io N s = do {
     s \<leftarrow> need_reset_loop io N N (now io s + secs io (fcoe_reset_timeout s)) (io_junk io) (io_junk io) s;
     Some (snd (qla83xx_wr_reg io QLA83XX_IDC_DEV_STATE QLA8XXX_DEV_COLD s))
   }"

text \<open>The graceful-reset bit is cleared in a local; what is written back is 0.\<close>

definition qla83xx_device_bootstrap :: "'w idc_io \<Rightarrow> nat \<Rightarrow> 'w idc \<Rightarrow> (int \<times> 'w idc) option" where
  "qla83xx_device_bootstrap io N s =
     (let s = snd (qla83xx_wr_reg io QLA83XX_IDC_DEV_STATE QLA8XXX_DEV_INITIALIZING s)
      in do {
        (_, c, s) \<leftarrow> get_idc_control io N (io_junk io) s;
        let c = c AND NOT QLA83XX_IDC_GRACEFUL_RESET;
        let s = snd (set_idc_control io 0 s);
        s \<leftarrow> qla83xx_idc_unlock io N s;
        let (rv, s) = qla83xx_restart_nic_firmware io s;
        s \<leftarrow> qla83xx_idc_lock io N s;
        Some (rv, snd (qla83xx_wr_reg io QLA83XX_IDC_DEV_STATE
          (if rv \<noteq> QLA_SUCCESS then QLA8XXX_DEV_FAILED else QLA8XXX_DEV_READY) s))
      })"

definition qla8xxx_dev_failed_handler :: "'w idc \<Rightarrow> 'w idc" where
  "qla8xxx_dev_failed_handler s =
     log_ev Idc_dev_failed (s\<lparr>dflg_dev_failed := True, idc_online := False, idc_init_done := False\<rparr>)"

text \<open>The owner records how long the reset took and gives up the ownership.\<close>

definition end_ownership :: "'w idc_io \<Rightarrow> 'w idc \<Rightarrow> 'w idc" where
  "end_ownership io s =
     (if nic_core_reset_owner s then qla83xx_idc_audit io IDC_AUDIT_COMPLETION s else s)
       \<lparr>nic_core_reset_owner := False\<rparr>"

definition dev_failed :: "'w idc_io \<Rightarrow> nat \<Rightarrow> 'w idc \<Rightarrow> (int \<times> 'w idc) option" where
  "dev_failed io N s = do {
     s \<leftarrow> qla83xx_idc_unlock io N s;
     s \<leftarrow> qla83xx_idc_lock io N (qla8xxx_dev_failed_handler s);
     Some (QLA_FUNCTION_FAILED, s)
   }"

text \<open>
  One turn of the handler: the state is read into \<open>st\<close>; Inl ends the loop with the result,
  Inr goes on with the timeout, the state variable and the result so far.
\<close>

definition handler_turn ::
    "'w idc_io \<Rightarrow> nat \<Rightarrow> nat \<Rightarrow> u32 \<Rightarrow> int \<Rightarrow> 'w idc \<Rightarrow> (int \<times> 'w idc + nat \<times> u32 \<times> int \<times> 'w idc) option" where
  "handler_turn io N lim st rval s =
     (let s = (if lim \<le> now io s
               then snd (qla83xx_wr_reg io QLA83XX_IDC_DEV_STATE QLA8XXX_DEV_FAILED s) else s);
          fresh = (\<lambda>s. now io s + secs io (fcoe_dev_init_timeout s));
          wait = (\<lambda>s. yield_lock io N 1000 s)
      in do {
        (_, st, s) \<leftarrow> qla83xx_rd_reg io N QLA83XX_IDC_DEV_STATE st s;
        if st = QLA8XXX_DEV_READY then Some (Inl (rval, end_ownership io s))
        else if st = QLA8XXX_DEV_COLD
        then if nic_core_reset_owner s
             then do { (rv, s) \<leftarrow> qla83xx_device_bootstrap io N s; Some (Inr (lim, st, rv, s)) }
             else do { s \<leftarrow> wait s; Some (Inr (lim, st, rval, s)) }
        else if st = QLA8XXX_DEV_INITIALIZING \<or> st = QLA8XXX_DEV_NEED_QUIESCENT
          \<or> st = QLA8XXX_BAD_VALUE
        then do { s \<leftarrow> wait s; Some (Inr (lim, st, rval, s)) }
        else if st = QLA8XXX_DEV_NEED_RESET
        then do {
          s \<leftarrow> (if \<not> io_dontresethba io \<and> nic_core_reset_owner s
                then qla83xx_need_reset_handler io N s else wait s);
          Some (Inr (fresh s, st, rval, s))
        }
        else if st = QLA8XXX_DEV_QUIESCENT
        then if quiesce_owner s then Some (Inl (rval, s))
             else do { s \<leftarrow> wait s; Some (Inr (fresh s, st, rval, s)) }
        else if st = QLA8XXX_DEV_FAILED
        then do {
          (_, s) \<leftarrow> clear_drv_presence io N (end_ownership io s);
          r \<leftarrow> dev_failed io N s;
          Some (Inl r)
        }
        else do { r \<leftarrow> dev_failed io N s; Some (Inl r) }
      })"

fun handler_loop ::
    "'w idc_io \<Rightarrow> nat \<Rightarrow> nat \<Rightarrow> nat \<Rightarrow> u32 \<Rightarrow> int \<Rightarrow> 'w idc \<Rightarrow> (int \<times> 'w idc) option" where
  "handler_loop io N 0 lim st rval s = None"
| "handler_loop io N (Suc n) lim st rval s =
     (case handler_turn io N lim st rval s of
        None \<Rightarrow> None
      | Some (Inl r) \<Rightarrow> Some r
      | Some (Inr (lim, st, rval, s)) \<Rightarrow> handler_loop io N n lim st rval s)"

definition qla83xx_idc_state_handler :: "'w idc_io \<Rightarrow> nat \<Rightarrow> 'w idc \<Rightarrow> (int \<times> 'w idc) option" where
  "qla83xx_idc_state_handler io N s =
     handler_loop io N N (now io s + secs io (fcoe_dev_init_timeout s)) (io_junk io) QLA_SUCCESS s"

section \<open>Reset\<close>

text \<open>The non-owner waits, without a limit, until the state is no longer READY.\<close>

fun wait_not_ready :: "'w idc_io \<Rightarrow> nat \<Rightarrow> nat \<Rightarrow> u32 \<Rightarrow> 'w idc \<Rightarrow> 'w idc option" where
  "wait_not_ready io N 0 st s = None"
| "wait_not_ready io N (Suc n) st s =
     (if st = QLA8XXX_DEV_READY
      then do {
        s \<leftarrow> yield_lock io N 200 s;
        (_, st, s) \<leftarrow> qla83xx_rd_reg io N QLA83XX_IDC_DEV_STATE st s;
        wait_not_ready io N n st s
      }
      else Some s)"

definition qla83xx_initiating_reset :: "'w idc_io \<Rightarrow> nat \<Rightarrow> 'w idc \<Rightarrow> (int \<times> 'w idc) option" where
  "qla83xx_initiating_reset io N s = do {
     (_, c, s) \<leftarrow> get_idc_control io N (io_junk io) s;
     if c AND QLA83XX_IDC_RESET_DISABLED \<noteq> 0 then Some (QLA_FUNCTION_FAILED, s)
     else do {
       (_, st, s) \<leftarrow> qla83xx_rd_reg io N QLA83XX_IDC_DEV_STATE (io_junk io) s;
       s \<leftarrow> (if nic_core_reset_owner s \<and> st = QLA8XXX_DEV_READY
             then Some (qla83xx_idc_audit io IDC_AUDIT_TIMESTAMP
                    (snd (qla83xx_wr_reg io QLA83XX_IDC_DEV_STATE QLA8XXX_DEV_NEED_RESET s)))
             else wait_not_ready io N N st s);
       (_, s) \<leftarrow> set_drv_ack io N s;
       Some (QLA_SUCCESS, s)
     }
   }"

definition qla83xx_nic_core_reset :: "'w idc_io \<Rightarrow> nat \<Rightarrow> 'w idc \<Rightarrow> (int \<times> 'w idc) option" where
  "qla83xx_nic_core_reset io N s =
     (if dflg_dev_failed s then Some (QLA_FUNCTION_FAILED, s)
      else do {
        s \<leftarrow> qla83xx_idc_lock io N s;
        (rv, s) \<leftarrow> qla83xx_check_driver_presence io N s;
        (rv, s) \<leftarrow> (if rv \<noteq> QLA_SUCCESS then Some (QLA_FUNCTION_FAILED, s)
          else do {
            s \<leftarrow> qla83xx_reset_ownership io N s;
            (rv, s) \<leftarrow> qla83xx_initiating_reset io N s;
            if rv \<noteq> QLA_SUCCESS then Some (rv, s)
            else do {
              (rv, s) \<leftarrow> qla83xx_idc_state_handler io N s;
              (_, s) \<leftarrow> clear_drv_ack io N (if rv = QLA_SUCCESS then s\<lparr>nic_core_hung := False\<rparr> else s);
              Some (rv, s)
            }
          });
        s \<leftarrow> qla83xx_idc_unlock io N s;
        Some (rv, s)
      })"

text \<open>
  The init owner sets the major version and clears the lock recovery; the others must be compatible.
\<close>

definition idc_major_check :: "'w idc_io \<Rightarrow> nat \<Rightarrow> 'w idc \<Rightarrow> (bool \<times> 'w idc) option" where
  "idc_major_check io N s = do {
     (_, major, s) \<leftarrow> qla83xx_rd_reg io N QLA83XX_IDC_MAJOR_VERSION (io_junk io) s;
     if nic_core_reset_owner s
     then Some (True, snd (qla83xx_wr_reg io QLA83XX_IDC_LOCK_RECOVERY 0
            (snd (qla83xx_wr_reg io QLA83XX_IDC_MAJOR_VERSION QLA83XX_SUPP_IDC_MAJOR_VERSION s))))
     else if major \<noteq> QLA83XX_SUPP_IDC_MAJOR_VERSION
     then do { (_, s) \<leftarrow> clear_drv_presence io N s; Some (False, s) }
     else Some (True, s)
   }"

text \<open>Each function sets its minor version; the owner declares a configured device ready.\<close>

definition idc_minor_set :: "'w idc_io \<Rightarrow> nat \<Rightarrow> 'w idc \<Rightarrow> 'w idc option" where
  "idc_minor_set io N s = do {
     (_, minor, s) \<leftarrow> qla83xx_rd_reg io N QLA83XX_IDC_MINOR_VERSION (io_junk io) s;
     let s = snd (qla83xx_wr_reg io QLA83XX_IDC_MINOR_VERSION
       (minor OR push_bit (unat (portnum s) * 2) QLA83XX_SUPP_IDC_MINOR_VERSION) s);
     Some (if nic_core_reset_owner s
           then let (rv, s) = qla81xx_get_port_config io s
                in if rv = QLA_SUCCESS
                   then snd (qla83xx_wr_reg io QLA83XX_IDC_DEV_STATE QLA8XXX_DEV_READY s) else s
           else s)
   }"

definition qla83xx_nic_core_fw_load :: "'w idc_io \<Rightarrow> nat \<Rightarrow> 'w idc \<Rightarrow> (int \<times> 'w idc) option" where
  "qla83xx_nic_core_fw_load io N s = do {
     s \<leftarrow> qla83xx_idc_lock io N s;
     (rv, s) \<leftarrow> set_drv_presence io N
       (s\<lparr>fcoe_dev_init_timeout := QLA83XX_IDC_INITIALIZATION_TIMEOUT,
          fcoe_reset_timeout := QLA83XX_IDC_RESET_ACK_TIMEOUT\<rparr>);
     (rv, s) \<leftarrow> (if rv \<noteq> QLA_SUCCESS then Some (QLA_FUNCTION_FAILED, s)
       else do {
         s \<leftarrow> qla83xx_reset_ownership io N s;
         (ok, s) \<leftarrow> idc_major_check io N s;
         if \<not> ok then Some (QLA_FUNCTION_FAILED, s)
         else do {
           s \<leftarrow> idc_minor_set io N s;
           qla83xx_idc_state_handler io N s
         }
       });
     s \<leftarrow> qla83xx_idc_unlock io N s;
     Some (rv, s)
   }"

section \<open>Work items and events\<close>

definition queue_work :: "idc_work \<Rightarrow> 'w idc \<Rightarrow> 'w idc" where
  "queue_work w s = (if w \<in> set (queued_work s) then s else s\<lparr>queued_work := queued_work s @ [w]\<rparr>)"

definition MBA_IDC_AEN :: nat where "MBA_IDC_AEN = 0x8200"
definition QLA83XX_NIC_CORE_RESET :: nat where "QLA83XX_NIC_CORE_RESET = 1"
definition QLA83XX_IDC_STATE_HANDLER :: nat where "QLA83XX_IDC_STATE_HANDLER = 2"
definition QLA83XX_NIC_CORE_UNRECOVERABLE :: nat where "QLA83XX_NIC_CORE_UNRECOVERABLE = 3"

definition qla83xx_schedule_work :: "nat \<Rightarrow> 'w idc \<Rightarrow> 'w idc" where
  "qla83xx_schedule_work code s =
     (if code = MBA_IDC_AEN then (if dpc_lp_wq s then queue_work Work_idc_aen s else s)
      else if code = QLA83XX_NIC_CORE_RESET
      then (if \<not> nic_core_reset_hdlr_active s \<and> dpc_hp_wq s then queue_work Work_nic_core_reset s else s)
      else if code = QLA83XX_IDC_STATE_HANDLER
      then (if dpc_hp_wq s then queue_work Work_idc_state_handler s else s)
      else if code = QLA83XX_NIC_CORE_UNRECOVERABLE
      then (if dpc_hp_wq s then queue_work Work_nic_core_unrecoverable s else s)
      else s)"

definition qla83xx_nic_core_unrecoverable_work :: "'w idc_io \<Rightarrow> nat \<Rightarrow> 'w idc \<Rightarrow> 'w idc option" where
  "qla83xx_nic_core_unrecoverable_work io N s = do {
     s \<leftarrow> qla83xx_idc_lock io N s;
     (_, st, s) \<leftarrow> qla83xx_rd_reg io N QLA83XX_IDC_DEV_STATE 0 s;
     s \<leftarrow> qla83xx_reset_ownership io N s;
     let s = (if nic_core_reset_owner s
       then qla83xx_schedule_work QLA83XX_IDC_STATE_HANDLER
              (snd (qla83xx_wr_reg io QLA83XX_IDC_DEV_STATE QLA8XXX_DEV_FAILED
                (s\<lparr>nic_core_reset_owner := False\<rparr>)))
       else s);
     qla83xx_idc_unlock io N s
   }"

definition qla83xx_idc_state_handler_work :: "'w idc_io \<Rightarrow> nat \<Rightarrow> 'w idc \<Rightarrow> 'w idc option" where
  "qla83xx_idc_state_handler_work io N s = do {
     s \<leftarrow> qla83xx_idc_lock io N s;
     (_, st, s) \<leftarrow> qla83xx_rd_reg io N QLA83XX_IDC_DEV_STATE 0 s;
     s \<leftarrow> (if st = QLA8XXX_DEV_FAILED \<or> st = QLA8XXX_DEV_NEED_QUIESCENT
           then map_option snd (qla83xx_idc_state_handler io N s) else Some s);
     qla83xx_idc_unlock io N s
   }"

text \<open>A register read of its own, between lock and unlock.\<close>

definition read_locked :: "'w idc_io \<Rightarrow> nat \<Rightarrow> u32 \<Rightarrow> u32 \<Rightarrow> 'w idc \<Rightarrow> (u32 \<times> 'w idc) option" where
  "read_locked io N reg d s = do {
     s \<leftarrow> qla83xx_idc_lock io N s;
     (_, v, s) \<leftarrow> qla83xx_rd_reg io N reg d s;
     s \<leftarrow> qla83xx_idc_unlock io N s;
     Some (v, s)
   }"

fun heartbeat_loop :: "'w idc_io \<Rightarrow> nat \<Rightarrow> nat \<Rightarrow> nat \<Rightarrow> u32 \<Rightarrow> u32 \<Rightarrow> 'w idc \<Rightarrow> (int \<times> 'w idc) option" where
  "heartbeat_loop io N 0 lim c1 c2 s = None"
| "heartbeat_loop io N (Suc n) lim c1 c2 s =
     (if lim < now io s then Some (QLA_FUNCTION_FAILED, s)
      else do {
        (c1, s) \<leftarrow> read_locked io N QLA83XX_FW_HEARTBEAT c1 s;
        (c2, s) \<leftarrow> read_locked io N QLA83XX_FW_HEARTBEAT c2 (msleep io 100 s);
        if c1 = c2 then heartbeat_loop io N n lim c1 c2 s else Some (QLA_SUCCESS, s)
      })"

definition qla83xx_check_nic_core_fw_alive :: "'w idc_io \<Rightarrow> nat \<Rightarrow> 'w idc \<Rightarrow> (int \<times> 'w idc) option" where
  "qla83xx_check_nic_core_fw_alive io N s =
     heartbeat_loop io N N (now io s + secs io 1) (io_junk io) (io_junk io) s"

definition qla83xx_nic_core_reset_work :: "'w idc_io \<Rightarrow> nat \<Rightarrow> 'w idc \<Rightarrow> 'w idc option" where
  "qla83xx_nic_core_reset_work io N s =
     (if IS_QLA2031 (idc_dt s) then Some (s\<lparr>world := snd (io_mctp io (world s))\<rparr>)
      else if nic_core_reset_hdlr_active s then Some s
      else do {
        (rv, s) \<leftarrow> qla83xx_check_nic_core_fw_alive io N s;
        (alive, s) \<leftarrow> (if rv = QLA_SUCCESS
          then do {
            (st, s) \<leftarrow> read_locked io N QLA83XX_IDC_DEV_STATE 0 s;
            Some (st \<noteq> QLA8XXX_DEV_NEED_RESET, s)
          }
          else Some (False, s));
        if alive then Some s
        else do {
          (_, s) \<leftarrow> qla83xx_nic_core_reset io N (s\<lparr>nic_core_reset_hdlr_active := True\<rparr>);
          Some (s\<lparr>nic_core_reset_hdlr_active := False\<rparr>)
        }
      })"

definition qla83xx_service_idc_aen :: "'w idc_io \<Rightarrow> nat \<Rightarrow> 'w idc \<Rightarrow> 'w idc option" where
  "qla83xx_service_idc_aen io N s = do {
     s \<leftarrow> qla83xx_idc_lock io N s;
     (_, st, s) \<leftarrow> qla83xx_rd_reg io N QLA83XX_IDC_DEV_STATE (io_junk io) s;
     (_, c, s) \<leftarrow> qla83xx_rd_reg io N QLA83XX_IDC_CONTROL (io_junk io) s;
     s \<leftarrow> qla83xx_idc_unlock io N s;
     if st = QLA8XXX_DEV_NEED_RESET
     then if c AND QLA83XX_IDC_GRACEFUL_RESET \<noteq> 0
          then Some (qla83xx_schedule_work QLA83XX_NIC_CORE_RESET s)
          else do {
            (rv, s) \<leftarrow> qla83xx_check_nic_core_fw_alive io N s;
            Some (if rv = QLA_SUCCESS then qla83xx_schedule_work QLA83XX_NIC_CORE_RESET s else s)
          }
     else Some (if st = QLA8XXX_DEV_FAILED \<or> st = QLA8XXX_DEV_NEED_QUIESCENT
                then qla83xx_schedule_work QLA83XX_IDC_STATE_HANDLER s else s)
   }"

text \<open>The 8200 event of the firmware; \<open>mb\<close> are the mailbox registers it brings.\<close>

definition qla83xx_handle_8200_aen :: "(nat \<Rightarrow> u16) \<Rightarrow> 'w idc \<Rightarrow> 'w idc" where
  "qla83xx_handle_8200_aen mb s =
     (let s = (if mb 1 AND (BIT 1 OR BIT 2 OR BIT 3) = 0 then s
        else let s = s\<lparr>nic_core_hung := True\<rparr>;
                 err_level = drop_bit 13 (mb 6 AND 0xe000);
                 s = (if mb 1 AND BIT 1 \<noteq> 0
                      then if err_level = 2 then qla83xx_schedule_work QLA83XX_NIC_CORE_RESET s
                           else if err_level = 4
                           then qla83xx_schedule_work QLA83XX_NIC_CORE_UNRECOVERABLE s
                           else s
                      else s);
                 s = (if mb 1 AND BIT 2 \<noteq> 0 then qla83xx_schedule_work QLA83XX_NIC_CORE_RESET s else s)
             in if mb 1 AND BIT 3 \<noteq> 0 then qla83xx_schedule_work QLA83XX_NIC_CORE_RESET s else s)
      in if mb 1 AND BIT 0 \<noteq> 0 \<and> \<not> nic_core_reset_owner s
         then qla83xx_schedule_work MBA_IDC_AEN s else s)"

text \<open>The requests an administrator can make through the \<open>reset\<close> attribute.\<close>

definition sysfs_mpi_reset :: "'w idc_io \<Rightarrow> nat \<Rightarrow> 'w idc \<Rightarrow> 'w idc option" where
  "sysfs_mpi_reset io N s = do {
     s \<leftarrow> qla83xx_idc_lock io N s;
     (_, c, s) \<leftarrow> get_idc_control io N (io_junk io) s;
     let s = snd (set_idc_control io (c OR QLA83XX_IDC_GRACEFUL_RESET) s);
     let s = snd (qla83xx_wr_reg io QLA83XX_IDC_DEV_STATE QLA8XXX_DEV_NEED_RESET s);
     qla83xx_idc_unlock io N (qla83xx_idc_audit io IDC_AUDIT_TIMESTAMP s)
   }"

definition sysfs_reset_control :: "'w idc_io \<Rightarrow> nat \<Rightarrow> bool \<Rightarrow> 'w idc \<Rightarrow> 'w idc option" where
  "sysfs_reset_control io N disable s = do {
     s \<leftarrow> qla83xx_idc_lock io N s;
     (_, c, s) \<leftarrow> get_idc_control io N (io_junk io) s;
     let s = snd (set_idc_control io (if disable then c OR QLA83XX_IDC_RESET_DISABLED
                                      else c AND NOT QLA83XX_IDC_RESET_DISABLED) s);
     qla83xx_idc_unlock io N s
   }"

end
