(* ===== verification/Idc_Lock.thy ===== *)
theory Idc_Lock
  imports Idc_State
begin

text \<open>
  The locking discipline of the IDC code. The trace of an instance is run through a monitor that
  knows whether the driver is between a lock call and its unlock call; the registers the functions
  share may be written only there. The discipline is proved for every entry point, whatever the
  firmware answers and the other functions do.
\<close>

definition guarded_regs :: "u32 list" where
  "guarded_regs = [QLA83XX_IDC_DEV_STATE, QLA83XX_IDC_DRV_PRESENCE, QLA83XX_IDC_DRIVER_ACK,
     QLA83XX_IDC_CONTROL, QLA83XX_IDC_AUDIT, QLA83XX_IDC_MAJOR_VERSION, QLA83XX_IDC_MINOR_VERSION]"

fun monitor :: "bool option \<Rightarrow> idc_ev \<Rightarrow> bool option" where
  "monitor None e = None"
| "monitor (Some b) (Idc_locked g) = (if b then None else Some True)"
| "monitor (Some b) Idc_unlocked = (if b then Some False else None)"
| "monitor (Some b) (Idc_write r d) = (if r \<in> set guarded_regs \<and> \<not> b then None else Some b)"
| "monitor (Some b) Idc_dev_failed = Some b"
| "monitor (Some b) Idc_fw_dump = Some b"

definition lock_state :: "'w idc \<Rightarrow> bool option" where
  "lock_state s = foldl monitor (Some False) (idc_trace s)"

lemma lock_state_log [simp]: "lock_state (log_ev e s) = monitor (lock_state s) e"
  by (simp add: lock_state_def log_ev_def)

lemma lock_state_upd [simp]:
  "lock_state (s\<lparr>world := w\<rparr>) = lock_state s"
  "lock_state (s\<lparr>fcoe_dev_init_timeout := a\<rparr>) = lock_state s"
  "lock_state (s\<lparr>fcoe_reset_timeout := a\<rparr>) = lock_state s"
  "lock_state (s\<lparr>idc_audit_ts := a\<rparr>) = lock_state s"
  "lock_state (s\<lparr>nic_core_reset_owner := b\<rparr>) = lock_state s"
  "lock_state (s\<lparr>nic_core_hung := b\<rparr>) = lock_state s"
  "lock_state (s\<lparr>nic_core_reset_hdlr_active := b\<rparr>) = lock_state s"
  "lock_state (s\<lparr>dflg_dev_failed := b\<rparr>) = lock_state s"
  "lock_state (s\<lparr>idc_online := b\<rparr>) = lock_state s"
  "lock_state (s\<lparr>idc_init_done := b\<rparr>) = lock_state s"
  "lock_state (s\<lparr>queued_work := ws\<rparr>) = lock_state s"
  by (simp_all add: lock_state_def)

lemma lock_state_msleep [simp]: "lock_state (msleep io ms s) = lock_state s"
  by (simp add: msleep_def)

lemma lock_state_wait [simp]: "lock_state (qla83xx_wait_logic io s) = lock_state s"
  by (simp add: qla83xx_wait_logic_def)

lemma lock_state_mailbox: "mailbox io mb s = (rv, mb', s') \<Longrightarrow> lock_state s' = lock_state s"
  by (auto simp: mailbox_def split: prod.splits)

lemma guarded_regs_mem [simp]:
  "QLA83XX_IDC_DEV_STATE \<in> set guarded_regs" "QLA83XX_IDC_DRV_PRESENCE \<in> set guarded_regs"
  "QLA83XX_IDC_DRIVER_ACK \<in> set guarded_regs" "QLA83XX_IDC_CONTROL \<in> set guarded_regs"
  "QLA83XX_IDC_AUDIT \<in> set guarded_regs" "QLA83XX_IDC_MAJOR_VERSION \<in> set guarded_regs"
  "QLA83XX_IDC_MINOR_VERSION \<in> set guarded_regs"
  by (simp_all add: guarded_regs_def)

lemmas idc_reg_defs =
  QLA83XX_IDC_DEV_STATE_def QLA83XX_IDC_MAJOR_VERSION_def QLA83XX_IDC_MINOR_VERSION_def
  QLA83XX_IDC_DRV_PRESENCE_def QLA83XX_IDC_DRIVER_ACK_def QLA83XX_IDC_CONTROL_def
  QLA83XX_IDC_AUDIT_def QLA83XX_IDC_LOCK_RECOVERY_def QLA83XX_DRIVER_LOCKID_def
  QLA83XX_DRIVER_LOCK_def QLA83XX_DRIVER_UNLOCK_def QLA83XX_DEV_PARTINFO1_def
  QLA83XX_DEV_PARTINFO2_def QLA83XX_FW_HEARTBEAT_def

lemma lock_regs_free [simp]:
  "QLA83XX_IDC_LOCK_RECOVERY \<notin> set guarded_regs" "QLA83XX_DRIVER_LOCKID \<notin> set guarded_regs"
  by (simp_all add: guarded_regs_def idc_reg_defs)

section \<open>Register accesses\<close>

lemma lock_state_wr:
  "qla83xx_wr_reg io r d s = (rv, s') \<Longrightarrow> r \<notin> set guarded_regs \<or> lock_state s = Some True
    \<Longrightarrow> lock_state s' = lock_state s"
  by (cases "lock_state s")
    (auto simp: qla83xx_wr_reg_def split: if_splits prod.splits dest!: lock_state_mailbox)

lemma lock_state_wr_snd [simp]:
  "r \<notin> set guarded_regs \<or> lock_state s = Some True
    \<Longrightarrow> lock_state (snd (qla83xx_wr_reg io r d s)) = lock_state s"
  using lock_state_wr by (metis prod.collapse)

lemma lock_state_rd_loop:
  "rd_loop io n lim r d s = Some (rv, v, s') \<Longrightarrow> lock_state s' = lock_state s"
  by (induction n arbitrary: d s)
    (auto simp: Let_def split: if_splits prod.splits dest: lock_state_mailbox)

lemma lock_state_rd:
  "qla83xx_rd_reg io N r d s = Some (rv, v, s') \<Longrightarrow> lock_state s' = lock_state s"
  by (auto simp: qla83xx_rd_reg_def split: if_splits dest: lock_state_rd_loop)

lemma lock_state_restart [simp]:
  "lock_state s = Some b \<Longrightarrow> lock_state (snd (qla83xx_restart_nic_firmware io s)) = Some b"
  by (auto simp: qla83xx_restart_nic_firmware_def split: if_splits prod.splits
      dest: lock_state_mailbox)

lemma lock_state_port_config [simp]:
  "lock_state (snd (qla81xx_get_port_config io s)) = lock_state s"
  by (auto simp: qla81xx_get_port_config_def split: if_splits prod.splits dest: lock_state_mailbox)

lemmas rd_wr_lock_state = lock_state_rd lock_state_wr

section \<open>The lock and the unlock call\<close>

lemma lock_state_force_unlock:
  "force_unlock io N data s = Some (rv, s') \<Longrightarrow> lock_state s' = lock_state s"
  by (auto simp: force_unlock_def bind_eq_Some_conv split: if_splits prod.splits
      dest!: rd_wr_lock_state)

lemma lock_state_force:
  "qla83xx_force_lock_recovery io N s = Some (rv, s') \<Longrightarrow> lock_state s' = lock_state s"
  by (auto simp: qla83xx_force_lock_recovery_def Let_def bind_eq_Some_conv
      split: if_splits prod.splits dest!: rd_wr_lock_state lock_state_force_unlock)

lemma lock_state_recovery_loop:
  "recovery_loop io N n lim s = Some (rv, s') \<Longrightarrow> lock_state s' = lock_state s"
  by (induction n arbitrary: s)
    (auto simp: bind_eq_Some_conv split: if_splits prod.splits
      dest!: lock_state_rd lock_state_force)

lemma lock_state_recovery:
  "qla83xx_idc_lock_recovery io N s = Some (rv, s') \<Longrightarrow> lock_state s' = lock_state s"
  by (auto simp: qla83xx_idc_lock_recovery_def dest: lock_state_recovery_loop)

lemma lock_state_lock_loop:
  "lock_loop io N n s = Some s' \<Longrightarrow> lock_state s = Some False \<Longrightarrow> lock_state s' = Some True"
  by (induction n arbitrary: s)
    (auto simp: bind_eq_Some_conv split: if_splits prod.splits
      dest!: lock_state_rd lock_state_recovery)

lemma lock_state_lock:
  "qla83xx_idc_lock io N s = Some s' \<Longrightarrow> lock_state s = Some False \<Longrightarrow> lock_state s' = Some True"
  by (auto simp: qla83xx_idc_lock_def dest: lock_state_lock_loop)

lemma lock_state_unlock_loop:
  "unlock_loop io N n d s = Some s' \<Longrightarrow> lock_state s' = lock_state s"
proof (induction n arbitrary: d s)
  case 0
  then show ?case
    by (subst (asm) unlock_loop.simps)
      (auto simp: bind_eq_Some_conv split: if_splits prod.splits dest!: lock_state_rd)
next
  case (Suc n)
  from Suc.prems show ?case
    by (subst (asm) unlock_loop.simps)
      (auto simp: bind_eq_Some_conv split: if_splits prod.splits dest!: lock_state_rd dest: Suc.IH)
qed

lemma lock_state_unlock:
  "qla83xx_idc_unlock io N s = Some s' \<Longrightarrow> lock_state s = Some True \<Longrightarrow> lock_state s' = Some False"
  by (auto simp: qla83xx_idc_unlock_def dest: lock_state_unlock_loop)

lemma lock_state_yield:
  "yield_lock io N ms s = Some s' \<Longrightarrow> lock_state s = Some True \<Longrightarrow> lock_state s' = Some True"
  by (auto simp: yield_lock_def bind_eq_Some_conv dest!: lock_state_unlock lock_state_lock)

section \<open>The operations under the lock\<close>

lemma held_wr [simp]:
  "lock_state s = Some True \<Longrightarrow> lock_state (snd (qla83xx_wr_reg io r d s)) = Some True"
  by simp

lemma held_wr_pair:
  "qla83xx_wr_reg io r d s = (rv, s') \<Longrightarrow> lock_state s = Some True \<Longrightarrow> lock_state s' = Some True"
  using lock_state_wr by metis

lemma held_set_presence:
  "set_drv_presence io N s = Some (rv, s') \<Longrightarrow> lock_state s = Some True \<Longrightarrow> lock_state s' = Some True"
  by (auto simp: set_drv_presence_def bind_eq_Some_conv split: if_splits
      dest!: lock_state_rd dest: held_wr_pair)

lemma held_clear_presence:
  "clear_drv_presence io N s = Some (rv, s') \<Longrightarrow> lock_state s = Some True \<Longrightarrow> lock_state s' = Some True"
  by (auto simp: clear_drv_presence_def bind_eq_Some_conv split: if_splits
      dest!: lock_state_rd dest: held_wr_pair)

lemma held_set_ack:
  "set_drv_ack io N s = Some (rv, s') \<Longrightarrow> lock_state s = Some True \<Longrightarrow> lock_state s' = Some True"
  by (auto simp: set_drv_ack_def bind_eq_Some_conv split: if_splits
      dest!: lock_state_rd dest: held_wr_pair)

lemma held_clear_ack:
  "clear_drv_ack io N s = Some (rv, s') \<Longrightarrow> lock_state s = Some True \<Longrightarrow> lock_state s' = Some True"
  by (auto simp: clear_drv_ack_def bind_eq_Some_conv split: if_splits
      dest!: lock_state_rd dest: held_wr_pair)

lemma lock_state_ownership:
  "qla83xx_reset_ownership io N s = Some s' \<Longrightarrow> lock_state s' = lock_state s"
  by (auto simp: qla83xx_reset_ownership_def bind_eq_Some_conv split: if_splits
      dest!: lock_state_rd)

lemma lock_state_check_presence:
  "qla83xx_check_driver_presence io N s = Some (rv, s') \<Longrightarrow> lock_state s' = lock_state s"
  by (auto simp: qla83xx_check_driver_presence_def bind_eq_Some_conv dest!: lock_state_rd)

lemma held_audit [simp]:
  "lock_state s = Some True \<Longrightarrow> lock_state (qla83xx_idc_audit io t s) = Some True"
  by (simp add: qla83xx_idc_audit_def Let_def)

lemma held_end_ownership [simp]:
  "lock_state s = Some True \<Longrightarrow> lock_state (end_ownership io s) = Some True"
  by (simp add: end_ownership_def)

lemma held_need_reset_loop:
  "need_reset_loop io N n lim a p s = Some s' \<Longrightarrow> lock_state s = Some True \<Longrightarrow> lock_state s' = Some True"
proof (induction n arbitrary: a p s)
  case (Suc n)
  from Suc.prems show ?case
    by (auto simp: bind_eq_Some_conv split: if_splits dest!: lock_state_rd lock_state_yield
        dest: Suc.IH)
qed simp

lemma held_need_reset:
  "qla83xx_need_reset_handler io N s = Some s' \<Longrightarrow> lock_state s = Some True \<Longrightarrow> lock_state s' = Some True"
  by (auto simp: qla83xx_need_reset_handler_def bind_eq_Some_conv dest!: held_need_reset_loop)

lemma held_bootstrap:
  "qla83xx_device_bootstrap io N s = Some (rv, s') \<Longrightarrow> lock_state s = Some True
    \<Longrightarrow> lock_state s' = Some True"
  by (auto simp: qla83xx_device_bootstrap_def get_idc_control_def set_idc_control_def Let_def
      bind_eq_Some_conv split_beta split: if_splits
      dest!: lock_state_rd lock_state_unlock lock_state_lock)

lemma held_dev_failed:
  "dev_failed io N s = Some (rv, s') \<Longrightarrow> lock_state s = Some True \<Longrightarrow> lock_state s' = Some True"
  by (auto simp: dev_failed_def qla8xxx_dev_failed_handler_def bind_eq_Some_conv
      dest!: lock_state_unlock lock_state_lock)

lemmas held_ops = held_bootstrap held_need_reset held_clear_presence held_dev_failed lock_state_yield

lemma held_turn:
  assumes "handler_turn io N lim st rval s = Some r" and "lock_state s = Some True"
  shows "case r of Inl (rv, s') \<Rightarrow> lock_state s' = Some True
    | Inr (lim', st', rv, s') \<Rightarrow> lock_state s' = Some True"
proof -
  let ?s = "if lim \<le> now io s
    then snd (qla83xx_wr_reg io QLA83XX_IDC_DEV_STATE QLA8XXX_DEV_FAILED s) else s"
  have "lock_state ?s = Some True" using assms(2) by simp
  then show ?thesis using assms(1)
    by (auto simp only: handler_turn_def Let_def bind_eq_Some_conv)
      (auto simp: bind_eq_Some_conv split: if_splits dest!: lock_state_rd held_ops)
qed

lemma held_handler_loop:
  "handler_loop io N n lim st rval s = Some (rv, s') \<Longrightarrow> lock_state s = Some True
    \<Longrightarrow> lock_state s' = Some True"
proof (induction n arbitrary: lim st rval s)
  case (Suc n)
  from Suc.prems show ?case
    by (auto split: option.splits sum.splits prod.splits dest: held_turn Suc.IH dest!: held_turn)
qed simp

lemma held_handler:
  "qla83xx_idc_state_handler io N s = Some (rv, s') \<Longrightarrow> lock_state s = Some True
    \<Longrightarrow> lock_state s' = Some True"
  by (auto simp: qla83xx_idc_state_handler_def dest: held_handler_loop)

lemma held_wait_not_ready:
  "wait_not_ready io N n st s = Some s' \<Longrightarrow> lock_state s = Some True \<Longrightarrow> lock_state s' = Some True"
proof (induction n arbitrary: st s)
  case (Suc n)
  from Suc.prems show ?case
    by (auto simp: bind_eq_Some_conv split: if_splits dest!: lock_state_yield lock_state_rd
        dest: Suc.IH)
qed simp

lemma held_initiating:
  "qla83xx_initiating_reset io N s = Some (rv, s') \<Longrightarrow> lock_state s = Some True
    \<Longrightarrow> lock_state s' = Some True"
  by (auto simp: qla83xx_initiating_reset_def get_idc_control_def bind_eq_Some_conv
      split: if_splits dest!: lock_state_rd held_wait_not_ready dest: held_set_ack)

end
