(* ===== verification/Idc_Reset.thy ===== *)
theory Idc_Reset
  imports Idc_Lock
begin

text \<open>
  The reset of the ISP83xx over an adapter whose shared registers behave like registers. The
  locale \<open>idc_regs\<close> is what the code relies on while it holds the lock: a read returns the
  register, a write changes that register only. \<open>idc_granted\<close> adds that the lock is granted, that
  waiting takes time and that no other function moves the device state. Both are interpreted on a
  bank of registers that the other functions change, in any way, while the driver waits.
\<close>

section \<open>What an operation leaves alone\<close>

definition frame :: "'w idc \<Rightarrow> 'w idc \<Rightarrow> bool" where
  "frame s s' \<longleftrightarrow> s' = s\<lparr>world := world s', idc_trace := idc_trace s'\<rparr>
     \<and> (\<exists>es. idc_trace s' = idc_trace s @ es)"

definition remote :: "'w idc \<Rightarrow> bool" where
  "remote s \<longleftrightarrow> IS_QLA83XX (idc_dt s) \<or> IS_QLA27XX (idc_dt s)"

lemma frame_refl [simp]: "frame s s"
  by (simp add: frame_def)

lemma frame_world [simp]: "frame s (s\<lparr>world := w\<rparr>)"
  by (simp add: frame_def)

lemma frame_log [simp]: "frame s (log_ev e s)"
  by (simp add: frame_def log_ev_def)

lemma frame_msleep [simp]: "frame s (msleep io ms s)"
  by (simp add: msleep_def)

lemma frame_wait [simp]: "frame s (qla83xx_wait_logic io s)"
  by (simp add: qla83xx_wait_logic_def)

lemma frame_trans [trans]: "frame s s' \<Longrightarrow> frame s' s'' \<Longrightarrow> frame s s''"
  unfolding frame_def by (cases s; cases s'; cases s''; auto)

lemma frame_fields:
  "frame s s' \<Longrightarrow> idc_dt s' = idc_dt s" "frame s s' \<Longrightarrow> portnum s' = portnum s"
  "frame s s' \<Longrightarrow> fcoe_dev_init_timeout s' = fcoe_dev_init_timeout s"
  "frame s s' \<Longrightarrow> nic_core_reset_owner s' = nic_core_reset_owner s"
  "frame s s' \<Longrightarrow> remote s' \<longleftrightarrow> remote s"
  unfolding frame_def remote_def by (cases s; cases s'; simp)+

lemma frame_trace: "frame s s' \<Longrightarrow> e \<in> set (idc_trace s) \<Longrightarrow> e \<in> set (idc_trace s')"
  by (auto simp: frame_def)

lemma world_log [simp]: "world (log_ev e s) = world s"
  by (simp add: log_ev_def)

section \<open>The registers under the lock\<close>

locale idc_regs =
  fixes io :: "'w idc_io" and reg :: "u32 \<Rightarrow> 'w \<Rightarrow> u32"
  assumes read_value: "r \<in> set guarded_regs \<Longrightarrow> io_mbx io [MBC_READ_REMOTE_REG, LSW r, MSW r] w = (rv, mb, w')
      \<Longrightarrow> rv = QLA_SUCCESS \<and> ucast (mb 3) OR push_bit 16 (ucast (mb 4)) = reg r w"
    and read_frame: "r \<in> set guarded_regs \<Longrightarrow> q \<in> set guarded_regs
      \<Longrightarrow> io_mbx io [MBC_READ_REMOTE_REG, LSW r, MSW r] w = (rv, mb, w') \<Longrightarrow> reg q w' = reg q w"
    and write_reg: "r \<in> set guarded_regs \<Longrightarrow> d \<noteq> QLA8XXX_BAD_VALUE
      \<Longrightarrow> io_mbx io [MBC_WRITE_REMOTE_REG, LSW r, MSW r, LSW d, MSW d] w = (rv, mb, w')
      \<Longrightarrow> reg r w' = d"
    and write_frame: "r \<in> set guarded_regs \<Longrightarrow> q \<in> set guarded_regs \<Longrightarrow> q \<noteq> r
      \<Longrightarrow> io_mbx io [MBC_WRITE_REMOTE_REG, LSW r, MSW r, LSW d, MSW d] w = (rv, mb, w')
      \<Longrightarrow> reg q w' = reg q w"
    and not_bad: "reg r w \<noteq> QLA8XXX_BAD_VALUE"
begin

lemma rd_reg:
  assumes "remote s" and "r \<in> set guarded_regs" and "qla83xx_rd_reg io N r d s = Some (rv, v, s')"
  shows "rv = QLA_SUCCESS \<and> v = reg r (world s) \<and> frame s s'
    \<and> (\<forall>q \<in> set guarded_regs. reg q (world s') = reg q (world s))"
proof -
  from assms(1,3) obtain lim where loop: "rd_loop io N lim r d s = Some (rv, v, s')"
    by (auto simp: qla83xx_rd_reg_def remote_def split: if_splits)
  then obtain n where "N = Suc n" by (cases N) auto
  obtain rv' mb w' where m: "io_mbx io [MBC_READ_REMOTE_REG, LSW r, MSW r] (world s) = (rv', mb, w')"
    by (metis prod.collapse)
  show ?thesis
    using loop read_value [OF assms(2) m] read_frame [OF assms(2) _ m] not_bad [of r "world s"] m
    by (auto simp: \<open>N = Suc n\<close> mailbox_def)
qed

lemma wr_reg:
  assumes "remote s" and "r \<in> set guarded_regs" and "d \<noteq> QLA8XXX_BAD_VALUE"
  shows "reg r (world (snd (qla83xx_wr_reg io r d s))) = d"
  using assms write_reg [OF assms(2,3)]
  by (auto simp: qla83xx_wr_reg_def remote_def mailbox_def split: prod.splits)

lemma wr_reg_other:
  assumes "remote s" and "r \<in> set guarded_regs" and "q \<in> set guarded_regs" and "q \<noteq> r"
  shows "reg q (world (snd (qla83xx_wr_reg io r d s))) = reg q (world s)"
  using assms write_frame [OF assms(2-4)]
  by (auto simp: qla83xx_wr_reg_def remote_def mailbox_def split: prod.splits)

end

section \<open>Frames of the operations\<close>

lemma frame_mailbox: "mailbox io mb s = (rv, mb', s') \<Longrightarrow> frame s s'"
  by (auto simp: mailbox_def split: prod.splits)

lemma frame_wr [simp]: "frame s (snd (qla83xx_wr_reg io r d s))"
  by (auto simp: qla83xx_wr_reg_def split: prod.splits dest!: frame_mailbox
      intro: frame_trans [OF frame_log])

lemma frame_wr_pair: "qla83xx_wr_reg io r d s = (rv, s') \<Longrightarrow> frame s s'"
  using frame_wr by (metis snd_conv)

lemma frame_rd: "qla83xx_rd_reg io N r d s = Some (rv, v, s') \<Longrightarrow> frame s s'"
proof -
  have "rd_loop io n lim r d s = Some (rv, v, s') \<Longrightarrow> frame s s'" for n lim
  proof (induction n arbitrary: d s)
    case (Suc n)
    from Suc.prems show ?case
      by (auto simp: Let_def split: if_splits prod.splits dest!: frame_mailbox
          dest: Suc.IH intro: frame_trans [OF _ frame_trans [OF frame_msleep]])
  qed simp
  then show "qla83xx_rd_reg io N r d s = Some (rv, v, s') \<Longrightarrow> frame s s'"
    by (auto simp: qla83xx_rd_reg_def split: if_splits)
qed

lemma frame_force_unlock: "force_unlock io N data s = Some (rv, s') \<Longrightarrow> frame s s'"
  by (auto simp: force_unlock_def bind_eq_Some_conv split: if_splits prod.splits
      dest!: frame_wr_pair frame_rd intro: frame_trans)

lemma frame_force: "qla83xx_force_lock_recovery io N s = Some (rv, s') \<Longrightarrow> frame s s'"
  by (auto simp: qla83xx_force_lock_recovery_def Let_def bind_eq_Some_conv
      split: if_splits prod.splits dest!: frame_wr_pair frame_rd frame_force_unlock
      intro: frame_trans frame_trans [OF _ frame_trans [OF frame_msleep]])

lemma frame_recovery: "qla83xx_idc_lock_recovery io N s = Some (rv, s') \<Longrightarrow> frame s s'"
proof -
  have "recovery_loop io N n lim s = Some (rv, s') \<Longrightarrow> frame s s'" for n lim
  proof (induction n arbitrary: s)
    case (Suc n)
    from Suc.prems show ?case
      by (auto simp: bind_eq_Some_conv split: if_splits dest!: frame_rd frame_force
          dest!: Suc.IH intro: frame_trans frame_trans [OF _ frame_trans [OF frame_wait]])
  qed simp
  then show "qla83xx_idc_lock_recovery io N s = Some (rv, s') \<Longrightarrow> frame s s'"
    by (simp add: qla83xx_idc_lock_recovery_def)
qed

lemma frame_lock: "qla83xx_idc_lock io N s = Some s' \<Longrightarrow> frame s s'"
proof -
  have "lock_loop io N n s = Some s' \<Longrightarrow> frame s s'" for n
  proof (induction n arbitrary: s)
    case (Suc n)
    from Suc.prems show ?case
      by (auto simp: bind_eq_Some_conv split: if_splits dest!: frame_rd frame_recovery Suc.IH
          intro: frame_trans frame_trans [OF _ frame_log]
            frame_trans [OF _ frame_trans [OF frame_wr frame_log]]
            frame_trans [OF _ frame_trans [OF frame_wait]])
  qed simp
  then show "qla83xx_idc_lock io N s = Some s' \<Longrightarrow> frame s s'"
    by (simp add: qla83xx_idc_lock_def)
qed

lemma frame_unlock: "qla83xx_idc_unlock io N s = Some s' \<Longrightarrow> frame s s'"
proof -
  have "unlock_loop io N n d s = Some s' \<Longrightarrow> frame s s'" for n d s'
  proof (induction n arbitrary: d s)
    case 0
    then show ?case
      by (subst (asm) unlock_loop.simps)
        (auto simp: bind_eq_Some_conv split: if_splits dest!: frame_rd
          intro: frame_trans frame_trans [OF _ frame_trans [OF _ frame_wr]])
  next
    case (Suc n)
    from Suc.prems show ?case
      by (subst (asm) unlock_loop.simps)
        (auto simp: bind_eq_Some_conv split: if_splits dest!: frame_rd Suc.IH
          intro: frame_trans frame_trans [OF _ frame_trans [OF _ frame_wr]]
            frame_trans [OF _ frame_trans [OF frame_wait]])
  qed
  then show "qla83xx_idc_unlock io N s = Some s' \<Longrightarrow> frame s s'"
    by (auto simp: qla83xx_idc_unlock_def intro: frame_trans [OF _ frame_log])
qed

lemma frame_yield: "yield_lock io N ms s = Some s' \<Longrightarrow> frame s s'"
  by (auto simp: yield_lock_def bind_eq_Some_conv dest!: frame_lock frame_unlock
      intro: frame_trans [OF _ frame_trans [OF frame_msleep]])

section \<open>Leaving NEED_RESET\<close>

context idc_regs
begin

lemma need_reset_loop_acked:
  "need_reset_loop io N n lim a p s = Some s' \<Longrightarrow> remote s \<Longrightarrow>
    remote s' \<and> reg QLA83XX_IDC_DRIVER_ACK (world s') AND reg QLA83XX_IDC_DRV_PRESENCE (world s')
      = reg QLA83XX_IDC_DRV_PRESENCE (world s')"
proof (induction n arbitrary: a p s)
  case (Suc n)
  from Suc.prems(1) obtain rv ack s1 rv2 pres s2 where
    1: "qla83xx_rd_reg io N QLA83XX_IDC_DRIVER_ACK a s = Some (rv, ack, s1)"
    and 2: "qla83xx_rd_reg io N QLA83XX_IDC_DRV_PRESENCE p s1 = Some (rv2, pres, s2)"
    and rest: "(if ack AND pres = pres then Some s2
       else if lim \<le> now io s2
       then Some (if ack \<noteq> pres then snd (qla83xx_wr_reg io QLA83XX_IDC_DRV_PRESENCE ack s2) else s2)
       else Option.bind (yield_lock io N 1000 s2) (need_reset_loop io N n lim ack pres)) = Some s'"
    by (auto simp: bind_eq_Some_conv)
  note r1 = rd_reg [OF Suc.prems(2) _ 1, simplified]
  then have rem1: "remote s1" using Suc.prems(2) frame_fields by blast
  note r2 = rd_reg [OF rem1 _ 2, simplified]
  then have rem2: "remote s2" using rem1 frame_fields by blast
  have ack: "ack = reg QLA83XX_IDC_DRIVER_ACK (world s2)" and pres: "pres = reg QLA83XX_IDC_DRV_PRESENCE (world s2)"
    using r1 r2 by auto
  consider (acked) "ack AND pres = pres" "s' = s2"
    | (forced) "ack \<noteq> pres" "s' = snd (qla83xx_wr_reg io QLA83XX_IDC_DRV_PRESENCE ack s2)"
    | (again) s3 where "yield_lock io N 1000 s2 = Some s3"
        "need_reset_loop io N n lim ack pres s3 = Some s'"
    using rest by (auto simp: bind_eq_Some_conv split: if_splits)
  then show ?case
  proof cases
    case acked
    then show ?thesis using ack pres rem2 by simp
  next
    case forced
    have "ack \<noteq> QLA8XXX_BAD_VALUE" using ack not_bad by simp
    then have "reg QLA83XX_IDC_DRV_PRESENCE (world s') = ack" using wr_reg [OF rem2] forced(2) by simp
    moreover have "QLA83XX_IDC_DRIVER_ACK \<noteq> QLA83XX_IDC_DRV_PRESENCE" by (simp add: idc_reg_defs)
    moreover from this have "reg QLA83XX_IDC_DRIVER_ACK (world s') = reg QLA83XX_IDC_DRIVER_ACK (world s2)"
      unfolding forced(2) by (intro wr_reg_other [OF rem2]) simp_all
    moreover have "remote s'" using rem2 forced(2) frame_fields(5) [OF frame_wr] by blast
    ultimately show ?thesis using ack by simp
  next
    case again
    have "remote s3" using rem2 frame_fields(5) [OF frame_yield [OF again(1)]] by simp
    then show ?thesis by (rule Suc.IH [OF again(2)])
  qed
qed simp

lemma need_reset_acked:
  assumes "remote s" and "qla83xx_need_reset_handler io N s = Some s'"
  shows "reg QLA83XX_IDC_DEV_STATE (world s') = QLA8XXX_DEV_COLD
    \<and> reg QLA83XX_IDC_DRIVER_ACK (world s') AND reg QLA83XX_IDC_DRV_PRESENCE (world s')
      = reg QLA83XX_IDC_DRV_PRESENCE (world s')"
proof -
  from assms(2) obtain s1 where
    loop: "need_reset_loop io N N (now io s + secs io (fcoe_reset_timeout s)) (io_junk io) (io_junk io) s
      = Some s1"
    and s': "s' = snd (qla83xx_wr_reg io QLA83XX_IDC_DEV_STATE QLA8XXX_DEV_COLD s1)"
    by (auto simp: qla83xx_need_reset_handler_def bind_eq_Some_conv)
  note acked = need_reset_loop_acked [OF loop assms(1)]
  have "reg QLA83XX_IDC_DEV_STATE (world s') = QLA8XXX_DEV_COLD"
    unfolding s' by (rule wr_reg) (use acked in \<open>simp_all add: QLA8XXX_DEV_COLD_def QLA8XXX_BAD_VALUE_def\<close>)
  moreover have "reg q (world s') = reg q (world s1)"
    if "q \<in> set guarded_regs" "q \<noteq> QLA83XX_IDC_DEV_STATE" for q
    unfolding s' by (rule wr_reg_other) (use acked that in simp_all)
  then have "reg QLA83XX_IDC_DRIVER_ACK (world s') = reg QLA83XX_IDC_DRIVER_ACK (world s1)"
    "reg QLA83XX_IDC_DRV_PRESENCE (world s') = reg QLA83XX_IDC_DRV_PRESENCE (world s1)"
    by (simp_all add: idc_reg_defs guarded_regs_def)
  ultimately show ?thesis using acked by simp
qed

end

section \<open>A device that does not move\<close>

definition lock_regs :: "u32 list" where
  "lock_regs = [QLA83XX_DRIVER_LOCK, QLA83XX_DRIVER_UNLOCK, QLA83XX_DRIVER_LOCKID]"

locale idc_granted = idc_regs +
  assumes lock_read: "r \<in> set lock_regs \<Longrightarrow> io_mbx io [MBC_READ_REMOTE_REG, LSW r, MSW r] w = (rv, mb, w')
      \<Longrightarrow> rv = QLA_SUCCESS \<and> ucast (mb 3) OR push_bit 16 (ucast (mb 4)) \<noteq> QLA8XXX_BAD_VALUE
        \<and> reg QLA83XX_IDC_DEV_STATE w' = reg QLA83XX_IDC_DEV_STATE w"
    and lock_free: "io_mbx io [MBC_READ_REMOTE_REG, LSW QLA83XX_DRIVER_LOCK, MSW QLA83XX_DRIVER_LOCK] w
        = (rv, mb, w') \<Longrightarrow> ucast (mb 3) OR push_bit 16 (ucast (mb 4)) \<noteq> (0::u32)"
    and lockid_write: "io_mbx io [MBC_WRITE_REMOTE_REG, LSW QLA83XX_DRIVER_LOCKID,
          MSW QLA83XX_DRIVER_LOCKID, a, b] w = (rv, mb, w')
        \<Longrightarrow> reg QLA83XX_IDC_DEV_STATE w' = reg QLA83XX_IDC_DEV_STATE w"
    and wait_state: "reg QLA83XX_IDC_DEV_STATE (io_msleep io ms w) = reg QLA83XX_IDC_DEV_STATE w"
      "reg QLA83XX_IDC_DEV_STATE (io_relax io w) = reg QLA83XX_IDC_DEV_STATE w"
    and time_mbx: "io_mbx io out w = (rv, mb, w') \<Longrightarrow> io_jiffies io w \<le> io_jiffies io w'"
    and time_wait: "io_jiffies io w \<le> io_jiffies io (io_msleep io ms w)"
      "io_jiffies io w \<le> io_jiffies io (io_relax io w)"
      "io_jiffies io w + unat (io_HZ io) \<le> io_jiffies io (io_msleep io 1000 w)"
begin

definition steady where
  "steady s s' \<longleftrightarrow> frame s s' \<and> now io s \<le> now io s'
     \<and> reg QLA83XX_IDC_DEV_STATE (world s') = reg QLA83XX_IDC_DEV_STATE (world s)"

lemma steady_trans [trans]: "steady s s' \<Longrightarrow> steady s' s'' \<Longrightarrow> steady s s''"
  unfolding steady_def by (auto intro: frame_trans)

lemma steady_log: "steady s s' \<Longrightarrow> steady s (log_ev e s')"
  by (auto simp: steady_def now_def intro: frame_trans)

lemma steady_wait [simp]: "steady s (msleep io ms s)" "steady s (qla83xx_wait_logic io s)"
  using time_wait wait_state by (auto simp: steady_def now_def msleep_def qla83xx_wait_logic_def)

lemma rd_steady:
  assumes "remote s" and "0 < N" and "r \<in> set guarded_regs \<union> set lock_regs"
  obtains v s' where "qla83xx_rd_reg io N r d s = Some (QLA_SUCCESS, v, s')" "steady s s'"
    "r \<in> set guarded_regs \<longrightarrow> v = reg r (world s)" "r = QLA83XX_DRIVER_LOCK \<longrightarrow> v \<noteq> 0"
proof -
  obtain n where N: "N = Suc n" using assms(2) by (cases N) auto
  obtain rv mb w' where m: "io_mbx io [MBC_READ_REMOTE_REG, LSW r, MSW r] (world s) = (rv, mb, w')"
    by (metis prod.collapse)
  let ?v = "ucast (mb 3) OR push_bit 16 (ucast (mb 4)) :: u32"
  have ok: "rv = QLA_SUCCESS \<and> ?v \<noteq> QLA8XXX_BAD_VALUE
      \<and> reg QLA83XX_IDC_DEV_STATE w' = reg QLA83XX_IDC_DEV_STATE (world s)"
  proof (cases "r \<in> set guarded_regs")
    case True
    then show ?thesis
      using read_value [OF _ m] read_frame [OF _ _ m, of QLA83XX_IDC_DEV_STATE] not_bad [of r "world s"]
      by simp
  next
    case False
    then show ?thesis using assms(3) lock_read [OF _ m] by simp
  qed
  have "qla83xx_rd_reg io N r d s = Some (QLA_SUCCESS, ?v, s\<lparr>world := w'\<rparr>)"
    using assms(1) ok m by (auto simp: qla83xx_rd_reg_def remote_def N mailbox_def)
  moreover have "steady s (s\<lparr>world := w'\<rparr>)" using ok time_mbx [OF m] by (simp add: steady_def now_def)
  moreover have "r \<in> set guarded_regs \<longrightarrow> ?v = reg r (world s)" using read_value [OF _ m] by blast
  moreover have "r = QLA83XX_DRIVER_LOCK \<longrightarrow> ?v \<noteq> 0" using lock_free m by blast
  ultimately show ?thesis using that by blast
qed

lemma rd_lock_steady:
  assumes "remote s" and "0 < N" and "r \<in> set lock_regs"
  obtains v s' where "qla83xx_rd_reg io N r d s = Some (QLA_SUCCESS, v, s')" "steady s s'"
    "r = QLA83XX_DRIVER_LOCK \<longrightarrow> v \<noteq> 0"
  by (rule rd_steady [OF assms(1,2), of r d]) (use assms(3) in auto)

lemma lock_regs_mem [simp]: "QLA83XX_DRIVER_LOCK \<in> set lock_regs"
  "QLA83XX_DRIVER_UNLOCK \<in> set lock_regs" "QLA83XX_DRIVER_LOCKID \<in> set lock_regs"
  by (simp_all add: lock_regs_def)

lemma lockid_steady [simp]: "steady s (snd (qla83xx_wr_reg io QLA83XX_DRIVER_LOCKID d s))"
  using lockid_write time_mbx
  by (auto simp: steady_def qla83xx_wr_reg_def mailbox_def now_def frame_def log_ev_def split: prod.splits)

lemma wr_steady:
  assumes "remote s" "r \<in> set guarded_regs" "r \<noteq> QLA83XX_IDC_DEV_STATE"
  shows "steady s (snd (qla83xx_wr_reg io r d s))"
proof -
  have "now io s \<le> now io (snd (qla83xx_wr_reg io r d s))"
    using time_mbx by (auto simp: qla83xx_wr_reg_def mailbox_def now_def split: prod.splits)
  then show ?thesis using wr_reg_other [OF assms(1,2), of QLA83XX_IDC_DEV_STATE d] assms(3)
    by (simp add: steady_def)
qed

lemma steady_remote: "steady s s' \<Longrightarrow> remote s' \<longleftrightarrow> remote s"
  by (auto simp: steady_def dest: frame_fields)

lemma lock_steady:
  assumes "remote s" and "0 < N"
  obtains s' where "qla83xx_idc_lock io N s = Some s'" "steady s s'"
proof -
  obtain n where N: "N = Suc n" using assms(2) by (cases N) auto
  obtain v s1 where rd: "qla83xx_rd_reg io N QLA83XX_DRIVER_LOCK (io_junk io) s = Some (QLA_SUCCESS, v, s1)"
    and s1: "steady s s1" "v \<noteq> 0"
    by (rule rd_lock_steady [OF assms, of QLA83XX_DRIVER_LOCK "io_junk io"]) auto
  have "qla83xx_idc_lock io N s = Some (log_ev (Idc_locked True)
      (snd (qla83xx_wr_reg io QLA83XX_DRIVER_LOCKID (ucast (portnum s1)) s1)))"
    using rd s1 by (simp add: qla83xx_idc_lock_def N)
  moreover have "steady s (log_ev (Idc_locked True)
      (snd (qla83xx_wr_reg io QLA83XX_DRIVER_LOCKID (ucast (portnum s1)) s1)))"
    by (rule steady_log, rule steady_trans [OF s1(1)]) simp
  ultimately show ?thesis using that by blast
qed

lemma unlock_steady:
  assumes "remote s" and "0 < N"
  obtains s' where "qla83xx_idc_unlock io N s = Some s'" "steady s s'"
proof -
  have "\<exists>s'. unlock_loop io N n d s = Some s' \<and> steady s s'" if "remote s" for n d s
    using that
  proof (induction n arbitrary: d s)
    case (0 d s)
    obtain v s1 where rd: "qla83xx_rd_reg io N QLA83XX_DRIVER_LOCKID d s = Some (QLA_SUCCESS, v, s1)"
      and s1: "steady s s1" by (rule rd_lock_steady [OF 0 assms(2), of QLA83XX_DRIVER_LOCKID d]) auto
    obtain v' s2 where rd2: "qla83xx_rd_reg io N QLA83XX_DRIVER_UNLOCK v s1 = Some (QLA_SUCCESS, v', s2)"
      and s2: "steady s1 s2"
      by (rule rd_lock_steady [OF _ assms(2), of s1 QLA83XX_DRIVER_UNLOCK v])
        (use 0 s1 in \<open>auto simp: steady_remote\<close>)
    have "steady s (snd (qla83xx_wr_reg io QLA83XX_DRIVER_LOCKID 0xff s2))"
      using s1 s2 lockid_steady steady_trans by blast
    then show ?case using rd rd2 s1 by (subst unlock_loop.simps) auto
  next
    case (Suc n d s)
    obtain v s1 where rd: "qla83xx_rd_reg io N QLA83XX_DRIVER_LOCKID d s = Some (QLA_SUCCESS, v, s1)"
      and s1: "steady s s1"
      by (rule rd_lock_steady [OF Suc.prems assms(2), of QLA83XX_DRIVER_LOCKID d]) auto
    obtain v' s2 where rd2: "qla83xx_rd_reg io N QLA83XX_DRIVER_UNLOCK v s1 = Some (QLA_SUCCESS, v', s2)"
      and s2: "steady s1 s2"
      by (rule rd_lock_steady [OF _ assms(2), of s1 QLA83XX_DRIVER_UNLOCK v])
        (use Suc.prems s1 in \<open>auto simp: steady_remote\<close>)
    have w: "steady s (qla83xx_wait_logic io s1)" using s1 steady_wait(2) steady_trans by blast
    obtain s3 where "unlock_loop io N n v (qla83xx_wait_logic io s1) = Some s3"
      "steady (qla83xx_wait_logic io s1) s3"
      using Suc.IH Suc.prems steady_remote [OF w] by blast
    moreover have "steady s (snd (qla83xx_wr_reg io QLA83XX_DRIVER_LOCKID 0xff s2))"
      using s1 s2 lockid_steady steady_trans by blast
    ultimately show ?case using rd rd2 steady_trans [OF w]
      by (subst unlock_loop.simps) auto
  qed
  from this [OF assms(1)] obtain s1 where "unlock_loop io N 10 (io_junk io) s = Some s1" "steady s s1"
    by blast
  then show ?thesis using that [of "log_ev Idc_unlocked s1"]
    by (simp add: qla83xx_idc_unlock_def steady_log)
qed

lemma yield_steady:
  assumes "remote s" and "0 < N"
  obtains s' where "yield_lock io N 1000 s = Some s'" "steady s s'"
    "now io s + unat (io_HZ io) \<le> now io s'"
proof -
  obtain s1 where 1: "qla83xx_idc_unlock io N s = Some s1" "steady s s1"
    using unlock_steady [OF assms] by blast
  let ?s = "msleep io 1000 s1"
  have s: "steady s ?s" using 1 steady_trans steady_wait(1) by blast
  have t: "now io s + unat (io_HZ io) \<le> now io ?s"
    using 1(2) time_wait(3) [of "world s1"] by (simp add: steady_def now_def msleep_def)
  obtain s2 where 2: "qla83xx_idc_lock io N ?s = Some s2" "steady ?s s2"
    using lock_steady [OF _ assms(2), of ?s] assms(1) steady_remote [OF s] by blast
  have "steady s s2" using s 2(2) by (rule steady_trans)
  moreover have "now io ?s \<le> now io s2" using 2(2) by (simp add: steady_def)
  ultimately show ?thesis using that [of s2] 1 2 t by (simp add: yield_lock_def)
qed

end

end
