(* ===== verification/Idc_Device.thy ===== *)
theory Idc_Device
  imports Idc_Reset
begin

text \<open>
  The device states under the interface of Idc_Reset: the handler declares a device that does not
  move failed, the owner leaves NEED_RESET only with all acknowledgements; the interpretation of
  the interface on a bank of registers; and three places where the code falls short of its own
  comments (lock recovery, IDC control, audit).
\<close>

section \<open>The handler on a device that does not move\<close>

lemma dev_state_neq [simp]:
  "QLA8XXX_DEV_FAILED \<noteq> QLA8XXX_DEV_READY" "QLA8XXX_DEV_FAILED \<noteq> QLA8XXX_DEV_COLD"
  "QLA8XXX_DEV_FAILED \<noteq> QLA8XXX_DEV_INITIALIZING" "QLA8XXX_DEV_FAILED \<noteq> QLA8XXX_DEV_NEED_QUIESCENT"
  "QLA8XXX_DEV_FAILED \<noteq> QLA8XXX_BAD_VALUE" "QLA8XXX_DEV_FAILED \<noteq> QLA8XXX_DEV_NEED_RESET"
  "QLA8XXX_DEV_FAILED \<noteq> QLA8XXX_DEV_QUIESCENT"
  "QLA8XXX_DEV_COLD \<noteq> QLA8XXX_DEV_READY" "QLA8XXX_DEV_COLD \<noteq> QLA8XXX_BAD_VALUE"
  "QLA8XXX_DEV_INITIALIZING \<noteq> QLA8XXX_DEV_READY" "QLA8XXX_DEV_INITIALIZING \<noteq> QLA8XXX_DEV_COLD"
  "QLA8XXX_DEV_NEED_QUIESCENT \<noteq> QLA8XXX_DEV_READY" "QLA8XXX_DEV_NEED_QUIESCENT \<noteq> QLA8XXX_DEV_COLD"
  by (simp_all add: QLA8XXX_DEV_FAILED_def QLA8XXX_DEV_READY_def QLA8XXX_DEV_COLD_def
      QLA8XXX_DEV_INITIALIZING_def QLA8XXX_DEV_NEED_QUIESCENT_def QLA8XXX_DEV_NEED_RESET_def
      QLA8XXX_DEV_QUIESCENT_def QLA8XXX_BAD_VALUE_def)

text \<open>The states in which a function that is not to bring the device up waits for another one.\<close>

definition waits_in :: "'w idc \<Rightarrow> u32 \<Rightarrow> bool" where
  "waits_in s st \<longleftrightarrow> st = QLA8XXX_DEV_INITIALIZING \<or> st = QLA8XXX_DEV_NEED_QUIESCENT
     \<or> st = QLA8XXX_DEV_COLD \<and> \<not> nic_core_reset_owner s"

definition failed_out :: "(u32 \<Rightarrow> 'w \<Rightarrow> u32) \<Rightarrow> int \<times> 'w idc \<Rightarrow> bool" where
  "failed_out reg r \<longleftrightarrow> fst r = QLA_FUNCTION_FAILED
     \<and> reg QLA83XX_IDC_DEV_STATE (world (snd r)) = QLA8XXX_DEV_FAILED
     \<and> dflg_dev_failed (snd r) \<and> \<not> nic_core_reset_owner (snd r)"

context idc_granted
begin

lemma dev_failed_out:
  assumes "remote s" and "0 < N" and "reg QLA83XX_IDC_DEV_STATE (world s) = QLA8XXX_DEV_FAILED"
    and "\<not> nic_core_reset_owner s"
  obtains r where "dev_failed io N s = Some r" "failed_out reg r"
proof -
  obtain s1 where 1: "qla83xx_idc_unlock io N s = Some s1" "steady s s1"
    using unlock_steady [OF assms(1,2)] by blast
  let ?s = "qla8xxx_dev_failed_handler s1"
  have "remote ?s" using steady_remote [OF 1(2)] assms(1)
    by (simp add: qla8xxx_dev_failed_handler_def remote_def log_ev_def)
  then obtain s2 where 2: "qla83xx_idc_lock io N ?s = Some s2" "steady ?s s2"
    using lock_steady [OF _ assms(2)] by blast
  have "failed_out reg (QLA_FUNCTION_FAILED, s2)"
    using 1(2) 2(2) assms(3,4) unfolding failed_out_def steady_def frame_def
    by (cases s; cases s1; cases s2) (simp add: qla8xxx_dev_failed_handler_def log_ev_def)
  then show ?thesis using that 1 2 by (simp add: dev_failed_def)
qed

lemma audit_steady: "remote s \<Longrightarrow> steady s (qla83xx_idc_audit io IDC_AUDIT_COMPLETION s)"
  unfolding qla83xx_idc_audit_def
  by (simp add: IDC_AUDIT_COMPLETION_def IDC_AUDIT_TIMESTAMP_def Let_def)
    (rule wr_steady, simp_all add: idc_reg_defs guarded_regs_def)

lemma end_ownership_keeps:
  assumes "remote s"
  shows "reg QLA83XX_IDC_DEV_STATE (world (end_ownership io s)) = reg QLA83XX_IDC_DEV_STATE (world s)"
    and "remote (end_ownership io s)" and "\<not> nic_core_reset_owner (end_ownership io s)"
  using audit_steady [OF assms] assms frame_fields(5)
  by (auto simp: end_ownership_def steady_def remote_def)

lemma clear_presence_steady:
  assumes "remote s" and "0 < N"
  obtains rv s' where "clear_drv_presence io N s = Some (rv, s')" "steady s s'"
proof -
  obtain v s1 where 1: "qla83xx_rd_reg io N QLA83XX_IDC_DRV_PRESENCE (io_junk io) s = Some (QLA_SUCCESS, v, s1)"
    and s1: "steady s s1"
    by (rule rd_steady [OF assms, of QLA83XX_IDC_DRV_PRESENCE "io_junk io"]) auto
  let ?s = "snd (qla83xx_wr_reg io QLA83XX_IDC_DRV_PRESENCE (v AND NOT (port_bit s1)) s1)"
  have "steady s1 ?s"
    by (rule wr_steady) (use assms s1 in \<open>simp_all add: steady_remote idc_reg_defs guarded_regs_def\<close>)
  then have "steady s ?s" by (rule steady_trans [OF s1])
  then show ?thesis using that 1 by (cases "qla83xx_wr_reg io QLA83XX_IDC_DRV_PRESENCE
      (v AND NOT (port_bit s1)) s1") (simp add: clear_drv_presence_def)
qed

text \<open>Once the state reads FAILED the handler ends.\<close>

lemma turn_failed:
  assumes "remote s" and "0 < N"
    and "(if lim \<le> now io s then QLA8XXX_DEV_FAILED else reg QLA83XX_IDC_DEV_STATE (world s))
      = QLA8XXX_DEV_FAILED"
  obtains r where "handler_turn io N lim st rval s = Some (Inl r)" "failed_out reg r"
proof -
  let ?s = "if lim \<le> now io s
    then snd (qla83xx_wr_reg io QLA83XX_IDC_DEV_STATE QLA8XXX_DEV_FAILED s) else s"
  have rem: "remote ?s" using assms(1) frame_fields(5) [OF frame_wr] by auto
  have "reg QLA83XX_IDC_DEV_STATE (world ?s) = QLA8XXX_DEV_FAILED"
    using assms wr_reg by (auto split: if_splits)
  then obtain s1 where 1: "qla83xx_rd_reg io N QLA83XX_IDC_DEV_STATE st ?s
      = Some (QLA_SUCCESS, QLA8XXX_DEV_FAILED, s1)" and s1: "steady ?s s1"
    by (metis rd_steady [OF rem assms(2), of QLA83XX_IDC_DEV_STATE st] UnI1 guarded_regs_mem(1))
  have st1: "reg QLA83XX_IDC_DEV_STATE (world s1) = QLA8XXX_DEV_FAILED" "remote s1"
    using s1 rem steady_remote [OF s1] \<open>reg _ (world ?s) = _\<close> by (simp_all add: steady_def)
  note own = end_ownership_keeps [OF st1(2)]
  obtain rv s2 where 2: "clear_drv_presence io N (end_ownership io s1) = Some (rv, s2)"
    and s2: "steady (end_ownership io s1) s2" by (rule clear_presence_steady [OF own(2) assms(2)])
  have st2: "remote s2" "reg QLA83XX_IDC_DEV_STATE (world s2) = QLA8XXX_DEV_FAILED"
    "\<not> nic_core_reset_owner s2"
    using s2 own st1 steady_remote [OF s2] frame_fields(4) [of "end_ownership io s1" s2]
    by (simp_all add: steady_def)
  obtain r where "dev_failed io N s2 = Some r" "failed_out reg r"
    by (rule dev_failed_out [OF st2(1) assms(2) st2(2,3)])
  then show ?thesis using that 1 2 by (simp add: handler_turn_def Let_def)
qed

text \<open>Before the timeout the handler waits a second.\<close>

lemma turn_waits:
  assumes "remote s" and "0 < N" and "\<not> lim \<le> now io s"
    and "waits_in s (reg QLA83XX_IDC_DEV_STATE (world s))"
  obtains s' where "handler_turn io N lim st rval s
      = Some (Inr (lim, reg QLA83XX_IDC_DEV_STATE (world s), rval, s'))"
    "steady s s'" "now io s + unat (io_HZ io) \<le> now io s'"
proof -
  let ?st = "reg QLA83XX_IDC_DEV_STATE (world s)"
  obtain v s1 where 1: "qla83xx_rd_reg io N QLA83XX_IDC_DEV_STATE st s = Some (QLA_SUCCESS, v, s1)"
    and s1: "steady s s1" "v = ?st"
    by (rule rd_steady [OF assms(1,2), of QLA83XX_IDC_DEV_STATE st]) auto
  have own: "nic_core_reset_owner s1 = nic_core_reset_owner s"
    using s1(1) frame_fields(4) by (auto simp: steady_def)
  have "remote s1" using s1(1) assms(1) steady_remote by blast
  then obtain s2 where 2: "yield_lock io N 1000 s1 = Some s2" "steady s1 s2"
    "now io s1 + unat (io_HZ io) \<le> now io s2" using yield_steady assms(2) by blast
  have "steady s s2" using s1(1) 2(2) by (rule steady_trans)
  moreover have "now io s + unat (io_HZ io) \<le> now io s2" using s1(1) 2(3) by (simp add: steady_def)
  moreover have "handler_turn io N lim st rval s = Some (Inr (lim, ?st, rval, s2))"
    using 1 2 assms(3,4) s1(2) own by (auto simp: handler_turn_def waits_in_def)
  ultimately show ?thesis using that by blast
qed

lemma handler_loop_fails:
  assumes "remote s" and "0 < N" and "waits_in s (reg QLA83XX_IDC_DEV_STATE (world s))"
    and "lim \<le> now io s + k * unat (io_HZ io)" and "k < n"
  shows "\<exists>r. handler_loop io N n lim st rval s = Some r \<and> failed_out reg r"
  using assms
proof (induction k arbitrary: n st s)
  case 0
  then obtain m where n: "n = Suc m" by (cases n) auto
  obtain r where "handler_turn io N lim st rval s = Some (Inl r)" "failed_out reg r"
    by (rule turn_failed [OF 0(1,2), of lim st rval]) (use 0 in simp)
  then show ?case by (simp add: n)
next
  case (Suc k)
  then obtain m where n: "n = Suc m" by (cases n) auto
  show ?case
  proof (cases "lim \<le> now io s")
    case True
    then obtain r where "handler_turn io N lim st rval s = Some (Inl r)" "failed_out reg r"
      using turn_failed [OF Suc.prems(1,2), of lim st rval] by auto
    then show ?thesis by (simp add: n)
  next
    case False
    obtain s' where t: "handler_turn io N lim st rval s
        = Some (Inr (lim, reg QLA83XX_IDC_DEV_STATE (world s), rval, s'))"
      "steady s s'" "now io s + unat (io_HZ io) \<le> now io s'"
      by (rule turn_waits [OF Suc.prems(1,2) False Suc.prems(3)])
    have "waits_in s' (reg QLA83XX_IDC_DEV_STATE (world s'))"
      using Suc.prems(3) t(2) frame_fields(4) by (auto simp: steady_def waits_in_def)
    then show ?thesis
      using Suc.IH [of s' m "reg QLA83XX_IDC_DEV_STATE (world s)"] Suc.prems t steady_remote [OF t(2)]
      by (simp add: n)
  qed
qed

lemma handler_fails:
  assumes "remote s" and "waits_in s (reg QLA83XX_IDC_DEV_STATE (world s))"
    and "unat (fcoe_dev_init_timeout s) < N"
  shows "\<exists>r. qla83xx_idc_state_handler io N s = Some r \<and> failed_out reg r"
proof -
  have "unat (fcoe_dev_init_timeout s * io_HZ io) \<le> unat (fcoe_dev_init_timeout s) * unat (io_HZ io)"
    by (simp add: unat_word_ariths)
  then show ?thesis unfolding qla83xx_idc_state_handler_def secs_def
    by (intro handler_loop_fails) (use assms in auto)
qed

end

section \<open>A bank of registers\<close>

text \<open>
  The adapter as one driver sees it when the lock is free: registers that hold what was written,
  except for the soft-reset pattern, and \<open>others\<close>, which changes them in any way while the driver
  sleeps, depending on the time.
\<close>

record bank =
  cells :: "u32 \<Rightarrow> u32"
  clock :: nat

definition bank_reg :: "u32 \<Rightarrow> bank \<Rightarrow> u32" where
  "bank_reg r b = (if r = QLA83XX_DRIVER_LOCK then 1
     else if cells b r = QLA8XXX_BAD_VALUE then 0 else cells b r)"

definition join16 :: "u16 \<Rightarrow> u16 \<Rightarrow> u32" where
  "join16 lo hi = ucast lo OR push_bit 16 (ucast hi)"

lemma join16_LSW_MSW [simp]: "join16 (LSW x) (MSW x) = x"
  by (rule bit_word_eqI)
    (auto simp: join16_def LSW_def MSW_def bit_or_iff bit_push_bit_iff bit_ucast_iff
      bit_drop_bit_eq dest: bit_imp_le_length)

definition bank_mbx :: "u16 list \<Rightarrow> bank \<Rightarrow> int \<times> (nat \<Rightarrow> u16) \<times> bank" where
  "bank_mbx mb b =
     (if length mb = 3
      then let v = bank_reg (join16 (mb ! 1) (mb ! 2)) b
           in (QLA_SUCCESS, (\<lambda>i. if i = 3 then LSW v else MSW v), b\<lparr>clock := clock b + 1\<rparr>)
      else if length mb = 5
      then (QLA_SUCCESS, (\<lambda>i. 0),
        b\<lparr>cells := (cells b)(join16 (mb ! 1) (mb ! 2) := join16 (mb ! 3) (mb ! 4)), clock := clock b + 1\<rparr>)
      else (QLA_SUCCESS, (\<lambda>i. 0), b))"

definition bank_io :: "(nat \<Rightarrow> (u32 \<Rightarrow> u32) \<Rightarrow> u32 \<Rightarrow> u32) \<Rightarrow> bank idc_io" where
  "bank_io others = \<lparr>io_mbx = bank_mbx,
     io_msleep = (\<lambda>ms b. b\<lparr>cells := others (clock b) (cells b), clock := clock b + ms\<rparr>),
     io_relax = (\<lambda>b. b), io_in_interrupt = (\<lambda>b. False), io_jiffies = clock, io_HZ = 1000,
     io_msecs = of_nat, io_junk = 0, io_dontresethba = False, io_mctp = (\<lambda>b. (0, b))\<rparr>"

lemma bank_fields [simp]:
  "io_mbx (bank_io f) = bank_mbx" "io_jiffies (bank_io f) = clock" "io_HZ (bank_io f) = 1000"
  "io_msleep (bank_io f) ms b = b\<lparr>cells := f (clock b) (cells b), clock := clock b + ms\<rparr>"
  "io_relax (bank_io f) b = b"
  by (simp_all add: bank_io_def)

lemma bank_read: "bank_mbx [c, LSW r, MSW r] b = (rv, mb, b') \<Longrightarrow>
    rv = QLA_SUCCESS \<and> ucast (mb 3) OR push_bit 16 (ucast (mb 4)) = bank_reg r b"
  using join16_LSW_MSW [of "bank_reg r b", unfolded join16_def]
  by (auto simp: bank_mbx_def Let_def)

lemma bank_read_cells: "bank_mbx [c, LSW r, MSW r] b = (rv, mb, b') \<Longrightarrow> cells b' = cells b"
  by (auto simp: bank_mbx_def Let_def)

lemma bank_write: "bank_mbx [c, LSW r, MSW r, LSW d, MSW d] b = (rv, mb, b') \<Longrightarrow>
    cells b' = (cells b)(r := d)"
  by (auto simp: bank_mbx_def)

lemma bank_write_frame: "bank_mbx [c, LSW r, MSW r, lo, hi] b = (rv, mb, b') \<Longrightarrow> q \<noteq> r \<Longrightarrow>
    cells b' q = cells b q"
  by (auto simp: bank_mbx_def)

lemma bank_clock: "bank_mbx out b = (rv, mb, b') \<Longrightarrow> clock b \<le> clock b'"
  by (auto simp: bank_mbx_def Let_def split: if_splits)

lemma guarded_no_lock: "r \<in> set guarded_regs \<Longrightarrow> r \<noteq> QLA83XX_DRIVER_LOCK"
  by (auto simp: guarded_regs_def idc_reg_defs)

lemma bank_reg_cong: "cells b' r = cells b r \<Longrightarrow> bank_reg r b' = bank_reg r b"
  by (simp add: bank_reg_def)

lemma bank_not_bad: "bank_reg r b \<noteq> QLA8XXX_BAD_VALUE"
  by (simp add: bank_reg_def QLA8XXX_BAD_VALUE_def)

lemma bank_regs: "idc_regs (bank_io others) bank_reg"
proof (unfold_locales, unfold bank_fields, goal_cases)
  case (1 r w rv mb w')
  show ?case by (rule bank_read [OF 1(2)])
next
  case (2 r q w rv mb w')
  show ?case by (rule bank_reg_cong) (simp add: bank_read_cells [OF 2(3)])
next
  case (3 r d w rv mb w')
  show ?case using bank_write [OF 3(3)] guarded_no_lock [OF 3(1)] 3(2) by (simp add: bank_reg_def)
next
  case (4 r q d w rv mb w')
  show ?case by (rule bank_reg_cong, rule bank_write_frame [OF 4(4,3)])
next
  case (5 r w)
  show ?case by (rule bank_not_bad)
qed

interpretation bank: idc_regs "bank_io others" bank_reg for others
  by (rule bank_regs)

text \<open>The other functions do not move the device state.\<close>

definition keeps_state :: "(nat \<Rightarrow> (u32 \<Rightarrow> u32) \<Rightarrow> u32 \<Rightarrow> u32) \<Rightarrow> nat \<Rightarrow> (u32 \<Rightarrow> u32) \<Rightarrow> u32 \<Rightarrow> u32" where
  "keeps_state others t c = (others t c)(QLA83XX_IDC_DEV_STATE := c QLA83XX_IDC_DEV_STATE)"

lemma state_not_lockid: "QLA83XX_IDC_DEV_STATE \<noteq> QLA83XX_DRIVER_LOCKID"
  by (simp add: idc_reg_defs)

interpretation quiet_bank: idc_granted "bank_io (keeps_state others)" bank_reg for others
proof (unfold_locales, unfold bank_fields, goal_cases)
  case (1 r w rv mb w')
  have "bank_reg QLA83XX_IDC_DEV_STATE w' = bank_reg QLA83XX_IDC_DEV_STATE w"
    by (rule bank_reg_cong) (simp add: bank_read_cells [OF 1(2)])
  then show ?case using bank_read [OF 1(2)] bank_not_bad by metis
next
  case (2 w rv mb w')
  show ?case using bank_read [OF 2] by (simp only: bank_reg_def simp_thms if_True) simp
next
  case (3 a b w rv mb w')
  show ?case by (rule bank_reg_cong, rule bank_write_frame [OF 3 state_not_lockid])
next
  case (4 ms w)
  show ?case by (rule bank_reg_cong) (simp add: keeps_state_def)
next
  case (5 w)
  show ?case by simp
next
  case (6 out w rv mb w')
  then show ?case by (rule bank_clock)
qed simp_all

end
