(* ===== verification/Idc_Owner.thy ===== *)
theory Idc_Owner
  imports Idc_State
begin

text \<open>
  The election of the reset owner: the scan of the partition registers finds the lowest other FCoE
  function, and a function claims the reset iff it is the lowest one and no driver of another
  protocol is present. Two FCoE functions that see the same partition can therefore not both
  claim it.
\<close>

definition is_fcoe :: "u32 \<Rightarrow> u32 \<Rightarrow> nat \<Rightarrow> bool" where
  "is_fcoe info1 info2 f \<longleftrightarrow>
     (if f < 8 then class_type info1 f = QLA83XX_CLASS_TYPE_FCOE
      else f < 16 \<and> class_type info2 (f - 8) = QLA83XX_CLASS_TYPE_FCOE)"

definition other_fcoe :: "u32 \<Rightarrow> u32 \<Rightarrow> u16 \<Rightarrow> nat \<Rightarrow> bool" where
  "other_fcoe info1 info2 port f \<longleftrightarrow> is_fcoe info1 info2 f \<and> f \<noteq> unat port"

definition lowest_other :: "u32 \<Rightarrow> u32 \<Rightarrow> u16 \<Rightarrow> nat \<Rightarrow> bool" where
  "lowest_other info1 info2 port f \<longleftrightarrow>
     other_fcoe info1 info2 port f \<and> (\<forall>g. other_fcoe info1 info2 port g \<longrightarrow> f \<le> g)"

lemma is_fcoe_less: "is_fcoe info1 info2 f \<Longrightarrow> f < 16"
  by (auto simp: is_fcoe_def split: if_splits)

lemma find_fcoe_None:
  "find_fcoe info port base is = None \<longleftrightarrow>
     (\<forall>i \<in> set is. \<not> (class_type info i = QLA83XX_CLASS_TYPE_FCOE \<and> of_nat (i + base) \<noteq> port))"
  by (induction "is") auto

lemma find_fcoe_Some:
  "find_fcoe info port base [a..<b] = Some f \<Longrightarrow>
     \<exists>i. a \<le> i \<and> i < b \<and> f = of_nat (i + base) \<and> class_type info i = QLA83XX_CLASS_TYPE_FCOE
       \<and> f \<noteq> port
       \<and> (\<forall>j. a \<le> j \<longrightarrow> j < i \<longrightarrow>
            \<not> (class_type info j = QLA83XX_CLASS_TYPE_FCOE \<and> of_nat (j + base) \<noteq> port))"
proof (induction "b - a" arbitrary: a)
  case (Suc n)
  then have ab: "[a..<b] = a # [Suc a..<b]" by (simp add: upt_conv_Cons)
  show ?case
  proof (cases "class_type info a = QLA83XX_CLASS_TYPE_FCOE \<and> of_nat (a + base) \<noteq> port")
    case True
    then show ?thesis using Suc.prems Suc.hyps(2) ab by (intro exI [of _ a]) auto
  next
    case False
    then have "find_fcoe info port base [Suc a..<b] = Some f" using Suc.prems ab
      by (auto split: if_splits)
    have "n = b - Suc a" using Suc.hyps(2) by simp
    from Suc.hyps(1) [OF this \<open>find_fcoe info port base [Suc a..<b] = Some f\<close>] obtain i where "Suc a \<le> i" "i < b"
      "f = of_nat (i + base)" "class_type info i = QLA83XX_CLASS_TYPE_FCOE" "f \<noteq> port"
      "\<forall>j. Suc a \<le> j \<longrightarrow> j < i \<longrightarrow>
         \<not> (class_type info j = QLA83XX_CLASS_TYPE_FCOE \<and> of_nat (j + base) \<noteq> port)" by blast
    then show ?thesis using False by (intro exI [of _ i]) (auto simp: le_Suc_eq Suc_le_eq dest: le_neq_implies_less)
  qed
qed simp

lemma of_nat_port: "f < 16 \<Longrightarrow> (of_nat f = (p::u16)) \<longleftrightarrow> f = unat p"
  by (auto simp: unat_of_nat take_bit_nat_eq_self_iff)

lemma unat_small: "f < 16 \<Longrightarrow> unat (of_nat f :: u16) = f"
  by (simp add: unat_of_nat take_bit_nat_eq_self_iff)

lemma other_function_none:
  assumes "\<And>f. \<not> other_fcoe info1 info2 p f"
  shows "fcoe_other_function info1 info2 p = 0xffff"
proof -
  have "find_fcoe info1 p 0 [0..<8] = None"
    unfolding find_fcoe_None
  proof
    fix i assume "i \<in> set [0..<8]"
    then show "\<not> (class_type info1 i = QLA83XX_CLASS_TYPE_FCOE \<and> of_nat (i + 0) \<noteq> p)"
      using assms [of i] of_nat_port [of i p] by (auto simp: other_fcoe_def is_fcoe_def)
  qed
  moreover have "find_fcoe info2 p 8 [0..<8] = None"
    unfolding find_fcoe_None
  proof
    fix i assume "i \<in> set [0..<8]"
    then show "\<not> (class_type info2 i = QLA83XX_CLASS_TYPE_FCOE \<and> of_nat (i + 8) \<noteq> p)"
      using assms [of "i + 8"] of_nat_port [of "i + 8" p] by (auto simp: other_fcoe_def is_fcoe_def)
  qed
  ultimately show ?thesis by (simp add: fcoe_other_function_def)
qed

lemma other_function_lowest:
  assumes "other_fcoe info1 info2 p f"
  shows "\<exists>g. lowest_other info1 info2 p g \<and> fcoe_other_function info1 info2 p = of_nat g"
proof (cases "find_fcoe info1 p 0 [0..<8]")
  case (Some r)
  from find_fcoe_Some [OF this] obtain i where i: "i < 8" "r = of_nat i"
    "class_type info1 i = QLA83XX_CLASS_TYPE_FCOE" "r \<noteq> p"
    "\<forall>j < i. \<not> (class_type info1 j = QLA83XX_CLASS_TYPE_FCOE \<and> of_nat j \<noteq> p)" by auto
  have "lowest_other info1 info2 p i"
    unfolding lowest_other_def other_fcoe_def
  proof (intro conjI allI impI)
    show "is_fcoe info1 info2 i" using i by (simp add: is_fcoe_def)
    show "i \<noteq> unat p" using i of_nat_port [of i p] by auto
    fix g assume g: "is_fcoe info1 info2 g \<and> g \<noteq> unat p"
    show "i \<le> g"
    proof (rule ccontr)
      assume "\<not> i \<le> g"
      then show False using g i(1,5) of_nat_port [of g p] by (auto simp: is_fcoe_def)
    qed
  qed
  then show ?thesis using Some i(2) by (auto simp: fcoe_other_function_def)
next
  case None
  then have none: "\<not> other_fcoe info1 info2 p g" if "g < 8" for g
    using that of_nat_port [of g p] unfolding find_fcoe_None
    by (auto simp: other_fcoe_def is_fcoe_def)
  show ?thesis
  proof (cases "find_fcoe info2 p 8 [0..<8]")
    case (Some r)
    from find_fcoe_Some [OF this] obtain i where i: "i < 8" "r = of_nat (i + 8)"
      "class_type info2 i = QLA83XX_CLASS_TYPE_FCOE" "r \<noteq> p"
      "\<forall>j < i. \<not> (class_type info2 j = QLA83XX_CLASS_TYPE_FCOE \<and> of_nat (j + 8) \<noteq> p)" by auto
    have "lowest_other info1 info2 p (i + 8)"
      unfolding lowest_other_def
    proof (intro conjI allI impI)
      show "other_fcoe info1 info2 p (i + 8)"
        using i of_nat_port [of "i + 8" p] by (auto simp: other_fcoe_def is_fcoe_def)
      fix g assume g: "other_fcoe info1 info2 p g"
      then have "8 \<le> g" "g < 16" using none by (auto simp: other_fcoe_def dest: is_fcoe_less intro: leI)
      show "i + 8 \<le> g"
      proof (rule ccontr)
        assume "\<not> i + 8 \<le> g"
        then have "g - 8 < i" using \<open>8 \<le> g\<close> by linarith
        with i(5) have "\<not> (class_type info2 (g - 8) = QLA83XX_CLASS_TYPE_FCOE \<and> of_nat (g - 8 + 8) \<noteq> p)"
          by blast
        then show False using g \<open>8 \<le> g\<close> \<open>g < 16\<close> of_nat_port [of g p]
          by (auto simp: other_fcoe_def is_fcoe_def)
      qed
    qed
    then show ?thesis using None i(2) Some by (auto simp: fcoe_other_function_def)
  next
    case None2: None
    have "8 \<le> f" "f < 16" using none assms by (auto simp: other_fcoe_def dest: is_fcoe_less intro: leI)
    then have "f - 8 \<in> set [0..<8]" by auto
    with None2 have "\<not> (class_type info2 (f - 8) = QLA83XX_CLASS_TYPE_FCOE \<and> of_nat (f - 8 + 8) \<noteq> p)"
      unfolding find_fcoe_None by blast
    then show ?thesis using assms \<open>8 \<le> f\<close> \<open>f < 16\<close> of_nat_port [of f p]
      by (auto simp: other_fcoe_def is_fcoe_def)
  qed
qed

lemma masked_zero:
  assumes "m = NOT (push_bit i 1 OR k)"
  shows "(pres::u32) AND m = 0 \<longleftrightarrow> (\<forall>b<32. bit pres b \<longrightarrow> b = i \<or> bit k b)"
proof -
  have "pres AND m = 0 \<longleftrightarrow> (\<forall>b<32. \<not> (bit pres b \<and> bit m b))"
    by (simp add: bit_eq_iff bit_and_iff possible_bit_def)
  also have "\<dots> \<longleftrightarrow> (\<forall>b<32. bit pres b \<longrightarrow> b = i \<or> bit k b)"
    by (auto simp: assms bit_not_iff bit_or_iff bit_and_iff bit_exp_iff possible_bit_def)
  finally show ?thesis .
qed

text \<open>
  A function claims the reset iff it is below every other FCoE function of the partition
  registers and the presence register shows no driver but itself and the lowest of the other FCoE
  functions.
\<close>

theorem reset_owner_elected:
  assumes "unat p < 16"
  shows "claims_reset pres info1 info2 p \<longleftrightarrow>
    (\<forall>f. other_fcoe info1 info2 p f \<longrightarrow> unat p < f) \<and>
    (\<forall>b<32. bit pres b \<longrightarrow> b = unat p \<or> lowest_other info1 info2 p b)"
proof (cases "\<exists>f. other_fcoe info1 info2 p f")
  case False
  then have other: "fcoe_other_function info1 info2 p = 0xffff" using other_function_none by blast
  have "p < 0xffff" using assms by (simp add: word_less_nat_alt)
  then show ?thesis using False other masked_zero [OF refl, of pres "unat p" 0]
    by (simp add: claims_reset_def lowest_other_def)
next
  case True
  then obtain g where g: "lowest_other info1 info2 p g"
    and other: "fcoe_other_function info1 info2 p = of_nat g" using other_function_lowest by blast
  have g16: "g < 16" using g by (auto simp: lowest_other_def other_fcoe_def dest: is_fcoe_less)
  have u: "unat (of_nat g :: u16) = g" using g16 by (rule unat_small)
  have ne: "(of_nat g :: u16) \<noteq> 0xffff"
  proof
    assume "(of_nat g :: u16) = 0xffff"
    then have "g = unat (0xffff :: u16)" using u by metis
    then show False using g16 by simp
  qed
  have less: "p < of_nat g \<longleftrightarrow> unat p < g" using u by (simp add: word_less_nat_alt)
  have low: "lowest_other info1 info2 p b \<longleftrightarrow> b = g" for b
    using g by (auto simp: lowest_other_def intro: antisym)
  have all: "(\<forall>f. other_fcoe info1 info2 p f \<longrightarrow> unat p < f) \<longleftrightarrow> unat p < g"
    using g by (auto simp: lowest_other_def intro: less_le_trans)
  have bitk: "bit (push_bit g (1::u32)) b \<longleftrightarrow> b = g" if "b < 32" for b
    using that g16 by (auto simp: bit_exp_iff possible_bit_def)
  show ?thesis
    using masked_zero [OF refl, of pres "unat p" "push_bit g 1"] bitk
    by (auto simp: claims_reset_def Let_def other ne u less low all)
qed

theorem reset_owner_elected_witness:
  "claims_reset 0x3 0x22 0 0 \<longleftrightarrow>
    (\<forall>f. other_fcoe 0x22 0 0 f \<longrightarrow> unat (0::u16) < f) \<and>
    (\<forall>b<32. bit (0x3::u32) b \<longrightarrow> b = unat (0::u16) \<or> lowest_other 0x22 0 0 b)"
  by (rule reset_owner_elected) simp

text \<open>
  C14. Two different FCoE functions of one adapter never both claim the reset, even when they have
  read the presence register at different times.
\<close>

theorem reset_owner_unique:
  assumes "is_fcoe info1 info2 (unat p)" and "is_fcoe info1 info2 (unat q)" and "p \<noteq> q"
  shows "\<not> (claims_reset pres info1 info2 p \<and> claims_reset pres' info1 info2 q)"
proof -
  have ne: "unat p \<noteq> unat q" using assms(3) by (simp add: word_unat_eq_iff)
  have below: "unat q < unat r" if "claims_reset v info1 info2 q" "is_fcoe info1 info2 (unat r)"
    "unat r \<noteq> unat q" for q r v
  proof -
    have "other_fcoe info1 info2 q (unat r)" using that by (simp add: other_fcoe_def)
    then obtain g where "lowest_other info1 info2 q g"
      and "fcoe_other_function info1 info2 q = of_nat g" using other_function_lowest by blast
    moreover have "g \<le> unat r" "g < 16" using calculation(1) \<open>other_fcoe info1 info2 q (unat r)\<close>
      by (auto simp: lowest_other_def other_fcoe_def dest: is_fcoe_less)
    ultimately show ?thesis using that(1) unat_small [of g]
      by (auto simp: claims_reset_def Let_def word_less_nat_alt)
  qed
  show ?thesis using below [of pres p q] below [of pres' q p] assms(1,2) ne by auto
qed

theorem reset_owner_unique_witness:
  "\<not> (claims_reset 0x3 0x22 0 0 \<and> claims_reset 0x3 0x22 0 1)"
  by (rule reset_owner_unique)
    (simp_all add: is_fcoe_def class_type_def QLA83XX_CLASS_TYPE_FCOE_def)

end
