(* ===== verification/Idc_Claims.thy ===== *)
theory Idc_Claims
  imports Idc_Device Idc_Owner
begin

text \<open>
  What the IDC code guarantees: the shared registers are written under the lock only; at most one
  FCoE function claims a reset; the owner leaves NEED_RESET only when every present function has
  acknowledged; a device that stays in a transitional state is declared failed in bounded time.
\<close>

section \<open>Entry points\<close>

text \<open>Everything that starts from outside, run to its end.\<close>

definition idc_entry_points :: "'w idc_io \<Rightarrow> nat \<Rightarrow> ('w idc \<Rightarrow> 'w idc option) list" where
  "idc_entry_points io N =
     [map_option snd \<circ> qla83xx_nic_core_fw_load io N, map_option snd \<circ> qla83xx_nic_core_reset io N,
      qla83xx_nic_core_unrecoverable_work io N, qla83xx_idc_state_handler_work io N,
      qla83xx_nic_core_reset_work io N, qla83xx_service_idc_aen io N,
      map_option snd \<circ> qla83xx_set_drv_presence io N,
      map_option snd \<circ> qla83xx_clear_drv_presence io N,
      sysfs_mpi_reset io N, sysfs_reset_control io N True, sysfs_reset_control io N False]"

lemma lock_state_schedule [simp]: "lock_state (qla83xx_schedule_work c s) = lock_state s"
  by (simp add: qla83xx_schedule_work_def queue_work_def)

lemma held_major_check:
  "idc_major_check io N s = Some (ok, s') \<Longrightarrow> lock_state s = Some True \<Longrightarrow> lock_state s' = Some True"
  by (auto simp: idc_major_check_def bind_eq_Some_conv split: if_splits
      dest!: lock_state_rd held_clear_presence)

lemma held_minor_set:
  "idc_minor_set io N s = Some s' \<Longrightarrow> lock_state s = Some True \<Longrightarrow> lock_state s' = Some True"
  by (auto simp: idc_minor_set_def Let_def bind_eq_Some_conv split_beta split: if_splits
      dest!: lock_state_rd)

lemma fw_load_released:
  "qla83xx_nic_core_fw_load io N s = Some (rv, s') \<Longrightarrow> lock_state s = Some False
    \<Longrightarrow> lock_state s' = Some False"
  by (auto simp: qla83xx_nic_core_fw_load_def bind_eq_Some_conv split: if_splits
      dest!: lock_state_lock lock_state_unlock held_set_presence lock_state_ownership
        held_handler held_major_check held_minor_set)

lemma reset_released:
  "qla83xx_nic_core_reset io N s = Some (rv, s') \<Longrightarrow> lock_state s = Some False
    \<Longrightarrow> lock_state s' = Some False"
  by (auto simp: qla83xx_nic_core_reset_def bind_eq_Some_conv split: if_splits
      dest!: lock_state_lock lock_state_unlock lock_state_check_presence
        held_clear_ack lock_state_ownership held_handler held_initiating)

lemma read_locked_released:
  "read_locked io N r d s = Some (v, s') \<Longrightarrow> lock_state s = Some False \<Longrightarrow> lock_state s' = Some False"
  by (auto simp: read_locked_def bind_eq_Some_conv
      dest!: lock_state_lock lock_state_unlock lock_state_rd)

lemma alive_released:
  "qla83xx_check_nic_core_fw_alive io N s = Some (rv, s') \<Longrightarrow> lock_state s = Some False
    \<Longrightarrow> lock_state s' = Some False"
proof -
  have "heartbeat_loop io N n lim c1 c2 s = Some (rv, s') \<Longrightarrow> lock_state s = Some False
    \<Longrightarrow> lock_state s' = Some False" for n lim c1 c2
  proof (induction n arbitrary: c1 c2 s)
    case (Suc n)
    from Suc.prems show ?case
      by (auto simp: bind_eq_Some_conv split: if_splits dest!: read_locked_released dest: Suc.IH)
  qed simp
  then show "qla83xx_check_nic_core_fw_alive io N s = Some (rv, s') \<Longrightarrow> lock_state s = Some False
    \<Longrightarrow> lock_state s' = Some False" by (simp add: qla83xx_check_nic_core_fw_alive_def)
qed

lemmas work_defs = qla83xx_nic_core_unrecoverable_work_def qla83xx_idc_state_handler_work_def
  qla83xx_nic_core_reset_work_def qla83xx_service_idc_aen_def qla83xx_set_drv_presence_def
  qla83xx_clear_drv_presence_def sysfs_mpi_reset_def sysfs_reset_control_def
  get_idc_control_def set_idc_control_def

lemma work_released:
  assumes "lock_state s = Some False"
  shows "qla83xx_nic_core_unrecoverable_work io N s = Some s' \<Longrightarrow> lock_state s' = Some False"
    and "qla83xx_idc_state_handler_work io N s = Some s' \<Longrightarrow> lock_state s' = Some False"
    and "qla83xx_nic_core_reset_work io N s = Some s' \<Longrightarrow> lock_state s' = Some False"
    and "qla83xx_service_idc_aen io N s = Some s' \<Longrightarrow> lock_state s' = Some False"
    and "qla83xx_set_drv_presence io N s = Some (rv, s') \<Longrightarrow> lock_state s' = Some False"
    and "qla83xx_clear_drv_presence io N s = Some (rv, s') \<Longrightarrow> lock_state s' = Some False"
    and "sysfs_mpi_reset io N s = Some s' \<Longrightarrow> lock_state s' = Some False"
    and "sysfs_reset_control io N dis s = Some s' \<Longrightarrow> lock_state s' = Some False"
  using assms
  by (auto simp: work_defs Let_def bind_eq_Some_conv split: if_splits
      dest!: lock_state_lock lock_state_unlock lock_state_rd lock_state_ownership held_handler
        alive_released read_locked_released reset_released held_set_presence held_clear_presence)

text \<open>
  C13. Whatever entry point of the IDC code runs, from a state in which the driver is between no
  lock call and its unlock, every register the functions share (device state, presence,
  acknowledge, control, audit and the versions) is written between a lock call and the unlock
  call that follows it; lock calls are not nested; and at the end the driver has made the last
  unlock. This holds for every answer of the firmware, failed commands included, and for every
  outcome of the lock calls.
\<close>

theorem idc_writes_under_lock:
  assumes "f \<in> set (idc_entry_points io N)" and "lock_state s = Some False" and "f s = Some s'"
  shows "lock_state s' = Some False"
  using assms fw_load_released reset_released work_released [OF assms(2)]
  by (auto simp: idc_entry_points_def)

section \<open>A sample adapter\<close>

definition sample_bank :: "(u32 \<Rightarrow> u32) \<Rightarrow> bank idc" where
  "sample_bank c = \<lparr>world = \<lparr>cells = c, clock = 0\<rparr>, idc_dt = DT_ISP8031, portnum = 0,
     fcoe_dev_init_timeout = 30, fcoe_reset_timeout = 10, idc_audit_ts = 0,
     nic_core_reset_owner = True, nic_core_hung = False, nic_core_reset_hdlr_active = False,
     quiesce_owner = False, dflg_dev_failed = False, idc_online = True, idc_init_done = True,
     dpc_lp_wq = True, dpc_hp_wq = True, queued_work = [], idc_trace = []\<rparr>"

lemma sample_remote [simp]: "remote (sample_bank c)"
  by (simp add: sample_bank_def remote_def dt_defs)

lemma sample_lock_state [simp]: "lock_state (sample_bank c) = Some False"
  by (simp add: sample_bank_def lock_state_def)

text \<open>Functions 0 and 1 are present and both have acknowledged.\<close>

definition acked_cells :: "u32 \<Rightarrow> u32" where
  "acked_cells = (\<lambda>r. 0)(QLA83XX_IDC_DRV_PRESENCE := 3, QLA83XX_IDC_DRIVER_ACK := 3,
     QLA83XX_IDC_DEV_STATE := QLA8XXX_DEV_NEED_RESET)"

lemma sample_need_reset:
  "\<exists>s'. qla83xx_need_reset_handler (bank_io (keeps_state others)) 1 (sample_bank acked_cells) = Some s'"
proof -
  let ?io = "bank_io (keeps_state others)" and ?s = "sample_bank acked_cells"
  have a: "bank_reg QLA83XX_IDC_DRIVER_ACK (world ?s) = 3" "bank_reg QLA83XX_IDC_DRV_PRESENCE (world ?s) = 3"
    by (simp_all add: sample_bank_def acked_cells_def bank_reg_def idc_reg_defs QLA8XXX_BAD_VALUE_def)
  obtain s1 where 1: "qla83xx_rd_reg ?io 1 QLA83XX_IDC_DRIVER_ACK (io_junk ?io) ?s = Some (QLA_SUCCESS, 3, s1)"
    by (rule quiet_bank.rd_steady [of ?s 1 QLA83XX_IDC_DRIVER_ACK others "io_junk ?io"])
      (simp_all add: a)
  have "bank_reg QLA83XX_IDC_DRV_PRESENCE (world s1) = 3" "frame ?s s1"
    using bank.rd_reg [OF sample_remote _ 1] a by simp_all
  moreover from this(2) have "remote s1" using frame_fields(5) sample_remote by blast
  ultimately obtain s2 where 2: "qla83xx_rd_reg ?io 1 QLA83XX_IDC_DRV_PRESENCE (io_junk ?io) s1
      = Some (QLA_SUCCESS, 3, s2)"
    using quiet_bank.rd_steady [of s1 1 QLA83XX_IDC_DRV_PRESENCE others "io_junk ?io"]
    by (metis UnI1 guarded_regs_mem(2) zero_less_one)
  show ?thesis
    unfolding qla83xx_need_reset_handler_def One_nat_def need_reset_loop.simps
    using 1 2 by (simp add: One_nat_def)
qed

section \<open>Claims\<close>



text \<open>
  C16. When the lock is granted at each request and the device stays in a state in which this
  function can only wait (INITIALIZING, NEED_QUIESCENT, or COLD without owning the reset), the
  state handler returns after at most as many turns as the init timeout has seconds, plus one: it
  has set the device to FAILED, marked it failed for the driver, given up the ownership and
  returned an error.
\<close>

theorem handler_times_out:
  assumes "idc_granted io reg" and "remote s" and "waits_in s (reg QLA83XX_IDC_DEV_STATE (world s))"
    and "unat (fcoe_dev_init_timeout s) < N"
  shows "\<exists>s'. qla83xx_idc_state_handler io N s = Some (QLA_FUNCTION_FAILED, s')
    \<and> reg QLA83XX_IDC_DEV_STATE (world s') = QLA8XXX_DEV_FAILED
    \<and> dflg_dev_failed s' \<and> \<not> nic_core_reset_owner s'"
  using idc_granted.handler_fails [OF assms] by (auto simp: failed_out_def)

definition stuck_cells :: "u32 \<Rightarrow> u32" where
  "stuck_cells = (\<lambda>r. 0)(QLA83XX_IDC_DEV_STATE := QLA8XXX_DEV_INITIALIZING)"

lemma stuck_state:
  "bank_reg QLA83XX_IDC_DEV_STATE (world (sample_bank stuck_cells)) = QLA8XXX_DEV_INITIALIZING"
  by (simp add: bank_reg_def sample_bank_def stuck_cells_def idc_reg_defs
      QLA8XXX_BAD_VALUE_def QLA8XXX_DEV_INITIALIZING_def)

theorem handler_times_out_witness:
  "\<exists>s'. qla83xx_idc_state_handler (bank_io (keeps_state (\<lambda>t c. c))) 31 (sample_bank stuck_cells)
      = Some (QLA_FUNCTION_FAILED, s')"
proof -
  have "waits_in (sample_bank stuck_cells) (bank_reg QLA83XX_IDC_DEV_STATE (world (sample_bank stuck_cells)))"
    unfolding stuck_state by (simp add: waits_in_def)
  moreover have "unat (fcoe_dev_init_timeout (sample_bank stuck_cells)) < 31"
    by (simp add: sample_bank_def)
  ultimately show ?thesis
    using handler_times_out [OF quiet_bank.idc_granted_axioms sample_remote] by blast
qed

theorem idc_writes_under_lock_witness:
  "\<exists>s'. qla83xx_idc_state_handler_work (bank_io (keeps_state (\<lambda>t c. c))) 1 (sample_bank stuck_cells) = Some s'
    \<and> lock_state s' = Some False"
proof -
  let ?io = "bank_io (keeps_state (\<lambda>t c. c))" and ?s = "sample_bank stuck_cells"
  obtain s1 where 1: "qla83xx_idc_lock ?io 1 ?s = Some s1" "quiet_bank.steady (\<lambda>t c. c) ?s s1"
    using quiet_bank.lock_steady [OF sample_remote zero_less_one] by blast
  have r1: "remote s1" using quiet_bank.steady_remote [OF 1(2)] by simp
  have st: "bank_reg QLA83XX_IDC_DEV_STATE (world s1) = QLA8XXX_DEV_INITIALIZING"
    using 1(2) stuck_state by (simp add: quiet_bank.steady_def)
  obtain s2 where 2: "qla83xx_rd_reg ?io 1 QLA83XX_IDC_DEV_STATE 0 s1
      = Some (QLA_SUCCESS, QLA8XXX_DEV_INITIALIZING, s2)" "quiet_bank.steady (\<lambda>t c. c) s1 s2"
    by (rule quiet_bank.rd_steady [OF r1 zero_less_one, of QLA83XX_IDC_DEV_STATE "\<lambda>t c. c" 0])
      (simp_all add: st)
  then have "remote s2" using quiet_bank.steady_remote r1 by blast
  then obtain s3 where "qla83xx_idc_unlock ?io 1 s2 = Some s3"
    using quiet_bank.unlock_steady zero_less_one by blast
  then have run: "qla83xx_idc_state_handler_work ?io 1 ?s = Some s3"
    using 1 2 by (simp add: qla83xx_idc_state_handler_work_def QLA8XXX_DEV_INITIALIZING_def
        QLA8XXX_DEV_FAILED_def QLA8XXX_DEV_NEED_QUIESCENT_def)
  then show ?thesis using idc_writes_under_lock [of "qla83xx_idc_state_handler_work ?io 1"
        ?io 1 ?s s3, OF _ sample_lock_state run]
    by (simp add: idc_entry_points_def)
qed

section \<open>Lock recovery\<close>

text \<open>
  A function that recovers the lock announces stage 1 with its number, and then means to
  announce stage 2 (perform the recovery) before it unlocks by force. What it writes has stage 0:
  the mask is applied with AND where the stage had to be set. Another function that reads the
  register at that point does not see a recovery in progress, as it would with stage 2, but
  announces its own.
\<close>

theorem recovery_guard_lost:
  assumes "d AND recovery_stage_mask = IDC_LOCK_RECOVERY_STAGE1" and "remote s"
    and "qla83xx_rd_reg io N QLA83XX_IDC_LOCK_RECOVERY (io_junk io) s = Some (QLA_SUCCESS, v, s1)"
    and "qla83xx_force_lock_recovery io N s = Some (rv, s')"
  shows "(v = stage2_value d \<longrightarrow>
      Idc_write QLA83XX_IDC_LOCK_RECOVERY (IDC_LOCK_RECOVERY_STAGE1 OR push_bit 2 (ucast (portnum s)))
        \<in> set (idc_trace s'))
    \<and> (v AND recovery_stage_mask = IDC_LOCK_RECOVERY_STAGE2 \<longrightarrow> rv = QLA_SUCCESS \<and> s' = s1)"
proof
  have f: "frame s s1" by (rule frame_rd [OF assms(3)])
  show "v AND recovery_stage_mask = IDC_LOCK_RECOVERY_STAGE2 \<longrightarrow> rv = QLA_SUCCESS \<and> s' = s1"
    using assms(3,4)
    by (auto simp: qla83xx_force_lock_recovery_def IDC_LOCK_RECOVERY_STAGE2_def word_gt_0)
  show "v = stage2_value d \<longrightarrow>
      Idc_write QLA83XX_IDC_LOCK_RECOVERY (IDC_LOCK_RECOVERY_STAGE1 OR push_bit 2 (ucast (portnum s)))
        \<in> set (idc_trace s')"
  proof
    assume v: "v = stage2_value d"
    let ?d = "IDC_LOCK_RECOVERY_STAGE1 OR push_bit 2 (ucast (portnum s)) :: u32"
    let ?w = "qla83xx_wr_reg io QLA83XX_IDC_LOCK_RECOVERY ?d s1"
    have stage0: "v AND recovery_stage_mask = 0"
      using assms(1) by (simp add: v stage2_value_def and.assoc and.commute [of _ recovery_stage_mask])
        (simp add: and.assoc [symmetric] recovery_stage_mask_def IDC_LOCK_RECOVERY_STAGE1_def
          IDC_LOCK_RECOVERY_STAGE2_def)
    have "remote s1" using assms(2) f frame_fields(5) by blast
    then have wr: "Idc_write QLA83XX_IDC_LOCK_RECOVERY ?d \<in> set (idc_trace (snd ?w))"
      by (auto simp: qla83xx_wr_reg_def remote_def mailbox_def log_ev_def split: prod.splits)
    have "frame (snd ?w) s'"
      using assms(3,4) stage0 frame_fields(2) [OF f]
      by (auto simp: qla83xx_force_lock_recovery_def Let_def bind_eq_Some_conv split_beta split: if_splits
          dest!: frame_rd frame_force_unlock intro: frame_trans frame_trans [OF frame_msleep])
    then show "Idc_write QLA83XX_IDC_LOCK_RECOVERY ?d \<in> set (idc_trace s')"
      using wr by (rule frame_trace)
  qed
qed

text \<open>The sample adapter computes.\<close>

lemma bank_rd:
  assumes "remote s"
  shows "qla83xx_rd_reg (bank_io f) (Suc n) r d s =
    Some (QLA_SUCCESS, bank_reg r (world s), s\<lparr>world := (world s)\<lparr>clock := clock (world s) + 1\<rparr>\<rparr>)"
proof -
  obtain rv mb w' where m: "bank_mbx [MBC_READ_REMOTE_REG, LSW r, MSW r] (world s) = (rv, mb, w')"
    by (metis prod.collapse)
  have "w' = (world s)\<lparr>clock := clock (world s) + 1\<rparr>" using m by (auto simp: bank_mbx_def Let_def)
  then show ?thesis using assms m bank_read [OF m] bank_not_bad [of r "world s"]
    by (auto simp: qla83xx_rd_reg_def remote_def mailbox_def)
qed

lemma bank_wr:
  assumes "remote s"
  shows "qla83xx_wr_reg (bank_io f) r d s = (QLA_SUCCESS, (log_ev (Idc_write r d) s)
    \<lparr>world := (world s)\<lparr>cells := (cells (world s))(r := d), clock := clock (world s) + 1\<rparr>\<rparr>)"
  using assms by (auto simp: qla83xx_wr_reg_def remote_def mailbox_def bank_mbx_def)

lemma remote_upd [simp]: "remote (s\<lparr>world := w\<rparr>) = remote s" "remote (log_ev e s) = remote s"
  "remote (s\<lparr>idc_trace := es\<rparr>) = remote s"
  by (simp_all add: remote_def log_ev_def)

theorem recovery_guard_lost_witness:
  "\<exists>s'. qla83xx_force_lock_recovery (bank_io (\<lambda>t c. c)) 1 (sample_bank (\<lambda>r. 0)) = Some (QLA_SUCCESS, s')
    \<and> Idc_write QLA83XX_IDC_LOCK_RECOVERY 1 \<in> set (idc_trace s')"
proof -
  let ?io = "bank_io (\<lambda>t c. c)" and ?s = "sample_bank (\<lambda>r. 0)"
  have z: "bank_reg r (world ?s) = (if r = QLA83XX_DRIVER_LOCK then 1 else 0)" for r
    by (simp add: bank_reg_def sample_bank_def QLA8XXX_BAD_VALUE_def)
  have stage: "stage2_value 1 = 0"
    by (simp add: stage2_value_def IDC_LOCK_RECOVERY_STAGE2_def recovery_stage_mask_def)
  obtain s1 where rd: "qla83xx_rd_reg ?io 1 QLA83XX_IDC_LOCK_RECOVERY (io_junk ?io) ?s
      = Some (QLA_SUCCESS, stage2_value 1, s1)"
    using bank_rd [of ?s _ 0] z by (simp add: stage idc_reg_defs)
  have "\<exists>s'. qla83xx_force_lock_recovery ?io 1 s = Some (QLA_SUCCESS, s')"
    if "remote s" "cells (world s) = (\<lambda>r. 0)" "portnum s = 0" for s
    using that by (simp add: qla83xx_force_lock_recovery_def force_unlock_def bank_rd bank_wr msleep_def
        Let_def idc_reg_defs bank_reg_def QLA8XXX_BAD_VALUE_def recovery_stage_mask_def
        recovery_owner_mask_def IDC_LOCK_RECOVERY_STAGE1_def log_ev_def)
  from this [of ?s] have "\<exists>s'. qla83xx_force_lock_recovery ?io 1 ?s = Some (QLA_SUCCESS, s')"
    by (simp add: sample_bank_def remote_def dt_defs)
  then obtain s' where run: "qla83xx_force_lock_recovery ?io 1 ?s = Some (QLA_SUCCESS, s')" ..
  show ?thesis using recovery_guard_lost [OF _ sample_remote rd run, of 1] run
    by (simp add: recovery_stage_mask_def IDC_LOCK_RECOVERY_STAGE1_def sample_bank_def)
qed

section \<open>Further divergences\<close>

text \<open>
  The lock call returns without the lock when the lock register cannot be read; its callers, which
  get no result, go on.
\<close>

theorem idc_lock_returns_unlocked:
  assumes "qla83xx_rd_reg io (Suc n) QLA83XX_DRIVER_LOCK (io_junk io) s = Some (rv, v, s1)"
    and "rv \<noteq> QLA_SUCCESS"
  shows "qla83xx_idc_lock io (Suc n) s = Some (log_ev (Idc_locked False) s1)"
  using assms by (simp add: qla83xx_idc_lock_def)

text \<open>
  The bootstrap means to clear the graceful-reset bit only; it writes 0 and so also clears the bit
  with which an administrator has disabled resets, whatever the register held.
\<close>

theorem bootstrap_clears_control:
  assumes "remote s" and "qla83xx_device_bootstrap io N s = Some (rv, s')"
  shows "Idc_write QLA83XX_IDC_CONTROL 0 \<in> set (idc_trace s')"
proof -
  let ?s0 = "snd (qla83xx_wr_reg io QLA83XX_IDC_DEV_STATE QLA8XXX_DEV_INITIALIZING s)"
  obtain rv1 c s1 s2 s3 where
    1: "qla83xx_rd_reg io N QLA83XX_IDC_CONTROL (io_junk io) ?s0 = Some (rv1, c, s1)"
    and 2: "qla83xx_idc_unlock io N (snd (qla83xx_wr_reg io QLA83XX_IDC_CONTROL 0 s1)) = Some s2"
    and 3: "qla83xx_idc_lock io N (snd (qla83xx_restart_nic_firmware io s2)) = Some s3"
    and s': "s' = snd (qla83xx_wr_reg io QLA83XX_IDC_DEV_STATE
      (if rv \<noteq> QLA_SUCCESS then QLA8XXX_DEV_FAILED else QLA8XXX_DEV_READY) s3)"
    using assms(2) by (auto simp: qla83xx_device_bootstrap_def get_idc_control_def set_idc_control_def
        Let_def bind_eq_Some_conv split_beta)
  have "remote s1" using frame_fields(5) [OF frame_trans [OF frame_wr frame_rd [OF 1]]] assms(1) by simp
  then have "Idc_write QLA83XX_IDC_CONTROL 0 \<in> set (idc_trace (snd (qla83xx_wr_reg io QLA83XX_IDC_CONTROL 0 s1)))"
    by (auto simp: qla83xx_wr_reg_def remote_def mailbox_def log_ev_def split: prod.splits)
  then have "Idc_write QLA83XX_IDC_CONTROL 0 \<in> set (idc_trace s2)"
    by (rule frame_trace [OF frame_unlock [OF 2]])
  then have "Idc_write QLA83XX_IDC_CONTROL 0 \<in> set (idc_trace (snd (qla83xx_restart_nic_firmware io s2)))"
    by (auto simp: qla83xx_restart_nic_firmware_def mailbox_def log_ev_def split: prod.splits)
  then have "Idc_write QLA83XX_IDC_CONTROL 0 \<in> set (idc_trace s3)"
    by (rule frame_trace [OF frame_lock [OF 3]])
  then show ?thesis unfolding s' by (rule frame_trace [OF frame_wr])
qed

text \<open>
  The audit stores the start of a reset in seconds and converts it at the end as if it were in
  ticks: with a millisecond tick, a reset that began \<open>t\<close> seconds after the boot and took \<open>d\<close> seconds
  is recorded as \<open>t + d\<close> seconds less a thousandth of \<open>t\<close>.
\<close>

theorem audit_duration_since_boot:
  assumes "remote s" and "io_msecs io = of_nat" and "now io s = 1000 * (t + d)"
    and "idc_audit_ts s = of_nat t" and "1000 * (t + d) < 2 ^ 32"
  shows "Idc_write QLA83XX_IDC_AUDIT (ucast (portnum s) OR push_bit 7 IDC_AUDIT_COMPLETION
      OR push_bit 8 (of_nat ((1000 * (t + d) - t) div 1000)))
    \<in> set (idc_trace (qla83xx_idc_audit io IDC_AUDIT_COMPLETION s))"
proof -
  define x where "x = 1000 * (t + d) - t"
  have small: "unat (of_nat n :: u32) = n" if "n < 2 ^ 32" for n
    using that by (simp add: unat_of_nat take_bit_nat_eq_self_iff)
  have t: "unat (of_nat t :: u32) = t" by (rule small) (use assms(5) in simp)
  have "(of_nat (1000 * (t + d)) - of_nat t :: u32) = of_nat x"
    unfolding x_def by (subst of_nat_diff) simp_all
  moreover have "(of_nat x :: u32) div 1000 = of_nat (x div 1000)"
  proof -
    have "unat (of_nat x :: u32) = x" by (rule small) (use assms(5) in \<open>simp add: x_def\<close>)
    then have "unat ((of_nat x :: u32) div 1000) = x div 1000"
      by (simp only: unat_div) simp
    then show ?thesis by (metis of_nat_unat ucast_id)
  qed
  ultimately have "(of_nat (1000 * (t + d)) - of_nat t :: u32) div 1000
      = of_nat ((1000 * (t + d) - t) div 1000)" by (simp only: x_def)
  then show ?thesis using assms t
    by (auto simp: qla83xx_idc_audit_def IDC_AUDIT_COMPLETION_def IDC_AUDIT_TIMESTAMP_def
        qla83xx_wr_reg_def remote_def mailbox_def log_ev_def Let_def split: prod.splits)
qed

end
