(* ===== verification/Dsd_Lists.thy ===== *)
theory Dsd_Lists
  imports Iocb_Submit
begin

text \<open>
  Lists of data segment descriptors outside the ring (qla_iocb.c 577-670 and 873-1150): a command
  of type 6 or CRC_2 holds one descriptor that points to a list of up to 37 descriptors, whose
  last entry points to the next list or is null. The walk state has the memory the command's
  first descriptor is in (\<open>w_root\<close>), the DMA memory of the lists by address, and the write
  pointer \<open>cur_dsd\<close>.
\<close>

section \<open>Memory and cursor\<close>

datatype dsd_cur = Root nat | In_list u64 nat

record dsd_walk =
  w_root :: "u32 list"
  w_heap :: "u64 \<rightharpoonup> u32 list"
  w_lists :: "u64 list"
  w_cur :: dsd_cur
  w_avail :: u8
  w_used :: u16

text \<open>The \<open>n\<close>-th allocation of a list from the DMA pool: its address and what it contains, or failure.\<close>

type_synonym dsd_alloc = "nat \<Rightarrow> (u64 \<times> u32 list) option"

definition store_dsd :: "sg \<Rightarrow> dsd_walk \<Rightarrow> dsd_walk" where
  "store_dsd d s = (case w_cur s of
       Root p \<Rightarrow> s\<lparr>w_root := put_words p (dsd64 d) (w_root s), w_cur := Root (p + 3)\<rparr>
     | In_list a p \<Rightarrow> s\<lparr>w_heap := (w_heap s)(a \<mapsto> put_words p (dsd64 d) (the (w_heap s a))),
         w_cur := In_list a (p + 3)\<rparr>)"

text \<open>A new list is linked from where the cursor is, and the cursor moves to its start.\<close>

definition link_list :: "u64 \<Rightarrow> u32 list \<Rightarrow> u32 \<Rightarrow> dsd_walk \<Rightarrow> dsd_walk" where
  "link_list a ws len s =
     (store_dsd (a, len) (s\<lparr>w_heap := (w_heap s)(a \<mapsto> ws)\<rparr>))
       \<lparr>w_lists := w_lists s @ [a], w_cur := In_list a 0\<rparr>"

definition null_dsd :: "dsd_walk \<Rightarrow> dsd_walk" where
  "null_dsd s = store_dsd (0, 0) s"

section \<open>Walking a scatterlist\<close>

definition dsd_count :: "u16 \<Rightarrow> u8" where
  "dsd_count used = (if used > QLA_DSDS_PER_IOCB then ucast QLA_DSDS_PER_IOCB else ucast used)"

definition dsd_list_len :: "u8 \<Rightarrow> u32" where
  "dsd_list_len avail = (ucast avail + 1) * 12"

lemma unat_dsd_count: "unat (dsd_count used) = min (unat used) 37"
proof (cases "used > QLA_DSDS_PER_IOCB")
  case True
  then show ?thesis by (simp add: dsd_count_def QLA_DSDS_PER_IOCB_def word_less_nat_alt)
next
  case False
  then have le: "unat used \<le> 37"
    by (simp add: QLA_DSDS_PER_IOCB_def word_less_nat_alt not_less word_le_nat_alt)
  then have "unat (ucast used :: u8) = unat used"
    by (simp add: unsigned_ucast_eq take_bit_eq_mod unsigned_take_bit_eq)
  then show ?thesis using False le by (simp add: dsd_count_def)
qed

lemma unat_chunk: "unat (used - ucast (dsd_count used) :: u16) = unat used - min (unat used) 37"
proof -
  have *: "unat (ucast (dsd_count used) :: u16) = min (unat used) 37"
    by (simp only: unsigned_ucast_eq unsigned_take_bit_eq unat_dsd_count)
      (simp add: take_bit_nat_eq_self)
  then have "ucast (dsd_count used) \<le> used" by (simp add: word_le_nat_alt)
  then show ?thesis using * by (simp add: unat_sub)
qed

lemma chunk_less: "used \<noteq> 0 \<Longrightarrow> unat (used - ucast (dsd_count used) :: u16) < unat used"
  by (simp add: unat_chunk unat_gt_0)

text \<open>None: the allocation failed.\<close>

definition new_list :: "dsd_alloc \<Rightarrow> dsd_walk \<Rightarrow> dsd_walk option" where
  "new_list al s =
     (let avail = dsd_count (w_used s)
      in case al (length (w_lists s)) of
           None \<Rightarrow> None
         | Some (a, ws) \<Rightarrow> Some ((link_list a ws (dsd_list_len avail) s)
             \<lparr>w_avail := avail, w_used := w_used s - ucast avail\<rparr>))"

definition push_dsd :: "dsd_alloc \<Rightarrow> sg \<Rightarrow> dsd_walk \<Rightarrow> dsd_walk option" where
  "push_dsd al d s =
     (case (if w_avail s = 0 then new_list al s else Some s) of
        None \<Rightarrow> None
      | Some s \<Rightarrow> Some ((store_dsd d s)\<lparr>w_avail := w_avail s - 1\<rparr>))"

text \<open>
  The result is 1 when an allocation failed; the lists allocated so far stay with the command for
  the cleanup, in the walk state of the second component.
\<close>

fun push_all :: "dsd_alloc \<Rightarrow> sg list \<Rightarrow> dsd_walk \<Rightarrow> int \<times> dsd_walk" where
  "push_all al [] s = (0, null_dsd s)"
| "push_all al (d # ds) s =
     (case push_dsd al d s of None \<Rightarrow> (1, s) | Some s \<Rightarrow> push_all al ds s)"

definition start_walk :: "dsd_cur \<Rightarrow> u16 \<Rightarrow> dsd_walk \<Rightarrow> dsd_walk" where
  "start_walk cur tot s = s\<lparr>w_cur := cur, w_avail := 0, w_used := tot\<rparr>"

text \<open>\<open>scsi_for_each_sg\<close> and \<open>scsi_for_each_prot_sg\<close> over \<open>tot_dsds\<close> elements.\<close>

definition qla24xx_walk_and_build_sglist ::
    "dsd_alloc \<Rightarrow> scsi_cmnd \<Rightarrow> dsd_cur \<Rightarrow> u16 \<Rightarrow> dsd_walk \<Rightarrow> int \<times> dsd_walk" where
  "qla24xx_walk_and_build_sglist al c cur tot s =
     push_all al (take (unat tot) (scsi_sglist c)) (start_walk cur tot s)"

definition qla24xx_walk_and_build_prot_sglist ::
    "dsd_alloc \<Rightarrow> scsi_cmnd \<Rightarrow> dsd_cur \<Rightarrow> u16 \<Rightarrow> dsd_walk \<Rightarrow> int \<times> dsd_walk" where
  "qla24xx_walk_and_build_prot_sglist al c cur tot s =
     push_all al (take (unat tot) (scsi_prot_sglist c)) (start_walk cur tot s)"

section \<open>Data cut at protection intervals\<close>

record qla2_sgx =
  sgx_dma_addr :: u64
  sgx_dma_len :: u32
  sgx_tot_bytes :: u32
  sgx_cur_sg :: "sg list"
  sgx_bytes_consumed :: u32
  sgx_num_bytes :: u32
  sgx_tot_partial :: u32

text \<open>The end of the data, a piece (whether it ends inside a block), or a read behind the list.\<close>

datatype sgx_res = Sgx_end | Sgx_piece bool qla2_sgx | Sgx_crash

definition qla24xx_get_one_block_sg :: "u32 \<Rightarrow> qla2_sgx \<Rightarrow> sgx_res" where
  "qla24xx_get_one_block_sg blk_sz x =
     (if sgx_num_bytes x = sgx_tot_bytes x then Sgx_end
      else case sgx_cur_sg x of
        [] \<Rightarrow> Sgx_crash
      | (addr, sg_len) # sgs \<Rightarrow>
          (let left = sg_len - sgx_bytes_consumed x;
               x = x\<lparr>sgx_dma_addr := addr + ucast (sgx_bytes_consumed x)\<rparr>;
               (partial, x) =
                 (if blk_sz \<le> sgx_tot_partial x + left
                  then (False, x\<lparr>sgx_dma_len := blk_sz - sgx_tot_partial x, sgx_tot_partial := 0,
                                 sgx_num_bytes := sgx_num_bytes x + blk_sz\<rparr>)
                  else (True, x\<lparr>sgx_dma_len := left, sgx_tot_partial := sgx_tot_partial x + left\<rparr>));
               x = x\<lparr>sgx_bytes_consumed := sgx_bytes_consumed x + sgx_dma_len x\<rparr>
           in Sgx_piece partial
                (if sg_len = sgx_bytes_consumed x
                 then x\<lparr>sgx_cur_sg := sgs, sgx_bytes_consumed := 0\<rparr> else x)))"

definition sgx_start :: "scsi_cmnd \<Rightarrow> qla2_sgx" where
  "sgx_start c = \<lparr>sgx_dma_addr = 0, sgx_dma_len = 0, sgx_tot_bytes = scsi_bufflen c,
     sgx_cur_sg = scsi_sglist c, sgx_bytes_consumed = 0, sgx_num_bytes = 0, sgx_tot_partial = 0\<rparr>"

text \<open>
  Each piece is one descriptor; a piece that completes a block is followed by the eight bytes of
  its protection tuple. None: the code reads behind a list, or the fuel is used up.
\<close>

fun no_difb_loop :: "dsd_alloc \<Rightarrow> u32 \<Rightarrow> nat \<Rightarrow> qla2_sgx \<Rightarrow> sg list \<Rightarrow> u32 \<Rightarrow> dsd_walk
    \<Rightarrow> (int \<times> dsd_walk) option" where
  "no_difb_loop al prot_int 0 x prot done_prot s = None"
| "no_difb_loop al prot_int (Suc n) x prot done_prot s =
     (case qla24xx_get_one_block_sg prot_int x of
        Sgx_end \<Rightarrow> Some (0, null_dsd s)
      | Sgx_crash \<Rightarrow> None
      | Sgx_piece partial x \<Rightarrow>
          (case push_dsd al (sgx_dma_addr x, sgx_dma_len x) s of
             None \<Rightarrow> Some (1, s)
           | Some s \<Rightarrow>
               if partial then no_difb_loop al prot_int n x prot done_prot s
               else (case prot of
                       [] \<Rightarrow> None
                     | (pa, plen) # ps \<Rightarrow>
                         (case push_dsd al (pa + ucast done_prot, 8) s of
                            None \<Rightarrow> Some (1, s)
                          | Some s \<Rightarrow>
                              if done_prot + 8 = plen then no_difb_loop al prot_int n x ps 0 s
                              else no_difb_loop al prot_int n x prot (done_prot + 8) s))))"

definition block_fuel :: "scsi_cmnd \<Rightarrow> nat" where
  "block_fuel c = length (scsi_sglist c) + unat (scsi_bufflen c) + 1"

definition qla24xx_walk_and_build_sglist_no_difb ::
    "dsd_alloc \<Rightarrow> scsi_cmnd \<Rightarrow> dsd_cur \<Rightarrow> u16 \<Rightarrow> dsd_walk \<Rightarrow> (int \<times> dsd_walk) option" where
  "qla24xx_walk_and_build_sglist_no_difb al c cur tot s =
     no_difb_loop al (sector_size c) (block_fuel c) (sgx_start c) (scsi_prot_sglist c) 0
       (start_walk cur tot s)"

text \<open>The number of pieces, as \<open>qla24xx_dif_start_scsi\<close> counts them.\<close>

fun count_pieces :: "u32 \<Rightarrow> nat \<Rightarrow> qla2_sgx \<Rightarrow> nat option" where
  "count_pieces blk 0 x = None"
| "count_pieces blk (Suc n) x =
     (case qla24xx_get_one_block_sg blk x of
        Sgx_end \<Rightarrow> Some 0
      | Sgx_crash \<Rightarrow> None
      | Sgx_piece partial x \<Rightarrow> map_option Suc (count_pieces blk n x))"

section \<open>Command type 6\<close>

text \<open>
  The lists come from the adapter's list of free ones, and go to the command's. A list that is
  missing there would be a wild pointer: None. \<open>type6_loop\<close> runs over \<open>tot_dsds\<close> in chunks.
\<close>

function type6_loop :: "u16 \<Rightarrow> (u64 \<times> u32 list) list \<Rightarrow> sg list \<Rightarrow> dsd_walk
    \<Rightarrow> ((u64 \<times> u32 list) list \<times> dsd_walk) option" where
  "type6_loop tot gbl sgs s =
     (if tot = 0 then Some (gbl, null_dsd s)
      else let avail = dsd_count tot
           in case gbl of
                [] \<Rightarrow> None
              | (a, ws) # gbl \<Rightarrow>
                  type6_loop (tot - ucast avail) gbl (drop (unat avail) sgs)
                    (foldl (\<lambda>s d. store_dsd d s) (link_list a ws (dsd_list_len avail) s)
                      (take (unat avail) sgs)))"
  by pat_completeness auto
termination
  by (relation "measure (\<lambda>(tot, _). unat tot)") (auto simp: chunk_less)

declare type6_loop.simps [simp del]

end
