(* ===== verification/Dsd_Props.thy ===== *)
theory Dsd_Props
  imports Dsd_Lists
begin

text \<open>
  What the firmware reads from the descriptor lists. \<open>dsd_decode\<close> follows the chain from one
  descriptor; a walk leaves a chain that decodes to exactly the descriptors it was given, and
  writes nothing but the first descriptor and its own lists.
\<close>

section \<open>Reading a chain\<close>

definition read_dsd :: "nat \<Rightarrow> u32 list \<Rightarrow> sg" where
  "read_dsd p ws = (join64 (ws ! p) (ws ! (p + 1)), ws ! (p + 2))"

definition read_dsds :: "nat \<Rightarrow> nat \<Rightarrow> u32 list \<Rightarrow> sg list" where
  "read_dsds p n ws = map (\<lambda>i. read_dsd (p + 3 * i) ws) [0..<n]"

text \<open>The fuel bounds the number of lists followed; a list is a whole number of descriptors.\<close>

fun dsd_decode :: "nat \<Rightarrow> (u64 \<rightharpoonup> u32 list) \<Rightarrow> sg \<Rightarrow> sg list option" where
  "dsd_decode 0 H d = None"
| "dsd_decode (Suc n) H (a, len) =
     (if len = 0 then Some []
      else case H a of
        None \<Rightarrow> None
      | Some ws \<Rightarrow>
          (if unat len mod 12 \<noteq> 0 \<or> length ws * 4 < unat len then None
           else let k = unat len div 12 - 1
                in map_option (append (read_dsds 0 k ws)) (dsd_decode n H (read_dsd (3 * k) ws))))"

lemma dsd64_length [simp]: "length (dsd64 d) = 3"
  by (simp add: dsd64_def)

lemma read_put_same [simp]: "p + 3 \<le> length ws \<Longrightarrow> read_dsd p (put_words p (dsd64 d) ws) = d"
  by (simp add: read_dsd_def put_words_nth dsd64_def)

lemma read_put_other:
  "p + 3 \<le> length ws \<Longrightarrow> i < p \<or> p + 3 \<le> i \<Longrightarrow> put_words p (dsd64 d) ws ! i = ws ! i"
  by (subst put_words_nth) auto

lemma read_dsds_0 [simp]: "read_dsds p 0 ws = []"
  by (simp add: read_dsds_def)

lemma read_dsds_Suc: "read_dsds p (Suc n) ws = read_dsd p ws # read_dsds (p + 3) n ws"
proof -
  have "[0..<Suc n] = 0 # map Suc [0..<n]" by (simp only: map_Suc_upt upt_conv_Cons zero_less_Suc)
  then show ?thesis by (simp add: read_dsds_def algebra_simps del: upt_Suc)
qed

text \<open>What the chain holds from word \<open>p\<close> of the list at \<open>a\<close> on, \<open>v\<close> descriptors before the link.\<close>

definition chain_from :: "(u64 \<rightharpoonup> u32 list) \<Rightarrow> u64 \<Rightarrow> nat \<Rightarrow> nat \<Rightarrow> sg list \<Rightarrow> bool" where
  "chain_from H a p v ds \<longleftrightarrow> (\<exists>n es. dsd_decode n H (read_dsd (p + 3 * v) (the (H a))) = Some es
     \<and> ds = read_dsds p v (the (H a)) @ es)"

lemma chain_from_nil: "dsd_decode n H (read_dsd p (the (H a))) = Some [] \<Longrightarrow> chain_from H a p 0 []"
  by (auto simp: chain_from_def)

lemma chain_from_Cons:
  "chain_from H a (p + 3) v ds \<Longrightarrow> read_dsd p (the (H a)) = d \<Longrightarrow> chain_from H a p (Suc v) (d # ds)"
  by (auto simp: chain_from_def read_dsds_Suc algebra_simps)

lemma chain_from_link:
  assumes "chain_from H b 0 v ds" and "read_dsd p (the (H a)) = (b, len)"
    and "unat len = 12 * (v + 1)" and "H b = Some ws" and "3 * (v + 1) \<le> length ws"
  shows "chain_from H a p 0 ds"
proof -
  from assms(1) obtain n es where es: "dsd_decode n H (read_dsd (3 * v) (the (H b))) = Some es"
    "ds = read_dsds 0 v (the (H b)) @ es" by (auto simp: chain_from_def)
  have "len \<noteq> 0" using assms(3) by auto
  moreover have "unat len div 12 - 1 = v" "unat len mod 12 = 0" using assms(3) by simp_all
  ultimately have "dsd_decode (Suc n) H (b, len) = Some ds"
    using es assms(4,5) by (simp add: assms(3) Let_def)
  then show ?thesis unfolding chain_from_def
    by (intro exI [of _ "Suc n"] exI [of _ ds]) (simp del: dsd_decode.simps add: assms(2))
qed

section \<open>A walk leaves a chain\<close>

definition allocs_fresh :: "dsd_alloc \<Rightarrow> dsd_walk \<Rightarrow> bool" where
  "allocs_fresh al s \<longleftrightarrow> (\<forall>i a ws. length (w_lists s) \<le> i \<longrightarrow> al i = Some (a, ws) \<longrightarrow>
     a \<notin> dom (w_heap s) \<and> 114 \<le> length ws \<and> (\<forall>j ws'. i < j \<longrightarrow> al j \<noteq> Some (a, ws')))"

definition chain_out :: "dsd_walk \<Rightarrow> u64 \<Rightarrow> nat \<Rightarrow> nat \<Rightarrow> sg list \<Rightarrow> dsd_walk \<Rightarrow> bool" where
  "chain_out s a p v ds s' \<longleftrightarrow> chain_from (w_heap s') a p v ds
     \<and> (\<exists>ws. w_heap s' a = Some ws \<and> length ws = length (the (w_heap s a))
         \<and> (\<forall>i<p. ws ! i = the (w_heap s a) ! i))
     \<and> (\<forall>b. b \<in> dom (w_heap s) \<longrightarrow> b \<noteq> a \<longrightarrow> w_heap s' b = w_heap s b) \<and> w_root s' = w_root s"

lemma read_dsd_cong: "(\<And>i. p \<le> i \<Longrightarrow> i < p + 3 \<Longrightarrow> ws ! i = ws' ! i) \<Longrightarrow> read_dsd p ws = read_dsd p ws'"
  by (simp add: read_dsd_def)

lemma unat_list_len: "unat (dsd_list_len v) = 12 * (unat v + 1)"
proof -
  have "unat v < 256" using unsigned_less [of v] by simp
  then show ?thesis by (simp add: dsd_list_len_def unat_word_ariths unsigned_ucast_eq take_bit_eq_mod)
qed

lemma allocs_fresh_cong:
  "dom (w_heap s) = dom (w_heap t) \<Longrightarrow> w_lists s = w_lists t \<Longrightarrow> allocs_fresh al s = allocs_fresh al t"
  by (simp only: allocs_fresh_def)

lemma allocs_freshD:
  "allocs_fresh al s \<Longrightarrow> length (w_lists s) \<le> i \<Longrightarrow> al i = Some (a, ws) \<Longrightarrow>
    a \<notin> dom (w_heap s) \<and> 114 \<le> length ws \<and> (\<forall>j ws'. i < j \<longrightarrow> al j \<noteq> Some (a, ws'))"
  unfolding allocs_fresh_def by blast

lemma push_all_chain:
  assumes "push_all al ds s = (0, s')" and "w_cur s = In_list a p" and "w_heap s a = Some ws"
    and "length ds = unat (w_avail s) + unat (w_used s)"
    and "p + 3 * (unat (w_avail s) + 1) \<le> length ws" and "allocs_fresh al s"
  shows "chain_out s a p (unat (w_avail s)) ds s'"
  using assms
proof (induction ds arbitrary: s a p ws)
  case Nil
  then have s': "s' = null_dsd s" and v: "w_avail s = 0" by (simp_all add: unat_eq_0)
  have "read_dsd p (put_words p (dsd64 (0, 0)) ws) = (0, 0)" using Nil(5) by simp
  then have "chain_from (w_heap s') a p 0 []"
    by (intro chain_from_nil [of 1]) (simp add: s' null_dsd_def store_dsd_def Nil(2,3))
  then show ?case using Nil(2,3,5)
    by (auto simp: chain_out_def s' v null_dsd_def store_dsd_def read_put_other)
next
  case (Cons d ds)
  show ?case
  proof (cases "w_avail s = 0")
    case False
    define t where "t = (store_dsd d s)\<lparr>w_avail := w_avail s - 1\<rparr>"
    have v: "unat (w_avail s) = Suc (unat (w_avail t))"
      using False by (simp add: t_def unat_minus_one unat_gt_0)
    have h: "w_heap t = (w_heap s)(a \<mapsto> put_words p (dsd64 d) ws)" "w_cur t = In_list a (p + 3)"
      "w_used t = w_used s" "w_root t = w_root s" "w_lists t = w_lists s"
      using Cons.prems(2,3) by (simp_all add: t_def store_dsd_def)
    have dom: "dom (w_heap t) = dom (w_heap s)"
      using Cons.prems(3) by (auto simp: h(1))
    have out: "chain_out t a (p + 3) (unat (w_avail t)) ds s'"
    proof (rule Cons.IH [OF _ h(2)])
      show "push_all al ds t = (0, s')"
        using Cons.prems(1) False by (simp add: push_dsd_def t_def)
      show "allocs_fresh al t"
        using Cons.prems(6) allocs_fresh_cong [OF dom h(5)] by simp
      show "w_heap t a = Some (put_words p (dsd64 d) ws)" by (simp add: h(1))
      show "length ds = unat (w_avail t) + unat (w_used t)"
        using Cons.prems(4) v h(3) by simp
      show "p + 3 + 3 * (unat (w_avail t) + 1) \<le> length (put_words p (dsd64 d) ws)"
        using Cons.prems(5) v by simp
    qed
    then obtain ws' where ws': "w_heap s' a = Some ws'" "length ws' = length ws"
      "\<forall>i<p + 3. ws' ! i = put_words p (dsd64 d) ws ! i"
      by (auto simp: chain_out_def h(1))
    have "read_dsd p ws' = read_dsd p (put_words p (dsd64 d) ws)"
      using ws'(3) by (intro read_dsd_cong) auto
    then have "read_dsd p (the (w_heap s' a)) = d" using ws'(1) Cons.prems(5) by simp
    moreover have "\<forall>i<p. ws' ! i = ws ! i"
      using ws'(3) Cons.prems(5) by (simp add: read_put_other)
    ultimately show ?thesis using out ws' Cons.prems(3)
      by (auto simp: chain_out_def v h(1,4) intro!: chain_from_Cons)
  next
    case True
    then obtain b wb where b: "al (length (w_lists s)) = Some (b, wb)"
      using Cons.prems(1) by (auto simp: push_dsd_def new_list_def Let_def split: option.splits)
    define len where "len = dsd_list_len (dsd_count (w_used s))"
    define t where "t = (let u = the (new_list al s) in (store_dsd d u)\<lparr>w_avail := w_avail u - 1\<rparr>)"
    have new: "b \<notin> dom (w_heap s)" "114 \<le> length wb" "b \<noteq> a"
      "\<And>j ws'. length (w_lists s) < j \<Longrightarrow> al j \<noteq> Some (b, ws')"
      using Cons.prems(3) allocs_freshD [OF Cons.prems(6) _ b] by auto
    have used: "0 < unat (w_used s)" using Cons.prems(4) True by simp
    have h: "w_heap t = (w_heap s)(a \<mapsto> put_words p (dsd64 (b, len)) ws, b \<mapsto> put_words 0 (dsd64 d) wb)"
      "w_cur t = In_list b 3" "w_used t = w_used s - ucast (dsd_count (w_used s))"
      "w_root t = w_root s" "w_lists t = w_lists s @ [b]" "w_avail t = dsd_count (w_used s) - 1"
      using Cons.prems(2,3) b new(3)
      by (simp_all add: t_def new_list_def Let_def link_list_def store_dsd_def len_def fun_upd_twist)
    have v: "min (unat (w_used s)) 37 = Suc (unat (w_avail t))"
      using used unat_dsd_count [of "w_used s"] unat_minus_one [of "dsd_count (w_used s)"]
      unfolding h(6) by (cases "dsd_count (w_used s) = 0") (auto simp: min_def split: if_splits)
    have out: "chain_out t b 3 (unat (w_avail t)) ds s'"
    proof (rule Cons.IH [OF _ h(2)])
      show "push_all al ds t = (0, s')"
        using Cons.prems(1) True b by (simp add: push_dsd_def t_def new_list_def Let_def)
      show "w_heap t b = Some (put_words 0 (dsd64 d) wb)" by (simp add: h(1))
      show "length ds = unat (w_avail t) + unat (w_used t)"
        using Cons.prems(4) v True by (simp add: h(3) unat_chunk)
      show "3 + 3 * (unat (w_avail t) + 1) \<le> length (put_words 0 (dsd64 d) wb)"
        using new(2) v by simp
      show "allocs_fresh al t"
        unfolding allocs_fresh_def
      proof (intro allI impI)
        fix i c wc assume i: "length (w_lists t) \<le> i" "al i = Some (c, wc)"
        then have "c \<noteq> b" using new(4) [of i wc] by (auto simp: h(5))
        moreover have "c \<notin> dom (w_heap s) \<and> 114 \<le> length wc \<and> (\<forall>j ws'. i < j \<longrightarrow> al j \<noteq> Some (c, ws'))"
          using allocs_freshD [OF Cons.prems(6) _ i(2)] i(1) by (simp add: h(5))
        ultimately show "c \<notin> dom (w_heap t) \<and> 114 \<le> length wc \<and> (\<forall>j ws'. i < j \<longrightarrow> al j \<noteq> Some (c, ws'))"
          using Cons.prems(3) by (auto simp: h(1))
      qed
    qed
    then obtain wb' where wb': "w_heap s' b = Some wb'" "length wb' = length wb"
      "\<forall>i<3. wb' ! i = put_words 0 (dsd64 d) wb ! i"
      by (auto simp: chain_out_def h(1))
    have at_a: "w_heap s' a = Some (put_words p (dsd64 (b, len)) ws)"
      using out Cons.prems(3) new(3) by (auto simp: chain_out_def h(1))
    have "read_dsd 0 wb' = read_dsd 0 (put_words 0 (dsd64 d) wb)"
      using wb'(3) by (intro read_dsd_cong) auto
    then have "read_dsd 0 (the (w_heap s' b)) = d" using wb'(1) new(2) by simp
    then have "chain_from (w_heap s') b 0 (Suc (unat (w_avail t))) (d # ds)"
      using out by (intro chain_from_Cons) (auto simp: chain_out_def)
    then have "chain_from (w_heap s') a p 0 (d # ds)"
    proof (rule chain_from_link)
      show "read_dsd p (the (w_heap s' a)) = (b, len)" using at_a Cons.prems(5) True by simp
      show "unat len = 12 * (Suc (unat (w_avail t)) + 1)"
        using v by (simp add: len_def unat_list_len unat_dsd_count)
      show "w_heap s' b = Some wb'" by (rule wb'(1))
      show "3 * (Suc (unat (w_avail t)) + 1) \<le> length wb'" using v wb'(2) new(2) by simp
    qed
    then show ?thesis using out at_a Cons.prems(3,5) True new(1)
      by (auto simp: chain_out_def h(1,4) read_put_other)
  qed
qed

text \<open>
  A walk from the command's own descriptor. The segments are read back, what was in the heap
  before is unchanged, and of the command only the descriptor is written.
\<close>

definition dsd_chain :: "dsd_walk \<Rightarrow> nat \<Rightarrow> sg list \<Rightarrow> bool" where
  "dsd_chain s p ds \<longleftrightarrow> (\<exists>n. dsd_decode n (w_heap s) (read_dsd p (w_root s)) = Some ds)"

lemma push_all_root:
  assumes "push_all al ds s = (0, s')" and "w_cur s = Root p" and "w_avail s = 0"
    and "length ds = unat (w_used s)" and "p + 3 \<le> length (w_root s)" and "allocs_fresh al s"
  shows "dsd_chain s' p ds \<and> (\<forall>b \<in> dom (w_heap s). w_heap s' b = w_heap s b)
    \<and> (\<forall>i. i < p \<or> p + 3 \<le> i \<longrightarrow> w_root s' ! i = w_root s ! i)
    \<and> length (w_root s') = length (w_root s)"
proof (cases ds)
  case Nil
  then have s': "s' = null_dsd s" using assms(1) by simp
  have "dsd_decode 1 (w_heap s') (read_dsd p (w_root s')) = Some []"
    using assms(2,5) by (simp add: s' null_dsd_def store_dsd_def)
  then have "dsd_chain s' p ds" unfolding dsd_chain_def Nil by blast
  then show ?thesis using assms(2,5) by (auto simp: s' null_dsd_def store_dsd_def read_put_other)
next
  case (Cons d ds')
  define len where "len = dsd_list_len (dsd_count (w_used s))"
  define v where "v = dsd_count (w_used s)"
  obtain b wb where b: "al (length (w_lists s)) = Some (b, wb)"
    using assms(1,3) by (auto simp: Cons push_dsd_def new_list_def Let_def split: option.splits)
  have new: "b \<notin> dom (w_heap s)" "114 \<le> length wb"
    "\<And>j ws'. length (w_lists s) < j \<Longrightarrow> al j \<noteq> Some (b, ws')"
    using allocs_freshD [OF assms(6) _ b] by auto
  text \<open>The same walk, from a list that is already linked.\<close>
  define t where "t = the (new_list al s)"
  have h: "w_heap t = (w_heap s)(b \<mapsto> wb)" "w_cur t = In_list b 0"
    "w_used t = w_used s - ucast v" "w_root t = put_words p (dsd64 (b, len)) (w_root s)"
    "w_lists t = w_lists s @ [b]" "w_avail t = v"
    using assms(2) b
    by (simp_all add: t_def new_list_def Let_def link_list_def store_dsd_def len_def v_def)
  have v: "unat v = min (unat (w_used s)) 37" by (simp add: v_def unat_dsd_count)
  have nz: "w_avail t \<noteq> 0" using assms(4) v Cons by (auto simp: h(6))
  have "push_all al ds t = (0, s')"
    using assms(1,3) b nz by (simp add: Cons push_dsd_def t_def new_list_def Let_def)
  moreover have "w_heap t b = Some wb" by (simp add: h(1))
  moreover have "length ds = unat (w_avail t) + unat (w_used t)"
    unfolding h(3,6) v_def unat_chunk unat_dsd_count using assms(4) by simp
  moreover have "0 + 3 * (unat (w_avail t) + 1) \<le> length wb" using v new(2) by (simp add: h(6))
  moreover have "allocs_fresh al t"
    unfolding allocs_fresh_def
  proof (intro allI impI)
    fix i c wc assume i: "length (w_lists t) \<le> i" "al i = Some (c, wc)"
    then have "c \<noteq> b" using new(3) [of i wc] by (auto simp: h(5))
    then show "c \<notin> dom (w_heap t) \<and> 114 \<le> length wc \<and> (\<forall>j ws'. i < j \<longrightarrow> al j \<noteq> Some (c, ws'))"
      using allocs_freshD [OF assms(6) _ i(2)] i(1) by (simp add: h(1,5))
  qed
  ultimately have out: "chain_out t b 0 (unat (w_avail t)) ds s'"
    by (intro push_all_chain h(2))
  then have root: "w_root s' = put_words p (dsd64 (b, len)) (w_root s)"
    by (simp add: chain_out_def h(4))
  obtain wb' where wb': "w_heap s' b = Some wb'" "length wb' = length wb"
    using out by (auto simp: chain_out_def h(1))
  obtain n es where es: "dsd_decode n (w_heap s') (read_dsd (3 * unat v) wb') = Some es"
    "ds = read_dsds 0 (unat v) wb' @ es"
    using out wb'(1) by (auto simp: chain_out_def chain_from_def h(6))
  have l: "unat len = 12 * (unat v + 1)" by (simp add: len_def v_def unat_list_len)
  then have "len \<noteq> 0" by auto
  moreover have "unat len div 12 - 1 = unat v" "unat len mod 12 = 0" using l by simp_all
  moreover have "unat v \<le> 37" by (simp add: v)
  ultimately have "dsd_decode (Suc n) (w_heap s') (b, len) = Some ds"
    using es wb' new(2) by (simp add: l Let_def)
  then have "dsd_chain s' p ds" unfolding dsd_chain_def root read_put_same [OF assms(5)] by blast
  then show ?thesis using out new(1) assms(5)
    by (auto simp: chain_out_def h(1,4) read_put_other)
qed

section \<open>Command type 6 builds the same chain\<close>

lemma store_dsd_counts [simp]:
  "store_dsd d (s\<lparr>w_avail := v\<rparr>) = (store_dsd d s)\<lparr>w_avail := v\<rparr>"
  "store_dsd d (s\<lparr>w_used := u\<rparr>) = (store_dsd d s)\<lparr>w_used := u\<rparr>"
  "w_avail (store_dsd d s) = w_avail s" "w_used (store_dsd d s) = w_used s"
  "w_lists (store_dsd d s) = w_lists s"
  by (simp_all add: store_dsd_def split: dsd_cur.split)

lemma foldl_store_counts [simp]:
  "foldl (\<lambda>s d. store_dsd d s) (s\<lparr>w_avail := v\<rparr>) ds = (foldl (\<lambda>s d. store_dsd d s) s ds)\<lparr>w_avail := v\<rparr>"
  "foldl (\<lambda>s d. store_dsd d s) (s\<lparr>w_used := u\<rparr>) ds = (foldl (\<lambda>s d. store_dsd d s) s ds)\<lparr>w_used := u\<rparr>"
  "w_lists (foldl (\<lambda>s d. store_dsd d s) s ds) = w_lists s"
  by (induction ds arbitrary: s) simp_all

text \<open>Pushing as many descriptors as the current list has room for only stores them.\<close>

lemma push_all_chunk:
  "length cs = unat (w_avail s) \<Longrightarrow>
    push_all al (cs @ ds) s = push_all al ds ((foldl (\<lambda>s d. store_dsd d s) s cs)\<lparr>w_avail := 0\<rparr>)"
proof (induction cs arbitrary: s)
  case Nil
  then have "w_avail s = 0" by (simp add: unat_eq_0)
  then have "s\<lparr>w_avail := 0\<rparr> = s" by simp
  then show ?case by simp
next
  case (Cons c cs)
  then have "w_avail s \<noteq> 0" by (cases "w_avail s = 0") auto
  then show ?case using Cons by (simp add: push_dsd_def unat_minus_one)
qed

definition free_lists :: "nat \<Rightarrow> (u64 \<times> u32 list) list \<Rightarrow> dsd_alloc" where
  "free_lists k gbl i = (if k \<le> i \<and> i - k < length gbl then Some (gbl ! (i - k)) else None)"

lemma counts_swap: "s\<lparr>w_used := u, w_avail := v\<rparr> = s\<lparr>w_avail := v, w_used := u\<rparr>"
  by (cases s) simp

lemma push_all_new:
  "w_avail s = 0 \<Longrightarrow> new_list al s = Some t \<Longrightarrow> w_avail t \<noteq> 0 \<Longrightarrow> ds \<noteq> [] \<Longrightarrow>
    push_all al ds s = push_all al ds t"
  by (cases ds) (simp_all add: push_dsd_def)

lemma type6_is_push:
  assumes "type6_loop tot gbl sgs s = Some (gbl', s')" and "length sgs = unat tot"
    and "k \<le> length (w_lists s)" and "gbl = drop (length (w_lists s) - k) gbl0"
  shows "push_all (free_lists k gbl0) sgs (s\<lparr>w_avail := 0, w_used := tot\<rparr>)
    = (0, s'\<lparr>w_avail := 0, w_used := 0\<rparr>)"
  using assms
proof (induction tot gbl sgs s arbitrary: gbl' s' rule: type6_loop.induct)
  case (1 tot gbl sgs s)
  let ?al = "free_lists k gbl0" and ?s = "s\<lparr>w_avail := 0, w_used := tot\<rparr>"
  show ?case
  proof (cases "tot = 0")
    case True
    then have "sgs = []" "s' = null_dsd s"
      using 1(2,3) by (simp_all add: type6_loop.simps [of 0])
    then show ?thesis using True by (simp add: null_dsd_def)
  next
    case False
    define v where "v = dsd_count tot"
    have v: "unat v = min (unat tot) 37" by (simp add: v_def unat_dsd_count)
    obtain a ws rest where g: "gbl = (a, ws) # rest" and
      loop: "type6_loop (tot - ucast v) rest (drop (unat v) sgs)
        (foldl (\<lambda>s d. store_dsd d s) (link_list a ws (dsd_list_len v) s) (take (unat v) sgs))
        = Some (gbl', s')"
      using 1(2) False
      by (auto simp: type6_loop.simps [of tot] Let_def v_def split: list.splits)
    let ?t = "link_list a ws (dsd_list_len v) s"
    let ?f = "foldl (\<lambda>s d. store_dsd d s) ?t (take (unat v) sgs)"
    have "?al (length (w_lists s)) = Some (a, ws)"
      using g 1(4,5) by (auto simp: free_lists_def hd_drop_conv_nth [symmetric]
          dest: arg_cong [of _ _ length] split: if_splits)
    then have new: "new_list ?al ?s = Some (?t\<lparr>w_avail := v, w_used := tot - ucast v\<rparr>)"
      by (simp add: new_list_def v_def link_list_def Let_def store_dsd_def split: dsd_cur.split)
    have "v \<noteq> 0" using v False by (auto simp: min_def unat_eq_0 split: if_splits)
    moreover have "sgs \<noteq> []" using 1(3) False by (auto simp: unat_eq_0)
    ultimately have "push_all ?al sgs ?s
        = push_all ?al (take (unat v) sgs @ drop (unat v) sgs)
            (?t\<lparr>w_avail := v, w_used := tot - ucast v\<rparr>)"
      using new by (simp add: push_all_new)
    also have "\<dots> = push_all ?al (drop (unat v) sgs) (?f\<lparr>w_avail := 0, w_used := tot - ucast v\<rparr>)"
      using v 1(3) by (subst push_all_chunk) (simp_all add: counts_swap)
    also have "\<dots> = (0, s'\<lparr>w_avail := 0, w_used := 0\<rparr>)"
    proof (rule 1(1) [OF False v_def g refl loop])
      show "length (drop (unat v) sgs) = unat (tot - ucast v)"
        using 1(3) by (simp add: v_def unat_chunk unat_dsd_count)
      show "k \<le> length (w_lists ?f)" "rest = drop (length (w_lists ?f) - k) gbl0"
        using 1(4) arg_cong [OF trans [OF g [symmetric] 1(5)], of tl]
        by (simp_all add: link_list_def Suc_diff_le drop_Suc tl_drop)
    qed
    finally show ?thesis .
  qed
qed

end
