(* ===== verification/Dsd_Blocks.thy ===== *)
theory Dsd_Blocks
  imports Dsd_Props
begin

text \<open>
  Data cut at protection intervals: the pieces \<open>qla24xx_get_one_block_sg\<close> hands out cover the
  scatterlist byte by byte and in order, end at every block boundary, and the walk that interleaves
  them with the protection tuples is the walk over one list of descriptors.
\<close>

section \<open>The pieces of a scatterlist\<close>

definition sg_bytes :: "sg \<Rightarrow> u64 list" where
  "sg_bytes d = map (\<lambda>i. fst d + of_nat i) [0..<unat (snd d)]"

fun sgx_pieces :: "u32 \<Rightarrow> nat \<Rightarrow> qla2_sgx \<Rightarrow> (bool \<times> sg) list option" where
  "sgx_pieces blk 0 x = None"
| "sgx_pieces blk (Suc n) x =
     (case qla24xx_get_one_block_sg blk x of
        Sgx_end \<Rightarrow> Some []
      | Sgx_crash \<Rightarrow> None
      | Sgx_piece partial y \<Rightarrow>
          map_option (Cons (partial, (sgx_dma_addr y, sgx_dma_len y))) (sgx_pieces blk n y))"

text \<open>Starting \<open>part\<close> bytes into a block, the pieces end at block boundaries exactly where they say so.\<close>

fun cut_at_blocks :: "nat \<Rightarrow> nat \<Rightarrow> (bool \<times> sg) list \<Rightarrow> bool" where
  "cut_at_blocks blk part [] \<longleftrightarrow> part = 0"
| "cut_at_blocks blk part ((partial, (a, len)) # ps) \<longleftrightarrow> 0 < unat len \<and>
     (if partial then part + unat len < blk \<and> cut_at_blocks blk (part + unat len) ps
      else part + unat len = blk \<and> cut_at_blocks blk 0 ps)"

lemma count_pieces_length: "count_pieces blk n x = map_option length (sgx_pieces blk n x)"
  by (induction n arbitrary: x) (auto simp: option.map_comp comp_def split: sgx_res.split)

definition sg_total :: "sg list \<Rightarrow> nat" where
  "sg_total ds = sum_list (map (unat \<circ> snd) ds)"

definition sgx_rest :: "qla2_sgx \<Rightarrow> u64 list" where
  "sgx_rest x = drop (unat (sgx_bytes_consumed x)) (concat (map sg_bytes (sgx_cur_sg x)))"

definition sgx_inv :: "u32 \<Rightarrow> qla2_sgx \<Rightarrow> bool" where
  "sgx_inv blk x \<longleftrightarrow> (\<forall>d \<in> set (sgx_cur_sg x). snd d \<noteq> 0)
     \<and> unat (sgx_bytes_consumed x) \<le> sg_total (sgx_cur_sg x)
     \<and> (\<forall>d ds. sgx_cur_sg x = d # ds \<longrightarrow> unat (sgx_bytes_consumed x) < unat (snd d))
     \<and> unat (sgx_num_bytes x) + unat (sgx_tot_partial x)
         + (sg_total (sgx_cur_sg x) - unat (sgx_bytes_consumed x)) = unat (sgx_tot_bytes x)
     \<and> unat (sgx_tot_partial x) < unat blk
     \<and> unat blk dvd unat (sgx_tot_bytes x) - unat (sgx_num_bytes x)"

lemma sg_total_simps [simp]: "sg_total [] = 0" "sg_total (d # ds) = unat (snd d) + sg_total ds"
  by (simp_all add: sg_total_def)

lemma length_sg_bytes [simp]: "length (sg_bytes d) = unat (snd d)"
  by (simp add: sg_bytes_def)

lemma sg_bytes_split:
  assumes "unat c + unat n \<le> unat l"
  shows "drop (unat c) (sg_bytes (a, l))
    = sg_bytes (a + ucast c, n) @ drop (unat c + unat n) (sg_bytes (a, l))"
proof -
  have "(of_nat (unat c + i) :: u64) = ucast c + of_nat i" for i
    by (simp add: unsigned_ucast_eq of_nat_unat)
  then show ?thesis
    using assms by (intro nth_equalityI) (auto simp: sg_bytes_def nth_append add.assoc)
qed

lemma unat_u32_add: "unat (a :: u32) + unat b < 4294967296 \<Longrightarrow> unat (a + b) = unat a + unat b"
  by (simp add: unat_word_ariths)

lemma sgx_step:
  assumes inv: "sgx_inv blk x" and more: "sgx_num_bytes x \<noteq> sgx_tot_bytes x"
  obtains partial y where "qla24xx_get_one_block_sg blk x = Sgx_piece partial y" "sgx_inv blk y"
    "sgx_rest x = sg_bytes (sgx_dma_addr y, sgx_dma_len y) @ sgx_rest y" "sgx_dma_len y \<noteq> 0"
    "if partial then unat (sgx_tot_partial y) = unat (sgx_tot_partial x) + unat (sgx_dma_len y)
       \<and> unat (sgx_tot_partial y) < unat blk
     else unat (sgx_tot_partial x) + unat (sgx_dma_len y) = unat blk \<and> sgx_tot_partial y = 0"
proof -
  define c where "c = sgx_bytes_consumed x"
  define p where "p = sgx_tot_partial x"
  define num where "num = sgx_num_bytes x"
  define tot where "tot = sgx_tot_bytes x"
  have tot: "unat tot < 4294967296" using unsigned_less [of tot] by simp
  have sum: "unat num + unat p + (sg_total (sgx_cur_sg x) - unat c) = unat tot"
    and pb: "unat p < unat blk" and dv: "unat blk dvd unat tot - unat num"
    using inv by (simp_all add: sgx_inv_def c_def p_def num_def tot_def)
  have "unat num \<noteq> unat tot" using more by (simp add: num_def tot_def word_unat_eq_iff)
  with sum have "0 < unat tot - unat num" by linarith
  from dvd_imp_le [OF dv this] have ge: "unat num + unat blk \<le> unat tot"
    using \<open>0 < unat tot - unat num\<close> by linarith
  with sum pb have "0 < sg_total (sgx_cur_sg x) - unat c" by linarith
  then obtain a l ds where cur: "sgx_cur_sg x = (a, l) # ds"
    by (cases "sgx_cur_sg x") auto
  have cl: "unat c < unat l" using inv cur by (simp add: sgx_inv_def c_def)
  have left: "unat (l - c) = unat l - unat c" using cl by (simp add: unat_sub word_le_nat_alt)
  have tl: "unat p + (unat l - unat c) \<le> unat tot" using sum cl by (simp add: cur)
  then have pl: "unat (p + (l - c)) = unat p + (unat l - unat c)"
    using tot left by (subst unat_u32_add) simp_all
  define partial where "partial = (\<not> blk \<le> p + (l - c))"
  define n where "n = (if partial then l - c else blk - p)"
  have n: "unat n = (if partial then unat l - unat c else unat blk - unat p)"
    using pb left by (simp add: n_def unat_sub word_le_nat_alt)
  have cn: "unat c + unat n \<le> unat l" "0 < unat n"
    using n pl cl pb by (auto simp: partial_def word_le_nat_alt)
  have "unat l < 4294967296" using unsigned_less [of l] by simp
  then have ucn: "unat (c + n) = unat c + unat n" using cn by (intro unat_u32_add) simp
  define last where "last \<longleftrightarrow> l = c + n"
  define y where "y = x\<lparr>sgx_dma_addr := a + ucast c, sgx_dma_len := n,
     sgx_tot_partial := (if partial then p + n else 0),
     sgx_num_bytes := (if partial then num else num + blk),
     sgx_bytes_consumed := (if last then 0 else c + n), sgx_cur_sg := (if last then ds else (a, l) # ds)\<rparr>"
  have piece: "qla24xx_get_one_block_sg blk x = Sgx_piece partial y"
    using more unfolding qla24xx_get_one_block_sg_def
    by (simp add: cur y_def Let_def last_def partial_def n_def c_def p_def num_def tot_def not_le)
  have last_iff: "last \<longleftrightarrow> unat l = unat c + unat n" by (simp add: last_def word_unat_eq_iff ucn)
  have nb: "unat (num + blk) = unat num + unat blk" using ge tot by (intro unat_u32_add) simp
  have pn: "partial \<Longrightarrow> unat (p + n) = unat p + unat n"
    using pl by (simp add: n_def left)
  have rest: "sgx_rest x = sg_bytes (a + ucast c, n) @ sgx_rest y"
  proof (cases last)
    case True
    then have "drop (unat c + unat n) (sg_bytes (a, l)) = []" by (simp add: last_iff)
    then show ?thesis using True cl sg_bytes_split [OF cn(1), of a]
      by (simp add: sgx_rest_def cur y_def c_def)
  next
    case False
    then show ?thesis using cl cn sg_bytes_split [OF cn(1), of a]
      by (simp add: sgx_rest_def cur y_def c_def [symmetric] ucn)
  qed
  have part: "if partial then unat (sgx_tot_partial y) = unat p + unat n \<and> unat (sgx_tot_partial y) < unat blk
     else unat p + unat n = unat blk \<and> sgx_tot_partial y = 0"
    using pn pl pb n left by (auto simp: y_def partial_def n_def word_le_nat_alt not_le)
  have "sgx_inv blk y"
    unfolding sgx_inv_def
  proof (intro conjI)
    show "\<forall>d\<in>set (sgx_cur_sg y). snd d \<noteq> 0" using inv cur by (auto simp: sgx_inv_def y_def)
    show "unat (sgx_bytes_consumed y) \<le> sg_total (sgx_cur_sg y)"
      using cn by (simp add: y_def ucn)
    show "\<forall>d es. sgx_cur_sg y = d # es \<longrightarrow> unat (sgx_bytes_consumed y) < unat (snd d)"
      using inv cur cn last_iff by (auto simp: y_def ucn sgx_inv_def unat_gt_0)
    show "unat (sgx_tot_partial y) < unat blk" using part pb by (auto split: if_splits)
    show "unat blk dvd unat (sgx_tot_bytes y) - unat (sgx_num_bytes y)"
      using dv dvd_diff_nat [OF dv dvd_refl]
      by (simp add: y_def tot_def [symmetric] nb)
    show "unat (sgx_num_bytes y) + unat (sgx_tot_partial y)
       + (sg_total (sgx_cur_sg y) - unat (sgx_bytes_consumed y)) = unat (sgx_tot_bytes y)"
      using sum part cn last_iff cl by (auto simp: y_def tot_def [symmetric] nb ucn cur pn split: if_splits)
  qed
  moreover have "sgx_dma_len y = n" "sgx_dma_addr y = a + ucast c" by (simp_all add: y_def)
  ultimately show ?thesis
    using piece rest part cn(2) by (intro that [of partial y]) (simp_all add: p_def unat_gt_0 split: if_splits)
qed

section \<open>The run\<close>

lemma sgx_pieces_cover:
  assumes "sgx_inv blk x" and "sg_total (sgx_cur_sg x) - unat (sgx_bytes_consumed x) < n"
  shows "\<exists>ps. sgx_pieces blk n x = Some ps \<and> concat (map (sg_bytes \<circ> snd) ps) = sgx_rest x
    \<and> cut_at_blocks (unat blk) (unat (sgx_tot_partial x)) ps"
  using assms
proof (induction n arbitrary: x)
  case (Suc n)
  show ?case
  proof (cases "sgx_num_bytes x = sgx_tot_bytes x")
    case True
    then have "unat (sgx_tot_partial x) = 0" "sg_total (sgx_cur_sg x) \<le> unat (sgx_bytes_consumed x)"
      using Suc(2) by (auto simp: sgx_inv_def)
    moreover have "length (concat (map sg_bytes ds)) = sg_total ds" for ds
      by (induction ds) simp_all
    ultimately show ?thesis using True
      by (simp add: qla24xx_get_one_block_sg_def sgx_rest_def)
  next
    case False
    from Suc(2) False obtain partial y where y:
      "qla24xx_get_one_block_sg blk x = Sgx_piece partial y" "sgx_inv blk y"
      "sgx_rest x = sg_bytes (sgx_dma_addr y, sgx_dma_len y) @ sgx_rest y" "sgx_dma_len y \<noteq> 0"
      "if partial then unat (sgx_tot_partial y) = unat (sgx_tot_partial x) + unat (sgx_dma_len y)
         \<and> unat (sgx_tot_partial y) < unat blk
       else unat (sgx_tot_partial x) + unat (sgx_dma_len y) = unat blk \<and> sgx_tot_partial y = 0"
      by (rule sgx_step)
    have len: "length (sgx_rest z) = sg_total (sgx_cur_sg z) - unat (sgx_bytes_consumed z)" for z
    proof -
      have "length (concat (map sg_bytes ds)) = sg_total ds" for ds
        by (induction ds) simp_all
      then show ?thesis by (simp add: sgx_rest_def)
    qed
    have "0 < unat (sgx_dma_len y)" using y(4) by (simp add: unat_gt_0)
    then have "sg_total (sgx_cur_sg y) - unat (sgx_bytes_consumed y) < n"
      using Suc(3) arg_cong [OF y(3), of length] by (simp add: len)
    from Suc(1) [OF y(2) this] obtain ps where "sgx_pieces blk n y = Some ps"
      "concat (map (sg_bytes \<circ> snd) ps) = sgx_rest y"
      "cut_at_blocks (unat blk) (unat (sgx_tot_partial y)) ps" by blast
    then show ?thesis using y by (auto simp: unat_gt_0 comp_def split: if_splits)
  qed
qed simp

section \<open>Interleaving the protection tuples\<close>

text \<open>
  The descriptors of a command without bundling: behind the piece that completes a block, the
  next eight bytes of the protection scatterlist. None: that list is too short.
\<close>

fun with_tuples :: "(bool \<times> sg) list \<Rightarrow> sg list \<Rightarrow> u32 \<Rightarrow> sg list option" where
  "with_tuples [] prot d = Some []"
| "with_tuples ((True, p) # ps) prot d = map_option (Cons p) (with_tuples ps prot d)"
| "with_tuples ((False, p) # ps) [] d = None"
| "with_tuples ((False, p) # ps) ((a, len) # prot) d =
     map_option (\<lambda>ds. p # (a + ucast d, 8) # ds)
       (if d + 8 = len then with_tuples ps prot 0 else with_tuples ps ((a, len) # prot) (d + 8))"

lemma push_all_step:
  "push_all al (d # ds) s = (case push_dsd al d s of None \<Rightarrow> (1, s) | Some t \<Rightarrow> push_all al ds t)"
  by simp

lemma no_difb_is_push:
  assumes "sgx_pieces blk n x = Some ps" and "with_tuples ps prot d = Some ds"
  shows "no_difb_loop al blk n x prot d s = Some (push_all al ds s)"
  using assms
proof (induction n arbitrary: x ps prot d ds s)
  case (Suc n)
  show ?case
  proof (cases "qla24xx_get_one_block_sg blk x")
    case Sgx_end
    then show ?thesis using Suc(2,3) by auto
  next
    case Sgx_crash
    then show ?thesis using Suc(2) by simp
  next
    case (Sgx_piece partial y)
    then obtain qs where qs: "sgx_pieces blk n y = Some qs"
      "ps = (partial, sgx_dma_addr y, sgx_dma_len y) # qs" using Suc(2) by auto
    show ?thesis
    proof (cases partial)
      case True
      then show ?thesis using Suc(1) [OF qs(1)] Suc(3) qs(2) Sgx_piece
        by (auto split: option.splits)
    next
      case False
      then obtain a len prot' where prot: "prot = (a, len) # prot'"
        using Suc(3) qs(2) by (cases prot) auto
      show ?thesis
      proof (cases "d + 8 = len")
        case True
        then show ?thesis using Suc(1) [OF qs(1)] Suc(3) qs(2) Sgx_piece False prot
          by (auto split: option.splits)
      next
        case ne: False
        then show ?thesis using Suc(1) [OF qs(1)] Suc(3) qs(2) Sgx_piece False prot
          by (auto split: option.splits)
      qed
    qed
  qed
qed simp

end
