(* ===== verification/Iocb_Crc.thy ===== *)
theory Iocb_Crc
  imports Dsd_Lists
begin

text \<open>
  Protected commands (qla_iocb.c 146-182, 780-854, 1160-1388, 1564-1759; qla_inline.h 168-194):
  the CRC_2 command names a context in DMA memory that holds the protection options, the FCP
  command and the first descriptor of the data and of the protection tuples. The context is the
  root memory of the walk: 84 words that the adapter reads.
\<close>

section \<open>Protection modes\<close>

definition PO_MODE_DIF_INSERT :: u16 where "PO_MODE_DIF_INSERT = 0"
definition PO_MODE_DIF_REMOVE :: u16 where "PO_MODE_DIF_REMOVE = 1"
definition PO_MODE_DIF_PASS :: u16 where "PO_MODE_DIF_PASS = 2"
definition PO_MODE_DIF_TCP_CKSUM :: u16 where "PO_MODE_DIF_TCP_CKSUM = 6"
definition PO_ENABLE_DIF_BUNDLING :: u16 where "PO_ENABLE_DIF_BUNDLING = BIT 8"

definition qla24xx_configure_prot_mode :: "scsi_cmnd \<Rightarrow> nat \<times> u16" where
  "qla24xx_configure_prot_mode c =
     (length (scsi_prot_sglist c),
      case prot_op c of
        SCSI_PROT_READ_STRIP \<Rightarrow> PO_MODE_DIF_REMOVE
      | SCSI_PROT_WRITE_INSERT \<Rightarrow> PO_MODE_DIF_INSERT
      | SCSI_PROT_READ_INSERT \<Rightarrow> PO_MODE_DIF_INSERT
      | SCSI_PROT_WRITE_STRIP \<Rightarrow> PO_MODE_DIF_REMOVE
      | SCSI_PROT_READ_PASS \<Rightarrow> if host_guard_ip c then PO_MODE_DIF_TCP_CKSUM else PO_MODE_DIF_PASS
      | SCSI_PROT_WRITE_PASS \<Rightarrow> if host_guard_ip c then PO_MODE_DIF_TCP_CKSUM else PO_MODE_DIF_PASS
      | SCSI_PROT_NORMAL \<Rightarrow> PO_MODE_DIF_PASS)"

text \<open>\<open>err_chk\<close> is the module parameter \<open>ql2xenablehba_err_chk\<close>.\<close>

definition qla2x00_hba_err_chk_enabled :: "int \<Rightarrow> scsi_cmnd \<Rightarrow> bool" where
  "qla2x00_hba_err_chk_enabled err_chk c =
     (case prot_op c of
        SCSI_PROT_READ_STRIP \<Rightarrow> err_chk \<ge> 1
      | SCSI_PROT_WRITE_INSERT \<Rightarrow> err_chk \<ge> 1
      | SCSI_PROT_READ_PASS \<Rightarrow> err_chk \<ge> 2
      | SCSI_PROT_WRITE_PASS \<Rightarrow> err_chk \<ge> 2
      | SCSI_PROT_READ_INSERT \<Rightarrow> True
      | SCSI_PROT_WRITE_STRIP \<Rightarrow> True
      | SCSI_PROT_NORMAL \<Rightarrow> False)"

section \<open>The context\<close>

text \<open>Byte offsets in \<open>struct crc_context\<close>.\<close>

definition CRC_REF_TAG :: nat where "CRC_REF_TAG = 4"
definition CRC_APP_TAG :: nat where "CRC_APP_TAG = 8"
definition CRC_REF_MASK :: nat where "CRC_REF_MASK = 10"
definition CRC_APP_MASK :: nat where "CRC_APP_MASK = 14"
definition CRC_GUARD_SEED :: nat where "CRC_GUARD_SEED = 16"
definition CRC_PROT_OPTS :: nat where "CRC_PROT_OPTS = 18"
definition CRC_BLK_SIZE :: nat where "CRC_BLK_SIZE = 20"
definition CRC_BYTE_COUNT :: nat where "CRC_BYTE_COUNT = 24"
definition CRC_DIF_BYTE_COUNT :: nat where "CRC_DIF_BYTE_COUNT = 28"
definition CRC_DSEG_COUNT :: nat where "CRC_DSEG_COUNT = 34"
definition CRC_DATA_WORD :: nat where "CRC_DATA_WORD = 10"
definition CRC_DIF_WORD :: nat where "CRC_DIF_WORD = 13"
definition CRC_FCP_CMND :: nat where "CRC_FCP_CMND = 64"
definition CRC_WORDS :: nat where "CRC_WORDS = 84"

definition lba_tag :: "scsi_cmnd \<Rightarrow> u32" where
  "lba_tag c = ucast (scsi_lba c)"

definition qla24xx_set_t10dif_tags :: "int \<Rightarrow> scsi_cmnd \<Rightarrow> u32 list \<Rightarrow> u32 list" where
  "qla24xx_set_t10dif_tags err_chk c x =
     (let mask_ref = (\<lambda>x. if qla2x00_hba_err_chk_enabled err_chk c
                          then put_bytes 0 CRC_REF_MASK [0xff, 0xff, 0xff, 0xff] x else x);
          app = (\<lambda>x. put_bytes 0 CRC_APP_MASK [0, 0] (put16 0 CRC_APP_TAG 0 x));
          ref = put32 0 CRC_REF_TAG (lba_tag c)
      in case prot_type c of
           SCSI_PROT_DIF_TYPE0 \<Rightarrow> mask_ref (ref x)
         | SCSI_PROT_DIF_TYPE1 \<Rightarrow> mask_ref (app (ref x))
         | SCSI_PROT_DIF_TYPE2 \<Rightarrow> mask_ref (ref (app x))
         | SCSI_PROT_DIF_TYPE3 \<Rightarrow> put_bytes 0 CRC_REF_MASK [0, 0, 0, 0] x)"

text \<open>
  The FCP command at byte \<open>off\<close>: LUN, task attribute, data direction in the low bits of the
  additional length, the CDB and behind it the data length, big-endian.
\<close>

definition additional_cdb_len :: "scsi_cmnd \<Rightarrow> u8" where
  "additional_cdb_len c = (if cmd_len c > 16 then ucast (cmd_len c - 16) else 0)"

definition fcp_cmnd_len :: "scsi_cmnd \<Rightarrow> u16" where
  "fcp_cmnd_len c = (if cmd_len c > 16 then 12 + cmd_len c + 4 else 12 + 16 + 4)"

definition direction_bits :: "scsi_cmnd \<Rightarrow> u8" where
  "direction_bits c = (case sc_data_direction c of DMA_TO_DEVICE \<Rightarrow> 1 | DMA_FROM_DEVICE \<Rightarrow> 2 | _ \<Rightarrow> 0)"

definition fill_fcp_cmnd :: "kenv \<Rightarrow> scsi_cmnd \<Rightarrow> nat \<Rightarrow> u8 \<Rightarrow> u32 list \<Rightarrow> u32 list" where
  "fill_fcp_cmnd k c off task x =
     (let x = put8 0 (off + 11) (additional_cdb_len c OR direction_bits c) x;
          x = put_bytes 0 off (int_to_scsilun k (lun c)) x;
          x = put_bytes 0 (off + 12) (take (unat (cmd_len c)) (cmnd c)) x;
          x = put8 0 (off + 10) 0 x
      in put8 0 (off + 9) task x)"

definition put_fcp_dl :: "scsi_cmnd \<Rightarrow> nat \<Rightarrow> u32 \<Rightarrow> u32 list \<Rightarrow> u32 list" where
  "put_fcp_dl c off len x = put32 0 (off + 12 + 16 + unat (additional_cdb_len c)) (swab32 len) x"

text \<open>
  The bytes the host moves and the bytes on the wire. None: \<open>BUG()\<close> for a command without
  protection, or the division by a block size of zero.
\<close>

definition crc_bytes :: "scsi_cmnd \<Rightarrow> (u32 \<times> u32 \<times> u32) option" where
  "crc_bytes c =
     (let data = scsi_bufflen c; blk = (ucast (sector_size c) :: u16); dif = data div ucast blk * 8
      in if blk = 0 then None
         else case prot_op c of
           SCSI_PROT_READ_INSERT \<Rightarrow> Some (dif, data + dif, data)
         | SCSI_PROT_WRITE_STRIP \<Rightarrow> Some (dif, data + dif, data)
         | SCSI_PROT_READ_STRIP \<Rightarrow> Some (dif, data, data + dif)
         | SCSI_PROT_WRITE_INSERT \<Rightarrow> Some (dif, data, data + dif)
         | SCSI_PROT_READ_PASS \<Rightarrow> Some (dif, data, data + dif)
         | SCSI_PROT_WRITE_PASS \<Rightarrow> Some (dif, data, data + dif)
         | SCSI_PROT_NORMAL \<Rightarrow> None)"

definition crc_prot_opts :: "int \<Rightarrow> u32 \<Rightarrow> scsi_cmnd \<Rightarrow> u16 \<Rightarrow> u16" where
  "crc_prot_opts err_chk dt c opts =
     (if \<not> qla2x00_hba_err_chk_enabled err_chk c then opts OR 0x10
      else if IS_PI_UNINIT_CAPABLE dt
      then (case prot_type c of
              SCSI_PROT_DIF_TYPE1 \<Rightarrow> opts OR BIT 10
            | SCSI_PROT_DIF_TYPE2 \<Rightarrow> opts OR BIT 10
            | SCSI_PROT_DIF_TYPE3 \<Rightarrow> opts OR BIT 11
            | SCSI_PROT_DIF_TYPE0 \<Rightarrow> opts)
      else opts)"

definition crc_bundling :: "scsi_cmnd \<Rightarrow> bool" where
  "crc_bundling c = (case prot_op c of
       SCSI_PROT_READ_INSERT \<Rightarrow> False | SCSI_PROT_WRITE_STRIP \<Rightarrow> False
     | SCSI_PROT_READ_STRIP \<Rightarrow> False | SCSI_PROT_WRITE_INSERT \<Rightarrow> False | _ \<Rightarrow> True)"

definition one_list_per_block :: "scsi_cmnd \<Rightarrow> bool" where
  "one_list_per_block c =
     (case prot_op c of SCSI_PROT_READ_INSERT \<Rightarrow> True | SCSI_PROT_WRITE_STRIP \<Rightarrow> True | _ \<Rightarrow> False)"

section \<open>The command\<close>

definition COMMAND_TYPE_CRC_2 :: u32 where "COMMAND_TYPE_CRC_2 = 0x6A"
definition CF_WRITE_DATA :: u16 where "CF_WRITE_DATA = BIT 0"
definition CF_READ_DATA :: u16 where "CF_READ_DATA = BIT 1"
definition CF_DATA_SEG_DESCR_ENABLE :: u16 where "CF_DATA_SEG_DESCR_ENABLE = BIT 2"
definition CF_DIF_SEG_DESCR_ENABLE :: u16 where "CF_DIF_SEG_DESCR_ENABLE = BIT 3"

text \<open>Byte offsets that \<open>struct cmd_type_6\<close> and \<open>struct cmd_type_crc_2\<close> share.\<close>

definition CT6_NPORT_HANDLE :: nat where "CT6_NPORT_HANDLE = 8"
definition CT6_DSEG_COUNT :: nat where "CT6_DSEG_COUNT = 12"
definition CT6_FCP_RSP_LEN :: nat where "CT6_FCP_RSP_LEN = 14"
definition CT6_LUN :: nat where "CT6_LUN = 16"
definition CT6_CONTROL_FLAGS :: nat where "CT6_CONTROL_FLAGS = 24"
definition CT6_FCP_CMND_LEN :: nat where "CT6_FCP_CMND_LEN = 26"
definition CT6_FCP_CMND_ADDR :: nat where "CT6_FCP_CMND_ADDR = 28"
definition CT6_BYTE_COUNT :: nat where "CT6_BYTE_COUNT = 44"
definition CT6_PORT_ID :: nat where "CT6_PORT_ID = 48"
definition CT6_VP_INDEX :: nat where "CT6_VP_INDEX = 51"
definition CRC_CONTEXT_ADDR :: nat where "CRC_CONTEXT_ADDR = 52"
definition CRC_CONTEXT_LEN :: nat where "CRC_CONTEXT_LEN = 60"

record crc_ctx =
  crc_ctx_dma :: u64
  crc_mem :: dsd_walk

definition new_ctx :: "u64 \<Rightarrow> u32 list \<Rightarrow> crc_ctx" where
  "new_ctx dma x = \<lparr>crc_ctx_dma = dma,
     crc_mem = \<lparr>w_root = x, w_heap = Map.empty, w_lists = [], w_cur = Root 0, w_avail = 0, w_used = 0\<rparr>\<rparr>"

definition put_control :: "nat \<Rightarrow> u16 \<Rightarrow> u32 list \<Rightarrow> u32 list" where
  "put_control s f m = put16 s CT6_CONTROL_FLAGS (get16 s CT6_CONTROL_FLAGS m OR f) m"

definition put_direction :: "scsi_cmnd \<Rightarrow> nat \<Rightarrow> u32 list \<Rightarrow> u32 list" where
  "put_direction c s m = (case sc_data_direction c of
       DMA_TO_DEVICE \<Rightarrow> put16 s CT6_CONTROL_FLAGS CF_WRITE_DATA m
     | DMA_FROM_DEVICE \<Rightarrow> put16 s CT6_CONTROL_FLAGS CF_READ_DATA m
     | _ \<Rightarrow> m)"

text \<open>
  The walks: the data, interleaved with its tuples where the command has no bundling, and the
  tuples as a list of their own where it has.
\<close>

definition crc_walks ::
    "dsd_alloc \<Rightarrow> scsi_cmnd \<Rightarrow> u16 \<Rightarrow> u16 \<Rightarrow> nat \<Rightarrow> u32 list \<Rightarrow> dsd_walk
      \<Rightarrow> (int \<times> u32 list \<times> dsd_walk) option" where
  "crc_walks al c tot_dsds tot_prot s m w =
     (let m = put_control s CF_DATA_SEG_DESCR_ENABLE m;
          bundling = crc_bundling c;
          r = (if \<not> bundling \<and> tot_prot \<noteq> 0
               then qla24xx_walk_and_build_sglist_no_difb al c (Root CRC_DATA_WORD) tot_dsds w
               else Some (qla24xx_walk_and_build_sglist al c (Root CRC_DATA_WORD)
                      (tot_dsds - tot_prot) w))
      in case r of
           None \<Rightarrow> None
         | Some (rv, w) \<Rightarrow>
             if rv \<noteq> 0 then Some (QLA_FUNCTION_FAILED, m, w)
             else if bundling \<and> tot_prot \<noteq> 0
             then (let m = put_control s CF_DIF_SEG_DESCR_ENABLE m;
                       (rv, w) = qla24xx_walk_and_build_prot_sglist al c (Root CRC_DIF_WORD) tot_prot w
                   in Some (if rv \<noteq> 0 then QLA_FUNCTION_FAILED else QLA_SUCCESS, m, w))
             else Some (QLA_SUCCESS, m, w))"

text \<open>The common fields of the context, once the byte counts are known.\<close>

definition crc_finish :: "scsi_cmnd \<Rightarrow> u16 \<Rightarrow> u16 \<Rightarrow> u16 \<Rightarrow> u32 \<Rightarrow> u32 \<Rightarrow> u32 \<Rightarrow> u32 list \<Rightarrow> u32 list" where
  "crc_finish c tot_dsds tot_prot opts dif data wire x =
     (let x = (if crc_bundling c
               then put16 0 CRC_DSEG_COUNT (tot_dsds - tot_prot) (put32 0 CRC_DIF_BYTE_COUNT dif x)
               else x);
          opts = (if crc_bundling c then opts OR PO_ENABLE_DIF_BUNDLING else opts);
          x = put16 0 CRC_BLK_SIZE (ucast (sector_size c)) x;
          x = put16 0 CRC_PROT_OPTS opts x;
          x = put32 0 CRC_BYTE_COUNT data x;
          x = put16 0 CRC_GUARD_SEED 0 x
      in put_fcp_dl c CRC_FCP_CMND wire x)"

text \<open>
  \<open>pool\<close> is the allocation of the context. The result is the return value, the entry and the
  context; None is a crash.
\<close>

definition qla24xx_build_scsi_crc_2_iocbs ::
    "int \<Rightarrow> u32 \<Rightarrow> kenv \<Rightarrow> u16 \<Rightarrow> dsd_alloc \<Rightarrow> u64 option \<Rightarrow> scsi_cmnd \<Rightarrow> u16 \<Rightarrow> u16 \<Rightarrow> u16
      \<Rightarrow> nat \<Rightarrow> u32 list \<Rightarrow> (int \<times> u32 list \<times> crc_ctx option) option" where
  "qla24xx_build_scsi_crc_2_iocbs err_chk dt k vp al pool c tot_dsds tot_prot opts s m =
     (let m = put32 s ENTRY_TYPE_OFF COMMAND_TYPE_CRC_2 m
      in if scsi_bufflen c = 0 \<or> sc_data_direction c = DMA_NONE
         then Some (QLA_SUCCESS, put32 s CT6_BYTE_COUNT 0 m, None)
         else let m = put_direction c s (put8 s CT6_VP_INDEX (ucast vp) m)
      in case pool of
           None \<Rightarrow> Some (QLA_FUNCTION_FAILED, m, None)
         | Some dma \<Rightarrow>
           (let x = put32 0 0 (get32 s HANDLE_OFF m) (replicate CRC_WORDS 0);
                x = qla24xx_set_t10dif_tags err_chk c x;
                m = put_addr s CRC_CONTEXT_ADDR dma m;
                m = put16 s CRC_CONTEXT_LEN (of_nat CRC_FCP_CMND) m
            in if cmd_len c > 16 \<and> cmd_len c mod 4 \<noteq> 0
               then Some (QLA_FUNCTION_FAILED, m, Some (new_ctx dma x))
               else let x = fill_fcp_cmnd k c CRC_FCP_CMND (cmd_task (scsi_populate_tag_msg k c)) x;
                        m = put16 s CT6_FCP_CMND_LEN (fcp_cmnd_len c) m;
                        m = put_addr s CT6_FCP_CMND_ADDR (dma + of_nat CRC_FCP_CMND) m;
                        m = put16 s CT6_FCP_RSP_LEN 0 m
               in case crc_bytes c of
                    None \<Rightarrow> None
                  | Some (dif, data, wire) \<Rightarrow>
                    (let x = crc_finish c tot_dsds tot_prot (crc_prot_opts err_chk dt c opts)
                               dif data wire x;
                         m = put32 s CT6_BYTE_COUNT wire m;
                         ctx = new_ctx dma x
                     in if data = 0 then Some (QLA_SUCCESS, put32 s CT6_BYTE_COUNT 0 m, Some ctx)
                        else case crc_walks al c tot_dsds tot_prot s m (crc_mem ctx) of
                               None \<Rightarrow> None
                             | Some (rv, m, w) \<Rightarrow> Some (rv, m, Some (ctx\<lparr>crc_mem := w\<rparr>)))))"

section \<open>The handler\<close>

text \<open>
  The DMA memory commands hold (\<open>sp->u.scmd.ctx\<close>), the adapter's pool of descriptor lists for
  command type 6, and what has been given back: addresses to \<open>dl_dma_pool\<close> and to
  \<open>fcp_cmnd_dma_pool\<close>, the commands whose protection scatterlist was unmapped, and request
  blocks. \<open>sp_ref\<close> is \<open>sp->ref_count\<close>; \<open>scsi_dones\<close> records the calls of \<open>cmd->scsi_done\<close>.
\<close>

record ct6_dsd =
  ct6_cmnd_len :: u16
  ct6_cmnd_dma :: u64
  ct6_cmnd :: "u32 list"
  ct6_lists :: "(u64 \<times> u32 list) list"
  ct6_use_cnt :: int

record cmd_dma =
  crc_ctxs :: "sp_ptr \<Rightarrow> crc_ctx option"
  ct6_ctxs :: "sp_ptr \<Rightarrow> ct6_dsd option"
  gbl_dsd_list :: "(u64 \<times> u32 list) list"
  gbl_dsd_avail :: u16
  gbl_dsd_inuse :: u16
  dl_freed :: "u64 list"
  fcp_freed :: "u64 list"
  prot_unmapped :: "sp_ptr list"
  vref_count :: int
  sp_ref :: "sp_ptr \<Rightarrow> int"
  srb_freed :: "sp_ptr list"
  scsi_dones :: "(sp_ptr \<times> scsi_result) list"

text \<open>The two mappings: the number of data descriptors, and of descriptors for the tuples.\<close>

definition dif_data_segs :: "kenv \<Rightarrow> scsi_cmnd \<Rightarrow> (scsi_cmnd \<times> nat) option option" where
  "dif_data_segs k c =
     (if scsi_sglist c = [] then Some (Some (c, 0))
      else let c = c\<lparr>scsi_sglist := dma_map_sg k (scsi_sglist c)\<rparr>
           in if scsi_sglist c = [] then Some None
              else if one_list_per_block c
              then map_option (\<lambda>n. Some (c, n)) (count_pieces (sector_size c) (block_fuel c) (sgx_start c))
              else Some (Some (c, length (scsi_sglist c))))"

definition dif_prot_segs :: "kenv \<Rightarrow> scsi_cmnd \<Rightarrow> (scsi_cmnd \<times> nat) option option" where
  "dif_prot_segs k c =
     (if fst (qla24xx_configure_prot_mode c) = 0 then Some (Some (c, 0))
      else let c = c\<lparr>scsi_prot_sglist := dma_map_sg k (scsi_prot_sglist c)\<rparr>
           in if scsi_prot_sglist c = [] then Some None
              else if one_list_per_block c
              then (if sector_size c = 0 then None
                    else Some (Some (c, unat (scsi_bufflen c div sector_size c))))
              else Some (Some (c, length (scsi_prot_sglist c))))"

definition or_flags :: "sp_ptr \<Rightarrow> u16 \<Rightarrow> host \<Rightarrow> host" where
  "or_flags sp f = upd_sp sp (\<lambda>s. s\<lparr>sp_flags := sp_flags s OR f\<rparr>)"

definition ctx_flags :: "crc_ctx option \<Rightarrow> u16" where
  "ctx_flags ctx = (case ctx of None \<Rightarrow> 0
     | Some x \<Rightarrow> SRB_CRC_CTX_DMA_VALID
         OR (if w_lists (crc_mem x) \<noteq> [] then SRB_CRC_CTX_DSD_VALID else 0))"

text \<open>The common area of the entry.\<close>

definition crc_fill_cmd ::
    "kenv \<Rightarrow> u16 \<Rightarrow> fc_port \<Rightarrow> scsi_cmnd \<Rightarrow> u32 \<Rightarrow> u16 \<Rightarrow> nat \<Rightarrow> u32 list \<Rightarrow> u32 list" where
  "crc_fill_cmd k qid fc c handle tot_dsds s m =
     (let m = put32 s HANDLE_OFF (MAKE_HANDLE qid handle) m;
          m = zero_words (16 * s + 2) 14 m;
          m = put16 s CT6_NPORT_HANDLE (loop_id fc) m;
          m = put_port_id s CT6_PORT_ID fc m;
          m = put_bytes s CT6_LUN (int_to_scsilun k (lun c)) m;
          m = host_to_fcp_swap (16 * s + 4) 2 m
      in put16 s CT6_DSEG_COUNT tot_dsds m)"

text \<open>
  From \<open>QDSS_GOT_Q_SPACE\<close> on: the queue with the command entered and the entry built, and
  what the error path takes back when the builder fails.
\<close>

definition dif_load_cmd ::
    "int \<Rightarrow> u32 \<Rightarrow> kenv \<Rightarrow> u16 \<Rightarrow> u16 \<Rightarrow> dsd_alloc \<Rightarrow> u64 option \<Rightarrow> fc_port \<Rightarrow> sp_ptr \<Rightarrow> scsi_cmnd
      \<Rightarrow> u32 \<Rightarrow> u16 \<Rightarrow> u16 \<Rightarrow> req_que \<Rightarrow> (int \<times> req_que \<times> crc_ctx option) option" where
  "dif_load_cmd err_chk dt k vp rsp al pool fc sp c handle tot_dsds tot_prot q =
     (let q = put_handle q handle sp;
          q = q\<lparr>cnt := cnt q - 1\<rparr>;
          s = ring_ptr q;
          m = crc_fill_cmd k (que_id q) fc c handle tot_dsds s (ring q)
      in case qla24xx_build_scsi_crc_2_iocbs err_chk dt k vp al pool c tot_dsds tot_prot
                (snd (qla24xx_configure_prot_mode c)) s m of
           None \<Rightarrow> None
         | Some (rv, m, ctx) \<Rightarrow>
             if rv \<noteq> QLA_SUCCESS
             then (let q = clear_handle (q\<lparr>ring := m\<rparr>) handle
                   in Some (QLA_FUNCTION_FAILED, q\<lparr>cnt := cnt q + 1\<rparr>, ctx))
             else (let m = put8 s ENTRY_COUNT_OFF 1 m;
                       m = put8 s ENTRY_STATUS_OFF (ucast rsp) m;
                       m = put16 s 10 0 m
                   in Some (QLA_SUCCESS, ring_doorbell (q\<lparr>ring := m\<rparr>), ctx)))"

definition dif_submit ::
    "(nat \<Rightarrow> host \<Rightarrow> host) \<Rightarrow> int \<Rightarrow> kenv \<Rightarrow> dsd_alloc \<Rightarrow> u64 option \<Rightarrow> sp_ptr \<Rightarrow> nat \<Rightarrow> u32
      \<Rightarrow> scsi_cmnd \<Rightarrow> nat \<Rightarrow> nat \<Rightarrow> host \<times> cmd_dma \<Rightarrow> (int \<times> host \<times> cmd_dma) option" where
  "dif_submit process err_chk k al pool sp rsp handle c ndata nprot = (\<lambda>(h, g).
     (let qi = vha_req h;
          tot_prot = of_nat nprot;
          tot_dsds = of_nat ndata + tot_prot;
          (ok, req) = req_room (get_req qi h) (req_q_out k (que_id (get_req qi h))) 1
      in if \<not> ok then Some (QLA_FUNCTION_FAILED, set_req qi req h, g)
         else let h = note_handle sp handle h
         in case dif_load_cmd err_chk (device_type h) k (vp_idx h) (rsp_id (get_rsp rsp h)) al pool
                   (fcport (srbs h sp)) sp c handle tot_dsds tot_prot req of
              None \<Rightarrow> None
            | Some (rv, req, ctx) \<Rightarrow>
                (let h = or_flags sp (ctx_flags ctx) (set_req qi req h);
                     g = g\<lparr>crc_ctxs := (crc_ctxs g)(sp := ctx)\<rparr>
                 in Some (if rv \<noteq> QLA_SUCCESS then (rv, h, g)
                          else (QLA_SUCCESS, poll_rsp process rsp h, g)))))"

definition qla24xx_dif_start_scsi ::
    "(nat \<Rightarrow> host \<Rightarrow> host) \<Rightarrow> int \<Rightarrow> kenv \<Rightarrow> dsd_alloc \<Rightarrow> u64 option \<Rightarrow> sp_ptr \<Rightarrow> host \<times> cmd_dma
      \<Rightarrow> (int \<times> host \<times> cmd_dma) option" where
  "qla24xx_dif_start_scsi process err_chk k al pool sp = (\<lambda>(h, g).
     (let c = cmd (srbs h sp); rsp = qla25xx_set_que (srbs h sp) h
      in if prot_op c = SCSI_PROT_NORMAL \<and> cmd_len c \<le> 16
         then (let (rv, h) = qla24xx_start_scsi process k sp h in Some (rv, h, g))
         else case send_marker k h of
        (False, h) \<Rightarrow> Some (QLA_FUNCTION_FAILED, h, g)
      | (True, h) \<Rightarrow>
      (case find_handle (get_req (vha_req h) h) of
        None \<Rightarrow> Some (QLA_FUNCTION_FAILED, h, g)
      | Some handle \<Rightarrow>
      (case dif_data_segs k c of
        None \<Rightarrow> None
      | Some None \<Rightarrow> Some (QLA_FUNCTION_FAILED, h, g)
      | Some (Some (c, ndata)) \<Rightarrow>
          (let h = (if scsi_sglist c \<noteq> [] then or_flags sp SRB_DMA_VALID h else h)
           in case dif_prot_segs k c of
        None \<Rightarrow> None
      | Some None \<Rightarrow> Some (QLA_FUNCTION_FAILED, h, g)
      | Some (Some (c, nprot)) \<Rightarrow>
          (let h = (if scsi_prot_sglist c \<noteq> [] then or_flags sp SRB_CRC_PROT_DMA_VALID h else h)
           in dif_submit process err_chk k al pool sp rsp handle c ndata nprot (h, g)))))))"

end
