(* ===== verification/Iocb_Type6.thy ===== *)
theory Iocb_Type6
  imports Iocb_Crc
begin

text \<open>
  Submission on the P3P adapters (qla_iocb.c 577-693 and 2197-2560): a command with more segments
  than a threshold becomes a type 6 command, whose FCP command lies in DMA memory of its own and
  whose data descriptors lie in lists taken from a pool of the adapter; other commands take the
  type 7 form. The doorbell is one register that holds port, queue and ring index.
\<close>

section \<open>The entry\<close>

definition COMMAND_TYPE_6 :: u32 where "COMMAND_TYPE_6 = 0x48"
definition NUM_DSD_CHAIN :: nat where "NUM_DSD_CHAIN = 4096"
definition SRB_FCP_CMND_DMA_VALID :: u16 where "SRB_FCP_CMND_DMA_VALID = BIT 12"
definition CT6_DATA_WORD :: nat where "CT6_DATA_WORD = 13"
definition FCP_CMND_WORDS :: nat where "FCP_CMND_WORDS = 68"

definition count_transfer :: "scsi_cmnd \<Rightarrow> qla_statistics \<Rightarrow> qla_statistics" where
  "count_transfer c st = (case sc_data_direction c of
       DMA_TO_DEVICE \<Rightarrow> st\<lparr>output_bytes := output_bytes st + ucast (scsi_bufflen c),
                          output_requests := output_requests st + 1\<rparr>
     | DMA_FROM_DEVICE \<Rightarrow> st\<lparr>input_bytes := input_bytes st + ucast (scsi_bufflen c),
                            input_requests := input_requests st + 1\<rparr>
     | _ \<Rightarrow> st)"

text \<open>
  The builder takes lists from the pool and leaves them with the command: the last component is
  what the command's \<open>dsd_list\<close> holds then.
\<close>

definition qla24xx_build_scsi_type_6_iocbs ::
    "scsi_cmnd \<Rightarrow> u16 \<Rightarrow> nat \<Rightarrow> u32 list \<Rightarrow> qla_statistics \<Rightarrow> cmd_dma
      \<Rightarrow> (u32 list \<times> qla_statistics \<times> cmd_dma \<times> (u64 \<times> u32 list) list) option" where
  "qla24xx_build_scsi_type_6_iocbs c tot_dsds s m st g =
     (let m = put32 s ENTRY_TYPE_OFF COMMAND_TYPE_6 m
      in if scsi_bufflen c = 0 \<or> sc_data_direction c = DMA_NONE
         then Some (put32 s CT6_BYTE_COUNT 0 m, st, g, [])
         else if tot_dsds = 0 then None
         else let m = put_direction c s m;
                  w = \<lparr>w_root = m, w_heap = Map.empty, w_lists = [],
                       w_cur = Root (16 * s + CT6_DATA_WORD), w_avail = 0, w_used = 0\<rparr>
         in case type6_loop tot_dsds (gbl_dsd_list g) (scsi_sglist c) w of
              None \<Rightarrow> None
            | Some (gbl, w) \<Rightarrow>
                (let n = of_nat (length (w_lists w))
                 in Some (put_control s CF_DATA_SEG_DESCR_ENABLE (w_root w), count_transfer c st,
                      g\<lparr>gbl_dsd_list := gbl, gbl_dsd_avail := gbl_dsd_avail g - n,
                        gbl_dsd_inuse := gbl_dsd_inuse g + n\<rparr>,
                      map (\<lambda>a. (a, the (w_heap w a))) (w_lists w))))"

text \<open>The FCP command in its own memory.\<close>

definition ct6_fcp_cmnd :: "kenv \<Rightarrow> bool \<Rightarrow> u8 \<Rightarrow> scsi_cmnd \<Rightarrow> u32 list" where
  "ct6_fcp_cmnd k prio_on prio c =
     (let task = cmd_task (scsi_populate_tag_msg k c);
          task = (if prio_on then task OR push_bit 3 prio else task)
      in put_fcp_dl c 0 (scsi_bufflen c) (fill_fcp_cmnd k c 0 task (replicate FCP_CMND_WORDS 0)))"

definition ct6_fill_cmd ::
    "u16 \<Rightarrow> u16 \<Rightarrow> fc_port \<Rightarrow> u32 \<Rightarrow> u16 \<Rightarrow> nat \<Rightarrow> u32 list \<Rightarrow> u32 list" where
  "ct6_fill_cmd qid vp fc handle tot_dsds s m =
     (let m = put32 s HANDLE_OFF (MAKE_HANDLE qid handle) m;
          m = zero_words (16 * s + 2) 14 m;
          m = put16 s CT6_DSEG_COUNT tot_dsds m;
          m = put16 s CT6_NPORT_HANDLE (loop_id fc) m;
          m = put_port_id s CT6_PORT_ID fc m
      in put8 s CT6_VP_INDEX (ucast vp) m)"

definition ct6_load_cmd ::
    "kenv \<Rightarrow> bool \<Rightarrow> u8 \<Rightarrow> u16 \<Rightarrow> u16 \<Rightarrow> fc_port \<Rightarrow> scsi_cmnd \<Rightarrow> u32 \<Rightarrow> u64 \<Rightarrow> req_que \<Rightarrow> qla_statistics \<Rightarrow> cmd_dma
      \<Rightarrow> (u32 list \<times> qla_statistics \<times> cmd_dma \<times> ct6_dsd) option" where
  "ct6_load_cmd k prio_on prio vp rsp fc c handle dma q st g =
     (let s = ring_ptr q; tot_dsds = of_nat (length (scsi_sglist c));
          m = ct6_fill_cmd (que_id q) vp fc handle tot_dsds s (ring q)
      in case qla24xx_build_scsi_type_6_iocbs c tot_dsds s m st g of
           None \<Rightarrow> None
         | Some (m, st, g, dsds) \<Rightarrow>
           (let m = put_bytes s CT6_LUN (int_to_scsilun k (lun c)) m;
                m = host_to_fcp_swap (16 * s + 4) 2 m;
                m = put16 s CT6_FCP_CMND_LEN (fcp_cmnd_len c) m;
                m = put_addr s CT6_FCP_CMND_ADDR dma m;
                m = put32 s CT6_BYTE_COUNT (scsi_bufflen c) m;
                m = put8 s ENTRY_COUNT_OFF 1 m;
                m = put8 s ENTRY_STATUS_OFF (ucast rsp) m
            in Some (m, st, g, \<lparr>ct6_cmnd_len = fcp_cmnd_len c, ct6_cmnd_dma = dma,
                 ct6_cmnd = ct6_fcp_cmnd k prio_on prio c, ct6_lists = dsds,
                 ct6_use_cnt = int (length dsds)\<rparr>)))"

section \<open>The pool of lists\<close>

fun add_dsd_lists :: "dsd_alloc \<Rightarrow> nat \<Rightarrow> nat \<Rightarrow> cmd_dma \<Rightarrow> bool \<times> cmd_dma" where
  "add_dsd_lists al i 0 g = (True, g)"
| "add_dsd_lists al i (Suc n) g =
     (case al i of None \<Rightarrow> (False, g)
      | Some l \<Rightarrow> add_dsd_lists al (Suc i) n
          (g\<lparr>gbl_dsd_list := gbl_dsd_list g @ [l], gbl_dsd_avail := gbl_dsd_avail g + 1\<rparr>))"

definition reserve_dsd_lists :: "dsd_alloc \<Rightarrow> u16 \<Rightarrow> cmd_dma \<Rightarrow> bool \<times> cmd_dma" where
  "reserve_dsd_lists al tot_dsds g =
     (let more = qla24xx_calc_dsd_lists tot_dsds
      in if unat more + unat (gbl_dsd_inuse g) \<ge> NUM_DSD_CHAIN then (False, g)
         else if more \<le> gbl_dsd_avail g then (True, g)
         else add_dsd_lists al 0 (unat (more - gbl_dsd_avail g)) g)"

section \<open>The handler\<close>

definition p3p_doorbell :: "nat \<Rightarrow> host \<Rightarrow> host" where
  "p3p_doorbell qi h =
     (let req = ring_advance (get_req qi h);
          dbval = 0x04 OR push_bit 5 (ucast (portnum h))
            OR push_bit 8 (ucast (que_id req)) OR push_bit 16 (ucast (ring_index req))
      in (set_req qi req h)\<lparr>nxdb_wr := dbval\<rparr>)"

text \<open>"Build command packet" to the end: the entry is complete at \<open>ring_ptr\<close>.\<close>

definition p3p_submit ::
    "(nat \<Rightarrow> host \<Rightarrow> host) \<Rightarrow> sp_ptr \<Rightarrow> u32 \<Rightarrow> u16 \<Rightarrow> req_que \<Rightarrow> qla_statistics \<Rightarrow> host \<Rightarrow> host" where
  "p3p_submit process sp handle req_cnt q st h =
     (let q = put_handle q handle sp;
          h = note_handle sp handle ((set_req (vha_req h) (q\<lparr>cnt := cnt q - req_cnt\<rparr>) h)\<lparr>qla_stats := st\<rparr>);
          h = or_flags sp SRB_DMA_VALID h
      in poll_rsp process 0 (p3p_doorbell (vha_req h) h))"

text \<open>The type 7 form; \<open>load_cmd\<close> of the ISP24xx without handle table and doorbell.\<close>

definition p3p_fill_type7 ::
    "kenv \<Rightarrow> u32 \<Rightarrow> bool \<Rightarrow> u8 \<Rightarrow> u16 \<Rightarrow> u16 \<Rightarrow> fc_port \<Rightarrow> scsi_cmnd \<Rightarrow> u32 \<Rightarrow> u16 \<Rightarrow> req_que \<Rightarrow> qla_statistics
      \<Rightarrow> req_que \<times> qla_statistics" where
  "p3p_fill_type7 k dt prio_on prio vp rsp fc c handle req_cnt q st =
     (let s = ring_ptr q; tot_dsds = of_nat (length (scsi_sglist c)) :: u16;
          m = qla24xx_fill_cmd k (que_id q) vp fc c handle tot_dsds s (ring q);
          m = (if prio_on
               then put8 s CT7_TASK_OFF (cmd_task (scsi_populate_tag_msg k c) OR push_bit 3 prio) m else m);
          (q, st) = qla24xx_build_scsi_iocbs dt c (take (unat tot_dsds) (scsi_sglist c)) (q\<lparr>ring := m\<rparr>) st;
          m = put8 s ENTRY_COUNT_OFF (ucast req_cnt) (ring q)
      in (q\<lparr>ring := put8 s ENTRY_STATUS_OFF (ucast rsp) m\<rparr>, st))"

text \<open>
  \<open>shift\<close> is the module parameter \<open>ql2xshiftctondsd\<close>, \<open>mp\<close> whether the context could be
  allocated, \<open>pool\<close> the allocation for the FCP command.
\<close>

definition qla82xx_start_scsi ::
    "(nat \<Rightarrow> host \<Rightarrow> host) \<Rightarrow> int \<Rightarrow> bool \<Rightarrow> u8 \<Rightarrow> kenv \<Rightarrow> dsd_alloc \<Rightarrow> bool \<Rightarrow> u64 option \<Rightarrow> sp_ptr
      \<Rightarrow> host \<times> cmd_dma \<Rightarrow> (int \<times> host \<times> cmd_dma) option" where
  "qla82xx_start_scsi process shift prio_on prio k al mp pool sp = (\<lambda>(h, g).
     (let qi = vha_req h; rsp = rsp_id (get_rsp 0 h)
      in case send_marker k h of
        (False, h) \<Rightarrow> Some (QLA_FUNCTION_FAILED, h, g)
      | (True, h) \<Rightarrow>
      (let g_err = (\<lambda>g. g\<lparr>ct6_ctxs := (ct6_ctxs g)(sp := None)\<rparr>)
       in case find_handle (get_req qi h) of
        None \<Rightarrow> Some (QLA_FUNCTION_FAILED, h, g_err g)
      | Some handle \<Rightarrow>
      (case map_cmd k (cmd (srbs h sp)) of
        None \<Rightarrow> Some (QLA_FUNCTION_FAILED, h, g_err g)
      | Some segs \<Rightarrow>
         (let c = (cmd (srbs h sp))\<lparr>scsi_sglist := segs\<rparr>;
              tot_dsds = of_nat (length segs) :: u16;
              fail = (\<lambda>h g. Some (QLA_FUNCTION_FAILED, queue_unmap sp segs h, g_err g));
              fc = fcport (srbs h sp); out = req_q_out k (que_id (get_req qi h))
          in if uint tot_dsds > shift
          then (case reserve_dsd_lists al tot_dsds g of
                 (False, g) \<Rightarrow> fail h g
               | (True, g) \<Rightarrow>
                 (let (ok, q) = req_room (get_req qi h) out 1; h = set_req qi q h
                  in if \<not> ok \<or> \<not> mp then fail h g
                     else case pool of
                       None \<Rightarrow> fail h g
                     | Some dma \<Rightarrow>
                        if cmd_len c > 16 \<and> cmd_len c mod 4 \<noteq> 0
                        then fail h (g\<lparr>fcp_freed := dma # fcp_freed g\<rparr>)
                        else (case ct6_load_cmd k prio_on prio (vp_idx h) rsp fc c handle dma q (qla_stats h) g of
                                None \<Rightarrow> None
                              | Some (m, st, g, ctx) \<Rightarrow>
                                  (let h = or_flags sp SRB_FCP_CMND_DMA_VALID h;
                                       g = g\<lparr>ct6_ctxs := (ct6_ctxs g)(sp \<mapsto> ctx)\<rparr>
                                   in Some (QLA_SUCCESS, p3p_submit process sp handle 1 (q\<lparr>ring := m\<rparr>) st h, g)))))
          else (let req_cnt = qla24xx_calc_iocbs tot_dsds;
                    (ok, q) = req_room (get_req qi h) out req_cnt
                in if \<not> ok then fail (set_req qi q h) g
                   else let (q, st) = p3p_fill_type7 k (device_type h) prio_on prio (vp_idx h) rsp fc c
                                  handle req_cnt q (qla_stats h)
                        in Some (QLA_SUCCESS, p3p_submit process sp handle req_cnt q st h, g)))))))"

end
