(* ===== verification/Host_Queue.thy ===== *)
theory Host_Queue
  imports Iocb_Type6 Isr_Status
begin

text \<open>
  The host template's side of a command (qla_os.c 611-790, qla_inline.h 131-147 and 196-232):
  \<open>qla2xxx_queuecommand\<close> takes a command from the mid-layer, allocates its request block and calls
  the adapter's \<open>start_scsi\<close>; \<open>qla2x00_sp_compl\<close> hands it back; \<open>qla2x00_sp_free_dma\<close> releases what
  the flags of the request block say the command holds.
\<close>

section \<open>Request blocks\<close>

definition DID_NO_CONNECT :: u32 where "DID_NO_CONNECT = 1"
definition DID_REQUEUE :: u32 where "DID_REQUEUE = 13"
definition SCSI_MLQUEUE_HOST_BUSY :: int where "SCSI_MLQUEUE_HOST_BUSY = 0x1055"
definition SCSI_MLQUEUE_TARGET_BUSY :: int where "SCSI_MLQUEUE_TARGET_BUSY = 0x1058"

text \<open>\<open>memset\<close>, then the command: every field that is not set here is zero.\<close>

definition new_srb :: "fc_port \<Rightarrow> scsi_cmnd \<Rightarrow> srb" where
  "new_srb fc c =
     \<lparr>sp_handle = 0, sp_flags = 0, sp_type = SRB_SCSI_CMD, sp_iocbs = 1, logio_flags = 0, tmf_flags = 0,
      tmf_lun = 0, abt_cmd_hndl = 0, sp_bsg = \<lparr>bsg_req_sgs = [], bsg_req_len = 0, bsg_rep_sgs = [],
        bsg_rep_len = 0, bsg_els_code = 0, bsg_command_code = 0, reply_len = 0, reply_payload_rcv_len = 0,
        ctels_status = 0, vendor_rsp0 = 0, sense_fw_status = []\<rparr>,
      fcport = fc, cmd_present = True, cmd = c, request_sense_length = 0, request_sense_ptr = 0,
      logio_data0 = 0, logio_data1 = 0, tmf_data = 0, abt_comp_status = 0\<rparr>"

text \<open>\<open>slot\<close> is the allocation from \<open>srb_mempool\<close>, \<open>bail\<close> is \<open>delete_progress\<close>.\<close>

definition qla2x00_get_sp ::
    "bool \<Rightarrow> sp_ptr option \<Rightarrow> fc_port \<Rightarrow> scsi_cmnd \<Rightarrow> host \<times> cmd_dma \<Rightarrow> sp_ptr option \<times> host \<times> cmd_dma" where
  "qla2x00_get_sp bail slot fc c = (\<lambda>(h, g).
     (if bail then (None, h, g)
      else case slot of
        None \<Rightarrow> (None, h, g)
      | Some sp \<Rightarrow> (Some sp, h\<lparr>srbs := (srbs h)(sp := new_srb fc c)\<rparr>,
          g\<lparr>vref_count := vref_count g + 1, crc_ctxs := (crc_ctxs g)(sp := None),
            ct6_ctxs := (ct6_ctxs g)(sp := None)\<rparr>)))"

definition qla2x00_rel_sp :: "sp_ptr \<Rightarrow> cmd_dma \<Rightarrow> cmd_dma" where
  "qla2x00_rel_sp sp g = g\<lparr>srb_freed := sp # srb_freed g, vref_count := vref_count g - 1\<rparr>"

section \<open>Releasing what a command holds\<close>

definition holds :: "u16 \<Rightarrow> sp_ptr \<Rightarrow> host \<Rightarrow> bool" where
  "holds f sp h \<longleftrightarrow> sp_flags (srbs h sp) AND f \<noteq> 0"

definition clear_flag :: "sp_ptr \<Rightarrow> u16 \<Rightarrow> host \<Rightarrow> host" where
  "clear_flag sp f = upd_sp sp (\<lambda>s. s\<lparr>sp_flags := sp_flags s AND NOT f\<rparr>)"

definition qla2x00_clean_dsd_pool :: "sp_ptr \<Rightarrow> cmd_dma \<Rightarrow> cmd_dma" where
  "qla2x00_clean_dsd_pool sp g = (case crc_ctxs g sp of
       None \<Rightarrow> g
     | Some x \<Rightarrow> g\<lparr>dl_freed := rev (w_lists (crc_mem x)) @ dl_freed g,
         crc_ctxs := (crc_ctxs g)(sp \<mapsto> x\<lparr>crc_mem := (crc_mem x)\<lparr>w_lists := []\<rparr>\<rparr>)\<rparr>)"

definition free_crc_ctx :: "sp_ptr \<Rightarrow> cmd_dma \<Rightarrow> cmd_dma" where
  "free_crc_ctx sp g = (case crc_ctxs g sp of
       None \<Rightarrow> g
     | Some x \<Rightarrow> g\<lparr>dl_freed := crc_ctx_dma x # dl_freed g, crc_ctxs := (crc_ctxs g)(sp := None)\<rparr>)"

definition free_ct6 :: "sp_ptr \<Rightarrow> cmd_dma \<Rightarrow> cmd_dma" where
  "free_ct6 sp g = (case ct6_ctxs g sp of
       None \<Rightarrow> g
     | Some x \<Rightarrow> g\<lparr>fcp_freed := ct6_cmnd_dma x # fcp_freed g,
         gbl_dsd_list := ct6_lists x @ gbl_dsd_list g,
         gbl_dsd_inuse := gbl_dsd_inuse g - of_int (ct6_use_cnt x),
         gbl_dsd_avail := gbl_dsd_avail g + of_int (ct6_use_cnt x),
         ct6_ctxs := (ct6_ctxs g)(sp := None)\<rparr>)"

definition free_data_map :: "sp_ptr \<Rightarrow> host \<times> cmd_dma \<Rightarrow> host \<times> cmd_dma" where
  "free_data_map sp = (\<lambda>(h, g).
     (if holds SRB_DMA_VALID sp h
      then (clear_flag sp SRB_DMA_VALID (h\<lparr>unmapped := sp # unmapped h\<rparr>), g) else (h, g)))"

definition free_prot_map :: "sp_ptr \<Rightarrow> host \<times> cmd_dma \<Rightarrow> host \<times> cmd_dma" where
  "free_prot_map sp = (\<lambda>(h, g).
     (if holds SRB_CRC_PROT_DMA_VALID sp h
      then (clear_flag sp SRB_CRC_PROT_DMA_VALID h, g\<lparr>prot_unmapped := sp # prot_unmapped g\<rparr>)
      else (h, g)))"

definition free_dsd_lists :: "sp_ptr \<Rightarrow> host \<times> cmd_dma \<Rightarrow> host \<times> cmd_dma" where
  "free_dsd_lists sp = (\<lambda>(h, g).
     (if holds SRB_CRC_CTX_DSD_VALID sp h
      then (clear_flag sp SRB_CRC_CTX_DSD_VALID h, qla2x00_clean_dsd_pool sp g) else (h, g)))"

definition free_context :: "sp_ptr \<Rightarrow> host \<times> cmd_dma \<Rightarrow> host \<times> cmd_dma" where
  "free_context sp = (\<lambda>(h, g).
     (if holds SRB_CRC_CTX_DMA_VALID sp h
      then (clear_flag sp SRB_CRC_CTX_DMA_VALID h, free_crc_ctx sp g) else (h, g)))"

definition free_fcp_cmnd :: "sp_ptr \<Rightarrow> host \<times> cmd_dma \<Rightarrow> host \<times> cmd_dma" where
  "free_fcp_cmnd sp = (\<lambda>(h, g). (h, if holds SRB_FCP_CMND_DMA_VALID sp h then free_ct6 sp g else g))"

definition qla2x00_sp_free_dma :: "sp_ptr \<Rightarrow> host \<times> cmd_dma \<Rightarrow> host \<times> cmd_dma" where
  "qla2x00_sp_free_dma sp x =
     (case free_fcp_cmnd sp (free_context sp (free_dsd_lists sp (free_prot_map sp (free_data_map sp x)))) of
        (h, g) \<Rightarrow> (h, qla2x00_rel_sp sp g))"

text \<open>\<open>bug\<close> is the logging level at which a count of zero is fatal.\<close>

definition qla2x00_sp_compl ::
    "bool \<Rightarrow> sp_ptr \<Rightarrow> scsi_result \<Rightarrow> host \<times> cmd_dma \<Rightarrow> (host \<times> cmd_dma) option" where
  "qla2x00_sp_compl bug sp res = (\<lambda>(h, g).
     (let h = upd_sp sp (\<lambda>s. s\<lparr>cmd := (cmd s)\<lparr>cmd_result := res\<rparr>\<rparr>) h
      in if sp_ref g sp = 0 then (if bug then None else Some (h, g))
         else let g = g\<lparr>sp_ref := (sp_ref g)(sp := sp_ref g sp - 1)\<rparr>
         in if sp_ref g sp \<noteq> 0 then Some (h, g)
            else let (h, g) = qla2x00_sp_free_dma sp (h, g)
                 in Some (h, g\<lparr>scsi_dones := (sp, res) # scsi_dones g\<rparr>)))"

section \<open>Taking a command\<close>

text \<open>What \<open>qla2xxx_queuecommand\<close> looks at; \<open>chkready\<close> is 0 or a result.\<close>

record qc_env =
  eeh_busy :: bool
  pci_channel_io_perm_failure :: bool
  chkready :: scsi_result
  difdix_supported :: bool
  loop_dead :: bool
  qc_jiffies :: u64
  delete_progress :: bool

type_synonym start_op = "sp_ptr \<Rightarrow> host \<times> cmd_dma \<Rightarrow> (int \<times> host \<times> cmd_dma) option"

definition time_after :: "u64 \<Rightarrow> u64 \<Rightarrow> bool" where
  "time_after a b \<longleftrightarrow> sint (b - a) < 0"

datatype qc_verdict = Qc_fail scsi_result | Qc_target_busy | Qc_go fc_port

text \<open>The checks before the request block is allocated.\<close>

definition qc_checks :: "qc_env \<Rightarrow> fc_port option \<Rightarrow> scsi_cmnd \<Rightarrow> host \<Rightarrow> qc_verdict" where
  "qc_checks e fc c h =
     (if eeh_busy e
      then Qc_fail (host_result (if pci_channel_io_perm_failure e then DID_NO_CONNECT else DID_REQUEUE))
      else if chkready e \<noteq> 0 then Qc_fail (chkready e)
      else if \<not> difdix_supported e \<and> prot_op c \<noteq> SCSI_PROT_NORMAL then Qc_fail (host_result DID_NO_CONNECT)
      else case fc of
        None \<Rightarrow> Qc_fail (host_result DID_NO_CONNECT)
      | Some f \<Rightarrow>
          (let st = fc_states h (fc_id f)
           in if fcport_state st \<noteq> FCS_ONLINE
              then (if fcport_state st = FCS_DEVICE_DEAD \<or> loop_dead e
                    then Qc_fail (host_result DID_NO_CONNECT) else Qc_target_busy)
              else if time_after (qc_jiffies e) (retry_delay_timestamp st) then Qc_go f
              else Qc_target_busy))"

text \<open>
  The return value, the result if the command is completed at once, and the state. None: the
  adapter's \<open>start_scsi\<close> crashes.
\<close>

definition qla2xxx_queuecommand ::
    "start_op \<Rightarrow> qc_env \<Rightarrow> sp_ptr option \<Rightarrow> fc_port option \<Rightarrow> scsi_cmnd \<Rightarrow> host \<times> cmd_dma
      \<Rightarrow> (int \<times> scsi_result option \<times> host \<times> cmd_dma) option" where
  "qla2xxx_queuecommand start e slot fc c = (\<lambda>(h, g).
     (case qc_checks e fc c h of
        Qc_fail res \<Rightarrow> Some (0, Some res, h, g)
      | Qc_target_busy \<Rightarrow> Some (SCSI_MLQUEUE_TARGET_BUSY, None, h, g)
      | Qc_go f \<Rightarrow>
          (let h = upd_fc (fc_id f) (\<lambda>x. x\<lparr>retry_delay_timestamp := 0\<rparr>) h
           in case qla2x00_get_sp (delete_progress e) slot f c (h, g) of
             (None, h, g) \<Rightarrow> Some (SCSI_MLQUEUE_HOST_BUSY, None, h, g)
           | (Some sp, h, g) \<Rightarrow>
               (case start sp (h, g\<lparr>sp_ref := (sp_ref g)(sp := 1)\<rparr>) of
                  None \<Rightarrow> None
                | Some (rv, h, g) \<Rightarrow>
                    if rv = QLA_SUCCESS then Some (0, None, h, g)
                    else (let (h, g) = qla2x00_sp_free_dma sp (h, g)
                          in Some (SCSI_MLQUEUE_HOST_BUSY, None, h, g))))))"

end
