(* ===== verification/Dsd_Claims.thy ===== *)
theory Dsd_Claims
  imports Dsd_Blocks Host_Queue
begin

text \<open>
  What the commands with descriptor lists guarantee: the adapter reads exactly the mapped segments
  (and the protection tuples) from the chains, whatever was allocated is given back, and the pool
  of the P3P adapters stays consistent.
\<close>

section \<open>Chains\<close>

lemma dsd_decode_mono: "dsd_decode n H d = Some ds \<Longrightarrow> H \<subseteq>\<^sub>m H' \<Longrightarrow> dsd_decode n H' d = Some ds"
proof (induction n H d arbitrary: ds rule: dsd_decode.induct)
  case (2 n H a len)
  show ?case
  proof (cases "len = 0")
    case False
    then obtain ws es where ws: "H a = Some ws" "\<not> (unat len mod 12 \<noteq> 0 \<or> length ws * 4 < unat len)"
      "dsd_decode n H (read_dsd (3 * (unat len div 12 - 1)) ws) = Some es"
      "ds = read_dsds 0 (unat len div 12 - 1) ws @ es"
      using 2(2) by (auto simp: Let_def split: option.splits if_splits)
    moreover have "H' a = Some ws" using ws(1) 2(3) by (force simp: map_le_def)
    ultimately show ?thesis using False 2(1) [OF False _ ws(2) refl ws(3) 2(3)]
      by (simp add: Let_def)
  qed (use 2 in simp)
qed simp

text \<open>What one descriptor keeps, a walk keeps.\<close>

lemma push_all_inv:
  assumes "\<And>d s t. P s \<Longrightarrow> push_dsd al d s = Some t \<Longrightarrow> P t" and "\<And>s. P s \<Longrightarrow> P (null_dsd s)"
    and "P s" and "push_all al ds s = (r, s')"
  shows "P s'"
  using assms(3,4) by (induction ds arbitrary: s) (auto simp: assms(2) split: option.splits dest: assms(1))

lemma no_difb_inv:
  assumes push: "\<And>d s t. P s \<Longrightarrow> push_dsd al d s = Some t \<Longrightarrow> P t" and null: "\<And>s. P s \<Longrightarrow> P (null_dsd s)"
  shows "P s \<Longrightarrow> no_difb_loop al blk n x prot d s = Some (r, s') \<Longrightarrow> P s'"
proof (induction n arbitrary: x prot d s)
  case (Suc n)
  show ?case
  proof (cases "qla24xx_get_one_block_sg blk x")
    case (Sgx_piece partial y)
    show ?thesis
    proof (cases "push_dsd al (sgx_dma_addr y, sgx_dma_len y) s")
      case (Some t)
      have t: "P t" by (rule push [OF Suc.prems(1) Some])
      show ?thesis
      proof (cases partial)
        case True
        then show ?thesis using Suc.prems(2) Suc.IH [OF t] by (simp add: Sgx_piece Some)
      next
        case False
        then obtain pa pl prot' where p: "prot = (pa, pl) # prot'"
          using Suc.prems(2) by (cases prot) (auto simp: Sgx_piece Some)
        show ?thesis
        proof (cases "push_dsd al (pa + ucast d, 8) t")
          case (Some u)
          have "P u" by (rule push [OF t Some])
          then show ?thesis using Suc.prems(2) False Some \<open>push_dsd al _ s = Some t\<close>
            by (auto simp: Sgx_piece p split: if_splits intro: Suc.IH)
        qed (use Suc.prems False \<open>push_dsd al _ s = Some t\<close> t in \<open>simp add: Sgx_piece p\<close>)
      qed
    qed (use Suc.prems in \<open>simp add: Sgx_piece\<close>)
  qed (use Suc.prems null in auto)
qed simp

definition walk_ok :: "dsd_alloc \<Rightarrow> dsd_walk \<Rightarrow> bool" where
  "walk_ok al s \<longleftrightarrow> allocs_fresh al s \<and> (case w_cur s of Root _ \<Rightarrow> True | In_list a _ \<Rightarrow> a \<in> dom (w_heap s))"

lemma walk_ok_store: "walk_ok al s \<Longrightarrow> walk_ok al (store_dsd d s)"
proof (cases "w_cur s")
  case (In_list a p)
  assume "walk_ok al s"
  moreover from this In_list have "dom (w_heap (store_dsd d s)) = dom (w_heap s)"
    by (auto simp: walk_ok_def store_dsd_def)
  ultimately show ?thesis using allocs_fresh_cong [of "store_dsd d s" s] In_list
    by (auto simp: walk_ok_def store_dsd_def)
qed (auto simp: walk_ok_def store_dsd_def allocs_fresh_def)

lemma walk_ok_counts [simp]:
  "walk_ok al (s\<lparr>w_avail := v\<rparr>) = walk_ok al s" "walk_ok al (s\<lparr>w_used := u\<rparr>) = walk_ok al s"
  by (simp_all add: walk_ok_def allocs_fresh_def split: dsd_cur.split)

lemma walk_ok_new:
  assumes "walk_ok al s" and "new_list al s = Some t"
  shows "walk_ok al t"
proof -
  obtain a ws where a: "al (length (w_lists s)) = Some (a, ws)"
    using assms(2) by (auto simp: new_list_def Let_def split: option.splits)
  define u where "u = store_dsd (a, dsd_list_len (dsd_count (w_used s))) s"
  have u: "allocs_fresh al u" "w_lists u = w_lists s"
    using walk_ok_store [OF assms(1)] by (simp_all add: u_def walk_ok_def)
  have t: "dom (w_heap t) = insert a (dom (w_heap u))" "w_lists t = w_lists s @ [a]" "w_cur t = In_list a 0"
    using assms(2) a
    by (auto simp: new_list_def Let_def link_list_def u_def store_dsd_def split: dsd_cur.split)
  have "allocs_fresh al t"
    unfolding allocs_fresh_def
  proof (intro allI impI)
    fix i b ws' assume i: "length (w_lists t) \<le> i" "al i = Some (b, ws')"
    have "b \<noteq> a"
      using allocs_freshD [OF u(1) _ a] i by (auto simp: u(2) t(2))
    then show "b \<notin> dom (w_heap t) \<and> 114 \<le> length ws' \<and> (\<forall>j ws. i < j \<longrightarrow> al j \<noteq> Some (b, ws))"
      using allocs_freshD [OF u(1) _ i(2)] i(1) by (simp add: u(2) t(1,2))
  qed
  then show ?thesis by (simp add: walk_ok_def t)
qed

lemma walk_ok_push: "walk_ok al s \<Longrightarrow> push_dsd al d s = Some t \<Longrightarrow> walk_ok al t"
  by (auto simp: push_dsd_def walk_ok_store walk_ok_new split: if_splits option.splits)

lemma walk_ok_null: "walk_ok al s \<Longrightarrow> walk_ok al (null_dsd s)"
  by (simp add: null_dsd_def walk_ok_store)

lemma walk_ok_fresh: "walk_ok al s \<Longrightarrow> allocs_fresh al s"
  by (simp add: walk_ok_def)

text \<open>A walk from the command's memory, started anew in a state some walk has left.\<close>

lemma start_walk_fields [simp]:
  "w_cur (start_walk c u s) = c" "w_avail (start_walk c u s) = 0" "w_used (start_walk c u s) = u"
  "w_root (start_walk c u s) = w_root s" "w_heap (start_walk c u s) = w_heap s"
  "w_lists (start_walk c u s) = w_lists s"
  by (simp_all add: start_walk_def)

lemma fresh_start [simp]: "allocs_fresh al (start_walk c u s) = allocs_fresh al s"
  by (simp add: allocs_fresh_def)

lemma dsd_chain_frame:
  assumes "dsd_chain s p ds" and "\<forall>b \<in> dom (w_heap s). w_heap t b = w_heap s b"
    and "\<forall>i. p \<le> i \<and> i < p + 3 \<longrightarrow> w_root t ! i = w_root s ! i"
  shows "dsd_chain t p ds"
proof -
  have "read_dsd p (w_root t) = read_dsd p (w_root s)" using assms(3) by (intro read_dsd_cong) auto
  moreover have "w_heap s \<subseteq>\<^sub>m w_heap t" using assms(2) by (simp add: map_le_def)
  ultimately show ?thesis using assms(1) by (auto simp: dsd_chain_def dest: dsd_decode_mono)
qed

lemma walk_chain:
  assumes "push_all al ds (start_walk (Root p) u s) = (0, s')" and "allocs_fresh al s"
    and "length ds = unat u" and "p + 3 \<le> length (w_root s)"
  shows "dsd_chain s' p ds" and "\<forall>b \<in> dom (w_heap s). w_heap s' b = w_heap s b"
    and "\<forall>i. i < p \<or> p + 3 \<le> i \<longrightarrow> w_root s' ! i = w_root s ! i"
    and "length (w_root s') = length (w_root s)" and "allocs_fresh al s'"
proof -
  have "walk_ok al (start_walk (Root p) u s)" using assms(2) by (simp add: walk_ok_def)
  from push_all_inv [of "walk_ok al", OF walk_ok_push walk_ok_null this assms(1)]
  show "allocs_fresh al s'" by (simp add: walk_ok_fresh)
qed (use push_all_root [OF assms(1)] assms(2-4) in \<open>simp_all\<close>)

section \<open>Protected commands\<close>

text \<open>The descriptors of the data: the segments, or the pieces with their tuples in between.\<close>

definition crc_data_dsds :: "scsi_cmnd \<Rightarrow> u16 \<Rightarrow> sg list option" where
  "crc_data_dsds c tot_prot =
     (if \<not> crc_bundling c \<and> tot_prot \<noteq> 0
      then (case sgx_pieces (sector_size c) (block_fuel c) (sgx_start c) of
              None \<Rightarrow> None
            | Some ps \<Rightarrow> with_tuples ps (scsi_prot_sglist c) 0)
      else Some (scsi_sglist c))"

definition crc_data_count :: "scsi_cmnd \<Rightarrow> u16 \<Rightarrow> u16 \<Rightarrow> u16" where
  "crc_data_count c tot_dsds tot_prot =
     (if \<not> crc_bundling c \<and> tot_prot \<noteq> 0 then tot_dsds else tot_dsds - tot_prot)"

text \<open>
  C17. The adapter reads what the driver mapped: after the walks of a protected command succeed,
  the chain from the context's data descriptor decodes to exactly the data segments - interleaved
  with the protection tuples, cut at the block boundaries, when the command has no bundling - and
  with bundling the chain from the second descriptor decodes to the segments of the protection
  data. This holds for any pool that hands out distinct lists of at least 456 bytes.
\<close>

theorem crc_descriptors_decode:
  assumes "crc_walks al c tot_dsds tot_prot s m w = Some (QLA_SUCCESS, m', w')"
    and "allocs_fresh al w" and "length (w_root w) = CRC_WORDS"
    and "crc_data_dsds c tot_prot = Some ds" and "length ds = unat (crc_data_count c tot_dsds tot_prot)"
    and "length (scsi_prot_sglist c) = unat tot_prot \<or> \<not> crc_bundling c"
  shows "dsd_chain w' CRC_DATA_WORD ds
    \<and> (crc_bundling c \<and> tot_prot \<noteq> 0 \<longrightarrow> dsd_chain w' CRC_DIF_WORD (scsi_prot_sglist c))"
proof -
  have root: "CRC_DATA_WORD + 3 \<le> length (w_root w)" "CRC_DIF_WORD + 3 \<le> length (w_root w)"
    using assms(3) by (simp_all add: CRC_WORDS_def CRC_DATA_WORD_def CRC_DIF_WORD_def)
  have data: "(if \<not> crc_bundling c \<and> tot_prot \<noteq> 0
      then qla24xx_walk_and_build_sglist_no_difb al c (Root CRC_DATA_WORD) tot_dsds w
      else Some (qla24xx_walk_and_build_sglist al c (Root CRC_DATA_WORD) (tot_dsds - tot_prot) w))
    = Some (push_all al ds (start_walk (Root CRC_DATA_WORD) (crc_data_count c tot_dsds tot_prot) w))"
    using assms(4,5)
    by (auto simp: crc_data_dsds_def crc_data_count_def qla24xx_walk_and_build_sglist_no_difb_def
        qla24xx_walk_and_build_sglist_def no_difb_is_push split: option.splits if_splits)
  obtain rv w1 where w1:
    "push_all al ds (start_walk (Root CRC_DATA_WORD) (crc_data_count c tot_dsds tot_prot) w) = (rv, w1)"
    by (metis prod.collapse)
  have walks: "rv = 0 \<and> (if crc_bundling c \<and> tot_prot \<noteq> 0
      then qla24xx_walk_and_build_prot_sglist al c (Root CRC_DIF_WORD) tot_prot w1 = (0, w') else w' = w1)"
    using assms(1) unfolding crc_walks_def Let_def data w1
    by (auto simp: QLA_SUCCESS_def QLA_FUNCTION_FAILED_def split: if_splits prod.splits)
  then have "rv = 0" by simp
  note one = walk_chain [OF w1 [unfolded \<open>rv = 0\<close>] assms(2,5) root(1)]
  show ?thesis
  proof (cases "crc_bundling c \<and> tot_prot \<noteq> 0")
    case False
    then show ?thesis using walks one(1) by auto
  next
    case True
    then have w2: "push_all al (scsi_prot_sglist c) (start_walk (Root CRC_DIF_WORD) tot_prot w1) = (0, w')"
      using walks assms(6) by (simp add: qla24xx_walk_and_build_prot_sglist_def)
    have len: "length (scsi_prot_sglist c) = unat tot_prot" using assms(6) True by simp
    note two = walk_chain [OF w2 one(5) len root(2) [folded one(4)]]
    have "dsd_chain w' CRC_DATA_WORD ds"
      by (rule dsd_chain_frame [OF one(1) two(2)])
        (use two(3) in \<open>simp add: CRC_DATA_WORD_def CRC_DIF_WORD_def\<close>)
    then show ?thesis using two(1) by simp
  qed
qed

text \<open>A read of two segments that passes one segment of tuples, and a pool of two lists.\<close>

definition sample_pi :: scsi_cmnd where
  "sample_pi = sample_sc\<lparr>sc_data_direction := DMA_FROM_DEVICE, scsi_bufflen := 1024,
     scsi_sglist := [(0x10000, 700), (0x20000, 324)], prot_op := SCSI_PROT_READ_PASS,
     prot_type := SCSI_PROT_DIF_TYPE1, scsi_prot_sglist := [(0x30000, 16)]\<rparr>"

definition sample_al :: dsd_alloc where
  "sample_al i = (if i = 0 then Some (0x1000, replicate 114 0)
     else if i = 1 then Some (0x2000, replicate 114 0) else None)"

definition sample_walk :: dsd_walk where
  "sample_walk = \<lparr>w_root = replicate CRC_WORDS 0, w_heap = Map.empty, w_lists = [],
     w_cur = Root 0, w_avail = 0, w_used = 0\<rparr>"

lemma sample_walk_fresh: "allocs_fresh sample_al sample_walk"
  by (auto simp: allocs_fresh_def sample_al_def sample_walk_def split: if_splits)

theorem crc_descriptors_decode_witness:
  "\<exists>m' w'. crc_walks sample_al sample_pi 3 1 0 (replicate 16 0) sample_walk = Some (QLA_SUCCESS, m', w')
     \<and> dsd_chain w' CRC_DATA_WORD [(0x10000, 700), (0x20000, 324)]
     \<and> dsd_chain w' CRC_DIF_WORD [(0x30000, 16)]"
proof -
  have run: "\<exists>m' w'. crc_walks sample_al sample_pi 3 1 0 (replicate 16 0) sample_walk = Some (QLA_SUCCESS, m', w')"
    by (simp add: crc_walks_def Let_def sample_pi_def crc_bundling_def qla24xx_walk_and_build_sglist_def
        qla24xx_walk_and_build_prot_sglist_def push_dsd_def new_list_def start_walk_def link_list_def
        store_dsd_def null_dsd_def sample_walk_def sample_al_def dsd_count_def QLA_DSDS_PER_IOCB_def)
  then obtain m' w' where w': "crc_walks sample_al sample_pi 3 1 0 (replicate 16 0) sample_walk = Some (QLA_SUCCESS, m', w')"
    by blast
  have "crc_data_dsds sample_pi 1 = Some [(0x10000, 700), (0x20000, 324)]" "crc_bundling sample_pi"
    "scsi_prot_sglist sample_pi = [(0x30000, 16)]" "crc_data_count sample_pi 3 1 = 2"
    by (simp_all add: sample_pi_def crc_data_dsds_def crc_data_count_def crc_bundling_def)
  then show ?thesis
    using crc_descriptors_decode [OF w' sample_walk_fresh] w' by (simp add: sample_walk_def)
qed

lemma cut_sum:
  "cut_at_blocks blk part ps \<Longrightarrow>
    part + length (concat (map (sg_bytes \<circ> snd) ps)) = blk * length (filter (Not \<circ> fst) ps)"
  by (induction blk part ps rule: cut_at_blocks.induct) (auto split: if_splits)

lemma length_with_tuples:
  "with_tuples ps prot d = Some ds \<Longrightarrow> length ds = length ps + length (filter (Not \<circ> fst) ps)"
  by (induction ps prot d arbitrary: ds rule: with_tuples.induct) (auto split: if_splits)

lemma length_sgs: "length (concat (map sg_bytes ds)) = sg_total ds"
  by (induction ds) simp_all

text \<open>
  Data cut at protection intervals: for a scatterlist without empty segments whose length is a
  multiple of the block size, the loop that counts the pieces ends; the pieces, in order, cover the
  data byte by byte; each block ends with a piece that is marked complete, and only those are; and
  the list that holds a tuple behind each block is as long as the count the driver sizes it by.
\<close>

theorem block_pieces_cover:
  assumes "sector_size c \<noteq> 0" and "unat (sector_size c) dvd unat (scsi_bufflen c)"
    and "\<forall>d \<in> set (scsi_sglist c). snd d \<noteq> 0" and "sg_total (scsi_sglist c) = unat (scsi_bufflen c)"
  shows "\<exists>ps. sgx_pieces (sector_size c) (block_fuel c) (sgx_start c) = Some ps
    \<and> count_pieces (sector_size c) (block_fuel c) (sgx_start c) = Some (length ps)
    \<and> concat (map (sg_bytes \<circ> snd) ps) = concat (map sg_bytes (scsi_sglist c))
    \<and> cut_at_blocks (unat (sector_size c)) 0 ps
    \<and> (\<forall>prot ds. with_tuples ps prot 0 = Some ds \<longrightarrow>
          length ds = length ps + unat (scsi_bufflen c) div unat (sector_size c))"
proof -
  let ?x = "sgx_start c" and ?blk = "sector_size c"
  have "sgx_inv ?blk ?x"
    using assms by (auto simp: sgx_inv_def sgx_start_def unat_gt_0)
  moreover have "sg_total (sgx_cur_sg ?x) - unat (sgx_bytes_consumed ?x) < block_fuel c"
    using assms(4) by (simp add: sgx_start_def block_fuel_def)
  ultimately obtain ps where ps: "sgx_pieces ?blk (block_fuel c) ?x = Some ps"
    "concat (map (sg_bytes \<circ> snd) ps) = sgx_rest ?x" "cut_at_blocks (unat ?blk) (unat (sgx_tot_partial ?x)) ps"
    using sgx_pieces_cover by blast
  then have cov: "concat (map (sg_bytes \<circ> snd) ps) = concat (map sg_bytes (scsi_sglist c))"
    "cut_at_blocks (unat ?blk) 0 ps" by (simp_all add: sgx_rest_def sgx_start_def)
  have "unat (scsi_bufflen c) = unat ?blk * length (filter (Not \<circ> fst) ps)"
    using cut_sum [OF cov(2)] unfolding cov(1) length_sgs assms(4) by simp
  then have "length (filter (Not \<circ> fst) ps) = unat (scsi_bufflen c) div unat ?blk"
    using assms(1) by (simp add: unat_eq_0)
  then show ?thesis
    using ps(1) cov by (intro exI [of _ ps]) (simp add: count_pieces_length length_with_tuples)
qed

theorem block_pieces_cover_witness:
  "\<exists>ps. sgx_pieces 512 (block_fuel sample_pi) (sgx_start sample_pi) = Some ps
     \<and> concat (map (sg_bytes \<circ> snd) ps) = sg_bytes (0x10000, 700) @ sg_bytes (0x20000, 324)
     \<and> cut_at_blocks 512 0 ps"
proof -
  have "sector_size sample_pi = 512" "scsi_bufflen sample_pi = 1024"
    "scsi_sglist sample_pi = [(0x10000, 700), (0x20000, 324)]"
    by (simp_all add: sample_pi_def sample_sc_def)
  then show ?thesis using block_pieces_cover [of sample_pi] by (auto simp: sg_total_def)
qed

end
