(* ===== verification/Type6_Claims.thy ===== *)
theory Type6_Claims
  imports Dsd_Claims Start_Scsi
begin

text \<open>
  Command type 6: what the adapter reads, and the pool of descriptor lists.
\<close>

section \<open>The chain of a type 6 command\<close>

definition lists_needed :: "nat \<Rightarrow> nat" where
  "lists_needed n = (n + 36) div 37"

lemma lists_needed_step: "0 < n \<Longrightarrow> lists_needed n = Suc (lists_needed (n - min n 37))"
proof (cases "n \<le> 37")
  case False
  then have "n + 36 = (n - 37 + 36) + 37" by simp
  then show ?thesis using False by (simp add: lists_needed_def min_def)
qed (auto simp: lists_needed_def min_def)

lemma type6_takes:
  assumes "type6_loop tot gbl sgs s = Some (gbl', s')"
  shows "lists_needed (unat tot) \<le> length gbl \<and> gbl' = drop (lists_needed (unat tot)) gbl
    \<and> w_lists s' = w_lists s @ map fst (take (lists_needed (unat tot)) gbl)"
  using assms
proof (induction tot gbl sgs s arbitrary: gbl' s' rule: type6_loop.induct)
  case (1 tot gbl sgs s)
  show ?case
  proof (cases "tot = 0")
    case True
    then show ?thesis using 1(2)
      by (auto simp: type6_loop.simps [of 0] lists_needed_def null_dsd_def)
  next
    case False
    define v where "v = dsd_count tot"
    obtain a ws rest where g: "gbl = (a, ws) # rest" and
      loop: "type6_loop (tot - ucast v) rest (drop (unat v) sgs)
        (foldl (\<lambda>s d. store_dsd d s) (link_list a ws (dsd_list_len v) s) (take (unat v) sgs))
        = Some (gbl', s')"
      using 1(2) False
      by (auto simp: type6_loop.simps [of tot] Let_def v_def split: list.splits)
    have n: "lists_needed (unat tot) = Suc (lists_needed (unat (tot - ucast v)))"
      using False lists_needed_step [of "unat tot"] by (simp add: v_def unat_chunk unat_gt_0)
    show ?thesis
      using 1(1) [OF False v_def g refl loop] by (simp add: n g link_list_def)
  qed
qed

lemma unat_calc_dsd_lists: "unat (qla24xx_calc_dsd_lists n) = lists_needed (unat n)"
proof -
  have "unat n div 37 + (if unat n mod 37 \<noteq> 0 then 1 else 0) = lists_needed (unat n)"
    using div_round_up [of 37 "unat n"] by (simp add: lists_needed_def add.commute)
  moreover have "unat n < 65536" using unsigned_less [of n] by simp
  then have "unat n div 37 < 65535" using div_le_mono [of "unat n" 65535 37] by simp
  then have "unat (n div 37 + 1) = unat n div 37 + 1" by (simp add: unat_word_ariths unat_div)
  moreover have "n mod 37 = 0 \<longleftrightarrow> unat n mod 37 = 0" by (simp add: word_unat_eq_iff unat_mod)
  ultimately show ?thesis
    by (auto simp: qla24xx_calc_dsd_lists_def QLA_DSDS_PER_IOCB_def Let_def unat_div split: if_splits)
qed

text \<open>The heap of a walk holds its own lists.\<close>

definition own_lists :: "dsd_walk \<Rightarrow> bool" where
  "own_lists s \<longleftrightarrow> dom (w_heap s) = set (w_lists s)
     \<and> (case w_cur s of Root _ \<Rightarrow> True | In_list a _ \<Rightarrow> a \<in> set (w_lists s))"

lemma own_lists_store: "own_lists s \<Longrightarrow> own_lists (store_dsd d s)"
  by (cases "w_cur s") (auto simp: own_lists_def store_dsd_def)

lemma own_lists_counts [simp]:
  "own_lists (s\<lparr>w_avail := v\<rparr>) = own_lists s" "own_lists (s\<lparr>w_used := u\<rparr>) = own_lists s"
  by (simp_all add: own_lists_def split: dsd_cur.split)

lemma own_lists_new:
  assumes "own_lists s" and "new_list al s = Some t"
  shows "own_lists t"
proof -
  obtain a ws where t: "t = (link_list a ws (dsd_list_len (dsd_count (w_used s))) s)
      \<lparr>w_avail := dsd_count (w_used s), w_used := w_used s - ucast (dsd_count (w_used s))\<rparr>"
    using assms(2) by (auto simp: new_list_def Let_def split: option.splits)
  have "dom (w_heap (store_dsd d (s\<lparr>w_heap := (w_heap s)(a \<mapsto> ws)\<rparr>))) = insert a (dom (w_heap s))" for d
    using assms(1) by (cases "w_cur s") (auto simp: own_lists_def store_dsd_def)
  then show ?thesis using assms(1) by (simp add: t own_lists_def link_list_def)
qed

lemma own_lists_push: "own_lists s \<Longrightarrow> push_dsd al d s = Some t \<Longrightarrow> own_lists t"
  by (auto simp: push_dsd_def own_lists_store own_lists_new split: if_splits option.splits)

lemma own_lists_null: "own_lists s \<Longrightarrow> own_lists (null_dsd s)"
  by (simp add: null_dsd_def own_lists_store)

lemma free_lists_fresh:
  assumes "distinct (map fst gbl)" and "\<forall>l \<in> set gbl. 114 \<le> length (snd l)"
    and "w_heap s = Map.empty" and "w_lists s = []"
  shows "allocs_fresh (free_lists 0 gbl) s"
  unfolding allocs_fresh_def
proof (intro allI impI conjI)
  fix i a ws assume i: "free_lists 0 gbl i = Some (a, ws)"
  then have gi: "i < length gbl" "gbl ! i = (a, ws)" by (auto simp: free_lists_def split: if_splits)
  show "a \<notin> dom (w_heap s)" by (simp add: assms(3))
  show "114 \<le> length ws" using gi assms(2) nth_mem by fastforce
  fix j ws' assume "i < j"
  show "free_lists 0 gbl j \<noteq> Some (a, ws')"
  proof
    assume "free_lists 0 gbl j = Some (a, ws')"
    then have gj: "j < length gbl" "gbl ! j = (a, ws')" by (auto simp: free_lists_def split: if_splits)
    then have "map fst gbl ! i = map fst gbl ! j" using gi by simp
    then show False using assms(1) gi(1) gj(1) \<open>i < j\<close> by (simp add: distinct_conv_nth)
  qed
qed

text \<open>
  C18. Command type 6: when the builder succeeds on a command that transfers data, it has taken the
  lists it needs from the head of the pool, one for each 37 segments or part thereof, and the chain
  from the command's data descriptor decodes, within these lists, to exactly the mapped segments.
\<close>

theorem type6_lists_decode:
  assumes "qla24xx_build_scsi_type_6_iocbs c tot_dsds s m st g = Some (m', st', g', dsds)"
    and "scsi_bufflen c \<noteq> 0" and "sc_data_direction c \<noteq> DMA_NONE"
    and "length (scsi_sglist c) = unat tot_dsds" and "16 * s + 16 \<le> length m"
    and "distinct (map fst (gbl_dsd_list g))" and "\<forall>l \<in> set (gbl_dsd_list g). 114 \<le> length (snd l)"
  shows "(\<exists>n. dsd_decode n (map_of dsds) (read_dsd (16 * s + CT6_DATA_WORD) m') = Some (scsi_sglist c))
    \<and> map fst dsds = map fst (take (unat (qla24xx_calc_dsd_lists tot_dsds)) (gbl_dsd_list g))
    \<and> gbl_dsd_list g' = drop (unat (qla24xx_calc_dsd_lists tot_dsds)) (gbl_dsd_list g)"
proof -
  let ?p = "16 * s + CT6_DATA_WORD" and ?gbl = "gbl_dsd_list g"
  define m1 where "m1 = put_direction c s (put32 s ENTRY_TYPE_OFF COMMAND_TYPE_6 m)"
  define w where "w = \<lparr>w_root = m1, w_heap = Map.empty, w_lists = [], w_cur = Root ?p, w_avail = 0, w_used = 0\<rparr>"
  have len: "length m1 = length m"
    by (simp add: m1_def put_direction_def split: dma_direction.split)
  obtain gbl w' where loop: "type6_loop tot_dsds ?gbl (scsi_sglist c) w = Some (gbl, w')"
    and m': "m' = put_control s CF_DATA_SEG_DESCR_ENABLE (w_root w')" and g': "gbl_dsd_list g' = gbl"
    and dsds: "dsds = map (\<lambda>a. (a, the (w_heap w' a))) (w_lists w')"
    using assms(1-3)
    by (auto simp: qla24xx_build_scsi_type_6_iocbs_def Let_def m1_def w_def split: if_splits option.splits)
  let ?w = "w\<lparr>w_avail := 0, w_used := tot_dsds\<rparr>" and ?w' = "w'\<lparr>w_avail := 0, w_used := 0\<rparr>"
  have push: "push_all (free_lists 0 ?gbl) (scsi_sglist c) ?w = (0, ?w')"
    using type6_is_push [OF loop assms(4), of 0 ?gbl] by (simp add: w_def)
  have fresh: "allocs_fresh (free_lists 0 ?gbl) ?w"
    by (rule free_lists_fresh [OF assms(6,7)]) (simp_all add: w_def)
  have "dsd_chain ?w' ?p (scsi_sglist c)"
    using push_all_root [OF push _ _ _ _ fresh] assms(4,5) len
    by (simp add: w_def CT6_DATA_WORD_def)
  then obtain n where n: "dsd_decode n (w_heap w') (read_dsd ?p (w_root w')) = Some (scsi_sglist c)"
    by (auto simp: dsd_chain_def)
  have "own_lists ?w'"
    by (rule push_all_inv [of own_lists, OF own_lists_push own_lists_null _ push]) (simp_all add: own_lists_def w_def)
  then have dom: "dom (w_heap w') = set (w_lists w')" by (simp add: own_lists_def)
  have sub: "w_heap w' \<subseteq>\<^sub>m map_of dsds"
    unfolding map_le_def dsds map_of_map_restrict
  proof
    fix a assume a: "a \<in> dom (w_heap w')"
    then obtain ws where "w_heap w' a = Some ws" by blast
    then show "w_heap w' a = ((Some \<circ> (\<lambda>a. the (w_heap w' a))) |` set (w_lists w')) a"
      using a by (simp add: dom)
  qed
  have rd: "read_dsd ?p m' = read_dsd ?p (w_root w')"
    unfolding m' by (rule read_dsd_cong) (simp add: put_control_def put16_def CT6_CONTROL_FLAGS_def CT6_DATA_WORD_def)
  have "dsd_decode n (map_of dsds) (read_dsd ?p m') = Some (scsi_sglist c)"
    unfolding rd by (rule dsd_decode_mono [OF n sub])
  moreover have "w_lists w' = map fst (take (unat (qla24xx_calc_dsd_lists tot_dsds)) ?gbl)"
    "gbl = drop (unat (qla24xx_calc_dsd_lists tot_dsds)) ?gbl"
    using type6_takes [OF loop] by (simp_all add: w_def unat_calc_dsd_lists)
  moreover have "map fst dsds = w_lists w'" by (simp add: dsds comp_def)
  ultimately show ?thesis unfolding g' by metis
qed

text \<open>A pool of two lists, and the sample command of five segments.\<close>

definition pool_dma :: cmd_dma where
  "pool_dma = \<lparr>crc_ctxs = (\<lambda>_. None), ct6_ctxs = (\<lambda>_. None),
     gbl_dsd_list = [(0x1000, replicate 114 0), (0x2000, replicate 114 0)], gbl_dsd_avail = 2,
     gbl_dsd_inuse = 0, dl_freed = [], fcp_freed = [], prot_unmapped = [], vref_count = 0, sp_ref = (\<lambda>_. 0),
     srb_freed = [], scsi_dones = []\<rparr>"

lemma sample_type6:
  "\<exists>m' st' g' dsds. qla24xx_build_scsi_type_6_iocbs sample_sc 5 3 m sample_stats pool_dma = Some (m', st', g', dsds)"
  by (simp add: qla24xx_build_scsi_type_6_iocbs_def Let_def sample_sc_def pool_dma_def dsd_count_def
      QLA_DSDS_PER_IOCB_def type6_loop.simps [of 5] type6_loop.simps [of 0])

theorem type6_lists_decode_witness:
  "\<exists>n m' st' g' dsds. qla24xx_build_scsi_type_6_iocbs sample_sc 5 3 (replicate 64 0) sample_stats pool_dma
       = Some (m', st', g', dsds)
     \<and> dsd_decode n (map_of dsds) (read_dsd 61 m') = Some (scsi_sglist sample_sc)"
proof -
  obtain m' st' g' dsds where b: "qla24xx_build_scsi_type_6_iocbs sample_sc 5 3 (replicate 64 0)
      sample_stats pool_dma = Some (m', st', g', dsds)" using sample_type6 by blast
  then show ?thesis using type6_lists_decode [OF b]
    by (auto simp: sample_facts pool_dma_def CT6_DATA_WORD_def)
qed

section \<open>The pool\<close>

text \<open>
  Every list is in the pool or with one command, and with one only: otherwise the driver would
  write a list the adapter is still reading. The two counters count them.
\<close>

definition held_lists :: "cmd_dma \<Rightarrow> sp_ptr list \<Rightarrow> u64 list" where
  "held_lists g sps = concat (map (\<lambda>sp. map fst (ct6_lists (the (ct6_ctxs g sp)))) sps)"

definition pool_ok :: "cmd_dma \<Rightarrow> sp_ptr list \<Rightarrow> bool" where
  "pool_ok g sps \<longleftrightarrow> distinct sps \<and> set sps = dom (ct6_ctxs g)
     \<and> unat (gbl_dsd_avail g) = length (gbl_dsd_list g)
     \<and> unat (gbl_dsd_inuse g) = length (held_lists g sps)
     \<and> (\<forall>sp x. ct6_ctxs g sp = Some x \<longrightarrow> ct6_use_cnt x = int (length (ct6_lists x)))
     \<and> distinct (map fst (gbl_dsd_list g) @ held_lists g sps)
     \<and> length (gbl_dsd_list g) + length (held_lists g sps) < NUM_DSD_CHAIN"

definition pool_alloc_fresh :: "dsd_alloc \<Rightarrow> cmd_dma \<Rightarrow> sp_ptr list \<Rightarrow> nat \<Rightarrow> bool" where
  "pool_alloc_fresh al g sps i \<longleftrightarrow> (\<forall>j a ws. i \<le> j \<longrightarrow> al j = Some (a, ws) \<longrightarrow>
     a \<notin> set (map fst (gbl_dsd_list g) @ held_lists g sps) \<and> (\<forall>l ws'. j < l \<longrightarrow> al l \<noteq> Some (a, ws')))"

lemma pool_okD:
  assumes "pool_ok g sps"
  shows "distinct sps" "set sps = dom (ct6_ctxs g)" "unat (gbl_dsd_avail g) = length (gbl_dsd_list g)"
    "unat (gbl_dsd_inuse g) = length (held_lists g sps)"
    "\<And>sp x. ct6_ctxs g sp = Some x \<Longrightarrow> ct6_use_cnt x = int (length (ct6_lists x))"
    "distinct (map fst (gbl_dsd_list g) @ held_lists g sps)"
    "length (gbl_dsd_list g) + length (held_lists g sps) < NUM_DSD_CHAIN"
  using assms by (auto simp: pool_ok_def)

lemma add_lists_pool:
  assumes "add_dsd_lists al i n g = (b, g')" and "pool_ok g sps" and "pool_alloc_fresh al g sps i"
    and "length (gbl_dsd_list g) + length (held_lists g sps) + n < NUM_DSD_CHAIN"
  shows "pool_ok g' sps \<and> (b \<longrightarrow> length (gbl_dsd_list g') = length (gbl_dsd_list g) + n)
    \<and> gbl_dsd_inuse g' = gbl_dsd_inuse g \<and> ct6_ctxs g' = ct6_ctxs g"
  using assms
proof (induction al i n g rule: add_dsd_lists.induct)
  case (2 al i n g)
  show ?case
  proof (cases "al i")
    case None
    then show ?thesis using 2 by auto
  next
    case (Some l)
    obtain a ws where l: "l = (a, ws)" by (cases l)
    let ?g = "g\<lparr>gbl_dsd_list := gbl_dsd_list g @ [l], gbl_dsd_avail := gbl_dsd_avail g + 1\<rparr>"
    have held: "held_lists ?g sps = held_lists g sps" by (simp add: held_lists_def)
    have new: "a \<notin> set (map fst (gbl_dsd_list g) @ held_lists g sps)"
      "\<And>j ws'. i < j \<Longrightarrow> al j \<noteq> Some (a, ws')"
      using 2(4) Some unfolding pool_alloc_fresh_def l by blast+
    note ok = pool_okD [OF 2(3)]
    have "length (gbl_dsd_list g) < 65535" using 2(5) by (simp add: NUM_DSD_CHAIN_def)
    then have "unat (gbl_dsd_avail ?g) = length (gbl_dsd_list ?g)"
      using ok(3) by (simp add: unat_word_ariths)
    then have "pool_ok ?g sps"
      using ok(1,2,4-6) new(1) 2(5) held by (auto simp: pool_ok_def l)
    moreover have "pool_alloc_fresh al ?g sps (Suc i)"
      unfolding pool_alloc_fresh_def held
    proof (intro allI impI)
      fix j b ws' assume j: "Suc i \<le> j" "al j = Some (b, ws')"
      then have "b \<noteq> a" using new(2) [of j ws'] by auto
      moreover have "b \<notin> set (map fst (gbl_dsd_list g) @ held_lists g sps) \<and> (\<forall>l ws'. j < l \<longrightarrow> al l \<noteq> Some (b, ws'))"
        using 2(4) j unfolding pool_alloc_fresh_def by (meson Suc_leD)
      ultimately show "b \<notin> set (map fst (gbl_dsd_list ?g) @ held_lists g sps) \<and> (\<forall>l ws'. j < l \<longrightarrow> al l \<noteq> Some (b, ws'))"
        by (simp add: l)
    qed
    ultimately show ?thesis using 2(1) [OF Some] 2(2,5) Some held by simp
  qed
qed auto

lemma reserve_pool:
  assumes "reserve_dsd_lists al tot g = (b, g')" and "pool_ok g sps" and "pool_alloc_fresh al g sps 0"
  shows "pool_ok g' sps \<and> ct6_ctxs g' = ct6_ctxs g
    \<and> (b \<longrightarrow> lists_needed (unat tot) + length (held_lists g' sps) < NUM_DSD_CHAIN)"
proof -
  let ?more = "qla24xx_calc_dsd_lists tot"
  note ok = pool_okD [OF assms(2)]
  show ?thesis
  proof (cases "unat ?more + unat (gbl_dsd_inuse g) \<ge> NUM_DSD_CHAIN \<or> ?more \<le> gbl_dsd_avail g")
    case True
    then show ?thesis using assms(1,2) ok(4)
      by (auto simp: reserve_dsd_lists_def Let_def unat_calc_dsd_lists split: if_splits)
  next
    case False
    then have add: "add_dsd_lists al 0 (unat (?more - gbl_dsd_avail g)) g = (b, g')"
      using assms(1) by (simp add: reserve_dsd_lists_def Let_def)
    have "unat (?more - gbl_dsd_avail g) = unat ?more - length (gbl_dsd_list g)"
      using False ok(3) by (simp add: unat_sub not_le less_imp_le)
    then have "length (gbl_dsd_list g) + length (held_lists g sps) + unat (?more - gbl_dsd_avail g) < NUM_DSD_CHAIN"
      using False ok(3,4) by (auto simp: word_le_nat_alt)
    from add_lists_pool [OF add assms(2,3) this]
    show ?thesis using False ok(4) by (auto simp: held_lists_def unat_calc_dsd_lists)
  qed
qed

lemma build_takes:
  assumes "qla24xx_build_scsi_type_6_iocbs c tot s m st g = Some (m', st', g', dsds)"
  shows "\<exists>n \<le> length (gbl_dsd_list g). n \<le> lists_needed (unat tot)
    \<and> map fst dsds = map fst (take n (gbl_dsd_list g))
    \<and> g' = g\<lparr>gbl_dsd_list := drop n (gbl_dsd_list g), gbl_dsd_avail := gbl_dsd_avail g - of_nat n,
             gbl_dsd_inuse := gbl_dsd_inuse g + of_nat n\<rparr>"
proof (cases "scsi_bufflen c = 0 \<or> sc_data_direction c = DMA_NONE")
  case True
  then show ?thesis using assms
    by (auto simp: qla24xx_build_scsi_type_6_iocbs_def Let_def intro!: exI [of _ 0])
next
  case False
  define w where "w = \<lparr>w_root = put_direction c s (put32 s ENTRY_TYPE_OFF COMMAND_TYPE_6 m),
    w_heap = Map.empty, w_lists = [], w_cur = Root (16 * s + CT6_DATA_WORD), w_avail = 0, w_used = 0\<rparr>"
  define n where "n = lists_needed (unat tot)"
  obtain gbl w' where loop: "type6_loop tot (gbl_dsd_list g) (scsi_sglist c) w = Some (gbl, w')"
    and g': "g' = g\<lparr>gbl_dsd_list := gbl, gbl_dsd_avail := gbl_dsd_avail g - of_nat (length (w_lists w')),
       gbl_dsd_inuse := gbl_dsd_inuse g + of_nat (length (w_lists w'))\<rparr>"
    and dsds: "dsds = map (\<lambda>a. (a, the (w_heap w' a))) (w_lists w')"
    using assms False
    by (auto simp: qla24xx_build_scsi_type_6_iocbs_def Let_def w_def split: if_splits option.splits)
  have "n \<le> length (gbl_dsd_list g)" "gbl = drop n (gbl_dsd_list g)"
    "w_lists w' = map fst (take n (gbl_dsd_list g))"
    using type6_takes [OF loop] by (simp_all add: n_def w_def)
  then show ?thesis
    by (intro exI [of _ n]) (simp add: g' dsds comp_def n_def)
qed

lemma lists_held_upd:
  "sp \<notin> set sps \<Longrightarrow> held_lists (g\<lparr>ct6_ctxs := (ct6_ctxs g)(sp := x)\<rparr>) sps = held_lists g sps"
  by (auto simp: held_lists_def intro!: arg_cong [of _ _ concat])

lemma taken_pool:
  assumes ok: "pool_ok g sps" and n: "n \<le> length (gbl_dsd_list g)" and sp: "ct6_ctxs g sp = None"
    and x: "map fst (ct6_lists x) = map fst (take n (gbl_dsd_list g))" "ct6_use_cnt x = int (length (ct6_lists x))"
    and g': "g' = g\<lparr>gbl_dsd_list := drop n (gbl_dsd_list g), gbl_dsd_avail := gbl_dsd_avail g - of_nat n,
             gbl_dsd_inuse := gbl_dsd_inuse g + of_nat n, ct6_ctxs := (ct6_ctxs g)(sp \<mapsto> x)\<rparr>"
  shows "pool_ok g' (sp # sps)"
proof -
  note ok' = pool_okD [OF ok]
  have notin: "sp \<notin> set sps" using ok'(2) sp by auto
  have held: "held_lists g' (sp # sps) = map fst (take n (gbl_dsd_list g)) @ held_lists g sps"
    using notin x(1) by (auto simp: held_lists_def g' intro!: arg_cong [of _ _ concat])
  have small: "n < 65536" using n ok'(7) by (simp add: NUM_DSD_CHAIN_def)
  then have un: "unat (of_nat n :: u16) = n" by (simp add: unat_of_nat_u16)
  have "unat (gbl_dsd_avail g - of_nat n) = length (gbl_dsd_list g) - n"
    using n ok'(3) un by (subst unat_sub) (simp_all add: word_le_nat_alt)
  moreover have "unat (gbl_dsd_inuse g + of_nat n) = n + length (held_lists g sps)"
    using n ok'(4,7) un by (simp add: unat_word_ariths NUM_DSD_CHAIN_def)
  moreover have "map fst (gbl_dsd_list g) = map fst (take n (gbl_dsd_list g)) @ map fst (drop n (gbl_dsd_list g))"
    by (simp flip: map_append)
  then have "distinct (map fst (drop n (gbl_dsd_list g)) @ map fst (take n (gbl_dsd_list g)) @ held_lists g sps)"
    using ok'(6) by auto
  ultimately show ?thesis
    unfolding pool_ok_def held using notin ok'(1,2,5,7) n x(2)
    by (auto simp: g')
qed

lemma free_pool:
  assumes ok: "pool_ok g sps"
  shows "pool_ok (free_ct6 sp g) (remove1 sp sps)"
proof (cases "ct6_ctxs g sp")
  case None
  then have "sp \<notin> set sps" using ok by (auto simp: pool_ok_def)
  then show ?thesis using ok None by (simp add: free_ct6_def remove1_idem)
next
  case (Some x)
  note ok' = pool_okD [OF ok]
  have "sp \<in> set sps" using ok'(2) Some by auto
  then obtain xs ys where sps: "sps = xs @ sp # ys" "sp \<notin> set xs"
    by (meson split_list_first)
  then have ys: "sp \<notin> set ys" using ok'(1) by simp
  have rm: "remove1 sp sps = xs @ ys" using sps by (simp add: remove1_append)
  let ?l = "map fst (ct6_lists x)" and ?g = "free_ct6 sp g"
  have g: "ct6_ctxs ?g = (ct6_ctxs g)(sp := None)" "gbl_dsd_list ?g = ct6_lists x @ gbl_dsd_list g"
    "gbl_dsd_inuse ?g = gbl_dsd_inuse g - of_nat (length ?l)"
    "gbl_dsd_avail ?g = gbl_dsd_avail g + of_nat (length ?l)"
    using ok'(5) [OF Some] by (simp_all add: free_ct6_def Some)
  have held: "held_lists g sps = held_lists g xs @ ?l @ held_lists g ys"
    by (simp add: held_lists_def sps(1) Some)
  have held': "held_lists ?g (xs @ ys) = held_lists g xs @ held_lists g ys"
    using sps(2) ys by (auto simp: held_lists_def g(1) intro!: arg_cong2 [of _ _ _ _ append] arg_cong [of _ _ concat])
  have dist: "distinct (map fst (gbl_dsd_list g) @ held_lists g xs @ ?l @ held_lists g ys)"
    using ok'(6) unfolding held .
  have sets: "set (xs @ ys) = dom (ct6_ctxs ?g)"
    using ok'(2) sps ys by (auto simp: g(1))
  have bound: "length (gbl_dsd_list g) + length (held_lists g xs) + length ?l + length (held_lists g ys) < 4096"
    using ok'(7) by (simp add: held NUM_DSD_CHAIN_def)
  then have un: "unat (of_nat (length ?l) :: u16) = length ?l" by (intro unat_of_nat_u16) simp
  have "unat (gbl_dsd_inuse ?g) = length (held_lists g xs) + length (held_lists g ys)"
    unfolding g(3) using ok'(4) un by (subst unat_sub) (simp_all add: word_le_nat_alt held)
  moreover have "unat (gbl_dsd_avail ?g) = length ?l + length (gbl_dsd_list g)"
    unfolding g(4) using ok'(3) un bound by (simp add: unat_word_ariths)
  ultimately show ?thesis
    unfolding rm pool_ok_def held' using dist sets ok'(5) ok'(1) bound
    by (auto simp: g(1,2) sps(1) NUM_DSD_CHAIN_def)
qed

text \<open>How a submission can change the pool.\<close>

definition keeps_pool :: "dsd_alloc \<Rightarrow> sp_ptr \<Rightarrow> cmd_dma \<Rightarrow> int \<Rightarrow> cmd_dma \<Rightarrow> bool" where
  "keeps_pool al sp g rv g' \<longleftrightarrow> (\<forall>sps. pool_ok g sps \<longrightarrow> ct6_ctxs g sp = None \<longrightarrow> pool_alloc_fresh al g sps 0 \<longrightarrow>
     pool_ok g' (if ct6_ctxs g' sp = None then sps else sp # sps)
     \<and> (rv \<noteq> QLA_SUCCESS \<longrightarrow> ct6_ctxs g' sp = None))"

lemma pool_ok_fcp_freed [simp]: "pool_ok (g\<lparr>fcp_freed := y\<rparr>) sps = pool_ok g sps"
  by (simp add: pool_ok_def held_lists_def)

lemma pool_ok_err:
  "ct6_ctxs g = z \<Longrightarrow> z sp = None \<Longrightarrow> pool_ok (g\<lparr>ct6_ctxs := z(sp := None)\<rparr>) sps = pool_ok g sps"
  by (simp add: pool_ok_def held_lists_def fun_upd_idem)

lemma upd_none: "ct6_ctxs g sp = None \<Longrightarrow> g\<lparr>ct6_ctxs := (ct6_ctxs g)(sp := None)\<rparr> = g"
  by (cases g) (auto simp: fun_upd_idem)

lemma keeps_same: "keeps_pool al sp g rv g"
  by (simp add: keeps_pool_def)

lemma keeps_err: "keeps_pool al sp g rv (g\<lparr>ct6_ctxs := (ct6_ctxs g)(sp := None)\<rparr>)"
  by (simp add: keeps_pool_def upd_none)

lemma keeps_reserve:
  assumes "reserve_dsd_lists al tot g = (b, g1)"
  shows "keeps_pool al sp g rv (g1\<lparr>ct6_ctxs := (ct6_ctxs g1)(sp := None)\<rparr>)"
    and "keeps_pool al sp g rv (g1\<lparr>fcp_freed := y, ct6_ctxs := (ct6_ctxs g1)(sp := None)\<rparr>)"
  using reserve_pool [OF assms]
  by (auto simp: keeps_pool_def upd_none pool_ok_err)

lemma keeps_taken:
  assumes "reserve_dsd_lists al tot g = (True, g1)"
    and "qla24xx_build_scsi_type_6_iocbs c tot' s m st g1 = Some (m', st', g2, ct6_lists x)"
    and "ct6_use_cnt x = int (length (ct6_lists x))"
  shows "keeps_pool al sp g QLA_SUCCESS (g2\<lparr>ct6_ctxs := (ct6_ctxs g2)(sp \<mapsto> x)\<rparr>)"
  unfolding keeps_pool_def
proof (intro allI impI)
  fix sps assume pre: "pool_ok g sps" "ct6_ctxs g sp = None" "pool_alloc_fresh al g sps 0"
  note res = reserve_pool [OF assms(1) pre(1,3)]
  obtain n where n: "n \<le> length (gbl_dsd_list g1)"
    "map fst (ct6_lists x) = map fst (take n (gbl_dsd_list g1))"
    and g2: "g2 = g1\<lparr>gbl_dsd_list := drop n (gbl_dsd_list g1), gbl_dsd_avail := gbl_dsd_avail g1 - of_nat n,
             gbl_dsd_inuse := gbl_dsd_inuse g1 + of_nat n\<rparr>"
    using build_takes [OF assms(2)] by blast
  have "pool_ok (g2\<lparr>ct6_ctxs := (ct6_ctxs g2)(sp \<mapsto> x)\<rparr>) (sp # sps)"
    by (rule taken_pool [OF _ n(1) _ n(2) assms(3)]) (use res pre(2) in \<open>simp_all add: g2\<close>)
  then show "pool_ok (g2\<lparr>ct6_ctxs := (ct6_ctxs g2)(sp \<mapsto> x)\<rparr>)
      (if ct6_ctxs (g2\<lparr>ct6_ctxs := (ct6_ctxs g2)(sp \<mapsto> x)\<rparr>) sp = None then sps else sp # sps)
    \<and> (QLA_SUCCESS \<noteq> QLA_SUCCESS \<longrightarrow> ct6_ctxs (g2\<lparr>ct6_ctxs := (ct6_ctxs g2)(sp \<mapsto> x)\<rparr>) sp = None)"
    by simp
qed

lemma start82_keeps:
  assumes "qla82xx_start_scsi process shift prio_on prio k al mp pool sp (h, g) = Some (rv, h', g')"
  shows "keeps_pool al sp g rv g'"
  using assms unfolding qla82xx_start_scsi_def ct6_load_cmd_def Let_def
  by (auto intro: keeps_same keeps_err keeps_reserve keeps_taken
      split: prod.splits bool.splits option.splits if_splits)


lemma pool_dma_ok: "pool_ok pool_dma []" "pool_alloc_fresh (\<lambda>_. None) pool_dma [] 0"
  by (simp_all add: pool_ok_def pool_alloc_fresh_def pool_dma_def held_lists_def NUM_DSD_CHAIN_def)


end
