(* ===== verification/Host_Claims.thy ===== *)
theory Host_Claims
  imports Type6_Claims Start_Scsi
begin

text \<open>
  The life of a protected command on the host's side: a refused command leaves nothing behind, and
  a long CDB without protection, which the submission routine lets through, is not handled.
\<close>

section \<open>Release by flags\<close>

definition dma_flags :: "bool \<Rightarrow> bool \<Rightarrow> bool \<Rightarrow> bool \<Rightarrow> u16" where
  "dma_flags a b c d =
     (if a then SRB_DMA_VALID else 0) OR (if b then SRB_CRC_PROT_DMA_VALID else 0)
     OR (if c then SRB_CRC_CTX_DMA_VALID else 0) OR (if d then SRB_CRC_CTX_DSD_VALID else 0)"

lemmas flag_defs = SRB_DMA_VALID_def SRB_CRC_PROT_DMA_VALID_def SRB_CRC_CTX_DMA_VALID_def
  SRB_CRC_CTX_DSD_VALID_def SRB_FCP_CMND_DMA_VALID_def BIT_def

lemma dma_flags_0: "dma_flags False False False False = 0"
  by (simp add: dma_flags_def)

lemma dma_flags_bits:
  "dma_flags a b c d AND SRB_DMA_VALID \<noteq> 0 \<longleftrightarrow> a"
  "dma_flags a b c d AND SRB_CRC_PROT_DMA_VALID \<noteq> 0 \<longleftrightarrow> b"
  "dma_flags a b c d AND SRB_CRC_CTX_DMA_VALID \<noteq> 0 \<longleftrightarrow> c"
  "dma_flags a b c d AND SRB_CRC_CTX_DSD_VALID \<noteq> 0 \<longleftrightarrow> d"
  "dma_flags a b c d AND SRB_FCP_CMND_DMA_VALID = 0"
  by (cases a; cases b; cases c; cases d; simp add: dma_flags_def flag_defs)+

lemma dma_flags_clear:
  "dma_flags True b c d AND NOT SRB_DMA_VALID = dma_flags False b c d"
  "dma_flags a True c d AND NOT SRB_CRC_PROT_DMA_VALID = dma_flags a False c d"
  "dma_flags a b True d AND NOT SRB_CRC_CTX_DMA_VALID = dma_flags a b False d"
  "dma_flags a b c True AND NOT SRB_CRC_CTX_DSD_VALID = dma_flags a b c False"
  by (cases a; cases b; cases c; cases d; simp add: dma_flags_def flag_defs)+

lemma dma_flags_set:
  "dma_flags a b c d OR SRB_DMA_VALID = dma_flags True b c d"
  "dma_flags a b c d OR SRB_CRC_PROT_DMA_VALID = dma_flags a True c d"
  "dma_flags a b False False OR ctx_flags ctx
    = dma_flags a b (ctx \<noteq> None) (ctx \<noteq> None \<and> w_lists (crc_mem (the ctx)) \<noteq> [])"
  by (cases a; cases b; cases c; cases d; auto simp: dma_flags_def ctx_flags_def flag_defs split: option.split)+

definition ctx_memory :: "crc_ctx option \<Rightarrow> u64 list" where
  "ctx_memory ctx = (case ctx of None \<Rightarrow> [] | Some x \<Rightarrow> crc_ctx_dma x # rev (w_lists (crc_mem x)))"

text \<open>The state in which the flags are \<open>f\<close>; each step clears its flag and releases its resource.\<close>

definition with_flags :: "sp_ptr \<Rightarrow> u16 \<Rightarrow> host \<Rightarrow> host" where
  "with_flags sp f h = upd_sp sp (\<lambda>s. s\<lparr>sp_flags := f\<rparr>) h"

lemma with_flags_simps [simp]:
  "sp_flags (srbs (with_flags sp f h) sp) = f" "req_q_map (with_flags sp f h) = req_q_map h"
  "unmapped (with_flags sp f h) = unmapped h"
  "clear_flag sp f' (with_flags sp f h) = with_flags sp (f AND NOT f') h"
  "(with_flags sp f h)\<lparr>unmapped := u\<rparr> = with_flags sp f (h\<lparr>unmapped := u\<rparr>)"
  by (simp_all add: with_flags_def upd_sp_def clear_flag_def)

lemma with_own_flags: "sp_flags (srbs h sp) = f \<Longrightarrow> with_flags sp f h = h"
  by (cases h) (auto simp: with_flags_def upd_sp_def)

lemma release_steps:
  "free_data_map sp (with_flags sp (dma_flags a b c d) h, g)
     = (with_flags sp (dma_flags False b c d) (if a then h\<lparr>unmapped := sp # unmapped h\<rparr> else h), g)"
  "free_prot_map sp (with_flags sp (dma_flags a b c d) h, g)
     = (with_flags sp (dma_flags a False c d) h, if b then g\<lparr>prot_unmapped := sp # prot_unmapped g\<rparr> else g)"
  "free_dsd_lists sp (with_flags sp (dma_flags a b c d) h, g)
     = (with_flags sp (dma_flags a b c False) h, if d then qla2x00_clean_dsd_pool sp g else g)"
  "free_context sp (with_flags sp (dma_flags a b c d) h, g)
     = (with_flags sp (dma_flags a b False d) h, if c then free_crc_ctx sp g else g)"
  "free_fcp_cmnd sp (with_flags sp (dma_flags a b c d) h, g) = (with_flags sp (dma_flags a b c d) h, g)"
  by (cases a; cases b; cases c; cases d;
      simp add: free_data_map_def free_prot_map_def free_dsd_lists_def free_context_def free_fcp_cmnd_def
        holds_def dma_flags_bits dma_flags_clear)+

lemma free_dma_effect:
  assumes "sp_flags (srbs h sp) = dma_flags a b (crc_ctxs g sp \<noteq> None)
      (crc_ctxs g sp \<noteq> None \<and> w_lists (crc_mem (the (crc_ctxs g sp))) \<noteq> [])"
    and "qla2x00_sp_free_dma sp (h, g) = (h', g')"
  shows "sp_flags (srbs h' sp) = 0 \<and> req_q_map h' = req_q_map h
    \<and> unmapped h' = (if a then sp # unmapped h else unmapped h)
    \<and> prot_unmapped g' = (if b then sp # prot_unmapped g else prot_unmapped g)
    \<and> dl_freed g' = ctx_memory (crc_ctxs g sp) @ dl_freed g
    \<and> crc_ctxs g' sp = None \<and> srb_freed g' = sp # srb_freed g \<and> ct6_ctxs g' = ct6_ctxs g
    \<and> vref_count g' = vref_count g - 1"
proof -
  define d where "d \<longleftrightarrow> crc_ctxs g sp \<noteq> None \<and> w_lists (crc_mem (the (crc_ctxs g sp))) \<noteq> []"
  have "with_flags sp (dma_flags a b (crc_ctxs g sp \<noteq> None) d) h = h"
    by (rule with_own_flags) (simp add: assms(1) d_def)
  then have start: "qla2x00_sp_free_dma sp (with_flags sp (dma_flags a b (crc_ctxs g sp \<noteq> None) d) h, g) = (h', g')"
    by (simp only: assms(2))
  define g1 where "g1 = (if b then g\<lparr>prot_unmapped := sp # prot_unmapped g\<rparr> else g)"
  define g2 where "g2 = (if d then qla2x00_clean_dsd_pool sp g1 else g1)"
  define g3 where "g3 = (if crc_ctxs g sp \<noteq> None then free_crc_ctx sp g2 else g2)"
  have res: "h' = with_flags sp (dma_flags False False False False) (if a then h\<lparr>unmapped := sp # unmapped h\<rparr> else h)" "g' = qla2x00_rel_sp sp g3"
    using start unfolding qla2x00_sp_free_dma_def release_steps
      g1_def [symmetric] g2_def [symmetric] g3_def [symmetric] by simp_all
  have "crc_ctxs g1 = crc_ctxs g" "dl_freed g1 = dl_freed g" by (simp_all add: g1_def)
  then have g3: "dl_freed g3 = ctx_memory (crc_ctxs g sp) @ dl_freed g" "crc_ctxs g3 sp = None"
    "srb_freed g3 = srb_freed g" "prot_unmapped g3 = prot_unmapped g1" "ct6_ctxs g3 = ct6_ctxs g"
    "vref_count g3 = vref_count g"
    by (auto simp: g3_def g2_def g1_def d_def qla2x00_clean_dsd_pool_def free_crc_ctx_def ctx_memory_def
        split: option.split)
  show ?thesis unfolding res using g3 by (simp add: qla2x00_rel_sp_def g1_def dma_flags_0)
qed

section \<open>What the builder has allocated\<close>

definition lists_from :: "dsd_alloc \<Rightarrow> dsd_walk \<Rightarrow> bool" where
  "lists_from al s \<longleftrightarrow> w_lists s = map (\<lambda>i. fst (the (al i))) [0..<length (w_lists s)]
     \<and> (\<forall>i < length (w_lists s). al i \<noteq> None)"

lemma lists_from_cong: "w_lists s = w_lists t \<Longrightarrow> lists_from al s = lists_from al t"
  by (simp add: lists_from_def)

lemma lists_from_push: "lists_from al s \<Longrightarrow> push_dsd al d s = Some t \<Longrightarrow> lists_from al t"
proof -
  assume l: "lists_from al s" and p: "push_dsd al d s = Some t"
  show "lists_from al t"
  proof (cases "w_avail s = 0")
    case False
    then have "w_lists t = w_lists s" using p by (auto simp: push_dsd_def)
    then show ?thesis using l by (simp add: lists_from_def)
  next
    case True
    then obtain a ws where a: "al (length (w_lists s)) = Some (a, ws)" and t: "w_lists t = w_lists s @ [a]"
      using p by (auto simp: push_dsd_def new_list_def Let_def link_list_def split: option.splits)
    show ?thesis
      unfolding lists_from_def t
    proof
      show "w_lists s @ [a] = map (\<lambda>i. fst (the (al i))) [0..<length (w_lists s @ [a])]"
        using l a by (simp add: lists_from_def)
      show "\<forall>i < length (w_lists s @ [a]). al i \<noteq> None"
        using l a by (auto simp: lists_from_def less_Suc_eq)
    qed
  qed
qed

lemma lists_from_null: "lists_from al s \<Longrightarrow> lists_from al (null_dsd s)"
  by (simp add: null_dsd_def lists_from_def)

lemma lists_from_walk: "lists_from al s \<Longrightarrow> push_all al ds (start_walk c u s) = (r, t) \<Longrightarrow> lists_from al t"
  by (rule push_all_inv [of "lists_from al", OF lists_from_push lists_from_null])
    (simp_all add: lists_from_def)

lemma crc_walks_lists:
  assumes "crc_walks al c tot_dsds tot_prot s m w = Some (rv, m', w')" and "lists_from al w"
  shows "lists_from al w'"
proof -
  obtain rv1 :: int and w1 where one: "lists_from al w1"
    "crc_bundling c \<and> tot_prot \<noteq> 0 \<and> rv1 = 0
      \<longrightarrow> (\<exists>r. qla24xx_walk_and_build_prot_sglist al c (Root CRC_DIF_WORD) tot_prot w1 = (r, w'))"
    "\<not> (crc_bundling c \<and> tot_prot \<noteq> 0 \<and> rv1 = 0) \<longrightarrow> w' = w1"
  proof (cases "\<not> crc_bundling c \<and> tot_prot \<noteq> 0")
    case True
    then obtain r1 w1 where w1: "no_difb_loop al (sector_size c) (block_fuel c) (sgx_start c)
        (scsi_prot_sglist c) 0 (start_walk (Root CRC_DATA_WORD) tot_dsds w) = Some (r1, w1)"
      using assms(1)
      by (auto simp: crc_walks_def Let_def qla24xx_walk_and_build_sglist_no_difb_def split: option.splits)
    have "lists_from al (start_walk (Root CRC_DATA_WORD) tot_dsds w)"
      using assms(2) by (simp add: lists_from_def)
    from no_difb_inv [of "lists_from al", OF lists_from_push lists_from_null this w1]
    have "lists_from al w1" .
    then show ?thesis using that [of w1] True w1 assms(1)
      by (auto simp: crc_walks_def Let_def qla24xx_walk_and_build_sglist_no_difb_def split: if_splits)
  next
    case False
    obtain r1 w1 where w1:
      "qla24xx_walk_and_build_sglist al c (Root CRC_DATA_WORD) (tot_dsds - tot_prot) w = (r1, w1)"
      by (metis prod.collapse)
    then have "lists_from al w1"
      using assms(2) by (auto simp: qla24xx_walk_and_build_sglist_def intro: lists_from_walk)
    then show ?thesis using that [of w1 r1] False w1 assms(1)
      by (auto simp: crc_walks_def Let_def split: if_splits prod.splits)
  qed
  show ?thesis
  proof (cases "crc_bundling c \<and> tot_prot \<noteq> 0 \<and> rv1 = 0")
    case True
    then obtain r where "qla24xx_walk_and_build_prot_sglist al c (Root CRC_DIF_WORD) tot_prot w1 = (r, w')"
      using one(2) by blast
    then show ?thesis using one(1)
      by (auto simp: qla24xx_walk_and_build_prot_sglist_def intro: lists_from_walk)
  qed (use one in simp)
qed

definition ctx_from :: "dsd_alloc \<Rightarrow> u64 option \<Rightarrow> crc_ctx option \<Rightarrow> bool" where
  "ctx_from al pool ctx \<longleftrightarrow>
     (\<forall>x. ctx = Some x \<longrightarrow> pool = Some (crc_ctx_dma x) \<and> lists_from al (crc_mem x))"

lemma crc_2_ctx:
  assumes "qla24xx_build_scsi_crc_2_iocbs err_chk dt k vp al pool c tot_dsds tot_prot opts s m = Some (rv, m', ctx)"
  shows "ctx_from al pool ctx"
proof -
  have new: "lists_from al (crc_mem (new_ctx dma x))" for dma x
    by (simp add: lists_from_def new_ctx_def)
  have upd: "crc_ctx_dma (new_ctx dma x) = dma" for dma x by (simp add: new_ctx_def)
  show ?thesis using assms
    unfolding qla24xx_build_scsi_crc_2_iocbs_def Let_def ctx_from_def
    by (auto simp: new upd dest!: crc_walks_lists [OF _ new] split: if_splits option.splits)
qed

section \<open>A refused command\<close>

lemma find_loop_free:
  "find_handle_loop q index h = Some hnd \<Longrightarrow> index \<le> unat (num_outstanding_cmds q) \<Longrightarrow>
    outstanding_cmds q ! unat hnd = None"
proof (induction q index h rule: find_handle_loop.induct)
  case (1 q index h)
  let ?h = "if h + 1 = ucast (num_outstanding_cmds q) then 1 else h + 1 :: u32"
  show ?case
  proof (cases "index < unat (num_outstanding_cmds q) \<and> outstanding_cmds q ! unat ?h \<noteq> None")
    case True
    then have "find_handle_loop q (Suc index) ?h = Some hnd"
      using 1(2) by (subst (asm) find_handle_loop.simps) (auto simp: Let_def)
    then show ?thesis using 1(1) [OF _ refl refl] True by auto
  next
    case False
    then show ?thesis using 1(2,3)
      by (subst (asm) find_handle_loop.simps) (auto simp: Let_def split: if_splits)
  qed
qed

lemma find_handle_free:
  "find_handle q = Some hnd \<Longrightarrow> 0 < num_outstanding_cmds q \<Longrightarrow> outstanding_cmds q ! unat hnd = None"
  using find_loop_free [of q 1] by (simp add: find_handle_def word_less_nat_alt)

lemma or_flags_simps [simp]:
  "sp_flags (srbs (or_flags sp f h) sp) = sp_flags (srbs h sp) OR f"
  "get_req i (or_flags sp f h) = get_req i h" "req_q_map (or_flags sp f h) = req_q_map h"
  "unmapped (or_flags sp f h) = unmapped h" "vha_req (or_flags sp f h) = vha_req h"
  by (simp_all add: or_flags_def get_req_def upd_sp_def)

lemma flags_kept [simp]:
  "sp_flags (srbs (note_handle sp hnd h) sp) = sp_flags (srbs h sp)"
  "sp_flags (srbs (set_req i q h) sp) = sp_flags (srbs h sp)"
  "vha_req (note_handle sp hnd h) = vha_req h" "unmapped (note_handle sp hnd h) = unmapped h"
  by (simp_all add: note_handle_def upd_sp_def set_req_def)

text \<open>The queue apart from what the ring holds and what the driver knows of its free entries.\<close>

definition same_queue :: "req_que \<Rightarrow> req_que \<Rightarrow> bool" where
  "same_queue q q' \<longleftrightarrow> outstanding_cmds q' = outstanding_cmds q \<and> ring_index q' = ring_index q
     \<and> ring_ptr q' = ring_ptr q \<and> req_q_in q' = req_q_in q"

lemma room_same_queue: "req_room q out n = (b, q') \<Longrightarrow> same_queue q q'"
  by (auto simp: req_room_def same_queue_def Let_def split: if_splits)

lemma dif_load_refused:
  assumes "dif_load_cmd err_chk dt k vp rsp al pool fc sp c hnd tot_dsds tot_prot q = Some (rv, q', ctx)"
    and "rv \<noteq> QLA_SUCCESS" and "outstanding_cmds q ! unat hnd = None"
  shows "same_queue q q' \<and> ctx_from al pool ctx"
proof -
  have "(outstanding_cmds q)[unat hnd := None] = outstanding_cmds q"
    using assms(3) by (metis list_update_id)
  then show ?thesis using assms(1,2)
    by (auto simp: dif_load_cmd_def Let_def put_handle_def clear_handle_def same_queue_def
        intro: crc_2_ctx split: option.splits if_splits)
qed

definition data_mapped :: "kenv \<Rightarrow> scsi_cmnd \<Rightarrow> req_que \<Rightarrow> bool" where
  "data_mapped k c q \<longleftrightarrow> find_handle q \<noteq> None \<and> scsi_sglist c \<noteq> [] \<and> dma_map_sg k (scsi_sglist c) \<noteq> []"

lemma data_segs_mapped:
  assumes "dif_data_segs k c = Some r" and "find_handle q \<noteq> None"
  shows "case r of None \<Rightarrow> \<not> data_mapped k c q | Some (c', n) \<Rightarrow> (scsi_sglist c' \<noteq> []) = data_mapped k c q"
  using assms by (auto simp: dif_data_segs_def data_mapped_def Let_def split: if_splits)

definition refused_state :: "kenv \<Rightarrow> scsi_cmnd \<Rightarrow> dsd_alloc \<Rightarrow> u64 option \<Rightarrow> sp_ptr \<Rightarrow> host \<times> cmd_dma \<Rightarrow> host \<times> cmd_dma \<Rightarrow> bool" where
  "refused_state k c al pool sp = (\<lambda>(h, g) (h1, g1).
     (\<exists>b ctx. sp_flags (srbs h1 sp) = dma_flags (data_mapped k c (get_req (vha_req h) h)) b (ctx \<noteq> None)
          (ctx \<noteq> None \<and> w_lists (crc_mem (the ctx)) \<noteq> [])
      \<and> ctx_from al pool ctx \<and> g1 = g\<lparr>crc_ctxs := (crc_ctxs g)(sp := ctx)\<rparr>)
     \<and> same_queue (get_req (vha_req h) h) (get_req (vha_req h) h1) \<and> unmapped h1 = unmapped h)"

lemma refused_without_ctx:
  assumes "sp_flags (srbs h1 sp) = dma_flags (data_mapped k c (get_req (vha_req h) h)) b False False"
    and "crc_ctxs g sp = None" and "same_queue (get_req (vha_req h) h) (get_req (vha_req h) h1)"
    and "unmapped h1 = unmapped h"
  shows "refused_state k c al pool sp (h, g) (h1, g)"
proof -
  have "g = g\<lparr>crc_ctxs := (crc_ctxs g)(sp := None)\<rparr>"
    using assms(2) by (cases g) (auto simp: fun_upd_idem)
  then show ?thesis using assms unfolding refused_state_def
    by (auto simp: ctx_from_def intro!: exI [of _ b] exI [of _ None])
qed

lemma dif_start_refused:
  assumes start: "qla24xx_dif_start_scsi process err_chk k al pool sp (h, g) = Some (rv, h1, g1)"
    and rv: "rv \<noteq> QLA_SUCCESS"
    and prot: "prot_op (cmd (srbs h sp)) \<noteq> SCSI_PROT_NORMAL \<or> 16 < cmd_len (cmd (srbs h sp))"
    and new: "sp_flags (srbs h sp) = 0" "crc_ctxs g sp = None" "\<not> marker_needed h"
    and slots: "0 < num_outstanding_cmds (get_req (vha_req h) h)"
  shows "refused_state k (cmd (srbs h sp)) al pool sp (h, g) (h1, g1)"
proof -
  let ?qi = "vha_req h" and ?c = "cmd (srbs h sp)"
  let ?q = "get_req ?qi h"
  have np: "(prot_op ?c = SCSI_PROT_NORMAL \<and> cmd_len ?c \<le> 16) = False"
    using prot by auto
  have mk: "send_marker k h = (True, h)" using new(3) by (simp add: send_marker_def)
  note simps = qla24xx_dif_start_scsi_def Let_def np mk if_False prod.case bool.case option.case
  have same: "same_queue ?q ?q" by (simp add: same_queue_def)
  show ?thesis
  proof (cases "find_handle ?q")
    case None
    then have eq: "h1 = h" "g1 = g" using start by (auto simp: simps)
    show ?thesis unfolding eq using new None same
      by (intro refused_without_ctx [where b = False]) (simp_all add: data_mapped_def dma_flags_0)
  next
    case (Some hnd)
    note free = find_handle_free [OF Some slots]
    obtain r where r: "dif_data_segs k ?c = Some r"
      using start Some by (cases "dif_data_segs k ?c") (auto simp: simps)
    show ?thesis
    proof (cases r)
      case None
      then have eq: "h1 = h" "g1 = g" using start Some r by (auto simp: simps)
      show ?thesis unfolding eq using new None same data_segs_mapped [OF r, of ?q] Some
        by (intro refused_without_ctx [where b = False]) (simp_all add: dma_flags_0)
    next
      case cn: (Some cn)
      obtain c n where c: "r = Some (c, n)" using cn by (cases cn) auto
      define h2 where "h2 = (if scsi_sglist c \<noteq> [] then or_flags sp SRB_DMA_VALID h else h)"
      have m: "(scsi_sglist c \<noteq> []) = data_mapped k ?c ?q"
        using data_segs_mapped [OF r, of ?q] Some c by simp
      have h2: "sp_flags (srbs h2 sp) = dma_flags (data_mapped k ?c ?q) False False False"
        "get_req ?qi h2 = ?q" "unmapped h2 = unmapped h" "vha_req h2 = ?qi"
        using m new(1) dma_flags_set(1) [of False False False False]
        by (auto simp: h2_def dma_flags_0)
      obtain r2 where r2: "dif_prot_segs k c = Some r2"
        using start Some r c by (cases "dif_prot_segs k c") (auto simp: simps h2_def)
      show ?thesis
      proof (cases r2)
        case None
        then have eq: "h1 = h2" "g1 = g" using start Some r c r2 by (auto simp: simps h2_def)
        show ?thesis unfolding eq using h2 new(2) same by (intro refused_without_ctx [where b = False]) simp_all
      next
        case cm: (Some cm)
        obtain c' n' where c': "r2 = Some (c', n')" using cm by (cases cm) auto
        define h3 where "h3 = (if scsi_prot_sglist c' \<noteq> [] then or_flags sp SRB_CRC_PROT_DMA_VALID h2 else h2)"
        define b where "b \<longleftrightarrow> scsi_prot_sglist c' \<noteq> []"
        have h3: "sp_flags (srbs h3 sp) = dma_flags (data_mapped k ?c ?q) b False False"
          "get_req ?qi h3 = ?q" "unmapped h3 = unmapped h" "vha_req h3 = ?qi"
          using h2 dma_flags_set(2) [of _ False False False] by (auto simp: h3_def b_def)
        have sub: "dif_submit process err_chk k al pool sp (qla25xx_set_que (srbs h sp) h) hnd c' n n' (h3, g)
            = Some (rv, h1, g1)"
          using start Some r c r2 c' unfolding h3_def h2_def
          by (simp add: simps split del: if_split)
        obtain ok req where room: "req_room ?q (req_q_out k (que_id ?q)) 1 = (ok, req)"
          by (metis prod.collapse)
        have req: "same_queue ?q req" by (rule room_same_queue [OF room])
        show ?thesis
        proof (cases ok)
          case False
          then have eq: "h1 = set_req ?qi req h3" "g1 = g"
            using sub room by (simp_all add: dif_submit_def h3(2,4))
          show ?thesis unfolding eq using h3 new(2) req
            by (intro refused_without_ctx [where b = b]) simp_all
        next
          case True
          let ?h4 = "note_handle sp hnd h3"
          obtain q1 ctx where load: "dif_load_cmd err_chk (device_type ?h4) k (vp_idx ?h4)
              (rsp_id (get_rsp (qla25xx_set_que (srbs h sp) h) ?h4)) al pool (fcport (srbs ?h4 sp)) sp c' hnd
              (of_nat n + of_nat n') (of_nat n') req = Some (rv, q1, ctx)"
            and out: "h1 = or_flags sp (ctx_flags ctx) (set_req ?qi q1 ?h4)" "g1 = g\<lparr>crc_ctxs := (crc_ctxs g)(sp := ctx)\<rparr>"
            using sub rv room True
            by (auto simp: dif_submit_def h3(2,4) Let_def split: option.splits if_splits)
          have "outstanding_cmds req ! unat hnd = None" using req free by (simp add: same_queue_def)
          note load' = dif_load_refused [OF load rv this]
          have "same_queue ?q q1" using load' req by (simp add: same_queue_def)
          moreover have "sp_flags (srbs h1 sp) = dma_flags (data_mapped k ?c ?q) b (ctx \<noteq> None)
              (ctx \<noteq> None \<and> w_lists (crc_mem (the ctx)) \<noteq> [])"
            using h3(1) dma_flags_set(3) by (simp add: out(1))
          ultimately show ?thesis
            using load' h3(3) unfolding refused_state_def by (auto simp: out)
        qed
      qed
    qed
  qed
qed


text \<open>The fields of a protected command's common area that only the builder fills.\<close>

lemma crc_fill_fields:
  assumes "16 * s + 16 \<le> length m" and "length (int_to_scsilun k (lun c)) = 8"
    and "m' = crc_fill_cmd k qid fc c hnd tot s m"
  shows "length m' = length m" "get16 s CT6_FCP_CMND_LEN m' = 0" "get32 s CT6_FCP_CMND_ADDR m' = 0"
    "get8 s CT6_VP_INDEX m' = 0"
  using assms
  by (simp_all add: crc_fill_cmd_def Let_def put_port_id_def entry_simps CT6_NPORT_HANDLE_def
      CT6_DSEG_COUNT_def CT6_LUN_def CT6_PORT_ID_def CT6_FCP_CMND_LEN_def CT6_FCP_CMND_ADDR_def CT6_VP_INDEX_def)

lemma get8_put32: "16 * s < length m \<Longrightarrow> get8 s 0 (put32 s 0 v m) = get_byte 0 v"
  by (simp add: get8_def put32_def)

lemma ring_doorbell_ring [simp]: "ring (ring_doorbell q) = ring q"
  by (simp add: ring_doorbell_def ring_advance_def Let_def)

text \<open>
  C32. A command with a CDB of more than 16 bytes and without protection takes the route of the
  protected commands, which does not handle it: if it transfers data, the builder reaches \<open>BUG()\<close>;
  if it does not, an entry is sent whose FCP command is missing - length and address zero - and
  which carries virtual port 0, so the device never gets the CDB.
\<close>

theorem long_cdb_not_sent:
  assumes "prot_op c = SCSI_PROT_NORMAL" and "16 < cmd_len c" and "cmd_len c mod 4 = 0"
    and "16 * ring_ptr q + 16 \<le> length (ring q)" and "length (int_to_scsilun k (lun c)) = 8"
  shows "if scsi_bufflen c \<noteq> 0 \<and> sc_data_direction c \<noteq> DMA_NONE
    then dif_load_cmd err_chk dt k vp rsp al (Some dma) fc sp c hnd tot_dsds tot_prot q = None
    else \<exists>q'. dif_load_cmd err_chk dt k vp rsp al pool fc sp c hnd tot_dsds tot_prot q = Some (QLA_SUCCESS, q', None)
      \<and> get8 (ring_ptr q) ENTRY_TYPE_OFF (ring q') = ucast COMMAND_TYPE_CRC_2
      \<and> get16 (ring_ptr q) CT6_FCP_CMND_LEN (ring q') = 0
      \<and> get32 (ring_ptr q) CT6_FCP_CMND_ADDR (ring q') = 0
      \<and> get8 (ring_ptr q) CT6_VP_INDEX (ring q') = 0"
proof -
  let ?s = "ring_ptr q"
  define m where "m = crc_fill_cmd k (que_id q) fc c hnd tot_dsds ?s (ring q)"
  note m = crc_fill_fields [OF assms(4,5) m_def]
  have off: "crc_bytes c = None"
    using assms(1) by (simp add: crc_bytes_def Let_def)
  show ?thesis
  proof (cases "scsi_bufflen c \<noteq> 0 \<and> sc_data_direction c \<noteq> DMA_NONE")
    case True
    then have "qla24xx_build_scsi_crc_2_iocbs err_chk dt k vp al (Some dma) c tot_dsds tot_prot opts s m = None"
      for opts s m
      using assms(3) off by (simp add: qla24xx_build_scsi_crc_2_iocbs_def Let_def)
    then show ?thesis using True by (simp add: dif_load_cmd_def Let_def)
  next
    case False
    define m1 where "m1 = put32 ?s CT6_BYTE_COUNT 0 (put32 ?s ENTRY_TYPE_OFF COMMAND_TYPE_CRC_2 m)"
    have "qla24xx_build_scsi_crc_2_iocbs err_chk dt k vp al pool c tot_dsds tot_prot opts ?s m
        = Some (QLA_SUCCESS, m1, None)" for opts
      using False by (auto simp: qla24xx_build_scsi_crc_2_iocbs_def Let_def m1_def)
    then have "\<exists>q'. dif_load_cmd err_chk dt k vp rsp al pool fc sp c hnd tot_dsds tot_prot q = Some (QLA_SUCCESS, q', None)
        \<and> ring q' = put16 ?s 10 0 (put8 ?s ENTRY_STATUS_OFF (ucast rsp) (put8 ?s ENTRY_COUNT_OFF 1 m1))"
      by (simp add: dif_load_cmd_def Let_def put_handle_def m_def)
    moreover have "get_byte 0 COMMAND_TYPE_CRC_2 = ucast COMMAND_TYPE_CRC_2"
      by (simp add: get_byte_def)
    ultimately show ?thesis using False m assms(4)
      by (auto simp: m1_def entry_simps get8_put32 CT6_BYTE_COUNT_def CT6_FCP_CMND_LEN_def
          CT6_FCP_CMND_ADDR_def CT6_VP_INDEX_def)
  qed
qed

text \<open>The sample command with a long CDB, and one without protection memory.\<close>

definition long_sc :: scsi_cmnd where
  "long_sc = sample_sc\<lparr>cmnd := replicate 32 0x7F, cmd_len := 32\<rparr>"

theorem long_cdb_not_sent_witness:
  "dif_load_cmd 1 DT_FWI2 sample_kenv 0 0 sample_al (Some 0x4000) sample_port 7 long_sc 2 5 0 sample_ring = None"
  using long_cdb_not_sent [of long_sc sample_ring sample_kenv 1 DT_FWI2 0 0 sample_al "0x4000" sample_port 7 2 5 0 None]
  by (simp add: long_sc_def sample_sc_def sample_ring_def sample_kenv_def)

definition empty_dma :: cmd_dma where
  "empty_dma = \<lparr>crc_ctxs = (\<lambda>_. None), ct6_ctxs = (\<lambda>_. None), gbl_dsd_list = [], gbl_dsd_avail = 0,
     gbl_dsd_inuse = 0, dl_freed = [], fcp_freed = [], prot_unmapped = [], vref_count = 0, sp_ref = (\<lambda>_. 0),
     srb_freed = [], scsi_dones = []\<rparr>"

definition pi_host :: host where
  "pi_host = sample_host\<lparr>srbs := (\<lambda>i. sample_srb\<lparr>sp_flags := 0, cmd := sample_pi\<rparr>)\<rparr>"


end
