(* ===== verification/Mbx_Command.thy ===== *)
theory Mbx_Command
  imports Iocb_Control Isr_Status
begin

text \<open>
  The mailbox handshake (qla2x00_mailbox_command of qla_mbx.c) and the interrupt side of it
  (qla_isr.c, qla_nx.c, qla_inline.h). A command is a set of 16-bit registers: \<open>mc_out\<close> names the
  ones to send, \<open>mc_in\<close> the ones to take back. One command is in flight at a time: the completion
  \<open>mbx_cmd_comp\<close> is the slot, \<open>mbx_intr_comp\<close> the arrival of the answer.
\<close>

section \<open>More adapter types\<close>

definition DT_ISP2100 :: u32 where "DT_ISP2100 = BIT 0"
definition DT_ISP2300 :: u32 where "DT_ISP2300 = BIT 2"
definition DT_ISP2312 :: u32 where "DT_ISP2312 = BIT 3"
definition DT_ISP2322 :: u32 where "DT_ISP2322 = BIT 4"
definition DT_ISP6312 :: u32 where "DT_ISP6312 = BIT 5"
definition DT_ISP6322 :: u32 where "DT_ISP6322 = BIT 6"
definition DT_ISP2422 :: u32 where "DT_ISP2422 = BIT 7"
definition DT_ISP2432 :: u32 where "DT_ISP2432 = BIT 8"
definition DT_ISP5422 :: u32 where "DT_ISP5422 = BIT 9"
definition DT_ISP5432 :: u32 where "DT_ISP5432 = BIT 10"
definition DT_ISP2532 :: u32 where "DT_ISP2532 = BIT 11"
definition DT_ISP8432 :: u32 where "DT_ISP8432 = BIT 12"
definition DT_IIDMA :: u32 where "DT_IIDMA = BIT 26"

definition is_dt :: "u32 \<Rightarrow> u32 \<Rightarrow> bool" where
  "is_dt t dt \<longleftrightarrow> DT_MASK dt AND t \<noteq> 0"

definition IS_QLA2100 :: "u32 \<Rightarrow> bool" where "IS_QLA2100 = is_dt DT_ISP2100"
definition IS_QLA2322 :: "u32 \<Rightarrow> bool" where "IS_QLA2322 = is_dt DT_ISP2322"
definition IS_QLA6322 :: "u32 \<Rightarrow> bool" where "IS_QLA6322 = is_dt DT_ISP6322"
definition IS_QLA25XX :: "u32 \<Rightarrow> bool" where "IS_QLA25XX = is_dt DT_ISP2532"
definition IS_QLA8031 :: "u32 \<Rightarrow> bool" where "IS_QLA8031 = is_dt DT_ISP8031"

definition IS_QLA23XX :: "u32 \<Rightarrow> bool" where
  "IS_QLA23XX dt \<longleftrightarrow> is_dt DT_ISP2300 dt \<or> is_dt DT_ISP2312 dt \<or> IS_QLA2322 dt
     \<or> is_dt DT_ISP6312 dt \<or> IS_QLA6322 dt"

definition IS_QLA24XX_TYPE :: "u32 \<Rightarrow> bool" where
  "IS_QLA24XX_TYPE dt \<longleftrightarrow> is_dt DT_ISP2422 dt \<or> is_dt DT_ISP2432 dt \<or> is_dt DT_ISP5422 dt
     \<or> is_dt DT_ISP5432 dt \<or> is_dt DT_ISP8432 dt"

definition IS_CNA_CAPABLE :: "u32 \<Rightarrow> bool" where
  "IS_CNA_CAPABLE dt \<longleftrightarrow> IS_QLA81XX dt \<or> IS_QLA82XX dt \<or> IS_QLA8031 dt \<or> IS_QLA8044 dt"

definition IS_IIDMA_CAPABLE :: "u32 \<Rightarrow> bool" where
  "IS_IIDMA_CAPABLE dt \<longleftrightarrow> dt AND DT_IIDMA \<noteq> 0"

section \<open>Commands\<close>

text \<open>
  \<open>mbx_cmd_t\<close> without \<open>buf_size\<close> and \<open>bufp\<close>, which are never read. It lives on the caller's stack
  and is not initialised: \<open>junk\<close> stands for what is there.
\<close>

record mbx_cmd =
  mc_out :: u32
  mc_in :: u32
  mc_mb :: "u16 list"
  mc_tov :: u32
  mc_flags :: u8

definition MBX_DMA_IN :: u8 where "MBX_DMA_IN = BIT 0"
definition MBX_DMA_OUT :: u8 where "MBX_DMA_OUT = BIT 1"
definition IOCTL_CMD :: u8 where "IOCTL_CMD = BIT 2"
definition MBX_TOV_SECONDS :: u32 where "MBX_TOV_SECONDS = 30"

definition MBXS :: "nat list \<Rightarrow> u32" where
  "MBXS is = foldr (\<lambda>i a. BIT i OR a) is 0"

definition set_regs :: "(nat \<times> u16) list \<Rightarrow> u16 list \<Rightarrow> u16 list" where
  "set_regs ws xs = fold (\<lambda>(i, v) xs. xs[i := v]) ws xs"

definition mbx_req :: "mbx_cmd \<Rightarrow> (nat \<times> u16) list \<Rightarrow> nat list \<Rightarrow> nat list \<Rightarrow> u32 \<Rightarrow> u8 \<Rightarrow> mbx_cmd" where
  "mbx_req junk ws outs ins tov flags =
     junk\<lparr>mc_out := MBXS outs, mc_in := MBXS ins, mc_mb := set_regs ws (mc_mb junk),
       mc_tov := tov, mc_flags := flags\<rparr>"

definition mbx_reg :: "mbx_cmd \<Rightarrow> nat \<Rightarrow> u16" where
  "mbx_reg m i = mc_mb m ! i"

definition MBS_LINK_DOWN_ERROR :: u16 where "MBS_LINK_DOWN_ERROR = 0x400B"
definition MBC_GEN_SYSTEM_ERROR :: u16 where "MBC_GEN_SYSTEM_ERROR = 0x2a"
definition MBC_LOAD_RISC_RAM_EXTENDED :: u16 where "MBC_LOAD_RISC_RAM_EXTENDED = 0xb"
definition HINT_MBX_INT_PENDING :: u32 where "HINT_MBX_INT_PENDING = BIT 0"

section \<open>The state\<close>

datatype mbx_event =
    Doorbell "nat \<Rightarrow> u16"
  | Fw_dump
  | Pause_off
  | Wake_dpc
  | Abort_isp

text \<open>What \<open>qla_hw_data\<close> and the port keep of the firmware, and what of it the commands send.\<close>

record fw_state =
  fw_major_version :: u16
  fw_minor_version :: u16
  fw_subminor_version :: u16
  fw_attributes :: u16
  fw_attributes_h :: u16
  fw_attributes_ext :: "u16 list"
  fw_memory_size :: u32
  fw_shared_ram :: "u32 \<times> u32"
  mpi_version :: "u8 list"
  mpi_capabilities :: u32
  phy_version :: "u8 list"
  link_data_rate :: u16
  md_template_size :: u32
  op_fw_version :: u32
  fcoe_vlan_id :: u16
  fcoe_fcf_idx :: u16
  fcoe_vn_port_mac :: "u8 list"
  fc_host_port_name :: "u8 list"
  vha_node_name :: "u8 list"
  init_cb_dma :: u64
  ex_init_cb :: "(u64 \<times> bool) option"
  npiv_supported :: bool
  fcp_prio_enabled :: bool
  loop_mode :: bool
  loop_reset_delay :: u16
  nv_enhanced_features :: u16
  pci_offline :: bool
  max_npiv_vports :: u16
  cs84xx_update :: bool
  fc_vport_state :: nat

text \<open>
  \<open>mw_base_dpc\<close> are the flags of the physical port when the command is issued for a virtual one.
  \<open>mw_mcp\<close> is the pointer \<open>ha->mcp\<close> to the pending command, of which
  the interrupt side reads \<open>in_mb\<close>. \<open>mw_mem\<close> is coherent DMA memory by its address; \<open>mw_regs\<close> what the mailbox registers were last
  set to; \<open>Doorbell\<close> records them when the firmware is told of a command.
\<close>

record mbx_world =
  mw_host :: host
  mw_base_dpc :: "u64 option"
  mw_init_done :: bool
  mw_pci_dead :: bool
  mw_dev_failed :: bool
  mw_perm_failure :: bool
  mw_eeh_busy :: bool
  mw_msix_enabled :: bool
  mw_fw_hung :: bool
  mw_mbx_count :: nat
  mw_mbox_busy :: bool
  mw_mbox_int :: bool
  mw_interrupt :: bool
  mw_intr_wait :: bool
  mw_mcp :: "u32 option"
  mw_mailbox_out :: "u16 list"
  mw_regs :: "nat \<Rightarrow> u16"
  mw_cmd_comp :: nat
  mw_intr_comp :: nat
  mw_jiffies :: nat
  mw_mem :: "u64 \<Rightarrow> u32 list"
  mw_fw :: fw_state
  mw_log :: "mbx_event list"

definition mw_dt :: "mbx_world \<Rightarrow> u32" where "mw_dt w = device_type (mw_host w)"

definition mbx_dpc :: "nat \<Rightarrow> bool \<Rightarrow> mbx_world \<Rightarrow> mbx_world" where
  "mbx_dpc b v w = w\<lparr>mw_host := (mw_host w)\<lparr>dpc_flags :=
     (if v then dpc_flags (mw_host w) OR BIT b else dpc_flags (mw_host w) AND NOT (BIT b))\<rparr>\<rparr>"

definition test_dpc :: "nat \<Rightarrow> mbx_world \<Rightarrow> bool" where
  "test_dpc b w = bit (dpc_flags (mw_host w)) b"

definition base_dpc :: "mbx_world \<Rightarrow> u64" where
  "base_dpc w = (case mw_base_dpc w of None \<Rightarrow> dpc_flags (mw_host w) | Some d \<Rightarrow> d)"

definition mbx_log :: "mbx_event \<Rightarrow> mbx_world \<Rightarrow> mbx_world" where
  "mbx_log e w = w\<lparr>mw_log := e # mw_log w\<rparr>"

text \<open>
  What the driver does not control: \<open>io_others\<close> is what happens while the caller waits for the slot
  or sleeps - other contexts, the firmware's writes to memory, time; \<open>io_answer\<close> is the mailbox
  interrupt, if it has come, with the registers the firmware has left; \<open>io_hint\<close> the doorbell
  register of the P3P adapters; \<open>io_abort\<close> is \<open>abort_isp\<close>.
\<close>

record mbx_io =
  io_others :: "mbx_world \<Rightarrow> mbx_world"
  io_answer :: "mbx_world \<Rightarrow> (nat \<Rightarrow> u16) option"
  io_hint :: "mbx_world \<Rightarrow> u32"
  io_abort :: "mbx_world \<Rightarrow> bool \<times> mbx_world"
  io_hz :: nat

section \<open>The interrupt side\<close>

definition qla2x00_mbx_completion :: "(nat \<Rightarrow> u16) \<Rightarrow> mbx_world \<Rightarrow> mbx_world" where
  "qla2x00_mbx_completion regs w =
     (let mboxes = (case mw_mcp w of None \<Rightarrow> BIT (mw_mbx_count w) - 1 | Some x \<Rightarrow> x)
      in w\<lparr>mw_mbox_int := True,
         mw_mailbox_out := map (\<lambda>i. if i < mw_mbx_count w \<and> (i = 0 \<or> bit mboxes i) then regs i
                                      else mw_mailbox_out w ! i) [0..<length (mw_mailbox_out w)]\<rparr>)"

text \<open>The same for the 24xx, whose registers are at other addresses.\<close>

definition qla24xx_mbx_completion :: "(nat \<Rightarrow> u16) \<Rightarrow> mbx_world \<Rightarrow> mbx_world" where
  "qla24xx_mbx_completion regs w =
     (let mboxes = (case mw_mcp w of None \<Rightarrow> BIT (mw_mbx_count w) - 1 | Some x \<Rightarrow> x)
      in w\<lparr>mw_mbox_int := True,
         mw_mailbox_out := map (\<lambda>i. if i < mw_mbx_count w \<and> (i = 0 \<or> bit mboxes i) then regs i
                                      else mw_mailbox_out w ! i) [0..<length (mw_mailbox_out w)]\<rparr>)"

definition qla82xx_mbx_completion :: "(nat \<Rightarrow> u16) \<Rightarrow> mbx_world \<Rightarrow> mbx_world" where
  "qla82xx_mbx_completion regs w =
     w\<lparr>mw_mbox_int := True,
       mw_mailbox_out := map (\<lambda>i. if i < mw_mbx_count w then regs i else mw_mailbox_out w ! i)
         [0..<length (mw_mailbox_out w)]\<rparr>"

definition qla2x00_handle_mbx_completion :: "mbx_world \<Rightarrow> mbx_world" where
  "qla2x00_handle_mbx_completion w =
     (if mw_intr_wait w \<and> mw_mbox_int w
      then w\<lparr>mw_interrupt := True, mw_intr_wait := False, mw_intr_comp := mw_intr_comp w + 1\<rparr>
      else w)"

definition mbx_completion :: "(nat \<Rightarrow> u16) \<Rightarrow> mbx_world \<Rightarrow> mbx_world" where
  "mbx_completion regs w =
     (if IS_P3P_TYPE (mw_dt w) then qla82xx_mbx_completion regs w
      else if IS_FWI2_CAPABLE (mw_dt w) then qla24xx_mbx_completion regs w
      else qla2x00_mbx_completion regs w)"

text \<open>The mailbox part of the handlers, when an answer has come; polling calls them, \<open>qla82xx_poll\<close> for P3P.\<close>

definition mbx_interrupt :: "(nat \<Rightarrow> u16) \<Rightarrow> mbx_world \<Rightarrow> mbx_world" where
  "mbx_interrupt regs w = qla2x00_handle_mbx_completion (mbx_completion regs w)"

definition deliver :: "mbx_io \<Rightarrow> mbx_world \<Rightarrow> mbx_world" where
  "deliver io w = (let w = io_others io w
     in case io_answer io w of None \<Rightarrow> w | Some regs \<Rightarrow> mbx_interrupt regs w)"

definition qla2x00_poll :: "mbx_io \<Rightarrow> mbx_world \<Rightarrow> mbx_world" where
  "qla2x00_poll io w = (let w = io_others io w
     in case io_answer io w of None \<Rightarrow> w
        | Some regs \<Rightarrow> if IS_P3P_TYPE (mw_dt w) then mbx_completion regs w else mbx_interrupt regs w)"

section \<open>The command\<close>

definition IS_NOPOLLING_TYPE :: "mbx_world \<Rightarrow> bool" where
  "IS_NOPOLLING_TYPE w \<longleftrightarrow> IS_QLA81XX (mw_dt w) \<and> mw_msix_enabled w"

text \<open>The early returns: the command as it is handed back with \<open>QLA_FUNCTION_TIMEOUT\<close>.\<close>

definition mbx_refused :: "mbx_cmd \<Rightarrow> mbx_world \<Rightarrow> mbx_cmd option" where
  "mbx_refused m w =
     (if mw_pci_dead w \<or> mw_dev_failed w \<or> mw_perm_failure w then Some m
      else if IS_P3P_TYPE (mw_dt w) \<and> mw_fw_hung w
      then Some (m\<lparr>mc_mb := (mc_mb m)[0 := MBS_LINK_DOWN_ERROR]\<rparr>)
      else None)"

definition take_slot :: "mbx_io \<Rightarrow> mbx_world \<Rightarrow> bool \<times> mbx_world" where
  "take_slot io w =
     (let w = (if mw_cmd_comp w > 0 then w else io_others io w)
      in if mw_cmd_comp w = 0 then (False, w) else (True, w\<lparr>mw_cmd_comp := mw_cmd_comp w - 1\<rparr>))"

definition load_regs :: "mbx_cmd \<Rightarrow> mbx_world \<Rightarrow> mbx_world" where
  "load_regs m w = w\<lparr>mw_mbox_busy := True, mw_mcp := Some (mc_in m), mw_mbox_int := False, mw_interrupt := False,
     mw_regs := (\<lambda>i. if i < mw_mbx_count w \<and> bit (mc_out m) i then mc_mb m ! i else mw_regs w i)\<rparr>"

definition hint_pending :: "mbx_io \<Rightarrow> mbx_world \<Rightarrow> bool" where
  "hint_pending io w \<longleftrightarrow> IS_P3P_TYPE (mw_dt w) \<and> io_hint io w AND HINT_MBX_INT_PENDING \<noteq> 0"

definition ring_mbx :: "mbx_world \<Rightarrow> mbx_world" where
  "ring_mbx w = mbx_log (Doorbell (mw_regs w)) w"

text \<open>\<open>wait_for_completion_timeout\<close> on \<open>mbx_intr_comp\<close>: a completion that is already there is taken at once.\<close>

definition wait_intr :: "mbx_io \<Rightarrow> mbx_world \<Rightarrow> mbx_world" where
  "wait_intr io w =
     (let w = (if mw_intr_comp w > 0 then w else deliver io w)
      in if mw_intr_comp w > 0 then w\<lparr>mw_intr_comp := mw_intr_comp w - 1\<rparr>
         else w\<lparr>mw_intr_wait := False\<rparr>)"

definition mbx_sleep :: "mbx_io \<Rightarrow> nat \<Rightarrow> mbx_world \<Rightarrow> mbx_world" where
  "mbx_sleep io ms w = (let w = io_others io w in w\<lparr>mw_jiffies := mw_jiffies w + ms * io_hz io div 1000\<rparr>)"

text \<open>Polling, with fuel; None: still polling.\<close>

fun poll_loop :: "mbx_io \<Rightarrow> u16 \<Rightarrow> nat \<Rightarrow> nat \<Rightarrow> mbx_world \<Rightarrow> mbx_world option" where
  "poll_loop io command lim 0 w = None"
| "poll_loop io command lim (Suc n) w =
     (if mw_mbox_int w \<or> lim < mw_jiffies w then Some w
      else let w = qla2x00_poll io w
           in poll_loop io command lim n
                (if \<not> mw_mbox_int w \<and> \<not> (IS_QLA2200 (mw_dt w) \<and> command = MBC_LOAD_RISC_RAM_EXTENDED)
                 then mbx_sleep io 10 w else w))"

text \<open>What is taken from the answer, or what is done about its absence.\<close>

definition take_regs :: "mbx_world \<Rightarrow> mbx_cmd \<Rightarrow> mbx_cmd" where
  "take_regs w m = m\<lparr>mc_mb := map (\<lambda>i. if i < mw_mbx_count w \<and> bit (mc_in m) i
      then mw_mailbox_out w ! i else mc_mb m ! i) [0..<length (mc_mb m)]\<rparr>"

text \<open>The second component tells whether the code leaves at \<open>premature_exit\<close>.\<close>

definition mbx_collect :: "mbx_cmd \<Rightarrow> mbx_world \<Rightarrow> int \<times> bool \<times> mbx_cmd \<times> mbx_world" where
  "mbx_collect m w =
     (if mw_mbox_int w
      then let w = w\<lparr>mw_mbox_int := False, mw_interrupt := False\<rparr>
           in if IS_P3P_TYPE (mw_dt w) \<and> mw_fw_hung w
              then (QLA_FUNCTION_FAILED, True, m\<lparr>mc_mb := (mc_mb m)[0 := MBS_LINK_DOWN_ERROR]\<rparr>,
                    w\<lparr>mw_mbox_busy := False, mw_mcp := None\<rparr>)
              else (if mw_mailbox_out w ! 0 \<noteq> MBS_COMMAND_COMPLETE then QLA_FUNCTION_FAILED else QLA_SUCCESS,
                    False, take_regs w m, w\<lparr>mw_mbox_busy := False, mw_mcp := None\<rparr>)
      else (QLA_FUNCTION_TIMEOUT, False, m,
            (if mc_mb m ! 0 \<noteq> MBC_GEN_SYSTEM_ERROR then mbx_log Fw_dump w else w)
              \<lparr>mw_mbox_busy := False, mw_mcp := None\<rparr>))"

definition reset_pending :: "mbx_world \<Rightarrow> bool" where
  "reset_pending w \<longleftrightarrow> test_dpc ISP_ABORT_NEEDED w \<or> test_dpc ABORT_ISP_ACTIVE w \<or> test_dpc ISP_ABORT_RETRY w"

definition pause_off :: "mbx_world \<Rightarrow> mbx_world" where
  "pause_off w = (if IS_QLA82XX (mw_dt w) then mbx_log Pause_off w else w)"

definition free_slot_mbx :: "mbx_world \<Rightarrow> mbx_world" where
  "free_slot_mbx w = w\<lparr>mw_cmd_comp := mw_cmd_comp w + 1\<rparr>"

text \<open>After a time-out: the DPC thread is told, or the adapter is reset from here. The slot is given back.\<close>

definition mbx_escalate :: "mbx_io \<Rightarrow> bool \<Rightarrow> bool \<Rightarrow> mbx_cmd \<Rightarrow> mbx_world \<Rightarrow> mbx_world" where
  "mbx_escalate io abort_active io_lock_on m w =
     (if \<not> io_lock_on \<or> mc_flags m AND IOCTL_CMD \<noteq> 0 \<or> mw_eeh_busy w
      then free_slot_mbx (if reset_pending w then w
             else mbx_log Wake_dpc (mbx_dpc ISP_ABORT_NEEDED True (pause_off w)))
      else if abort_active \<or> reset_pending w then free_slot_mbx w
      else let w = mbx_dpc ISP_ABORT_NEEDED False (mbx_dpc ABORT_ISP_ACTIVE True (pause_off w));
               (failed, w) = io_abort io (mbx_log Abort_isp (free_slot_mbx w));
               w = (if failed then mbx_dpc ISP_ABORT_NEEDED True w else w)
           in mbx_dpc ABORT_ISP_ACTIVE False w)"

text \<open>None: the firmware is still being polled when the fuel \<open>N\<close> is used up.\<close>

definition qla2x00_mailbox_command ::
    "mbx_io \<Rightarrow> nat \<Rightarrow> mbx_cmd \<Rightarrow> mbx_world \<Rightarrow> (int \<times> mbx_cmd \<times> mbx_world) option" where
  "qla2x00_mailbox_command io N m w =
     (case mbx_refused m w of
        Some m \<Rightarrow> Some (QLA_FUNCTION_TIMEOUT, m, w)
      | None \<Rightarrow>
        (let io_lock_on = mw_init_done w;
             abort_active = bit (base_dpc w) ABORT_ISP_ACTIVE;
             (got, w) = take_slot io w
         in if \<not> got then Some (QLA_FUNCTION_TIMEOUT, m, w)
            else let w = load_regs m w;
                     waits = ((\<not> abort_active \<and> io_lock_on) \<or> IS_NOPOLLING_TYPE w);
                     w = (if waits then w\<lparr>mw_intr_wait := True\<rparr> else w)
            in if hint_pending io w
               then Some (QLA_FUNCTION_TIMEOUT, m, free_slot_mbx (w\<lparr>mw_mbox_busy := False\<rparr>))
               else case (if waits then Some (wait_intr io (ring_mbx w))
                          else poll_loop io (mc_mb m ! 0) (mw_jiffies w + unat (mc_tov m) * io_hz io) N
                                 (ring_mbx w)) of
                 None \<Rightarrow> None
               | Some w \<Rightarrow>
                 (case mbx_collect m w of
                    (rv, True, m, w) \<Rightarrow> Some (rv, m, free_slot_mbx w)
                  | (rv, False, m, w) \<Rightarrow>
                    (let w = (if (abort_active \<or> \<not> io_lock_on) \<and> \<not> IS_NOPOLLING_TYPE w
                              then qla2x00_poll io w else w)
                     in Some (rv, m,
                          if rv = QLA_FUNCTION_TIMEOUT \<and> mc_mb m ! 0 \<noteq> MBC_GEN_SYSTEM_ERROR
                          then mbx_escalate io abort_active io_lock_on m w
                          else free_slot_mbx w)))))"

end
