(* ===== verification/Mbx_Fw.thy ===== *)
theory Mbx_Fw
  imports Mbx_Command "HOL-Library.Monad_Syntax"
begin

text \<open>
  Mailbox commands, first part (qla_mbx.c, from qla2x00_load_ram to qla2x00_send_sns): loading
  and starting the firmware, its version and options, aborts and resets, addresses and port data.
  Every command fills an \<open>mbx_cmd\<close> on the stack (\<open>junk\<close> is what the stack holds) and hands it to
  \<open>issue\<close>, the mailbox command; None is a call that has not returned. Out parameters are results,
  None where the code does not write them.
\<close>

type_synonym mbx_issue = "mbx_cmd \<Rightarrow> mbx_world \<Rightarrow> (int \<times> mbx_cmd \<times> mbx_world) option"

section \<open>Shared parts\<close>

definition mbx_status :: "mbx_issue \<Rightarrow> mbx_cmd \<Rightarrow> mbx_world \<Rightarrow> (int \<times> mbx_world) option" where
  "mbx_status issue m w = do { (rv, m, w) \<leftarrow> issue m w; Some (rv, w) }"

definition dma_regs :: "u64 \<Rightarrow> (nat \<times> u16) list" where
  "dma_regs a = [(2, MSW (LSD a)), (3, LSW (LSD a)), (6, MSW (MSD a)), (7, LSW (MSD a))]"

definition or_words :: "u16 \<Rightarrow> u16 \<Rightarrow> u32" where
  "or_words hi lo = push_bit 16 (ucast hi) OR ucast lo"

definition upd_fw :: "(fw_state \<Rightarrow> fw_state) \<Rightarrow> mbx_world \<Rightarrow> mbx_world" where
  "upd_fw f w = w\<lparr>mw_fw := f (mw_fw w)\<rparr>"

definition put_mem :: "u64 \<Rightarrow> u32 list \<Rightarrow> mbx_world \<Rightarrow> mbx_world" where
  "put_mem a ws w = w\<lparr>mw_mem := (mw_mem w)(a := ws)\<rparr>"

definition login_tov :: "mbx_world \<Rightarrow> u32" where
  "login_tov w = ucast (login_timeout (mw_host w)) * 2 + ucast (login_timeout (mw_host w)) div 2"

definition id_reg :: "u32 \<Rightarrow> u16 \<Rightarrow> u16" where
  "id_reg dt loop = (if HAS_EXTENDED_IDS dt then loop else push_bit 8 loop)"

definition QLA_INVALID_COMMAND :: int where "QLA_INVALID_COMMAND = 1"
definition QLA_COMMAND_ERROR :: int where "QLA_COMMAND_ERROR = 5"
definition QLA_PARAMETER_ERROR :: int where "QLA_PARAMETER_ERROR = 6"
definition QLA_NOT_LOGGED_IN :: int where "QLA_NOT_LOGGED_IN = 10"
definition MBS_INVALID_COMMAND :: u16 where "MBS_INVALID_COMMAND = 0x4001"
definition MK_SYNC_ID_LUN :: u8 where "MK_SYNC_ID_LUN = 0"
definition MK_SYNC_ID :: u8 where "MK_SYNC_ID = 1"
definition FC_NO_LOOP_ID :: u16 where "FC_NO_LOOP_ID = 0x1000"

section \<open>Firmware\<close>

definition MBC_LOAD_RISC_RAM :: u16 where "MBC_LOAD_RISC_RAM = 9"
definition MBC_DUMP_RISC_RAM :: u16 where "MBC_DUMP_RISC_RAM = 0xa"
definition MBC_DUMP_RISC_RAM_EXTENDED :: u16 where "MBC_DUMP_RISC_RAM_EXTENDED = 0xc"
definition MBC_EXECUTE_FIRMWARE :: u16 where "MBC_EXECUTE_FIRMWARE = 2"

text \<open>Loading and dumping RAM differ in the command codes only.\<close>

definition ram_req :: "u16 \<Rightarrow> u16 \<Rightarrow> u32 \<Rightarrow> mbx_cmd \<Rightarrow> u64 \<Rightarrow> u32 \<Rightarrow> u32 \<Rightarrow> mbx_cmd" where
  "ram_req ext plain dt junk req_dma risc_addr sz =
     (let wide = MSW risc_addr \<noteq> 0 \<or> IS_FWI2_CAPABLE dt
      in mbx_req junk
        ((if wide then [(0, ext), (8, MSW risc_addr)] else [(0, plain)])
          @ (1, LSW risc_addr) # dma_regs req_dma
          @ (if IS_FWI2_CAPABLE dt then [(4, MSW sz), (5, LSW sz)] else [(4, LSW sz)]))
        ((if wide then [8, 0] else [0]) @ [7, 6, 3, 2, 1] @ (if IS_FWI2_CAPABLE dt then [5, 4] else [4]))
        [0] MBX_TOV_SECONDS 0)"

definition qla2x00_load_ram ::
    "mbx_issue \<Rightarrow> mbx_cmd \<Rightarrow> u64 \<Rightarrow> u32 \<Rightarrow> u32 \<Rightarrow> mbx_world \<Rightarrow> (int \<times> mbx_world) option" where
  "qla2x00_load_ram issue junk req_dma risc_addr sz w =
     mbx_status issue (ram_req MBC_LOAD_RISC_RAM_EXTENDED MBC_LOAD_RISC_RAM (mw_dt w) junk req_dma risc_addr sz) w"

definition qla2x00_dump_ram ::
    "mbx_issue \<Rightarrow> mbx_cmd \<Rightarrow> u64 \<Rightarrow> u32 \<Rightarrow> u32 \<Rightarrow> mbx_world \<Rightarrow> (int \<times> mbx_world) option" where
  "qla2x00_dump_ram issue junk req_dma addr sz w =
     mbx_status issue (ram_req MBC_DUMP_RISC_RAM_EXTENDED MBC_DUMP_RISC_RAM (mw_dt w) junk req_dma addr sz) w"

definition EXTENDED_BB_CREDITS :: u16 where "EXTENDED_BB_CREDITS = BIT 0"

definition qla2x00_execute_fw ::
    "mbx_issue \<Rightarrow> mbx_cmd \<Rightarrow> u32 \<Rightarrow> mbx_world \<Rightarrow> (int \<times> mbx_world) option" where
  "qla2x00_execute_fw issue junk risc_addr w =
     (let dt = mw_dt w;
          credits = (if IS_QLA25XX dt \<or> IS_QLA81XX dt \<or> IS_QLA83XX dt \<or> IS_QLA27XX dt
                     then nv_enhanced_features (mw_fw w) AND EXTENDED_BB_CREDITS else 0)
      in mbx_status issue
        (if IS_FWI2_CAPABLE dt
         then mbx_req junk [(0, MBC_EXECUTE_FIRMWARE), (1, MSW risc_addr), (2, LSW risc_addr), (3, 0), (4, credits)]
                [0, 4, 3, 2, 1] [0, 1] MBX_TOV_SECONDS 0
         else let old = (IS_QLA2322 dt \<or> IS_QLA6322 dt)
              in mbx_req junk ([(0, MBC_EXECUTE_FIRMWARE), (1, LSW risc_addr)] @ (if old then [(2, 0)] else []))
                   ([0, 1] @ (if old then [2] else [])) [0] MBX_TOV_SECONDS 0) w)"

definition MBC_GET_FIRMWARE_VERSION :: u16 where "MBC_GET_FIRMWARE_VERSION = 8"

definition note_version :: "u32 \<Rightarrow> mbx_cmd \<Rightarrow> fw_state \<Rightarrow> fw_state" where
  "note_version dt m f =
     (let r = mbx_reg m;
          f = f\<lparr>fw_major_version := r 1, fw_minor_version := r 2, fw_subminor_version := r 3,
                fw_attributes := r 6,
                fw_memory_size := (if IS_QLA2100 dt \<or> IS_QLA2200 dt then 0x1FFFF else or_words (r 5) (r 4))\<rparr>;
          f = (if IS_QLA81XX dt \<or> IS_QLA8031 dt \<or> IS_QLA8044 dt
               then f\<lparr>mpi_version := [LSB (r 10), MSB (r 11), LSB (r 11)],
                      mpi_capabilities := or_words (r 12) (r 13),
                      phy_version := [LSB (r 8), MSB (r 9), LSB (r 9)]\<rparr> else f);
          f = (if IS_FWI2_CAPABLE dt
               then f\<lparr>fw_attributes_h := r 15, fw_attributes_ext := [r 16, r 17]\<rparr> else f)
      in if IS_QLA27XX dt then f\<lparr>fw_shared_ram := (or_words (r 19) (r 18), or_words (r 21) (r 20))\<rparr> else f)"

definition qla2x00_get_fw_version :: "mbx_issue \<Rightarrow> mbx_cmd \<Rightarrow> mbx_world \<Rightarrow> (int \<times> mbx_world) option" where
  "qla2x00_get_fw_version issue junk w = do {
     let dt = mw_dt w;
     (rv, m, w) \<leftarrow> issue (mbx_req junk [(0, MBC_GET_FIRMWARE_VERSION)] [0]
        ([6, 5, 4, 3, 2, 1, 0]
          @ (if IS_QLA81XX dt \<or> IS_QLA8031 dt \<or> IS_QLA8044 dt then [13, 12, 11, 10, 9, 8] else [])
          @ (if IS_FWI2_CAPABLE dt then [17, 16, 15] else [])
          @ (if IS_QLA27XX dt then [21, 20, 19, 18] else [])) MBX_TOV_SECONDS 0) w;
     Some (rv, if rv = QLA_SUCCESS then upd_fw (note_version dt m) w else w) }"

definition MBC_GET_FIRMWARE_OPTION :: u16 where "MBC_GET_FIRMWARE_OPTION = 0x28"
definition MBC_SET_FIRMWARE_OPTION :: u16 where "MBC_SET_FIRMWARE_OPTION = 0x38"

definition qla2x00_get_fw_options ::
    "mbx_issue \<Rightarrow> mbx_cmd \<Rightarrow> u16 list \<Rightarrow> mbx_world \<Rightarrow> (int \<times> u16 list \<times> mbx_world) option" where
  "qla2x00_get_fw_options issue junk fwopts w = do {
     (rv, m, w) \<leftarrow> issue (mbx_req junk [(0, MBC_GET_FIRMWARE_OPTION)] [0] [3, 2, 1, 0] MBX_TOV_SECONDS 0) w;
     Some (rv, if rv = QLA_SUCCESS then map (mbx_reg m) [0, 1, 2, 3] @ drop 4 fwopts else fwopts, w) }"

definition qla2x00_set_fw_options ::
    "mbx_issue \<Rightarrow> mbx_cmd \<Rightarrow> u16 list \<Rightarrow> mbx_world \<Rightarrow> (int \<times> u16 list \<times> mbx_world) option" where
  "qla2x00_set_fw_options issue junk fwopts w = do {
     let fwi2 = IS_FWI2_CAPABLE (mw_dt w);
     (rv, m, w) \<leftarrow> issue (mbx_req junk
        ([(0, MBC_SET_FIRMWARE_OPTION), (1, fwopts ! 1), (2, fwopts ! 2), (3, fwopts ! 3)]
          @ (if fwi2 then [] else [(10, fwopts ! 10), (11, fwopts ! 11), (12, 0)]))
        ([3, 2, 1, 0] @ (if fwi2 then [] else [12, 11, 10])) (if fwi2 then [0, 1] else [0]) MBX_TOV_SECONDS 0) w;
     Some (rv, fwopts[0 := mbx_reg m 0], w) }"

definition MBC_MAILBOX_REGISTER_TEST :: u16 where "MBC_MAILBOX_REGISTER_TEST = 6"

definition reg_test_pattern :: "(nat \<times> u16) list" where
  "reg_test_pattern = [(1, 0xAAAA), (2, 0x5555), (3, 0xAA55), (4, 0x55AA), (5, 0xA5A5), (6, 0x5A5A), (7, 0x2525)]"

definition qla2x00_mbx_reg_test :: "mbx_issue \<Rightarrow> mbx_cmd \<Rightarrow> mbx_world \<Rightarrow> (int \<times> mbx_world) option" where
  "qla2x00_mbx_reg_test issue junk w = do {
     (rv, m, w) \<leftarrow> issue (mbx_req junk ((0, MBC_MAILBOX_REGISTER_TEST) # reg_test_pattern)
        [7, 6, 5, 4, 3, 2, 1, 0] [7, 6, 5, 4, 3, 2, 1, 0] MBX_TOV_SECONDS 0) w;
     Some (if rv = QLA_SUCCESS \<and> list_ex (\<lambda>(i, v). mbx_reg m i \<noteq> v) reg_test_pattern
           then QLA_FUNCTION_FAILED else rv, w) }"

definition MBC_VERIFY_CHECKSUM :: u16 where "MBC_VERIFY_CHECKSUM = 7"

definition qla2x00_verify_checksum ::
    "mbx_issue \<Rightarrow> mbx_cmd \<Rightarrow> u32 \<Rightarrow> mbx_world \<Rightarrow> (int \<times> mbx_world) option" where
  "qla2x00_verify_checksum issue junk risc_addr w =
     mbx_status issue
       (if IS_FWI2_CAPABLE (mw_dt w)
        then mbx_req junk [(0, MBC_VERIFY_CHECKSUM), (1, MSW risc_addr), (2, LSW risc_addr)] [0, 2, 1] [0, 2, 1]
               MBX_TOV_SECONDS 0
        else mbx_req junk [(0, MBC_VERIFY_CHECKSUM), (1, LSW risc_addr)] [0, 1] [0, 1] MBX_TOV_SECONDS 0) w"

section \<open>Entries through the mailbox\<close>

definition MBC_IOCB_COMMAND_A64 :: u16 where "MBC_IOCB_COMMAND_A64 = 0x54"

definition RF_MASK :: u8 where "RF_MASK = BIT 6 OR BIT 5 OR BIT 4 OR BIT 3 OR BIT 2 OR BIT 1"
definition RF_MASK_24XX :: u8 where "RF_MASK_24XX = BIT 5 OR BIT 4 OR BIT 3 OR BIT 2"

definition qla2x00_issue_iocb_timeout ::
    "mbx_issue \<Rightarrow> mbx_cmd \<Rightarrow> u64 \<Rightarrow> u32 \<Rightarrow> mbx_world \<Rightarrow> (int \<times> mbx_world) option" where
  "qla2x00_issue_iocb_timeout issue junk phys_addr tov w = do {
     let mask = (if IS_FWI2_CAPABLE (mw_dt w) then RF_MASK_24XX else RF_MASK);
     (rv, m, w) \<leftarrow> issue (mbx_req junk ([(0, MBC_IOCB_COMMAND_A64), (1, 0)] @ dma_regs phys_addr)
        [7, 6, 3, 2, 1, 0] [2, 0] tov 0) w;
     let buf = mw_mem w phys_addr;
     Some (rv, if rv = QLA_SUCCESS
               then put_mem phys_addr (put8 0 ENTRY_STATUS_OFF (get8 0 ENTRY_STATUS_OFF buf AND mask) buf) w
               else w) }"

definition qla2x00_issue_iocb :: "mbx_issue \<Rightarrow> mbx_cmd \<Rightarrow> u64 \<Rightarrow> mbx_world \<Rightarrow> (int \<times> mbx_world) option" where
  "qla2x00_issue_iocb issue junk phys_addr w = qla2x00_issue_iocb_timeout issue junk phys_addr MBX_TOV_SECONDS w"

section \<open>Aborts and resets\<close>

definition MBC_ABORT_COMMAND :: u16 where "MBC_ABORT_COMMAND = 0x15"
definition MBC_ABORT_TARGET :: u16 where "MBC_ABORT_TARGET = 0x17"
definition MBC_LUN_RESET :: u16 where "MBC_LUN_RESET = 0x7E"

text \<open>The scan for the handle of a command; None when it is not outstanding.\<close>

definition handle_of :: "sp_ptr \<Rightarrow> req_que \<Rightarrow> u32 option" where
  "handle_of sp q = map_option of_nat
     (find (\<lambda>h. outstanding_cmds q ! h = Some sp) [1..<unat (num_outstanding_cmds q)])"

definition qla2x00_abort_command ::
    "mbx_issue \<Rightarrow> mbx_cmd \<Rightarrow> sp_ptr \<Rightarrow> mbx_world \<Rightarrow> (int \<times> mbx_world) option" where
  "qla2x00_abort_command issue junk sp w =
     (let h = mw_host w; fc = fcport (srbs h sp)
      in case handle_of sp (get_req (vha_req h) h) of
           None \<Rightarrow> Some (QLA_FUNCTION_FAILED, w)
         | Some handle \<Rightarrow>
             mbx_status issue (mbx_req junk
               [(0, MBC_ABORT_COMMAND), (1, id_reg (mw_dt w) (loop_id fc)), (2, LSW handle), (3, MSW handle),
                (6, ucast (lun (cmd (srbs h sp))))] [6, 3, 2, 1, 0] [0] MBX_TOV_SECONDS 0) w)"

definition then_marker ::
    "kenv \<Rightarrow> u16 \<Rightarrow> u16 \<Rightarrow> u8 \<Rightarrow> int \<times> mbx_world \<Rightarrow> int \<times> mbx_world" where
  "then_marker k loop l type = (\<lambda>(rv, w).
     (rv, w\<lparr>mw_host := snd (qla2x00_marker k loop l type (mw_host w))\<rparr>))"

definition qla2x00_abort_target ::
    "mbx_issue \<Rightarrow> mbx_cmd \<Rightarrow> kenv \<Rightarrow> fc_port \<Rightarrow> mbx_world \<Rightarrow> (int \<times> mbx_world) option" where
  "qla2x00_abort_target issue junk k fc w =
     (let ext = HAS_EXTENDED_IDS (mw_dt w)
      in map_option (then_marker k (loop_id fc) 0 MK_SYNC_ID)
        (mbx_status issue (mbx_req junk
          ([(0, MBC_ABORT_TARGET), (1, id_reg (mw_dt w) (loop_id fc))] @ (if ext then [(10, 0)] else [])
            @ [(2, loop_reset_delay (mw_fw w)), (9, vp_idx (mw_host w))])
          ([9, 2, 1, 0] @ (if ext then [10] else [])) [0] MBX_TOV_SECONDS 0) w))"

definition qla2x00_lun_reset ::
    "mbx_issue \<Rightarrow> mbx_cmd \<Rightarrow> kenv \<Rightarrow> fc_port \<Rightarrow> u32 \<Rightarrow> mbx_world \<Rightarrow> (int \<times> mbx_world) option" where
  "qla2x00_lun_reset issue junk k fc l w =
     map_option (then_marker k (loop_id fc) (ucast l) MK_SYNC_ID_LUN)
       (mbx_status issue (mbx_req junk
         [(0, MBC_LUN_RESET), (1, id_reg (mw_dt w) (loop_id fc)), (2, ucast l), (3, 0), (9, vp_idx (mw_host w))]
         [9, 3, 2, 1, 0] [0] MBX_TOV_SECONDS 0) w)"

end
