(* ===== verification/Mbx_Port.thy ===== *)
theory Mbx_Port
  imports Mbx_Fw
begin

text \<open>
  Mailbox commands, second part (qla_mbx.c): the adapter's addresses, port data, loop and
  fabric logins, lists and statistics, and the requests that go through the mailbox as entries
  (24xx logins, aborts, task management).
\<close>

section \<open>The adapter\<close>

definition MBC_GET_ADAPTER_LOOP_ID :: u16 where "MBC_GET_ADAPTER_LOOP_ID = 0x20"

definition mac_of :: "mbx_cmd \<Rightarrow> u8 list" where
  "mac_of m = [LSB (mbx_reg m 13), MSB (mbx_reg m 13), LSB (mbx_reg m 12), MSB (mbx_reg m 12),
     LSB (mbx_reg m 11), MSB (mbx_reg m 11)]"

definition note_adapter :: "mbx_cmd \<Rightarrow> mbx_world \<Rightarrow> mbx_world" where
  "note_adapter m w =
     (let w = (if IS_CNA_CAPABLE (mw_dt w)
               then upd_fw (\<lambda>f. f\<lparr>fcoe_vlan_id := mbx_reg m 9 AND 0xfff, fcoe_fcf_idx := mbx_reg m 10,
                                 fcoe_vn_port_mac := mac_of m\<rparr>) w else w);
          name = concat (map (\<lambda>i. [MSB (mbx_reg m i), LSB (mbx_reg m i)]) [16, 17, 18, 19])
      in if mbx_reg m 7 AND BIT 14 \<noteq> 0
         then upd_fw (\<lambda>f. f\<lparr>fc_host_port_name := name\<rparr>)
                (w\<lparr>mw_host := (mw_host w)\<lparr>vha_port_name := name\<rparr>\<rparr>)
         else w)"

text \<open>The results: loop id, \<open>al_pa\<close>, area, domain, topology, switch capabilities.\<close>

definition qla2x00_get_adapter_id ::
    "mbx_issue \<Rightarrow> mbx_cmd \<Rightarrow> mbx_world
      \<Rightarrow> (int \<times> (u16 \<times> u8 \<times> u8 \<times> u8 \<times> u16 \<times> u16) \<times> mbx_world) option" where
  "qla2x00_get_adapter_id issue junk w = do {
     let dt = mw_dt w;
     (rv, m, w) \<leftarrow> issue (mbx_req junk [(0, MBC_GET_ADAPTER_LOOP_ID), (9, vp_idx (mw_host w))] [9, 0]
        ([9, 7, 6, 3, 2, 1, 0] @ (if IS_CNA_CAPABLE dt then [13, 12, 11, 10] else [])
          @ (if IS_FWI2_CAPABLE dt then [19, 18, 17, 16] else [])) MBX_TOV_SECONDS 0) w;
     let rv = (if mbx_reg m 0 = MBS_COMMAND_ERROR then QLA_COMMAND_ERROR
               else if mbx_reg m 0 = MBS_INVALID_COMMAND then QLA_INVALID_COMMAND else rv);
     Some (rv, (mbx_reg m 1, LSB (mbx_reg m 2), MSB (mbx_reg m 2), LSB (mbx_reg m 3), mbx_reg m 6, mbx_reg m 7),
       if rv = QLA_SUCCESS then note_adapter m w else w) }"

definition MBC_GET_RETRY_COUNT :: u16 where "MBC_GET_RETRY_COUNT = 0x22"

text \<open>In and out: retry count and timeout; \<open>r_a_tov\<close> is set in the host.\<close>

definition qla2x00_get_retry_cnt ::
    "mbx_issue \<Rightarrow> mbx_cmd \<Rightarrow> u8 \<Rightarrow> u8 \<Rightarrow> u16 \<Rightarrow> mbx_world \<Rightarrow> (int \<times> (u8 \<times> u8 \<times> u16) \<times> mbx_world) option" where
  "qla2x00_get_retry_cnt issue junk retry_cnt tov r_a w = do {
     (rv, m, w) \<leftarrow> issue (mbx_req junk [(0, MBC_GET_RETRY_COUNT)] [0] [3, 2, 1, 0] MBX_TOV_SECONDS 0) w;
     let ratov = mbx_reg m 3 div 2 div 10;
     Some (rv, if rv = QLA_SUCCESS
               then (if unat (mbx_reg m 1) * unat ratov > unat retry_cnt * unat tov
                     then (ucast (mbx_reg m 1), ucast ratov, mbx_reg m 3 div 2)
                     else (retry_cnt, tov, mbx_reg m 3 div 2))
               else (retry_cnt, tov, r_a), w) }"

definition MBC_INITIALIZE_FIRMWARE :: u16 where "MBC_INITIALIZE_FIRMWARE = 0x60"
definition MBC_MID_INITIALIZE_FIRMWARE :: u16 where "MBC_MID_INITIALIZE_FIRMWARE = 0x48"
definition EX_INIT_CB_SIZE :: u16 where "EX_INIT_CB_SIZE = 64"

definition qla2x00_init_firmware ::
    "mbx_issue \<Rightarrow> mbx_cmd \<Rightarrow> bool \<Rightarrow> mbx_world \<Rightarrow> (int \<times> mbx_world) option" where
  "qla2x00_init_firmware issue junk ql2xdbwr w =
     (let dt = mw_dt w; f = mw_fw w;
          w = (if IS_P3P_TYPE dt \<and> ql2xdbwr
               then w\<lparr>mw_host := (mw_host w)\<lparr>nxdb_wr := 0x04 OR push_bit 5 (ucast (portnum (mw_host w)))\<rparr>\<rparr> else w);
          ex = (case ex_init_cb f of Some (a, True) \<Rightarrow> Some a | _ \<Rightarrow> None)
      in mbx_status issue (mbx_req junk
        ([(0, if npiv_supported f then MBC_MID_INITIALIZE_FIRMWARE else MBC_INITIALIZE_FIRMWARE),
          (1, if ex = None then 0 else BIT 0)] @ dma_regs (init_cb_dma f)
          @ (case ex of None \<Rightarrow> []
             | Some a \<Rightarrow> [(10, MSW (LSD a)), (11, LSW (LSD a)), (12, MSW (MSD a)), (13, LSW (MSD a)),
                         (14, EX_INIT_CB_SIZE)]))
        ([7, 6, 3, 2, 1, 0] @ (if ex = None then [] else [14, 13, 12, 11, 10]))
        ([2, 1, 0] @ (if IS_QLA83XX dt \<or> IS_QLA27XX dt then [3] else [])) MBX_TOV_SECONDS MBX_DMA_OUT) w)"

definition MBC_GET_FIRMWARE_STATE :: u16 where "MBC_GET_FIRMWARE_STATE = 0x69"

definition qla2x00_get_firmware_state ::
    "mbx_issue \<Rightarrow> mbx_cmd \<Rightarrow> u16 list \<Rightarrow> mbx_world \<Rightarrow> (int \<times> u16 list \<times> mbx_world) option" where
  "qla2x00_get_firmware_state issue junk states w = do {
     let fwi2 = IS_FWI2_CAPABLE (mw_dt w);
     (rv, m, w) \<leftarrow> issue (mbx_req junk [(0, MBC_GET_FIRMWARE_STATE)] [0]
        (if fwi2 then [6, 5, 4, 3, 2, 1, 0] else [1, 0]) MBX_TOV_SECONDS 0) w;
     Some (rv, if fwi2 then map (mbx_reg m) [1, 2, 3, 4, 5, 6] else states[0 := mbx_reg m 1], w) }"

section \<open>Ports\<close>

record fc_rport = fc_port +
  rp_node_name :: "u8 list"
  rp_port_name :: "u8 list"
  rp_port_type :: nat
  rp_classes :: u32

definition MBC_ENHANCED_GET_PORT_DATABASE :: u16 where "MBC_ENHANCED_GET_PORT_DATABASE = 0x47"
definition PDS_PRLI_COMPLETE :: u8 where "PDS_PRLI_COMPLETE = 6"
definition PD_STATE_PORT_LOGGED_IN :: u8 where "PD_STATE_PORT_LOGGED_IN = 6"

definition mem_bytes :: "nat \<Rightarrow> nat \<Rightarrow> u32 list \<Rightarrow> u8 list" where
  "mem_bytes off n m = map (\<lambda>i. get8 0 (off + i) m) [0..<n]"

definition lost_midway :: "fc_rport \<Rightarrow> u8 list \<Rightarrow> bool" where
  "lost_midway fc name \<longleftrightarrow> loop_id fc = FC_NO_LOOP_ID
     \<or> rp_port_name fc \<noteq> replicate 8 0 \<and> rp_port_name fc \<noteq> name"

text \<open>What the firmware has stored in the port database buffer, in its two layouts.\<close>

definition read_pd24 :: "fc_rport \<Rightarrow> u32 list \<Rightarrow> int \<times> fc_rport" where
  "read_pd24 fc pd =
     (let name = mem_bytes 24 8 pd
      in if get8 0 2 pd \<noteq> PDS_PRLI_COMPLETE \<and> get8 0 3 pd \<noteq> PDS_PRLI_COMPLETE then (QLA_FUNCTION_FAILED, fc)
         else if lost_midway fc name then (QLA_NOT_LOGGED_IN, fc)
         else (QLA_SUCCESS, fc\<lparr>rp_node_name := mem_bytes 32 8 pd, rp_port_name := name,
                d_id_domain := get8 0 8 pd, d_id_area := get8 0 9 pd, d_id_al_pa := get8 0 10 pd,
                rp_port_type := (if get8 0 22 pd AND BIT 4 = 0 then FCT_INITIATOR else FCT_TARGET)\<rparr>))"

definition read_pd :: "fc_rport \<Rightarrow> u32 list \<Rightarrow> int \<times> fc_rport" where
  "read_pd fc pd =
     (let name = mem_bytes 20 8 pd
      in if get8 0 2 pd \<noteq> PD_STATE_PORT_LOGGED_IN \<and> get8 0 3 pd \<noteq> PD_STATE_PORT_LOGGED_IN
         then (QLA_FUNCTION_FAILED, fc)
         else if lost_midway fc name then (QLA_NOT_LOGGED_IN, fc)
         else (QLA_SUCCESS, fc\<lparr>rp_node_name := mem_bytes 12 8 pd, rp_port_name := name,
                d_id_domain := get8 0 8 pd, d_id_area := get8 0 11 pd, d_id_al_pa := get8 0 10 pd,
                rp_port_type := (if get8 0 78 pd AND BIT 4 = 0 then FCT_INITIATOR else FCT_TARGET),
                rp_classes := (if get8 0 0 pd AND BIT 4 \<noteq> 0 then FC_COS_CLASS2 else FC_COS_CLASS3)\<rparr>))"

text \<open>\<open>pool\<close> is the allocation of the buffer, which is cleared first.\<close>

definition qla2x00_get_port_database ::
    "mbx_issue \<Rightarrow> mbx_cmd \<Rightarrow> u64 option \<Rightarrow> fc_rport \<Rightarrow> u8 \<Rightarrow> mbx_world
      \<Rightarrow> (int \<times> fc_rport \<times> mbx_world) option" where
  "qla2x00_get_port_database issue junk pool fc opt w =
     (case pool of
        None \<Rightarrow> Some (QLA_MEMORY_ALLOC_FAILED, fc, w)
      | Some pd_dma \<Rightarrow> do {
          let dt = mw_dt w;
          let fwi2 = IS_FWI2_CAPABLE dt;
          (rv, m, w) \<leftarrow> issue (mbx_req junk
             ([(0, if opt \<noteq> 0 \<and> \<not> fwi2 then MBC_ENHANCED_GET_PORT_DATABASE else MBC_GET_PORT_DATABASE)]
               @ dma_regs pd_dma @ [(9, vp_idx (mw_host w))]
               @ (if fwi2 \<or> HAS_EXTENDED_IDS dt then [(1, loop_id fc), (10, ucast opt)]
                  else [(1, push_bit 8 (loop_id fc) OR ucast opt)]))
             ([9, 7, 6, 3, 2, 0] @ (if fwi2 \<or> HAS_EXTENDED_IDS dt then [10, 1] else [1]))
             ([0] @ (if fwi2 then [1] else [])) (login_tov w) MBX_DMA_IN) (put_mem pd_dma (replicate 32 0) w);
          let (rv, fc) = (if rv \<noteq> QLA_SUCCESS then (rv, fc)
             else if fwi2 then read_pd24 fc (mw_mem w pd_dma) else read_pd fc (mw_mem w pd_dma));
          Some (rv, fc, w) })"

definition MBC_GET_PORT_NAME :: u16 where "MBC_GET_PORT_NAME = 0x6a"

definition qla2x00_get_port_name ::
    "mbx_issue \<Rightarrow> mbx_cmd \<Rightarrow> u16 \<Rightarrow> u8 \<Rightarrow> mbx_world \<Rightarrow> (int \<times> u8 list option \<times> mbx_world) option" where
  "qla2x00_get_port_name issue junk loop opt w = do {
     let ext = HAS_EXTENDED_IDS (mw_dt w);
     (rv, m, w) \<leftarrow> issue (mbx_req junk
        ([(0, MBC_GET_PORT_NAME), (9, vp_idx (mw_host w))]
          @ (if ext then [(1, loop), (10, ucast opt)] else [(1, push_bit 8 loop OR ucast opt)]))
        ([9, 1, 0] @ (if ext then [10] else [])) [7, 6, 3, 2, 1, 0] MBX_TOV_SECONDS 0) w;
     Some (rv, if rv = QLA_SUCCESS
               then Some (concat (map (\<lambda>i. [MSB (mbx_reg m i), LSB (mbx_reg m i)]) [2, 3, 6, 7])) else None, w) }"

section \<open>The link\<close>

definition MBC_LINK_INITIALIZATION :: u16 where "MBC_LINK_INITIALIZATION = 0x72"
definition MBC_LIP_FULL_LOGIN :: u16 where "MBC_LIP_FULL_LOGIN = 0x72"
definition MBC_LIP_RESET :: u16 where "MBC_LIP_RESET = 0x6c"

definition qla24xx_link_initialize :: "mbx_issue \<Rightarrow> mbx_cmd \<Rightarrow> mbx_world \<Rightarrow> (int \<times> mbx_world) option" where
  "qla24xx_link_initialize issue junk w =
     (if \<not> IS_FWI2_CAPABLE (mw_dt w) \<or> IS_CNA_CAPABLE (mw_dt w) then Some (QLA_FUNCTION_FAILED, w)
      else mbx_status issue (mbx_req junk
        [(0, MBC_LINK_INITIALIZATION), (1, BIT 4 OR (if loop_mode (mw_fw w) then BIT 6 else BIT 5)), (2, 0), (3, 0)]
        [3, 2, 1, 0] [0] MBX_TOV_SECONDS 0) w)"

definition qla2x00_lip_reset :: "mbx_issue \<Rightarrow> mbx_cmd \<Rightarrow> mbx_world \<Rightarrow> (int \<times> mbx_world) option" where
  "qla2x00_lip_reset issue junk w =
     (let dt = mw_dt w; delay = loop_reset_delay (mw_fw w); ext = HAS_EXTENDED_IDS dt
      in mbx_status issue
        (if IS_CNA_CAPABLE dt
         then mbx_req junk [(0, MBC_LIP_FULL_LOGIN), (1, BIT 1), (2, 0)] [2, 1, 0] [0] MBX_TOV_SECONDS 0
         else if IS_FWI2_CAPABLE dt
         then mbx_req junk [(0, MBC_LIP_FULL_LOGIN), (1, BIT 6), (2, 0), (3, delay)] [3, 2, 1, 0] [0]
                MBX_TOV_SECONDS 0
         else mbx_req junk ([(0, MBC_LIP_RESET)] @ (if ext then [(1, 0x00ff), (10, 0)] else [(1, 0xff00)])
                @ [(2, delay), (3, 0)]) ([3, 2, 1, 0] @ (if ext then [10] else [])) [0] MBX_TOV_SECONDS 0) w)"

definition qla2x00_full_login_lip :: "mbx_issue \<Rightarrow> mbx_cmd \<Rightarrow> mbx_world \<Rightarrow> (int \<times> mbx_world) option" where
  "qla2x00_full_login_lip issue junk w =
     mbx_status issue (mbx_req junk
       [(0, MBC_LIP_FULL_LOGIN), (1, if IS_FWI2_CAPABLE (mw_dt w) then BIT 3 else 0), (2, 0), (3, 0)]
       [3, 2, 1, 0] [0] MBX_TOV_SECONDS 0) w"

definition MBC_SEND_SNS_COMMAND :: u16 where "MBC_SEND_SNS_COMMAND = 0x6e"

definition qla2x00_send_sns ::
    "mbx_issue \<Rightarrow> mbx_cmd \<Rightarrow> u64 \<Rightarrow> u16 \<Rightarrow> mbx_world \<Rightarrow> (int \<times> mbx_world) option" where
  "qla2x00_send_sns issue junk sns cmd_size w =
     mbx_status issue (mbx_req junk ([(0, MBC_SEND_SNS_COMMAND), (1, cmd_size)] @ dma_regs sns)
       [7, 6, 3, 2, 1, 0] [0, 1] (login_tov w) (MBX_DMA_OUT OR MBX_DMA_IN)) w"

end
