(* ===== verification/Mbx_Login.thy ===== *)
theory Mbx_Login
  imports Mbx_Port
begin

text \<open>
  Mailbox commands, third part (qla_mbx.c): logins and logouts, aborts and task management as
  entries that go through the mailbox, lists and statistics, virtual-port configuration.
  An entry is built in DMA memory at \<open>pool\<close>, the firmware answers in place.
\<close>

section \<open>Logins and logouts\<close>

definition LCF_FREE_NPORT :: u16 where "LCF_FREE_NPORT = BIT 7"

definition iocb_queue :: "bool \<Rightarrow> host \<Rightarrow> req_que" where
  "iocb_queue first h = (if first then get_req 0 h else get_req (vha_req h) h)"

definition logio_entry :: "u16 \<Rightarrow> u16 \<Rightarrow> u16 \<Rightarrow> fc_port \<Rightarrow> u16 \<Rightarrow> u32 list" where
  "logio_entry qid loop flags fc vp =
     (let m = replicate 16 0;
          m = put8 0 ENTRY_TYPE_OFF LOGINOUT_PORT_IOCB_TYPE m;
          m = put8 0 ENTRY_COUNT_OFF 1 m;
          m = put32 0 HANDLE_OFF (MAKE_HANDLE qid 0) m;
          m = put16 0 10 loop m;
          m = put16 0 12 flags m;
          m = put_port_id 0 16 fc m
      in put8 0 14 (ucast vp) m)"

definition io_parameter :: "nat \<Rightarrow> u32 list \<Rightarrow> u32" where
  "io_parameter i m = get32 0 (20 + 4 * i) m"

text \<open>The mailbox registers a login entry's answer is translated to.\<close>

definition login_result :: "u32 list \<Rightarrow> u16 list \<Rightarrow> int \<times> u16 list" where
  "login_result lg mb =
     (if get8 0 ENTRY_STATUS_OFF lg \<noteq> 0 then (QLA_FUNCTION_FAILED, mb)
      else if get16 0 8 lg \<noteq> CS_COMPLETE
      then (QLA_SUCCESS,
            if io_parameter 0 lg = LSC_SCODE_PORTID_USED
            then mb[0 := MBS_PORT_ID_USED, 1 := LSW (io_parameter 1 lg)]
            else if io_parameter 0 lg = LSC_SCODE_NPORT_USED then mb[0 := MBS_LOOP_ID_USED]
            else mb[0 := MBS_COMMAND_ERROR])
      else (QLA_SUCCESS,
            mb[0 := MBS_COMMAND_COMPLETE,
               1 := (if io_parameter 0 lg AND BIT 4 \<noteq> 0
                     then if io_parameter 0 lg AND BIT 8 \<noteq> 0 then BIT 1 else 0
                     else BIT 0),
               10 := (if io_parameter 7 lg \<noteq> 0 \<or> io_parameter 8 lg \<noteq> 0 then BIT 0 else 0)
                     OR (if io_parameter 9 lg \<noteq> 0 \<or> io_parameter 10 lg \<noteq> 0 then BIT 1 else 0)]))"

definition login_entry_tov :: "mbx_world \<Rightarrow> u32" where
  "login_entry_tov w = ucast (r_a_tov (mw_host w)) div 10 * 2 + 2"

definition qla24xx_login_fabric ::
    "mbx_issue \<Rightarrow> mbx_cmd \<Rightarrow> u64 option \<Rightarrow> u16 \<Rightarrow> fc_port \<Rightarrow> u16 list \<Rightarrow> u8 \<Rightarrow> mbx_world
      \<Rightarrow> (int \<times> u16 list \<times> mbx_world) option" where
  "qla24xx_login_fabric issue junk pool loop fc mb opt w =
     (case pool of
        None \<Rightarrow> Some (QLA_MEMORY_ALLOC_FAILED, mb, w)
      | Some lg_dma \<Rightarrow> do {
          let q = iocb_queue (cpu_affinity_enabled (mw_host w)) (mw_host w);
          let flags = LCF_COMMAND_PLOGI OR (if opt AND BIT 0 \<noteq> 0 then LCF_COND_PLOGI else 0)
                        OR (if opt AND BIT 1 \<noteq> 0 then LCF_SKIP_PRLI else 0);
          (rv, w) \<leftarrow> qla2x00_issue_iocb_timeout issue junk lg_dma (login_entry_tov w)
             (put_mem lg_dma (logio_entry (que_id q) loop flags fc (vp_idx (mw_host w))) w);
          let (rv, mb) = (if rv \<noteq> QLA_SUCCESS then (rv, mb) else login_result (mw_mem w lg_dma) mb);
          Some (rv, mb, w) })"

definition qla2x00_login_fabric ::
    "mbx_issue \<Rightarrow> mbx_cmd \<Rightarrow> u16 \<Rightarrow> fc_port \<Rightarrow> u16 list \<Rightarrow> u8 \<Rightarrow> mbx_world
      \<Rightarrow> (int \<times> u16 list \<times> mbx_world) option" where
  "qla2x00_login_fabric issue junk loop fc mb opt w = do {
     let ext = HAS_EXTENDED_IDS (mw_dt w);
     (rv, m, w) \<leftarrow> issue (mbx_req junk
        ([(0, MBC_LOGIN_FABRIC_PORT)]
          @ (if ext then [(1, loop), (10, ucast opt)] else [(1, push_bit 8 loop OR ucast opt)])
          @ [(2, ucast (d_id_domain fc)), (3, push_bit 8 (ucast (d_id_area fc)) OR ucast (d_id_al_pa fc))])
        ([3, 2, 1, 0] @ (if ext then [10] else [])) [7, 6, 2, 1, 0] (login_tov w) 0) w;
     Some (if rv \<noteq> QLA_SUCCESS \<and> mbx_reg m 0 \<in> {0x4001, 0x4002, 0x4003, 0x4005, 0x4006} then QLA_SUCCESS else rv,
       mb[0 := mbx_reg m 0, 1 := mbx_reg m 1, 2 := mbx_reg m 2, 6 := mbx_reg m 6, 7 := mbx_reg m 7, 10 := 0], w) }"

definition MBC_LOGIN_LOOP_PORT :: u16 where "MBC_LOGIN_LOOP_PORT = 0x74"

definition qla2x00_login_local_device ::
    "mbx_issue \<Rightarrow> mbx_cmd \<Rightarrow> u64 option \<Rightarrow> fc_port \<Rightarrow> u16 list \<Rightarrow> u8 \<Rightarrow> mbx_world
      \<Rightarrow> (int \<times> u16 list \<times> mbx_world) option" where
  "qla2x00_login_local_device issue junk pool fc mb opt w =
     (if IS_FWI2_CAPABLE (mw_dt w) then qla24xx_login_fabric issue junk pool (loop_id fc) fc mb opt w
      else do {
        (rv, m, w) \<leftarrow> issue (mbx_req junk
           [(0, MBC_LOGIN_LOOP_PORT), (1, id_reg (mw_dt w) (loop_id fc)), (2, ucast opt)]
           [2, 1, 0] [7, 6, 1, 0] (login_tov w) 0) w;
        Some (if rv \<noteq> QLA_SUCCESS \<and> mbx_reg m 0 \<in> {0x4005, 0x4006} then QLA_SUCCESS else rv,
          mb[0 := mbx_reg m 0, 1 := mbx_reg m 1, 6 := mbx_reg m 6, 7 := mbx_reg m 7], w) })"

definition qla24xx_fabric_logout ::
    "mbx_issue \<Rightarrow> mbx_cmd \<Rightarrow> u64 option \<Rightarrow> int \<Rightarrow> u16 \<Rightarrow> fc_port \<Rightarrow> mbx_world \<Rightarrow> (int \<times> mbx_world) option" where
  "qla24xx_fabric_logout issue junk pool ql2xmaxqueues loop fc w =
     (case pool of
        None \<Rightarrow> Some (QLA_MEMORY_ALLOC_FAILED, w)
      | Some lg_dma \<Rightarrow> do {
          let q = iocb_queue (ql2xmaxqueues > 1) (mw_host w);
          let flags = LCF_COMMAND_LOGO OR LCF_IMPL_LOGO OR LCF_FREE_NPORT;
          (rv, w) \<leftarrow> qla2x00_issue_iocb_timeout issue junk lg_dma (login_entry_tov w)
             (put_mem lg_dma (logio_entry (que_id q) loop flags fc (vp_idx (mw_host w))) w);
          Some (if rv = QLA_SUCCESS \<and> get8 0 ENTRY_STATUS_OFF (mw_mem w lg_dma) \<noteq> 0
                then QLA_FUNCTION_FAILED else rv, w) })"

definition qla2x00_fabric_logout ::
    "mbx_issue \<Rightarrow> mbx_cmd \<Rightarrow> u16 \<Rightarrow> mbx_world \<Rightarrow> (int \<times> mbx_world) option" where
  "qla2x00_fabric_logout issue junk loop w =
     (let ext = HAS_EXTENDED_IDS (mw_dt w)
      in mbx_status issue (mbx_req junk
        ([(0, MBC_LOGOUT_FABRIC_PORT), (1, id_reg (mw_dt w) loop)] @ (if ext then [(10, 0)] else []))
        ([1, 0] @ (if ext then [10] else [])) [1, 0] MBX_TOV_SECONDS 0) w)"

definition MBC_PORT_LOGOUT :: u16 where "MBC_PORT_LOGOUT = 0x56"

definition qla2x00_port_logout ::
    "mbx_issue \<Rightarrow> mbx_cmd \<Rightarrow> fc_port \<Rightarrow> mbx_world \<Rightarrow> (int \<times> mbx_world) option" where
  "qla2x00_port_logout issue junk fc w =
     (if IS_QLA2100 (mw_dt w) \<or> IS_QLA2200 (mw_dt w) then Some (QLA_FUNCTION_FAILED, w)
      else mbx_status issue (mbx_req junk [(0, MBC_PORT_LOGOUT), (1, loop_id fc), (10, BIT 15)] [10, 1, 0] [0]
             MBX_TOV_SECONDS 0) w)"

section \<open>Aborts and task management of the 24xx\<close>

definition CS_IOCB_ERROR :: u16 where "CS_IOCB_ERROR = 0x31"
definition TCF_TARGET_RESET :: u32 where "TCF_TARGET_RESET = BIT 1"

definition abort_entry :: "u16 \<Rightarrow> u32 \<Rightarrow> fc_port \<Rightarrow> u16 \<Rightarrow> u32 list" where
  "abort_entry qid handle fc vp =
     (let m = replicate 16 0;
          m = put8 0 ENTRY_TYPE_OFF ABORT_IOCB_TYPE m;
          m = put8 0 ENTRY_COUNT_OFF 1 m;
          m = put32 0 HANDLE_OFF (MAKE_HANDLE qid 0) m;
          m = put16 0 8 (loop_id fc) m;
          m = put32 0 12 (MAKE_HANDLE qid handle) m;
          m = put_port_id 0 48 fc m;
          m = put8 0 51 (ucast vp) m
      in put16 0 16 qid m)"

text \<open>\<open>async\<close> is \<open>qla24xx_async_abort_command\<close>, taken when \<open>ql2xasynctmfenable\<close> is set.\<close>

definition qla24xx_abort_command ::
    "mbx_issue \<Rightarrow> mbx_cmd \<Rightarrow> u64 option \<Rightarrow> (mbx_world \<Rightarrow> (int \<times> mbx_world) option) option \<Rightarrow> sp_ptr \<Rightarrow> mbx_world
      \<Rightarrow> (int \<times> mbx_world) option" where
  "qla24xx_abort_command issue junk pool async sp w =
     (case async of Some f \<Rightarrow> f w | None \<Rightarrow>
       (let h = mw_host w; q = get_req (vha_req h) h; fc = fcport (srbs h sp)
        in case handle_of sp q of
             None \<Rightarrow> Some (QLA_FUNCTION_FAILED, w)
           | Some handle \<Rightarrow>
             (case pool of
                None \<Rightarrow> Some (QLA_MEMORY_ALLOC_FAILED, w)
              | Some abt_dma \<Rightarrow> do {
                  (rv, w) \<leftarrow> qla2x00_issue_iocb issue junk abt_dma
                     (put_mem abt_dma (abort_entry (que_id q) handle fc (vp_idx h)) w);
                  let abt = mw_mem w abt_dma;
                  Some (if rv \<noteq> QLA_SUCCESS then rv
                        else if get8 0 ENTRY_STATUS_OFF abt \<noteq> 0 then QLA_FUNCTION_FAILED
                        else if get16 0 8 abt \<noteq> 0
                        then if get16 0 8 abt = CS_IOCB_ERROR then QLA_FUNCTION_PARAMETER_ERROR
                             else QLA_FUNCTION_FAILED
                        else QLA_SUCCESS, w) })))"

definition tsk_mgmt_entry :: "kenv \<Rightarrow> u16 \<Rightarrow> u16 \<Rightarrow> u32 \<Rightarrow> fc_port \<Rightarrow> u32 \<Rightarrow> u16 \<Rightarrow> u32 list" where
  "tsk_mgmt_entry k qid ratov type fc l vp =
     (let m = replicate 16 0;
          m = put8 0 ENTRY_TYPE_OFF TSK_MGMT_IOCB_TYPE m;
          m = put8 0 ENTRY_COUNT_OFF 1 m;
          m = put32 0 HANDLE_OFF (MAKE_HANDLE qid 0) m;
          m = put16 0 8 (loop_id fc) m;
          m = put16 0 14 (ratov div 10 * 2) m;
          m = put32 0 24 type m;
          m = put_port_id 0 48 fc m;
          m = put8 0 51 (ucast vp) m
      in if type = TCF_LUN_RESET then host_to_fcp_swap 4 2 (put_bytes 0 16 (int_to_scsilun k l) m) else m)"

text \<open>The status entry that comes back in place.\<close>

definition tmf_result :: "u32 list \<Rightarrow> int" where
  "tmf_result sts =
     (if get8 0 ENTRY_STATUS_OFF sts \<noteq> 0 then QLA_FUNCTION_FAILED
      else if get16 0 8 sts \<noteq> CS_COMPLETE then QLA_FUNCTION_FAILED
      else if get16 0 22 sts AND SS_RESPONSE_INFO_LEN_VALID \<noteq> 0
              \<and> \<not> get32 0 32 sts < 4 \<and> get8 0 39 sts \<noteq> 0 then QLA_FUNCTION_FAILED
      else QLA_SUCCESS)"

definition qla24xx_issue_tmf ::
    "mbx_issue \<Rightarrow> mbx_cmd \<Rightarrow> kenv \<Rightarrow> u64 option \<Rightarrow> u32 \<Rightarrow> fc_port \<Rightarrow> u32 \<Rightarrow> mbx_world
      \<Rightarrow> (int \<times> mbx_world) option" where
  "qla24xx_issue_tmf issue junk k pool type fc l w =
     (case pool of
        None \<Rightarrow> Some (QLA_MEMORY_ALLOC_FAILED, w)
      | Some tsk_dma \<Rightarrow> do {
          let h = mw_host w;
          let q = get_req (vha_req h) h;
          (rv, w) \<leftarrow> qla2x00_issue_iocb issue junk tsk_dma
             (put_mem tsk_dma (tsk_mgmt_entry k (que_id q) (r_a_tov h) type fc l (vp_idx h)) w);
          let rv = (if rv \<noteq> QLA_SUCCESS then rv else tmf_result (mw_mem w tsk_dma));
          Some (then_marker k (loop_id fc) (ucast l)
                  (if type = TCF_LUN_RESET then MK_SYNC_ID_LUN else MK_SYNC_ID) (rv, w)) })"

definition qla24xx_abort_target ::
    "mbx_issue \<Rightarrow> mbx_cmd \<Rightarrow> kenv \<Rightarrow> u64 option \<Rightarrow> (mbx_world \<Rightarrow> (int \<times> mbx_world) option) option
      \<Rightarrow> fc_port \<Rightarrow> u32 \<Rightarrow> mbx_world \<Rightarrow> (int \<times> mbx_world) option" where
  "qla24xx_abort_target issue junk k pool async fc l w =
     (case async of
        Some f \<Rightarrow> if IS_FWI2_CAPABLE (mw_dt w) then f w
                 else qla24xx_issue_tmf issue junk k pool TCF_TARGET_RESET fc l w
      | None \<Rightarrow> qla24xx_issue_tmf issue junk k pool TCF_TARGET_RESET fc l w)"

definition qla24xx_lun_reset ::
    "mbx_issue \<Rightarrow> mbx_cmd \<Rightarrow> kenv \<Rightarrow> u64 option \<Rightarrow> (mbx_world \<Rightarrow> (int \<times> mbx_world) option) option
      \<Rightarrow> fc_port \<Rightarrow> u32 \<Rightarrow> mbx_world \<Rightarrow> (int \<times> mbx_world) option" where
  "qla24xx_lun_reset issue junk k pool async fc l w =
     (case async of
        Some f \<Rightarrow> if IS_FWI2_CAPABLE (mw_dt w) then f w
                 else qla24xx_issue_tmf issue junk k pool TCF_LUN_RESET fc l w
      | None \<Rightarrow> qla24xx_issue_tmf issue junk k pool TCF_LUN_RESET fc l w)"

section \<open>Lists and statistics\<close>

definition MBC_GET_ID_LIST :: u16 where "MBC_GET_ID_LIST = 0x7C"

definition qla2x00_get_id_list ::
    "mbx_issue \<Rightarrow> mbx_cmd \<Rightarrow> u64 option \<Rightarrow> mbx_world \<Rightarrow> (int \<times> u16 option \<times> mbx_world) option" where
  "qla2x00_get_id_list issue junk id_list w =
     (case id_list of
        None \<Rightarrow> Some (QLA_FUNCTION_FAILED, None, w)
      | Some a \<Rightarrow> do {
          (rv, m, w) \<leftarrow> issue
            (if IS_FWI2_CAPABLE (mw_dt w)
             then mbx_req junk ([(0, MBC_GET_ID_LIST)] @ dma_regs a @ [(8, 0), (9, vp_idx (mw_host w))])
                    [0, 9, 8, 7, 6, 3, 2] [1, 0] MBX_TOV_SECONDS 0
             else mbx_req junk [(0, MBC_GET_ID_LIST), (1, MSW (LSD a)), (2, LSW (LSD a)), (3, MSW (MSD a)), (6, LSW (MSD a))]
                    [0, 6, 3, 2, 1] [1, 0] MBX_TOV_SECONDS 0) w;
          Some (rv, if rv = QLA_SUCCESS then Some (mbx_reg m 1) else None, w) })"

definition MBC_GET_RESOURCE_COUNTS :: u16 where "MBC_GET_RESOURCE_COUNTS = 0x42"

text \<open>Exchanges (current, original), IOCBs (current, original), vports and FCFs at most.\<close>

definition qla2x00_get_resource_cnts ::
    "mbx_issue \<Rightarrow> mbx_cmd \<Rightarrow> mbx_world
      \<Rightarrow> (int \<times> (u16 \<times> u16 \<times> u16 \<times> u16 \<times> u16 option \<times> u16 option) option \<times> mbx_world) option" where
  "qla2x00_get_resource_cnts issue junk w = do {
     let dt = mw_dt w;
     (rv, m, w) \<leftarrow> issue (mbx_req junk [(0, MBC_GET_RESOURCE_COUNTS)] [0]
        ([11, 10, 7, 6, 3, 2, 1, 0] @ (if IS_QLA81XX dt \<or> IS_QLA83XX dt \<or> IS_QLA27XX dt then [12] else []))
        MBX_TOV_SECONDS 0) w;
     Some (rv, if rv \<noteq> QLA_SUCCESS then None
               else Some (mbx_reg m 3, mbx_reg m 6, mbx_reg m 7, mbx_reg m 10,
                      if npiv_supported (mw_fw w) then Some (mbx_reg m 11) else None,
                      if IS_QLA81XX dt \<or> IS_QLA83XX dt then Some (mbx_reg m 12) else None), w) }"

definition MBC_GET_FC_AL_POSITION_MAP :: u16 where "MBC_GET_FC_AL_POSITION_MAP = 0x63"

definition qla2x00_get_fcal_position_map ::
    "mbx_issue \<Rightarrow> mbx_cmd \<Rightarrow> u64 option \<Rightarrow> mbx_world \<Rightarrow> (int \<times> u8 list option \<times> mbx_world) option" where
  "qla2x00_get_fcal_position_map issue junk pool w =
     (case pool of
        None \<Rightarrow> Some (QLA_MEMORY_ALLOC_FAILED, None, w)
      | Some a \<Rightarrow> do {
          (rv, w) \<leftarrow> mbx_status issue (mbx_req junk ([(0, MBC_GET_FC_AL_POSITION_MAP)] @ dma_regs a)
             [7, 6, 3, 2, 0] [1, 0] (login_tov w) MBX_DMA_IN) (put_mem a (replicate 32 0) w);
          Some (rv, if rv = QLA_SUCCESS then Some (mem_bytes 0 128 (mw_mem w a)) else None, w) })"

definition MBC_GET_LINK_STATUS :: u16 where "MBC_GET_LINK_STATUS = 0x6b"
definition MBC_GET_LINK_PRIV_STATS :: u16 where "MBC_GET_LINK_PRIV_STATS = 0x6d"
definition LINK_STATS_WORDS :: nat where "LINK_STATS_WORDS = 39"

text \<open>The statistics are left in the buffer; the conversion from little-endian changes no word.\<close>

definition stats_status :: "int \<times> mbx_cmd \<times> mbx_world \<Rightarrow> int \<times> mbx_world" where
  "stats_status = (\<lambda>(rv, m, w).
     (if rv = QLA_SUCCESS \<and> mbx_reg m 0 \<noteq> MBS_COMMAND_COMPLETE then QLA_FUNCTION_FAILED else rv, w))"

definition qla2x00_get_link_status ::
    "mbx_issue \<Rightarrow> mbx_cmd \<Rightarrow> u16 \<Rightarrow> u64 \<Rightarrow> mbx_world \<Rightarrow> (int \<times> mbx_world) option" where
  "qla2x00_get_link_status issue junk loop stats_dma w =
     (let fwi2 = IS_FWI2_CAPABLE (mw_dt w); ext = HAS_EXTENDED_IDS (mw_dt w)
      in map_option stats_status (issue (mbx_req junk
        ([(0, MBC_GET_LINK_STATUS)] @ dma_regs stats_dma
          @ (if fwi2 then [(1, loop), (4, 0), (10, 0)]
             else if ext then [(1, loop), (10, 0)] else [(1, push_bit 8 loop)]))
        ([7, 6, 3, 2, 0] @ (if fwi2 then [10, 4, 1] else if ext then [10, 1] else [1]))
        ([0] @ (if fwi2 then [1] else [])) MBX_TOV_SECONDS IOCTL_CMD) w))"

definition qla24xx_get_isp_stats ::
    "mbx_issue \<Rightarrow> mbx_cmd \<Rightarrow> u64 \<Rightarrow> mbx_world \<Rightarrow> (int \<times> mbx_world) option" where
  "qla24xx_get_isp_stats issue junk stats_dma w =
     map_option stats_status (issue (mbx_req junk
       ([(0, MBC_GET_LINK_PRIV_STATS)] @ dma_regs stats_dma
         @ [(8, of_nat LINK_STATS_WORDS), (9, vp_idx (mw_host w)), (10, 0)])
       [10, 9, 8, 7, 6, 3, 2, 0] [2, 1, 0] MBX_TOV_SECONDS IOCTL_CMD) w)"

end
