(* ===== verification/Mbx_Adapter.thy ===== *)
theory Mbx_Adapter
  imports Mbx_Login
begin

text \<open>
  Mailbox commands, fourth part (qla_mbx.c): traces, diagnostics, transceivers, queue set-up,
  flash access control, driver version, minidump templates and LED configuration.
\<close>

section \<open>Plain commands\<close>

text \<open>A command that is refused unless the adapter supports it.\<close>

definition guarded :: "bool \<Rightarrow> mbx_world \<Rightarrow> (int \<times> mbx_world) option \<Rightarrow> (int \<times> mbx_world) option" where
  "guarded ok w r = (if ok then r else Some (QLA_FUNCTION_FAILED, w))"

definition qla2x00_system_error :: "mbx_issue \<Rightarrow> mbx_cmd \<Rightarrow> mbx_world \<Rightarrow> (int \<times> mbx_world) option" where
  "qla2x00_system_error issue junk w =
     guarded (IS_QLA23XX (mw_dt w) \<or> IS_FWI2_CAPABLE (mw_dt w)) w
       (mbx_status issue (mbx_req junk [(0, MBC_GEN_SYSTEM_ERROR)] [0] [0] 5 0) w)"

definition MBC_WRITE_SERDES :: u16 where "MBC_WRITE_SERDES = 3"
definition MBC_READ_SERDES :: u16 where "MBC_READ_SERDES = 4"
definition MBC_SET_GET_ETH_SERDES_REG :: u16 where "MBC_SET_GET_ETH_SERDES_REG = 0x150"
definition MBC_SERDES_PARAMS :: u16 where "MBC_SERDES_PARAMS = 0x10"

definition qla2x00_write_serdes_word ::
    "mbx_issue \<Rightarrow> mbx_cmd \<Rightarrow> u16 \<Rightarrow> u16 \<Rightarrow> mbx_world \<Rightarrow> (int \<times> mbx_world) option" where
  "qla2x00_write_serdes_word issue junk addr d w =
     guarded (IS_QLA2031 (mw_dt w)) w
       (mbx_status issue (mbx_req junk [(0, MBC_WRITE_SERDES), (1, addr), (2, d AND 0xff), (3, 0)]
          [3, 2, 1, 0] [0] MBX_TOV_SECONDS 0) w)"

definition qla2x00_read_serdes_word ::
    "mbx_issue \<Rightarrow> mbx_cmd \<Rightarrow> u16 \<Rightarrow> mbx_world \<Rightarrow> (int \<times> u16 option \<times> mbx_world) option" where
  "qla2x00_read_serdes_word issue junk addr w =
     (if \<not> IS_QLA2031 (mw_dt w) then Some (QLA_FUNCTION_FAILED, None, w)
      else do {
        (rv, m, w) \<leftarrow> issue (mbx_req junk [(0, MBC_READ_SERDES), (1, addr), (3, 0)] [3, 1, 0] [1, 0]
           MBX_TOV_SECONDS 0) w;
        Some (rv, Some (mbx_reg m 1 AND 0xff), w) })"

definition qla8044_write_serdes_word ::
    "mbx_issue \<Rightarrow> mbx_cmd \<Rightarrow> u32 \<Rightarrow> u32 \<Rightarrow> mbx_world \<Rightarrow> (int \<times> mbx_world) option" where
  "qla8044_write_serdes_word issue junk addr d w =
     guarded (IS_QLA8044 (mw_dt w)) w
       (mbx_status issue (mbx_req junk [(0, MBC_SET_GET_ETH_SERDES_REG), (1, 3), (3, LSW addr), (4, MSW addr),
          (5, LSW d), (6, MSW d)] [6, 5, 4, 3, 1, 0] [0] MBX_TOV_SECONDS 0) w)"

definition qla8044_read_serdes_word ::
    "mbx_issue \<Rightarrow> mbx_cmd \<Rightarrow> u32 \<Rightarrow> mbx_world \<Rightarrow> (int \<times> u32 option \<times> mbx_world) option" where
  "qla8044_read_serdes_word issue junk addr w =
     (if \<not> IS_QLA8044 (mw_dt w) then Some (QLA_FUNCTION_FAILED, None, w)
      else do {
        (rv, m, w) \<leftarrow> issue (mbx_req junk [(0, MBC_SET_GET_ETH_SERDES_REG), (1, 4), (3, LSW addr), (4, MSW addr)]
           [4, 3, 1, 0] [2, 1, 0] MBX_TOV_SECONDS 0) w;
        Some (rv, Some (or_words (mbx_reg m 2) (mbx_reg m 1)), w) })"

definition qla2x00_set_serdes_params ::
    "mbx_issue \<Rightarrow> mbx_cmd \<Rightarrow> u16 \<Rightarrow> u16 \<Rightarrow> u16 \<Rightarrow> mbx_world \<Rightarrow> (int \<times> mbx_world) option" where
  "qla2x00_set_serdes_params issue junk sw1 sw2 sw4 w =
     mbx_status issue (mbx_req junk [(0, MBC_SERDES_PARAMS), (1, BIT 0), (2, sw1 OR BIT 15), (3, sw2 OR BIT 15),
       (4, sw4 OR BIT 15)] [4, 3, 2, 1, 0] [0] MBX_TOV_SECONDS 0) w"

definition MBC_STOP_FIRMWARE :: u16 where "MBC_STOP_FIRMWARE = 0x14"

definition qla2x00_stop_firmware :: "mbx_issue \<Rightarrow> mbx_cmd \<Rightarrow> mbx_world \<Rightarrow> (int \<times> mbx_world) option" where
  "qla2x00_stop_firmware issue junk w =
     guarded (IS_FWI2_CAPABLE (mw_dt w)) w (do {
       (rv, m, w) \<leftarrow> issue (mbx_req junk [(0, MBC_STOP_FIRMWARE), (1, 0)] [1, 0] [0] 5 0) w;
       Some (if rv \<noteq> QLA_SUCCESS \<and> mbx_reg m 0 = MBS_INVALID_COMMAND then QLA_INVALID_COMMAND else rv, w) })"

section \<open>Traces\<close>

definition MBC_TRACE_CONTROL :: u16 where "MBC_TRACE_CONTROL = 0x27"
definition TC_EFT_ENABLE :: u16 where "TC_EFT_ENABLE = 4"
definition TC_EFT_DISABLE :: u16 where "TC_EFT_DISABLE = 5"
definition TC_FCE_ENABLE :: u16 where "TC_FCE_ENABLE = 8"
definition TC_FCE_DISABLE :: u16 where "TC_FCE_DISABLE = 9"
definition TC_FCE_DISABLE_TRACE :: u16 where "TC_FCE_DISABLE_TRACE = BIT 0"
definition TC_FCE_DEFAULT_SIZE :: u16 where "TC_FCE_DEFAULT_SIZE = 2112"

definition trace_buffer :: "u16 \<Rightarrow> u64 \<Rightarrow> u16 \<Rightarrow> (nat \<times> u16) list" where
  "trace_buffer op a buffers =
     [(0, MBC_TRACE_CONTROL), (1, op), (2, LSW (LSD a)), (3, MSW (LSD a)), (4, LSW (MSD a)), (5, MSW (MSD a)),
      (6, buffers), (7, 0)]"

definition qla2x00_enable_eft_trace ::
    "mbx_issue \<Rightarrow> mbx_cmd \<Rightarrow> u64 \<Rightarrow> u16 \<Rightarrow> mbx_world \<Rightarrow> (int \<times> mbx_world) option" where
  "qla2x00_enable_eft_trace issue junk eft_dma buffers w =
     guarded (IS_FWI2_CAPABLE (mw_dt w) \<and> \<not> pci_offline (mw_fw w)) w
       (mbx_status issue (mbx_req junk (trace_buffer TC_EFT_ENABLE eft_dma buffers)
          [7, 6, 5, 4, 3, 2, 1, 0] [1, 0] MBX_TOV_SECONDS 0) w)"

definition qla2x00_disable_eft_trace :: "mbx_issue \<Rightarrow> mbx_cmd \<Rightarrow> mbx_world \<Rightarrow> (int \<times> mbx_world) option" where
  "qla2x00_disable_eft_trace issue junk w =
     guarded (IS_FWI2_CAPABLE (mw_dt w) \<and> \<not> pci_offline (mw_fw w)) w
       (mbx_status issue (mbx_req junk [(0, MBC_TRACE_CONTROL), (1, TC_EFT_DISABLE)] [1, 0] [1, 0]
          MBX_TOV_SECONDS 0) w)"

text \<open>The results: the first eight registers and the size.\<close>

definition qla2x00_enable_fce_trace ::
    "mbx_issue \<Rightarrow> mbx_cmd \<Rightarrow> u64 \<Rightarrow> u16 \<Rightarrow> mbx_world \<Rightarrow> (int \<times> (u16 list \<times> u32) option \<times> mbx_world) option" where
  "qla2x00_enable_fce_trace issue junk fce_dma buffers w =
     (let dt = mw_dt w
      in if \<not> (IS_QLA25XX dt \<or> IS_QLA81XX dt \<or> IS_QLA83XX dt \<or> IS_QLA27XX dt) \<or> pci_offline (mw_fw w)
         then Some (QLA_FUNCTION_FAILED, None, w)
         else do {
           (rv, m, w) \<leftarrow> issue (mbx_req junk (trace_buffer TC_FCE_ENABLE fce_dma buffers
                @ [(8, 0), (9, TC_FCE_DEFAULT_SIZE), (10, TC_FCE_DEFAULT_SIZE)])
              [10, 9, 8, 7, 6, 5, 4, 3, 2, 1, 0] [6, 5, 4, 3, 2, 1, 0] MBX_TOV_SECONDS 0) w;
           Some (rv, if rv = QLA_SUCCESS then Some (map (mbx_reg m) [0..<8], ucast buffers) else None, w) })"

definition four_words :: "u16 \<Rightarrow> u16 \<Rightarrow> u16 \<Rightarrow> u16 \<Rightarrow> u64" where
  "four_words a b c d = push_bit 48 (ucast a) OR push_bit 32 (ucast b) OR push_bit 16 (ucast c) OR ucast d"

definition qla2x00_disable_fce_trace ::
    "mbx_issue \<Rightarrow> mbx_cmd \<Rightarrow> mbx_world \<Rightarrow> (int \<times> (u64 \<times> u64) option \<times> mbx_world) option" where
  "qla2x00_disable_fce_trace issue junk w =
     (if \<not> IS_FWI2_CAPABLE (mw_dt w) \<or> pci_offline (mw_fw w) then Some (QLA_FUNCTION_FAILED, None, w)
      else do {
        (rv, m, w) \<leftarrow> issue (mbx_req junk [(0, MBC_TRACE_CONTROL), (1, TC_FCE_DISABLE), (2, TC_FCE_DISABLE_TRACE)]
           [2, 1, 0] [9, 8, 7, 6, 5, 4, 3, 2, 1, 0] MBX_TOV_SECONDS 0) w;
        let r = mbx_reg m;
        Some (rv, if rv = QLA_SUCCESS
                  then Some (four_words (r 5) (r 4) (r 3) (r 2), four_words (r 9) (r 8) (r 7) (r 6)) else None, w) })"

section \<open>Port parameters\<close>

definition MBC_PORT_PARAMS :: u16 where "MBC_PORT_PARAMS = 0x1A"

text \<open>The results: registers 0, 1 and 3, which \<open>mb\<close> receives in any case; the speed is register 3.\<close>

definition idma_result :: "int \<times> mbx_cmd \<times> mbx_world \<Rightarrow> int \<times> (u16 \<times> u16 \<times> u16) option \<times> mbx_world" where
  "idma_result = (\<lambda>(rv, m, w). (rv, Some (mbx_reg m 0, mbx_reg m 1, mbx_reg m 3), w))"

definition qla2x00_get_idma_speed ::
    "mbx_issue \<Rightarrow> mbx_cmd \<Rightarrow> u16 \<Rightarrow> mbx_world \<Rightarrow> (int \<times> (u16 \<times> u16 \<times> u16) option \<times> mbx_world) option" where
  "qla2x00_get_idma_speed issue junk loop w =
     (if \<not> IS_IIDMA_CAPABLE (mw_dt w) then Some (QLA_FUNCTION_FAILED, None, w)
      else map_option idma_result (issue (mbx_req junk
        [(0, MBC_PORT_PARAMS), (1, loop), (2, 0), (3, 0), (9, vp_idx (mw_host w))]
        [9, 3, 2, 1, 0] [3, 1, 0] MBX_TOV_SECONDS 0) w))"

definition qla2x00_set_idma_speed ::
    "mbx_issue \<Rightarrow> mbx_cmd \<Rightarrow> u16 \<Rightarrow> u16 \<Rightarrow> mbx_world \<Rightarrow> (int \<times> (u16 \<times> u16 \<times> u16) option \<times> mbx_world) option" where
  "qla2x00_set_idma_speed issue junk loop speed w =
     (if \<not> IS_IIDMA_CAPABLE (mw_dt w) then Some (QLA_FUNCTION_FAILED, None, w)
      else map_option idma_result (issue (mbx_req junk
        [(0, MBC_PORT_PARAMS), (1, loop), (2, BIT 0), (3, speed AND (if IS_CNA_CAPABLE (mw_dt w) then 0x3f else 7)),
         (9, vp_idx (mw_host w))] [9, 3, 2, 1, 0] [3, 1, 0] MBX_TOV_SECONDS 0) w))"

definition qla24xx_set_fcp_prio ::
    "mbx_issue \<Rightarrow> mbx_cmd \<Rightarrow> u16 \<Rightarrow> u16 \<Rightarrow> mbx_world \<Rightarrow> (int \<times> (u16 \<times> u16 \<times> u16 \<times> u16) option \<times> mbx_world) option" where
  "qla24xx_set_fcp_prio issue junk loop priority w =
     (if \<not> IS_QLA24XX_TYPE (mw_dt w) \<and> \<not> IS_QLA25XX (mw_dt w) then Some (QLA_FUNCTION_FAILED, None, w)
      else do {
        (rv, m, w) \<leftarrow> issue (mbx_req junk [(0, MBC_PORT_PARAMS), (1, loop),
             (2, if fcp_prio_enabled (mw_fw w) then BIT 1 else BIT 2), (4, priority AND 0xf), (9, vp_idx (mw_host w))]
           [9, 4, 3, 2, 1, 0] [4, 3, 1, 0] 30 0) w;
        Some (rv, Some (mbx_reg m 0, mbx_reg m 1, mbx_reg m 3, mbx_reg m 4), w) })"

definition MBC_DATA_RATE :: u16 where "MBC_DATA_RATE = 0x5d"

definition qla2x00_get_data_rate :: "mbx_issue \<Rightarrow> mbx_cmd \<Rightarrow> mbx_world \<Rightarrow> (int \<times> mbx_world) option" where
  "qla2x00_get_data_rate issue junk w =
     guarded (IS_FWI2_CAPABLE (mw_dt w)) w (do {
       let dt = mw_dt w;
       (rv, m, w) \<leftarrow> issue (mbx_req junk [(0, MBC_DATA_RATE), (1, 0)] [1, 0]
          ([2, 1, 0] @ (if IS_QLA83XX dt \<or> IS_QLA27XX dt then [3] else [])) MBX_TOV_SECONDS 0) w;
       Some (rv, if rv = QLA_SUCCESS \<and> mbx_reg m 1 \<noteq> 7
                 then upd_fw (\<lambda>f. f\<lparr>link_data_rate := mbx_reg m 1\<rparr>) w else w) })"

definition MBC_SET_PORT_CONFIG :: u16 where "MBC_SET_PORT_CONFIG = 0x122"

definition qla81xx_set_port_config ::
    "mbx_issue \<Rightarrow> mbx_cmd \<Rightarrow> u16 list \<Rightarrow> mbx_world \<Rightarrow> (int \<times> mbx_world) option" where
  "qla81xx_set_port_config issue junk mb w =
     mbx_status issue (mbx_req junk ((0, MBC_SET_PORT_CONFIG) # map (\<lambda>i. (Suc i, mb ! i)) [0..<4])
       [4, 3, 2, 1, 0] [0] MBX_TOV_SECONDS 0) w"

section \<open>Virtual ports\<close>

definition VP_CONFIG_IOCB_TYPE :: u8 where "VP_CONFIG_IOCB_TYPE = 0x31"
definition VP_CTRL_IOCB_TYPE :: u8 where "VP_CTRL_IOCB_TYPE = 0x30"
definition FC_VPORT_INITIALIZING :: nat where "FC_VPORT_INITIALIZING = 4"

definition vp_config_entry :: "u16 \<Rightarrow> u8 list \<Rightarrow> u8 list \<Rightarrow> u32 list" where
  "vp_config_entry vp node port =
     (let m = replicate 16 0;
          m = put8 0 ENTRY_TYPE_OFF VP_CONFIG_IOCB_TYPE m;
          m = put8 0 ENTRY_COUNT_OFF 1 m;
          m = put8 0 12 1 m;
          m = put8 0 13 1 m;
          m = put8 0 14 (ucast vp) m;
          m = put8 0 16 (BIT 3 OR BIT 4 OR BIT 5) m;
          m = put_bytes 0 28 (take 8 node) m
      in put_bytes 0 20 (take 8 port) m)"

definition qla24xx_modify_vp_config ::
    "mbx_issue \<Rightarrow> mbx_cmd \<Rightarrow> u64 option \<Rightarrow> mbx_world \<Rightarrow> (int \<times> mbx_world) option" where
  "qla24xx_modify_vp_config issue junk pool w =
     (case pool of
        None \<Rightarrow> Some (QLA_MEMORY_ALLOC_FAILED, w)
      | Some a \<Rightarrow> do {
          (rv, w) \<leftarrow> qla2x00_issue_iocb issue junk a
             (put_mem a (vp_config_entry (vp_idx (mw_host w)) (vha_node_name (mw_fw w)) (vha_port_name (mw_host w))) w);
          if rv \<noteq> QLA_SUCCESS then Some (rv, w)
          else if get16 0 10 (mw_mem w a) \<noteq> 0 then Some (QLA_FUNCTION_FAILED, w)
          else Some (rv, upd_fw (\<lambda>f. f\<lparr>fc_vport_state := FC_VPORT_INITIALIZING\<rparr>) w) })"

definition vp_ctrl_entry :: "u16 \<Rightarrow> nat \<Rightarrow> u32 list" where
  "vp_ctrl_entry command vp =
     (let m = replicate 16 0;
          m = put8 0 ENTRY_TYPE_OFF VP_CTRL_IOCB_TYPE m;
          m = put8 0 ENTRY_COUNT_OFF 1 m;
          m = put16 0 12 command m;
          m = put16 0 14 1 m
      in put8 0 (16 + (vp - 1) div 8) (BIT ((vp - 1) mod 8)) m)"

definition qla24xx_control_vp ::
    "mbx_issue \<Rightarrow> mbx_cmd \<Rightarrow> u64 option \<Rightarrow> u16 \<Rightarrow> mbx_world \<Rightarrow> (int \<times> mbx_world) option" where
  "qla24xx_control_vp issue junk pool command w =
     (let vp = vp_idx (mw_host w)
      in if vp = 0 \<or> vp \<ge> max_npiv_vports (mw_fw w) then Some (QLA_PARAMETER_ERROR, w)
         else case pool of
           None \<Rightarrow> Some (QLA_MEMORY_ALLOC_FAILED, w)
         | Some a \<Rightarrow> do {
             (rv, w) \<leftarrow> qla2x00_issue_iocb issue junk a (put_mem a (vp_ctrl_entry command (unat vp)) w);
             Some (if rv = QLA_SUCCESS \<and> (get8 0 ENTRY_STATUS_OFF (mw_mem w a) \<noteq> 0
                       \<or> get16 0 10 (mw_mem w a) \<noteq> CS_COMPLETE) then QLA_FUNCTION_FAILED else rv, w) })"

definition MBC_SEND_CHANGE_REQUEST :: u16 where "MBC_SEND_CHANGE_REQUEST = 0x70"

definition qla2x00_send_change_request ::
    "mbx_issue \<Rightarrow> mbx_cmd \<Rightarrow> u16 \<Rightarrow> u16 \<Rightarrow> mbx_world \<Rightarrow> (int \<times> mbx_world) option" where
  "qla2x00_send_change_request issue junk format vp w =
     guarded (vp \<noteq> 0) w (do {
       (rv, m, w) \<leftarrow> issue (mbx_req junk [(0, MBC_SEND_CHANGE_REQUEST), (1, format), (9, vp)] [9, 1, 0] [0, 1]
          MBX_TOV_SECONDS 0) w;
       Some (if rv = QLA_SUCCESS \<and> mbx_reg m 0 = MBS_COMMAND_COMPLETE then rv else 2, w) })"

end
