(* ===== verification/Mbx_Diag.thy ===== *)
theory Mbx_Diag
  imports Mbx_Adapter
begin

text \<open>
  Mailbox commands, last part (qla_mbx.c): queue set-up, flash access control, driver version,
  transceivers and RAM, loopback, minidump templates, LEDs.
\<close>

section \<open>Queues\<close>

definition MBC_INITIALIZE_MULTIQ :: u16 where "MBC_INITIALIZE_MULTIQ = 0x1f"

text \<open>
  What the set-up of a queue reads and resets: \<open>qc_partner\<close> is the response queue of a request queue,
  \<open>qc_entry\<close> the MSI-X vector, \<open>qc_shadow\<close> the index in memory, the two registers the indices of the
  adapter.
\<close>

record que_cfg =
  qc_dma :: u64
  qc_length :: u16
  qc_id :: u16
  qc_options :: u16
  qc_rid :: u16
  qc_qos :: u16
  qc_vp_idx :: u16
  qc_partner :: "u16 option"
  qc_entry :: u16
  qc_shadow :: u16
  qc_in_reg :: u32
  qc_out_reg :: u32

definition shadow_option :: "u32 \<Rightarrow> que_cfg \<Rightarrow> que_cfg" where
  "shadow_option dt q = (if IS_SHADOW_REG_CAPABLE dt then q\<lparr>qc_options := qc_options q OR BIT 13\<rparr> else q)"

definition queue_regs :: "que_cfg \<Rightarrow> (nat \<times> u16) list" where
  "queue_regs q = [(0, MBC_INITIALIZE_MULTIQ), (1, qc_options q)] @ dma_regs (qc_dma q) @ [(5, qc_length q)]"

definition qla25xx_init_req_que ::
    "mbx_issue \<Rightarrow> mbx_cmd \<Rightarrow> que_cfg \<Rightarrow> mbx_world \<Rightarrow> (int \<times> que_cfg \<times> mbx_world) option" where
  "qla25xx_init_req_que issue junk q w = do {
     let dt = mw_dt w;
     let q = shadow_option dt q;
     let new = (IS_QLA83XX dt \<or> IS_QLA27XX dt);
     let m = mbx_req junk
        (queue_regs q @ (case qc_partner q of None \<Rightarrow> [] | Some i \<Rightarrow> [(10, i)])
          @ [(12, qc_qos q), (11, qc_vp_idx q), (13, qc_rid q)] @ (if new then [(15, 0)] else [])
          @ [(4, qc_id q), (8, 0), (9, 0)])
        ([14, 13, 12, 11, 10, 9, 8, 7, 6, 5, 4, 3, 2, 1, 0] @ (if new then [15] else []))
        ([0] @ (if IS_QLA81XX dt \<or> new then [1] else []) @ (if new then [9, 8, 7] else []))
        (MBX_TOV_SECONDS * 2) MBX_DMA_OUT;
     let q = q\<lparr>qc_shadow := 0\<rparr>;
     let q = (if qc_options q AND BIT 0 = 0
              then (let q = q\<lparr>qc_in_reg := 0\<rparr> in if new then q else q\<lparr>qc_out_reg := 0\<rparr>) else q);
     (rv, w) \<leftarrow> mbx_status issue m w;
     Some (rv, q, w) }"

definition qla25xx_init_rsp_que ::
    "mbx_issue \<Rightarrow> mbx_cmd \<Rightarrow> que_cfg \<Rightarrow> mbx_world \<Rightarrow> (int \<times> que_cfg \<times> mbx_world) option" where
  "qla25xx_init_rsp_que issue junk q w = do {
     let dt = mw_dt w;
     let q = shadow_option dt q;
     let new = (IS_QLA83XX dt \<or> IS_QLA27XX dt);
     let m = mbx_req junk
        (queue_regs q @ [(14, qc_entry q), (13, qc_rid q)] @ (if new then [(15, 0)] else [])
          @ [(4, qc_id q), (8, 0), (9, 0)])
        ([14, 13, 9, 8, 7, 6, 5, 4, 3, 2, 1, 0]
          @ (if IS_QLA81XX dt then [12, 11, 10] else if new then [15, 12, 11, 10] else []))
        ([0] @ (if IS_QLA81XX dt then [1] else if new then [1, 9, 8, 7] else []))
        (MBX_TOV_SECONDS * 2) MBX_DMA_OUT;
     let q = q\<lparr>qc_shadow := 0\<rparr>;
     let q = (if qc_options q AND BIT 0 = 0
              then (let q = q\<lparr>qc_out_reg := 0\<rparr> in if IS_QLA83XX dt then q else q\<lparr>qc_in_reg := 0\<rparr>) else q);
     (rv, w) \<leftarrow> mbx_status issue m w;
     Some (rv, q, w) }"

section \<open>Flash access control and firmware services\<close>

definition MBC_IDC_ACK :: u16 where "MBC_IDC_ACK = 0x101"
definition MBC_FLASH_ACCESS_CTRL :: u16 where "MBC_FLASH_ACCESS_CTRL = 0x3e"
definition MBC_RESTART_MPI_FW :: u16 where "MBC_RESTART_MPI_FW = 0x3d"
definition MBC_SET_ACCESS_CONTROL :: u16 where "MBC_SET_ACCESS_CONTROL = 0x3e"

definition fac_capable :: "u32 \<Rightarrow> bool" where
  "fac_capable dt \<longleftrightarrow> IS_QLA81XX dt \<or> IS_QLA83XX dt \<or> IS_QLA27XX dt"

definition qla81xx_idc_ack ::
    "mbx_issue \<Rightarrow> mbx_cmd \<Rightarrow> u16 list \<Rightarrow> mbx_world \<Rightarrow> (int \<times> mbx_world) option" where
  "qla81xx_idc_ack issue junk mb w =
     mbx_status issue (mbx_req junk ((0, MBC_IDC_ACK) # map (\<lambda>i. (Suc i, mb ! i)) [0..<7])
       [7, 6, 5, 4, 3, 2, 1, 0] [0] MBX_TOV_SECONDS 0) w"

definition qla81xx_fac_get_sector_size ::
    "mbx_issue \<Rightarrow> mbx_cmd \<Rightarrow> mbx_world \<Rightarrow> (int \<times> u32 option \<times> mbx_world) option" where
  "qla81xx_fac_get_sector_size issue junk w =
     (if \<not> fac_capable (mw_dt w) then Some (QLA_FUNCTION_FAILED, None, w)
      else do {
        (rv, m, w) \<leftarrow> issue (mbx_req junk [(0, MBC_FLASH_ACCESS_CTRL), (1, 5)] [1, 0] [1, 0] MBX_TOV_SECONDS 0) w;
        Some (rv, if rv = QLA_SUCCESS then Some (ucast (mbx_reg m 1)) else None, w) })"

definition qla81xx_fac_do_write_enable ::
    "mbx_issue \<Rightarrow> mbx_cmd \<Rightarrow> bool \<Rightarrow> mbx_world \<Rightarrow> (int \<times> mbx_world) option" where
  "qla81xx_fac_do_write_enable issue junk enable w =
     guarded (fac_capable (mw_dt w)) w
       (mbx_status issue (mbx_req junk [(0, MBC_FLASH_ACCESS_CTRL), (1, if enable then 1 else 0)] [1, 0] [1, 0]
          MBX_TOV_SECONDS 0) w)"

definition qla81xx_fac_erase_sector ::
    "mbx_issue \<Rightarrow> mbx_cmd \<Rightarrow> u32 \<Rightarrow> u32 \<Rightarrow> mbx_world \<Rightarrow> (int \<times> mbx_world) option" where
  "qla81xx_fac_erase_sector issue junk start finish w =
     guarded (fac_capable (mw_dt w)) w
       (mbx_status issue (mbx_req junk [(0, MBC_FLASH_ACCESS_CTRL), (1, 2), (2, LSW start), (3, MSW start),
          (4, LSW finish), (5, MSW finish)] [5, 4, 3, 2, 1, 0] [2, 1, 0] MBX_TOV_SECONDS 0) w)"

definition qla81xx_restart_mpi_firmware :: "mbx_issue \<Rightarrow> mbx_cmd \<Rightarrow> mbx_world \<Rightarrow> (int \<times> mbx_world) option" where
  "qla81xx_restart_mpi_firmware issue junk w =
     mbx_status issue (mbx_req junk [(0, MBC_RESTART_MPI_FW)] [0] [0, 1] MBX_TOV_SECONDS 0) w"

text \<open>The subcode is the low byte of the options; a failure takes a firmware dump.\<close>

definition qla83xx_access_control ::
    "mbx_issue \<Rightarrow> mbx_cmd \<Rightarrow> u16 \<Rightarrow> u32 \<Rightarrow> u32 \<Rightarrow> mbx_world \<Rightarrow> (int \<times> u16 option \<times> mbx_world) option" where
  "qla83xx_access_control issue junk options start_addr end_addr w =
     (let range = bit options 2
      in if \<not> IS_QLA8031 (mw_dt w) then Some (QLA_FUNCTION_FAILED, None, w)
         else do {
           (rv, m, w) \<leftarrow> issue (mbx_req junk
              ([(0, MBC_SET_ACCESS_CONTROL), (1, options)]
                @ (if range then [(2, LSW start_addr), (3, MSW start_addr), (4, LSW end_addr), (5, MSW end_addr)] else []))
              ([1, 0] @ (if range then [5, 4, 3, 2] else []))
              ([2, 1, 0] @ (if \<not> range \<and> \<not> bit options 5 then [4, 3] else [])) MBX_TOV_SECONDS 0) w;
           if rv \<noteq> QLA_SUCCESS then Some (rv, None, mbx_log Fw_dump w)
           else Some (rv, if bit options 5 then Some (mbx_reg m 1) else None, w) })"

section \<open>Driver version\<close>

definition MBC_SET_RNID_PARAMS :: u16 where "MBC_SET_RNID_PARAMS = 0x59"
definition MBC_GET_RNID_PARAMS :: u16 where "MBC_GET_RNID_PARAMS = 0x5a"

text \<open>
  The loop over registers 4 to 15: \<open>mem\<close> is the memory the version string starts, \<open>len\<close> the signed
  count of bytes that are left, which the code tests for zero only.
\<close>

fun version_regs :: "(nat \<Rightarrow> u8) \<Rightarrow> int \<Rightarrow> nat \<Rightarrow> nat \<Rightarrow> (nat \<times> u16) list" where
  "version_regs mem len j 0 = []"
| "version_regs mem len j (Suc n) =
     (if len = 0 then (4 + j, 0) # version_regs mem 0 (Suc j) n
      else (4 + j, ucast (mem (2 * j)) OR push_bit 8 (ucast (mem (2 * j + 1))))
           # version_regs mem (len - 2) (Suc j) n)"

definition qla82xx_set_driver_version ::
    "mbx_issue \<Rightarrow> mbx_cmd \<Rightarrow> (nat \<Rightarrow> u8) \<Rightarrow> nat \<Rightarrow> mbx_world \<Rightarrow> (int \<times> mbx_world) option" where
  "qla82xx_set_driver_version issue junk mem len w =
     guarded (IS_P3P_TYPE (mw_dt w)) w
       (mbx_status issue (mbx_req junk ([(0, MBC_SET_RNID_PARAMS), (1, push_bit 8 9)] @ version_regs mem (int len) 0 12)
          ([1, 0] @ [4..<16]) [1, 0] MBX_TOV_SECONDS 0) w)"

definition qla25xx_set_driver_version ::
    "mbx_issue \<Rightarrow> mbx_cmd \<Rightarrow> u64 option \<Rightarrow> u8 list \<Rightarrow> mbx_world \<Rightarrow> (int \<times> mbx_world) option" where
  "qla25xx_set_driver_version issue junk pool version w =
     (let dt = mw_dt w
      in guarded (IS_FWI2_CAPABLE dt \<and> \<not> IS_QLA24XX_TYPE dt \<and> \<not> IS_QLA81XX dt \<and> \<not> IS_P3P_TYPE dt) w
        (case pool of
           None \<Rightarrow> Some (QLA_MEMORY_ALLOC_FAILED, w)
         | Some a \<Rightarrow> mbx_status issue (mbx_req junk ([(0, MBC_SET_RNID_PARAMS), (1, push_bit 8 9 OR 7)] @ dma_regs a)
             [7, 6, 3, 2, 1, 0] [1, 0] MBX_TOV_SECONDS 0)
             (put_mem a (put_bytes 0 0 ([7, 3, 0x11, 0] @ take 24 version @ replicate (24 - length version) 0)
               (mw_mem w a)) w)))"

definition qla2x00_read_asic_temperature ::
    "mbx_issue \<Rightarrow> mbx_cmd \<Rightarrow> mbx_world \<Rightarrow> (int \<times> u16 option \<times> mbx_world) option" where
  "qla2x00_read_asic_temperature issue junk w =
     (if \<not> IS_FWI2_CAPABLE (mw_dt w) then Some (QLA_FUNCTION_FAILED, None, w)
      else do {
        (rv, m, w) \<leftarrow> issue (mbx_req junk [(0, MBC_GET_RNID_PARAMS), (1, push_bit 8 0xC)] [1, 0] [1, 0]
           MBX_TOV_SECONDS 0) w;
        Some (rv, Some (mbx_reg m 1), w) })"

section \<open>Transceiver and memory\<close>

definition MBC_READ_SFP :: u16 where "MBC_READ_SFP = 0x31"
definition MBC_WRITE_SFP :: u16 where "MBC_WRITE_SFP = 0x30"
definition MBC_GET_XGMAC_STATS :: u16 where "MBC_GET_XGMAC_STATS = 0x7a"
definition MBC_GET_DCBX_PARAMS :: u16 where "MBC_GET_DCBX_PARAMS = 0x51"
definition MBC_READ_RAM_EXTENDED :: u16 where "MBC_READ_RAM_EXTENDED = 0xf"
definition MBC_WRITE_RAM_WORD_EXTENDED :: u16 where "MBC_WRITE_RAM_WORD_EXTENDED = 0xd"

definition sfp_req :: "u16 \<Rightarrow> mbx_cmd \<Rightarrow> u64 \<Rightarrow> u16 \<Rightarrow> u16 \<Rightarrow> u16 \<Rightarrow> u16 \<Rightarrow> mbx_cmd" where
  "sfp_req code junk a dev off len opt =
     mbx_req junk ([(0, code), (1, dev)] @ dma_regs a @ [(8, len), (9, off), (10, opt)])
       [10, 9, 8, 7, 6, 3, 2, 1, 0] [1, 0] MBX_TOV_SECONDS 0"

text \<open>The byte \<open>sfp\<close> points to, when it is written; and the one \<open>qla2x00_write_sfp\<close> reads.\<close>

definition qla2x00_read_sfp ::
    "mbx_issue \<Rightarrow> mbx_cmd \<Rightarrow> u64 \<Rightarrow> u16 \<Rightarrow> u16 \<Rightarrow> u16 \<Rightarrow> u16 \<Rightarrow> mbx_world \<Rightarrow> (int \<times> u8 option \<times> mbx_world) option" where
  "qla2x00_read_sfp issue junk a dev off len opt w =
     (let opt = (if len = 1 then opt OR BIT 0 else opt)
      in if \<not> IS_FWI2_CAPABLE (mw_dt w) then Some (QLA_FUNCTION_FAILED, None, w)
         else do {
           (rv, m, w) \<leftarrow> issue (sfp_req MBC_READ_SFP junk a dev off len opt) w;
           Some (rv, if bit opt 0 then Some (ucast (mbx_reg m 1)) else None, w) })"

definition qla2x00_write_sfp ::
    "mbx_issue \<Rightarrow> mbx_cmd \<Rightarrow> u64 \<Rightarrow> u8 \<Rightarrow> u16 \<Rightarrow> u16 \<Rightarrow> u16 \<Rightarrow> u16 \<Rightarrow> mbx_world \<Rightarrow> (int \<times> mbx_world) option" where
  "qla2x00_write_sfp issue junk a sfp dev off len opt w =
     (let opt = (if len = 1 then opt OR BIT 0 else opt);
          len = (if bit opt 0 then ucast sfp else len)
      in guarded (IS_FWI2_CAPABLE (mw_dt w)) w
           (mbx_status issue (sfp_req MBC_WRITE_SFP junk a dev off len opt) w))"

definition qla2x00_get_xgmac_stats ::
    "mbx_issue \<Rightarrow> mbx_cmd \<Rightarrow> u64 \<Rightarrow> u16 \<Rightarrow> mbx_world \<Rightarrow> (int \<times> u16 option \<times> mbx_world) option" where
  "qla2x00_get_xgmac_stats issue junk a n w =
     (if \<not> IS_CNA_CAPABLE (mw_dt w) then Some (QLA_FUNCTION_FAILED, None, w)
      else do {
        (rv, m, w) \<leftarrow> issue (mbx_req junk ([(0, MBC_GET_XGMAC_STATS)] @ dma_regs a @ [(8, drop_bit 2 n)])
           [8, 7, 6, 3, 2, 0] [2, 1, 0] MBX_TOV_SECONDS 0) w;
        Some (rv, if rv = QLA_SUCCESS then Some (push_bit 2 (mbx_reg m 2)) else None, w) })"

definition qla2x00_get_dcbx_params ::
    "mbx_issue \<Rightarrow> mbx_cmd \<Rightarrow> u64 \<Rightarrow> u16 \<Rightarrow> mbx_world \<Rightarrow> (int \<times> mbx_world) option" where
  "qla2x00_get_dcbx_params issue junk a n w =
     guarded (IS_CNA_CAPABLE (mw_dt w)) w
       (mbx_status issue (mbx_req junk ([(0, MBC_GET_DCBX_PARAMS), (1, 0)] @ dma_regs a @ [(8, n)])
          [8, 7, 6, 3, 2, 1, 0] [2, 1, 0] MBX_TOV_SECONDS 0) w)"

definition qla2x00_read_ram_word ::
    "mbx_issue \<Rightarrow> mbx_cmd \<Rightarrow> u32 \<Rightarrow> mbx_world \<Rightarrow> (int \<times> u32 option \<times> mbx_world) option" where
  "qla2x00_read_ram_word issue junk risc_addr w =
     (if \<not> IS_FWI2_CAPABLE (mw_dt w) then Some (QLA_FUNCTION_FAILED, None, w)
      else do {
        (rv, m, w) \<leftarrow> issue (mbx_req junk [(0, MBC_READ_RAM_EXTENDED), (1, LSW risc_addr), (8, MSW risc_addr)]
           [8, 1, 0] [3, 2, 0] 30 0) w;
        Some (rv, if rv = QLA_SUCCESS then Some (or_words (mbx_reg m 3) (mbx_reg m 2)) else None, w) })"

definition qla2x00_write_ram_word ::
    "mbx_issue \<Rightarrow> mbx_cmd \<Rightarrow> u32 \<Rightarrow> u32 \<Rightarrow> mbx_world \<Rightarrow> (int \<times> mbx_world) option" where
  "qla2x00_write_ram_word issue junk risc_addr d w =
     guarded (IS_FWI2_CAPABLE (mw_dt w)) w
       (mbx_status issue (mbx_req junk [(0, MBC_WRITE_RAM_WORD_EXTENDED), (1, LSW risc_addr), (2, LSW d), (3, MSW d),
          (8, MSW risc_addr)] [8, 3, 2, 1, 0] [0] 30 0) w)"

text \<open>\<open>memset\<close> of the registers, or of the whole command, before it is filled.\<close>

definition zero_mb :: "mbx_cmd \<Rightarrow> mbx_cmd" where
  "zero_mb junk = junk\<lparr>mc_mb := replicate (length (mc_mb junk)) 0\<rparr>"

definition IS_MCTP_CAPABLE :: "mbx_world \<Rightarrow> bool" where
  "IS_MCTP_CAPABLE w \<longleftrightarrow> IS_QLA2031 (mw_dt w) \<and> bit (fw_attributes_ext (mw_fw w) ! 0) 0"

text \<open>\<open>out_mb\<close> is only added to: what the stack held there stays.\<close>

definition qla2x00_dump_mctp_data ::
    "mbx_issue \<Rightarrow> mbx_cmd \<Rightarrow> u64 \<Rightarrow> u32 \<Rightarrow> u32 \<Rightarrow> mbx_world \<Rightarrow> (int \<times> mbx_world) option" where
  "qla2x00_dump_mctp_data issue junk req_dma addr sz w =
     guarded (IS_MCTP_CAPABLE w) w
       (mbx_status issue ((mbx_req (zero_mb junk)
          ([(0, MBC_DUMP_RISC_RAM_EXTENDED), (1, LSW addr)] @ dma_regs req_dma
            @ [(4, MSW sz), (5, LSW sz), (8, MSW addr), (10, BIT 7 OR 0x40)])
          [10, 8, 7, 6, 5, 4, 3, 2, 1, 0] [0] MBX_TOV_SECONDS 0)
            \<lparr>mc_out := mc_out junk OR MBXS [10, 8, 7, 6, 5, 4, 3, 2, 1, 0]\<rparr>) w)"

end
