(* ===== verification/Mbx_Misc.thy ===== *)
theory Mbx_Misc
  imports Mbx_Diag
begin

text \<open>
  Mailbox commands, the rest of qla_mbx.c: loopback and echo, the 84xx chip, minidump templates,
  LEDs and interrupts of the P3P adapters, temperature, virtual functions.
\<close>

section \<open>Loopback and echo\<close>

definition MBC_DIAGNOSTIC_LOOP_BACK :: u16 where "MBC_DIAGNOSTIC_LOOP_BACK = 0x45"
definition MBC_DIAGNOSTIC_ECHO :: u16 where "MBC_DIAGNOSTIC_ECHO = 0x44"

record msg_echo_lb =
  send_dma :: u64
  rcv_dma :: u64
  lb_options :: u16
  transfer_size :: u32
  iteration_count :: u32

definition lb_addresses :: "msg_echo_lb \<Rightarrow> (nat \<times> u16) list" where
  "lb_addresses q =
     [(14, LSW (LSD (send_dma q))), (15, MSW (LSD (send_dma q))), (20, LSW (MSD (send_dma q))), (21, MSW (MSD (send_dma q))),
      (16, LSW (LSD (rcv_dma q))), (17, MSW (LSD (rcv_dma q))), (6, LSW (MSD (rcv_dma q))), (7, MSW (MSD (rcv_dma q)))]"

definition lb_flags :: u8 where "lb_flags = MBX_DMA_OUT OR MBX_DMA_IN OR IOCTL_CMD"

text \<open>The results: all 32 registers, on success or not.\<close>

definition all_regs :: "int \<times> mbx_cmd \<times> mbx_world \<Rightarrow> int \<times> u16 list \<times> mbx_world" where
  "all_regs = (\<lambda>(rv, m, w). (rv, take 32 (mc_mb m), w))"

definition qla2x00_loopback_test ::
    "mbx_issue \<Rightarrow> mbx_cmd \<Rightarrow> msg_echo_lb \<Rightarrow> mbx_world \<Rightarrow> (int \<times> u16 list \<times> mbx_world) option" where
  "qla2x00_loopback_test issue junk q w =
     map_option all_regs (issue (mbx_req (zero_mb junk)
       ([(0, MBC_DIAGNOSTIC_LOOP_BACK), (1, lb_options q OR BIT 6), (10, LSW (transfer_size q)), (11, MSW (transfer_size q))]
         @ lb_addresses q @ [(18, LSW (iteration_count q)), (19, MSW (iteration_count q))])
       ([21, 20, 19, 18, 17, 16, 15, 14, 13, 12, 11, 10, 7, 6, 1, 0] @ (if IS_CNA_CAPABLE (mw_dt w) then [2] else []))
       [19, 18, 3, 2, 1, 0] MBX_TOV_SECONDS lb_flags) w)"

definition qla2x00_echo_test ::
    "mbx_issue \<Rightarrow> mbx_cmd \<Rightarrow> msg_echo_lb \<Rightarrow> mbx_world \<Rightarrow> (int \<times> u16 list \<times> mbx_world) option" where
  "qla2x00_echo_test issue junk q w =
     (let dt = mw_dt w; cna = IS_CNA_CAPABLE dt
      in map_option all_regs (issue (mbx_req (zero_mb junk)
        ([(0, MBC_DIAGNOSTIC_ECHO), (1, lb_options q OR BIT 6 OR (if cna then BIT 15 else 0))]
          @ (if cna then [(2, fcoe_fcf_idx (mw_fw w))] else []) @ lb_addresses q @ [(10, LSW (transfer_size q))])
        ([21, 20, 17, 16, 15, 14, 10, 7, 6, 1, 0] @ (if cna then [2] else []))
        ([0] @ (if IS_QLA24XX_TYPE dt \<or> IS_QLA25XX dt \<or> cna \<or> IS_QLA2031 dt then [1] else [])
          @ (if cna \<or> IS_QLA2031 dt then [3] else [])) MBX_TOV_SECONDS lb_flags) w))"

section \<open>The 84xx chip\<close>

definition MBC_ISP84XX_RESET :: u16 where "MBC_ISP84XX_RESET = 0x3a"
definition VERIFY_CHIP_IOCB_TYPE :: u8 where "VERIFY_CHIP_IOCB_TYPE = 0x1B"
definition VCO_DONT_UPDATE_FW :: u16 where "VCO_DONT_UPDATE_FW = BIT 0"
definition VCO_FORCE_UPDATE :: u16 where "VCO_FORCE_UPDATE = BIT 1"
definition VCO_END_OF_DATA :: u16 where "VCO_END_OF_DATA = BIT 14"
definition CS_VCS_CHIP_FAILURE :: u16 where "CS_VCS_CHIP_FAILURE = 3"

definition qla84xx_reset_chip :: "mbx_issue \<Rightarrow> mbx_cmd \<Rightarrow> u16 \<Rightarrow> mbx_world \<Rightarrow> (int \<times> mbx_world) option" where
  "qla84xx_reset_chip issue junk enable_diagnostic w =
     mbx_status issue (mbx_req junk [(0, MBC_ISP84XX_RESET), (1, enable_diagnostic)] [1, 0] [1, 0]
       MBX_TOV_SECONDS lb_flags) w"

definition verify_entry :: "u16 \<Rightarrow> u32 list" where
  "verify_entry options =
     put16 0 8 options (put8 0 ENTRY_COUNT_OFF 1 (put8 0 ENTRY_TYPE_OFF VERIFY_CHIP_IOCB_TYPE (replicate 16 0)))"

text \<open>One turn of the loop: the answer's status and failure code.\<close>

definition verify_once ::
    "mbx_issue \<Rightarrow> mbx_cmd \<Rightarrow> u64 \<Rightarrow> u16 \<Rightarrow> mbx_world \<Rightarrow> (int \<times> (u16 \<times> u16) option \<times> mbx_world) option" where
  "verify_once issue junk a options w = do {
     (rv, w) \<leftarrow> qla2x00_issue_iocb_timeout issue junk a 120 (put_mem a (verify_entry options) w);
     let comp = get16 0 8 (mw_mem w a);
     Some (if rv \<noteq> QLA_SUCCESS then (rv, None, w)
           else let st = (comp, if comp = CS_VCS_CHIP_FAILURE then get16 0 10 (mw_mem w a) else 0)
                in if comp \<noteq> CS_COMPLETE then (QLA_FUNCTION_FAILED, Some st, w)
                   else (rv, Some st, upd_fw (\<lambda>f. f\<lparr>op_fw_version := get32 0 20 (mw_mem w a)\<rparr>) w)) }"

text \<open>A first failure that is not the mailbox's is tried once more without an update.\<close>

definition qla84xx_verify_chip ::
    "mbx_issue \<Rightarrow> mbx_cmd \<Rightarrow> u64 option \<Rightarrow> mbx_world \<Rightarrow> (int \<times> (u16 \<times> u16) option \<times> mbx_world) option" where
  "qla84xx_verify_chip issue junk pool w =
     (case pool of
        None \<Rightarrow> Some (QLA_MEMORY_ALLOC_FAILED, None, w)
      | Some a \<Rightarrow> do {
          let options = (if cs84xx_update (mw_fw w) then VCO_FORCE_UPDATE else 0) OR VCO_END_OF_DATA;
          (rv, st, w) \<leftarrow> verify_once issue junk a options w;
          if rv = QLA_FUNCTION_FAILED \<and> st \<noteq> None
          then verify_once issue junk a ((options OR VCO_DONT_UPDATE_FW) AND NOT VCO_FORCE_UPDATE) w
          else Some (rv, st, w) })"

section \<open>Minidump templates\<close>

definition MBC_DIAGNOSTIC_MINIDUMP_TEMPLATE :: u32 where "MBC_DIAGNOSTIC_MINIDUMP_TEMPLATE = 0x129"
definition RQST_TMPLT_SIZE :: u32 where "RQST_TMPLT_SIZE = 0"
definition RQST_TMPLT :: u32 where "RQST_TMPLT = 1"
definition MINIDUMP_SIZE_36K :: nat where "MINIDUMP_SIZE_36K = 36864"

definition template_cmd :: "u32 \<Rightarrow> (nat \<times> u16) list" where
  "template_cmd rqst = [(0, LSW MBC_DIAGNOSTIC_MINIDUMP_TEMPLATE), (1, MSW MBC_DIAGNOSTIC_MINIDUMP_TEMPLATE),
     (2, LSW rqst), (3, MSW rqst)]"

definition template_addr :: "u64 \<Rightarrow> u32 \<Rightarrow> (nat \<times> u16) list" where
  "template_addr a n = [(4, LSW (LSD a)), (5, MSW (LSD a)), (6, LSW (MSD a)), (7, MSW (MSD a)), (8, LSW n), (9, MSW n)]"

definition qla82xx_md_get_template_size :: "mbx_issue \<Rightarrow> mbx_cmd \<Rightarrow> mbx_world \<Rightarrow> (int \<times> mbx_world) option" where
  "qla82xx_md_get_template_size issue junk w = do {
     (rv, m, w) \<leftarrow> issue (mbx_req (zero_mb junk) (template_cmd RQST_TMPLT_SIZE) [3, 2, 1, 0]
        [14, 13, 12, 11, 10, 9, 8, 7, 6, 5, 4, 3, 2, 1, 0] MBX_TOV_SECONDS lb_flags) w;
     let n = or_words (mbx_reg m 3) (mbx_reg m 2);
     Some (if rv \<noteq> QLA_SUCCESS then (rv, w)
           else (if n = 0 then QLA_FUNCTION_FAILED else rv, upd_fw (\<lambda>f. f\<lparr>md_template_size := n\<rparr>) w)) }"

text \<open>\<open>alloc\<close> is the coherent buffer of \<open>md_template_size\<close> bytes.\<close>

definition qla82xx_md_get_template ::
    "mbx_issue \<Rightarrow> mbx_cmd \<Rightarrow> u64 option \<Rightarrow> mbx_world \<Rightarrow> (int \<times> mbx_world) option" where
  "qla82xx_md_get_template issue junk alloc w =
     (case alloc of
        None \<Rightarrow> Some (QLA_FUNCTION_FAILED, w)
      | Some a \<Rightarrow> mbx_status issue (mbx_req (zero_mb junk)
          (template_cmd RQST_TMPLT @ template_addr a (md_template_size (mw_fw w)))
          [11, 10, 9, 8, 7, 6, 5, 4, 3, 2, 1, 0] [3, 2, 1, 0] MBX_TOV_SECONDS lb_flags) w)"

text \<open>
  The template of the 8044 is read in pieces of 36 KB; the command of the previous piece is filled
  again. Register 11 gets the low half of \<open>offset AND 0xFFFF0000\<close>.
\<close>

definition md_piece_req :: "mbx_cmd \<Rightarrow> u64 \<Rightarrow> nat \<Rightarrow> mbx_cmd" where
  "md_piece_req m a offset = mbx_req m
     (template_cmd RQST_TMPLT @ template_addr (a + of_nat offset) (of_nat MINIDUMP_SIZE_36K)
       @ [(10, ucast ((of_nat offset :: u32) AND 0x0000FFFF)), (11, ucast ((of_nat offset :: u32) AND 0xFFFF0000))])
     [11, 10, 9, 8, 7, 6, 5, 4, 3, 2, 1, 0] [3, 2, 1, 0] MBX_TOV_SECONDS lb_flags"

function md_pieces ::
    "mbx_issue \<Rightarrow> u64 \<Rightarrow> nat \<Rightarrow> int \<Rightarrow> mbx_cmd \<Rightarrow> nat \<Rightarrow> mbx_world \<Rightarrow> (int \<times> mbx_world) option" where
  "md_pieces issue a n rv m offset w =
     (if offset < n
      then (case issue (md_piece_req m a offset) w of
              None \<Rightarrow> None
            | Some (rv, m, w) \<Rightarrow> if rv \<noteq> QLA_SUCCESS then Some (rv, w)
                               else md_pieces issue a n rv m (offset + MINIDUMP_SIZE_36K) w)
      else Some (rv, w))"
  by pat_completeness auto

termination md_pieces
  by (relation "measure (\<lambda>(issue, a, n, rv, m, offset, w). n - offset)") (auto simp: MINIDUMP_SIZE_36K_def)

declare md_pieces.simps [simp del]

definition qla8044_md_get_template ::
    "mbx_issue \<Rightarrow> mbx_cmd \<Rightarrow> u64 option \<Rightarrow> mbx_world \<Rightarrow> (int \<times> mbx_world) option" where
  "qla8044_md_get_template issue junk alloc w =
     (case alloc of
        None \<Rightarrow> Some (QLA_FUNCTION_FAILED, w)
      | Some a \<Rightarrow> md_pieces issue a (unat (md_template_size (mw_fw w))) QLA_FUNCTION_FAILED (zero_mb junk) 0 w)"

section \<open>LEDs and interrupts\<close>

definition MBC_TOGGLE_INTERRUPT :: u16 where "MBC_TOGGLE_INTERRUPT = 0x10"
definition MBC_SET_LED_CONFIG :: u16 where "MBC_SET_LED_CONFIG = 0x125"
definition MBC_GET_LED_CONFIG :: u16 where "MBC_GET_LED_CONFIG = 0x126"

definition qla82xx_mbx_intr_enable :: "mbx_issue \<Rightarrow> mbx_cmd \<Rightarrow> mbx_world \<Rightarrow> (int \<times> mbx_world) option" where
  "qla82xx_mbx_intr_enable issue junk w =
     guarded (IS_FWI2_CAPABLE (mw_dt w)) w
       (mbx_status issue (mbx_req (zero_mb junk) [(0, MBC_TOGGLE_INTERRUPT), (1, 1)] [1, 0] [0] 30 0) w)"

definition qla82xx_mbx_intr_disable :: "mbx_issue \<Rightarrow> mbx_cmd \<Rightarrow> mbx_world \<Rightarrow> (int \<times> mbx_world) option" where
  "qla82xx_mbx_intr_disable issue junk w =
     guarded (IS_P3P_TYPE (mw_dt w)) w
       (mbx_status issue (mbx_req (zero_mb junk) [(0, MBC_TOGGLE_INTERRUPT), (1, 0)] [1, 0] [0] 30 0) w)"

definition qla82xx_mbx_beacon_ctl :: "mbx_issue \<Rightarrow> mbx_cmd \<Rightarrow> bool \<Rightarrow> mbx_world \<Rightarrow> (int \<times> mbx_world) option" where
  "qla82xx_mbx_beacon_ctl issue junk enable w =
     guarded (IS_P3P_TYPE (mw_dt w)) w
       (mbx_status issue (mbx_req (zero_mb junk) [(0, MBC_SET_LED_CONFIG), (7, if enable then 0xE else 0xD)] [7, 0] [0]
          MBX_TOV_SECONDS 0) w)"

definition qla81xx_set_led_config ::
    "mbx_issue \<Rightarrow> mbx_cmd \<Rightarrow> u16 list \<Rightarrow> mbx_world \<Rightarrow> (int \<times> mbx_world) option" where
  "qla81xx_set_led_config issue junk led w =
     (let six = IS_QLA8031 (mw_dt w)
      in guarded (IS_QLA81XX (mw_dt w) \<or> six) w
        (mbx_status issue (mbx_req (zero_mb junk)
          ([(0, MBC_SET_LED_CONFIG), (1, led ! 0), (2, led ! 1)]
            @ (if six then [(3, led ! 2), (4, led ! 3), (5, led ! 4), (6, led ! 5)] else []))
          ([2, 1, 0] @ (if six then [6, 5, 4, 3] else [])) [0] 30 0) w))"

definition qla81xx_get_led_config ::
    "mbx_issue \<Rightarrow> mbx_cmd \<Rightarrow> mbx_world \<Rightarrow> (int \<times> u16 list option \<times> mbx_world) option" where
  "qla81xx_get_led_config issue junk w =
     (let six = IS_QLA8031 (mw_dt w)
      in if \<not> IS_QLA81XX (mw_dt w) \<and> \<not> six then Some (QLA_FUNCTION_FAILED, None, w)
         else do {
           (rv, m, w) \<leftarrow> issue (mbx_req (zero_mb junk) [(0, MBC_GET_LED_CONFIG)] [0]
              ([2, 1, 0] @ (if six then [6, 5, 4, 3] else [])) 30 0) w;
           Some (rv, if rv = QLA_SUCCESS then Some (map (mbx_reg m) (if six then [1..<7] else [1, 2])) else None, w) })"

section \<open>The others\<close>

text \<open>
  \<open>qla2x00_get_thermal_temp\<close> reads the transceiver of two boards, a register of the P3P adapters
  (\<open>p3p_temp\<close>), or asks the firmware; \<open>board\<close> are the PCI subsystem's vendor and device.
\<close>

definition PCI_VENDOR_ID_QLOGIC :: u16 where "PCI_VENDOR_ID_QLOGIC = 0x1077"
definition PCI_VENDOR_ID_HP :: u16 where "PCI_VENDOR_ID_HP = 0x103c"

definition qla2x00_get_thermal_temp ::
    "mbx_issue \<Rightarrow> mbx_cmd \<Rightarrow> u16 \<times> u16 \<Rightarrow> u16 \<Rightarrow> mbx_world \<Rightarrow> (int \<times> u16 option \<times> mbx_world) option" where
  "qla2x00_get_thermal_temp issue junk board p3p_temp w =
     (let dt = mw_dt w; byte = (\<lambda>(rv, b, w). (rv, map_option ucast b, w))
      in if \<not> IS_FWI2_CAPABLE dt \<or> IS_QLA24XX_TYPE dt \<or> IS_QLA81XX dt then Some (QLA_FUNCTION_FAILED, None, w)
         else if IS_QLA25XX dt
         then (if board = (PCI_VENDOR_ID_QLOGIC, 0x0175)
               then map_option byte (qla2x00_read_sfp issue junk 0 0x98 1 1 (BIT 13 OR BIT 0) w)
               else if board = (PCI_VENDOR_ID_HP, 0x338e)
               then map_option byte (qla2x00_read_sfp issue junk 0 0x98 1 1 (BIT 15 OR BIT 14 OR BIT 0) w)
               else Some (QLA_FUNCTION_FAILED, None, w))
         else if IS_P3P_TYPE dt then Some (QLA_SUCCESS, Some p3p_temp, w)
         else qla2x00_read_asic_temperature issue junk w)"

text \<open>
  \<open>qla81xx_write_mpi_register\<close> drives the registers itself: \<open>stat\<close> and \<open>mb0\<close> are what the \<open>n\<close>-th read of
  the host status and of mailbox 0 gives. It ignores the mailbox slot.
\<close>

definition MBS_MASK :: u16 where "MBS_MASK = 0x3fff"
definition MBC_WRITE_MPI_REGISTER :: u16 where "MBC_WRITE_MPI_REGISTER = 1"

fun mpi_wait :: "(nat \<Rightarrow> u32) \<Rightarrow> nat \<Rightarrow> nat \<Rightarrow> nat option" where
  "mpi_wait stat i 0 = None"
| "mpi_wait stat i (Suc timer) =
     (if bit (stat i) 15 \<and> stat i AND 0xff \<in> {0x1, 0x2, 0x10, 0x11} then Some i
      else mpi_wait stat (Suc i) timer)"

definition qla81xx_write_mpi_register ::
    "(nat \<Rightarrow> u32) \<Rightarrow> (nat \<Rightarrow> u16) \<Rightarrow> u16 list \<Rightarrow> mbx_world \<Rightarrow> int \<times> mbx_world" where
  "qla81xx_write_mpi_register stat mb0 mb w =
     (let w = w\<lparr>mw_regs := (mw_regs w)(0 := MBC_WRITE_MPI_REGISTER, 1 := mb ! 0, 2 := mb ! 1, 3 := mb ! 2, 4 := mb ! 3)\<rparr>;
          w = (mbx_log (Doorbell (mw_regs w)) w)\<lparr>mw_interrupt := False\<rparr>
      in case mpi_wait stat 0 6000000 of
           None \<Rightarrow> (QLA_FUNCTION_FAILED, w)
         | Some i \<Rightarrow> (uint (mb0 i AND MBS_MASK), w))"

definition MBC_CONFIGURE_VF :: u16 where "MBC_CONFIGURE_VF = 0x4b"

definition vf_config :: "u8 list" where
  "vf_config = [0x0f] @ replicate 15 0 @ [0, 0x01, 0x10, 0, 0x40, 0, 0x10, 0, 0x20, 0, 0, 0x80] @ replicate 36 0"

definition qla83xx_configure_vfs ::
    "mbx_issue \<Rightarrow> mbx_cmd \<Rightarrow> u64 option \<Rightarrow> mbx_world \<Rightarrow> (int \<times> mbx_world) option" where
  "qla83xx_configure_vfs issue junk alloc w =
     guarded (IS_QLA83XX (mw_dt w)) w
       (case alloc of
          None \<Rightarrow> Some (QLA_FUNCTION_FAILED, w)
        | Some a \<Rightarrow> mbx_status issue (mbx_req junk (dma_regs a @ [(1, BIT 0), (0, MBC_CONFIGURE_VF)])
            [10, 9, 8, 7, 6, 5, 4, 3, 2, 1, 0] [7, 6, 3, 2, 1, 0] MBX_TOV_SECONDS 0)
            (put_mem a (put_bytes 0 0 vf_config (replicate 16 0)) w))"

end
