(* ===== verification/Mbx_Handshake.thy ===== *)
theory Mbx_Handshake
  imports Mbx_Misc
begin

text \<open>
  What the mailbox command guarantees. The interface \<open>mailbox\<close>: a command depends on the registers it
  sends and on nothing else of the caller's uninitialised \<open>mbx_cmd_t\<close>. The steps: what each leaves
  of the slot, of the registers and of the time, from which Mbx_Claims draws the properties of the
  whole command.
\<close>

section \<open>The interface\<close>

definition same_req :: "mbx_cmd \<Rightarrow> mbx_cmd \<Rightarrow> bool" where
  "same_req m m' \<longleftrightarrow> mc_out m = mc_out m' \<and> mc_in m = mc_in m' \<and> mc_tov m = mc_tov m' \<and> mc_flags m = mc_flags m'
     \<and> bit (mc_out m) 0 \<and> (\<forall>i < 32. bit (mc_out m) i \<longrightarrow> mc_mb m ! i = mc_mb m' ! i)"

locale mailbox =
  fixes issue :: mbx_issue
  assumes same: "same_req m m' \<Longrightarrow> mbx_status issue m w = mbx_status issue m' w"

text \<open>The registers a command sends are the ones the wrapper has set.\<close>

lemma bit_BIT [simp]: "bit (BIT n :: 'a::len word) i \<longleftrightarrow> i = n \<and> n < LENGTH('a)"
  by (auto simp: BIT_def bit_simps)

lemma bit_MBXS [simp]: "bit (MBXS ks) i \<longleftrightarrow> i < 32 \<and> i \<in> set ks"
proof (induction ks)
  case (Cons k ks)
  then have "bit (BIT k OR MBXS ks) i \<longleftrightarrow> i < 32 \<and> i \<in> set (k # ks)"
    by (auto simp: bit_or_iff)
  then show ?case by (simp add: MBXS_def)
qed (simp add: MBXS_def)

lemma length_set_regs [simp]: "length (set_regs ws xs) = length xs"
  by (induction ws arbitrary: xs) (auto simp: set_regs_def)

lemma set_regs_nth:
  "length xs = length ys \<Longrightarrow> i < length xs \<Longrightarrow> i \<in> fst ` set ws \<or> xs ! i = ys ! i \<Longrightarrow>
    set_regs ws xs ! i = set_regs ws ys ! i"
proof (induction ws arbitrary: xs ys)
  case (Cons w ws)
  obtain j v where w: "w = (j, v)" by fastforce
  have "set_regs ws (xs[j := v]) ! i = set_regs ws (ys[j := v]) ! i"
    using Cons.prems w by (intro Cons.IH; cases "j = i") auto
  then show ?case by (simp add: w set_regs_def)
qed (simp add: set_regs_def)

definition stack_cmd :: "mbx_cmd \<Rightarrow> bool" where
  "stack_cmd junk \<longleftrightarrow> length (mc_mb junk) = 32"

lemma mbx_req_same:
  assumes "stack_cmd junk" "stack_cmd junk'" "set outs \<subseteq> fst ` set ws" "0 \<in> set outs"
  shows "same_req (mbx_req junk ws outs ins tov fl) (mbx_req junk' ws outs ins tov fl)"
proof -
  have "set_regs ws (mc_mb junk) ! i = set_regs ws (mc_mb junk') ! i" if "i < 32" "i \<in> set outs" for i
    using assms that by (intro set_regs_nth) (auto simp: stack_cmd_def)
  then show ?thesis using assms by (simp add: same_req_def mbx_req_def)
qed

definition all_set :: "(nat \<times> u16) list \<Rightarrow> nat list \<Rightarrow> bool" where
  "all_set ws outs \<longleftrightarrow> list_all (\<lambda>i. list_ex (\<lambda>(j, v). j = i) ws) outs"

lemma all_set_subset: "all_set ws outs \<Longrightarrow> set outs \<subseteq> fst ` set ws"
  by (force simp: all_set_def list_all_iff list_ex_iff)

context mailbox
begin

text \<open>
  A wrapper that sets what it sends does not depend on the stack; \<open>status_same\<close> is the form that
  simplification uses, under a guard or after an allocation.
\<close>

lemma status_same:
  assumes "stack_cmd junk" "stack_cmd junk'" "all_set ws outs" "0 \<in> set outs"
  shows "mbx_status issue (mbx_req junk ws outs ins tov fl) w = mbx_status issue (mbx_req junk' ws outs ins tov fl) w"
  by (rule same, rule mbx_req_same) (use assms all_set_subset in auto)

end

section \<open>The command keeps the interface\<close>

lemma same_req_0: "same_req m m' \<Longrightarrow> mc_mb m ! 0 = mc_mb m' ! 0"
  unfolding same_req_def by (metis zero_less_numeral)

lemma load_same:
  assumes "same_req m m'"
  shows "load_regs m w = load_regs m' w"
proof -
  have "mc_mb m ! i = mc_mb m' ! i" if "bit (mc_out m) i" for i
    using assms that bit_imp_le_length [OF that] by (simp add: same_req_def)
  then have "(\<lambda>i. if i < mw_mbx_count w \<and> bit (mc_out m) i then mc_mb m ! i else mw_regs w i)
      = (\<lambda>i. if i < mw_mbx_count w \<and> bit (mc_out m) i then mc_mb m' ! i else mw_regs w i)"
    by auto
  then show ?thesis using assms by (simp add: load_regs_def same_req_def)
qed

lemma refused_same: "mbx_refused m w = None \<longleftrightarrow> mbx_refused m' w = None"
  by (simp add: mbx_refused_def)

text \<open>The outcome of a collection, apart from the registers; a time-out leaves the command alone.\<close>

lemma collect_rv:
  "fst (mbx_collect m w) =
    (if mw_mbox_int w then
       if IS_P3P_TYPE (mw_dt w) \<and> mw_fw_hung w \<or> mw_mailbox_out w ! 0 \<noteq> MBS_COMMAND_COMPLETE
       then QLA_FUNCTION_FAILED else QLA_SUCCESS
     else QLA_FUNCTION_TIMEOUT)"
  by (simp add: mbx_collect_def Let_def mw_dt_def)

lemma collect_leaves:
  "fst (snd (mbx_collect m w)) \<longleftrightarrow> mw_mbox_int w \<and> IS_P3P_TYPE (mw_dt w) \<and> mw_fw_hung w"
  by (simp add: mbx_collect_def Let_def mw_dt_def)

lemma collect_world:
  "snd (snd (snd (mbx_collect m w))) =
    (if mw_mbox_int w then w\<lparr>mw_mbox_int := False, mw_interrupt := False, mw_mbox_busy := False, mw_mcp := None\<rparr>
     else (if mc_mb m ! 0 \<noteq> MBC_GEN_SYSTEM_ERROR then mbx_log Fw_dump w else w)
            \<lparr>mw_mbox_busy := False, mw_mcp := None\<rparr>)"
  by (simp add: mbx_collect_def Let_def mw_dt_def)

lemma collect_cmd:
  "\<not> mw_mbox_int w \<Longrightarrow> fst (snd (snd (mbx_collect m w))) = m"
  by (simp add: mbx_collect_def)

lemma QLA_codes [simp]:
  "QLA_SUCCESS \<noteq> QLA_FUNCTION_TIMEOUT" "QLA_FUNCTION_FAILED \<noteq> QLA_FUNCTION_TIMEOUT"
  "QLA_SUCCESS \<noteq> QLA_FUNCTION_FAILED" "QLA_FUNCTION_TIMEOUT \<noteq> QLA_SUCCESS"
  "QLA_FUNCTION_TIMEOUT \<noteq> QLA_FUNCTION_FAILED" "QLA_FUNCTION_FAILED \<noteq> QLA_SUCCESS"
  by (simp_all add: QLA_SUCCESS_def QLA_FUNCTION_TIMEOUT_def QLA_FUNCTION_FAILED_def)

text \<open>The command after its way in, split into its phases.\<close>

definition mbx_wait :: "mbx_io \<Rightarrow> nat \<Rightarrow> bool \<Rightarrow> mbx_cmd \<Rightarrow> mbx_world \<Rightarrow> mbx_world option" where
  "mbx_wait io N waits m w =
     (if waits then Some (wait_intr io (ring_mbx w))
      else poll_loop io (mc_mb m ! 0) (mw_jiffies w + unat (mc_tov m) * io_hz io) N (ring_mbx w))"

definition mbx_finish :: "mbx_io \<Rightarrow> bool \<Rightarrow> bool \<Rightarrow> mbx_cmd \<Rightarrow> mbx_world \<Rightarrow> int \<times> mbx_cmd \<times> mbx_world" where
  "mbx_finish io abort_active io_lock_on m w =
     (let r = mbx_collect m w; rv = fst r; n = fst (snd (snd r)); v = snd (snd (snd r))
      in if fst (snd r) then (rv, n, free_slot_mbx v)
         else let v = (if (abort_active \<or> \<not> io_lock_on) \<and> \<not> IS_NOPOLLING_TYPE v then qla2x00_poll io v else v)
              in (rv, n, if rv = QLA_FUNCTION_TIMEOUT \<and> mc_mb n ! 0 \<noteq> MBC_GEN_SYSTEM_ERROR
                         then mbx_escalate io abort_active io_lock_on n v else free_slot_mbx v))"

definition mbx_waits :: "mbx_world \<Rightarrow> mbx_world \<Rightarrow> bool" where
  "mbx_waits w v \<longleftrightarrow> \<not> bit (base_dpc w) ABORT_ISP_ACTIVE \<and> mw_init_done w \<or> IS_NOPOLLING_TYPE v"

definition mbx_armed :: "mbx_cmd \<Rightarrow> mbx_world \<Rightarrow> mbx_world \<Rightarrow> mbx_world" where
  "mbx_armed m w v = (let v = load_regs m v in if mbx_waits w v then v\<lparr>mw_intr_wait := True\<rparr> else v)"

lemma mailbox_command_phases:
  "qla2x00_mailbox_command io N m w =
    (case mbx_refused m w of
       Some n \<Rightarrow> Some (QLA_FUNCTION_TIMEOUT, n, w)
     | None \<Rightarrow>
       if \<not> fst (take_slot io w) then Some (QLA_FUNCTION_TIMEOUT, m, snd (take_slot io w))
       else let v = mbx_armed m w (snd (take_slot io w))
            in if hint_pending io v then Some (QLA_FUNCTION_TIMEOUT, m, free_slot_mbx (v\<lparr>mw_mbox_busy := False\<rparr>))
               else map_option (mbx_finish io (bit (base_dpc w) ABORT_ISP_ACTIVE) (mw_init_done w) m)
                      (mbx_wait io N (mbx_waits w (load_regs m (snd (take_slot io w)))) m v))"
proof (cases "mbx_refused m w")
  case None
  obtain got u where slot: "take_slot io w = (got, u)" by fastforce
  have tail: "(case mbx_collect m v of
                    (rv, True, m, w) \<Rightarrow> Some (rv, m, free_slot_mbx w)
                  | (rv, False, m, w) \<Rightarrow>
                    (let w = (if (a \<or> \<not> l) \<and> \<not> IS_NOPOLLING_TYPE w then qla2x00_poll io w else w)
                     in Some (rv, m,
                          if rv = QLA_FUNCTION_TIMEOUT \<and> mc_mb m ! 0 \<noteq> MBC_GEN_SYSTEM_ERROR
                          then mbx_escalate io a l m w
                          else free_slot_mbx w)))
      = Some (mbx_finish io a l m v)" for v a l
    by (cases "mbx_collect m v") (simp add: mbx_finish_def Let_def split: bool.split)
  show ?thesis
    unfolding qla2x00_mailbox_command_def Let_def None option.case slot prod.case tail [unfolded Let_def]
      mbx_wait_def mbx_armed_def mbx_waits_def fst_conv snd_conv
    by (cases "mbx_waits w (load_regs m u)") (auto simp: mbx_waits_def split: option.split)
qed (simp add: qla2x00_mailbox_command_def)

lemma armed_same: "same_req m m' \<Longrightarrow> mbx_armed m w v = mbx_armed m' w v"
  by (simp add: mbx_armed_def load_same)

lemma wait_same:
  assumes "same_req m m'"
  shows "mbx_wait io N b m v = mbx_wait io N b m' v"
proof -
  have "mc_tov m = mc_tov m'" using assms by (simp add: same_req_def)
  then show ?thesis by (simp add: mbx_wait_def same_req_0 [OF assms])
qed

definition status_of :: "int \<times> mbx_cmd \<times> mbx_world \<Rightarrow> int \<times> mbx_world" where
  "status_of r = (fst r, snd (snd r))"

lemma mbx_status_alt: "mbx_status issue m w = map_option status_of (issue m w)"
  by (cases "issue m w") (auto simp: mbx_status_def status_of_def)

lemma finish_same:
  assumes "same_req m m'"
  shows "status_of (mbx_finish io a l m v) = status_of (mbx_finish io a l m' v)"
proof -
  have world: "snd (snd (snd (mbx_collect m v))) = snd (snd (snd (mbx_collect m' v)))"
    using same_req_0 [OF assms] by (simp add: collect_world)
  have esc: "mbx_escalate io a l m u = mbx_escalate io a l m' u" for u
    using assms by (simp add: mbx_escalate_def same_req_def)
  show ?thesis
    unfolding mbx_finish_def Let_def status_of_def collect_rv collect_leaves world
    using same_req_0 [OF assms] by (cases "mw_mbox_int v") (simp_all add: collect_cmd esc)
qed

interpretation hs: mailbox "qla2x00_mailbox_command io N" for io N
proof
  fix m m' w
  assume same: "same_req m m'"
  have fin: "status_of \<circ> mbx_finish io a l m = status_of \<circ> mbx_finish io a l m'" for a l
    using finish_same [OF same] by (simp add: fun_eq_iff)
  show "mbx_status (qla2x00_mailbox_command io N) m w = mbx_status (qla2x00_mailbox_command io N) m' w"
  proof (cases "mbx_refused m w")
    case None
    then have "mbx_refused m' w = None" using refused_same by blast
    with None show ?thesis
      using armed_same [OF same, of w "snd (take_slot io w)"] load_same [OF same]
      by (auto simp: mbx_status_alt mailbox_command_phases Let_def option.map_comp fin wait_same [OF same]
          status_of_def)
  next
    case (Some n)
    then obtain n' where "mbx_refused m' w = Some n'" using refused_same [of m w m'] by (cases "mbx_refused m' w") auto
    with Some show ?thesis by (simp add: mbx_status_alt mailbox_command_phases status_of_def)
  qed
qed

section \<open>What a command leaves alone\<close>

definition keeps :: "mbx_io \<Rightarrow> (mbx_world \<Rightarrow> 'a) \<Rightarrow> bool" where
  "keeps io f \<longleftrightarrow> (\<forall>w. f (io_others io w) = f w)"

definition abort_keeps :: "mbx_io \<Rightarrow> (mbx_world \<Rightarrow> 'a) \<Rightarrow> bool" where
  "abort_keeps io f \<longleftrightarrow> (\<forall>w. f (snd (io_abort io w)) = f w)"

text \<open>A part of the state that none of the fields of the handshake belongs to.\<close>

locale untouched =
  fixes f :: "mbx_world \<Rightarrow> 'a"
  assumes upd: "f (w\<lparr>mw_mbox_busy := b\<rparr>) = f w" "f (w\<lparr>mw_mbox_int := b\<rparr>) = f w"
      "f (w\<lparr>mw_interrupt := b\<rparr>) = f w" "f (w\<lparr>mw_intr_wait := b\<rparr>) = f w" "f (w\<lparr>mw_mcp := p\<rparr>) = f w"
      "f (w\<lparr>mw_regs := r\<rparr>) = f w" "f (w\<lparr>mw_intr_comp := n\<rparr>) = f w" "f (w\<lparr>mw_jiffies := n\<rparr>) = f w"
      "f (w\<lparr>mw_log := es\<rparr>) = f w" "f (w\<lparr>mw_host := (mw_host w)\<lparr>dpc_flags := d\<rparr>\<rparr>) = f w"
    and out: "length xs = length (mw_mailbox_out w) \<Longrightarrow> f (w\<lparr>mw_mailbox_out := xs\<rparr>) = f w"
begin

lemma completion [simp]: "f (mbx_completion regs w) = f w"
  by (simp add: mbx_completion_def qla2x00_mbx_completion_def qla24xx_mbx_completion_def
      qla82xx_mbx_completion_def Let_def upd out)

lemma interrupt [simp]: "f (mbx_interrupt regs w) = f w"
  by (simp add: mbx_interrupt_def qla2x00_handle_mbx_completion_def upd)

lemma poll: "keeps io f \<Longrightarrow> f (qla2x00_poll io w) = f w"
  by (simp add: qla2x00_poll_def keeps_def Let_def split: option.split)

lemma deliver: "keeps io f \<Longrightarrow> f (deliver io w) = f w"
  by (simp add: deliver_def keeps_def Let_def split: option.split)

lemma wait_intr: "keeps io f \<Longrightarrow> f (wait_intr io w) = f w"
  by (simp add: wait_intr_def Let_def upd deliver)

lemma sleep: "keeps io f \<Longrightarrow> f (mbx_sleep io ms w) = f w"
  by (simp add: mbx_sleep_def keeps_def Let_def upd)

lemma poll_loop: "keeps io f \<Longrightarrow> poll_loop io c lim N w = Some v \<Longrightarrow> f v = f w"
proof (induction N arbitrary: w)
  case (Suc N)
  show ?case
    using Suc.prems Suc.IH [OF Suc.prems(1)]
    by (auto simp: Let_def sleep [OF Suc.prems(1)] poll [OF Suc.prems(1)] split: if_splits)
qed simp

lemma phase_wait: "keeps io f \<Longrightarrow> mbx_wait io N b m w = Some v \<Longrightarrow> f v = f w"
  by (auto simp: mbx_wait_def ring_mbx_def mbx_log_def upd wait_intr split: if_splits dest: poll_loop)

lemma armed [simp]: "f (mbx_armed m w v) = f v"
  by (simp add: mbx_armed_def load_regs_def Let_def upd)

lemma log [simp]: "f (mbx_log e w) = f w"
  by (simp add: mbx_log_def upd)

lemma collect [simp]: "f (snd (snd (snd (mbx_collect m w)))) = f w"
  by (simp add: collect_world upd)

lemma dpc [simp]: "f (mbx_dpc b v w) = f w"
  by (simp add: mbx_dpc_def upd)

lemma pause [simp]: "f (pause_off w) = f w"
  by (simp add: pause_off_def)

end

end
