(* ===== verification/Mbx_Claims.thy ===== *)
theory Mbx_Claims
  imports Mbx_Handshake
begin

text \<open>
  Properties of the mailbox command and of the commands that go through it: the slot, the state's
  typing, where a success comes from, what a time-out does, and that polling ends.
\<close>

section \<open>The slot and the typing\<close>

locale untouched_slot = untouched +
  assumes slot: "f (w\<lparr>mw_cmd_comp := c\<rparr>) = f w"
begin

lemma escalate: "abort_keeps io f \<Longrightarrow> f (mbx_escalate io a l m w) = f w"
  by (simp add: mbx_escalate_def Let_def split_beta free_slot_mbx_def slot abort_keeps_def if_distrib [of f])

lemma finish: "keeps io f \<Longrightarrow> abort_keeps io f \<Longrightarrow> f (snd (snd (mbx_finish io a l m w))) = f w"
  by (auto simp: mbx_finish_def Let_def escalate free_slot_mbx_def slot poll)

lemma take_slot: "keeps io f \<Longrightarrow> f (snd (take_slot io w)) = f w"
  by (auto simp: take_slot_def Let_def slot keeps_def)

lemma command:
  assumes "keeps io f" "abort_keeps io f" "qla2x00_mailbox_command io N m w = Some r"
  shows "f (snd (snd r)) = f w"
  using assms(3)
  by (auto simp: mailbox_command_phases Let_def take_slot [OF assms(1)] free_slot_mbx_def slot upd
      finish [OF assms(1,2)] split: option.splits if_splits dest!: phase_wait [OF assms(1)])

end

interpretation comp: untouched mw_cmd_comp
  by unfold_locales auto

interpretation cnt: untouched_slot mw_mbx_count
  by unfold_locales auto

interpretation outs: untouched_slot "\<lambda>w. length (mw_mailbox_out w)"
  by unfold_locales auto

interpretation dev: untouched_slot mw_dt
  by unfold_locales (auto simp: mw_dt_def)

lemma comp_escalate: "abort_keeps io mw_cmd_comp \<Longrightarrow> mw_cmd_comp (mbx_escalate io a l m w) = Suc (mw_cmd_comp w)"
  by (simp add: mbx_escalate_def Let_def split_beta free_slot_mbx_def abort_keeps_def if_distrib [of mw_cmd_comp])

lemma comp_finish:
  "keeps io mw_cmd_comp \<Longrightarrow> abort_keeps io mw_cmd_comp \<Longrightarrow>
    mw_cmd_comp (snd (snd (mbx_finish io a l m w))) = Suc (mw_cmd_comp w)"
  by (simp add: mbx_finish_def Let_def comp_escalate free_slot_mbx_def comp.poll)

text \<open>
  The mailbox slot is given back on every way out of qla2x00_mailbox_command: early return,
  premature exit, answer, time-out with or without a reset. Other contexts and abort_isp are only
  asked to do the same.
\<close>
theorem mailbox_slot_conserved:
  assumes "keeps io mw_cmd_comp" "abort_keeps io mw_cmd_comp"
    and "qla2x00_mailbox_command io N m w = Some (rv, n, v)"
  shows "mw_cmd_comp v = mw_cmd_comp w"
proof -
  define u where "u = snd (take_slot io w)"
  have u: "Suc (mw_cmd_comp u) = mw_cmd_comp w" if "fst (take_slot io w)"
    using that assms(1) by (auto simp: u_def take_slot_def Let_def keeps_def split: if_splits)
  have u': "mw_cmd_comp u = mw_cmd_comp w" if "\<not> fst (take_slot io w)"
    using that assms(1) by (auto simp: u_def take_slot_def Let_def keeps_def split: if_splits)
  have fin: "mw_cmd_comp v = Suc (mw_cmd_comp u)"
    if "mbx_wait io N b m (mbx_armed m w u) = Some x" "mbx_finish io a l m x = (rv, n, v)" for x a l b
    using comp_finish [OF assms(1,2), of a l m x] comp.phase_wait [OF assms(1) that(1)] that(2) by simp
  show ?thesis
    using assms(3) u u' fin
    by (auto simp: mailbox_command_phases Let_def free_slot_mbx_def u_def [symmetric]
        split: option.splits if_splits)
qed

section \<open>Polling ends\<close>

lemma jiffies_interrupt [simp]:
  "mw_jiffies (mbx_completion regs w) = mw_jiffies w" "mw_jiffies (mbx_interrupt regs w) = mw_jiffies w"
  by (simp_all add: mbx_interrupt_def mbx_completion_def qla2x00_mbx_completion_def qla24xx_mbx_completion_def
      qla82xx_mbx_completion_def qla2x00_handle_mbx_completion_def Let_def)

definition time_passes :: "mbx_io \<Rightarrow> bool" where
  "time_passes io \<longleftrightarrow> 100 \<le> io_hz io \<and> (\<forall>w. mw_jiffies w \<le> mw_jiffies (io_others io w))"

lemma jiffies_poll: "time_passes io \<Longrightarrow> mw_jiffies w \<le> mw_jiffies (qla2x00_poll io w)"
  by (simp add: time_passes_def qla2x00_poll_def Let_def split: option.split)

lemma jiffies_sleep: "time_passes io \<Longrightarrow> mw_jiffies w < mw_jiffies (mbx_sleep io 10 w)"
proof -
  assume t: "time_passes io"
  then have "1 \<le> 10 * io_hz io div 1000"
    using div_le_mono [of 1000 "10 * io_hz io" 1000] by (simp add: time_passes_def)
  moreover have "mw_jiffies w \<le> mw_jiffies (io_others io w)" using t by (simp add: time_passes_def)
  ultimately show ?thesis by (simp add: mbx_sleep_def Let_def)
qed

lemma poll_loop_stops: "mw_mbox_int w \<Longrightarrow> 0 < N \<Longrightarrow> poll_loop io c lim N w = Some w"
  by (cases N) auto

lemma poll_loop_ends:
  assumes "time_passes io" "keeps io mw_dt" "\<not> (IS_QLA2200 (mw_dt w) \<and> c = MBC_LOAD_RISC_RAM_EXTENDED)"
    and "lim + 2 - mw_jiffies w \<le> N" "0 < N"
  shows "\<exists>v. poll_loop io c lim N w = Some v"
  using assms(3-)
proof (induction N arbitrary: w)
  case (Suc N)
  let ?w = "qla2x00_poll io w"
  consider "mw_mbox_int w \<or> lim < mw_jiffies w"
    | "\<not> mw_mbox_int w" "\<not> lim < mw_jiffies w" "mw_mbox_int ?w"
    | "\<not> mw_mbox_int w" "\<not> lim < mw_jiffies w" "\<not> mw_mbox_int ?w" by blast
  then show ?case
  proof cases
    case 2
    then show ?thesis using Suc.prems poll_loop_stops [of ?w N io c lim] by (simp add: Let_def)
  next
    case 3
    have dt: "mw_dt ?w = mw_dt w" by (rule dev.poll [OF assms(2)])
    have later: "mw_jiffies w < mw_jiffies (mbx_sleep io 10 ?w)"
      using jiffies_poll [OF assms(1), of w] jiffies_sleep [OF assms(1), of ?w] by simp
    have "\<exists>v. poll_loop io c lim N (mbx_sleep io 10 ?w) = Some v"
      using Suc.prems later 3 dt dev.sleep [OF assms(2), of 10 ?w] by (intro Suc.IH) auto
    then show ?thesis using 3 Suc.prems dt by (auto simp: Let_def)
  qed simp
qed simp

lemma wait_returns:
  assumes "time_passes io" "keeps io mw_dt"
    and "\<not> (IS_QLA2200 (mw_dt u) \<and> mc_mb m ! 0 = MBC_LOAD_RISC_RAM_EXTENDED)"
    and "unat (mc_tov m) * io_hz io + 2 \<le> N"
  shows "\<exists>v. mbx_wait io N b m u = Some v"
proof -
  have "mw_dt (ring_mbx u) = mw_dt u" by (simp add: ring_mbx_def)
  then show ?thesis
    using poll_loop_ends [OF assms(1,2), of "ring_mbx u" "mc_mb m ! 0" "mw_jiffies u + unat (mc_tov m) * io_hz io" N]
      assms(3,4) by (auto simp: mbx_wait_def ring_mbx_def mbx_log_def)
qed


section \<open>Where a success comes from\<close>

definition quiet :: "mbx_io \<Rightarrow> bool" where
  "quiet io \<longleftrightarrow> keeps io mw_mcp \<and> keeps io mw_regs \<and> keeps io mw_mbox_int \<and> keeps io mw_mailbox_out
     \<and> keeps io mw_mbx_count \<and> keeps io mw_dt"

text \<open>\<open>v\<close> holds an answer the firmware gave while the command that \<open>w\<close> has sent was pending.\<close>

definition answered :: "mbx_io \<Rightarrow> mbx_world \<Rightarrow> mbx_world \<Rightarrow> bool" where
  "answered io w v \<longleftrightarrow> (\<exists>u regs. io_answer io u = Some regs \<and> mw_mcp u = mw_mcp w \<and> mw_regs u = mw_regs w
     \<and> mw_mbx_count u = mw_mbx_count w \<and> mw_mailbox_out u = mw_mailbox_out w
     \<and> mw_mailbox_out v = mw_mailbox_out (mbx_completion regs u))"

lemma completion_regs:
  assumes "i < length (mw_mailbox_out u)" "i < mw_mbx_count u" "i = 0 \<or> mw_mcp u = Some x \<and> bit x i"
  shows "mw_mailbox_out (mbx_completion regs u) ! i = regs i"
  using assms
  by (auto simp: mbx_completion_def qla2x00_mbx_completion_def qla24xx_mbx_completion_def qla82xx_mbx_completion_def Let_def)

lemma interrupt_out [simp]:
  "mw_mailbox_out (mbx_interrupt regs u) = mw_mailbox_out (mbx_completion regs u)"
  "mw_mbox_int (mbx_completion regs u)" "mw_mbox_int (mbx_interrupt regs u)"
  by (simp_all add: mbx_interrupt_def qla2x00_handle_mbx_completion_def mbx_completion_def
      qla2x00_mbx_completion_def qla24xx_mbx_completion_def qla82xx_mbx_completion_def Let_def)

lemma others_quiet:
  assumes "quiet io"
  shows "mw_mcp (io_others io w) = mw_mcp w" "mw_regs (io_others io w) = mw_regs w"
    "mw_mbox_int (io_others io w) = mw_mbox_int w" "mw_mailbox_out (io_others io w) = mw_mailbox_out w"
    "mw_mbx_count (io_others io w) = mw_mbx_count w"
  using assms by (simp_all add: quiet_def keeps_def)

lemma answered_at:
  assumes "quiet io" "io_answer io (io_others io w) = Some regs"
    and "mw_mailbox_out v = mw_mailbox_out (mbx_completion regs (io_others io w))"
  shows "answered io w v"
  unfolding answered_def using assms(2,3) others_quiet [OF assms(1)] by blast

lemma poll_answered:
  assumes "quiet io"
  shows "io_answer io (io_others io w) \<noteq> None \<Longrightarrow> answered io w (qla2x00_poll io w) \<and> mw_mbox_int (qla2x00_poll io w)"
    "io_answer io (io_others io w) = None \<Longrightarrow> qla2x00_poll io w = io_others io w"
  using answered_at [OF assms, of w _ "qla2x00_poll io w"] by (auto simp: qla2x00_poll_def Let_def)

lemma wait_intr_answered:
  assumes "quiet io" "\<not> mw_mbox_int w" "mw_mbox_int (wait_intr io w)"
  shows "answered io w (wait_intr io w)"
proof (cases "mw_intr_comp w > 0")
  case False
  then obtain regs where r: "io_answer io (io_others io w) = Some regs"
    using assms by (auto simp: wait_intr_def deliver_def Let_def others_quiet [OF assms(1)] split: option.splits if_splits)
  have "mw_mailbox_out (wait_intr io w) = mw_mailbox_out (mbx_completion regs (io_others io w))"
    using False r by (simp add: wait_intr_def deliver_def Let_def)
  with r show ?thesis by (rule answered_at [OF assms(1)])
qed (use assms in \<open>simp add: wait_intr_def\<close>)

lemma answered_trans:
  "answered io u v \<Longrightarrow> mw_mcp u = mw_mcp w \<Longrightarrow> mw_regs u = mw_regs w \<Longrightarrow> mw_mbx_count u = mw_mbx_count w \<Longrightarrow>
    mw_mailbox_out u = mw_mailbox_out w \<Longrightarrow> answered io w v"
  unfolding answered_def by metis

lemma poll_loop_answered:
  assumes "quiet io"
  shows "poll_loop io c lim N w = Some v \<Longrightarrow> \<not> mw_mbox_int w \<Longrightarrow> mw_mbox_int v \<Longrightarrow> answered io w v"
proof (induction N arbitrary: w)
  case (Suc N)
  have late: "\<not> lim < mw_jiffies w" using Suc.prems by auto
  show ?case
  proof (cases "io_answer io (io_others io w)")
    case None
    let ?u = "if IS_QLA2200 (mw_dt (io_others io w)) \<and> c = MBC_LOAD_RISC_RAM_EXTENDED
      then io_others io w else mbx_sleep io 10 (io_others io w)"
    have u: "mw_mcp ?u = mw_mcp w" "mw_regs ?u = mw_regs w" "mw_mbx_count ?u = mw_mbx_count w"
        "mw_mailbox_out ?u = mw_mailbox_out w" "\<not> mw_mbox_int ?u"
      using Suc.prems by (simp_all add: others_quiet [OF assms] mbx_sleep_def Let_def)
    have "poll_loop io c lim N ?u = Some v"
      using Suc.prems late None
      by (cases "IS_QLA2200 (mw_dt (io_others io w)) \<and> c = MBC_LOAD_RISC_RAM_EXTENDED")
        (auto simp: Let_def poll_answered(2) [OF assms] others_quiet [OF assms])
    then show ?thesis using Suc.IH [of ?u] Suc.prems u by (blast intro: answered_trans)
  next
    case (Some regs)
    then have a: "answered io w (qla2x00_poll io w)" "mw_mbox_int (qla2x00_poll io w)"
      using poll_answered(1) [OF assms, of w] by simp_all
    have "poll_loop io c lim N (qla2x00_poll io w) = Some v"
      using Suc.prems late a(2) by (simp add: Let_def)
    then have "v = qla2x00_poll io w" using a(2) poll_loop_stops [of "qla2x00_poll io w" N] by (cases N) auto
    with a show ?thesis by simp
  qed
qed simp

lemma wait_answered:
  assumes "quiet io" "mbx_wait io N b m w = Some v" "\<not> mw_mbox_int w" "mw_mbox_int v"
  shows "answered io w v"
proof -
  have "answered io (ring_mbx w) v"
    using assms wait_intr_answered [of io "ring_mbx w"] poll_loop_answered [of io _ _ N "ring_mbx w" v]
    by (auto simp: mbx_wait_def ring_mbx_def mbx_log_def split: if_splits)
  then show ?thesis by (rule answered_trans) (simp_all add: ring_mbx_def mbx_log_def)
qed

lemma armed_regs:
  "mw_mcp (mbx_armed m w v) = Some (mc_in m)" "\<not> mw_mbox_int (mbx_armed m w v)"
  "mw_mailbox_out (mbx_armed m w v) = mw_mailbox_out v"
  "i < mw_mbx_count v \<Longrightarrow> bit (mc_out m) i \<Longrightarrow> mw_regs (mbx_armed m w v) i = mc_mb m ! i"
  by (simp_all add: mbx_armed_def load_regs_def Let_def)

lemma collect_success:
  assumes "fst (mbx_collect m v) = QLA_SUCCESS"
  shows "mw_mbox_int v" "mw_mailbox_out v ! 0 = MBS_COMMAND_COMPLETE"
    "fst (snd (snd (mbx_collect m v))) = take_regs v m"
  using assms by (auto simp: mbx_collect_def Let_def mw_dt_def take_regs_def split: if_splits)

lemma finish_success:
  assumes "mbx_finish io a l m v = (QLA_SUCCESS, n, x)"
  shows "mw_mbox_int v" "mw_mailbox_out v ! 0 = MBS_COMMAND_COMPLETE" "n = take_regs v m"
  using assms collect_success [of m v] by (auto simp: mbx_finish_def Let_def split: if_splits)

lemma success_answered:
  assumes "quiet io" "stack_cmd m" "length (mw_mailbox_out w) = 32" "0 < mw_mbx_count w" "mw_mbx_count w \<le> 32"
    and "qla2x00_mailbox_command io N m w = Some (QLA_SUCCESS, n, v)"
  obtains u regs where "io_answer io u = Some regs" "mw_mcp u = Some (mc_in m)" "regs 0 = MBS_COMMAND_COMPLETE"
    "\<And>i. i < mw_mbx_count w \<Longrightarrow> bit (mc_out m) i \<Longrightarrow> mw_regs u i = mc_mb m ! i"
    "\<And>i. i < mw_mbx_count w \<Longrightarrow> bit (mc_in m) i \<Longrightarrow> mc_mb n ! i = regs i"
proof -
  define s where "s = snd (take_slot io w)"
  define x where "x = mbx_armed m w s"
  obtain y a b l where y: "mbx_wait io N b m x = Some y" and f: "mbx_finish io a l m y = (QLA_SUCCESS, n, v)"
    using assms(6) by (auto simp: mailbox_command_phases Let_def s_def x_def split: option.splits if_splits)
  have cnt: "mw_mbx_count s = mw_mbx_count w" "mw_mbx_count y = mw_mbx_count w" "mw_mailbox_out x = mw_mailbox_out w"
    using assms(1) cnt.take_slot [of io w] cnt.phase_wait [OF _ y]
    by (auto simp: x_def s_def quiet_def armed_regs take_slot_def Let_def keeps_def)
  obtain u regs where u: "io_answer io u = Some regs" "mw_mcp u = Some (mc_in m)" "mw_regs u = mw_regs x"
      "mw_mbx_count u = mw_mbx_count w" "mw_mailbox_out u = mw_mailbox_out w"
      "mw_mailbox_out y = mw_mailbox_out (mbx_completion regs u)"
    using wait_answered [OF assms(1) y] finish_success(1) [OF f] cnt
    by (auto simp: x_def armed_regs answered_def)
  have out: "mw_mailbox_out y ! i = regs i" if "i < mw_mbx_count w" "i = 0 \<or> bit (mc_in m) i" for i
    using completion_regs [of i u "mc_in m" regs] that assms(3,5) u by auto
  show ?thesis
  proof (rule that [OF u(1,2)])
    show "regs 0 = MBS_COMMAND_COMPLETE" using out [of 0] assms(4) finish_success(2) [OF f] by simp
    show "mw_regs u i = mc_mb m ! i" if "i < mw_mbx_count w" "bit (mc_out m) i" for i
      using that u(3) cnt(1) armed_regs(4) [of i s m w] by (simp add: x_def)
    show "mc_mb n ! i = regs i" if "i < mw_mbx_count w" "bit (mc_in m) i" for i
      using out [OF that(1)] that assms(2,5) cnt(2) finish_success(3) [OF f] by (simp add: take_regs_def stack_cmd_def)
  qed
qed

text \<open>
  C21. A success is sound: when qla2x00_mailbox_command returns QLA_SUCCESS, the firmware has answered
  while exactly this command was pending (its registers were loaded, its mask of answers was set), the
  answer said "command complete", and every register the caller asked for holds that answer.
\<close>
theorem mailbox_success_sound:
  assumes "quiet io" "stack_cmd m" "length (mw_mailbox_out w) = 32" "0 < mw_mbx_count w" "mw_mbx_count w \<le> 32"
    and "qla2x00_mailbox_command io N m w = Some (QLA_SUCCESS, n, v)"
  shows "\<exists>u regs. io_answer io u = Some regs \<and> mw_mcp u = Some (mc_in m)
    \<and> (\<forall>i < mw_mbx_count w. bit (mc_out m) i \<longrightarrow> mw_regs u i = mc_mb m ! i)
    \<and> regs 0 = MBS_COMMAND_COMPLETE
    \<and> (\<forall>i < mw_mbx_count w. bit (mc_in m) i \<longrightarrow> mc_mb n ! i = regs i)"
  using success_answered [OF assms] by metis

text \<open>
  A register of the caller's stack reaches the firmware: qla24xx_set_fcp_prio sends register 3
  without setting it, so the firmware runs a successful command with what the stack held there.
\<close>
theorem fcp_prio_sends_stack:
  assumes "quiet io" "stack_cmd junk" "length (mw_mailbox_out w) = 32" "3 < mw_mbx_count w" "mw_mbx_count w \<le> 32"
    and "qla24xx_set_fcp_prio (qla2x00_mailbox_command io N) junk loop prio w = Some (QLA_SUCCESS, out, v)"
  shows "\<exists>u regs. io_answer io u = Some regs \<and> regs 0 = MBS_COMMAND_COMPLETE
    \<and> mw_regs u 0 = MBC_PORT_PARAMS \<and> mw_regs u 3 = mc_mb junk ! 3"
proof -
  define m where "m = mbx_req junk [(0, MBC_PORT_PARAMS), (1, loop),
      (2, if fcp_prio_enabled (mw_fw w) then BIT 1 else BIT 2), (4, prio AND 0xf), (9, vp_idx (mw_host w))]
      [9, 4, 3, 2, 1, 0] [4, 3, 1, 0] 30 0"
  have m: "stack_cmd m" "mc_mb m ! 3 = mc_mb junk ! 3" "mc_mb m ! 0 = MBC_PORT_PARAMS"
      "bit (mc_out m) 3" "bit (mc_out m) 0"
    using assms(2) by (simp_all add: m_def mbx_req_def stack_cmd_def set_regs_def)
  obtain n where "qla2x00_mailbox_command io N m w = Some (QLA_SUCCESS, n, v)"
    using assms(6)
    by (auto simp: qla24xx_set_fcp_prio_def m_def Let_def QLA_SUCCESS_def QLA_FUNCTION_FAILED_def
        split: if_splits bind_splits)
  then obtain u regs where "io_answer io u = Some regs" "regs 0 = MBS_COMMAND_COMPLETE"
      "\<And>i. i < mw_mbx_count w \<Longrightarrow> bit (mc_out m) i \<Longrightarrow> mw_regs u i = mc_mb m ! i"
    using success_answered [OF assms(1) m(1) assms(3) _ assms(5)] assms(4) by (metis gr_implies_not0 neq0_conv)
  then show ?thesis using m assms(4) by (intro exI [of _ u] exI [of _ regs]) auto
qed

section \<open>What the stack holds is not sent\<close>

context mailbox
begin

text \<open>The wrappers whose every register is set; each is a \<open>status_same\<close> under its guards.\<close>

lemma ram_same:
  "stack_cmd junk \<Longrightarrow> stack_cmd junk' \<Longrightarrow>
    mbx_status issue (ram_req e p dt junk a r n) w = mbx_status issue (ram_req e p dt junk' a r n) w"
  unfolding ram_req_def Let_def dma_regs_def by (rule status_same) (simp_all add: all_set_def)

lemma firmware_same:
  assumes "stack_cmd junk" "stack_cmd junk'"
  shows "qla2x00_load_ram issue junk a r n w = qla2x00_load_ram issue junk' a r n w"
    "qla2x00_dump_ram issue junk a r n w = qla2x00_dump_ram issue junk' a r n w"
    "qla2x00_execute_fw issue junk r w = qla2x00_execute_fw issue junk' r w"
    "qla2x00_verify_checksum issue junk r w = qla2x00_verify_checksum issue junk' r w"
  unfolding qla2x00_load_ram_def qla2x00_dump_ram_def qla2x00_execute_fw_def qla2x00_verify_checksum_def Let_def
  subgoal by (rule ram_same [OF assms])
  subgoal by (rule ram_same [OF assms])
  subgoal by (cases "IS_FWI2_CAPABLE (mw_dt w)") (simp_all add: status_same [OF assms] all_set_def)
  subgoal by (cases "IS_FWI2_CAPABLE (mw_dt w)") (simp_all add: status_same [OF assms] all_set_def)
  done

lemma init_same:
  assumes "stack_cmd junk" "stack_cmd junk'"
  shows "qla2x00_init_firmware issue junk b w = qla2x00_init_firmware issue junk' b w"
  unfolding qla2x00_init_firmware_def Let_def dma_regs_def
  by (rule status_same [OF assms]) (simp_all add: all_set_def split: option.split)

lemma reset_same:
  assumes "stack_cmd junk" "stack_cmd junk'"
  shows "qla2x00_abort_command issue junk sp w = qla2x00_abort_command issue junk' sp w"
    "qla2x00_abort_target issue junk k fc w = qla2x00_abort_target issue junk' k fc w"
    "qla2x00_lun_reset issue junk k fc l w = qla2x00_lun_reset issue junk' k fc l w"
    "qla2x00_lip_reset issue junk w = qla2x00_lip_reset issue junk' w"
    "qla2x00_full_login_lip issue junk w = qla2x00_full_login_lip issue junk' w"
    "qla24xx_link_initialize issue junk w = qla24xx_link_initialize issue junk' w"
    "qla2x00_send_sns issue junk a c w = qla2x00_send_sns issue junk' a c w"
  unfolding qla2x00_abort_command_def qla2x00_abort_target_def qla2x00_lun_reset_def qla2x00_lip_reset_def
    qla2x00_full_login_lip_def qla24xx_link_initialize_def qla2x00_send_sns_def dma_regs_def Let_def
  subgoal by (simp add: status_same [OF assms] all_set_def cong: option.case_cong)
  subgoal by (rule arg_cong [where f = "map_option f" for f], rule status_same [OF assms]) (simp_all add: all_set_def)
  subgoal by (rule arg_cong [where f = "map_option f" for f], rule status_same [OF assms]) (simp_all add: all_set_def)
  subgoal by (cases "IS_CNA_CAPABLE (mw_dt w)"; cases "IS_FWI2_CAPABLE (mw_dt w)")
    (simp_all add: status_same [OF assms] all_set_def)
  subgoal by (simp add: status_same [OF assms] all_set_def)
  subgoal by (simp add: status_same [OF assms] all_set_def)
  subgoal by (simp add: status_same [OF assms] all_set_def)
  done

lemma issue_iocb_alt:
  "qla2x00_issue_iocb_timeout issue junk a tov w =
    map_option (\<lambda>(rv, v). (rv, if rv = QLA_SUCCESS
        then put_mem a (put8 0 ENTRY_STATUS_OFF (get8 0 ENTRY_STATUS_OFF (mw_mem v a)
               AND (if IS_FWI2_CAPABLE (mw_dt w) then RF_MASK_24XX else RF_MASK)) (mw_mem v a)) v else v))
      (mbx_status issue (mbx_req junk ([(0, MBC_IOCB_COMMAND_A64), (1, 0)] @ dma_regs a)
        [7, 6, 3, 2, 1, 0] [2, 0] tov 0) w)"
  by (cases "issue (mbx_req junk ([(0, MBC_IOCB_COMMAND_A64), (1, 0)] @ dma_regs a)
        [7, 6, 3, 2, 1, 0] [2, 0] tov 0) w") (auto simp: qla2x00_issue_iocb_timeout_def mbx_status_def Let_def)

lemma issue_iocb_same:
  assumes "stack_cmd junk" "stack_cmd junk'"
  shows "qla2x00_issue_iocb_timeout issue junk a tov w = qla2x00_issue_iocb_timeout issue junk' a tov w"
    "qla2x00_issue_iocb issue junk a w = qla2x00_issue_iocb issue junk' a w"
  unfolding qla2x00_issue_iocb_def issue_iocb_alt dma_regs_def
  by (simp_all add: status_same [OF assms] all_set_def)

lemma entry_same:
  assumes "stack_cmd junk" "stack_cmd junk'"
  shows "qla24xx_login_fabric issue junk pool loop fc mb opt w = qla24xx_login_fabric issue junk' pool loop fc mb opt w"
    "qla24xx_fabric_logout issue junk pool mq loop fc w = qla24xx_fabric_logout issue junk' pool mq loop fc w"
    "qla24xx_abort_command issue junk pool async sp w = qla24xx_abort_command issue junk' pool async sp w"
    "qla24xx_issue_tmf issue junk k pool t fc l w = qla24xx_issue_tmf issue junk' k pool t fc l w"
    "qla24xx_modify_vp_config issue junk pool w = qla24xx_modify_vp_config issue junk' pool w"
    "qla24xx_control_vp issue junk pool c w = qla24xx_control_vp issue junk' pool c w"
  unfolding qla24xx_login_fabric_def qla24xx_fabric_logout_def qla24xx_abort_command_def qla24xx_issue_tmf_def
    qla24xx_modify_vp_config_def qla24xx_control_vp_def issue_iocb_same [OF assms] by (rule refl)+

end

end
