(* ===== verification/Mbx_Props.thy ===== *)
theory Mbx_Props
  imports Mbx_Claims Start_Scsi
begin

text \<open>
  The mailbox command put to use: typing, time-outs, the late answer, what is sent from the stack,
  and the samples on which the properties of Mbx_Claims are applied.
\<close>

section \<open>Typing\<close>

definition mbx_wf :: "mbx_world \<Rightarrow> bool" where
  "mbx_wf w \<longleftrightarrow> length (mw_mailbox_out w) = 32 \<and> mw_mbx_count w \<le> 32"

lemma stack_collect: "stack_cmd m \<Longrightarrow> stack_cmd (fst (snd (snd (mbx_collect m w))))"
  by (simp add: mbx_collect_def Let_def stack_cmd_def take_regs_def)

lemma stack_finish: "stack_cmd m \<Longrightarrow> stack_cmd (fst (snd (mbx_finish io a l m w)))"
  by (simp add: mbx_finish_def Let_def stack_collect)

lemma stack_refused: "mbx_refused m w = Some n \<Longrightarrow> stack_cmd m \<Longrightarrow> stack_cmd n"
  by (auto simp: mbx_refused_def stack_cmd_def split: if_splits)

lemma finish_rv: "fst (mbx_finish io a l m w) \<in> {QLA_SUCCESS, QLA_FUNCTION_FAILED, QLA_FUNCTION_TIMEOUT}"
  by (simp add: mbx_finish_def Let_def collect_rv)


section \<open>Time-outs\<close>

text \<open>The firmware never answers; the other contexts leave the port and the log alone.\<close>

definition silent :: "mbx_io \<Rightarrow> bool" where
  "silent io \<longleftrightarrow> (\<forall>w. io_answer io w = None) \<and> (\<forall>w. io_hint io w = 0) \<and> quiet io
     \<and> keeps io mw_host \<and> keeps io mw_log \<and> (\<forall>w. set (mw_log w) \<subseteq> set (mw_log (snd (io_abort io w))))"

lemma silent_others:
  assumes "silent io"
  shows "mw_host (io_others io w) = mw_host w" "mw_log (io_others io w) = mw_log w"
    "mw_mbox_int (io_others io w) = mw_mbox_int w"
  using assms by (auto simp: silent_def keeps_def others_quiet)

lemma silent_poll:
  assumes "silent io"
  shows "qla2x00_poll io w = io_others io w"
  using assms by (simp add: silent_def qla2x00_poll_def Let_def)

definition same_port :: "mbx_world \<Rightarrow> mbx_world \<Rightarrow> bool" where
  "same_port w v \<longleftrightarrow> mw_host v = mw_host w \<and> mw_log v = mw_log w \<and> mw_mbox_int v = mw_mbox_int w"

lemma silent_loop:
  assumes "silent io"
  shows "poll_loop io c lim N w = Some v \<Longrightarrow> \<not> mw_mbox_int w \<Longrightarrow> same_port w v"
proof (induction N arbitrary: w)
  case (Suc N)
  then show ?case
    by (fastforce simp: Let_def silent_poll [OF assms] silent_others [OF assms] mbx_sleep_def same_port_def
        split: if_splits)
qed simp

lemma silent_wait:
  assumes "silent io" "mbx_wait io N b m w = Some v" "\<not> mw_mbox_int w"
  shows "mw_host v = mw_host w" "Doorbell (mw_regs w) \<in> set (mw_log v)" "\<not> mw_mbox_int v"
proof -
  have "same_port (ring_mbx w) v"
    using assms silent_loop [OF assms(1), of _ _ N "ring_mbx w" v]
    by (cases b) (auto simp: mbx_wait_def same_port_def wait_intr_def deliver_def Let_def silent_others [OF assms(1)]
        silent_def ring_mbx_def mbx_log_def split: if_splits)
  then show "mw_host v = mw_host w" "Doorbell (mw_regs w) \<in> set (mw_log v)" "\<not> mw_mbox_int v"
    using assms(3) by (auto simp: same_port_def ring_mbx_def mbx_log_def)
qed

text \<open>The reset is under way, or asked for.\<close>

definition reset_asked :: "mbx_world \<Rightarrow> bool" where
  "reset_asked w \<longleftrightarrow> reset_pending w \<or> Abort_isp \<in> set (mw_log w)"

lemma log_steps [simp]: "mw_log (mbx_dpc b x w) = mw_log w" "mw_log (free_slot_mbx w) = mw_log w"
    "mw_log (mbx_log e w) = e # mw_log w"
  by (simp_all add: mbx_dpc_def free_slot_mbx_def mbx_log_def)

lemma log_pause: "set (mw_log w) \<subseteq> set (mw_log (pause_off w))"
  by (auto simp: pause_off_def)

lemma dpc_set [simp]: "b < 64 \<Longrightarrow> test_dpc b (mbx_dpc b True w)"
  by (simp add: test_dpc_def mbx_dpc_def bit_or_iff)

lemma escalate_asks:
  assumes "silent io"
  shows "a \<or> reset_asked (mbx_escalate io a l m w)" "set (mw_log w) \<subseteq> set (mw_log (mbx_escalate io a l m w))"
proof -
  have ab: "set (mw_log u) \<subseteq> set (mw_log (snd (io_abort io u)))" for u
    using assms by (simp add: silent_def)
  have ended: "mw_log (mbx_dpc b x (if y then mbx_dpc b' x' u else u)) = mw_log u" for b x b' x' y u by simp
  have pend: "reset_pending (free_slot_mbx u) = reset_pending u" "reset_pending (mbx_log e u) = reset_pending u" for e u
    by (simp_all add: reset_pending_def test_dpc_def free_slot_mbx_def mbx_log_def)
  have need: "reset_pending (mbx_dpc ISP_ABORT_NEEDED True u)" for u
    by (simp add: reset_pending_def) (simp add: ISP_ABORT_NEEDED_def)
  show "a \<or> reset_asked (mbx_escalate io a l m w)"
    using ab [of "mbx_log Abort_isp (free_slot_mbx (mbx_dpc ISP_ABORT_NEEDED False (mbx_dpc ABORT_ISP_ACTIVE True (pause_off w))))"]
    by (auto simp: mbx_escalate_def reset_asked_def Let_def split_beta ended pend need)
  show "set (mw_log w) \<subseteq> set (mw_log (mbx_escalate io a l m w))"
    using ab [of "mbx_log Abort_isp (free_slot_mbx (mbx_dpc ISP_ABORT_NEEDED False (mbx_dpc ABORT_ISP_ACTIVE True (pause_off w))))"]
    by (auto simp: mbx_escalate_def Let_def split_beta ended dest: subsetD [OF log_pause])
qed

text \<open>
  C22. A firmware that never answers is noticed: the command returns QLA_FUNCTION_TIMEOUT after it has
  rung the doorbell with the caller's registers, the firmware is dumped, and a reset of the adapter
  has been run, is under way or is asked for.
\<close>
theorem silent_firmware_reset:
  assumes "silent io" "mbx_refused m w = None" "0 < mw_cmd_comp w" "mc_mb m ! 0 \<noteq> MBC_GEN_SYSTEM_ERROR"
    and "time_passes io" "\<not> (IS_QLA2200 (mw_dt w) \<and> mc_mb m ! 0 = MBC_LOAD_RISC_RAM_EXTENDED)"
    and "unat (mc_tov m) * io_hz io + 2 \<le> N"
  shows "\<exists>v regs. qla2x00_mailbox_command io N m w = Some (QLA_FUNCTION_TIMEOUT, m, v)
    \<and> Doorbell regs \<in> set (mw_log v) \<and> (\<forall>i < mw_mbx_count w. bit (mc_out m) i \<longrightarrow> regs i = mc_mb m ! i)
    \<and> Fw_dump \<in> set (mw_log v) \<and> (bit (base_dpc w) ABORT_ISP_ACTIVE \<or> reset_asked v)"
proof -
  define s where "s = w\<lparr>mw_cmd_comp := mw_cmd_comp w - 1\<rparr>"
  have s: "take_slot io w = (True, s)" using assms(3) by (simp add: take_slot_def s_def)
  define x where "x = mbx_armed m w s"
  define a where "a = bit (base_dpc w) ABORT_ISP_ACTIVE"
  have hint: "\<not> hint_pending io x" using assms(1) by (simp add: hint_pending_def silent_def)
  have "mw_dt s = mw_dt w" by (simp add: s_def mw_dt_def)
  then have dt: "keeps io mw_dt" "mw_dt x = mw_dt w" using assms(1) by (simp_all add: silent_def quiet_def x_def)
  obtain y where y: "mbx_wait io N (mbx_waits w (load_regs m s)) m x = Some y"
    using wait_returns [OF assms(5) dt(1), of x m N] dt(2) assms(6,7) by fastforce
  define r where "r = mbx_finish io a (mw_init_done w) m y"
  have r: "qla2x00_mailbox_command io N m w = Some r"
    using y assms(2) hint by (simp add: mailbox_command_phases Let_def s x_def a_def r_def)
  have int: "\<not> mw_mbox_int x" by (simp add: x_def armed_regs)
  note y' = silent_wait [OF assms(1) y int]
  define z where "z = (mbx_log Fw_dump y)\<lparr>mw_mbox_busy := False, mw_mcp := None\<rparr>"
  define z' where "z' = (if (a \<or> \<not> mw_init_done w) \<and> \<not> IS_NOPOLLING_TYPE z then qla2x00_poll io z else z)"
  have log: "mw_log z' = Fw_dump # mw_log y"
    by (simp add: z'_def z_def silent_poll [OF assms(1)] silent_others [OF assms(1)])
  have run: "r = (QLA_FUNCTION_TIMEOUT, m, mbx_escalate io a (mw_init_done w) m z')"
    using y'(3) assms(4) by (simp add: r_def mbx_finish_def Let_def collect_rv collect_leaves collect_cmd collect_world
        z'_def z_def)
  have regs: "mw_regs x i = mc_mb m ! i" if "i < mw_mbx_count w" "bit (mc_out m) i" for i
    using that armed_regs(4) [of i s m w] by (simp add: x_def s_def)
  show ?thesis
    using r run log y'(2) regs escalate_asks [OF assms(1), where a = a and l = "mw_init_done w" and m = m and w = z']
    by (intro exI [of _ "mbx_escalate io a (mw_init_done w) m z'"] exI [of _ "mw_regs x"]) (auto simp: a_def)
qed

section \<open>An answer that comes too late\<close>

lemma waits_again:
  assumes "mbx_waits w u" "mw_dt v = mw_dt u" "mw_msix_enabled v = mw_msix_enabled u"
    and "base_dpc w' = base_dpc w" "mw_init_done w' = mw_init_done w"
  shows "mbx_waits w' v"
  using assms by (simp add: mbx_waits_def IS_NOPOLLING_TYPE_def)

text \<open>The completion of an answer nobody waits for any more is taken by the next command.\<close>

lemma stale_completion:
  assumes "mbx_refused m w = None" "0 < mw_cmd_comp w" "0 < mw_intr_comp w" "mbx_waits w (load_regs m w)"
    and "\<And>u. \<not> hint_pending io u"
  shows "\<exists>v. qla2x00_mailbox_command io N m w = Some (QLA_FUNCTION_TIMEOUT, m, v)"
proof -
  define s where "s = w\<lparr>mw_cmd_comp := mw_cmd_comp w - 1\<rparr>"
  have s: "take_slot io w = (True, s)" using assms(2) by (simp add: take_slot_def s_def)
  have waits: "mbx_waits w (load_regs m s)"
    by (rule waits_again [OF assms(4)]) (simp_all add: s_def load_regs_def mw_dt_def)
  have int: "mw_intr_comp (ring_mbx (mbx_armed m w s)) > 0" "\<not> mw_mbox_int (ring_mbx (mbx_armed m w s))"
    using assms(3) by (simp_all add: ring_mbx_def mbx_log_def mbx_armed_def load_regs_def s_def Let_def)
  then have "\<not> mw_mbox_int (wait_intr io (ring_mbx (mbx_armed m w s)))" by (simp add: wait_intr_def Let_def)
  then have "\<exists>v. mbx_finish io a l m (wait_intr io (ring_mbx (mbx_armed m w s))) = (QLA_FUNCTION_TIMEOUT, m, v)" for a l
    by (simp add: mbx_finish_def Let_def collect_rv collect_leaves collect_cmd)
  then show ?thesis
    using assms(1,5) waits by (simp add: mailbox_command_phases Let_def s mbx_wait_def)
qed

text \<open>
  C25. The premature exit for a pending doorbell (P3P adapters) leaves the command armed: ha->mcp still
  points to the caller's stack frame and MBX_INTR_WAIT stays set. When the firmware's answer comes, it
  completes mbx_intr_comp for nobody, and the next command, whatever it is and however fast the
  firmware answers it, times out at once.
\<close>
theorem late_answer_times_out:
  assumes "mbx_refused m w = None" "0 < mw_cmd_comp w" "hint_pending io (mbx_armed m w (snd (take_slot io w)))"
    and "mbx_waits w (load_regs m w)"
  shows "\<exists>v. qla2x00_mailbox_command io N m w = Some (QLA_FUNCTION_TIMEOUT, m, v)
    \<and> mw_mcp v = Some (mc_in m) \<and> mw_intr_wait v
    \<and> (\<forall>regs io' N' m'. mbx_refused m' (mbx_interrupt regs v) = None \<longrightarrow> (\<forall>u. \<not> hint_pending io' u) \<longrightarrow>
         (\<exists>v'. qla2x00_mailbox_command io' N' m' (mbx_interrupt regs v) = Some (QLA_FUNCTION_TIMEOUT, m', v')))"
proof -
  define s where "s = w\<lparr>mw_cmd_comp := mw_cmd_comp w - 1\<rparr>"
  have s: "take_slot io w = (True, s)" using assms(2) by (simp add: take_slot_def s_def)
  define v where "v = free_slot_mbx (mbx_armed m w s\<lparr>mw_mbox_busy := False\<rparr>)"
  have waits: "mbx_waits w (load_regs m s)"
    by (rule waits_again [OF assms(4)]) (simp_all add: s_def load_regs_def mw_dt_def)
  have v: "mw_mcp v = Some (mc_in m)" "mw_intr_wait v" "mw_cmd_comp v > 0" "mw_host v = mw_host w"
      "mw_base_dpc v = mw_base_dpc w" "mw_init_done v = mw_init_done w" "mw_msix_enabled v = mw_msix_enabled w"
    using waits by (simp_all add: v_def free_slot_mbx_def mbx_armed_def load_regs_def Let_def s_def)
  have run: "qla2x00_mailbox_command io N m w = Some (QLA_FUNCTION_TIMEOUT, m, v)"
    using assms(1,3) by (simp add: mailbox_command_phases Let_def s v_def)
  have after: "mw_intr_comp (mbx_interrupt regs v) > 0" "mw_cmd_comp (mbx_interrupt regs v) > 0"
      "mbx_waits (mbx_interrupt regs v) (load_regs m' (mbx_interrupt regs v))" for regs m'
  proof -
    have i: "mbx_interrupt regs v = (mbx_completion regs v)\<lparr>mw_interrupt := True, mw_intr_wait := False,
        mw_intr_comp := mw_intr_comp v + 1\<rparr>" "mw_host (mbx_completion regs v) = mw_host v"
        "mw_base_dpc (mbx_completion regs v) = mw_base_dpc v" "mw_init_done (mbx_completion regs v) = mw_init_done v"
        "mw_msix_enabled (mbx_completion regs v) = mw_msix_enabled v" "mw_cmd_comp (mbx_completion regs v) = mw_cmd_comp v"
      using v(2) by (simp_all add: mbx_interrupt_def qla2x00_handle_mbx_completion_def mbx_completion_def
          qla2x00_mbx_completion_def qla24xx_mbx_completion_def qla82xx_mbx_completion_def Let_def)
    show "mw_intr_comp (mbx_interrupt regs v) > 0" "mw_cmd_comp (mbx_interrupt regs v) > 0"
      using v(3) by (simp_all add: i)
    show "mbx_waits (mbx_interrupt regs v) (load_regs m' (mbx_interrupt regs v))"
      by (rule waits_again [OF waits]) (auto simp: i v base_dpc_def load_regs_def s_def mw_dt_def split: option.split)
  qed
  show ?thesis
    using run v(1,2) stale_completion [OF _ after(2) after(1) after(3)] by blast
qed

section \<open>What the stack holds\<close>

text \<open>
  The mbx_cmd_t of the wrappers is not initialised, and yet what they do - the status, the state
  they leave, the registers the firmware sees - does not depend on what the stack held: loading and
  starting the firmware, initialising it, aborts, resets, name-server requests, and everything that
  goes through an entry (logins, logouts, aborts, task management, virtual ports).
\<close>
theorem commands_ignore_stack:
  assumes "stack_cmd junk" "stack_cmd junk'" "issue = qla2x00_mailbox_command io N"
  shows "qla2x00_load_ram issue junk a r n w = qla2x00_load_ram issue junk' a r n w
    \<and> qla2x00_execute_fw issue junk r w = qla2x00_execute_fw issue junk' r w
    \<and> qla2x00_verify_checksum issue junk r w = qla2x00_verify_checksum issue junk' r w
    \<and> qla2x00_init_firmware issue junk b w = qla2x00_init_firmware issue junk' b w
    \<and> qla2x00_abort_command issue junk sp w = qla2x00_abort_command issue junk' sp w
    \<and> qla2x00_abort_target issue junk k fc w = qla2x00_abort_target issue junk' k fc w
    \<and> qla2x00_lun_reset issue junk k fc l w = qla2x00_lun_reset issue junk' k fc l w
    \<and> qla2x00_lip_reset issue junk w = qla2x00_lip_reset issue junk' w
    \<and> qla2x00_send_sns issue junk a c w = qla2x00_send_sns issue junk' a c w
    \<and> qla24xx_login_fabric issue junk pool loop fc mb opt w = qla24xx_login_fabric issue junk' pool loop fc mb opt w
    \<and> qla24xx_fabric_logout issue junk pool mq loop fc w = qla24xx_fabric_logout issue junk' pool mq loop fc w
    \<and> qla24xx_abort_command issue junk pool async sp w = qla24xx_abort_command issue junk' pool async sp w
    \<and> qla24xx_issue_tmf issue junk k pool t fc l w = qla24xx_issue_tmf issue junk' k pool t fc l w
    \<and> qla24xx_modify_vp_config issue junk pool w = qla24xx_modify_vp_config issue junk' pool w
    \<and> qla24xx_control_vp issue junk pool c w = qla24xx_control_vp issue junk' pool c w"
  unfolding assms(3)
  by (intro conjI hs.firmware_same hs.init_same hs.reset_same hs.entry_same assms)

section \<open>Samples\<close>

definition sample_fw :: fw_state where
  "sample_fw = \<lparr>fw_major_version = 5, fw_minor_version = 6, fw_subminor_version = 4, fw_attributes = 0,
     fw_attributes_h = 0, fw_attributes_ext = [0, 0], fw_memory_size = 0x1FFFF, fw_shared_ram = (0, 0),
     mpi_version = [], mpi_capabilities = 0, phy_version = [], link_data_rate = 4, md_template_size = 0,
     op_fw_version = 0, fcoe_vlan_id = 0, fcoe_fcf_idx = 0, fcoe_vn_port_mac = [], fc_host_port_name = [],
     vha_node_name = replicate 8 0, init_cb_dma = 0x7000, ex_init_cb = None, npiv_supported = False,
     fcp_prio_enabled = False, loop_mode = False, loop_reset_delay = 5, nv_enhanced_features = 0,
     pci_offline = False, max_npiv_vports = 64, cs84xx_update = False, fc_vport_state = 0\<rparr>"

definition sample_mw :: mbx_world where
  "sample_mw = \<lparr>mw_host = sample_host, mw_base_dpc = None, mw_init_done = True, mw_pci_dead = False,
     mw_dev_failed = False, mw_perm_failure = False, mw_eeh_busy = False, mw_msix_enabled = False,
     mw_fw_hung = False, mw_mbx_count = 32, mw_mbox_busy = False, mw_mbox_int = False, mw_interrupt = False,
     mw_intr_wait = False, mw_mcp = None, mw_mailbox_out = replicate 32 0, mw_regs = (\<lambda>i. 0), mw_cmd_comp = 1,
     mw_intr_comp = 0, mw_jiffies = 0, mw_mem = (\<lambda>a. replicate 16 0), mw_fw = sample_fw, mw_log = []\<rparr>"

text \<open>A firmware that answers at once, with 7 in every register but the status, and one that never does.\<close>

definition prompt_io :: mbx_io where
  "prompt_io = \<lparr>io_others = (\<lambda>w. w), io_answer = (\<lambda>w. Some (\<lambda>i. if i = 0 then MBS_COMMAND_COMPLETE else 7)),
     io_hint = (\<lambda>w. 0), io_abort = (\<lambda>w. (False, w)), io_hz = 1000\<rparr>"

definition silent_io :: mbx_io where
  "silent_io = prompt_io\<lparr>io_answer := (\<lambda>w. None)\<rparr>"

definition hint_io :: mbx_io where
  "hint_io = silent_io\<lparr>io_hint := (\<lambda>w. HINT_MBX_INT_PENDING)\<rparr>"

definition sample_junk :: mbx_cmd where
  "sample_junk = \<lparr>mc_out = 0, mc_in = 0, mc_mb = replicate 32 0xDEAD, mc_tov = 0, mc_flags = 0\<rparr>"

definition sample_req :: mbx_cmd where
  "sample_req = mbx_req sample_junk [(0, MBC_GET_FIRMWARE_VERSION)] [0] [3, 2, 1, 0] MBX_TOV_SECONDS 0"

lemma sample_io_keeps [simp]:
  "keeps prompt_io f" "abort_keeps prompt_io f" "keeps silent_io f" "quiet prompt_io" "quiet silent_io"
  "time_passes prompt_io" "time_passes silent_io" "silent silent_io" "io_hz prompt_io = 1000" "io_hz silent_io = 1000"
  by (auto simp: prompt_io_def silent_io_def keeps_def abort_keeps_def quiet_def time_passes_def silent_def)

lemma sample_mw_fields [simp]:
  "mw_mbx_count sample_mw = 32" "length (mw_mailbox_out sample_mw) = 32" "mw_cmd_comp sample_mw = 1"
  "mbx_refused m sample_mw = None" "\<not> IS_QLA2200 (mw_dt sample_mw)" "\<not> IS_P3P_TYPE (mw_dt sample_mw)"
  by (simp_all add: sample_mw_def mbx_refused_def mw_dt_def sample_host_def dt_defs)

lemma sample_req_fields [simp]:
  "stack_cmd sample_junk" "stack_cmd sample_req" "mc_mb sample_req ! 0 = 8" "unat (mc_tov sample_req) = 30"
  "mc_in sample_req = MBXS [3, 2, 1, 0]" "mc_out sample_req = MBXS [0]"
  by (simp_all add: sample_req_def sample_junk_def stack_cmd_def mbx_req_def set_regs_def MBX_TOV_SECONDS_def
      MBC_GET_FIRMWARE_VERSION_def)

lemma sample_waits [simp]: "mbx_waits sample_mw v"
  by (simp add: mbx_waits_def sample_mw_def base_dpc_def sample_host_def)

lemma prompt_run:
  assumes "mbx_refused m w = None" "0 < mw_cmd_comp w" "mw_intr_comp w = 0" "length (mw_mailbox_out w) = 32"
    and "mw_mbx_count w = 32" "mw_init_done w" "base_dpc w = 0" "\<not> IS_P3P_TYPE (mw_dt w)"
  shows "\<exists>n v. qla2x00_mailbox_command prompt_io N m w = Some (QLA_SUCCESS, n, v)"
proof -
  define s where "s = w\<lparr>mw_cmd_comp := mw_cmd_comp w - 1\<rparr>"
  have slot: "take_slot prompt_io w = (True, s)" using assms(2) by (simp add: take_slot_def s_def)
  define x where "x = ring_mbx (mbx_armed m w s)"
  have "\<not> hint_pending prompt_io u" for u by (simp add: hint_pending_def prompt_io_def)
  then have run: "qla2x00_mailbox_command prompt_io N m w = Some (mbx_finish prompt_io False True m (wait_intr prompt_io x))"
    using assms by (simp add: mailbox_command_phases slot Let_def mbx_wait_def x_def mbx_waits_def)
  have "mw_dt s = mw_dt w" by (simp add: s_def mw_dt_def)
  then have dt: "\<not> IS_P3P_TYPE (mw_dt x)" using assms(8) by (simp add: x_def ring_mbx_def)
  have x: "mw_intr_comp x = 0" "mw_intr_wait x" "mw_mbx_count x = 32" "length (mw_mailbox_out x) = 32"
    using assms by (simp_all add: x_def ring_mbx_def mbx_log_def mbx_armed_def load_regs_def Let_def s_def mbx_waits_def)
  define y where "y = wait_intr prompt_io x"
  have y: "mw_mbox_int y" "mw_mailbox_out y ! 0 = MBS_COMMAND_COMPLETE" "mw_dt y = mw_dt x"
    using x dt by (simp_all add: y_def wait_intr_def deliver_def prompt_io_def mbx_interrupt_def mbx_completion_def
        qla2x00_mbx_completion_def qla24xx_mbx_completion_def qla2x00_handle_mbx_completion_def Let_def mw_dt_def)
  have "fst (mbx_finish prompt_io False True m y) = QLA_SUCCESS"
    using y dt by (simp add: mbx_finish_def Let_def collect_rv)
  then show ?thesis unfolding run y_def [symmetric]
    by (cases "mbx_finish prompt_io False True m y") auto
qed

lemma prompt_success:
  "\<exists>n v. qla2x00_mailbox_command prompt_io 0 sample_req sample_mw = Some (QLA_SUCCESS, n, v)"
  by (rule prompt_run) (simp_all, simp_all add: sample_mw_def base_dpc_def sample_host_def)

text \<open>The properties at work.\<close>

theorem mailbox_slot_conserved_witness:
  "\<exists>n v. qla2x00_mailbox_command prompt_io 0 sample_req sample_mw = Some (QLA_SUCCESS, n, v) \<and> mw_cmd_comp v = 1"
  using prompt_success mailbox_slot_conserved [of prompt_io 0 sample_req sample_mw QLA_SUCCESS] by fastforce


theorem mailbox_success_sound_witness:
  "\<exists>n v u regs. qla2x00_mailbox_command prompt_io 0 sample_req sample_mw = Some (QLA_SUCCESS, n, v)
     \<and> io_answer prompt_io u = Some regs \<and> mc_mb n ! 3 = regs 3"
proof -
  obtain n v where run: "qla2x00_mailbox_command prompt_io 0 sample_req sample_mw = Some (QLA_SUCCESS, n, v)"
    using prompt_success by blast
  obtain u regs where "io_answer prompt_io u = Some regs"
      "\<forall>i < mw_mbx_count sample_mw. bit (mc_in sample_req) i \<longrightarrow> mc_mb n ! i = regs i"
    using mailbox_success_sound [of prompt_io sample_req sample_mw 0 n v] run by auto
  moreover from this(2) have "mc_mb n ! 3 = regs 3" by (elim allE [of _ 3]) simp
  ultimately show ?thesis using run by blast
qed


theorem silent_firmware_reset_witness:
  "\<exists>v. qla2x00_mailbox_command silent_io 30002 sample_req sample_mw = Some (QLA_FUNCTION_TIMEOUT, sample_req, v)
     \<and> Fw_dump \<in> set (mw_log v) \<and> reset_asked v"
proof -
  have "mc_mb sample_req ! 0 \<noteq> MBC_GEN_SYSTEM_ERROR" "\<not> bit (base_dpc sample_mw) ABORT_ISP_ACTIVE"
    by (simp_all add: MBC_GEN_SYSTEM_ERROR_def) (simp add: base_dpc_def sample_mw_def sample_host_def)
  then show ?thesis using silent_firmware_reset [of silent_io sample_req sample_mw 30002] by auto
qed

text \<open>The same adapter as an ISP8021 whose doorbell register still shows an interrupt.\<close>

definition p3p_mw :: mbx_world where
  "p3p_mw = sample_mw\<lparr>mw_host := sample_host\<lparr>device_type := DT_ISP8021\<rparr>\<rparr>"

theorem late_answer_times_out_witness:
  "\<exists>v. qla2x00_mailbox_command hint_io 0 sample_req p3p_mw = Some (QLA_FUNCTION_TIMEOUT, sample_req, v)
     \<and> mw_intr_wait v"
proof -
  have p: "mbx_refused sample_req p3p_mw = None" "0 < mw_cmd_comp p3p_mw" "IS_P3P_TYPE (mw_dt p3p_mw)"
    by (simp_all add: p3p_mw_def sample_mw_def mbx_refused_def mw_dt_def dt_defs)
  have "mw_dt (snd (take_slot hint_io p3p_mw)) = mw_dt p3p_mw" using p(2) by (simp add: take_slot_def mw_dt_def)
  then have h: "hint_pending hint_io (mbx_armed sample_req p3p_mw (snd (take_slot hint_io p3p_mw)))"
    using p(3) by (simp add: hint_pending_def hint_io_def HINT_MBX_INT_PENDING_def BIT_def)
  have "mbx_waits p3p_mw (load_regs sample_req p3p_mw)"
    by (simp add: mbx_waits_def p3p_mw_def sample_mw_def base_dpc_def sample_host_def)
  then show ?thesis using late_answer_times_out [OF p(1,2) h] by blast
qed

definition sample_2432 :: mbx_world where
  "sample_2432 = sample_mw\<lparr>mw_host := sample_host\<lparr>device_type := DT_ISP2432\<rparr>\<rparr>"

theorem fcp_prio_sends_stack_witness:
  "\<exists>u regs. io_answer prompt_io u = Some regs \<and> mw_regs u 3 = 0xDEAD"
proof -
  have w: "length (mw_mailbox_out sample_2432) = 32" "mw_mbx_count sample_2432 = 32" "IS_QLA24XX_TYPE (mw_dt sample_2432)"
    by (simp_all add: sample_2432_def sample_mw_def mw_dt_def IS_QLA24XX_TYPE_def is_dt_def DT_ISP2432_def dt_defs)
  have "\<exists>n v. qla2x00_mailbox_command prompt_io 0 m sample_2432 = Some (QLA_SUCCESS, n, v)" for m
    by (rule prompt_run)
      (simp_all add: sample_2432_def sample_mw_def mw_dt_def base_dpc_def sample_host_def mbx_refused_def DT_ISP2432_def dt_defs)
  then obtain f g where "qla2x00_mailbox_command prompt_io 0 m sample_2432 = Some (QLA_SUCCESS, f m, g m)" for m
    by metis
  then obtain out v where "qla24xx_set_fcp_prio (qla2x00_mailbox_command prompt_io 0) sample_junk 1 2 sample_2432
      = Some (QLA_SUCCESS, out, v)"
    using w(3) by (simp add: qla24xx_set_fcp_prio_def)
  moreover have "mc_mb sample_junk ! 3 = 0xDEAD" by (simp add: sample_junk_def)
  ultimately show ?thesis
    using fcp_prio_sends_stack [of prompt_io sample_junk sample_2432 0 1 2 out v] w(1,2) by auto
qed

theorem commands_ignore_stack_witness:
  "qla2x00_load_ram (qla2x00_mailbox_command prompt_io 0) sample_junk 0x4000 0x100 64 sample_mw
     = qla2x00_load_ram (qla2x00_mailbox_command prompt_io 0) (sample_junk\<lparr>mc_mb := replicate 32 0\<rparr>) 0x4000 0x100 64 sample_mw"
proof -
  have "stack_cmd (sample_junk\<lparr>mc_mb := replicate 32 0\<rparr>)" by (simp add: stack_cmd_def)
  then show ?thesis by (rule conjunct1 [OF commands_ignore_stack [OF sample_req_fields(1) _ refl]])
qed

end
