(* ===== verification/Vport.thy ===== *)
theory Vport
  imports Mbx_Misc
begin

text \<open>
  Virtual ports (qla_mid.c, and of qla_attr.c and qla_os.c what creates, deletes and drives them).
  The adapter holds the physical port as port 0 and the virtual ports of \<open>vp_list\<close>; a port that talks
  to the firmware does so through the mailbox commands, as itself (\<open>as_port\<close>).
\<close>

section \<open>Bit maps of numbers\<close>

text \<open>\<open>find_first_zero_bit\<close>: the least number below \<open>n\<close> whose bit is clear, or \<open>n\<close>.\<close>

definition find_first_zero_bit :: "(nat \<Rightarrow> bool) \<Rightarrow> nat \<Rightarrow> nat" where
  "find_first_zero_bit m n = (case find (\<lambda>i. \<not> m i) [0..<n] of None \<Rightarrow> n | Some i \<Rightarrow> i)"

section \<open>The state\<close>

definition LOOP_DOWN :: nat where "LOOP_DOWN = 2"
definition LOOP_UP :: nat where "LOOP_UP = 3"
definition LOOP_DEAD :: nat where "LOOP_DEAD = 6"
definition LOOP_DOWN_TIME :: nat where "LOOP_DOWN_TIME = 255"
definition RESET_MARKER_NEEDED :: nat where "RESET_MARKER_NEEDED = 0"
definition RESET_ACTIVE :: nat where "RESET_ACTIVE = 1"
definition LOOP_RESYNC_NEEDED :: nat where "LOOP_RESYNC_NEEDED = 4"
definition LOOP_RESYNC_ACTIVE :: nat where "LOOP_RESYNC_ACTIVE = 5"
definition VP_SCR_NEEDED :: nat where "VP_SCR_NEEDED = 4"
definition VP_OFFLINE :: nat where "VP_OFFLINE = 0"
definition VP_ACTIVE :: nat where "VP_ACTIVE = 1"
definition VP_FAILED :: nat where "VP_FAILED = 2"
definition VP_ERR_UNKWN :: nat where "VP_ERR_UNKWN = 0"
definition VP_ERR_PORTDWN :: nat where "VP_ERR_PORTDWN = 1"
definition FC_VPORT_ACTIVE :: nat where "FC_VPORT_ACTIVE = 1"
definition FC_VPORT_DISABLED :: nat where "FC_VPORT_DISABLED = 2"
definition FC_VPORT_LINKDOWN :: nat where "FC_VPORT_LINKDOWN = 3"
definition FC_VPORT_FAILED :: nat where "FC_VPORT_FAILED = 9"
definition FCS_UNCONFIGURED :: nat where "FCS_UNCONFIGURED = 1"
definition ISP_CFG_F :: u16 where "ISP_CFG_F = 8"
definition VCE_COMMAND_DISABLE_VPS_LOGO_ALL :: u16 where "VCE_COMMAND_DISABLE_VPS_LOGO_ALL = 0x0b"
definition FLOGI_MID_SUPPORT :: u16 where "FLOGI_MID_SUPPORT = BIT 10"

text \<open>What is posted for the DPC thread, the cases that the model's parts post.\<close>

datatype work =
    Aen_work nat u32
  | Idc_ack_work "u16 list"
  | Uevent_work nat

record port =
  pt_idx :: u16
  pt_dpc :: u64
  pt_vp_flags :: u64
  pt_loop_state :: nat
  pt_loop_down_timer :: nat
  pt_device_flags :: u32
  pt_online :: bool
  pt_init_done :: bool
  pt_mgmt_logged_in :: bool
  pt_delete_progress :: bool
  pt_timer_active :: bool
  pt_vp_state :: nat
  pt_vp_err :: nat
  pt_fc_vport :: nat
  pt_d_id :: "u8 \<times> u8 \<times> u8"
  pt_node_name :: "u8 list"
  pt_port_name :: "u8 list"
  pt_fcports :: "nat list"
  pt_vref :: nat
  pt_work :: "work list"
  pt_mgmt_loop :: u16
  pt_req :: nat

datatype adapter_event =
    Post_event nat u32
  | Complete_dcbx
  | Complete_lb
  | Emit_uevent nat
  | Aen_dump
  | Board_disable

text \<open>\<open>vp_list\<close> starts with the physical port, 0.\<close>

record adapter =
  ad_mbx :: mbx_world
  ad_ports :: "nat \<Rightarrow> port"
  vp_list :: "nat list"
  vp_idx_map :: "nat \<Rightarrow> bool"
  num_vhosts :: u16
  cur_vport_count :: int
  current_topology :: u16
  switch_cap :: u16
  operating_mode :: nat
  gpsc_supported :: bool
  fawwpn_enabled :: bool
  notify_dcbx_comp :: bool
  notify_lb_portup_comp :: bool
  idc_compl_status :: bool
  idc_extend_tmo :: u16
  diag_fw_version :: u32
  ad_log :: "adapter_event list"

definition ad_dt :: "adapter \<Rightarrow> u32" where "ad_dt a = mw_dt (ad_mbx a)"

definition upd_port :: "nat \<Rightarrow> (port \<Rightarrow> port) \<Rightarrow> adapter \<Rightarrow> adapter" where
  "upd_port p f a = a\<lparr>ad_ports := (ad_ports a)(p := f (ad_ports a p))\<rparr>"

definition upd_mbx :: "(mbx_world \<Rightarrow> mbx_world) \<Rightarrow> adapter \<Rightarrow> adapter" where
  "upd_mbx f a = a\<lparr>ad_mbx := f (ad_mbx a)\<rparr>"

definition ad_event :: "adapter_event \<Rightarrow> adapter \<Rightarrow> adapter" where
  "ad_event e a = a\<lparr>ad_log := e # ad_log a\<rparr>"

definition dpc_on :: "nat \<Rightarrow> port \<Rightarrow> port" where
  "dpc_on b p = p\<lparr>pt_dpc := pt_dpc p OR BIT b\<rparr>"

definition dpc_off :: "nat \<Rightarrow> port \<Rightarrow> port" where
  "dpc_off b p = p\<lparr>pt_dpc := pt_dpc p AND NOT (BIT b)\<rparr>"

definition dpc_test :: "nat \<Rightarrow> port \<Rightarrow> bool" where
  "dpc_test b p \<longleftrightarrow> bit (pt_dpc p) b"

section \<open>A port and the firmware\<close>

text \<open>
  The functions of the other parts run on the port they are called with: its number, flags and names
  are those of the host they see, and what they leave there is the port's again. The list \<open>vps\<close> of
  that host is what the response queue needs of the virtual ports when one of them gets its address.
\<close>

definition vps_view :: "nat \<Rightarrow> adapter \<Rightarrow> vp_state list" where
  "vps_view p a = map (\<lambda>i. let q = ad_ports a i
     in \<lparr>vps_idx = pt_idx q, vps_d_id = pt_d_id q, vps_flags = pt_vp_flags q, vps_dpc_flags = pt_dpc q\<rparr>)
     (filter (\<lambda>i. i \<noteq> p) (vp_list a))"

definition port_in :: "nat \<Rightarrow> adapter \<Rightarrow> mbx_world" where
  "port_in p a = (let q = ad_ports a p; w = ad_mbx a
     in w\<lparr>mw_host := (mw_host w)\<lparr>vp_idx := pt_idx q, dpc_flags := pt_dpc q, vha_online := pt_online q,
            vha_d_id := pt_d_id q, vha_port_name := pt_port_name q, vha_req := pt_req q, vps := vps_view p a\<rparr>,
          mw_base_dpc := (if p = 0 then None else Some (pt_dpc (ad_ports a 0))),
          mw_init_done := pt_init_done q,
          mw_fw := (mw_fw w)\<lparr>vha_node_name := pt_node_name q, fc_vport_state := pt_fc_vport q\<rparr>\<rparr>)"

definition take_vp :: "nat \<times> vp_state \<Rightarrow> adapter \<Rightarrow> adapter" where
  "take_vp = (\<lambda>(i, v). upd_port i (\<lambda>q. q\<lparr>pt_d_id := vps_d_id v, pt_vp_flags := vps_flags v, pt_dpc := vps_dpc_flags v\<rparr>))"

definition port_out :: "nat \<Rightarrow> adapter \<Rightarrow> mbx_world \<Rightarrow> adapter" where
  "port_out p a w = fold take_vp (zip (filter (\<lambda>i. i \<noteq> p) (vp_list a)) (vps (mw_host w)))
     ((upd_port p (\<lambda>q. q\<lparr>pt_dpc := dpc_flags (mw_host w), pt_online := vha_online (mw_host w),
        pt_port_name := vha_port_name (mw_host w), pt_fc_vport := fc_vport_state (mw_fw w)\<rparr>) a)\<lparr>ad_mbx := w\<rparr>)"

definition as_port ::
    "nat \<Rightarrow> (mbx_world \<Rightarrow> (int \<times> mbx_world) option) \<Rightarrow> adapter \<Rightarrow> (int \<times> adapter) option" where
  "as_port p f a = map_option (\<lambda>(rv, w). (rv, port_out p a w)) (f (port_in p a))"

section \<open>Work for the DPC thread\<close>

text \<open>\<open>mem\<close>: the allocation succeeds. The reference is taken first, and returned when it fails.\<close>

definition qla2x00_alloc_work :: "bool \<Rightarrow> port \<Rightarrow> bool \<times> port" where
  "qla2x00_alloc_work mem q =
     (if pt_delete_progress q then (False, q)
      else if \<not> mem then (False, q)
      else (True, q\<lparr>pt_vref := pt_vref q + 1\<rparr>))"

definition qla2x00_post_work :: "work \<Rightarrow> port \<Rightarrow> port" where
  "qla2x00_post_work e q = q\<lparr>pt_work := pt_work q @ [e]\<rparr>"

definition post_event :: "bool \<Rightarrow> work \<Rightarrow> nat \<Rightarrow> adapter \<Rightarrow> int \<times> adapter" where
  "post_event mem e p a =
     (case qla2x00_alloc_work mem (ad_ports a p) of
        (False, q) \<Rightarrow> (QLA_FUNCTION_FAILED, upd_port p (\<lambda>_. q) a)
      | (True, q) \<Rightarrow> (QLA_SUCCESS, upd_port p (\<lambda>_. qla2x00_post_work e q) a))"

definition qla2x00_post_aen_work :: "bool \<Rightarrow> nat \<Rightarrow> u32 \<Rightarrow> nat \<Rightarrow> adapter \<Rightarrow> int \<times> adapter" where
  "qla2x00_post_aen_work mem code d = post_event mem (Aen_work code d)"

definition qla2x00_post_idc_ack_work :: "bool \<Rightarrow> u16 list \<Rightarrow> nat \<Rightarrow> adapter \<Rightarrow> int \<times> adapter" where
  "qla2x00_post_idc_ack_work mem mb = post_event mem (Idc_ack_work mb)"

definition qla2x00_post_uevent_work :: "bool \<Rightarrow> nat \<Rightarrow> nat \<Rightarrow> adapter \<Rightarrow> int \<times> adapter" where
  "qla2x00_post_uevent_work mem code = post_event mem (Uevent_work code)"

text \<open>\<open>issue\<close> and \<open>junk\<close> are the mailbox command and the stack of the acknowledge.\<close>

definition do_one_work :: "mbx_issue \<Rightarrow> mbx_cmd \<Rightarrow> work \<Rightarrow> nat \<Rightarrow> adapter \<Rightarrow> adapter option" where
  "do_one_work issue junk e p a =
     (case e of
        Aen_work code d \<Rightarrow> Some (ad_event (Post_event code d) a)
      | Idc_ack_work mb \<Rightarrow> map_option snd (as_port p (qla81xx_idc_ack issue junk mb) a)
      | Uevent_work code \<Rightarrow> Some (ad_event (Emit_uevent code) a))"

fun work_loop :: "mbx_issue \<Rightarrow> mbx_cmd \<Rightarrow> nat \<Rightarrow> work list \<Rightarrow> adapter \<Rightarrow> adapter option" where
  "work_loop issue junk p [] a = Some a"
| "work_loop issue junk p (e # es) a =
     (case do_one_work issue junk e p a of None \<Rightarrow> None
      | Some a \<Rightarrow> work_loop issue junk p es (upd_port p (\<lambda>q. q\<lparr>pt_vref := pt_vref q - 1\<rparr>) a))"

definition qla2x00_do_work :: "mbx_issue \<Rightarrow> mbx_cmd \<Rightarrow> nat \<Rightarrow> adapter \<Rightarrow> adapter option" where
  "qla2x00_do_work issue junk p a =
     work_loop issue junk p (pt_work (ad_ports a p)) (upd_port p (\<lambda>q. q\<lparr>pt_work := []\<rparr>) a)"

section \<open>Remote ports\<close>

definition wake_base :: "adapter \<Rightarrow> adapter" where
  "wake_base = upd_port 0 (dpc_on FCPORT_UPDATE_NEEDED)"

text \<open>The deferred deletion of a remote port marks the physical port, whichever port asks for it.\<close>

definition rport_del :: "nat \<Rightarrow> bool \<Rightarrow> adapter \<Rightarrow> adapter" where
  "rport_del f defer a =
     (let upd = (\<lambda>g. upd_mbx (\<lambda>w. w\<lparr>mw_host := upd_fc f g (mw_host w)\<rparr>))
      in if \<not> has_rport (fc_states (mw_host (ad_mbx a)) f) then a
         else if defer then wake_base (upd (\<lambda>x. x\<lparr>drport := True\<rparr>) a)
         else upd (\<lambda>x. x\<lparr>rport_deleted := True\<rparr>) a)"

definition set_fc_state :: "nat \<Rightarrow> nat \<Rightarrow> adapter \<Rightarrow> adapter" where
  "set_fc_state f st = upd_mbx (\<lambda>w. w\<lparr>mw_host := qla2x00_set_fcport_state f st (mw_host w)\<rparr>)"

definition lose_device :: "nat \<Rightarrow> bool \<Rightarrow> nat \<Rightarrow> adapter \<Rightarrow> adapter" where
  "lose_device p defer f a =
     (let x = fc_states (mw_host (ad_mbx a)) f; vp = pt_idx (ad_ports a p)
      in if vp \<noteq> 0 \<and> vp \<noteq> fc_vp_idx x then a
         else if fcport_state x = FCS_ONLINE
         then let a = set_fc_state f FCS_DEVICE_LOST a
              in if defer \<or> vp = fc_vp_idx x then rport_del f defer a else a
         else a)"

definition qla2x00_mark_all_devices_lost :: "nat \<Rightarrow> bool \<Rightarrow> adapter \<Rightarrow> adapter" where
  "qla2x00_mark_all_devices_lost p defer a = fold (lose_device p defer) (pt_fcports (ad_ports a p)) a"

text \<open>\<open>qla2x00_mark_device_lost\<close> without a login and without deferral, then unconfigured.\<close>

definition kill_device :: "nat \<Rightarrow> nat \<Rightarrow> adapter \<Rightarrow> adapter" where
  "kill_device p f a =
     set_fc_state f FCS_UNCONFIGURED
       (upd_mbx (\<lambda>w. w\<lparr>mw_host := qla2x00_mark_device_lost (pt_idx (ad_ports a p)) f False False (mw_host w)\<rparr>) a)"

definition qla2x00_mark_vp_devices_dead :: "nat \<Rightarrow> adapter \<Rightarrow> adapter" where
  "qla2x00_mark_vp_devices_dead p a = fold (kill_device p) (pt_fcports (ad_ports a p)) a"

end
