(* ===== verification/Vport_Ops.thy ===== *)
theory Vport_Ops
  imports Vport
begin

text \<open>
  The operations on virtual ports: numbers, creation and deletion, enabling and disabling, and the
  loops over all virtual ports (qla_mid.c, qla_attr.c, qla_os.c).
\<close>

section \<open>Numbers\<close>

definition qla24xx_allocate_vp_id :: "nat \<Rightarrow> adapter \<Rightarrow> nat \<times> adapter" where
  "qla24xx_allocate_vp_id p a =
     (let vp_id = find_first_zero_bit (vp_idx_map a) (unat (max_npiv_vports (mw_fw (ad_mbx a))) + 1)
      in if vp_id > unat (max_npiv_vports (mw_fw (ad_mbx a))) then (vp_id, a)
         else (vp_id, upd_port p (\<lambda>q. q\<lparr>pt_idx := of_nat vp_id\<rparr>)
                 (a\<lparr>vp_idx_map := (vp_idx_map a)(vp_id := True), num_vhosts := num_vhosts a + 1,
                    vp_list := vp_list a @ [p]\<rparr>)))"

text \<open>The wait for the references on the port, with fuel; \<open>others\<close> is what happens in half a second.\<close>

fun wait_vref :: "(adapter \<Rightarrow> adapter) \<Rightarrow> nat \<Rightarrow> nat \<Rightarrow> adapter \<Rightarrow> adapter option" where
  "wait_vref others p 0 a = None"
| "wait_vref others p (Suc n) a =
     (if pt_vref (ad_ports a p) \<noteq> 0 then wait_vref others p n (others a) else Some a)"

definition release_vp_id :: "nat \<Rightarrow> adapter \<Rightarrow> adapter" where
  "release_vp_id p a =
     a\<lparr>vp_list := remove1 p (vp_list a), num_vhosts := num_vhosts a - 1,
       vp_idx_map := (vp_idx_map a)(unat (pt_idx (ad_ports a p)) := False)\<rparr>"

definition qla24xx_deallocate_vp_id :: "(adapter \<Rightarrow> adapter) \<Rightarrow> nat \<Rightarrow> nat \<Rightarrow> adapter \<Rightarrow> adapter option" where
  "qla24xx_deallocate_vp_id others N p a = map_option (release_vp_id p) (wait_vref others p N a)"

definition qla24xx_find_vhost_by_name :: "u8 list \<Rightarrow> adapter \<Rightarrow> nat option" where
  "qla24xx_find_vhost_by_name name a = find (\<lambda>p. pt_port_name (ad_ports a p) = name) (vp_list a)"

section \<open>Enabling and disabling\<close>

text \<open>\<open>junk\<close> is the stack of the mailbox command, \<open>pool\<close> the allocation of its entry.\<close>

definition qla24xx_disable_vp ::
    "mbx_issue \<Rightarrow> mbx_cmd \<Rightarrow> u64 option \<Rightarrow> nat \<Rightarrow> adapter \<Rightarrow> (int \<times> adapter) option" where
  "qla24xx_disable_vp issue junk pool p a =
     map_option (\<lambda>(rv, a).
       let a = upd_port p (\<lambda>q. q\<lparr>pt_loop_state := LOOP_DOWN, pt_loop_down_timer := LOOP_DOWN_TIME\<rparr>) a;
           a = qla2x00_mark_vp_devices_dead p a
       in (if rv = QLA_SUCCESS then 0 else - 1,
           upd_port p (\<lambda>q. q\<lparr>pt_vp_state := VP_FAILED, pt_mgmt_logged_in := False,
             pt_fc_vport := (if rv = QLA_SUCCESS then FC_VPORT_DISABLED else FC_VPORT_FAILED)\<rparr>) a))
       (as_port p (qla24xx_control_vp issue junk pool VCE_COMMAND_DISABLE_VPS_LOGO_ALL) a)"

definition qla24xx_enable_vp ::
    "mbx_issue \<Rightarrow> mbx_cmd \<Rightarrow> u64 option \<Rightarrow> nat \<Rightarrow> adapter \<Rightarrow> (int \<times> adapter) option" where
  "qla24xx_enable_vp issue junk pool p a =
     (let base = ad_ports a 0
      in if pt_loop_state base = LOOP_DOWN \<or> pt_loop_state base = LOOP_DEAD \<or> current_topology a AND ISP_CFG_F = 0
         then Some (1, upd_port p (\<lambda>q. q\<lparr>pt_vp_err := VP_ERR_PORTDWN, pt_fc_vport := FC_VPORT_LINKDOWN\<rparr>) a)
         else map_option (\<lambda>(rv, a). if rv \<noteq> QLA_SUCCESS
                then (1, upd_port p (\<lambda>q. q\<lparr>pt_fc_vport := FC_VPORT_FAILED\<rparr>) a) else (0, a))
                (as_port p (qla24xx_modify_vp_config issue junk pool) a))"

definition qla24xx_vport_disable ::
    "mbx_issue \<Rightarrow> mbx_cmd \<Rightarrow> u64 option \<Rightarrow> bool \<Rightarrow> nat \<Rightarrow> adapter \<Rightarrow> (int \<times> adapter) option" where
  "qla24xx_vport_disable issue junk pool disable p a =
     map_option (\<lambda>(_, a). (0, a))
       (if disable then qla24xx_disable_vp issue junk pool p a else qla24xx_enable_vp issue junk pool p a)"

definition qla2x00_vp_abort_isp ::
    "mbx_issue \<Rightarrow> mbx_cmd \<Rightarrow> u64 option \<Rightarrow> nat \<Rightarrow> adapter \<Rightarrow> (int \<times> adapter) option" where
  "qla2x00_vp_abort_isp issue junk pool p a =
     (let q = ad_ports a p;
          a = (if pt_loop_state q \<noteq> LOOP_DOWN
               then qla2x00_mark_all_devices_lost p False (upd_port p (\<lambda>q. q\<lparr>pt_loop_state := LOOP_DOWN\<rparr>) a)
               else if pt_loop_down_timer q = 0 then upd_port p (\<lambda>q. q\<lparr>pt_loop_down_timer := LOOP_DOWN_TIME\<rparr>) a
               else a)
      in case (if \<not> dpc_test ABORT_ISP_ACTIVE (ad_ports a p)
               then map_option snd (as_port p (qla24xx_control_vp issue junk pool VCE_COMMAND_DISABLE_VPS_LOGO_ALL) a)
               else Some a) of
           None \<Rightarrow> None
         | Some a \<Rightarrow> qla24xx_enable_vp issue junk pool p a)"

section \<open>Creation and deletion\<close>

definition VPCERR_UNSUPPORTED :: int where "VPCERR_UNSUPPORTED = - 38"
definition VPCERR_BAD_WWN :: int where "VPCERR_BAD_WWN = - 76"
definition VPCERR_NO_FABRIC_SUPP :: int where "VPCERR_NO_FABRIC_SUPP = - 95"

text \<open>\<open>initiator\<close>: the roles the transport asks for are those of an initiator, and nothing else.\<close>

definition qla24xx_vport_create_req_sanity_check :: "bool \<Rightarrow> u8 list \<Rightarrow> adapter \<Rightarrow> int" where
  "qla24xx_vport_create_req_sanity_check initiator name a =
     (if \<not> initiator then VPCERR_UNSUPPORTED
      else if \<not> npiv_supported (mw_fw (ad_mbx a)) then VPCERR_UNSUPPORTED
      else if switch_cap a AND FLOGI_MID_SUPPORT = 0 then VPCERR_NO_FABRIC_SUPP
      else if name = pt_port_name (ad_ports a 0) then VPCERR_BAD_WWN
      else if qla24xx_find_vhost_by_name name a \<noteq> None then VPCERR_BAD_WWN
      else if num_vhosts a > max_npiv_vports (mw_fw (ad_mbx a)) then VPCERR_UNSUPPORTED
      else 0)"

definition blank_port :: port where
  "blank_port = \<lparr>pt_idx = 0, pt_dpc = 0, pt_vp_flags = 0, pt_loop_state = 0, pt_loop_down_timer = 0, pt_device_flags = 0,
     pt_online = False, pt_init_done = False, pt_mgmt_logged_in = False, pt_delete_progress = False,
     pt_timer_active = False, pt_vp_state = 0, pt_vp_err = 0, pt_fc_vport = 0, pt_d_id = (0, 0, 0),
     pt_node_name = replicate 8 0, pt_port_name = replicate 8 0, pt_fcports = [], pt_vref = 0, pt_work = [],
     pt_mgmt_loop = 0, pt_req = 0\<rparr>"

text \<open>\<open>p\<close> is the new host structure; \<open>host\<close> tells whether it could be allocated. None: no port.\<close>

definition qla24xx_create_vhost ::
    "bool \<Rightarrow> u8 list \<Rightarrow> u8 list \<Rightarrow> nat \<Rightarrow> adapter \<Rightarrow> bool \<times> adapter" where
  "qla24xx_create_vhost host node name p a =
     (if \<not> host then (False, a)
      else let a = upd_port p (\<lambda>_. blank_port\<lparr>pt_node_name := node, pt_port_name := name\<rparr>) a;
               (vp_id, a) = qla24xx_allocate_vp_id p a
           in if vp_id > unat (max_npiv_vports (mw_fw (ad_mbx a))) then (False, upd_port p (\<lambda>q. q\<lparr>pt_idx := of_nat vp_id\<rparr>) a)
              else (True, (upd_port p (\<lambda>q. q\<lparr>pt_mgmt_loop := 10 + pt_idx q, pt_dpc := 0,
                      pt_vp_flags := pt_vp_flags q OR BIT VP_SCR_NEEDED, pt_loop_state := LOOP_DOWN,
                      pt_loop_down_timer := LOOP_DOWN_TIME, pt_timer_active := True,
                      pt_req := pt_req (ad_ports a 0), pt_init_done := True\<rparr>) a)
                    \<lparr>vp_idx_map := (vp_idx_map a)(vp_id := True), cur_vport_count := cur_vport_count a + 1\<rparr>))"

text \<open>
  What creation gets from outside: \<open>vc_added\<close> the mid-layer accepts the host, \<open>vc_queue\<close> the setting
  up of a queue of the port's own, which yields the number of the queue to use.
\<close>

record vport_env =
  vc_host :: bool
  vc_added :: bool
  vc_queue :: "nat \<Rightarrow> adapter \<Rightarrow> (nat \<times> adapter) option"
  vc_others :: "adapter \<Rightarrow> adapter"

definition qla24xx_vport_create ::
    "mbx_issue \<Rightarrow> mbx_cmd \<Rightarrow> u64 option \<Rightarrow> vport_env \<Rightarrow> nat \<Rightarrow> bool \<Rightarrow> bool \<Rightarrow> u8 list \<Rightarrow> u8 list \<Rightarrow> nat \<Rightarrow> adapter
      \<Rightarrow> (int \<times> adapter) option" where
  "qla24xx_vport_create issue junk pool e N initiator disable node name p a =
     (let ret = qla24xx_vport_create_req_sanity_check initiator name a
      in if ret \<noteq> 0 then Some (ret, a)
         else case qla24xx_create_vhost (vc_host e) node name p a of
           (False, a) \<Rightarrow> Some (int FC_VPORT_FAILED, a)
         | (True, a) \<Rightarrow>
           (let a = upd_port p (\<lambda>q. (if disable then q\<lparr>pt_vp_state := VP_OFFLINE, pt_fc_vport := FC_VPORT_DISABLED\<rparr>
                      else q\<lparr>pt_vp_state := VP_FAILED\<rparr>)\<lparr>pt_loop_state := LOOP_DOWN, pt_vp_err := VP_ERR_PORTDWN\<rparr>) a;
                base = ad_ports a 0;
                a = (if pt_loop_state base = LOOP_DOWN \<or> pt_loop_state base = LOOP_DEAD
                     then upd_port p (\<lambda>q. (if disable then q else q\<lparr>pt_fc_vport := FC_VPORT_LINKDOWN\<rparr>)
                            \<lparr>pt_loop_state := LOOP_DEAD\<rparr>) a else a)
            in if \<not> vc_added e
               then (case qla24xx_disable_vp issue junk pool p a of None \<Rightarrow> None
                     | Some (_, a) \<Rightarrow> map_option (\<lambda>a. (int FC_VPORT_FAILED, a))
                         (qla24xx_deallocate_vp_id (vc_others e) N p a))
               else (case qla24xx_vport_disable issue junk pool disable p a of None \<Rightarrow> None
                     | Some (_, a) \<Rightarrow> map_option (\<lambda>(r, a). (0, upd_port p (\<lambda>q. q\<lparr>pt_req := r\<rparr>) a)) (vc_queue e p a))))"

text \<open>The first wait of the deletion, for a resynchronisation or an update of the remote ports.\<close>

fun wait_busy :: "(adapter \<Rightarrow> adapter) \<Rightarrow> nat \<Rightarrow> nat \<Rightarrow> adapter \<Rightarrow> adapter option" where
  "wait_busy others p 0 a = None"
| "wait_busy others p (Suc n) a =
     (if dpc_test LOOP_RESYNC_ACTIVE (ad_ports a p) \<or> dpc_test FCPORT_UPDATE_NEEDED (ad_ports a p)
      then wait_busy others p n (others a) else Some a)"

definition qla2x00_vp_stop_timer :: "nat \<Rightarrow> adapter \<Rightarrow> adapter" where
  "qla2x00_vp_stop_timer p a =
     (if pt_idx (ad_ports a p) \<noteq> 0 \<and> pt_timer_active (ad_ports a p)
      then upd_port p (\<lambda>q. q\<lparr>pt_timer_active := False\<rparr>) a else a)"

text \<open>The last part of the deletion, after the number is given back: it gives it back again.\<close>

definition forget_vport :: "nat \<Rightarrow> adapter \<Rightarrow> adapter" where
  "forget_vport p a =
     (let a = (if pt_timer_active (ad_ports a p) then qla2x00_vp_stop_timer p a else a)
      in (upd_port p (\<lambda>q. q\<lparr>pt_fcports := []\<rparr>) a)
           \<lparr>cur_vport_count := cur_vport_count a - 1,
            vp_idx_map := (vp_idx_map a)(unat (pt_idx (ad_ports a p)) := False)\<rparr>)"

text \<open>None: still waiting, or the \<open>BUG_ON\<close> for a reference that is left. \<open>drop_queue\<close> deletes the port's own queue.\<close>

definition qla24xx_vport_delete ::
    "mbx_issue \<Rightarrow> mbx_cmd \<Rightarrow> u64 option \<Rightarrow> vport_env \<Rightarrow> (nat \<Rightarrow> adapter \<Rightarrow> adapter option) \<Rightarrow> nat \<Rightarrow> nat \<Rightarrow> adapter
      \<Rightarrow> (int \<times> adapter) option" where
  "qla24xx_vport_delete issue junk pool e drop_queue N p a =
     (case wait_busy (vc_others e) p N a of None \<Rightarrow> None
      | Some a \<Rightarrow> (case qla24xx_disable_vp issue junk pool p a of None \<Rightarrow> None
      | Some (_, a) \<Rightarrow> (case qla24xx_deallocate_vp_id (vc_others e) N p
                             (upd_port p (\<lambda>q. q\<lparr>pt_delete_progress := True\<rparr>) a) of None \<Rightarrow> None
      | Some a \<Rightarrow> if pt_vref (ad_ports a p) \<noteq> 0 then None
                  else map_option (\<lambda>a. (0, a)) (drop_queue (pt_req (ad_ports a p)) (forget_vport p a)))))"

text \<open>
  The deletion of all virtual ports when the driver is unloaded: as long as the count says so, the one
  behind the physical port is terminated. None: the \<open>BUG_ON\<close> for an empty list, or not finished.
\<close>

fun qla2x00_delete_all_vps ::
    "(nat \<Rightarrow> adapter \<Rightarrow> adapter option) \<Rightarrow> nat \<Rightarrow> adapter \<Rightarrow> adapter option" where
  "qla2x00_delete_all_vps terminate 0 a = None"
| "qla2x00_delete_all_vps terminate (Suc n) a =
     (if cur_vport_count a = 0 then Some a
      else case tl (vp_list a) of
             [] \<Rightarrow> None
           | p # _ \<Rightarrow> (case terminate p a of None \<Rightarrow> None | Some a \<Rightarrow> qla2x00_delete_all_vps terminate n a))"

end
