(* ===== verification/Aen.thy ===== *)
theory Aen
  imports Vport_Ops Isr_Queue
begin

text \<open>
  Asynchronous events (qla2x00_async_event of qla_isr.c), their distribution to the virtual ports
  (qla2x00_alert_all_vps of qla_mid.c), and the work of the DPC thread for those.
\<close>

section \<open>Events\<close>

definition MBA_RESET :: u16 where "MBA_RESET = 0x8001"
definition MBA_SYSTEM_ERR :: u16 where "MBA_SYSTEM_ERR = 0x8002"
definition MBA_REQ_TRANSFER_ERR :: u16 where "MBA_REQ_TRANSFER_ERR = 0x8003"
definition MBA_RSP_TRANSFER_ERR :: u16 where "MBA_RSP_TRANSFER_ERR = 0x8004"
definition MBA_LIP_OCCURRED :: u16 where "MBA_LIP_OCCURRED = 0x8010"
definition MBA_LOOP_UP :: u16 where "MBA_LOOP_UP = 0x8011"
definition MBA_LOOP_DOWN :: u16 where "MBA_LOOP_DOWN = 0x8012"
definition MBA_LIP_RESET :: u16 where "MBA_LIP_RESET = 0x8013"
definition MBA_PORT_UPDATE :: u16 where "MBA_PORT_UPDATE = 0x8014"
definition MBA_RSCN_UPDATE :: u16 where "MBA_RSCN_UPDATE = 0x8015"
definition MBA_SCSI_COMPLETION :: u16 where "MBA_SCSI_COMPLETION = 0x8020"
definition MBA_POINT_TO_POINT :: u16 where "MBA_POINT_TO_POINT = 0x8030"
definition MBA_CMPLT_1_16BIT :: u16 where "MBA_CMPLT_1_16BIT = 0x8031"
definition MBA_CMPLT_2_16BIT :: u16 where "MBA_CMPLT_2_16BIT = 0x8032"
definition MBA_CMPLT_3_16BIT :: u16 where "MBA_CMPLT_3_16BIT = 0x8033"
definition MBA_CMPLT_4_16BIT :: u16 where "MBA_CMPLT_4_16BIT = 0x8034"
definition MBA_CMPLT_5_16BIT :: u16 where "MBA_CMPLT_5_16BIT = 0x8035"
definition MBA_CHG_IN_CONNECTION :: u16 where "MBA_CHG_IN_CONNECTION = 0x8036"
definition MBA_ZIO_RESPONSE :: u16 where "MBA_ZIO_RESPONSE = 0x8040"
definition MBA_CMPLT_2_32BIT :: u16 where "MBA_CMPLT_2_32BIT = 0x8042"
definition MBA_ISP84XX_ALERT :: u16 where "MBA_ISP84XX_ALERT = 0x800f"
definition MBA_IDC_COMPLETE :: u16 where "MBA_IDC_COMPLETE = 0x8100"
definition MBA_IDC_NOTIFY :: u16 where "MBA_IDC_NOTIFY = 0x8101"
definition MBA_IDC_TIME_EXT :: u16 where "MBA_IDC_TIME_EXT = 0x8102"
definition MBA_IDC_AEN :: u16 where "MBA_IDC_AEN = 0x8200"
definition FCH_EVT_LIP :: nat where "FCH_EVT_LIP = 1"
definition FCH_EVT_LINKUP :: nat where "FCH_EVT_LINKUP = 2"
definition FCH_EVT_LINKDOWN :: nat where "FCH_EVT_LINKDOWN = 3"
definition FCH_EVT_LIPRESET :: nat where "FCH_EVT_LIPRESET = 4"
definition FCH_EVT_RSCN :: nat where "FCH_EVT_RSCN = 5"
definition LOCAL_LOOP_UPDATE :: nat where "LOCAL_LOOP_UPDATE = 6"
definition RSCN_UPDATE :: nat where "RSCN_UPDATE = 7"
definition MPI_RESET_NEEDED :: nat where "MPI_RESET_NEEDED = 19"
definition ISP_QUIESCE_NEEDED :: nat where "ISP_QUIESCE_NEEDED = 20"
definition DFLG_NO_CABLE :: u32 where "DFLG_NO_CABLE = BIT 1"
definition DFLG_DEV_FAILED :: u32 where "DFLG_DEV_FAILED = BIT 5"
definition LOOP :: nat where "LOOP = 0"
definition MBC_PORT_RESET :: u16 where "MBC_PORT_RESET = 0x120"
definition INTERNAL_LOOPBACK_MASK :: u16 where "INTERNAL_LOOPBACK_MASK = 0xE"
definition A84_OP_LOGIN_COMPLETE :: u16 where "A84_OP_LOGIN_COMPLETE = 2"
definition A84_DIAG_LOGIN_COMPLETE :: u16 where "A84_DIAG_LOGIN_COMPLETE = 3"
definition A84_GOLD_LOGIN_COMPLETE :: u16 where "A84_GOLD_LOGIN_COMPLETE = 4"

definition IS_QLA2XXX_MIDTYPE :: "u32 \<Rightarrow> bool" where
  "IS_QLA2XXX_MIDTYPE dt \<longleftrightarrow> is_dt DT_ISP2422 dt \<or> is_dt DT_ISP2432 dt \<or> is_dt DT_ISP8432 dt \<or> IS_QLA25XX dt
     \<or> IS_QLA81XX dt \<or> IS_QLA82XX dt \<or> IS_QLA83XX dt \<or> IS_QLA8044 dt \<or> IS_QLA27XX dt"

text \<open>
  What an event gets from outside: mailbox registers the handler reads itself (\<open>ae_regs\<close>), whether
  memory for posted work is there, and what the completion of commands needs.
\<close>

record aen_io =
  ae_regs :: "nat \<Rightarrow> u16"
  ae_mem :: bool
  ae_ienv :: ienv
  ae_port_no :: nat

section \<open>Parts of the handler\<close>

text \<open>The handles of a fast completion, for the adapters that have them; and the event that is left.\<close>

definition rio_handles :: "aen_io \<Rightarrow> (nat \<Rightarrow> u16) \<Rightarrow> u32 list" where
  "rio_handles io mb =
     (if mb 0 = MBA_SCSI_COMPLETION then [or_words (mb 2) (mb 1)]
      else if mb 0 = MBA_CMPLT_1_16BIT then [ucast (mb 1)]
      else if mb 0 = MBA_CMPLT_2_16BIT then [ucast (mb 1), ucast (mb 2)]
      else if mb 0 = MBA_CMPLT_3_16BIT then [ucast (mb 1), ucast (mb 2), ucast (mb 3)]
      else if mb 0 = MBA_CMPLT_4_16BIT
      then [ucast (mb 1), ucast (mb 2), ucast (mb 3), ucast (ae_regs io 6)]
      else if mb 0 = MBA_CMPLT_5_16BIT
      then [ucast (mb 1), ucast (mb 2), ucast (mb 3), ucast (ae_regs io 6), ucast (ae_regs io 7)]
      else if mb 0 = MBA_CMPLT_2_32BIT
      then [or_words (mb 2) (mb 1), or_words (ae_regs io 7) (ae_regs io 6)]
      else [])"

definition rio_event :: "aen_io \<Rightarrow> u32 \<Rightarrow> (nat \<Rightarrow> u16) \<Rightarrow> u32 list \<times> u16" where
  "rio_event io dt mb =
     (if IS_CNA_CAPABLE dt \<or> rio_handles io mb = [] then ([], mb 0)
      else (rio_handles io mb, MBA_SCSI_COMPLETION))"

text \<open>The loop goes down: the timer may be kept when it is running already (\<open>keep\<close>).\<close>

definition loop_down :: "bool \<Rightarrow> nat \<Rightarrow> adapter \<Rightarrow> adapter" where
  "loop_down keep p a =
     (if pt_loop_state (ad_ports a p) = LOOP_DOWN then a
      else qla2x00_mark_all_devices_lost p True
             (upd_port p (\<lambda>q. q\<lparr>pt_loop_state := LOOP_DOWN,
                pt_loop_down_timer := (if keep \<and> pt_loop_down_timer q \<noteq> 0 then pt_loop_down_timer q else LOOP_DOWN_TIME)\<rparr>) a))"

definition fail_vport :: "nat \<Rightarrow> adapter \<Rightarrow> adapter" where
  "fail_vport p a =
     (if pt_idx (ad_ports a p) = 0 then a
      else upd_port p (\<lambda>q. q\<lparr>pt_vp_state := VP_FAILED, pt_fc_vport := FC_VPORT_FAILED\<rparr>) a)"

definition no_cable :: "nat \<Rightarrow> adapter \<Rightarrow> adapter" where
  "no_cable p = upd_port p (\<lambda>q. q\<lparr>pt_device_flags := pt_device_flags q OR DFLG_NO_CABLE\<rparr>)"

definition mgmt_logout :: "nat \<Rightarrow> adapter \<Rightarrow> adapter" where
  "mgmt_logout p = upd_port p (\<lambda>q. q\<lparr>pt_mgmt_logged_in := False\<rparr>)"

definition set_rate :: "u16 \<Rightarrow> adapter \<Rightarrow> adapter" where
  "set_rate s = upd_mbx (upd_fw (\<lambda>f. f\<lparr>link_data_rate := s\<rparr>))"

definition port_dpc :: "nat list \<Rightarrow> nat \<Rightarrow> adapter \<Rightarrow> adapter" where
  "port_dpc bs p = upd_port p (\<lambda>q. fold dpc_on bs q)"

definition post_aen :: "aen_io \<Rightarrow> nat \<Rightarrow> u32 \<Rightarrow> nat \<Rightarrow> adapter \<Rightarrow> adapter" where
  "post_aen io code d p a = snd (qla2x00_post_aen_work (ae_mem io) code d p a)"

definition on_host :: "nat \<Rightarrow> (host \<Rightarrow> host option) \<Rightarrow> adapter \<Rightarrow> adapter option" where
  "on_host p f a = map_option (\<lambda>h. port_out p a ((port_in p a)\<lparr>mw_host := h\<rparr>)) (f (mw_host (port_in p a)))"

text \<open>\<open>mbx\<close> is the memory-protection word of a CNA adapter, whose bit 3 asks for a reset of its MPI.\<close>

definition system_err :: "aen_io \<Rightarrow> (nat \<Rightarrow> u16) \<Rightarrow> nat \<Rightarrow> adapter \<Rightarrow> adapter" where
  "system_err io mb p a =
     (let dt = ad_dt a;
          mbx = (if IS_QLA81XX dt \<or> IS_QLA83XX dt \<or> IS_QLA27XX dt then ae_regs io 7 else 0);
          a = ad_event Aen_dump a;
          dead = upd_port p (\<lambda>q. q\<lparr>pt_online := False, pt_device_flags := pt_device_flags q OR DFLG_DEV_FAILED\<rparr>)
      in if IS_FWI2_CAPABLE dt
         then if mb 1 = 0 \<and> mb 2 = 0 then dead a
              else port_dpc ((if bit mbx 3 \<and> ae_port_no io = 0 then [MPI_RESET_NEEDED] else []) @ [ISP_ABORT_NEEDED]) p a
         else if mb 1 = 0 then dead a else port_dpc [ISP_ABORT_NEEDED] p a)"

definition port_update :: "(nat \<Rightarrow> u16) \<Rightarrow> nat \<Rightarrow> adapter \<Rightarrow> adapter" where
  "port_update mb p a =
     (let q = ad_ports a p; mine = (pt_idx q = mb 3 AND 0xff)
      in if IS_QLA2XXX_MIDTYPE (ad_dt a) \<and> (mb 1 = 0xffff \<and> mb 3 AND 0xff \<noteq> 0xff \<or> mb 1 \<noteq> 0xffff) \<and> \<not> mine then a
         else if mb 1 = 0xffff \<and> mb 2 = 7
         then let a = (if pt_loop_state q = LOOP_DOWN then a
                       else qla2x00_mark_all_devices_lost p True (no_cable p
                              (upd_port p (\<lambda>q. q\<lparr>pt_loop_state := LOOP_DOWN, pt_loop_down_timer := LOOP_DOWN_TIME\<rparr>) a)));
                  a = (if pt_idx q = 0 then a else qla2x00_mark_all_devices_lost p True (fail_vport p a))
              in set_rate PORT_SPEED_UNKNOWN (mgmt_logout p a)
         else let a = upd_port p (\<lambda>q. q\<lparr>pt_loop_down_timer := 0\<rparr>) a
              in if pt_loop_state q \<noteq> LOOP_DOWN \<and> pt_loop_state q \<noteq> LOOP_DEAD then a
                 else port_dpc [LOOP_RESYNC_NEEDED, LOCAL_LOOP_UPDATE] p
                        (qla2x00_mark_all_devices_lost p True (upd_port p (\<lambda>q. q\<lparr>pt_loop_state := LOOP_UP\<rparr>) a)))"

definition d_id_word :: "u8 \<times> u8 \<times> u8 \<Rightarrow> u32" where
  "d_id_word = (\<lambda>(domain, area, al_pa). push_bit 16 (ucast domain) OR push_bit 8 (ucast area) OR ucast al_pa)"

definition qla2x00_is_a_vp_did :: "u32 \<Rightarrow> adapter \<Rightarrow> bool" where
  "qla2x00_is_a_vp_did rscn a \<longleftrightarrow>
     num_vhosts a \<noteq> 0 \<and> list_ex (\<lambda>p. d_id_word (pt_d_id (ad_ports a p)) = rscn) (vp_list a)"

definition rscn_update :: "aen_io \<Rightarrow> (nat \<Rightarrow> u16) \<Rightarrow> nat \<Rightarrow> adapter \<Rightarrow> adapter" where
  "rscn_update io mb p a =
     (let q = ad_ports a p;
          entry = or_words (mb 1 AND 0xff) (mb 2);
          full = or_words (mb 1 AND 0x3ff) (mb 2)
      in if pt_idx q \<noteq> 0 \<and> bit (pt_vp_flags q) VP_SCR_NEEDED then a
         else if npiv_supported (mw_fw (ad_mbx a)) \<and> pt_idx q \<noteq> mb 3 AND 0xff then a
         else if entry = d_id_word (pt_d_id q) then a
         else if qla2x00_is_a_vp_did full a then a
         else post_aen io FCH_EVT_RSCN full p
                (port_dpc [LOOP_RESYNC_NEEDED, RSCN_UPDATE] p
                  (upd_port p (\<lambda>q. q\<lparr>pt_loop_down_timer := 0, pt_mgmt_logged_in := False\<rparr>) a)))"

text \<open>Notifications of the other function; \<open>mb\<close> are read again, from register 1 on.\<close>

definition qla81xx_idc_event :: "aen_io \<Rightarrow> u16 \<Rightarrow> u16 \<Rightarrow> nat \<Rightarrow> adapter \<Rightarrow> adapter" where
  "qla81xx_idc_event io aen descr p a =
     (let dt = ad_dt a; mb = map (\<lambda>i. ae_regs io (Suc i)) [0..<7]
      in if \<not> (IS_QLA81XX dt \<or> IS_QLA83XX dt \<or> IS_QLA8044 dt) then a
         else if aen = MBA_IDC_COMPLETE
         then if drop_bit 15 (mb ! 1) \<noteq> 0
              then let a = a\<lparr>idc_compl_status := True\<rparr>
                   in if notify_dcbx_comp a \<and> pt_idx (ad_ports a p) = 0 then ad_event Complete_dcbx a else a
              else a
         else if aen = MBA_IDC_NOTIFY
         then if drop_bit 8 descr AND 0xf = 0 then a
              else snd (qla2x00_post_idc_ack_work (ae_mem io) mb p a)
         else if aen = MBA_IDC_TIME_EXT then a\<lparr>idc_extend_tmo := descr\<rparr> else a)"

definition alert_84xx :: "(nat \<Rightarrow> u16) \<Rightarrow> adapter \<Rightarrow> adapter" where
  "alert_84xx mb a =
     (let ver = or_words (mb 3) (mb 2)
      in if mb 1 = A84_OP_LOGIN_COMPLETE then upd_mbx (upd_fw (\<lambda>f. f\<lparr>op_fw_version := ver\<rparr>)) a
         else if mb 1 = A84_DIAG_LOGIN_COMPLETE then a\<lparr>diag_fw_version := ver\<rparr>
         else if mb 1 = A84_GOLD_LOGIN_COMPLETE
         then (upd_mbx (upd_fw (\<lambda>f. f\<lparr>cs84xx_update := True\<rparr>)) a)\<lparr>diag_fw_version := ver\<rparr>
         else a)"

definition idc_notify :: "aen_io \<Rightarrow> (nat \<Rightarrow> u16) \<Rightarrow> nat \<Rightarrow> adapter \<Rightarrow> adapter" where
  "idc_notify io mb p a =
     (let dt = ad_dt a
      in if (IS_QLA8031 dt \<or> IS_QLA8044 dt)
            \<and> (mb 2 AND 0x7fff = MBC_PORT_RESET \<or> mb 2 AND 0x7fff = MBC_SET_PORT_CONFIG)
            \<and> ae_regs io 4 AND INTERNAL_LOOPBACK_MASK \<noteq> 0
         then let a = port_dpc [ISP_QUIESCE_NEEDED] p a
              in if pt_loop_state (ad_ports a p) = LOOP_DOWN
                 then upd_port p (\<lambda>q. q\<lparr>pt_loop_down_timer := LOOP_DOWN_TIME\<rparr>) a else a
         else a)"

definition idc_event :: "aen_io \<Rightarrow> u16 \<Rightarrow> (nat \<Rightarrow> u16) \<Rightarrow> nat \<Rightarrow> adapter \<Rightarrow> adapter" where
  "idc_event io ev mb p a =
     (let dt = ad_dt a;
          a = (if ev = MBA_IDC_NOTIFY then idc_notify io mb p a else a);
          a = (if ev \<noteq> MBA_IDC_TIME_EXT \<and> notify_lb_portup_comp a \<and> pt_idx (ad_ports a p) = 0
               then ad_event Complete_lb a else a)
      in if IS_QLA81XX dt \<or> IS_QLA8031 dt \<or> IS_QLA8044 dt then qla81xx_idc_event io ev (mb 1) p a else a)"

section \<open>The handler\<close>

definition lip_occurred :: "aen_io \<Rightarrow> (nat \<Rightarrow> u16) \<Rightarrow> nat \<Rightarrow> adapter \<Rightarrow> adapter" where
  "lip_occurred io mb p a =
     post_aen io FCH_EVT_LIP (ucast (mb 1)) p
       (mgmt_logout p (port_dpc [REGISTER_FC4_NEEDED, REGISTER_FDMI_NEEDED] p (fail_vport p (loop_down False p a))))"

definition loop_up :: "aen_io \<Rightarrow> (nat \<Rightarrow> u16) \<Rightarrow> nat \<Rightarrow> adapter \<Rightarrow> adapter" where
  "loop_up io mb p a =
     (let rate = (if IS_QLA2100 (ad_dt a) \<or> IS_QLA2200 (ad_dt a) then PORT_SPEED_1GB else mb 1)
      in post_aen io FCH_EVT_LINKUP (ucast rate) p (mgmt_logout p (set_rate rate a)))"

definition loop_went_down :: "aen_io \<Rightarrow> nat \<Rightarrow> adapter \<Rightarrow> adapter" where
  "loop_went_down io p a =
     (let a = (if pt_loop_state (ad_ports a p) = LOOP_DOWN then a
               else let a = upd_port p (\<lambda>q. q\<lparr>pt_loop_state := LOOP_DOWN, pt_loop_down_timer := LOOP_DOWN_TIME\<rparr>) a;
                        name = take 8 (init_cb_port_name (mw_host (ad_mbx a)));
                        a = (if fawwpn_enabled a then upd_port p (\<lambda>q. q\<lparr>pt_port_name := name\<rparr>) a else a)
                    in qla2x00_mark_all_devices_lost p True (no_cable p a))
      in post_aen io FCH_EVT_LINKDOWN 0 p (set_rate PORT_SPEED_UNKNOWN (mgmt_logout p (fail_vport p a))))"

definition lip_reset_event :: "aen_io \<Rightarrow> (nat \<Rightarrow> u16) \<Rightarrow> nat \<Rightarrow> adapter \<Rightarrow> adapter" where
  "lip_reset_event io mb p a =
     post_aen io FCH_EVT_LIPRESET (ucast (mb 1)) p
       (mgmt_logout p ((port_dpc [RESET_MARKER_NEEDED] p (fail_vport p (loop_down False p a)))\<lparr>operating_mode := LOOP\<rparr>))"

definition point_to_point :: "nat \<Rightarrow> adapter \<Rightarrow> adapter" where
  "point_to_point p a =
     (if IS_QLA2100 (ad_dt a) then a
      else let a = (if IS_CNA_CAPABLE (ad_dt a) \<and> notify_dcbx_comp a \<and> pt_idx (ad_ports a p) = 0
                    then ad_event Complete_dcbx a else a);
               a = fail_vport p (loop_down True p a);
               a = (if dpc_test ABORT_ISP_ACTIVE (ad_ports a p) then a else port_dpc [RESET_MARKER_NEEDED] p a)
           in mgmt_logout p ((port_dpc [REGISTER_FC4_NEEDED, REGISTER_FDMI_NEEDED] p a)\<lparr>gpsc_supported := True\<rparr>))"

definition chg_in_connection :: "nat \<Rightarrow> adapter \<Rightarrow> adapter" where
  "chg_in_connection p a =
     (if IS_QLA2100 (ad_dt a) then a
      else port_dpc [LOOP_RESYNC_NEEDED, LOCAL_LOOP_UPDATE] p (fail_vport p (loop_down True p a)))"

text \<open>\<open>aen8200\<close> is the handler of the inter-driver communication; None: a ring that is read without end.\<close>

definition async_one ::
    "(nat \<Rightarrow> (nat \<Rightarrow> u16) \<Rightarrow> adapter \<Rightarrow> adapter) \<Rightarrow> aen_io \<Rightarrow> nat \<Rightarrow> (nat \<Rightarrow> u16) \<Rightarrow> nat \<Rightarrow> adapter \<Rightarrow> adapter option" where
  "async_one aen8200 io rsp mb p a =
     (let dt = ad_dt a; (handles, ev) = rio_event io dt mb
      in if ev = MBA_SCSI_COMPLETION
         then if pt_online (ad_ports a p)
              then on_host p (\<lambda>h. Some (fold (qla2x00_process_completed_request (rsp_req (get_rsp rsp h))) handles h)) a
              else Some a
         else if ev = MBA_RESET then Some (port_dpc [RESET_MARKER_NEEDED] p a)
         else if ev = MBA_SYSTEM_ERR then Some (system_err io mb p a)
         else if ev = MBA_REQ_TRANSFER_ERR \<or> ev = MBA_RSP_TRANSFER_ERR then Some (port_dpc [ISP_ABORT_NEEDED] p a)
         else if ev = MBA_LIP_OCCURRED then Some (lip_occurred io mb p a)
         else if ev = MBA_LOOP_UP then Some (loop_up io mb p a)
         else if ev = MBA_LOOP_DOWN then Some (loop_went_down io p a)
         else if ev = MBA_LIP_RESET then Some (lip_reset_event io mb p a)
         else if ev = MBA_POINT_TO_POINT then Some (point_to_point p a)
         else if ev = MBA_CHG_IN_CONNECTION then Some (chg_in_connection p a)
         else if ev = MBA_PORT_UPDATE then Some (port_update mb p a)
         else if ev = MBA_RSCN_UPDATE then Some (rscn_update io mb p a)
         else if ev = MBA_ZIO_RESPONSE
         then on_host p (if IS_FWI2_CAPABLE dt then qla24xx_process_response_queue (ae_ienv io) rsp
                         else qla2x00_process_response_queue (ae_ienv io) rsp) a
         else if ev = MBA_ISP84XX_ALERT then Some (alert_84xx mb a)
         else if ev = MBA_IDC_NOTIFY \<or> ev = MBA_IDC_COMPLETE \<or> ev = MBA_IDC_TIME_EXT then Some (idc_event io ev mb p a)
         else if ev = MBA_IDC_AEN then Some (aen8200 p (\<lambda>i. if i \<in> {4..7} then ae_regs io i else mb i) a)
         else Some a)"

definition forwarded :: "u16 \<Rightarrow> bool" where
  "forwarded ev \<longleftrightarrow> ev \<in> set [MBA_LIP_OCCURRED, MBA_LOOP_UP, MBA_LOOP_DOWN, MBA_LIP_RESET, MBA_POINT_TO_POINT,
     MBA_CHG_IN_CONNECTION, MBA_PORT_UPDATE, MBA_RSCN_UPDATE]"

fun alert_vps :: "(nat \<Rightarrow> adapter \<Rightarrow> adapter option) \<Rightarrow> u16 \<Rightarrow> nat list \<Rightarrow> adapter \<Rightarrow> adapter option" where
  "alert_vps event ev [] a = Some a"
| "alert_vps event ev (p # ps) a =
     (if pt_idx (ad_ports a p) = 0 then alert_vps event ev ps a
      else case (let a = upd_port p (\<lambda>q. q\<lparr>pt_vref := pt_vref q + 1\<rparr>) a
                 in if forwarded ev then event p a else Some a) of
             None \<Rightarrow> None
           | Some a \<Rightarrow> alert_vps event ev ps (upd_port p (\<lambda>q. q\<lparr>pt_vref := pt_vref q - 1\<rparr>) a))"

definition qla2x00_alert_all_vps ::
    "(nat \<Rightarrow> (nat \<Rightarrow> u16) \<Rightarrow> adapter \<Rightarrow> adapter) \<Rightarrow> aen_io \<Rightarrow> nat \<Rightarrow> (nat \<Rightarrow> u16) \<Rightarrow> adapter \<Rightarrow> adapter option" where
  "qla2x00_alert_all_vps aen8200 io rsp mb a =
     alert_vps (async_one aen8200 io rsp mb) (mb 0) (vp_list a) a"

text \<open>Virtual ports never alert others, so the recursion between the two functions is one level deep.\<close>

definition qla2x00_async_event ::
    "(nat \<Rightarrow> (nat \<Rightarrow> u16) \<Rightarrow> adapter \<Rightarrow> adapter) \<Rightarrow> aen_io \<Rightarrow> nat \<Rightarrow> (nat \<Rightarrow> u16) \<Rightarrow> nat \<Rightarrow> adapter \<Rightarrow> adapter option" where
  "qla2x00_async_event aen8200 io rsp mb p a =
     (case async_one aen8200 io rsp mb p a of
        None \<Rightarrow> None
      | Some a \<Rightarrow> if pt_idx (ad_ports a p) = 0 \<and> num_vhosts a \<noteq> 0
                  then qla2x00_alert_all_vps aen8200 io rsp (mb(0 := snd (rio_event io (ad_dt a) mb))) a
                  else Some a)"

section \<open>The DPC thread and the virtual ports\<close>

text \<open>The parts of qla_init.c and qla_os.c that the thread runs for a port.\<close>

record dpc_ops =
  do_configure :: "nat \<Rightarrow> adapter \<Rightarrow> (int \<times> adapter) option"
  do_update_fcports :: "nat \<Rightarrow> adapter \<Rightarrow> adapter option"
  do_relogin :: "nat \<Rightarrow> adapter \<Rightarrow> adapter option"
  do_loop_resync :: "nat \<Rightarrow> adapter \<Rightarrow> adapter option"

definition qla24xx_configure_vp ::
    "mbx_issue \<Rightarrow> mbx_cmd \<Rightarrow> dpc_ops \<Rightarrow> nat \<Rightarrow> adapter \<Rightarrow> adapter option" where
  "qla24xx_configure_vp issue junk ops p a =
     (case as_port p (\<lambda>w. qla2x00_send_change_request issue junk 3 (vp_idx (mw_host w)) w) a of
        None \<Rightarrow> None
      | Some (rv, a) \<Rightarrow>
          if rv \<noteq> QLA_SUCCESS then Some a
          else (case do_configure ops p (upd_port p (\<lambda>q. q\<lparr>pt_vp_flags := pt_vp_flags q AND NOT (BIT VP_SCR_NEEDED),
                       pt_online := True\<rparr>) a) of
                  None \<Rightarrow> None
                | Some (rv, a) \<Rightarrow> Some (if rv \<noteq> 0 then a
                    else upd_port p (\<lambda>q. q\<lparr>pt_vp_state := VP_ACTIVE, pt_fc_vport := FC_VPORT_ACTIVE\<rparr>) a)))"

definition qla2x00_do_dpc_vp ::
    "mbx_issue \<Rightarrow> mbx_cmd \<Rightarrow> dpc_ops \<Rightarrow> nat \<Rightarrow> adapter \<Rightarrow> adapter option" where
  "qla2x00_do_dpc_vp issue junk ops p a = do {
     a \<leftarrow> qla2x00_do_work issue junk p a;
     if bit (pt_vp_flags (ad_ports a p)) VP_IDX_ACQUIRED
     then qla24xx_configure_vp issue junk ops p
            (upd_port p (\<lambda>q. q\<lparr>pt_vp_flags := pt_vp_flags q AND NOT (BIT VP_IDX_ACQUIRED)\<rparr>) a)
     else do {
       a \<leftarrow> (if dpc_test FCPORT_UPDATE_NEEDED (ad_ports a p)
             then map_option (upd_port p (dpc_off FCPORT_UPDATE_NEEDED)) (do_update_fcports ops p a) else Some a);
       let relogin = dpc_test RELOGIN_NEEDED (ad_ports a p);
       let a = upd_port p (dpc_off RELOGIN_NEEDED) a;
       a \<leftarrow> (if relogin \<and> \<not> dpc_test LOOP_RESYNC_NEEDED (ad_ports a p) \<and> pt_loop_state (ad_ports a p) \<noteq> LOOP_DOWN
             then do_relogin ops p a else Some a);
       let marker = dpc_test RESET_MARKER_NEEDED (ad_ports a p);
       let a = upd_port p (dpc_off RESET_MARKER_NEEDED) a;
       let a = (if marker \<and> \<not> dpc_test RESET_ACTIVE (ad_ports a p)
                then upd_port p (dpc_off RESET_ACTIVE) (upd_port p (dpc_on RESET_ACTIVE) a) else a);
       let resync = dpc_test LOOP_RESYNC_NEEDED (ad_ports a p);
       let a = upd_port p (dpc_off LOOP_RESYNC_NEEDED) a;
       if resync \<and> \<not> dpc_test LOOP_RESYNC_ACTIVE (ad_ports a p)
       then map_option (upd_port p (dpc_off LOOP_RESYNC_ACTIVE)) (do_loop_resync ops p (upd_port p (dpc_on LOOP_RESYNC_ACTIVE) a))
       else Some a } }"

fun dpc_vps :: "(nat \<Rightarrow> adapter \<Rightarrow> adapter option) \<Rightarrow> nat list \<Rightarrow> adapter \<Rightarrow> adapter option" where
  "dpc_vps dpc [] a = Some a"
| "dpc_vps dpc (p # ps) a =
     (if pt_idx (ad_ports a p) = 0 then dpc_vps dpc ps a
      else case dpc p (upd_port p (\<lambda>q. q\<lparr>pt_vref := pt_vref q + 1\<rparr>) a) of
             None \<Rightarrow> None
           | Some a \<Rightarrow> dpc_vps dpc ps (upd_port p (\<lambda>q. q\<lparr>pt_vref := pt_vref q - 1\<rparr>) a))"

definition qla2x00_do_dpc_all_vps ::
    "mbx_issue \<Rightarrow> mbx_cmd \<Rightarrow> dpc_ops \<Rightarrow> nat \<Rightarrow> adapter \<Rightarrow> adapter option" where
  "qla2x00_do_dpc_all_vps issue junk ops p a =
     (if pt_idx (ad_ports a p) \<noteq> 0 \<or> vp_list a = [] then Some a
      else let a = upd_port p (dpc_off VP_DPC_NEEDED) a
           in if current_topology a AND ISP_CFG_F = 0 then Some a
              else dpc_vps (qla2x00_do_dpc_vp issue junk ops) (vp_list a) a)"

end
