(* ===== verification/Isr_Handlers.thy ===== *)
theory Isr_Handlers
  imports Aen
begin

text \<open>
  The interrupt handlers (qla_isr.c, qla_nx.c, qla_nx2.c): they read the adapter's status until it asks
  for nothing more, dispatch to mailbox completion, asynchronous events and the response queue, and
  wake a waiting mailbox command at the end.
\<close>

section \<open>The registers\<close>

text \<open>
  What a handler reads in its round \<open>i\<close>: \<open>ih_stat\<close> is the host status (hccr, istatus and semaphore for
  the 2100), \<open>ih_regs\<close> the mailbox registers. \<open>ih_aen8200\<close> belongs to the inter-driver communication.
\<close>

record intr_io =
  ih_stat :: "nat \<Rightarrow> u32"
  ih_hccr :: "nat \<Rightarrow> u16"
  ih_istatus :: "nat \<Rightarrow> u16"
  ih_semaphore :: "nat \<Rightarrow> u16"
  ih_regs :: "nat \<Rightarrow> nat \<Rightarrow> u16"
  ih_host_int :: u32
  ih_offline :: bool
  ih_mem :: "nat \<Rightarrow> bool"
  ih_ienv :: ienv
  ih_port_no :: nat
  ih_aen8200 :: "nat \<Rightarrow> (nat \<Rightarrow> u16) \<Rightarrow> adapter \<Rightarrow> adapter"

definition HCCR_RISC_PAUSE :: u16 where "HCCR_RISC_PAUSE = BIT 5"
definition ISR_RISC_INT :: u16 where "ISR_RISC_INT = BIT 3"
definition HSR_RISC_INT :: u32 where "HSR_RISC_INT = BIT 15"
definition HSR_RISC_PAUSED :: u32 where "HSR_RISC_PAUSED = BIT 8"
definition MBX_INTERRUPT :: u32 where "MBX_INTERRUPT = 1"

text \<open>The outcome of a round: go on, or leave the loop. \<open>is_mbx\<close> is the flag \<open>MBX_INTERRUPT\<close> of \<open>status\<close>.\<close>

record isr =
  is_ad :: adapter
  is_mbx :: bool

definition qla2x00_check_reg_for_disconnect :: "u32 \<Rightarrow> adapter \<Rightarrow> bool \<times> adapter" where
  "qla2x00_check_reg_for_disconnect reg a =
     (if reg = 0xffffffff then (True, ad_event Board_disable a) else (False, a))"

definition event_io :: "intr_io \<Rightarrow> nat \<Rightarrow> aen_io" where
  "event_io io i = \<lparr>ae_regs = ih_regs io i, ae_mem = ih_mem io i, ae_ienv = ih_ienv io, ae_port_no = ih_port_no io\<rparr>"

definition mbx_part :: "intr_io \<Rightarrow> nat \<Rightarrow> u16 \<Rightarrow> isr \<Rightarrow> isr" where
  "mbx_part io i mb0 s =
     s\<lparr>is_ad := upd_mbx (mbx_completion ((ih_regs io i)(0 := mb0))) (is_ad s), is_mbx := True\<rparr>"

definition event_part :: "intr_io \<Rightarrow> nat \<Rightarrow> nat \<Rightarrow> (nat \<Rightarrow> u16) \<Rightarrow> isr \<Rightarrow> isr option" where
  "event_part io rsp i mb s =
     map_option (\<lambda>a. s\<lparr>is_ad := a\<rparr>) (qla2x00_async_event (ih_aen8200 io) (event_io io i) rsp mb 0 (is_ad s))"

definition queue_part :: "(nat \<Rightarrow> host \<Rightarrow> host option) \<Rightarrow> nat \<Rightarrow> isr \<Rightarrow> isr option" where
  "queue_part process rsp s = map_option (\<lambda>a. s\<lparr>is_ad := a\<rparr>) (on_host 0 (process rsp) (is_ad s))"

definition risc_paused :: "isr \<Rightarrow> isr" where
  "risc_paused s = s\<lparr>is_ad := port_dpc [ISP_ABORT_NEEDED] 0 (ad_event Aen_dump (is_ad s))\<rparr>"

text \<open>The wake-up at the end, if a mailbox interrupt was among the rounds.\<close>

definition finish_isr :: "isr \<Rightarrow> adapter" where
  "finish_isr s = (if is_mbx s then upd_mbx qla2x00_handle_mbx_completion (is_ad s) else is_ad s)"

text \<open>At most \<open>n\<close> rounds. The first component of a round tells whether it leaves the loop.\<close>

fun isr_loop :: "(nat \<Rightarrow> isr \<Rightarrow> (bool \<times> isr) option) \<Rightarrow> nat \<Rightarrow> nat \<Rightarrow> isr \<Rightarrow> isr option" where
  "isr_loop round i 0 s = Some s"
| "isr_loop round i (Suc n) s =
     (case round i s of None \<Rightarrow> None
      | Some (True, s) \<Rightarrow> Some s
      | Some (False, s) \<Rightarrow> isr_loop round (Suc i) n s)"

definition run_isr :: "(nat \<Rightarrow> isr \<Rightarrow> (bool \<times> isr) option) \<Rightarrow> nat \<Rightarrow> adapter \<Rightarrow> adapter option" where
  "run_isr round n a = map_option finish_isr (isr_loop round 0 n \<lparr>is_ad = a, is_mbx = False\<rparr>)"

definition goes_on :: "isr option \<Rightarrow> (bool \<times> isr) option" where
  "goes_on r = map_option (Pair False) r"

section \<open>The dispatch on the status\<close>

text \<open>Shared by the adapters from the 2300 on: mailbox, event or response queue by the low byte.\<close>

definition is_mbx_status :: "u32 \<Rightarrow> bool" where
  "is_mbx_status stat \<longleftrightarrow> stat AND 0xff \<in> {0x1, 0x2, 0x10, 0x11}"

definition event_regs :: "intr_io \<Rightarrow> nat \<Rightarrow> nat \<Rightarrow> u16" where
  "event_regs io i = (\<lambda>j. if j = 0 then MSW (ih_stat io i) else ih_regs io i j)"

definition dispatch24 :: "u32 set \<Rightarrow> intr_io \<Rightarrow> nat \<Rightarrow> nat \<Rightarrow> isr \<Rightarrow> isr option" where
  "dispatch24 rsp_codes io rsp i s =
     (let stat = ih_stat io i; code = stat AND 0xff
      in if is_mbx_status stat then Some (mbx_part io i (MSW stat) s)
         else if code = 0x12 then event_part io rsp i (event_regs io i) s
         else if code \<in> rsp_codes then queue_part (qla24xx_process_response_queue (ih_ienv io)) rsp s
         else Some s)"

section \<open>The handlers\<close>

definition round_2100 :: "intr_io \<Rightarrow> nat \<Rightarrow> nat \<Rightarrow> isr \<Rightarrow> (bool \<times> isr) option" where
  "round_2100 io rsp i s =
     (let hccr = ih_hccr io i; mb = ih_regs io i; mb0 = mb 0
      in if hccr = 0xffff then Some (True, s\<lparr>is_ad := ad_event Board_disable (is_ad s)\<rparr>)
         else if hccr AND HCCR_RISC_PAUSE \<noteq> 0 then Some (True, if ih_offline io then s else risc_paused s)
         else if ih_istatus io i AND ISR_RISC_INT = 0 then Some (True, s)
         else if ih_semaphore io i AND BIT 0 \<noteq> 0
         then if 0x3fff < mb0 \<and> mb0 < 0x8000 then Some (False, mbx_part io i mb0 s)
              else if 0x7fff < mb0 \<and> mb0 < 0xc000 then goes_on (event_part io rsp i mb s)
              else Some (False, s)
         else goes_on (queue_part (qla2x00_process_response_queue (ih_ienv io)) rsp s))"

definition qla2100_intr_handler :: "intr_io \<Rightarrow> nat \<Rightarrow> adapter \<Rightarrow> adapter option" where
  "qla2100_intr_handler io rsp a = run_isr (round_2100 io rsp) 50 a"

definition dispatch23 :: "intr_io \<Rightarrow> nat \<Rightarrow> nat \<Rightarrow> isr \<Rightarrow> isr option" where
  "dispatch23 io rsp i s =
     (let stat = ih_stat io i; code = stat AND 0xff; ev = (\<lambda>c j. if j = 0 then c else if j = 1 then MSW stat else ih_regs io i j)
      in if is_mbx_status stat then Some (mbx_part io i (MSW stat) s)
         else if code = 0x12 then event_part io rsp i (event_regs io i) s
         else if code = 0x13 then queue_part (qla2x00_process_response_queue (ih_ienv io)) rsp s
         else if code = 0x15 then event_part io rsp i (ev MBA_CMPLT_1_16BIT) s
         else if code = 0x16 then event_part io rsp i (ev MBA_SCSI_COMPLETION) s
         else Some s)"

text \<open>A round of the handlers with a host status word: \<open>dispatch\<close> is run when an interrupt is pending.\<close>

definition status_round ::
    "(nat \<Rightarrow> isr \<Rightarrow> isr option) \<Rightarrow> intr_io \<Rightarrow> nat \<Rightarrow> isr \<Rightarrow> (bool \<times> isr) option" where
  "status_round dispatch io i s =
     (let stat = ih_stat io i; (gone, a) = qla2x00_check_reg_for_disconnect stat (is_ad s)
      in if gone then Some (True, s\<lparr>is_ad := a\<rparr>)
         else if stat AND HSR_RISC_PAUSED \<noteq> 0 then Some (True, if ih_offline io then s else risc_paused s)
         else if stat AND HSR_RISC_INT = 0 then Some (True, s)
         else goes_on (dispatch i s))"

definition qla2300_intr_handler :: "intr_io \<Rightarrow> nat \<Rightarrow> adapter \<Rightarrow> adapter option" where
  "qla2300_intr_handler io rsp a = run_isr (status_round (dispatch23 io rsp) io) 50 a"

definition qla24xx_intr_handler :: "intr_io \<Rightarrow> nat \<Rightarrow> adapter \<Rightarrow> adapter option" where
  "qla24xx_intr_handler io rsp a =
     (if ih_offline io then Some a else run_isr (status_round (dispatch24 {0x13, 0x14} io rsp) io) 50 a)"

definition qla24xx_msix_default :: "intr_io \<Rightarrow> nat \<Rightarrow> adapter \<Rightarrow> adapter option" where
  "qla24xx_msix_default io rsp a = run_isr (status_round (dispatch24 {0x13, 0x14} io rsp) io) 1 a"

definition qla24xx_msix_rsp_q :: "intr_io \<Rightarrow> nat \<Rightarrow> adapter \<Rightarrow> adapter option" where
  "qla24xx_msix_rsp_q io rsp a =
     (let (gone, a) = qla2x00_check_reg_for_disconnect (ih_stat io 0) a
      in if gone then Some a else on_host 0 (qla24xx_process_response_queue (ih_ienv io) rsp) a)"

text \<open>The queue's own vector only queues the work, which \<open>qla_do_work\<close> does.\<close>

definition qla_do_work :: "intr_io \<Rightarrow> nat \<Rightarrow> adapter \<Rightarrow> adapter option" where
  "qla_do_work io rsp a = on_host 0 (qla24xx_process_response_queue (ih_ienv io) rsp) a"

definition qla25xx_msix_rsp_q :: "u32 \<Rightarrow> adapter \<Rightarrow> bool \<times> adapter" where
  "qla25xx_msix_rsp_q hccr a =
     (let (gone, a) = qla2x00_check_reg_for_disconnect hccr a in (\<not> gone, a))"

section \<open>The P3P adapters\<close>

text \<open>\<open>vector\<close>: the legacy interrupt vector was read and is this function's, which leaves its bits in \<open>status\<close>.\<close>

definition p3p_round :: "intr_io \<Rightarrow> nat \<Rightarrow> nat \<Rightarrow> isr \<Rightarrow> isr option" where
  "p3p_round io rsp i s = (if ih_host_int io \<noteq> 0 then dispatch24 {0x13} io rsp i s else Some s)"

definition qla82xx_intr_handler :: "u32 option \<Rightarrow> intr_io \<Rightarrow> nat \<Rightarrow> adapter \<Rightarrow> adapter option" where
  "qla82xx_intr_handler vector io rsp a =
     map_option finish_isr (p3p_round io rsp 0
       \<lparr>is_ad = a, is_mbx = (case vector of None \<Rightarrow> False | Some v \<Rightarrow> v AND MBX_INTERRUPT \<noteq> 0)\<rparr>)"

definition qla82xx_msix_default :: "intr_io \<Rightarrow> nat \<Rightarrow> adapter \<Rightarrow> adapter option" where
  "qla82xx_msix_default io rsp a =
     (let (gone, a) = qla2x00_check_reg_for_disconnect (ih_host_int io) a
      in if gone then Some a else map_option finish_isr (p3p_round io rsp 0 \<lparr>is_ad = a, is_mbx = False\<rparr>))"

definition qla82xx_msix_rsp_q :: "intr_io \<Rightarrow> nat \<Rightarrow> adapter \<Rightarrow> adapter option" where
  "qla82xx_msix_rsp_q io rsp a =
     (let (gone, a) = qla2x00_check_reg_for_disconnect (ih_host_int io) a
      in if gone then Some a else on_host 0 (qla24xx_process_response_queue (ih_ienv io) rsp) a)"

text \<open>Polling does not wake the waiting command.\<close>

definition qla82xx_poll :: "intr_io \<Rightarrow> nat \<Rightarrow> adapter \<Rightarrow> adapter option" where
  "qla82xx_poll io rsp a =
     (let (gone, a) = qla2x00_check_reg_for_disconnect (ih_host_int io) a
      in if gone then Some a else map_option is_ad (p3p_round io rsp 0 \<lparr>is_ad = a, is_mbx = False\<rparr>))"

text \<open>\<open>mine\<close>: the legacy interrupt pointer is this function's; the wait for its release has no effect on the state.\<close>

definition qla8044_intr_handler :: "bool \<Rightarrow> intr_io \<Rightarrow> nat \<Rightarrow> adapter \<Rightarrow> adapter option" where
  "qla8044_intr_handler mine io rsp a =
     (if ih_offline io \<or> \<not> mine then Some a
      else let s = \<lparr>is_ad = a, is_mbx = False\<rparr>
           in map_option finish_isr
                (if ih_host_int io \<noteq> 0 \<and> ih_stat io 0 AND HSR_RISC_INT = 0 then Some s else p3p_round io rsp 0 s))"

end
