(* ===== verification/Vport_Queues.thy ===== *)
theory Vport_Queues
  imports Vport_Ops Isr_Queue
begin

text \<open>
  Request and response queues beside the first ones (qla_mid.c): their numbers come from a bit map,
  and the firmware is told of each by a mailbox command. \<open>queues\<close> holds what the adapter state does not.
\<close>

record queues =
  qs_ad :: adapter
  req_cfg :: "nat \<Rightarrow> que_cfg"
  rsp_cfg :: "nat \<Rightarrow> que_cfg"
  rsp_qid_map :: "nat \<Rightarrow> bool"
  rsp_irq :: "nat \<Rightarrow> bool"

definition qs_host :: "queues \<Rightarrow> host" where "qs_host s = mw_host (ad_mbx (qs_ad s))"

definition upd_host :: "(host \<Rightarrow> host) \<Rightarrow> queues \<Rightarrow> queues" where
  "upd_host f s = s\<lparr>qs_ad := upd_mbx (\<lambda>w. w\<lparr>mw_host := f (mw_host w)\<rparr>) (qs_ad s)\<rparr>"

definition set_req_bit :: "nat \<Rightarrow> bool \<Rightarrow> host \<Rightarrow> host" where
  "set_req_bit i b h = h\<lparr>req_qid_map := (req_qid_map h)(i := b)\<rparr>"

definition IS_MSIX_NACK_CAPABLE :: "u32 \<Rightarrow> bool" where
  "IS_MSIX_NACK_CAPABLE dt \<longleftrightarrow> IS_QLA81XX dt \<or> IS_QLA83XX dt"

definition rid_options :: "u16 \<Rightarrow> u16 \<Rightarrow> u16" where
  "rid_options rid options = options OR (if MSB rid \<noteq> 0 then BIT 4 else 0) OR (if LSB rid \<noteq> 0 then BIT 5 else 0)"

text \<open>The command for a queue, issued by the physical port.\<close>

definition tell_firmware ::
    "(que_cfg \<Rightarrow> mbx_world \<Rightarrow> (int \<times> que_cfg \<times> mbx_world) option) \<Rightarrow> que_cfg \<Rightarrow> adapter
      \<Rightarrow> (int \<times> que_cfg \<times> adapter) option" where
  "tell_firmware f q a = map_option (\<lambda>(rv, q, w). (rv, q, port_out 0 a w)) (f q (port_in 0 a))"

section \<open>Request queues\<close>

definition qla25xx_free_req_que :: "nat \<Rightarrow> queues \<Rightarrow> queues" where
  "qla25xx_free_req_que i s =
     (if i = 0 then s else upd_host (\<lambda>h. set_req_bit i False (h\<lparr>req_q_map := (req_q_map h)(i := None)\<rparr>)) s)"

text \<open>The new queue and what the firmware is told of it.\<close>

definition fresh_req_que :: "nat \<Rightarrow> req_que \<Rightarrow> req_que" where
  "fresh_req_que i q =
     q\<lparr>que_length := REQUEST_ENTRY_CNT_24XX, ring_ptr := 0, ring_index := 0, cnt := REQUEST_ENTRY_CNT_24XX,
       que_id := of_nat i, current_outstanding_cmd := 1,
       outstanding_cmds := take 1 (outstanding_cmds q) @ replicate (unat (num_outstanding_cmds q) - 1) None\<rparr>"

definition req_que_cfg :: "u16 \<Rightarrow> u8 \<Rightarrow> u16 \<Rightarrow> int \<Rightarrow> u8 \<Rightarrow> nat \<Rightarrow> u64 \<Rightarrow> host \<Rightarrow> que_cfg" where
  "req_que_cfg options vp rid rsp_que qos i dma h =
     \<lparr>qc_dma = dma, qc_length = REQUEST_ENTRY_CNT_24XX, qc_id = of_nat i, qc_options = rid_options rid options,
      qc_rid = rid, qc_qos = ucast qos, qc_vp_idx = ucast vp,
      qc_partner = (if rsp_que < 0 then None else map_option rsp_id (rsp_q_map h (nat rsp_que))),
      qc_entry = 0, qc_shadow = 0, qc_in_reg = 0, qc_out_reg = 0\<rparr>"

text \<open>The queue is entered, the firmware is told, and if that fails the queue is freed.\<close>

definition enter_req_que ::
    "mbx_issue \<Rightarrow> mbx_cmd \<Rightarrow> nat \<Rightarrow> req_que \<Rightarrow> que_cfg \<Rightarrow> queues \<Rightarrow> (nat \<times> queues) option" where
  "enter_req_que issue junk i q c s =
     (let s = upd_host (\<lambda>h. set_req_bit i True (h\<lparr>req_q_map := (req_q_map h)(i \<mapsto> q)\<rparr>)) s
      in case tell_firmware (qla25xx_init_req_que issue junk) c (qs_ad s) of
           None \<Rightarrow> None
         | Some (rv, c, a) \<Rightarrow>
             (let s = s\<lparr>qs_ad := a, req_cfg := (req_cfg s)(i := c)\<rparr>
              in if rv \<noteq> QLA_SUCCESS then Some (0, qla25xx_free_req_que i (upd_host (set_req_bit i False) s))
                 else Some (i, s)))"

text \<open>
  \<open>mem\<close>: the queue with its ring and its table of outstanding commands, and the ring's DMA address, when
  all of it could be allocated. The result is the number of the queue, 0 for a failure.
\<close>

definition qla25xx_create_req_que ::
    "mbx_issue \<Rightarrow> mbx_cmd \<Rightarrow> (req_que \<times> u64) option \<Rightarrow> u16 \<Rightarrow> u8 \<Rightarrow> u16 \<Rightarrow> int \<Rightarrow> u8 \<Rightarrow> queues
      \<Rightarrow> (nat \<times> queues) option" where
  "qla25xx_create_req_que issue junk mem options vp rid rsp_que qos s =
     (case mem of
        None \<Rightarrow> Some (0, s)
      | Some (q, dma) \<Rightarrow>
        (let h = qs_host s; i = find_first_zero_bit (req_qid_map h) (unat (max_req_queues h))
         in if i \<ge> unat (max_req_queues h) then Some (0, s)
            else enter_req_que issue junk i (fresh_req_que i q) (req_que_cfg options vp rid rsp_que qos i dma h) s))"

definition qla25xx_delete_req_que ::
    "mbx_issue \<Rightarrow> mbx_cmd \<Rightarrow> nat \<Rightarrow> queues \<Rightarrow> (int \<times> queues) option" where
  "qla25xx_delete_req_que issue junk i s =
     (if req_q_map (qs_host s) i = None then Some (- 1, s)
      else let c = (req_cfg s i)\<lparr>qc_options := qc_options (req_cfg s i) OR BIT 0\<rparr>
           in case tell_firmware (qla25xx_init_req_que issue junk) c (qs_ad s) of
                None \<Rightarrow> None
              | Some (rv, c, a) \<Rightarrow>
                  (let s = s\<lparr>qs_ad := a, req_cfg := (req_cfg s)(i := c)\<rparr>
                   in Some (rv, if rv = QLA_SUCCESS then qla25xx_free_req_que i s else s)))"

section \<open>Response queues\<close>

definition qla25xx_free_rsp_que :: "nat \<Rightarrow> queues \<Rightarrow> queues" where
  "qla25xx_free_rsp_que i s =
     (let s = s\<lparr>rsp_irq := (rsp_irq s)(i := False)\<rparr>
      in if i = 0 then s
         else (upd_host (\<lambda>h. h\<lparr>rsp_q_map := (rsp_q_map h)(i := None)\<rparr>) s)\<lparr>rsp_qid_map := (rsp_qid_map s)(i := False)\<rparr>)"

text \<open>
  The vector of queue \<open>i\<close> is \<open>i + 1\<close>; without MSI-X there is none, and the code that asks for the
  interrupt follows a null pointer: None. \<open>irq\<close>: the interrupt is granted.
\<close>

definition qla25xx_create_rsp_que ::
    "mbx_issue \<Rightarrow> mbx_cmd \<Rightarrow> (rsp_que \<times> u64) option \<Rightarrow> bool \<Rightarrow> u16 \<Rightarrow> u8 \<Rightarrow> u16 \<Rightarrow> int \<Rightarrow> queues
      \<Rightarrow> (nat \<times> queues) option" where
  "qla25xx_create_rsp_que issue junk mem irq options vp rid req s =
     (case mem of
        None \<Rightarrow> Some (0, s)
      | Some (q, dma) \<Rightarrow>
        (let h = qs_host s; i = find_first_zero_bit (rsp_qid_map s) (unat (max_rsp_queues h))
         in if i \<ge> unat (max_rsp_queues h) then Some (0, s)
            else if \<not> mw_msix_enabled (ad_mbx (qs_ad s)) then None
            else
              let q = q\<lparr>rsp_length := RESPONSE_ENTRY_CNT_MQ, rsp_id := of_nat i\<rparr>;
                  c = \<lparr>qc_dma = dma, qc_length = RESPONSE_ENTRY_CNT_MQ, qc_id = of_nat i,
                     qc_options = rid_options rid options OR (if IS_MSIX_NACK_CAPABLE (device_type h) then 0 else BIT 6),
                     qc_rid = rid, qc_qos = 0, qc_vp_idx = ucast vp, qc_partner = None, qc_entry = of_nat i + 1,
                     qc_shadow = 0, qc_in_reg = 0, qc_out_reg = 0\<rparr>;
                  s = (upd_host (\<lambda>h. h\<lparr>rsp_q_map := (rsp_q_map h)(i \<mapsto> q)\<rparr>) s)\<lparr>rsp_qid_map := (rsp_qid_map s)(i := True)\<rparr>
              in if \<not> irq then Some (0, qla25xx_free_rsp_que i s)
                 else case tell_firmware (qla25xx_init_rsp_que issue junk) c (qs_ad s) of
                   None \<Rightarrow> None
                 | Some (rv, c, a) \<Rightarrow>
                     (let s = s\<lparr>qs_ad := a, rsp_cfg := (rsp_cfg s)(i := c), rsp_irq := (rsp_irq s)(i := True)\<rparr>
                      in if rv \<noteq> QLA_SUCCESS
                         then Some (0, qla25xx_free_rsp_que i (s\<lparr>rsp_qid_map := (rsp_qid_map s)(i := False)\<rparr>))
                         else Some (i, upd_host (\<lambda>h. h\<lparr>rsp_q_map := (rsp_q_map h)(i \<mapsto>
                                (get_rsp i h)\<lparr>rsp_req := nat req, rsp_ring_ptr := 0, rsp_ring_index := 0, status_srb := None\<rparr>)\<rparr>) s))))"

definition qla25xx_delete_rsp_que ::
    "mbx_issue \<Rightarrow> mbx_cmd \<Rightarrow> nat \<Rightarrow> queues \<Rightarrow> (int \<times> queues) option" where
  "qla25xx_delete_rsp_que issue junk i s =
     (if rsp_q_map (qs_host s) i = None then Some (- 1, s)
      else let c = (rsp_cfg s i)\<lparr>qc_options := qc_options (rsp_cfg s i) OR BIT 0\<rparr>
           in case tell_firmware (qla25xx_init_rsp_que issue junk) c (qs_ad s) of
                None \<Rightarrow> None
              | Some (rv, c, a) \<Rightarrow>
                  (let s = s\<lparr>qs_ad := a, rsp_cfg := (rsp_cfg s)(i := c)\<rparr>
                   in Some (rv, if rv = QLA_SUCCESS then qla25xx_free_rsp_que i s else s)))"

text \<open>All queues but the first; the first failure ends the loop.\<close>

fun delete_all :: "(nat \<Rightarrow> queues \<Rightarrow> bool) \<Rightarrow> (nat \<Rightarrow> queues \<Rightarrow> (int \<times> queues) option) \<Rightarrow> nat list \<Rightarrow> int \<Rightarrow> queues
    \<Rightarrow> (bool \<times> int \<times> queues) option" where
  "delete_all there del [] ret s = Some (True, ret, s)"
| "delete_all there del (i # is) ret s =
     (if \<not> there i s then delete_all there del is ret s
      else case del i s of
             None \<Rightarrow> None
           | Some (rv, s) \<Rightarrow> if rv \<noteq> QLA_SUCCESS then Some (False, rv, s) else delete_all there del is rv s)"

definition qla25xx_delete_queues :: "mbx_issue \<Rightarrow> mbx_cmd \<Rightarrow> queues \<Rightarrow> (int \<times> queues) option" where
  "qla25xx_delete_queues issue junk s =
     (case delete_all (\<lambda>i s. req_q_map (qs_host s) i \<noteq> None) (qla25xx_delete_req_que issue junk)
             [1..<unat (max_req_queues (qs_host s))] 0 s of
        None \<Rightarrow> None
      | Some (False, rv, s) \<Rightarrow> Some (rv, s)
      | Some (True, ret, s) \<Rightarrow>
          map_option snd (delete_all (\<lambda>i s. rsp_q_map (qs_host s) i \<noteq> None) (qla25xx_delete_rsp_que issue junk)
             [1..<unat (max_rsp_queues (qs_host s))] ret s))"

end
