(* ===== verification/Vport_Claims.thy ===== *)
theory Vport_Claims
  imports Vport_Ops Mbx_Props
begin

text \<open>
  Properties of the virtual ports: their numbers, the references that posted work holds, and what
  goes wrong at the limit, when ports come and go at the same time, and when a creation fails.
\<close>

section \<open>The bit maps\<close>

text \<open>What the users of a bit map of numbers rely on; \<open>first\<close> is the search.\<close>

locale number_map =
  fixes first :: "(nat \<Rightarrow> bool) \<Rightarrow> nat \<Rightarrow> nat"
  assumes least: "i < first m n \<Longrightarrow> i < n \<Longrightarrow> m i"
    and free: "first m n < n \<Longrightarrow> \<not> m (first m n)"
begin

text \<open>When the map tells which numbers \<open>I\<close> the members of \<open>S\<close> have, the number found is new.\<close>

lemma fresh:
  assumes "\<And>i. i < n \<Longrightarrow> m i \<longleftrightarrow> i \<in> I ` S" "first m n < n"
  shows "first m n \<notin> I ` S"
  using assms free [of m n] by blast

lemma full_card:
  assumes "\<And>i. i < n \<Longrightarrow> m i \<longleftrightarrow> i \<in> I ` S" "n \<le> first m n" "finite S"
  shows "n \<le> card S"
proof -
  have "{..<n} \<subseteq> I ` S" using assms(1,2) least [of _ m n] by fastforce
  then show ?thesis using surj_card_le [OF assms(3), of "{..<n}" I] by simp
qed

lemma not_full:
  assumes "\<And>i. i < n \<Longrightarrow> m i \<longleftrightarrow> i \<in> I ` S" "inj_on I S" "I ` S \<subseteq> {..<n}" "first m n < n"
  shows "card S < n"
proof -
  have new: "first m n \<notin> I ` S" using assms(1,4) by (rule fresh)
  have "card S = card (I ` S)" using assms(2) by (simp add: card_image)
  also have "\<dots> \<le> card ({..<n} - {first m n})"
    using assms(3) new by (intro card_mono subset_Diff_insert [THEN iffD2]) auto
  also have "\<dots> < n" using assms(4) by simp
  finally show ?thesis .
qed

end

lemma find_first_zero_bit_cases:
  obtains "find_first_zero_bit m n = n" "\<forall>i < n. m i"
    | "find_first_zero_bit m n < n" "\<not> m (find_first_zero_bit m n)" "\<forall>i < find_first_zero_bit m n. m i"
proof (cases "find (\<lambda>i. \<not> m i) [0..<n]")
  case None
  then have "\<forall>i < n. m i" by (auto simp: find_None_iff)
  then show ?thesis using that(1) None by (simp add: find_first_zero_bit_def)
next
  case (Some k)
  then have "k < n" "\<not> m k" "\<forall>i < k. m i" by (auto simp: find_Some_iff)
  moreover have "find_first_zero_bit m n = k" using Some by (simp add: find_first_zero_bit_def)
  ultimately show ?thesis using that(2) by simp
qed

lemma find_first_zero_bit_least: "i < find_first_zero_bit m n \<Longrightarrow> i < n \<Longrightarrow> m i"
  by (rule find_first_zero_bit_cases [of m n]) auto

lemma find_first_zero_bit_free: "find_first_zero_bit m n < n \<Longrightarrow> \<not> m (find_first_zero_bit m n)"
  by (rule find_first_zero_bit_cases [of m n]) auto

interpretation bits: number_map find_first_zero_bit
  by unfold_locales (fact find_first_zero_bit_least, fact find_first_zero_bit_free)

lemma find_first_zero_bit_le: "find_first_zero_bit m n \<le> n"
  by (rule find_first_zero_bit_cases [of m n]) auto

lemma find_first_zero_bit_at:
  assumes "\<forall>i < k. m i" "\<not> m k" "k < n"
  shows "find_first_zero_bit m n = k"
proof (rule find_first_zero_bit_cases [of m n])
  assume "\<forall>i < n. m i"
  then show ?thesis using assms(2,3) by auto
next
  assume f: "\<not> m (find_first_zero_bit m n)" and below: "\<forall>i < find_first_zero_bit m n. m i"
  have "\<not> find_first_zero_bit m n < k" using assms(1) f by auto
  moreover have "\<not> k < find_first_zero_bit m n" using below assms(2) by auto
  ultimately show ?thesis by simp
qed

lemma find_first_zero_bit_cleared:
  "\<forall>i < k. m i \<Longrightarrow> k < n \<Longrightarrow> find_first_zero_bit (m(k := False)) n = k"
  by (rule find_first_zero_bit_at) auto

section \<open>What the firmware's commands leave alone\<close>

text \<open>A port without what the traffic with the firmware, or an event, may change.\<close>

definition stable :: "port \<Rightarrow> u16 \<times> nat \<times> work list \<times> bool \<times> bool \<times> nat list" where
  "stable q = (pt_idx q, pt_vref q, pt_work q, pt_timer_active q, pt_delete_progress q, pt_fcports q)"

definition counts :: "adapter \<Rightarrow> nat list \<times> (nat \<Rightarrow> bool) \<times> u16 \<times> int \<times> (nat \<Rightarrow> u16 \<times> nat \<times> work list \<times> bool \<times> bool \<times> nat list)" where
  "counts a = (vp_list a, vp_idx_map a, num_vhosts a, cur_vport_count a, \<lambda>p. stable (ad_ports a p))"

lemma counts_eq:
  assumes "counts a = counts b"
  shows "vp_list a = vp_list b" "vp_idx_map a = vp_idx_map b" "num_vhosts a = num_vhosts b"
    "cur_vport_count a = cur_vport_count b" "pt_idx (ad_ports a p) = pt_idx (ad_ports b p)"
    "pt_vref (ad_ports a p) = pt_vref (ad_ports b p)" "pt_work (ad_ports a p) = pt_work (ad_ports b p)"
    "pt_timer_active (ad_ports a p) = pt_timer_active (ad_ports b p)"
  using assms by (simp_all add: counts_def stable_def fun_eq_iff)

lemma counts_upd_port: "(\<And>q. stable (f q) = stable q) \<Longrightarrow> counts (upd_port p f a) = counts a"
  by (auto simp: counts_def upd_port_def)

lemma counts_upd_mbx [simp]: "counts (upd_mbx f a) = counts a"
  by (simp add: counts_def upd_mbx_def)

lemma counts_fold: "(\<And>x a. counts (f x a) = counts a) \<Longrightarrow> counts (fold f xs a) = counts a"
  by (induction xs arbitrary: a) auto

lemma counts_mbx_set [simp]: "counts (a\<lparr>ad_mbx := w\<rparr>) = counts a"
  by (simp add: counts_def)

lemma counts_take_vp [simp]: "counts (take_vp x a) = counts a"
  by (cases x) (simp add: take_vp_def counts_upd_port stable_def)

lemma counts_port_out [simp]: "counts (port_out p a w) = counts a"
  by (simp add: port_out_def counts_fold counts_upd_port stable_def)

lemma ad_mbx_upd_port [simp]: "ad_mbx (upd_port p f a) = ad_mbx a"
  by (simp add: upd_port_def)

lemma ad_mbx_port_out [simp]: "ad_mbx (port_out p a w) = w"
proof -
  have "ad_mbx (fold take_vp xs b) = ad_mbx b" for xs b
    by (induction xs arbitrary: b) (auto simp: take_vp_def split: prod.splits)
  then show ?thesis by (simp add: port_out_def)
qed

lemma counts_as_port: "as_port p f a = Some (rv, b) \<Longrightarrow> counts b = counts a"
  by (auto simp: as_port_def)

lemma counts_set_fc_state [simp]: "counts (set_fc_state f s a) = counts a"
  by (simp add: set_fc_state_def)

lemma counts_rport_del [simp]: "counts (rport_del f d a) = counts a"
  by (simp add: rport_del_def Let_def wake_base_def counts_upd_port dpc_on_def stable_def)

lemma counts_lose_device [simp]: "counts (lose_device p d f a) = counts a"
  by (simp add: lose_device_def Let_def)

lemma counts_all_lost [simp]: "counts (qla2x00_mark_all_devices_lost p d a) = counts a"
  by (simp add: qla2x00_mark_all_devices_lost_def counts_fold)

lemma counts_all_dead [simp]: "counts (qla2x00_mark_vp_devices_dead p a) = counts a"
  by (simp add: qla2x00_mark_vp_devices_dead_def counts_fold kill_device_def)

lemma counts_disable: "qla24xx_disable_vp issue junk pool p a = Some (rv, b) \<Longrightarrow> counts b = counts a"
  by (auto simp: qla24xx_disable_vp_def Let_def counts_upd_port stable_def dest: counts_as_port split: prod.splits)

lemma counts_enable: "qla24xx_enable_vp issue junk pool p a = Some (rv, b) \<Longrightarrow> counts b = counts a"
  by (auto simp: qla24xx_enable_vp_def Let_def counts_upd_port stable_def dest: counts_as_port split: if_splits prod.splits)

section \<open>The numbers of the ports\<close>

definition vp_cap :: "adapter \<Rightarrow> nat" where
  "vp_cap a = unat (max_npiv_vports (mw_fw (ad_mbx a)))"

definition vp_no :: "adapter \<Rightarrow> nat \<Rightarrow> nat" where
  "vp_no a p = unat (pt_idx (ad_ports a p))"

text \<open>
  The physical port heads the list and has number 0, every other port a number of its own, at most
  \<open>max_npiv_vports\<close>; the bit map holds these numbers and \<open>num_vhosts\<close> counts the virtual ports.
\<close>

definition vports_wf :: "adapter \<Rightarrow> bool" where
  "vports_wf a \<longleftrightarrow> (\<exists>ps. vp_list a = 0 # ps \<and> num_vhosts a = of_nat (length ps)) \<and> distinct (vp_list a) \<and> vp_no a 0 = 0
     \<and> inj_on (vp_no a) (set (vp_list a)) \<and> vp_no a ` set (vp_list a) \<subseteq> {..<Suc (vp_cap a)}
     \<and> (\<forall>i < Suc (vp_cap a). vp_idx_map a i \<longleftrightarrow> i \<in> vp_no a ` set (vp_list a))"

lemma vports_wfD:
  assumes "vports_wf a"
  shows "distinct (vp_list a)" "vp_no a 0 = 0" "inj_on (vp_no a) (set (vp_list a))"
    "vp_no a ` set (vp_list a) \<subseteq> {..<Suc (vp_cap a)}"
    "i < Suc (vp_cap a) \<Longrightarrow> vp_idx_map a i \<longleftrightarrow> i \<in> vp_no a ` set (vp_list a)"
  using assms by (auto simp: vports_wf_def)

lemma vports_wf_counts:
  assumes "counts a = counts b" "vp_cap a = vp_cap b" "vports_wf a"
  shows "vports_wf b"
proof -
  have "vp_no a = vp_no b" using counts_eq(5) [OF assms(1)] by (simp add: fun_eq_iff vp_no_def)
  then show ?thesis using assms counts_eq [OF assms(1)] by (simp add: vports_wf_def)
qed

definition new_no :: "adapter \<Rightarrow> nat" where
  "new_no a = find_first_zero_bit (vp_idx_map a) (Suc (vp_cap a))"

lemma allocate_run:
  "qla24xx_allocate_vp_id p a =
     (new_no a, if new_no a > vp_cap a then a
        else upd_port p (\<lambda>q. q\<lparr>pt_idx := of_nat (new_no a)\<rparr>)
               (a\<lparr>vp_idx_map := (vp_idx_map a)(new_no a := True), num_vhosts := num_vhosts a + 1,
                  vp_list := vp_list a @ [p]\<rparr>))"
  by (simp add: qla24xx_allocate_vp_id_def new_no_def vp_cap_def Let_def)

lemma vp_no_of_nat: "n \<le> vp_cap a \<Longrightarrow> unat (of_nat n :: u16) = n"
proof -
  have "vp_cap a < 2 ^ 16" unfolding vp_cap_def using unsigned_less [of "max_npiv_vports (mw_fw (ad_mbx a))", where 'a = nat] by simp
  then show "n \<le> vp_cap a \<Longrightarrow> unat (of_nat n :: u16) = n" by (simp add: unsigned_of_nat take_bit_nat_eq_self)
qed

text \<open>What a port gets: the list, the map and the count, and the least number that is not in use.\<close>

lemma allocate_wf:
  assumes "vports_wf a" "p \<notin> set (vp_list a)" "new_no a \<le> vp_cap a" "qla24xx_allocate_vp_id p a = (n, b)"
  shows "vports_wf b" "n = new_no a" "vp_no b p = n" "vp_list b = vp_list a @ [p]" "ad_mbx b = ad_mbx a"
    "n \<notin> vp_no a ` set (vp_list a)" "\<And>q. q \<noteq> p \<Longrightarrow> ad_ports b q = ad_ports a q"
    "vp_idx_map b = (vp_idx_map a)(n := True)" "cur_vport_count b = cur_vport_count a"
proof -
  note wf = vports_wfD [OF assms(1)]
  have b: "b = upd_port p (\<lambda>q. q\<lparr>pt_idx := of_nat n\<rparr>)
       (a\<lparr>vp_idx_map := (vp_idx_map a)(n := True), num_vhosts := num_vhosts a + 1, vp_list := vp_list a @ [p]\<rparr>)"
    and n: "n = new_no a"
    using assms(3,4) by (auto simp: allocate_run)
  have new: "n \<notin> vp_no a ` set (vp_list a)"
    using assms(3) bits.fresh [of "Suc (vp_cap a)" "vp_idx_map a" "vp_no a" "set (vp_list a)"] wf(5) n
    by (simp add: new_no_def)
  have no: "vp_no b q = (if q = p then n else vp_no a q)" for q
    using assms(3) n by (simp add: vp_no_def b upd_port_def vp_no_of_nat)
  have img: "vp_no b ` set (vp_list a) = vp_no a ` set (vp_list a)"
    using assms(2) by (intro image_cong) (auto simp: no)
  have inj: "inj_on (vp_no b) (set (vp_list a))"
    using wf(3) assms(2) by (auto simp: inj_on_def no)
  have cap: "vp_cap b = vp_cap a" by (simp add: b vp_cap_def)
  have map: "vp_idx_map b = (vp_idx_map a)(n := True)" "vp_list b = vp_list a @ [p]" "num_vhosts b = num_vhosts a + 1"
    by (simp_all add: b upd_port_def)
  have p0: "p \<noteq> 0" using assms(1,2) by (auto simp: vports_wf_def)
  show "vports_wf b"
    unfolding vports_wf_def
  proof (intro conjI)
    show "\<exists>ps. vp_list b = 0 # ps \<and> num_vhosts b = of_nat (length ps)"
      using assms(1) by (auto simp: vports_wf_def map)
    show "distinct (vp_list b)" "vp_no b 0 = 0" using wf(1,2) assms(2) p0 by (simp_all add: map no)
    show "inj_on (vp_no b) (set (vp_list b))" using inj new img no [of p] assms(2) by (simp add: map)
    show "vp_no b ` set (vp_list b) \<subseteq> {..<Suc (vp_cap b)}" using wf(4) assms(3) n img no [of p] by (simp add: map cap)
    show "\<forall>i < Suc (vp_cap b). vp_idx_map b i \<longleftrightarrow> i \<in> vp_no b ` set (vp_list b)"
      using wf(5) img no [of p] by (simp add: map cap)
  qed
  show "n = new_no a" "vp_no b p = n" "vp_list b = vp_list a @ [p]" "n \<notin> vp_no a ` set (vp_list a)"
      "vp_idx_map b = (vp_idx_map a)(n := True)"
    by (fact n, simp add: no, fact map(2), fact new, fact map(1))
  show "ad_mbx b = ad_mbx a" "\<And>q. q \<noteq> p \<Longrightarrow> ad_ports b q = ad_ports a q" "cur_vport_count b = cur_vport_count a"
    by (simp_all add: b upd_port_def)
qed

text \<open>Giving the number back: port and number are free again.\<close>

lemma release_wf:
  assumes "vports_wf a" "p \<in> set (vp_list a)" "p \<noteq> 0"
  shows "vports_wf (release_vp_id p a)"
proof -
  note wf = vports_wfD [OF assms(1)]
  define b where "b = release_vp_id p a"
  have b: "vp_list b = remove1 p (vp_list a)" "num_vhosts b = num_vhosts a - 1" "vp_no b = vp_no a" "vp_cap b = vp_cap a"
      "vp_idx_map b = (vp_idx_map a)(vp_no a p := False)"
    by (simp_all add: b_def release_vp_id_def vp_no_def vp_cap_def fun_eq_iff)
  have set: "set (vp_list b) = set (vp_list a) - {p}" using wf(1) by (simp add: b)
  have img: "vp_no a ` (set (vp_list a) - {p}) = vp_no a ` set (vp_list a) - {vp_no a p}"
    using wf(3) assms(2) by (auto simp: inj_on_def)
  have len: "0 < length ps \<and> length (remove1 p ps) = length ps - 1" if "p \<in> set ps" for ps
    using that length_pos_if_in_set [OF that] by (simp add: length_remove1)
  show ?thesis
    unfolding vports_wf_def b_def [symmetric]
  proof (intro conjI)
    obtain ps where ps: "vp_list a = 0 # ps" "num_vhosts a = of_nat (length ps)" using assms(1) by (auto simp: vports_wf_def)
    then have "p \<in> set ps" using assms(2,3) by auto
    then show "\<exists>ps. vp_list b = 0 # ps \<and> num_vhosts b = of_nat (length ps)"
      using ps len [of ps] assms(3) by (auto simp: b of_nat_diff Suc_le_eq)
    show "distinct (vp_list b)" "vp_no b 0 = 0" using wf(1,2) by (simp_all add: b)
    show "inj_on (vp_no b) (set (vp_list b))" using wf(3) by (auto simp: b(3) set intro: inj_on_subset)
    show "vp_no b ` set (vp_list b) \<subseteq> {..<Suc (vp_cap b)}" using wf(4) by (auto simp: b(3,4) set)
    show "\<forall>i < Suc (vp_cap b). vp_idx_map b i \<longleftrightarrow> i \<in> vp_no b ` set (vp_list b)"
      using wf(5) by (simp add: b(3,4,5) set img)
  qed
qed

section \<open>Creation\<close>

text \<open>The firmware's commands do not change how many ports the adapter supports.\<close>

definition keeps_cap :: "mbx_issue \<Rightarrow> bool" where
  "keeps_cap issue \<longleftrightarrow> (\<forall>m w rv n v. issue m w = Some (rv, n, v) \<longrightarrow>
     max_npiv_vports (mw_fw v) = max_npiv_vports (mw_fw w))"

lemma keeps_cap_iocb:
  assumes "keeps_cap issue" "qla2x00_issue_iocb issue junk x w = Some (rv, v)"
  shows "max_npiv_vports (mw_fw v) = max_npiv_vports (mw_fw w)"
  using assms
  by (auto simp: qla2x00_issue_iocb_def keeps_cap_def qla2x00_issue_iocb_timeout_def put_mem_def Let_def
      bind_eq_Some_conv)

lemma keeps_cap_put: "max_npiv_vports (mw_fw (put_mem x m w)) = max_npiv_vports (mw_fw w)"
  by (simp add: put_mem_def)

lemma keeps_cap_control:
  assumes "keeps_cap issue" "qla24xx_control_vp issue junk pool c w = Some (rv, v)"
  shows "max_npiv_vports (mw_fw v) = max_npiv_vports (mw_fw w)"
  using assms(2)
  by (auto simp: qla24xx_control_vp_def Let_def bind_eq_Some_conv split: if_splits option.splits
      dest!: keeps_cap_iocb [OF assms(1)] simp: keeps_cap_put)

lemma keeps_cap_modify:
  assumes "keeps_cap issue" "qla24xx_modify_vp_config issue junk pool w = Some (rv, v)"
  shows "max_npiv_vports (mw_fw v) = max_npiv_vports (mw_fw w)"
proof (cases pool)
  case (Some x)
  then obtain m r u where u: "qla2x00_issue_iocb issue junk x (put_mem x m w) = Some (r, u)"
    and v: "(if r \<noteq> QLA_SUCCESS then Some (r, u) else if get16 0 10 (mw_mem u x) \<noteq> 0 then Some (QLA_FUNCTION_FAILED, u)
          else Some (r, upd_fw (\<lambda>f. f\<lparr>fc_vport_state := FC_VPORT_INITIALIZING\<rparr>) u)) = Some (rv, v)"
    using assms(2) unfolding qla24xx_modify_vp_config_def by (auto simp only: option.case bind_eq_Some_conv split_paired_Ex case_prod_conv)
  from v have "max_npiv_vports (mw_fw v) = max_npiv_vports (mw_fw u)" by (auto simp: upd_fw_def split: if_splits)
  then show ?thesis using keeps_cap_iocb [OF assms(1) u] by (simp add: keeps_cap_put)
next
  case None
  then show ?thesis using assms(2) by (simp add: qla24xx_modify_vp_config_def)
qed

lemma vp_cap_steps [simp]:
  "vp_cap (upd_port p f a) = vp_cap a" "vp_cap (port_out p a w) = unat (max_npiv_vports (mw_fw w))"
  "max_npiv_vports (mw_fw (port_in p a)) = max_npiv_vports (mw_fw (ad_mbx a))"
  "vp_cap (set_fc_state g st a) = vp_cap a"
  by (simp_all add: vp_cap_def port_in_def Let_def set_fc_state_def upd_mbx_def)

lemma vp_cap_dead [simp]: "vp_cap (qla2x00_mark_vp_devices_dead p a) = vp_cap a"
proof -
  have "vp_cap (fold (kill_device p) fs a) = vp_cap a" for fs
    by (induction fs arbitrary: a) (simp_all add: kill_device_def vp_cap_def upd_mbx_def set_fc_state_def)
  then show ?thesis by (simp add: qla2x00_mark_vp_devices_dead_def)
qed

lemma disable_cap:
  assumes "keeps_cap issue" "qla24xx_disable_vp issue junk pool p a = Some (rv, b)"
  shows "vp_cap b = vp_cap a"
proof -
  obtain r w where "qla24xx_control_vp issue junk pool VCE_COMMAND_DISABLE_VPS_LOGO_ALL (port_in p a) = Some (r, w)"
      "vp_cap b = unat (max_npiv_vports (mw_fw w))"
    using assms(2) by (auto simp: qla24xx_disable_vp_def as_port_def Let_def)
  then show ?thesis using keeps_cap_control [OF assms(1)] by (simp add: vp_cap_def)
qed

lemma enable_cap:
  assumes "keeps_cap issue" "qla24xx_enable_vp issue junk pool p a = Some (rv, b)"
  shows "vp_cap b = vp_cap a"
proof (cases "\<exists>r w. qla24xx_modify_vp_config issue junk pool (port_in p a) = Some (r, w)
    \<and> vp_cap b = unat (max_npiv_vports (mw_fw w))")
  case True
  then show ?thesis using keeps_cap_modify [OF assms(1)] by (auto simp: vp_cap_def)
next
  case False
  then show ?thesis using assms(2) by (auto simp: qla24xx_enable_vp_def as_port_def Let_def split: if_splits)
qed

lemma onoff_frame:
  assumes "keeps_cap issue" "qla24xx_vport_disable issue junk pool d p a = Some (rv, b)"
  shows "counts b = counts a" "vp_cap b = vp_cap a"
  using assms
  by (auto simp: qla24xx_vport_disable_def split: if_splits dest: counts_disable counts_enable disable_cap enable_cap)

lemma vports_wf_cong:
  assumes "vp_list b = vp_list a" "num_vhosts b = num_vhosts a" "vp_idx_map b = vp_idx_map a" "vp_cap b = vp_cap a"
    and "\<And>q. q \<in> set (vp_list a) \<Longrightarrow> vp_no b q = vp_no a q"
  shows "vports_wf b \<longleftrightarrow> vports_wf a"
proof (cases "0 \<in> set (vp_list a)")
  case True
  have "vp_no b ` set (vp_list a) = vp_no a ` set (vp_list a)" using assms(5) by (rule image_cong [OF refl])
  moreover have "inj_on (vp_no b) (set (vp_list a)) \<longleftrightarrow> inj_on (vp_no a) (set (vp_list a))"
    using assms(5) by (rule inj_on_cong)
  ultimately show ?thesis using assms(5) [OF True] by (simp add: vports_wf_def assms(1-4))
next
  case False
  then show ?thesis using assms(1) by (auto simp: vports_wf_def)
qed

text \<open>A port that is not in the list may change as it will.\<close>

lemma outside [simp]:
  assumes "p \<notin> set (vp_list a)"
  shows "vports_wf (upd_port p f a) \<longleftrightarrow> vports_wf a"
  using assms by (intro vports_wf_cong; cases a) (auto simp: upd_port_def vp_no_def vp_cap_def)

lemma upd_port_fields [simp]:
  "vp_list (upd_port p f a) = vp_list a" "vp_idx_map (upd_port p f a) = vp_idx_map a"
  "num_vhosts (upd_port p f a) = num_vhosts a" "cur_vport_count (upd_port p f a) = cur_vport_count a"
  "new_no (upd_port p f a) = new_no a" "ad_ports (upd_port p f a) q = (if q = p then f (ad_ports a p) else ad_ports a q)"
  by (simp_all add: upd_port_def new_no_def vp_cap_def)

lemma create_vhost_wf:
  assumes "vports_wf a" "p \<notin> set (vp_list a)" "qla24xx_create_vhost host node name p a = (ok, b)"
  shows "vports_wf b \<and> vp_cap b = vp_cap a \<and> (ok \<longleftrightarrow> host \<and> new_no a \<le> vp_cap a) \<and> (\<forall>q. q \<noteq> p \<longrightarrow> ad_ports b q = ad_ports a q)
    \<and> (if ok then vp_list b = vp_list a @ [p] \<and> vp_no b p = new_no a \<and> new_no a \<notin> vp_no a ` set (vp_list a)
         \<and> pt_timer_active (ad_ports b p) \<and> pt_vref (ad_ports b p) = 0 \<and> cur_vport_count b = cur_vport_count a + 1
       else vp_list b = vp_list a \<and> cur_vport_count b = cur_vport_count a)"
proof -
  define a1 where "a1 = upd_port p (\<lambda>_. blank_port\<lparr>pt_node_name := node, pt_port_name := name\<rparr>) a"
  have a1: "vports_wf a1" "p \<notin> set (vp_list a1)" "new_no a1 = new_no a" "vp_cap a1 = vp_cap a" "vp_list a1 = vp_list a"
      "cur_vport_count a1 = cur_vport_count a" "\<And>q. q \<noteq> p \<Longrightarrow> ad_ports a1 q = ad_ports a q"
    using assms(1,2) by (simp_all add: a1_def)
  have "vp_no a1 ` set (vp_list a) = vp_no a ` set (vp_list a)"
    using assms(2) by (intro image_cong) (auto simp: vp_no_def a1_def)
  note a1 = a1 this
  obtain n a2 where al: "qla24xx_allocate_vp_id p a1 = (n, a2)" by fastforce
  have n: "n = new_no a" "vp_cap a2 = vp_cap a" using al a1 by (auto simp: allocate_run vp_cap_def)
  have b: "(ok, b) = (if \<not> host then (False, a)
      else if n > vp_cap a then (False, upd_port p (\<lambda>q. q\<lparr>pt_idx := of_nat n\<rparr>) a2)
      else (True, (upd_port p (\<lambda>q. q\<lparr>pt_mgmt_loop := 10 + pt_idx q, pt_dpc := 0,
                      pt_vp_flags := pt_vp_flags q OR BIT VP_SCR_NEEDED, pt_loop_state := LOOP_DOWN,
                      pt_loop_down_timer := LOOP_DOWN_TIME, pt_timer_active := True,
                      pt_req := pt_req (ad_ports a2 0), pt_init_done := True\<rparr>) a2)
                    \<lparr>vp_idx_map := (vp_idx_map a2)(n := True), cur_vport_count := cur_vport_count a2 + 1\<rparr>))"
    using assms(3) al n(2) by (auto simp: qla24xx_create_vhost_def Let_def a1_def vp_cap_def)
  show ?thesis
  proof (cases "host \<and> n \<le> vp_cap a")
    case False
    have "b = a \<or> b = upd_port p (\<lambda>q. q\<lparr>pt_idx := of_nat n\<rparr>) a1" "\<not> ok"
      using b False al n(1) a1(3,4) by (auto simp: allocate_run split: if_splits)
    then show ?thesis using False assms(1,2) a1 n(1) by (elim disjE) simp_all
  next
    case True
    have le: "new_no a1 \<le> vp_cap a1" using True n a1 by simp
    note w = allocate_wf [OF a1(1,2) le al]
    have "pt_vref (ad_ports a2 p) = 0" using al True n(1) a1(3,4) by (auto simp: allocate_run a1_def blank_port_def)
    moreover have "vports_wf b \<longleftrightarrow> vports_wf a2"
      using b True w(8) by (intro vports_wf_cong) (auto simp: vp_no_def vp_cap_def)
    moreover have "vp_no b p = vp_no a2 p" "vp_cap b = vp_cap a2" using b True by (auto simp: vp_no_def vp_cap_def)
    ultimately show ?thesis using b True w n a1 by auto
  qed
qed

text \<open>The body of the creation after the new port is in the list.\<close>

definition settle :: "bool \<Rightarrow> nat \<Rightarrow> adapter \<Rightarrow> adapter" where
  "settle disable p a =
     (let a = upd_port p (\<lambda>q. (if disable then q\<lparr>pt_vp_state := VP_OFFLINE, pt_fc_vport := FC_VPORT_DISABLED\<rparr>
                else q\<lparr>pt_vp_state := VP_FAILED\<rparr>)\<lparr>pt_loop_state := LOOP_DOWN, pt_vp_err := VP_ERR_PORTDWN\<rparr>) a;
          base = ad_ports a 0
      in if pt_loop_state base = LOOP_DOWN \<or> pt_loop_state base = LOOP_DEAD
         then upd_port p (\<lambda>q. (if disable then q else q\<lparr>pt_fc_vport := FC_VPORT_LINKDOWN\<rparr>)\<lparr>pt_loop_state := LOOP_DEAD\<rparr>) a
         else a)"

lemma settle_frame [simp]: "counts (settle d p a) = counts a" "vp_cap (settle d p a) = vp_cap a"
  by (simp_all add: settle_def Let_def counts_upd_port stable_def)

lemma create_run:
  "qla24xx_vport_create issue junk pool e N ini d node name p a =
     (let ret = qla24xx_vport_create_req_sanity_check ini name a
      in if ret \<noteq> 0 then Some (ret, a)
         else case qla24xx_create_vhost (vc_host e) node name p a of
           (False, b) \<Rightarrow> Some (int FC_VPORT_FAILED, b)
         | (True, b) \<Rightarrow>
             (if \<not> vc_added e
              then (case qla24xx_disable_vp issue junk pool p (settle d p b) of None \<Rightarrow> None
                    | Some (_, c) \<Rightarrow> map_option (\<lambda>a. (int FC_VPORT_FAILED, a)) (qla24xx_deallocate_vp_id (vc_others e) N p c))
              else (case qla24xx_vport_disable issue junk pool d p (settle d p b) of None \<Rightarrow> None
                    | Some (_, c) \<Rightarrow> map_option (\<lambda>(r, a). (0, upd_port p (\<lambda>q. q\<lparr>pt_req := r\<rparr>) a)) (vc_queue e p c))))"
proof -
  obtain ok b where cr: "qla24xx_create_vhost (vc_host e) node name p a = (ok, b)" by fastforce
  show ?thesis by (cases ok) (simp_all add: qla24xx_vport_create_def settle_def cr Let_def)
qed

lemma deallocate_at_once:
  assumes "pt_vref (ad_ports a p) = 0" "qla24xx_deallocate_vp_id others N p a = Some b"
  shows "b = release_vp_id p a"
  using assms by (cases N) (auto simp: qla24xx_deallocate_vp_id_def)

lemma release_fields [simp]:
  "ad_ports (release_vp_id p a) = ad_ports a" "vp_list (release_vp_id p a) = remove1 p (vp_list a)"
  "cur_vport_count (release_vp_id p a) = cur_vport_count a" "vp_cap (release_vp_id p a) = vp_cap a"
  "vp_idx_map (release_vp_id p a) = (vp_idx_map a)(vp_no a p := False)"
  by (simp_all add: release_vp_id_def vp_cap_def vp_no_def)

text \<open>The refused creation: what is left when the mid-layer does not accept the host.\<close>

lemma create_not_added:
  assumes "vports_wf a" "p \<notin> set (vp_list a)" "keeps_cap issue" "qla24xx_vport_create_req_sanity_check ini name a = 0"
    and "vc_host e" "new_no a \<le> vp_cap a" "\<not> vc_added e"
    and "qla24xx_vport_create issue junk pool e N ini d node name p a = Some (rv, b)"
  shows "rv = int FC_VPORT_FAILED \<and> vports_wf b \<and> vp_list b = vp_list a \<and> cur_vport_count b = cur_vport_count a + 1
    \<and> pt_timer_active (ad_ports b p)"
proof -
  obtain ok x where cr: "qla24xx_create_vhost (vc_host e) node name p a = (ok, x)" by fastforce
  note v = create_vhost_wf [OF assms(1,2) cr, simplified assms(5,6), simplified]
  obtain r c where dis: "qla24xx_disable_vp issue junk pool p (settle d p x) = Some (r, c)"
    and de: "qla24xx_deallocate_vp_id (vc_others e) N p c = Some b" and rv: "rv = int FC_VPORT_FAILED"
    using assms(4,7,8) cr v by (auto simp: create_run split: option.splits)
  have "counts x = counts c" "vp_cap x = vp_cap c"
    using counts_disable [OF dis] disable_cap [OF assms(3) dis] by simp_all
  note c = counts_eq [OF this(1)] vports_wf_counts [OF this]
  have "pt_vref (ad_ports c p) = 0" using v c(6) [of p] by simp
  then have b: "b = release_vp_id p c" using de by (rule deallocate_at_once)
  have p0: "p \<noteq> 0" using assms(1,2) by (auto simp: vports_wf_def)
  have mem: "p \<in> set (vp_list c)" using v c(1) by (auto simp flip: c(1))
  have "vports_wf b" unfolding b using mem v c(9) p0 by (intro release_wf) auto
  have "vp_list c = vp_list a @ [p]" using v c(1) by simp
  moreover have "pt_timer_active (ad_ports c p)" "cur_vport_count c = cur_vport_count a + 1"
    using v c(4) c(8) [of p] by simp_all
  ultimately show ?thesis using \<open>vports_wf b\<close> b rv assms(2) by (simp add: remove1_append)
qed

text \<open>
  C26. Creating a virtual port keeps the numbering of the ports: a new port gets the least number that
  no other port has, is entered in the list, the bit map and the count; a creation that fails, at
  whatever point, leaves the list of ports as it was.
\<close>
theorem vport_create_numbers:
  assumes "vports_wf a" "p \<notin> set (vp_list a)" "keeps_cap issue"
    and "\<And>x r y. vc_queue e p x = Some (r, y) \<Longrightarrow> counts y = counts x \<and> vp_cap y = vp_cap x"
    and "qla24xx_vport_create issue junk pool e N ini d node name p a = Some (rv, b)"
  shows "vports_wf b \<and> (if rv = 0 then vp_list b = vp_list a @ [p] \<and> vp_no b p = new_no a
    \<and> vp_no b p \<notin> vp_no a ` set (vp_list a) else vp_list b = vp_list a)"
proof (cases "qla24xx_vport_create_req_sanity_check ini name a = 0")
  case False
  then show ?thesis using assms(1,5) by (auto simp: create_run)
next
  case sane: True
  obtain ok x where cr: "qla24xx_create_vhost (vc_host e) node name p a = (ok, x)" by fastforce
  note v = create_vhost_wf [OF assms(1,2) cr]
  show ?thesis
  proof (cases "ok \<and> vc_added e")
    case True
    then obtain r c s y where on: "qla24xx_vport_disable issue junk pool d p (settle d p x) = Some (r, c)"
      and q: "vc_queue e p c = Some (s, y)" and b: "rv = 0" "b = upd_port p (\<lambda>q. q\<lparr>pt_req := s\<rparr>) y"
      using assms(5) sane cr by (auto simp: create_run split: option.splits)
    have "counts x = counts y" "vp_cap x = vp_cap y"
      using onoff_frame [OF assms(3) on] assms(4) [OF q] by simp_all
    moreover have "counts y = counts b" "vp_cap y = vp_cap b" by (simp_all add: b counts_upd_port stable_def)
    ultimately have "counts x = counts b" "vp_cap x = vp_cap b" by simp_all
    note f = counts_eq(1,5) [OF this(1)] vports_wf_counts [OF this]
    then show ?thesis using v True b(1) by (auto simp: vp_no_def)
  next
    case False
    then consider "\<not> ok" | "ok" "\<not> vc_added e" by blast
    then show ?thesis
    proof cases
      case 1
      then have "rv = int FC_VPORT_FAILED" "b = x" using assms(5) sane cr by (auto simp: create_run)
      then show ?thesis using v 1 by (simp add: FC_VPORT_FAILED_def)
    next
      case 2
      then show ?thesis
        using create_not_added [OF assms(1-3) sane _ _ _ assms(5)] v by (simp add: FC_VPORT_FAILED_def)
    qed
  qed
qed

text \<open>
  C27. The number \<open>max_npiv_vports\<close> is handed out like the others, but the command that disables a port
  refuses it: qla24xx_disable_vp of the last port sends nothing to the firmware and fails, whatever
  the mailbox would have answered, and the port stays active there.
\<close>
theorem last_vport_not_disabled:
  assumes "vports_wf a" "p \<notin> set (vp_list a)" "new_no a = vp_cap a" "qla24xx_allocate_vp_id p a = (n, b)"
    and "counts x = counts b" "vp_cap x = vp_cap b"
  shows "n = vp_cap a \<and> p \<in> set (vp_list x)
    \<and> (\<exists>y. qla24xx_disable_vp issue junk pool p x = Some (- 1, y) \<and> mw_log (ad_mbx y) = mw_log (ad_mbx x))"
proof -
  have le: "new_no a \<le> vp_cap a" using assms(3) by simp
  note w = allocate_wf [OF assms(1,2) le assms(4)]
  note f = counts_eq(1,5) [OF assms(5)]
  have "vp_no x p = vp_cap x" using w(2,3,5) assms(3,6) f(2) by (simp add: vp_no_def vp_cap_def)
  then have "pt_idx (ad_ports x p) = max_npiv_vports (mw_fw (ad_mbx x))"
    by (simp add: vp_no_def vp_cap_def word_unat_eq_iff)
  then have "qla24xx_control_vp issue junk pool c (port_in p x) = Some (QLA_PARAMETER_ERROR, port_in p x)" for c
    by (simp add: qla24xx_control_vp_def port_in_def Let_def)
  then have "qla24xx_disable_vp issue junk pool p x = Some (- 1, upd_port p (\<lambda>q. q\<lparr>pt_vp_state := VP_FAILED,
      pt_mgmt_logged_in := False, pt_fc_vport := FC_VPORT_FAILED\<rparr>) (qla2x00_mark_vp_devices_dead p
        (upd_port p (\<lambda>q. q\<lparr>pt_loop_state := LOOP_DOWN, pt_loop_down_timer := LOOP_DOWN_TIME\<rparr>) (port_out p x (port_in p x)))))"
    by (simp add: qla24xx_disable_vp_def as_port_def Let_def QLA_PARAMETER_ERROR_def QLA_SUCCESS_def)
  moreover have "mw_log (ad_mbx (qla2x00_mark_vp_devices_dead p z)) = mw_log (ad_mbx z)" for z
  proof -
    have "mw_log (ad_mbx (fold (kill_device p) fs z)) = mw_log (ad_mbx z)" for fs
      by (induction fs arbitrary: z) (simp_all add: kill_device_def set_fc_state_def upd_mbx_def)
    then show ?thesis by (simp add: qla2x00_mark_vp_devices_dead_def)
  qed
  moreover have "mw_log (port_in p x) = mw_log (ad_mbx x)" by (simp add: port_in_def Let_def)
  ultimately show ?thesis using w(2,4) assms(3) f(1) by simp
qed

text \<open>
  C28. The deletion of a virtual port gives its number back twice, in qla24xx_deallocate_vp_id and
  again at its end, when the number may already be another port's: when one port is created in
  between, the next one gets the same number, and two ports share it.
\<close>
theorem vport_number_shared:
  assumes "vports_wf a" "p \<in> set (vp_list a)" "p \<noteq> 0" "\<forall>i < vp_no a p. vp_idx_map a i"
    and "q \<notin> set (vp_list a)" "r \<notin> set (vp_list a)" "q \<noteq> r"
    and "qla24xx_allocate_vp_id q (release_vp_id p a) = (m, b)"
    and "qla24xx_allocate_vp_id r (forget_vport p b) = (n, c)"
  shows "q \<in> set (vp_list c) \<and> r \<in> set (vp_list c) \<and> vp_no c q = vp_no c r"
proof -
  define k where "k = vp_no a p"
  have qp: "q \<noteq> p" "r \<noteq> p" using assms(2,5,6) by auto
  have k: "k < Suc (vp_cap a)" using vports_wfD(4) [OF assms(1)] assms(2) by (auto simp: k_def)
  have first: "find_first_zero_bit ((vp_idx_map a)(k := False)) (Suc (vp_cap a)) = k"
    using assms(4) k by (intro find_first_zero_bit_cleared) (simp_all add: k_def)
  have wf: "vports_wf (release_vp_id p a)" using assms(1-3) by (rule release_wf)
  have new: "new_no (release_vp_id p a) = k" using first by (simp add: new_no_def k_def)
  have le: "new_no (release_vp_id p a) \<le> vp_cap (release_vp_id p a)" using new k by simp
  have qn: "q \<notin> set (vp_list (release_vp_id p a))" using assms(5) by (auto dest: notin_set_remove1)
  note w = allocate_wf [OF wf qn le assms(8)]
  define d where "d = forget_vport p b"
  have d: "vp_idx_map d = (vp_idx_map a)(k := False)" "vp_cap d = vp_cap a" "vp_list d = vp_list b"
      "ad_ports d q = ad_ports b q"
    using w(2,5,7,8) new qp
    by (auto simp: d_def forget_vport_def Let_def qla2x00_vp_stop_timer_def vp_cap_def release_vp_id_def k_def vp_no_def)
  have "new_no d = k" using first d by (simp add: new_no_def)
  then have c: "c = upd_port r (\<lambda>x. x\<lparr>pt_idx := of_nat k\<rparr>) (d\<lparr>vp_idx_map := (vp_idx_map d)(k := True),
      num_vhosts := num_vhosts d + 1, vp_list := vp_list d @ [r]\<rparr>)"
    using assms(9) k d(2) by (auto simp: allocate_run d_def [symmetric])
  show ?thesis
    using w(2,3,4) new d k assms(7) vp_no_of_nat [of k a] by (simp add: c vp_no_def)
qed


section \<open>References and posted work\<close>

text \<open>
  What holds a port: the work posted for it, and the contexts that work on it, \<open>n\<close> of them - the
  event or the DPC run that has taken a reference, and each entry that \<open>qla2x00_do_work\<close> has moved to its
  own list. The steps may interleave as they like.
\<close>

inductive vref_step :: "nat \<Rightarrow> adapter \<times> nat \<Rightarrow> adapter \<times> nat \<Rightarrow> bool" for p where
  Post: "vref_step p (a, n) (snd (post_event mem e q a), n)"
| Splice: "vref_step p (a, n) (upd_port p (\<lambda>q. q\<lparr>pt_work := []\<rparr>) a, n + length (pt_work (ad_ports a p)))"
| Finish: "do_one_work issue junk e p a = Some b \<Longrightarrow> 0 < n \<Longrightarrow>
    vref_step p (a, n) (upd_port p (\<lambda>q. q\<lparr>pt_vref := pt_vref q - 1\<rparr>) b, n - 1)"
| Get: "vref_step p (a, n) (upd_port p (\<lambda>q. q\<lparr>pt_vref := pt_vref q + 1\<rparr>) a, n + 1)"
| Put: "0 < n \<Longrightarrow> vref_step p (a, n) (upd_port p (\<lambda>q. q\<lparr>pt_vref := pt_vref q - 1\<rparr>) a, n - 1)"
| Other: "stable (ad_ports b p) = stable (ad_ports a p) \<Longrightarrow> vref_step p (a, n) (b, n)"

definition vref_inv :: "nat \<Rightarrow> adapter \<times> nat \<Rightarrow> bool" where
  "vref_inv p = (\<lambda>(a, n). pt_vref (ad_ports a p) = length (pt_work (ad_ports a p)) + n)"

lemma stable_refs:
  "stable q = stable q' \<Longrightarrow> pt_vref q = pt_vref q' \<and> pt_work q = pt_work q'"
  by (simp add: stable_def)

lemma counts_stable: "counts a = counts b \<Longrightarrow> stable (ad_ports a p) = stable (ad_ports b p)"
  by (simp add: counts_def fun_eq_iff)

lemma ad_event_counts [simp]: "counts (ad_event e a) = counts a"
  by (simp add: counts_def ad_event_def)

lemma do_one_work_counts: "do_one_work issue junk e p a = Some b \<Longrightarrow> counts b = counts a"
  by (auto simp: do_one_work_def split: work.splits dest: counts_as_port)

lemma post_event_refs:
  "let q' = ad_ports (snd (post_event mem e q a)) p; d = ad_ports a p
   in pt_vref q' + length (pt_work d) = pt_vref d + length (pt_work q')"
  by (auto simp: post_event_def qla2x00_alloc_work_def qla2x00_post_work_def Let_def)

lemma vref_step_inv: "vref_step p s t \<Longrightarrow> vref_inv p s \<Longrightarrow> vref_inv p t"
proof (induction rule: vref_step.induct)
  case (Post a n mem e q)
  then show ?case using post_event_refs [of mem e q a p] unfolding vref_inv_def Let_def by simp
next
  case (Finish issue junk e a b n)
  then have "stable (ad_ports b p) = stable (ad_ports a p)" by (intro counts_stable do_one_work_counts)
  then have "pt_vref (ad_ports b p) = pt_vref (ad_ports a p)" "pt_work (ad_ports b p) = pt_work (ad_ports a p)"
    using stable_refs by blast+
  then show ?case using Finish.hyps(2) Finish.prems by (simp add: vref_inv_def)
next
  case (Other b a n)
  then have "pt_vref (ad_ports b p) = pt_vref (ad_ports a p)" "pt_work (ad_ports b p) = pt_work (ad_ports a p)"
    using stable_refs by blast+
  then show ?case using Other.prems by (simp add: vref_inv_def)
qed (simp_all add: vref_inv_def)

text \<open>The run of \<open>qla2x00_do_work\<close> is made of these steps.\<close>

lemma work_loop_steps:
  "work_loop issue junk p es a = Some b \<Longrightarrow> (vref_step p)\<^sup>*\<^sup>* (a, length es + n) (b, n)"
proof (induction es arbitrary: a)
  case (Cons e es)
  then obtain c where c: "do_one_work issue junk e p a = Some c"
      "work_loop issue junk p es (upd_port p (\<lambda>q. q\<lparr>pt_vref := pt_vref q - 1\<rparr>) c) = Some b"
    by (auto split: option.splits)
  have "vref_step p (a, length (e # es) + n) (upd_port p (\<lambda>q. q\<lparr>pt_vref := pt_vref q - 1\<rparr>) c, length es + n)"
    using vref_step.Finish [OF c(1), of "length (e # es) + n"] by simp
  then show ?case using Cons.IH [OF c(2)] by (meson converse_rtranclp_into_rtranclp)
qed simp

lemma do_work_steps:
  assumes "qla2x00_do_work issue junk p a = Some b"
  shows "(vref_step p)\<^sup>*\<^sup>* (a, n) (b, n)"
proof -
  have "(vref_step p)\<^sup>*\<^sup>* (upd_port p (\<lambda>q. q\<lparr>pt_work := []\<rparr>) a, length (pt_work (ad_ports a p)) + n) (b, n)"
    using assms unfolding qla2x00_do_work_def by (rule work_loop_steps)
  with vref_step.Splice [of p a n] show ?thesis
    by (simp only: add.commute converse_rtranclp_into_rtranclp)
qed


section \<open>Samples\<close>

text \<open>An adapter that supports \<open>n\<close> virtual ports, with its link down, and the virtual ports \<open>1..k\<close>.\<close>

definition sample_ad :: "u16 \<Rightarrow> nat \<Rightarrow> adapter" where
  "sample_ad n k =
     \<lparr>ad_mbx = sample_mw\<lparr>mw_fw := sample_fw\<lparr>npiv_supported := True, max_npiv_vports := n\<rparr>\<rparr>,
      ad_ports = (\<lambda>p. blank_port\<lparr>pt_idx := of_nat p, pt_loop_state := LOOP_DOWN, pt_port_name := replicate 8 (of_nat (0x21 + p))\<rparr>),
      vp_list = [0..<Suc k], vp_idx_map = (\<lambda>i. i \<le> k), num_vhosts = of_nat k, cur_vport_count = int k,
      current_topology = 0, switch_cap = 0x400, operating_mode = 1, gpsc_supported = False, fawwpn_enabled = False,
      notify_dcbx_comp = False, notify_lb_portup_comp = False, idc_compl_status = False, idc_extend_tmo = 0,
      diag_fw_version = 0, ad_log = []\<rparr>"

definition sample_issue :: mbx_issue where
  "sample_issue m w = Some (QLA_SUCCESS, m, w)"

definition sample_env :: "bool \<Rightarrow> vport_env" where
  "sample_env added = \<lparr>vc_host = True, vc_added = added, vc_queue = (\<lambda>p a. Some (0, a)), vc_others = (\<lambda>a. a)\<rparr>"

lemma sample_keeps_cap: "keeps_cap sample_issue"
  by (simp add: keeps_cap_def sample_issue_def)

lemma sample_ad_fields [simp]:
  "vp_list (sample_ad n k) = [0..<Suc k]" "vp_cap (sample_ad n k) = unat n" "cur_vport_count (sample_ad n k) = int k"
  "vp_idx_map (sample_ad n k) = (\<lambda>i. i \<le> k)" "num_vhosts (sample_ad n k) = of_nat k"
  by (simp_all add: sample_ad_def vp_cap_def)

lemma sample_ad_no: "p \<le> k \<Longrightarrow> k \<le> unat n \<Longrightarrow> vp_no (sample_ad n k) p = p"
  using vp_no_of_nat [of p "sample_ad n k"] by (simp add: vp_no_def) (simp add: sample_ad_def blank_port_def)

lemma sample_ad_wf:
  assumes "k \<le> unat n"
  shows "vports_wf (sample_ad n k)"
proof -
  have no: "vp_no (sample_ad n k) p = p" if "p < Suc k" for p
    using that assms by (simp add: sample_ad_no)
  have img: "vp_no (sample_ad n k) ` set (vp_list (sample_ad n k)) = {..<Suc k}"
    using no by (simp del: upt_Suc add: atLeast0LessThan)
  have inj: "inj_on (vp_no (sample_ad n k)) (set (vp_list (sample_ad n k)))"
    using no by (simp del: upt_Suc add: inj_on_def)
  have list: "vp_list (sample_ad n k) = 0 # [1..<Suc k]" by (simp del: upt_Suc add: upt_conv_Cons)
  show ?thesis
    unfolding vports_wf_def img
  proof (intro conjI)
    show "\<exists>ps. vp_list (sample_ad n k) = 0 # ps \<and> num_vhosts (sample_ad n k) = of_nat (length ps)"
      unfolding list by (intro exI [of _ "[1..<Suc k]"]) (simp del: upt_Suc)
  qed (use assms no [of 0] inj in \<open>auto simp del: upt_Suc\<close>)
qed

lemma sample_new_no: "k < unat n \<Longrightarrow> new_no (sample_ad n k) = Suc k"
  unfolding new_no_def by (rule find_first_zero_bit_at) auto

lemma sample_sane: "qla24xx_vport_create_req_sanity_check True (replicate 8 0x50) (sample_ad 2 0) = 0"
  by (simp add: qla24xx_vport_create_req_sanity_check_def qla24xx_find_vhost_by_name_def)
    (simp add: sample_ad_def sample_fw_def FLOGI_MID_SUPPORT_def BIT_def blank_port_def)

lemma sample_create:
  "\<exists>rv b. qla24xx_vport_create sample_issue sample_junk None (sample_env added) 1 True False [] (replicate 8 0x50) 1
     (sample_ad 2 0) = Some (rv, b) \<and> (added \<longrightarrow> rv = 0)"
proof -
  obtain ok x where cr: "qla24xx_create_vhost True [] (replicate 8 0x50) 1 (sample_ad 2 0) = (ok, x)" by fastforce
  have v: "ok" "pt_vref (ad_ports x 1) = 0" "ad_ports x 0 = ad_ports (sample_ad 2 0) 0"
    using create_vhost_wf [OF sample_ad_wf _ cr] sample_new_no [of 0 2] by (auto split: if_splits)
  define y where "y = settle False 1 x"
  have down: "pt_loop_state (ad_ports y 0) = LOOP_DOWN"
    using v(3) by (simp add: y_def settle_def Let_def sample_ad_def)
  have "\<exists>z. qla24xx_disable_vp sample_issue sample_junk None 1 y = Some z"
    by (simp add: qla24xx_disable_vp_def as_port_def qla24xx_control_vp_def Let_def)
  then obtain r z where z: "qla24xx_disable_vp sample_issue sample_junk None 1 y = Some (r, z)" by auto
  have "counts z = counts x" using counts_disable [OF z] by (simp add: y_def)
  then have "\<exists>c. qla24xx_deallocate_vp_id (\<lambda>a. a) 1 1 z = Some c"
    using counts_eq(6) [of z x] v(2) by (simp add: qla24xx_deallocate_vp_id_def)
  moreover have "qla24xx_vport_disable sample_issue sample_junk None False 1 y
      = Some (0, upd_port 1 (\<lambda>q. q\<lparr>pt_vp_err := VP_ERR_PORTDWN, pt_fc_vport := FC_VPORT_LINKDOWN\<rparr>) y)"
    using down by (simp add: qla24xx_vport_disable_def qla24xx_enable_vp_def Let_def)
  ultimately show ?thesis
    using cr v(1) z sample_sane by (cases added) (auto simp: create_run sample_env_def y_def)
qed

theorem vport_create_numbers_witness:
  "\<exists>b. qla24xx_vport_create sample_issue sample_junk None (sample_env True) 1 True False [] (replicate 8 0x50) 1 (sample_ad 2 0)
     = Some (0, b) \<and> vports_wf b \<and> vp_no b 1 = 1"
proof -
  obtain b where b: "qla24xx_vport_create sample_issue sample_junk None (sample_env True) 1 True False [] (replicate 8 0x50) 1
     (sample_ad 2 0) = Some (0, b)" using sample_create [of True] by auto
  show ?thesis
    using vport_create_numbers [OF sample_ad_wf _ sample_keeps_cap _ b] b sample_new_no [of 0 2]
    by (auto simp: sample_env_def)
qed

theorem last_vport_not_disabled_witness:
  "\<exists>y. qla24xx_disable_vp sample_issue sample_junk (Some 0x9000) 1 (snd (qla24xx_allocate_vp_id 1 (sample_ad 1 0))) = Some (- 1, y)"
proof -
  obtain n b where "qla24xx_allocate_vp_id 1 (sample_ad 1 0) = (n, b)" by fastforce
  then show ?thesis
    using last_vport_not_disabled [OF sample_ad_wf _ _ \<open>qla24xx_allocate_vp_id 1 (sample_ad 1 0) = (n, b)\<close> refl refl]
      sample_new_no [of 0 1] \<open>qla24xx_allocate_vp_id 1 (sample_ad 1 0) = (n, b)\<close> by simp blast
qed

theorem vport_number_shared_witness:
  "\<exists>m b n c. qla24xx_allocate_vp_id 7 (release_vp_id 1 (sample_ad 3 2)) = (m, b)
     \<and> qla24xx_allocate_vp_id 8 (forget_vport 1 b) = (n, c) \<and> vp_no c 7 = vp_no c 8"
proof -
  obtain m b where b: "qla24xx_allocate_vp_id 7 (release_vp_id 1 (sample_ad 3 2)) = (m, b)" by fastforce
  obtain n c where c: "qla24xx_allocate_vp_id 8 (forget_vport 1 b) = (n, c)" by fastforce
  show ?thesis using vport_number_shared [OF sample_ad_wf _ _ _ _ _ _ b c] b c sample_ad_no [of 1 2 3] by (auto simp: upt_rec)
qed



end
