(* ===== verification/Aen_Claims.thy ===== *)
theory Aen_Claims
  imports Isr_Handlers Vport_Queues Vport_Claims Isr_Claims
begin

text \<open>
  Properties of asynchronous events and interrupt handlers: what the loss of the link does to the
  remote ports, whom a state-change notification reaches, and that the handlers do what the model
  of the mailbox command assumes of them. At the end, queues beside the first.
\<close>

section \<open>The loss of the link\<close>

definition fc_online :: "adapter \<Rightarrow> nat \<Rightarrow> bool" where
  "fc_online a f \<longleftrightarrow> fcport_state (fc_states (mw_host (ad_mbx a)) f) = FCS_ONLINE"

text \<open>The remote ports a port may declare lost: the physical port all, a virtual one its own.\<close>

definition fc_own :: "nat \<Rightarrow> adapter \<Rightarrow> nat \<Rightarrow> bool" where
  "fc_own p a f \<longleftrightarrow> pt_idx (ad_ports a p) = 0 \<or> pt_idx (ad_ports a p) = fc_vp_idx (fc_states (mw_host (ad_mbx a)) f)"

definition same_fc :: "adapter \<Rightarrow> adapter \<Rightarrow> bool" where
  "same_fc a b \<longleftrightarrow> fc_states (mw_host (ad_mbx a)) = fc_states (mw_host (ad_mbx b))
     \<and> (\<forall>p. pt_idx (ad_ports a p) = pt_idx (ad_ports b p))"

lemma same_fcD: "same_fc a b \<Longrightarrow> fc_online a f = fc_online b f \<and> fc_own p a f = fc_own p b f"
  by (simp add: same_fc_def fc_online_def fc_own_def)

lemma lose_device_online:
  "fc_online (lose_device p d g a) f \<longleftrightarrow> fc_online a f \<and> \<not> (f = g \<and> fc_own p a g)"
  by (auto simp: lose_device_def Let_def fc_online_def fc_own_def set_fc_state_def upd_mbx_def rport_del_def wake_base_def
      qla2x00_set_fcport_state_def upd_fc_def FCS_ONLINE_def FCS_DEVICE_LOST_def)

lemma lose_device_own: "fc_own p (lose_device q d g a) f \<longleftrightarrow> fc_own p a f"
proof -
  have "fc_vp_idx (fc_states (mw_host (ad_mbx (lose_device q d g a))) f) = fc_vp_idx (fc_states (mw_host (ad_mbx a)) f)"
    by (auto simp: lose_device_def Let_def set_fc_state_def upd_mbx_def rport_del_def wake_base_def
        qla2x00_set_fcport_state_def upd_fc_def)
  then show ?thesis using counts_eq(5) [OF counts_lose_device, of q d g a] by (simp add: fc_own_def)
qed

lemma all_lost:
  "fc_online (qla2x00_mark_all_devices_lost p d a) f \<longleftrightarrow> fc_online a f \<and> \<not> (f \<in> set (pt_fcports (ad_ports a p)) \<and> fc_own p a f)"
proof -
  have "fc_online (fold (lose_device p d) fs a) f \<longleftrightarrow> fc_online a f \<and> \<not> (f \<in> set fs \<and> fc_own p a f)" for fs
    by (induction fs arbitrary: a) (auto simp: lose_device_online lose_device_own)
  then show ?thesis by (simp add: qla2x00_mark_all_devices_lost_def)
qed

text \<open>Marking devices lost touches the flags of the physical port at most.\<close>

lemma all_lost_port:
  "pt_loop_state (ad_ports (qla2x00_mark_all_devices_lost p d a) q) = pt_loop_state (ad_ports a q)"
  "pt_loop_down_timer (ad_ports (qla2x00_mark_all_devices_lost p d a) q) = pt_loop_down_timer (ad_ports a q)"
proof -
  have one: "pt_loop_state (ad_ports (lose_device p d g x) q) = pt_loop_state (ad_ports x q)
      \<and> pt_loop_down_timer (ad_ports (lose_device p d g x) q) = pt_loop_down_timer (ad_ports x q)" for g x
    by (simp add: lose_device_def Let_def set_fc_state_def upd_mbx_def rport_del_def wake_base_def dpc_on_def)
  have "pt_loop_state (ad_ports (fold (lose_device p d) fs a) q) = pt_loop_state (ad_ports a q)
      \<and> pt_loop_down_timer (ad_ports (fold (lose_device p d) fs a) q) = pt_loop_down_timer (ad_ports a q)" for fs
    by (induction fs arbitrary: a) (simp_all add: one)
  then show "pt_loop_state (ad_ports (qla2x00_mark_all_devices_lost p d a) q) = pt_loop_state (ad_ports a q)"
    "pt_loop_down_timer (ad_ports (qla2x00_mark_all_devices_lost p d a) q) = pt_loop_down_timer (ad_ports a q)"
    by (simp_all add: qla2x00_mark_all_devices_lost_def)
qed

text \<open>The state in which the loss of the link leaves a port, coming from \<open>a\<close>.\<close>

definition link_lost :: "nat \<Rightarrow> adapter \<Rightarrow> adapter \<Rightarrow> bool" where
  "link_lost p a b \<longleftrightarrow> pt_loop_state (ad_ports b p) = LOOP_DOWN
     \<and> (pt_loop_state (ad_ports a p) \<noteq> LOOP_DOWN \<longrightarrow> pt_loop_down_timer (ad_ports b p) \<noteq> 0
          \<and> (\<forall>f \<in> set (pt_fcports (ad_ports a p)). fc_own p a f \<longrightarrow> \<not> fc_online b f))"

text \<open>Later steps that leave the loop and the remote ports alone.\<close>

definition calm :: "(adapter \<Rightarrow> adapter) \<Rightarrow> bool" where
  "calm f \<longleftrightarrow> (\<forall>a p. fc_states (mw_host (ad_mbx (f a))) = fc_states (mw_host (ad_mbx a))
     \<and> pt_loop_state (ad_ports (f a) p) = pt_loop_state (ad_ports a p)
     \<and> pt_loop_down_timer (ad_ports (f a) p) = pt_loop_down_timer (ad_ports a p))"

lemma calm_lost: "calm f \<Longrightarrow> link_lost p a b \<Longrightarrow> link_lost p a (f b)"
  by (simp add: calm_def link_lost_def fc_online_def)

lemma fold_dpc_on: "pt_loop_state (fold dpc_on bs q) = pt_loop_state q \<and> pt_loop_down_timer (fold dpc_on bs q) = pt_loop_down_timer q
    \<and> stable (fold dpc_on bs q) = stable q"
  by (induction bs arbitrary: q) (simp_all add: dpc_on_def stable_def)

lemma calm_steps:
  "calm (fail_vport p)" "calm (mgmt_logout p)" "calm (set_rate s)" "calm (port_dpc bs p)" "calm (post_aen io c d p)"
  "calm (\<lambda>a. a\<lparr>operating_mode := m\<rparr>)" "calm (\<lambda>a. a\<lparr>gpsc_supported := g\<rparr>)"
  by (auto simp: calm_def fail_vport_def mgmt_logout_def set_rate_def port_dpc_def post_aen_def upd_mbx_def upd_fw_def
      qla2x00_post_aen_work_def post_event_def qla2x00_alloc_work_def qla2x00_post_work_def fold_dpc_on)

lemma lost_loop_down: "link_lost p a (loop_down keep p a)"
  by (simp add: loop_down_def link_lost_def all_lost all_lost_port LOOP_DOWN_TIME_def)
    (auto simp: fc_own_def)

lemma lost_went_down: "link_lost p a (loop_went_down io p a)"
proof -
  define down where "down x = qla2x00_mark_all_devices_lost p True (no_cable p
      (if fawwpn_enabled x then upd_port p (\<lambda>q. q\<lparr>pt_port_name := take 8 (init_cb_port_name (mw_host (ad_mbx x)))\<rparr>) x else x))" for x
  have "link_lost p a (if pt_loop_state (ad_ports a p) = LOOP_DOWN then a
      else down (upd_port p (\<lambda>q. q\<lparr>pt_loop_state := LOOP_DOWN, pt_loop_down_timer := LOOP_DOWN_TIME\<rparr>) a))"
    by (simp add: down_def link_lost_def all_lost all_lost_port no_cable_def LOOP_DOWN_TIME_def)
      (auto simp: fc_own_def upd_port_def)
  then show ?thesis
    unfolding loop_went_down_def Let_def down_def
    by (intro calm_lost [OF calm_steps(5)] calm_lost [OF calm_steps(3)] calm_lost [OF calm_steps(2)]
        calm_lost [OF calm_steps(1)]) (simp add: upd_port_def)
qed

definition link_events :: "u16 list" where
  "link_events = [MBA_LIP_OCCURRED, MBA_LOOP_DOWN, MBA_LIP_RESET, MBA_POINT_TO_POINT, MBA_CHG_IN_CONNECTION]"

lemmas mba_defs = MBA_RESET_def MBA_SYSTEM_ERR_def MBA_REQ_TRANSFER_ERR_def MBA_RSP_TRANSFER_ERR_def
  MBA_LIP_OCCURRED_def MBA_LOOP_UP_def MBA_LOOP_DOWN_def MBA_LIP_RESET_def MBA_PORT_UPDATE_def MBA_RSCN_UPDATE_def
  MBA_SCSI_COMPLETION_def MBA_POINT_TO_POINT_def MBA_CMPLT_1_16BIT_def MBA_CMPLT_2_16BIT_def
  MBA_CMPLT_3_16BIT_def MBA_CMPLT_4_16BIT_def MBA_CMPLT_5_16BIT_def MBA_CHG_IN_CONNECTION_def
  MBA_ZIO_RESPONSE_def MBA_CMPLT_2_32BIT_def MBA_ISP84XX_ALERT_def

lemma not_rio:
  "mb 0 \<in> set (MBA_RSCN_UPDATE # link_events) \<Longrightarrow> rio_event io dt mb = ([], mb 0)"
  by (auto simp: rio_event_def rio_handles_def link_events_def mba_defs)

lemma async_link:
  assumes "mb 0 \<in> set link_events"
  shows "async_one aen8200 io rsp mb p a =
     Some (if mb 0 = MBA_LIP_OCCURRED then lip_occurred io mb p a
       else if mb 0 = MBA_LOOP_DOWN then loop_went_down io p a
       else if mb 0 = MBA_LIP_RESET then lip_reset_event io mb p a
       else if mb 0 = MBA_POINT_TO_POINT then point_to_point p a
       else chg_in_connection p a)"
proof -
  have ev: "rio_event io (ad_dt a) mb = ([], mb 0)" using assms by (intro not_rio) simp
  consider "mb 0 = MBA_LIP_OCCURRED" | "mb 0 = MBA_LOOP_DOWN" | "mb 0 = MBA_LIP_RESET" | "mb 0 = MBA_POINT_TO_POINT"
    | "mb 0 = MBA_CHG_IN_CONNECTION" using assms by (auto simp: link_events_def)
  then show ?thesis unfolding async_one_def ev Let_def prod.case by cases (simp_all add: mba_defs)
qed

lemma lost_point: "\<not> IS_QLA2100 (ad_dt a) \<Longrightarrow> link_lost p a (point_to_point p a)"
proof -
  assume "\<not> IS_QLA2100 (ad_dt a)"
  define x where "x = (if IS_CNA_CAPABLE (ad_dt a) \<and> notify_dcbx_comp a \<and> pt_idx (ad_ports a p) = 0
                    then ad_event Complete_dcbx a else a)"
  have "link_lost p a (loop_down True p x) \<longleftrightarrow> link_lost p x (loop_down True p x)"
  proof -
    have "ad_ports x = ad_ports a" "ad_mbx x = ad_mbx a" by (simp_all add: x_def ad_event_def)
    then show ?thesis by (simp add: link_lost_def fc_own_def)
  qed
  then have "link_lost p a (loop_down True p x)" using lost_loop_down by simp
  then show ?thesis
    using \<open>\<not> IS_QLA2100 (ad_dt a)\<close> unfolding point_to_point_def Let_def x_def [symmetric]
    by (auto intro!: calm_lost [OF calm_steps(7)] calm_lost [OF calm_steps(4)] calm_lost [OF calm_steps(2)]
        calm_lost [OF calm_steps(1)])
qed

text \<open>
  C31. Events that take the link away (LIP, loop down, LIP reset, point-to-point, change of
  connection): afterwards the port's loop is down; if it was up, the timer of the outage runs, and no
  remote port that the port may declare lost is still online.
\<close>
theorem link_event_loses_devices:
  assumes "mb 0 \<in> set link_events" "\<not> IS_QLA2100 (ad_dt a)"
  shows "\<exists>b. async_one aen8200 io rsp mb p a = Some b \<and> pt_loop_state (ad_ports b p) = LOOP_DOWN
    \<and> (pt_loop_state (ad_ports a p) \<noteq> LOOP_DOWN \<longrightarrow> pt_loop_down_timer (ad_ports b p) \<noteq> 0
         \<and> (\<forall>f \<in> set (pt_fcports (ad_ports a p)). fc_own p a f \<longrightarrow> \<not> fc_online b f))"
proof -
  have "link_lost p a (lip_occurred io mb p a)" "link_lost p a (lip_reset_event io mb p a)" "link_lost p a (chg_in_connection p a)"
    unfolding lip_occurred_def lip_reset_event_def chg_in_connection_def if_not_P [OF assms(2)]
    by (auto intro!: calm_lost [OF calm_steps(5)] calm_lost [OF calm_steps(6)] calm_lost [OF calm_steps(4)] calm_lost [OF calm_steps(2)]
        calm_lost [OF calm_steps(1)] lost_loop_down)
  then show ?thesis
    using lost_went_down [of p a io] lost_point [OF assms(2), of p] async_link [where mb = mb] assms(1) by (simp add: link_lost_def)
qed

section \<open>State-change notifications\<close>

definition post_port :: "bool \<Rightarrow> work \<Rightarrow> port \<Rightarrow> port" where
  "post_port mem e q = (case qla2x00_alloc_work mem q of (False, q) \<Rightarrow> q | (True, q) \<Rightarrow> qla2x00_post_work e q)"

text \<open>What a notification does to the port that gets it; \<open>known\<close>: the address is a virtual port's.\<close>

definition rscn_port :: "aen_io \<Rightarrow> (nat \<Rightarrow> u16) \<Rightarrow> bool \<Rightarrow> port \<Rightarrow> port" where
  "rscn_port io mb known q =
     (let full = or_words (mb 1 AND 0x3ff) (mb 2)
      in if pt_idx q \<noteq> 0 \<and> bit (pt_vp_flags q) VP_SCR_NEEDED then q
         else if or_words (mb 1 AND 0xff) (mb 2) = d_id_word (pt_d_id q) \<or> known then q
         else post_port (ae_mem io) (Aen_work FCH_EVT_RSCN full)
                (fold dpc_on [LOOP_RESYNC_NEEDED, RSCN_UPDATE] (q\<lparr>pt_loop_down_timer := 0, pt_mgmt_logged_in := False\<rparr>)))"

lemma upd_port_twice: "upd_port p f (upd_port p g a) = upd_port p (\<lambda>q. f (g q)) a"
  by (simp add: upd_port_def)

lemma upd_port_id [simp]: "upd_port p (\<lambda>q. q) a = a"
  by (simp add: upd_port_def)

lemma upd_port_cong: "f (ad_ports a p) = g (ad_ports a p) \<Longrightarrow> upd_port p f a = upd_port p g a"
  by (simp add: upd_port_def)

lemma post_aen_port: "post_aen io c d p a = upd_port p (post_port (ae_mem io) (Aen_work c d)) a"
  by (cases "qla2x00_alloc_work (ae_mem io) (ad_ports a p)"; cases "fst (qla2x00_alloc_work (ae_mem io) (ad_ports a p))")
    (simp_all add: post_aen_def qla2x00_post_aen_work_def post_event_def post_port_def upd_port_def)

definition rscn_known :: "(nat \<Rightarrow> u16) \<Rightarrow> adapter \<Rightarrow> bool" where
  "rscn_known mb a \<longleftrightarrow> qla2x00_is_a_vp_did (or_words (mb 1 AND 0x3ff) (mb 2)) a"

lemma rscn_update_port:
  assumes "npiv_supported (mw_fw (ad_mbx a))"
  shows "rscn_update io mb p a = (if pt_idx (ad_ports a p) = mb 3 AND 0xff
    then upd_port p (rscn_port io mb (rscn_known mb a)) a else a)"
proof -
  let ?known = "rscn_known mb a"
  have "post_aen io c d p (port_dpc bs p (upd_port p g a)) = upd_port p (\<lambda>q. post_port (ae_mem io) (Aen_work c d) (fold dpc_on bs (g q))) a"
    for c d bs g by (simp add: post_aen_port port_dpc_def upd_port_twice)
  moreover have "upd_port p (rscn_port io mb ?known) a = upd_port p (\<lambda>_. rscn_port io mb ?known (ad_ports a p)) a"
    by (rule upd_port_cong) simp
  moreover have "upd_port p (\<lambda>_. ad_ports a p) a = a" by (simp add: upd_port_def)
  moreover have "upd_port p (\<lambda>q. g q) a = upd_port p (\<lambda>_. g (ad_ports a p)) a" for g by (rule upd_port_cong) simp
  ultimately show ?thesis using assms by (auto simp: rscn_update_def rscn_port_def rscn_known_def Let_def)
qed

lemma rscn_port_fields [simp]:
  "pt_idx (rscn_port io mb k q) = pt_idx q" "pt_d_id (rscn_port io mb k q) = pt_d_id q"
  by (auto simp: rscn_port_def Let_def post_port_def qla2x00_alloc_work_def qla2x00_post_work_def dpc_on_def)

text \<open>The reference that is held for the time of the event makes no difference.\<close>

lemma rscn_port_vref:
  "(rscn_port io mb k (q\<lparr>pt_vref := pt_vref q + 1\<rparr>))\<lparr>pt_vref := pt_vref (rscn_port io mb k (q\<lparr>pt_vref := pt_vref q + 1\<rparr>)) - 1\<rparr>
     = rscn_port io mb k q"
  by (auto simp: rscn_port_def Let_def post_port_def qla2x00_alloc_work_def qla2x00_post_work_def dpc_on_def)

lemma async_rscn:
  "mb 0 = MBA_RSCN_UPDATE \<Longrightarrow> async_one aen8200 io rsp mb p a = Some (rscn_update io mb p a)"
proof -
  assume e: "mb 0 = MBA_RSCN_UPDATE"
  then have ev: "rio_event io (ad_dt a) mb = ([], mb 0)" by (intro not_rio) simp
  show ?thesis unfolding async_one_def ev Let_def prod.case by (simp add: e mba_defs)
qed

lemma known_same:
  assumes "vp_list b = vp_list a" "num_vhosts b = num_vhosts a" "\<And>q. pt_d_id (ad_ports b q) = pt_d_id (ad_ports a q)"
  shows "rscn_known mb b \<longleftrightarrow> rscn_known mb a"
  by (simp add: rscn_known_def qla2x00_is_a_vp_did_def assms)

text \<open>One virtual port in the loop over all of them.\<close>

definition rscn_at :: "aen_io \<Rightarrow> (nat \<Rightarrow> u16) \<Rightarrow> bool \<Rightarrow> nat \<Rightarrow> adapter \<Rightarrow> adapter" where
  "rscn_at io mb k p a = (if pt_idx (ad_ports a p) = mb 3 AND 0xff then upd_port p (rscn_port io mb k) a else a)"

lemma rscn_at_fields [simp]:
  "ad_mbx (rscn_at io mb k p a) = ad_mbx a" "vp_list (rscn_at io mb k p a) = vp_list a"
  "num_vhosts (rscn_at io mb k p a) = num_vhosts a" "pt_idx (ad_ports (rscn_at io mb k p a) q) = pt_idx (ad_ports a q)"
  "pt_d_id (ad_ports (rscn_at io mb k p a) q) = pt_d_id (ad_ports a q)"
  by (simp_all add: rscn_at_def)

lemma rscn_at_known [simp]: "rscn_known mb' (rscn_at io mb k p a) = rscn_known mb' a"
  by (rule known_same) simp_all

lemma rscn_pinned:
  assumes "npiv_supported (mw_fw (ad_mbx a))"
  shows "upd_port p (\<lambda>q. q\<lparr>pt_vref := pt_vref q - 1\<rparr>)
      (rscn_update io mb p (upd_port p (\<lambda>q. q\<lparr>pt_vref := pt_vref q + 1\<rparr>) a)) = rscn_at io mb (rscn_known mb a) p a"
proof -
  let ?b = "upd_port p (\<lambda>q. q\<lparr>pt_vref := pt_vref q + 1\<rparr>) a"
  have k: "rscn_known mb ?b \<longleftrightarrow> rscn_known mb a" by (rule known_same) simp_all
  have "upd_port p (\<lambda>q. q\<lparr>pt_vref := pt_vref q - 1\<rparr>) (upd_port p (\<lambda>q. q\<lparr>pt_vref := pt_vref q + 1\<rparr>) a) = a"
    by (simp add: upd_port_twice)
  moreover have "upd_port p (\<lambda>q. q\<lparr>pt_vref := pt_vref q - 1\<rparr>) (upd_port p (rscn_port io mb x) ?b) = upd_port p (rscn_port io mb x) a"
    for x by (simp only: upd_port_twice rscn_port_vref)
  ultimately show ?thesis
    using assms k by (simp add: rscn_update_port rscn_at_def)
qed

lemma alert_rscn:
  assumes "mb 0 = MBA_RSCN_UPDATE"
  shows "npiv_supported (mw_fw (ad_mbx a)) \<Longrightarrow> alert_vps (async_one aen8200 io rsp mb) (mb 0) ps a
    = Some (fold (\<lambda>p b. if pt_idx (ad_ports b p) = 0 then b else rscn_at io mb (rscn_known mb a) p b) ps a)"
proof (induction ps arbitrary: a)
  case (Cons p ps)
  have f: "forwarded (mb 0)" by (simp add: forwarded_def assms)
  show ?case
    using Cons f [unfolded assms] rscn_pinned [where mb = mb and io = io, OF Cons.prems, of p]
    by (simp add: async_rscn [of mb] assms Let_def cong: if_cong)
qed simp

lemma fold_rscn_at:
  "distinct ps \<Longrightarrow> fold (\<lambda>p b. if pt_idx (ad_ports b p) = 0 then b else rscn_at io mb k p b) ps a = b \<Longrightarrow>
    ad_mbx b = ad_mbx a \<and> ad_ports b q = (if q \<in> set ps \<and> pt_idx (ad_ports a q) \<noteq> 0 \<and> pt_idx (ad_ports a q) = mb 3 AND 0xff
      then rscn_port io mb k (ad_ports a q) else ad_ports a q)"
proof (induction ps arbitrary: a)
  case (Cons p ps)
  define c where "c = (if pt_idx (ad_ports a p) = 0 then a else rscn_at io mb k p a)"
  have c: "ad_mbx c = ad_mbx a" "pt_idx (ad_ports c q) = pt_idx (ad_ports a q)"
      "q \<noteq> p \<Longrightarrow> ad_ports c q = ad_ports a q"
      "ad_ports c p = (if pt_idx (ad_ports a p) \<noteq> 0 \<and> pt_idx (ad_ports a p) = mb 3 AND 0xff
         then rscn_port io mb k (ad_ports a p) else ad_ports a p)"
    by (simp_all add: c_def rscn_at_def)
  have ih: "ad_mbx b = ad_mbx c \<and> ad_ports b q = (if q \<in> set ps \<and> pt_idx (ad_ports c q) \<noteq> 0 \<and> pt_idx (ad_ports c q) = mb 3 AND 0xff
      then rscn_port io mb k (ad_ports c q) else ad_ports c q)"
    using Cons.prems by (intro Cons.IH) (simp_all add: c_def)
  show ?case
  proof (cases "q = p")
    case True
    then have "q \<notin> set ps" using Cons.prems(1) by simp
    with ih True show ?thesis by (simp add: c(1,4))
  next
    case False
    with ih show ?thesis by (simp add: c(1,3))
  qed
qed simp

lemma wf_no_vports:
  assumes "vports_wf a" "num_vhosts a = 0"
  shows "vp_list a = [0]"
proof -
  obtain ps where ps: "vp_list a = 0 # ps" "num_vhosts a = of_nat (length ps)" using assms(1) by (auto simp: vports_wf_def)
  have "card (set (vp_list a)) \<le> Suc (vp_cap a)"
    using card_image [OF vports_wfD(3) [OF assms(1)]] card_mono [OF _ vports_wfD(4) [OF assms(1)]] by simp
  then have "length ps \<le> vp_cap a" using distinct_card [OF vports_wfD(1) [OF assms(1)]] ps(1) by simp
  then have "length ps = 0" using vp_no_of_nat [of "length ps" a] ps(2) assms(2) by simp
  then show ?thesis using ps(1) by simp
qed

text \<open>
  C32. A state-change notification of an adapter with virtual ports reaches the port it is addressed
  to and no other: that port is asked to resynchronise and told of the change (unless the address
  is its own or another port's, or it is not set up yet), all others, and what the adapter knows
  of remote ports, stay as they were.
\<close>
theorem rscn_reaches_addressee:
  assumes "vports_wf a" "npiv_supported (mw_fw (ad_mbx a))" "mb 0 = MBA_RSCN_UPDATE"
  shows "\<exists>b. qla2x00_async_event aen8200 io rsp mb 0 a = Some b \<and> ad_mbx b = ad_mbx a
    \<and> (\<forall>q. ad_ports b q = (if q \<in> set (vp_list a) \<and> pt_idx (ad_ports a q) = mb 3 AND 0xff
         then rscn_port io mb (rscn_known mb a) (ad_ports a q) else ad_ports a q))"
proof -
  let ?k = "rscn_known mb a"
  define c where "c = rscn_at io mb ?k 0 a"
  have zero: "pt_idx (ad_ports a 0) = 0" using vports_wfD(2) [OF assms(1)] by (simp add: vp_no_def unat_eq_0)
  have in0: "0 \<in> set (vp_list a)" "distinct (vp_list a)" using assms(1) by (auto simp: vports_wf_def)
  have only: "q = 0" if "q \<in> set (vp_list a)" "pt_idx (ad_ports a q) = 0" for q
    using vports_wfD(3) [OF assms(1)] in0(1) that zero by (auto simp: inj_on_def vp_no_def)
  have one: "async_one aen8200 io rsp mb 0 a = Some c"
    using assms(2) by (simp add: async_rscn [of mb] assms(3) c_def rscn_at_def rscn_update_port)
  have same: "mb(0 := snd (rio_event io (ad_dt c) mb)) = mb" using assms(3) by (simp add: not_rio fun_upd_idem)
  have c: "ad_mbx c = ad_mbx a" "vp_list c = vp_list a" "num_vhosts c = num_vhosts a" "rscn_known mb c = ?k"
      "pt_idx (ad_ports c q) = pt_idx (ad_ports a q)"
      "ad_ports c q = (if q = 0 \<and> pt_idx (ad_ports a q) = mb 3 AND 0xff then rscn_port io mb ?k (ad_ports a q) else ad_ports a q)" for q
    by (simp_all add: c_def) (simp add: rscn_at_def)
  show ?thesis
  proof (cases "num_vhosts a = 0")
    case True
    then have "qla2x00_async_event aen8200 io rsp mb 0 a = Some c" by (simp add: qla2x00_async_event_def one c)
    then show ?thesis using c(1,6) wf_no_vports [OF assms(1) True] by (intro exI [of _ c]) auto
  next
    case False
    define b where "b = fold (\<lambda>p b. if pt_idx (ad_ports b p) = 0 then b else rscn_at io mb ?k p b) (vp_list a) c"
    have "alert_vps (async_one aen8200 io rsp mb) (mb 0) (vp_list a) c
        = Some (fold (\<lambda>p b. if pt_idx (ad_ports b p) = 0 then b else rscn_at io mb (rscn_known mb c) p b) (vp_list a) c)"
      using assms(2,3) c(1) by (intro alert_rscn) simp_all
    from this [unfolded c(4)] have "qla2x00_async_event aen8200 io rsp mb 0 a = Some b"
      using False zero assms(2)
      by (simp add: qla2x00_async_event_def one c(1-5) same qla2x00_alert_all_vps_def b_def)
    then show ?thesis
      using fold_rscn_at [OF in0(2) b_def [symmetric]] c(1,5,6) in0(1) only zero by (intro exI [of _ b]) auto
  qed
qed

section \<open>Interrupts and the mailbox command\<close>

text \<open>A status word that announces the answer to a mailbox command, and one that announces nothing.\<close>

definition mbx_announced :: "u32 \<Rightarrow> bool" where
  "mbx_announced stat \<longleftrightarrow> stat \<noteq> 0xffffffff \<and> stat AND HSR_RISC_PAUSED = 0 \<and> stat AND HSR_RISC_INT \<noteq> 0 \<and> is_mbx_status stat"

definition nothing_announced :: "u32 \<Rightarrow> bool" where
  "nothing_announced stat \<longleftrightarrow> stat \<noteq> 0xffffffff \<and> stat AND HSR_RISC_PAUSED = 0 \<and> stat AND HSR_RISC_INT = 0"

lemma mbx_part_done:
  "finish_isr (mbx_part io i m \<lparr>is_ad = a, is_mbx = b\<rparr>) = upd_mbx (mbx_interrupt ((ih_regs io i)(0 := m))) a"
  by (simp add: mbx_part_def finish_isr_def mbx_interrupt_def upd_mbx_def)

lemma status_round_mbx:
  assumes "mbx_announced (ih_stat io i)" "dispatch i s = Some (mbx_part io i (MSW (ih_stat io i)) s)"
  shows "status_round dispatch io i s = Some (False, mbx_part io i (MSW (ih_stat io i)) s)"
  using assms by (simp add: status_round_def mbx_announced_def qla2x00_check_reg_for_disconnect_def goes_on_def Let_def)

lemma status_round_none:
  "nothing_announced (ih_stat io i) \<Longrightarrow> status_round dispatch io i s = Some (True, s)"
  by (simp add: status_round_def nothing_announced_def qla2x00_check_reg_for_disconnect_def Let_def)

lemma dispatch_mbx:
  assumes "mbx_announced (ih_stat io i)"
  shows "dispatch24 codes io rsp i s = Some (mbx_part io i (MSW (ih_stat io i)) s)"
    "dispatch23 io rsp i s = Some (mbx_part io i (MSW (ih_stat io i)) s)"
  using assms by (simp_all add: dispatch24_def dispatch23_def mbx_announced_def Let_def)

lemma run_status:
  assumes "mbx_announced (ih_stat io 0)" "nothing_announced (ih_stat io (Suc 0))"
    and "\<And>s. dispatch 0 s = Some (mbx_part io 0 (MSW (ih_stat io 0)) s)"
  shows "run_isr (status_round dispatch io) (Suc n) a
    = Some (upd_mbx (mbx_interrupt ((ih_regs io 0)(0 := MSW (ih_stat io 0)))) a)"
proof -
  have "status_round dispatch io 0 s = Some (False, mbx_part io 0 (MSW (ih_stat io 0)) s)" for s
    using assms(1,3) by (rule status_round_mbx)
  moreover have "status_round dispatch io (Suc 0) s = Some (True, s)" for s using assms(2) by (rule status_round_none)
  ultimately show ?thesis by (cases n) (simp_all add: run_isr_def mbx_part_done)
qed


section \<open>Further request queues\<close>

text \<open>Bit map and queues agree; a command to the firmware leaves both alone.\<close>

definition req_wf :: "host \<Rightarrow> bool" where
  "req_wf h \<longleftrightarrow> (\<forall>i < unat (max_req_queues h). req_qid_map h i \<longleftrightarrow> req_q_map h i \<noteq> None)"

definition same_queues :: "host \<Rightarrow> host \<Rightarrow> bool" where
  "same_queues g h \<longleftrightarrow> req_q_map g = req_q_map h \<and> req_qid_map g = req_qid_map h \<and> max_req_queues g = max_req_queues h"

definition keeps_queues :: "mbx_issue \<Rightarrow> bool" where
  "keeps_queues issue \<longleftrightarrow> (\<forall>m w rv n v. issue m w = Some (rv, n, v) \<longrightarrow> same_queues (mw_host v) (mw_host w))"

lemma tell_same:
  assumes "keeps_queues issue" "tell_firmware (qla25xx_init_req_que issue junk) c a = Some (rv, c', b)"
  shows "same_queues (mw_host (ad_mbx b)) (mw_host (ad_mbx a))"
proof -
  have "same_queues (mw_host (port_in 0 a)) (mw_host (ad_mbx a))" by (simp add: same_queues_def port_in_def Let_def)
  then show ?thesis
    using assms unfolding tell_firmware_def qla25xx_init_req_que_def mbx_status_def keeps_queues_def Let_def
    by (fastforce simp: bind_eq_Some_conv same_queues_def)
qed

lemma req_wf_same: "same_queues g h \<Longrightarrow> req_wf g \<longleftrightarrow> req_wf h"
  by (simp add: same_queues_def req_wf_def)

text \<open>
  Creating a request queue beside the first: on success the number was not in use, and the new
  queue is entered under it, the others untouched; on any failure - no memory, no number, the
  firmware's refusal - the queues and the bit map of numbers are what they were.
\<close>
theorem create_req_que_sound:
  assumes "req_wf (qs_host s)" "req_q_map (qs_host s) 0 \<noteq> None" "keeps_queues issue"
    and "qla25xx_create_req_que issue junk mem options vp rid rsp qos s = Some (i, t)"
  shows "req_wf (qs_host t) \<and> (if i = 0 then req_q_map (qs_host t) = req_q_map (qs_host s)
    else i < unat (max_req_queues (qs_host s)) \<and> req_q_map (qs_host s) i = None
      \<and> (\<exists>q. req_q_map (qs_host t) = (req_q_map (qs_host s))(i \<mapsto> q) \<and> que_id q = of_nat i))"
proof (cases "mem = None \<or> find_first_zero_bit (req_qid_map (qs_host s)) (unat (max_req_queues (qs_host s))) \<ge> unat (max_req_queues (qs_host s))")
  case True
  then show ?thesis using assms(1,4) by (auto simp: qla25xx_create_req_que_def Let_def split: option.splits)
next
  case False
  let ?h = "qs_host s"
  define k where "k = find_first_zero_bit (req_qid_map ?h) (unat (max_req_queues ?h))"
  have k: "k < unat (max_req_queues ?h)" "req_q_map ?h k = None"
    using False find_first_zero_bit_free [of "req_qid_map ?h" "unat (max_req_queues ?h)"] assms(1)
    by (auto simp: k_def req_wf_def not_le)
  have k0: "k \<noteq> 0" using assms(2) k(2) by (cases "k = 0") auto
  obtain q0 dma where mem: "mem = Some (q0, dma)" using False by auto
  define q where "q = fresh_req_que k q0"
  define c where "c = req_que_cfg options vp rid rsp qos k dma ?h"
  define s1 where "s1 = upd_host (\<lambda>h. set_req_bit k True (h\<lparr>req_q_map := (req_q_map h)(k \<mapsto> q)\<rparr>)) s"
  have enter: "enter_req_que issue junk k q c s = Some (i, t)"
    using assms(4) k(1) by (simp add: qla25xx_create_req_que_def mem Let_def k_def [symmetric] q_def c_def)
  then obtain rv c' a where tell: "tell_firmware (qla25xx_init_req_que issue junk) c (qs_ad s1) = Some (rv, c', a)"
    by (auto simp: enter_req_que_def Let_def s1_def [symmetric] split: option.splits)
  with enter have t: "(i, t) = (let u = s1\<lparr>qs_ad := a, req_cfg := (req_cfg s1)(k := c')\<rparr>
        in if rv \<noteq> QLA_SUCCESS then (0, qla25xx_free_req_que k (upd_host (set_req_bit k False) u)) else (k, u))"
    by (auto simp: enter_req_que_def Let_def s1_def [symmetric] split: if_splits)
  have s1: "qs_host s1 = set_req_bit k True (?h\<lparr>req_q_map := (req_q_map ?h)(k \<mapsto> q)\<rparr>)" "que_id q = of_nat k"
    by (simp_all add: s1_def qs_host_def upd_host_def upd_mbx_def q_def fresh_req_que_def)
  have same: "same_queues (mw_host (ad_mbx a)) (qs_host s1)"
    using tell_same [OF assms(3) tell] by (simp add: qs_host_def)
  show ?thesis
  proof (cases "rv = QLA_SUCCESS")
    case True
    then have "i = k" "qs_host t = mw_host (ad_mbx a)" using t by (simp_all add: Let_def qs_host_def)
    then show ?thesis
      using same s1 k k0 assms(1) by (auto simp: same_queues_def set_req_bit_def req_wf_def)
  next
    case False
    then have "i = 0" "qs_host t = set_req_bit k False ((set_req_bit k False (mw_host (ad_mbx a)))
        \<lparr>req_q_map := (req_q_map (mw_host (ad_mbx a)))(k := None)\<rparr>)"
      using t k0 by (simp_all add: Let_def qs_host_def qla25xx_free_req_que_def upd_host_def upd_mbx_def set_req_bit_def)
    then show ?thesis
      using same s1 k assms(1) by (auto simp: same_queues_def set_req_bit_def req_wf_def fun_upd_idem)
  qed
qed

section \<open>Samples\<close>

definition sample_aen :: aen_io where
  "sample_aen = \<lparr>ae_regs = (\<lambda>i. 0), ae_mem = True, ae_ienv = isr_env, ae_port_no = 0\<rparr>"

text \<open>An adapter whose physical port is up and has remote port 5, which is online.\<close>

definition up_ad :: adapter where
  "up_ad = upd_mbx (\<lambda>w. w\<lparr>mw_host := qla2x00_set_fcport_state 5 FCS_ONLINE (mw_host w)\<rparr>)
     (upd_port 0 (\<lambda>q. q\<lparr>pt_loop_state := LOOP_UP, pt_fcports := [5]\<rparr>) (sample_ad 2 1))"

theorem link_event_loses_devices_witness:
  "fc_online up_ad 5 \<and> (\<exists>b. async_one (\<lambda>p m a. a) sample_aen 0 (\<lambda>i. if i = 0 then MBA_LOOP_DOWN else 0) 0 up_ad = Some b
     \<and> \<not> fc_online b 5)"
proof -
  have up: "pt_loop_state (ad_ports up_ad 0) \<noteq> LOOP_DOWN" "pt_fcports (ad_ports up_ad 0) = [5]" "fc_online up_ad 5" "fc_own 0 up_ad 5"
    by (simp_all add: up_ad_def upd_mbx_def LOOP_UP_def LOOP_DOWN_def fc_online_def qla2x00_set_fcport_state_def upd_fc_def
        fc_own_def) (simp add: sample_ad_def blank_port_def)
  have "\<not> IS_QLA2100 (ad_dt up_ad)"
    by (simp add: up_ad_def ad_dt_def mw_dt_def upd_mbx_def qla2x00_set_fcport_state_def upd_fc_def)
      (simp add: sample_ad_def sample_mw_def sample_host_def IS_QLA2100_def dt_defs is_dt_def DT_ISP2100_def BIT_def)
  then show ?thesis
    using link_event_loses_devices [of "\<lambda>i. if i = 0 then MBA_LOOP_DOWN else 0" up_ad "\<lambda>p m a. a" sample_aen 0 0] up
    by (auto simp: link_events_def)
qed

theorem rscn_reaches_addressee_witness:
  "\<exists>b. qla2x00_async_event (\<lambda>p m a. a) sample_aen 0 (\<lambda>i. if i = 0 then MBA_RSCN_UPDATE else if i = 3 then 1 else 0x0102) 0
       (sample_ad 2 1) = Some b
     \<and> ad_ports b 0 = ad_ports (sample_ad 2 1) 0 \<and> dpc_test RSCN_UPDATE (ad_ports b 1)"
proof -
  define mb :: "nat \<Rightarrow> u16" where "mb = (\<lambda>i. if i = 0 then MBA_RSCN_UPDATE else if i = 3 then 1 else 0x0102)"
  have idx: "pt_idx (ad_ports (sample_ad 2 1) 0) = 0" "pt_idx (ad_ports (sample_ad 2 1) 1) = 1" "mb 3 AND 0xff = 1"
    by (simp_all add: sample_ad_def blank_port_def mb_def)
  have "\<not> rscn_known mb (sample_ad 2 1)"
    by (simp add: rscn_known_def qla2x00_is_a_vp_did_def mb_def or_words_def)
      (simp add: sample_ad_def blank_port_def d_id_word_def)
  then have "dpc_test RSCN_UPDATE (rscn_port sample_aen mb (rscn_known mb (sample_ad 2 1)) (ad_ports (sample_ad 2 1) 1))"
    by (simp add: rscn_port_def Let_def sample_ad_def blank_port_def mb_def or_words_def d_id_word_def post_port_def
        qla2x00_alloc_work_def qla2x00_post_work_def sample_aen_def dpc_on_def dpc_test_def bit_or_iff VP_SCR_NEEDED_def
        RSCN_UPDATE_def)
  then show ?thesis
    using rscn_reaches_addressee [of "sample_ad 2 1" mb "\<lambda>p m a. a" sample_aen 0] sample_ad_wf [of 1 2] idx
    unfolding mb_def [symmetric] by (auto simp: mb_def sample_ad_def)
qed

definition sample_intr :: intr_io where
  "sample_intr = \<lparr>ih_stat = (\<lambda>i. if i = 0 then 0x40008010 else 0), ih_hccr = (\<lambda>i. 0), ih_istatus = (\<lambda>i. 0), ih_semaphore = (\<lambda>i. 0),
     ih_regs = (\<lambda>i j. of_nat j), ih_host_int = 1, ih_offline = False, ih_mem = (\<lambda>i. True), ih_ienv = isr_env, ih_port_no = 0,
     ih_aen8200 = (\<lambda>p m a. a)\<rparr>"


definition sample_queues :: queues where
  "sample_queues = \<lparr>qs_ad = upd_mbx (\<lambda>w. w\<lparr>mw_host := (mw_host w)\<lparr>max_req_queues := 4\<rparr>\<rparr>) (sample_ad 2 1),
     req_cfg = (\<lambda>i. req_que_cfg 0 0 0 (- 1) 0 i 0 sample_host), rsp_cfg = (\<lambda>i. req_que_cfg 0 0 0 (- 1) 0 i 0 sample_host),
     rsp_qid_map = (\<lambda>i. i = 0), rsp_irq = (\<lambda>i. i = 0)\<rparr>"

theorem create_req_que_sound_witness:
  "\<exists>t. qla25xx_create_req_que sample_issue sample_junk (Some (sample_ring, 0x4000)) 0 1 0 (- 1) 5 sample_queues = Some (1, t)
     \<and> req_wf (qs_host t) \<and> req_q_map (qs_host t) 1 \<noteq> None"
proof -
  have h: "qs_host sample_queues = sample_host\<lparr>max_req_queues := 4\<rparr>"
    by (simp add: qs_host_def sample_queues_def upd_mbx_def sample_ad_def sample_mw_def)
  have wf: "req_wf (qs_host sample_queues)" "req_q_map (qs_host sample_queues) 0 \<noteq> None"
    by (auto simp: h req_wf_def sample_host_def)
  have "find_first_zero_bit (req_qid_map (qs_host sample_queues)) 4 = 1"
    by (rule find_first_zero_bit_at) (simp_all add: h sample_host_def)
  then have "\<exists>t. qla25xx_create_req_que sample_issue sample_junk (Some (sample_ring, 0x4000)) 0 1 0 (- 1) 5 sample_queues = Some (1, t)"
    by (simp add: qla25xx_create_req_que_def h Let_def enter_req_que_def tell_firmware_def qla25xx_init_req_que_def
        mbx_status_def sample_issue_def)
  moreover have "keeps_queues sample_issue" by (simp add: keeps_queues_def sample_issue_def same_queues_def)
  ultimately show ?thesis using create_req_que_sound [OF wf] by fastforce
qed

end
