(* ===== verification/Ct_Requests.thy ===== *)
theory Ct_Requests
  imports Mbx_Misc Iocb_Submit
begin

text \<open>
  Requests to the servers of the fabric (qla_gs.c, all but FDMI). A request is a common-transport
  packet in the buffer \<open>ct_sns\<close>, where the answer arrives too, and an entry in \<open>ms_iocb\<close>
  that goes to the firmware through the mailbox. The ISP2100 and ISP2200 use a command of their
  own, with the buffer \<open>sns_cmd\<close>. Buffers are DMA memory of the port's \<open>mbx_world\<close>; the
  packets are big-endian byte strings. The lists of the fabric's ports are lists of
  \<open>sw_info\<close> of length \<open>max_fibre_devices\<close>.
\<close>

section \<open>Packets\<close>

definition be16 :: "u16 \<Rightarrow> u8 list" where "be16 x = [MSB x, LSB x]"

definition be32 :: "u32 \<Rightarrow> u8 list" where
  "be32 x = [get_byte 3 x, get_byte 2 x, get_byte 1 x, get_byte 0 x]"

fun words_of :: "u8 list \<Rightarrow> u32 list" where
  "words_of (a # b # c # d # bs) = le32 a b c d # words_of bs"
| "words_of _ = []"

definition CT_PKT_SIZE :: nat where "CT_PKT_SIZE = 8208"
definition CT_ACCEPT_RESPONSE :: u16 where "CT_ACCEPT_RESPONSE = 0x8002"
definition CT_REASON_INVALID_COMMAND_CODE :: u8 where "CT_REASON_INVALID_COMMAND_CODE = 0x01"
definition CT_REASON_CANNOT_PERFORM :: u8 where "CT_REASON_CANNOT_PERFORM = 0x09"
definition CT_REASON_COMMAND_UNSUPPORTED :: u8 where "CT_REASON_COMMAND_UNSUPPORTED = 0x0b"
definition CT_EXPL_ALREADY_REGISTERED :: u8 where "CT_EXPL_ALREADY_REGISTERED = 0x10"
definition MS_IOCB_TYPE :: u8 where "MS_IOCB_TYPE = 0x29"
definition NPH_SNS :: u16 where "NPH_SNS = 0x7fc"
definition SIMPLE_NAME_SERVER :: u16 where "SIMPLE_NAME_SERVER = 0x80"
definition NS_N_PORT_TYPE :: u8 where "NS_N_PORT_TYPE = 0x01"
definition NS_NL_PORT_TYPE :: u8 where "NS_NL_PORT_TYPE = 0x02"
definition NS_NX_PORT_TYPE :: u8 where "NS_NX_PORT_TYPE = 0x7F"
definition FC4_TYPE_FCP_SCSI :: u8 where "FC4_TYPE_FCP_SCSI = 0x08"
definition FC4_TYPE_OTHER :: u8 where "FC4_TYPE_OTHER = 0"
definition FC4_TYPE_UNKNOWN :: u8 where "FC4_TYPE_UNKNOWN = 0xff"
definition PORT_SPEED_2GB :: u16 where "PORT_SPEED_2GB = 0x01"
definition PORT_SPEED_4GB :: u16 where "PORT_SPEED_4GB = 0x03"
definition PORT_SPEED_8GB :: u16 where "PORT_SPEED_8GB = 0x04"
definition PORT_SPEED_16GB :: u16 where "PORT_SPEED_16GB = 0x05"
definition PORT_SPEED_32GB :: u16 where "PORT_SPEED_32GB = 0x06"
definition PORT_SPEED_10GB :: u16 where "PORT_SPEED_10GB = 0x13"

definition GA_NXT_CMD :: u16 where "GA_NXT_CMD = 0x100"
definition GID_PT_CMD :: u16 where "GID_PT_CMD = 0x1A1"
definition GPN_ID_CMD :: u16 where "GPN_ID_CMD = 0x112"
definition GNN_ID_CMD :: u16 where "GNN_ID_CMD = 0x113"
definition RFT_ID_CMD :: u16 where "RFT_ID_CMD = 0x217"
definition RFF_ID_CMD :: u16 where "RFF_ID_CMD = 0x21F"
definition RNN_ID_CMD :: u16 where "RNN_ID_CMD = 0x213"
definition RSNN_NN_CMD :: u16 where "RSNN_NN_CMD = 0x239"
definition GFPN_ID_CMD :: u16 where "GFPN_ID_CMD = 0x11C"
definition GPSC_CMD :: u16 where "GPSC_CMD = 0x127"
definition GFF_ID_CMD :: u16 where "GFF_ID_CMD = 0x011F"
definition GFF_FCP_SCSI_OFFSET :: nat where "GFF_FCP_SCSI_OFFSET = 7"

section \<open>The state\<close>

record sw_info =
  sw_domain :: u8
  sw_area :: u8
  sw_al_pa :: u8
  sw_rsvd_1 :: u8
  sw_node_name :: "u8 list"
  sw_port_name :: "u8 list"
  sw_fabric_port_name :: "u8 list"
  sw_fp_speed :: u16
  sw_fc4_type :: u8

text \<open>
  \<open>ct_env\<close> is what is not the driver's: the mailbox command, what the stack holds, and the DMA
  pool's answer. \<open>ct_world\<close> are the fields of \<open>qla_hw_data\<close> and of the port.
\<close>

record ct_env =
  ce_issue :: mbx_issue
  ce_junk :: mbx_cmd
  ce_pool :: "u64 option"
  ce_mb :: "u16 list"

record ct_world =
  ct_mbx :: mbx_world
  ms_iocb_dma :: u64
  ct_sns_dma :: u64
  sns_cmd_dma :: u64
  max_fibre_devices :: u16
  mgmt_svr_loop_id :: u16
  management_server_logged_in :: bool
  ct_gpsc_supported :: bool
  control_requests :: u32

definition ct_dt :: "ct_world \<Rightarrow> u32" where "ct_dt w = mw_dt (ct_mbx w)"

definition upd_ct :: "(mbx_world \<Rightarrow> mbx_world) \<Rightarrow> ct_world \<Rightarrow> ct_world" where
  "upd_ct f w = w\<lparr>ct_mbx := f (ct_mbx w)\<rparr>"

definition ct_byte :: "ct_world \<Rightarrow> nat \<Rightarrow> u8" where
  "ct_byte w off = get8 0 off (mw_mem (ct_mbx w) (ct_sns_dma w))"

definition sns_byte :: "ct_world \<Rightarrow> nat \<Rightarrow> u8" where
  "sns_byte w off = get8 0 off (mw_mem (ct_mbx w) (sns_cmd_dma w))"

definition ms_iocb :: "ct_world \<Rightarrow> u32 list" where
  "ms_iocb w = mw_mem (ct_mbx w) (ms_iocb_dma w)"

definition bytes_at :: "(nat \<Rightarrow> u8) \<Rightarrow> nat \<Rightarrow> nat \<Rightarrow> u8 list" where
  "bytes_at b off n = map (\<lambda>i. b (off + i)) [0..<n]"

definition is_old :: "ct_world \<Rightarrow> bool" where
  "is_old w \<longleftrightarrow> IS_QLA2100 (ct_dt w) \<or> IS_QLA2200 (ct_dt w)"

section \<open>The entry and the packet\<close>

definition ct_tov :: "ct_world \<Rightarrow> u16" where
  "ct_tov w = r_a_tov (mw_host (ct_mbx w)) div 10 * 2"

definition ct_dsds :: "ct_world \<Rightarrow> u32 \<Rightarrow> u32 \<Rightarrow> u32 list \<Rightarrow> u32 list" where
  "ct_dsds w req_size rsp_size m =
     (let m = put32 0 32 rsp_size m;
          m = put32 0 36 req_size m;
          m = put_addr 0 40 (ct_sns_dma w) m;
          m = put32 0 48 (get32 0 36 m) m;
          m = put_addr 0 52 (ct_sns_dma w) m
      in put32 0 60 (get32 0 32 m) m)"

definition ms_entry :: "u16 \<Rightarrow> u32 \<Rightarrow> u32 \<Rightarrow> ct_world \<Rightarrow> u32 list" where
  "ms_entry loop req_size rsp_size w =
     (let m = replicate 16 0;
          m = put8 0 ENTRY_TYPE_OFF MS_IOCB_TYPE m;
          m = put8 0 ENTRY_COUNT_OFF 1 m;
          m = SET_TARGET_ID (ct_dt w) 0 8 loop m;
          m = put16 0 12 (CF_READ OR CF_HEAD_TAG) m;
          m = put16 0 16 (ct_tov w) m;
          m = put16 0 18 1 m;
          m = put16 0 20 2 m
      in ct_dsds w req_size rsp_size m)"

definition ct_entry :: "u16 \<Rightarrow> u32 \<Rightarrow> u32 \<Rightarrow> ct_world \<Rightarrow> u32 list" where
  "ct_entry handle req_size rsp_size w =
     (let m = replicate 16 0;
          m = put8 0 ENTRY_TYPE_OFF CT_IOCB_TYPE m;
          m = put8 0 ENTRY_COUNT_OFF 1 m;
          m = put16 0 10 handle m;
          m = put16 0 16 (ct_tov w) m;
          m = put16 0 12 1 m;
          m = put16 0 20 1 m;
          m = ct_dsds w req_size rsp_size m
      in put8 0 14 (ucast (vp_idx (mw_host (ct_mbx w)))) m)"

definition set_iocb :: "u32 list \<Rightarrow> ct_world \<Rightarrow> ct_world" where
  "set_iocb m w = upd_ct (put_mem (ms_iocb_dma w) m) w"

definition count_request :: "ct_world \<Rightarrow> ct_world" where
  "count_request w = w\<lparr>control_requests := control_requests w + 1\<rparr>"

definition qla2x00_prep_ms_iocb :: "u32 \<Rightarrow> u32 \<Rightarrow> ct_world \<Rightarrow> ct_world" where
  "qla2x00_prep_ms_iocb req_size rsp_size w =
     count_request (set_iocb (ms_entry SIMPLE_NAME_SERVER req_size rsp_size w) w)"

definition qla24xx_prep_ms_iocb :: "u32 \<Rightarrow> u32 \<Rightarrow> ct_world \<Rightarrow> ct_world" where
  "qla24xx_prep_ms_iocb req_size rsp_size w =
     count_request (set_iocb (ct_entry NPH_SNS req_size rsp_size w) w)"

definition qla2x00_prep_ms_fdmi_iocb :: "u32 \<Rightarrow> u32 \<Rightarrow> ct_world \<Rightarrow> ct_world" where
  "qla2x00_prep_ms_fdmi_iocb req_size rsp_size w =
     set_iocb (ms_entry (mgmt_svr_loop_id w) req_size rsp_size w) w"

definition qla24xx_prep_ms_fdmi_iocb :: "u32 \<Rightarrow> u32 \<Rightarrow> ct_world \<Rightarrow> ct_world" where
  "qla24xx_prep_ms_fdmi_iocb req_size rsp_size w =
     set_iocb (ct_entry (mgmt_svr_loop_id w) req_size rsp_size w) w"

definition qla24xx_prep_ms_fm_iocb :: "u32 \<Rightarrow> u32 \<Rightarrow> ct_world \<Rightarrow> ct_world" where
  "qla24xx_prep_ms_fm_iocb req_size rsp_size w =
     set_iocb (ct_entry (mgmt_svr_loop_id w) req_size rsp_size w) w"

text \<open>The functions the adapter's operations table holds for these.\<close>

definition has_24xx_ops :: "ct_world \<Rightarrow> bool" where
  "has_24xx_ops w \<longleftrightarrow> IS_FWI2_CAPABLE (ct_dt w) \<or> IS_QLAFX00 (ct_dt w)"

definition prep_ms_iocb :: "u32 \<Rightarrow> u32 \<Rightarrow> ct_world \<Rightarrow> ct_world" where
  "prep_ms_iocb req_size rsp_size w =
     (if has_24xx_ops w then qla24xx_prep_ms_iocb else qla2x00_prep_ms_iocb) req_size rsp_size w"

definition prep_ms_fdmi_iocb :: "u32 \<Rightarrow> u32 \<Rightarrow> ct_world \<Rightarrow> ct_world" where
  "prep_ms_fdmi_iocb req_size rsp_size w =
     (if has_24xx_ops w then qla24xx_prep_ms_fdmi_iocb else qla2x00_prep_ms_fdmi_iocb) req_size rsp_size w"

text \<open>
  The request header and what the caller fills in behind it, in a packet that is cleared as a whole.
\<close>

definition ct_head :: "u8 \<Rightarrow> u8 \<Rightarrow> u16 \<Rightarrow> u16 \<Rightarrow> u8 list" where
  "ct_head gs_type gs_subtype opc rsp_size =
     [1, 0, 0, 0, gs_type, gs_subtype, 0, 0] @ be16 opc @ be16 ((rsp_size - 16) div 4) @ [0, 0, 0, 0]"

definition ct_packet :: "u8 \<Rightarrow> u8 \<Rightarrow> u16 \<Rightarrow> u16 \<Rightarrow> u8 list \<Rightarrow> u8 list" where
  "ct_packet gs_type gs_subtype opc rsp_size payload =
     pad_bytes CT_PKT_SIZE (ct_head gs_type gs_subtype opc rsp_size @ payload)"

definition set_packet :: "u8 list \<Rightarrow> ct_world \<Rightarrow> ct_world" where
  "set_packet bs w = upd_ct (put_mem (ct_sns_dma w) (words_of bs)) w"

definition qla2x00_prep_ct_req :: "u16 \<Rightarrow> u16 \<Rightarrow> u8 list \<Rightarrow> ct_world \<Rightarrow> ct_world" where
  "qla2x00_prep_ct_req opc rsp_size payload w = set_packet (ct_packet 0xFC 0x02 opc rsp_size payload) w"

definition qla2x00_prep_ct_fdmi_req :: "u16 \<Rightarrow> u16 \<Rightarrow> u8 list \<Rightarrow> ct_world \<Rightarrow> ct_world" where
  "qla2x00_prep_ct_fdmi_req opc rsp_size payload w = set_packet (ct_packet 0xFA 0x10 opc rsp_size payload) w"

definition qla24xx_prep_ct_fm_req :: "u16 \<Rightarrow> u16 \<Rightarrow> u8 list \<Rightarrow> ct_world \<Rightarrow> ct_world" where
  "qla24xx_prep_ct_fm_req opc rsp_size payload w = set_packet (ct_packet 0xFA 0x01 opc rsp_size payload) w"

section \<open>Sending, and the status of the answer\<close>

definition ct_issue :: "ct_env \<Rightarrow> ct_world \<Rightarrow> (int \<times> ct_world) option" where
  "ct_issue e w = do {
     (rv, m) \<leftarrow> qla2x00_issue_iocb (ce_issue e) (ce_junk e) (ms_iocb_dma w) (ct_mbx w);
     Some (rv, w\<lparr>ct_mbx := m\<rparr>) }"

definition qla2x00_chk_ms_status :: "ct_world \<Rightarrow> int" where
  "qla2x00_chk_ms_status w =
     (let m = ms_iocb w;
          comp_status = (if IS_FWI2_CAPABLE (ct_dt w) then get16 0 8 m else get16 0 10 m)
      in if get8 0 ENTRY_STATUS_OFF m \<noteq> 0 then QLA_FUNCTION_FAILED
         else if comp_status \<in> {CS_COMPLETE, CS_DATA_UNDERRUN, CS_DATA_OVERRUN}
         then if bytes_at (ct_byte w) 8 2 \<noteq> be16 CT_ACCEPT_RESPONSE then QLA_INVALID_COMMAND else QLA_SUCCESS
         else QLA_FUNCTION_FAILED)"

definition ct_status :: "int \<Rightarrow> ct_world \<Rightarrow> int" where
  "ct_status rv w = (if rv \<noteq> QLA_SUCCESS then rv
     else if qla2x00_chk_ms_status w \<noteq> QLA_SUCCESS then QLA_FUNCTION_FAILED else QLA_SUCCESS)"

text \<open>A request to the name server, from the entry to the status of the answer.\<close>

definition ns_request :: "ct_env \<Rightarrow> u16 \<Rightarrow> u32 \<Rightarrow> u16 \<Rightarrow> u8 list \<Rightarrow> ct_world \<Rightarrow> (int \<times> ct_world) option" where
  "ns_request e opc req_size rsp_size payload w = do {
     let w = prep_ms_iocb req_size (ucast rsp_size) w;
     let w = qla2x00_prep_ct_req opc rsp_size payload w;
     (rv, w) \<leftarrow> ct_issue e w;
     Some (ct_status rv w, w) }"

definition d_id_of :: "ct_world \<Rightarrow> u8 list" where
  "d_id_of w = (let (d, a, p) = vha_d_id (mw_host (ct_mbx w)) in [d, a, p])"

definition sw_id :: "sw_info \<Rightarrow> u8 list" where
  "sw_id s = [sw_domain s, sw_area s, sw_al_pa s]"

section \<open>The command of the ISP2100 and ISP2200\<close>

definition GA_NXT_SNS_DATA_SIZE :: u16 where "GA_NXT_SNS_DATA_SIZE = 620 + 16"
definition SNS_PKT_SIZE :: nat where "SNS_PKT_SIZE = 2064"

definition sns_packet :: "u64 \<Rightarrow> u16 \<Rightarrow> u16 \<Rightarrow> u16 \<Rightarrow> u8 list \<Rightarrow> u32 list" where
  "sns_packet a opc scmd_len data_size params =
     (let m = replicate (SNS_PKT_SIZE div 4) 0;
          m = put16 0 0 (data_size div 2) m;
          m = put_addr 0 4 a m;
          m = put16 0 12 scmd_len m;
          m = put16 0 16 opc m;
          m = put16 0 18 ((data_size - 16) div 4) m
      in put_bytes 0 24 params m)"

definition qla2x00_prep_sns_cmd :: "u16 \<Rightarrow> u16 \<Rightarrow> u16 \<Rightarrow> u8 list \<Rightarrow> ct_world \<Rightarrow> ct_world" where
  "qla2x00_prep_sns_cmd opc scmd_len data_size params w =
     count_request (upd_ct (put_mem (sns_cmd_dma w) (sns_packet (sns_cmd_dma w) opc scmd_len data_size params)) w)"

definition sns_request ::
    "ct_env \<Rightarrow> u16 \<Rightarrow> u16 \<Rightarrow> u16 \<Rightarrow> u16 \<Rightarrow> u8 list \<Rightarrow> ct_world \<Rightarrow> (int \<times> ct_world) option" where
  "sns_request e opc scmd_len cmd_size data_size params w = do {
     let w = qla2x00_prep_sns_cmd opc scmd_len data_size params w;
     (rv, m) \<leftarrow> qla2x00_send_sns (ce_issue e) (ce_junk e) (sns_cmd_dma w) (cmd_size div 2) (ct_mbx w);
     let w = w\<lparr>ct_mbx := m\<rparr>;
     Some (if rv \<noteq> QLA_SUCCESS then rv
           else if sns_byte w 8 \<noteq> 0x80 \<or> sns_byte w 9 \<noteq> 0x02 then QLA_FUNCTION_FAILED else QLA_SUCCESS, w) }"

section \<open>The next port\<close>

text \<open>What the answer says of a port: the buffers of both commands have the same layout.\<close>

definition ga_nxt_port :: "(nat \<Rightarrow> u8) \<Rightarrow> sw_info \<Rightarrow> sw_info" where
  "ga_nxt_port b s = s\<lparr>sw_area := b 18, sw_al_pa := b 19,
     sw_domain := (if b 16 \<noteq> NS_N_PORT_TYPE \<and> b 16 \<noteq> NS_NL_PORT_TYPE then 0xf0 else b 17),
     sw_node_name := bytes_at b 284 8, sw_port_name := bytes_at b 20 8\<rparr>"

definition qla2x00_sns_ga_nxt :: "ct_env \<Rightarrow> sw_info \<Rightarrow> ct_world \<Rightarrow> (int \<times> sw_info \<times> ct_world) option" where
  "qla2x00_sns_ga_nxt e s w = do {
     (rv, w) \<leftarrow> sns_request e GA_NXT_CMD 6 28 GA_NXT_SNS_DATA_SIZE (rev (sw_id s)) w;
     Some (rv, if rv = QLA_SUCCESS then ga_nxt_port (sns_byte w) s else s, w) }"

definition qla2x00_ga_nxt :: "ct_env \<Rightarrow> sw_info \<Rightarrow> ct_world \<Rightarrow> (int \<times> sw_info \<times> ct_world) option" where
  "qla2x00_ga_nxt e s w =
     (if is_old w then qla2x00_sns_ga_nxt e s w
      else do {
        (rv, w) \<leftarrow> ns_request e GA_NXT_CMD (16 + 4) (16 + 620) (0 # sw_id s) w;
        Some (rv, if rv = QLA_SUCCESS
                  then (ga_nxt_port (ct_byte w) s)\<lparr>sw_fc4_type :=
                         (if ct_byte w 578 AND BIT 0 \<noteq> 0 then FC4_TYPE_FCP_SCSI else FC4_TYPE_OTHER)\<rparr>
                  else s, w) })"

section \<open>The list of ports\<close>

definition qla2x00_gid_pt_rsp_size :: "ct_world \<Rightarrow> u16" where
  "qla2x00_gid_pt_rsp_size w = max_fibre_devices w * 4 + 16"

text \<open>
  The loop over the entries, \<open>n\<close> of which are left from entry \<open>i\<close> on: it ends at the entry
  that is marked as the last one. \<open>clear\<close> is set for the answer of the name server.
\<close>

definition gid_entry :: "bool \<Rightarrow> (nat \<Rightarrow> u8) \<Rightarrow> nat \<Rightarrow> sw_info \<Rightarrow> sw_info" where
  "gid_entry clear b i s =
     (let s = s\<lparr>sw_domain := b (16 + 4 * i + 1), sw_area := b (16 + 4 * i + 2), sw_al_pa := b (16 + 4 * i + 3)\<rparr>;
          s = (if clear then s\<lparr>sw_fabric_port_name := replicate 8 0, sw_fp_speed := PORT_SPEED_UNKNOWN\<rparr> else s)
      in if bit (b (16 + 4 * i)) 7 then s\<lparr>sw_rsvd_1 := b (16 + 4 * i)\<rparr> else s)"

fun gid_loop :: "bool \<Rightarrow> (nat \<Rightarrow> u8) \<Rightarrow> nat \<Rightarrow> nat \<Rightarrow> sw_info list \<Rightarrow> bool \<times> sw_info list" where
  "gid_loop clear b 0 i l = (False, l)"
| "gid_loop clear b (Suc n) i l =
     (let l = l[i := gid_entry clear b i (l ! i)]
      in if bit (b (16 + 4 * i)) 7 then (True, l) else gid_loop clear b n (Suc i) l)"

definition gid_answer ::
    "bool \<Rightarrow> (nat \<Rightarrow> u8) \<Rightarrow> int \<Rightarrow> sw_info list \<Rightarrow> ct_world \<Rightarrow> int \<times> sw_info list \<times> ct_world" where
  "gid_answer clear b rv l w =
     (if rv \<noteq> QLA_SUCCESS then (rv, l, w)
      else let (last, l) = gid_loop clear b (unat (max_fibre_devices w)) 0 l
           in (if last then QLA_SUCCESS else QLA_FUNCTION_FAILED, l, w))"

definition qla2x00_sns_gid_pt ::
    "ct_env \<Rightarrow> sw_info list \<Rightarrow> ct_world \<Rightarrow> (int \<times> sw_info list \<times> ct_world) option" where
  "qla2x00_sns_gid_pt e l w = do {
     (rv, w) \<leftarrow> sns_request e GID_PT_CMD 6 28 (qla2x00_gid_pt_rsp_size w) [NS_NX_PORT_TYPE] w;
     Some (gid_answer False (sns_byte w) rv l w) }"

definition qla2x00_gid_pt ::
    "ct_env \<Rightarrow> sw_info list \<Rightarrow> ct_world \<Rightarrow> (int \<times> sw_info list \<times> ct_world) option" where
  "qla2x00_gid_pt e l w =
     (if is_old w then qla2x00_sns_gid_pt e l w
      else do {
        (rv, w) \<leftarrow> ns_request e GID_PT_CMD (16 + 4) (qla2x00_gid_pt_rsp_size w) [NS_NX_PORT_TYPE] w;
        Some (gid_answer True (ct_byte w) rv l w) })"

section \<open>A request for every port of the list\<close>

text \<open>
  The body of such a loop leaves it, goes on to the test for the last entry, or skips that test.
\<close>

datatype loop_next = Leave | Test_last | Skip_test

type_synonym port_query = "sw_info \<Rightarrow> ct_world \<Rightarrow> (int \<times> loop_next \<times> sw_info \<times> ct_world) option"

fun per_port ::
    "port_query \<Rightarrow> nat \<Rightarrow> nat \<Rightarrow> int \<Rightarrow> sw_info list \<Rightarrow> ct_world \<Rightarrow> (int \<times> sw_info list \<times> ct_world) option" where
  "per_port ask 0 i rv l w = Some (rv, l, w)"
| "per_port ask (Suc n) i rv l w = do {
     (rv, nx, s, w) \<leftarrow> ask (l ! i) w;
     let l = l[i := s];
     if nx = Leave \<or> nx = Test_last \<and> sw_rsvd_1 s \<noteq> 0 then Some (rv, l, w)
     else per_port ask n (Suc i) rv l w }"

definition all_ports ::
    "port_query \<Rightarrow> int \<Rightarrow> sw_info list \<Rightarrow> ct_world \<Rightarrow> (int \<times> sw_info list \<times> ct_world) option" where
  "all_ports ask rv l w = per_port ask (unat (max_fibre_devices w)) 0 rv l w"

definition id_query :: "ct_env \<Rightarrow> u16 \<Rightarrow> u16 \<Rightarrow> (u8 list \<Rightarrow> sw_info \<Rightarrow> sw_info) \<Rightarrow> port_query" where
  "id_query e opc rsp_size f s w = do {
     (rv, w) \<leftarrow> ns_request e opc (16 + 4) rsp_size (0 # sw_id s) w;
     Some (if rv \<noteq> QLA_SUCCESS then (rv, Leave, s, w)
           else (rv, Test_last, f (bytes_at (ct_byte w) 16 8) s, w)) }"

text \<open>The ISP2100 and ISP2200 do not leave the loop at a failure.\<close>

definition sns_query :: "ct_env \<Rightarrow> u16 \<Rightarrow> u16 \<Rightarrow> (u8 list \<Rightarrow> sw_info \<Rightarrow> sw_info) \<Rightarrow> port_query" where
  "sns_query e opc data_size f s w = do {
     (rv, w) \<leftarrow> sns_request e opc 6 28 data_size (rev (sw_id s)) w;
     Some (rv, Test_last, if rv = QLA_SUCCESS then f (bytes_at (sns_byte w) 16 8) s else s, w) }"

definition set_port_name :: "u8 list \<Rightarrow> sw_info \<Rightarrow> sw_info" where
  "set_port_name n s = s\<lparr>sw_port_name := n\<rparr>"

definition set_node_name :: "u8 list \<Rightarrow> sw_info \<Rightarrow> sw_info" where
  "set_node_name n s = s\<lparr>sw_node_name := n\<rparr>"

definition set_fabric_name :: "u8 list \<Rightarrow> sw_info \<Rightarrow> sw_info" where
  "set_fabric_name n s = s\<lparr>sw_fabric_port_name := n\<rparr>"

definition qla2x00_sns_gpn_id ::
    "ct_env \<Rightarrow> sw_info list \<Rightarrow> ct_world \<Rightarrow> (int \<times> sw_info list \<times> ct_world) option" where
  "qla2x00_sns_gpn_id e l w = all_ports (sns_query e GPN_ID_CMD (8 + 16) set_port_name) QLA_SUCCESS l w"

definition qla2x00_gpn_id ::
    "ct_env \<Rightarrow> sw_info list \<Rightarrow> ct_world \<Rightarrow> (int \<times> sw_info list \<times> ct_world) option" where
  "qla2x00_gpn_id e l w =
     (if is_old w then qla2x00_sns_gpn_id e l w
      else all_ports (id_query e GPN_ID_CMD (16 + 8) set_port_name) QLA_SUCCESS l w)"

definition qla2x00_sns_gnn_id ::
    "ct_env \<Rightarrow> sw_info list \<Rightarrow> ct_world \<Rightarrow> (int \<times> sw_info list \<times> ct_world) option" where
  "qla2x00_sns_gnn_id e l w = all_ports (sns_query e GNN_ID_CMD (8 + 16) set_node_name) QLA_SUCCESS l w"

definition qla2x00_gnn_id ::
    "ct_env \<Rightarrow> sw_info list \<Rightarrow> ct_world \<Rightarrow> (int \<times> sw_info list \<times> ct_world) option" where
  "qla2x00_gnn_id e l w =
     (if is_old w then qla2x00_sns_gnn_id e l w
      else all_ports (id_query e GNN_ID_CMD (16 + 8) set_node_name) QLA_SUCCESS l w)"

definition qla2x00_gfpn_id ::
    "ct_env \<Rightarrow> sw_info list \<Rightarrow> ct_world \<Rightarrow> (int \<times> sw_info list \<times> ct_world) option" where
  "qla2x00_gfpn_id e l w =
     (if \<not> IS_IIDMA_CAPABLE (ct_dt w) then Some (QLA_FUNCTION_FAILED, l, w)
      else all_ports (id_query e GFPN_ID_CMD (16 + 8) set_fabric_name) QLA_SUCCESS l w)"

definition gff_query :: "ct_env \<Rightarrow> port_query" where
  "gff_query e s w =
     (let s = s\<lparr>sw_fc4_type := FC4_TYPE_UNKNOWN\<rparr>
      in if \<not> IS_FWI2_CAPABLE (ct_dt w) then Some (QLA_SUCCESS, Skip_test, s, w)
         else do {
           (rv, w) \<leftarrow> ns_request e GFF_ID_CMD (16 + 4) (16 + 128) (0 # sw_id s) w;
           let f = ct_byte w (16 + GFF_FCP_SCSI_OFFSET) AND 0x0f;
           Some (rv, Test_last,
                 if rv = QLA_SUCCESS then s\<lparr>sw_fc4_type := (if f \<noteq> 0 then FC4_TYPE_FCP_SCSI else FC4_TYPE_OTHER)\<rparr>
                 else s, w) })"

definition qla2x00_gff_id :: "ct_env \<Rightarrow> sw_info list \<Rightarrow> ct_world \<Rightarrow> (sw_info list \<times> ct_world) option" where
  "qla2x00_gff_id e l w = do { (rv, l, w) \<leftarrow> all_ports (gff_query e) QLA_SUCCESS l w; Some (l, w) }"

section \<open>Registrations\<close>

definition qla2x00_sns_rft_id :: "ct_env \<Rightarrow> ct_world \<Rightarrow> (int \<times> ct_world) option" where
  "qla2x00_sns_rft_id e w = sns_request e RFT_ID_CMD 22 60 16 (rev (d_id_of w) @ [0, 0, 0x01]) w"

definition qla2x00_rft_id :: "ct_env \<Rightarrow> ct_world \<Rightarrow> (int \<times> ct_world) option" where
  "qla2x00_rft_id e w =
     (if is_old w then qla2x00_sns_rft_id e w
      else ns_request e RFT_ID_CMD (16 + 4 + 32) 16 (0 # d_id_of w @ [0, 0, 0x01]) w)"

definition qla2x00_rff_id :: "ct_env \<Rightarrow> ct_world \<Rightarrow> (int \<times> ct_world) option" where
  "qla2x00_rff_id e w =
     (if is_old w then Some (QLA_SUCCESS, w)
      else ns_request e RFF_ID_CMD (16 + 4 + 2 + 1 + 1) 16 (0 # d_id_of w @ [0, 0, BIT 1, 0x08]) w)"

definition qla2x00_sns_rnn_id :: "ct_env \<Rightarrow> ct_world \<Rightarrow> (int \<times> ct_world) option" where
  "qla2x00_sns_rnn_id e w =
     sns_request e RNN_ID_CMD 10 36 16 (rev (d_id_of w) @ [0] @ rev (vha_node_name (mw_fw (ct_mbx w)))) w"

definition qla2x00_rnn_id :: "ct_env \<Rightarrow> ct_world \<Rightarrow> (int \<times> ct_world) option" where
  "qla2x00_rnn_id e w =
     (if is_old w then qla2x00_sns_rnn_id e w
      else ns_request e RNN_ID_CMD (16 + 4 + 8) 16 (0 # d_id_of w @ vha_node_name (mw_fw (ct_mbx w))) w)"

text \<open>
  The symbolic name of the node: \<open>snprintf\<close> cuts a text to one byte less than the field, and
  what follows it in the field is the byte 0 and what was there. The request's entry is prepared with size 0, and the
  size set when the name is known: at the offsets of the entry of the ISP2300, which are those
  of the 24xx entry.
\<close>

definition c_str :: "string \<Rightarrow> u8 list" where "c_str s = map of_char s"

definition c_text :: "u8 list \<Rightarrow> u8 list" where "c_text bs = takeWhile (\<lambda>b. b \<noteq> 0) bs"

definition snprintf :: "nat \<Rightarrow> u8 list \<Rightarrow> u8 list" where "snprintf n bs = take (n - 1) bs"

fun dec :: "nat \<Rightarrow> u8 list" where
  "dec n = (if n < 10 then [of_nat (48 + n)] else dec (n div 10) @ [of_nat (48 + n mod 10)])"

declare dec.simps [simp del]

definition dec_pad :: "nat \<Rightarrow> nat \<Rightarrow> u8 list" where
  "dec_pad k n = replicate (k - length (dec n)) 48 @ dec n"

text \<open>What of the adapter is told to the servers; names of the host as the kernel gives them.\<close>

record hba_info =
  model_number :: "u8 list"
  model_desc :: "u8 list"
  adapter_id :: "u8 list"
  version_str :: "u8 list"
  mr_fw_version :: "u8 list"
  bios_revision :: "u8 \<times> u8"
  serials :: "u8 \<times> u8 \<times> u8"
  vpd :: "nat \<Rightarrow> u8"
  vpd_size :: nat
  icb_frame_payload :: u16
  icb24_frame_payload :: u16
  uts_name :: "(u8 list \<times> u8 list \<times> u8 list \<times> u8 list) option"
  system_hostname :: "u8 list"
  host_no :: nat
  fabric_node_name :: "u8 list"

definition qla2x00_get_sym_node_name :: "hba_info \<Rightarrow> mbx_world \<Rightarrow> nat \<Rightarrow> u8 list" where
  "qla2x00_get_sym_node_name i w n = snprintf n
     (if IS_QLAFX00 (mw_dt w)
      then c_text (model_number i) @ c_str '' FW:v'' @ c_text (mr_fw_version i) @ c_str '' DVR:v'' @ c_text (version_str i)
      else c_text (model_number i) @ c_str '' FW:v'' @ dec (unat (fw_major_version (mw_fw w))) @ c_str ''.''
             @ dec_pad 2 (unat (fw_minor_version (mw_fw w))) @ c_str ''.''
             @ dec_pad 2 (unat (fw_subminor_version (mw_fw w))) @ c_str '' DVR:v'' @ c_text (version_str i))"

definition set_req_bytecount :: "u32 \<Rightarrow> ct_world \<Rightarrow> ct_world" where
  "set_req_bytecount n w = set_iocb (put32 0 48 n (put32 0 36 n (ms_iocb w))) w"

definition qla2x00_rsnn_nn :: "hba_info \<Rightarrow> ct_env \<Rightarrow> ct_world \<Rightarrow> (int \<times> ct_world) option" where
  "qla2x00_rsnn_nn i e w =
     (if is_old w then Some (QLA_SUCCESS, w)
      else do {
        let w = prep_ms_iocb 0 16 w;
        let snn = qla2x00_get_sym_node_name i (ct_mbx w) 255;
        let name_len = (of_nat (length snn) :: u8);
        let w = qla2x00_prep_ct_req RSNN_NN_CMD 16 (vha_node_name (mw_fw (ct_mbx w)) @ name_len # snn) w;
        let w = set_req_bytecount (24 + 1 + ucast name_len) w;
        (rv, w) \<leftarrow> ct_issue e w;
        Some (ct_status rv w, w) })"

section \<open>The management server\<close>

definition isp_fabric_login ::
    "ct_env \<Rightarrow> u16 \<Rightarrow> fc_port \<Rightarrow> u8 \<Rightarrow> mbx_world \<Rightarrow> (int \<times> u16 list \<times> mbx_world) option" where
  "isp_fabric_login e loop fc opt w =
     (if IS_FWI2_CAPABLE (mw_dt w) then qla24xx_login_fabric (ce_issue e) (ce_junk e) (ce_pool e) loop fc (ce_mb e) opt w
      else qla2x00_login_fabric (ce_issue e) (ce_junk e) loop fc (ce_mb e) opt w)"

definition server_port :: "fc_port" where
  "server_port = \<lparr>fc_id = 0, loop_id = 0, d_id_domain = 0xff, d_id_area = 0xff, d_id_al_pa = 0xfa\<rparr>"

definition qla2x00_mgmt_svr_login :: "ct_env \<Rightarrow> ct_world \<Rightarrow> (int \<times> ct_world) option" where
  "qla2x00_mgmt_svr_login e w =
     (if management_server_logged_in w then Some (QLA_SUCCESS, w)
      else do {
        (rv, mb, m) \<leftarrow> isp_fabric_login e (mgmt_svr_loop_id w) server_port (BIT 1) (ct_mbx w);
        let w = w\<lparr>ct_mbx := m\<rparr>;
        if rv \<noteq> QLA_SUCCESS \<or> mb ! 0 \<noteq> MBS_COMMAND_COMPLETE then Some (QLA_FUNCTION_FAILED, w)
        else Some (QLA_SUCCESS, w\<lparr>management_server_logged_in := True\<rparr>) })"

section \<open>Port speeds\<close>

definition gpsc_speed :: "u16 \<Rightarrow> u16 option" where
  "gpsc_speed s =
     (if s = BIT 15 then Some PORT_SPEED_1GB else if s = BIT 14 then Some PORT_SPEED_2GB
      else if s = BIT 13 then Some PORT_SPEED_4GB else if s = BIT 12 then Some PORT_SPEED_10GB
      else if s = BIT 11 then Some PORT_SPEED_8GB else if s = BIT 10 then Some PORT_SPEED_16GB
      else if s = BIT 8 then Some PORT_SPEED_32GB else None)"

definition be_word :: "(nat \<Rightarrow> u8) \<Rightarrow> nat \<Rightarrow> u16" where
  "be_word b off = push_bit 8 (ucast (b off)) OR ucast (b (off + 1))"

definition gpsc_query :: "ct_env \<Rightarrow> port_query" where
  "gpsc_query e s w = do {
     let w = qla24xx_prep_ms_fm_iocb (16 + 8) (16 + 2 + 2) w;
     let w = qla24xx_prep_ct_fm_req GPSC_CMD (16 + 2 + 2) (sw_fabric_port_name s) w;
     (rv, w) \<leftarrow> ct_issue e w;
     let st = qla2x00_chk_ms_status w;
     Some (if rv \<noteq> QLA_SUCCESS then (rv, Test_last, s, w)
           else if st \<noteq> QLA_SUCCESS
           then if st = QLA_INVALID_COMMAND
                     \<and> ct_byte w 13 \<in> {CT_REASON_INVALID_COMMAND_CODE, CT_REASON_COMMAND_UNSUPPORTED}
                then (QLA_FUNCTION_FAILED, Leave, s, w\<lparr>ct_gpsc_supported := False\<rparr>)
                else (QLA_FUNCTION_FAILED, Test_last, s, w)
           else (QLA_SUCCESS, Test_last,
                 case gpsc_speed (be_word (ct_byte w) 18) of None \<Rightarrow> s | Some v \<Rightarrow> s\<lparr>sw_fp_speed := v\<rparr>, w)) }"

definition qla2x00_gpsc ::
    "ct_env \<Rightarrow> sw_info list \<Rightarrow> ct_world \<Rightarrow> (int \<times> sw_info list \<times> ct_world) option" where
  "qla2x00_gpsc e l w =
     (if \<not> IS_IIDMA_CAPABLE (ct_dt w) \<or> \<not> ct_gpsc_supported w then Some (QLA_FUNCTION_FAILED, l, w)
      else do {
        (rv, w) \<leftarrow> qla2x00_mgmt_svr_login e w;
        if rv \<noteq> QLA_SUCCESS then Some (rv, l, w)
        else all_ports (gpsc_query e) rv l w })"

end
