(* ===== verification/Fdmi.thy ===== *)
theory Fdmi
  imports Ct_Requests
begin

text \<open>
  Registration with the management server (qla_gs.c from qla2x00_fdmi_rhba to
  qla2x00_fdmi_register), the field of the vital product data it reads (qla_sup.c) and the text of
  the firmware's version (qla_os.c). The blocks of attributes are lists of pairs of a type and
  the bytes of the value; the code writes one after the other and counts their sizes.
\<close>

section \<open>Vital product data\<close>

text \<open>\<open>b\<close> is the memory from the start of the data on, also behind its end \<open>e\<close>.\<close>

definition qla2xxx_is_vpd_valid :: "(nat \<Rightarrow> u8) \<Rightarrow> nat \<Rightarrow> bool" where
  "qla2xxx_is_vpd_valid b e =
     (if 0 \<ge> e \<or> b 0 \<noteq> 0x82 then False
      else let pos = 3 + unat (b 1)
           in if pos \<ge> e \<or> b pos \<noteq> 0x90 then False
              else let pos = pos + 3 + unat (b (pos + 1))
                   in pos < e \<and> b pos = 0x78)"

definition vpd_key_at :: "(nat \<Rightarrow> u8) \<Rightarrow> nat \<Rightarrow> u8 list \<Rightarrow> bool" where
  "vpd_key_at b pos key \<longleftrightarrow> bytes_at b pos (length key) = key"

function vpd_find :: "(nat \<Rightarrow> u8) \<Rightarrow> nat \<Rightarrow> u8 list \<Rightarrow> nat \<Rightarrow> nat \<Rightarrow> nat \<times> nat" where
  "vpd_find b e key pos len =
     (if pos < e \<and> b pos \<noteq> 0x78
      then let len = (if b pos = 0x82 then unat (b (pos + 1)) else unat (b (pos + 2)))
           in if vpd_key_at b pos key then (pos, len)
              else vpd_find b e key ((if b pos \<noteq> 0x90 \<and> b pos \<noteq> 0x91 then pos + len else pos) + 3) len
      else (pos, len))"
  by pat_completeness auto
termination by (relation "measure (\<lambda>(b, e, key, pos, len). e - pos)") auto

declare vpd_find.simps [simp del]

text \<open>The text of the field, empty if there is none and nothing is written.\<close>

definition qla2xxx_get_vpd_field :: "u32 \<Rightarrow> hba_info \<Rightarrow> u8 list \<Rightarrow> nat \<Rightarrow> u8 list" where
  "qla2xxx_get_vpd_field dt i key n =
     (if \<not> IS_FWI2_CAPABLE dt \<or> \<not> qla2xxx_is_vpd_valid (vpd i) (vpd_size i) then []
      else let (pos, len) = vpd_find (vpd i) (vpd_size i) key 0 0
           in if pos + len < vpd_size i \<and> vpd i pos \<noteq> 0x78
              then snprintf n (c_text (bytes_at (vpd i) (pos + 3) len)) else [])"

section \<open>The version of the firmware\<close>

fun hex :: "nat \<Rightarrow> u8 list" where
  "hex n = (let d = (\<lambda>k. if k < 10 then of_nat (48 + k) else of_nat (87 + k))
            in if n < 16 then [d n] else hex (n div 16) @ [d (n mod 16)])"

declare hex.simps [simp del]

definition fw_version_digits :: "fw_state \<Rightarrow> u8 list" where
  "fw_version_digits f = dec (unat (fw_major_version f)) @ c_str ''.''
     @ dec_pad 2 (unat (fw_minor_version f)) @ c_str ''.'' @ dec_pad 2 (unat (fw_subminor_version f))"

definition hex_in_brackets :: "u16 \<Rightarrow> u8 list" where
  "hex_in_brackets a = c_str ''('' @ hex (unat a) @ c_str '')''"

definition qla2x00_fw_version_str :: "fw_state \<Rightarrow> nat \<Rightarrow> u8 list" where
  "qla2x00_fw_version_str f n =
     (let str = snprintf n (fw_version_digits f @ c_str '' '')
      in if fw_attributes f AND BIT 9 \<noteq> 0 then str @ c_str ''FLX''
         else let a = fw_attributes f AND 0xFF;
                  str = str @ (if a = 0x7 then c_str ''EF'' else if a = 0x17 then c_str ''TP''
                               else if a = 0x37 then c_str ''IP'' else if a = 0x77 then c_str ''VI''
                               else hex_in_brackets (fw_attributes f))
              in if fw_attributes f AND 0x100 \<noteq> 0 then str @ c_str ''X'' else str)"

definition qla24xx_fw_version_str :: "fw_state \<Rightarrow> nat \<Rightarrow> u8 list" where
  "qla24xx_fw_version_str f n = snprintf n (fw_version_digits f @ c_str '' '' @ hex_in_brackets (fw_attributes f))"

definition fw_version_str :: "hba_info \<Rightarrow> mbx_world \<Rightarrow> nat \<Rightarrow> u8 list" where
  "fw_version_str i w n =
     (if IS_FWI2_CAPABLE (mw_dt w) then qla24xx_fw_version_str (mw_fw w) n
      else if IS_QLAFX00 (mw_dt w) then snprintf n (c_text (mr_fw_version i))
      else qla2x00_fw_version_str (mw_fw w) n)"

section \<open>Attributes\<close>

type_synonym fdmi_attr = "u16 \<times> u8 list"

definition attr_bytes :: "fdmi_attr \<Rightarrow> u8 list" where
  "attr_bytes a = be16 (fst a) @ be16 (of_nat (4 + length (snd a))) @ snd a"

text \<open>
  A text is followed by at least one byte 0, up to a multiple of four: the packet has been cleared,
  and the size added for it is \<open>alen += 4 - (alen & 3)\<close>.
\<close>

definition text_value :: "u8 list \<Rightarrow> u8 list" where
  "text_value s = s @ replicate (4 - length s mod 4) 0"

definition text_attr :: "u16 \<Rightarrow> nat \<Rightarrow> u8 list \<Rightarrow> fdmi_attr" where
  "text_attr t n s = (t, text_value (snprintf n s))"

definition word_attr :: "u16 \<Rightarrow> u32 \<Rightarrow> fdmi_attr" where "word_attr t v = (t, be32 v)"

definition serial_text :: "u8 \<times> u8 \<times> u8 \<Rightarrow> u8 list" where
  "serial_text = (\<lambda>(s0, s1, s2).
     let sn = unat ((push_bit 16 (ucast (s0 AND 0x1f)) OR push_bit 8 (ucast s2) OR ucast s1) :: u32)
     in of_nat (65 + sn div 100000) # dec_pad 5 (sn mod 100000))"

definition hw_version_text :: "u32 \<Rightarrow> hba_info \<Rightarrow> nat \<Rightarrow> u8 list" where
  "hw_version_text dt i n =
     (let hw = c_str ''HW:'' @ c_text (adapter_id i)
      in if \<not> IS_FWI2_CAPABLE dt then hw
         else if qla2xxx_get_vpd_field dt i (c_str ''MN'') n \<noteq> [] then qla2xxx_get_vpd_field dt i (c_str ''MN'') n
         else if qla2xxx_get_vpd_field dt i (c_str ''EC'') n \<noteq> [] then qla2xxx_get_vpd_field dt i (c_str ''EC'') n
         else hw)"

definition bios_text :: "hba_info \<Rightarrow> u8 list" where
  "bios_text i = (case bios_revision i of (minor, major) \<Rightarrow> dec (unat major) @ c_str ''.'' @ dec_pad 2 (unat minor))"

definition frame_payload :: "u32 \<Rightarrow> hba_info \<Rightarrow> u32" where
  "frame_payload dt i = (if IS_FWI2_CAPABLE dt then ucast (icb24_frame_payload i) else ucast (icb_frame_payload i))"

text \<open>The first nine attributes are those of both versions, with fields of different sizes.\<close>

definition hba_attrs :: "nat \<Rightarrow> nat \<Rightarrow> hba_info \<Rightarrow> mbx_world \<Rightarrow> fdmi_attr list" where
  "hba_attrs man_size hw_size i w =
     (let dt = mw_dt w
      in [(0x1, vha_node_name (mw_fw w)),
          text_attr 0x2 man_size (c_str ''QLogic Corporation''),
          text_attr 0x3 32 (if IS_FWI2_CAPABLE dt then qla2xxx_get_vpd_field dt i (c_str ''SN'') 32
                            else serial_text (serials i)),
          text_attr 0x4 16 (c_text (model_number i)),
          text_attr 0x5 80 (c_text (model_desc i)),
          text_attr 0x6 hw_size (hw_version_text dt i hw_size),
          text_attr 0x7 32 (c_text (version_str i)),
          text_attr 0x8 16 (bios_text i),
          (0x9, text_value (fw_version_str i w 32))])"

definition os_version_text :: "hba_info \<Rightarrow> u8 list" where
  "os_version_text i = (case uts_name i of
      Some (sysname, release, version, nodename) \<Rightarrow>
        c_text sysname @ c_str '' '' @ c_text release @ c_str '' '' @ c_text version
    | None \<Rightarrow> c_str ''Linux '' @ c_text (system_hostname i))"

definition host_name_text :: "hba_info \<Rightarrow> u8 list" where
  "host_name_text i = (case uts_name i of
      Some (sysname, release, version, nodename) \<Rightarrow> c_text nodename
    | None \<Rightarrow> c_text (system_hostname i))"

definition fdmi_hba_attrs :: "hba_info \<Rightarrow> mbx_world \<Rightarrow> fdmi_attr list" where
  "fdmi_hba_attrs i w = hba_attrs 64 32 i w"

definition fdmiv2_hba_attrs :: "hba_info \<Rightarrow> mbx_world \<Rightarrow> fdmi_attr list" where
  "fdmiv2_hba_attrs i w = hba_attrs 32 16 i w @
     [text_attr 0xa 128 (os_version_text i),
      word_attr 0xb (frame_payload (mw_dt w) i),
      text_attr 0xc 256 (qla2x00_get_sym_node_name i w 256),
      word_attr 0xd 0x1077,
      word_attr 0xe 1,
      (0xf, fabric_node_name i),
      text_attr 0x10 32 (c_str ''BIOS '' @ bios_text i),
      text_attr 0xe0 8 (c_str ''QLGC'')]"

definition sup_speed :: "u32 \<Rightarrow> u32" where
  "sup_speed dt =
     (if IS_CNA_CAPABLE dt then 0x4
      else if IS_QLA27XX dt then 0x40 OR 0x20 OR 0x10
      else if IS_QLA2031 dt then 0x20 OR 0x10 OR 0x8
      else if IS_QLA25XX dt then 0x10 OR 0x8 OR 0x2 OR 0x1
      else if IS_QLA24XX_TYPE dt then 0x8 OR 0x2 OR 0x1
      else if IS_QLA23XX dt then 0x2 OR 0x1
      else 0x1)"

definition cur_speed :: "u16 \<Rightarrow> u32" where
  "cur_speed r =
     (if r = PORT_SPEED_1GB then 0x1 else if r = PORT_SPEED_2GB then 0x2
      else if r = PORT_SPEED_4GB then 0x8 else if r = PORT_SPEED_8GB then 0x10
      else if r = PORT_SPEED_10GB then 0x4 else if r = PORT_SPEED_16GB then 0x20
      else if r = PORT_SPEED_32GB then 0x40 else 0x8000)"

definition fdmi_port_attrs :: "hba_info \<Rightarrow> mbx_world \<Rightarrow> fdmi_attr list" where
  "fdmi_port_attrs i w =
     [(0x1, pad_bytes 32 [0, 0, 0x01]),
      word_attr 0x2 (sup_speed (mw_dt w)),
      word_attr 0x3 (cur_speed (link_data_rate (mw_fw w))),
      word_attr 0x4 (frame_payload (mw_dt w) i),
      text_attr 0x5 32 (c_str ''qla2xxx:host'' @ dec (host_no i)),
      text_attr 0x6 32 (host_name_text i)]"

definition fdmiv2_port_attrs :: "hba_info \<Rightarrow> mbx_world \<Rightarrow> fdmi_attr list" where
  "fdmiv2_port_attrs i w = fdmi_port_attrs i w @
     [(0x7, vha_node_name (mw_fw w)),
      (0x8, vha_port_name (mw_host w)),
      text_attr 0x9 128 (qla2x00_get_sym_node_name i w 128),
      word_attr 0xa (ucast NS_NX_PORT_TYPE),
      word_attr 0xb 0x08,
      (0xc, fabric_node_name i),
      (0xd, pad_bytes 32 [0, 0, 1, 0]),
      word_attr 0x101 1,
      word_attr 0x102 1,
      (0x103, 0 # (let (d, a, p) = vha_d_id (mw_host w) in [d, a, p]))]"

section \<open>Requests\<close>

definition RHBA_CMD :: u16 where "RHBA_CMD = 0x200"
definition RPA_CMD :: u16 where "RPA_CMD = 0x211"
definition DHBA_CMD :: u16 where "DHBA_CMD = 0x300"
definition FDMI_HBA_ATTR_COUNT :: u32 where "FDMI_HBA_ATTR_COUNT = 9"
definition FDMIV2_HBA_ATTR_COUNT :: u32 where "FDMIV2_HBA_ATTR_COUNT = 17"
definition FDMI_PORT_ATTR_COUNT :: u32 where "FDMI_PORT_ATTR_COUNT = 6"
definition FDMIV2_PORT_ATTR_COUNT :: u32 where "FDMIV2_PORT_ATTR_COUNT = 16"
definition QLA_ALREADY_REGISTERED :: int where "QLA_ALREADY_REGISTERED = 0x109"

text \<open>Both layouts of the entry have the request's length at the same offsets.\<close>

definition qla2x00_update_ms_fdmi_iocb :: "u32 \<Rightarrow> ct_world \<Rightarrow> ct_world" where
  "qla2x00_update_ms_fdmi_iocb req_size w = set_req_bytecount req_size w"

definition attrs_size :: "nat \<Rightarrow> fdmi_attr list \<Rightarrow> nat" where
  "attrs_size sz as = fold (\<lambda>a s. s + 4 + length (snd a)) as sz"

text \<open>A registration up to the point where it is sent; \<open>ids\<close> is what stands before the block.\<close>

definition fdmi_prepare ::
    "u16 \<Rightarrow> u8 list \<Rightarrow> u32 \<Rightarrow> (mbx_world \<Rightarrow> fdmi_attr list) \<Rightarrow> ct_world \<Rightarrow> ct_world" where
  "fdmi_prepare opc ids count attrs w =
     (let w = prep_ms_fdmi_iocb 0 16 w;
          as = attrs (ct_mbx w);
          w = qla2x00_prep_ct_fdmi_req opc 16 (ids @ be32 count @ concat (map attr_bytes as)) w
      in qla2x00_update_ms_fdmi_iocb (of_nat (attrs_size (length ids + 4) as) + 16) w)"

definition fdmi_status :: "int \<Rightarrow> ct_world \<Rightarrow> int" where
  "fdmi_status rv w =
     (if rv \<noteq> QLA_SUCCESS then rv
      else if qla2x00_chk_ms_status w \<noteq> QLA_SUCCESS
      then if ct_byte w 13 = CT_REASON_CANNOT_PERFORM \<and> ct_byte w 14 = CT_EXPL_ALREADY_REGISTERED
           then QLA_ALREADY_REGISTERED else QLA_FUNCTION_FAILED
      else QLA_SUCCESS)"

definition fdmi_send :: "ct_env \<Rightarrow> ct_world \<Rightarrow> (int \<times> ct_world) option" where
  "fdmi_send e w = do { (rv, w) \<leftarrow> ct_issue e w; Some (fdmi_status rv w, w) }"

definition rhba_ids :: "ct_world \<Rightarrow> u8 list" where
  "rhba_ids w = (let n = vha_port_name (mw_host (ct_mbx w)) in n @ be32 1 @ n)"

definition rpa_ids :: "ct_world \<Rightarrow> u8 list" where
  "rpa_ids w = vha_port_name (mw_host (ct_mbx w))"

definition qla2x00_fdmi_rhba :: "hba_info \<Rightarrow> ct_env \<Rightarrow> ct_world \<Rightarrow> (int \<times> ct_world) option" where
  "qla2x00_fdmi_rhba i e w =
     fdmi_send e (fdmi_prepare RHBA_CMD (rhba_ids w) FDMI_HBA_ATTR_COUNT (fdmi_hba_attrs i) w)"

definition qla2x00_fdmi_rpa :: "hba_info \<Rightarrow> ct_env \<Rightarrow> ct_world \<Rightarrow> (int \<times> ct_world) option" where
  "qla2x00_fdmi_rpa i e w =
     fdmi_send e (fdmi_prepare RPA_CMD (rpa_ids w) FDMI_PORT_ATTR_COUNT (fdmi_port_attrs i) w)"

definition qla2x00_fdmiv2_rhba :: "hba_info \<Rightarrow> ct_env \<Rightarrow> ct_world \<Rightarrow> (int \<times> ct_world) option" where
  "qla2x00_fdmiv2_rhba i e w =
     fdmi_send e (fdmi_prepare RHBA_CMD (rhba_ids w) FDMIV2_HBA_ATTR_COUNT (fdmiv2_hba_attrs i) w)"

definition qla2x00_fdmiv2_rpa :: "hba_info \<Rightarrow> ct_env \<Rightarrow> ct_world \<Rightarrow> (int \<times> ct_world) option" where
  "qla2x00_fdmiv2_rpa i e w =
     fdmi_send e (fdmi_prepare RPA_CMD (rpa_ids w) FDMIV2_PORT_ATTR_COUNT (fdmiv2_port_attrs i) w)"

definition qla2x00_fdmi_dhba :: "ct_env \<Rightarrow> ct_world \<Rightarrow> (int \<times> ct_world) option" where
  "qla2x00_fdmi_dhba e w = do {
     let w = prep_ms_fdmi_iocb (16 + 8) 16 w;
     let w = qla2x00_prep_ct_fdmi_req DHBA_CMD 16 (vha_port_name (mw_host (ct_mbx w))) w;
     (rv, w) \<leftarrow> ct_issue e w;
     Some (ct_status rv w, w) }"

section \<open>Registering\<close>

text \<open>
  Registering the adapter, after its removal where it is registered already: the part the two
  versions share, \<open>rhba\<close> being the request of the version.
\<close>

definition register_hba ::
    "(ct_world \<Rightarrow> (int \<times> ct_world) option) \<Rightarrow> ct_env \<Rightarrow> ct_world \<Rightarrow> (int \<times> ct_world) option" where
  "register_hba rhba e w = do {
     (rv, w) \<leftarrow> rhba w;
     if rv = QLA_ALREADY_REGISTERED
     then do {
       (rv, w) \<leftarrow> qla2x00_fdmi_dhba e w;
       if rv \<noteq> QLA_SUCCESS then Some (rv, w) else rhba w }
     else Some (rv, w) }"

definition then_port ::
    "(ct_world \<Rightarrow> (int \<times> ct_world) option) \<Rightarrow> int \<times> ct_world \<Rightarrow> (int \<times> ct_world) option" where
  "then_port rpa r = (case r of (rv, w) \<Rightarrow> if rv \<noteq> QLA_SUCCESS then Some (rv, w) else rpa w)"

definition qla2x00_fdmi_register :: "hba_info \<Rightarrow> ct_env \<Rightarrow> ct_world \<Rightarrow> (int \<times> ct_world) option" where
  "qla2x00_fdmi_register i e w =
     (if is_old w \<or> IS_QLAFX00 (ct_dt w) then Some (QLA_FUNCTION_FAILED, w)
      else do {
        (rv, w) \<leftarrow> qla2x00_mgmt_svr_login e w;
        if rv \<noteq> QLA_SUCCESS then Some (rv, w)
        else do {
          r \<leftarrow> register_hba (qla2x00_fdmiv2_rhba i e) e w;
          (rv, w) \<leftarrow> then_port (qla2x00_fdmiv2_rpa i e) r;
          if rv = QLA_SUCCESS then Some (rv, w)
          else do {
            r \<leftarrow> register_hba (qla2x00_fdmi_rhba i e) e w;
            then_port (qla2x00_fdmi_rpa i e) r } } })"

end
