(* ===== verification/Discovery.thy ===== *)
theory Discovery
  imports Fdmi Aen
begin

text \<open>
  Finding and logging in remote ports (qla_init.c from qla2x00_rport_del to qla2x00_perform_loop_resync,
  and the FCP priorities; loop identifiers from qla_inline.h). \<open>disc\<close> is the adapter as one port sees
  it: the port's \<open>ct_world\<close>, the remote ports by index, the list \<open>vp_fcports\<close>, the map of loop
  identifiers. The part of a remote port that the interrupt side uses stays in the host's
  \<open>fc_states\<close>. Loops that the firmware can keep going run on fuel \<open>N\<close>.
\<close>

section \<open>The state\<close>

definition SNS_FIRST_LOOP_ID :: nat where "SNS_FIRST_LOOP_ID = 0x81"
definition LAST_LOCAL_LOOP_ID :: u16 where "LAST_LOCAL_LOOP_ID = 0x7d"
definition SNS_FL_PORT :: u16 where "SNS_FL_PORT = 0x7e"
definition MANAGEMENT_SERVER :: nat where "MANAGEMENT_SERVER = 0xfe"
definition BROADCAST :: nat where "BROADCAST = 0xff"
definition NPH_LAST_HANDLE :: u16 where "NPH_LAST_HANDLE = 0x7ef"
definition NPH_F_PORT :: u16 where "NPH_F_PORT = 0x7fe"
definition FCT_UNKNOWN :: nat where "FCT_UNKNOWN = 0"
definition FCT_BROADCAST :: nat where "FCT_BROADCAST = 3"
definition FCF_FABRIC_DEVICE :: u32 where "FCF_FABRIC_DEVICE = BIT 0"
definition FCF_LOGIN_NEEDED :: u32 where "FCF_LOGIN_NEEDED = BIT 1"
definition FCF_ASYNC_SENT :: u32 where "FCF_ASYNC_SENT = BIT 3"
definition ISP_CFG_NL :: u16 where "ISP_CFG_NL = 1"
definition ISP_CFG_N :: u16 where "ISP_CFG_N = 2"
definition ISP_CFG_FL :: u16 where "ISP_CFG_FL = 4"
definition LOOP_READY :: nat where "LOOP_READY = 5"
definition SWITCH_FOUND :: u32 where "SWITCH_FOUND = BIT 0"
definition QLA_FCPORT_SCAN :: nat where "QLA_FCPORT_SCAN = 1"
definition QLA_FCPORT_FOUND :: nat where "QLA_FCPORT_FOUND = 2"
definition MAX_FIBRE_DEVICES_LOOP :: nat where "MAX_FIBRE_DEVICES_LOOP = 128"
definition MBS_COMMAND_PARAMETER_ERROR :: u16 where "MBS_COMMAND_PARAMETER_ERROR = 0x4006"
definition FC_RPORT_ROLE_UNKNOWN :: nat where "FC_RPORT_ROLE_UNKNOWN = 0"
definition FC_RPORT_ROLE_FCP_TARGET :: nat where "FC_RPORT_ROLE_FCP_TARGET = 1"
definition FC_RPORT_ROLE_FCP_INITIATOR :: nat where "FC_RPORT_ROLE_FCP_INITIATOR = 2"

type_synonym port_id = "u8 \<times> u8 \<times> u8"

record fc_dev =
  dv_loop_id :: u16
  dv_id :: port_id
  dv_node_name :: "u8 list"
  dv_port_name :: "u8 list"
  dv_fabric_name :: "u8 list"
  dv_fp_speed :: u16
  dv_fc4_type :: u8
  dv_scan_state :: nat
  dv_fcp_prio :: u8
  dv_role :: nat

record prio_entry =
  pe_flags :: u16
  pe_tag :: u8
  pe_src_pid :: u32
  pe_dst_pid :: u32
  pe_src_wwpn :: "u8 list"
  pe_dst_wwpn :: "u8 list"

text \<open>
  \<open>de_others\<close> is what interrupts and other contexts do while a command waits, \<open>de_alloc\<close> the
  allocation of the n-th remote port, \<open>de_rport\<close> the transport's answer to a new one. The
  module's parameters and the identifiers of the physical and the virtual ports follow; the two
  \<open>de_fx\<close> operations are those of the ISPFX00. \<open>dc_ha_timer\<close> is the \<open>loop_down_timer\<close> of
  \<open>qla_hw_data\<close>, \<open>dc_loop_down_timer\<close> the port's.
\<close>

record disc =
  dc_ct :: ct_world
  devs :: "nat \<Rightarrow> fc_dev"
  dc_fcports :: "nat list"
  dc_fresh :: nat
  loop_id_map :: "nat \<Rightarrow> bool"
  min_external_loopid :: u16
  max_loop_id :: u16
  dc_loop_state :: nat
  dc_loop_down_timer :: nat
  dc_topology :: u16
  dc_device_flags :: u32
  dc_login_work :: "nat list"
  dc_ha_timer :: nat
  dc_switch_cap :: u16
  dc_fabric_name :: "u8 list"
  dc_retry_count :: u8

record disc_env =
  de_ct :: ct_env
  de_hba :: hba_info
  de_others :: "disc \<Rightarrow> disc"
  de_kenv :: kenv
  de_alloc :: "nat \<Rightarrow> bool"
  de_swl :: bool
  de_post :: bool
  de_rport :: "nat \<Rightarrow> bool"
  de_prio :: "prio_entry list option"
  de_gid_list :: u64
  de_base_id :: port_id
  de_vp_ids :: "port_id list"
  ql2xfdmienable :: bool
  ql2xiidmaenable :: bool
  ql2xgffidenable :: bool
  ql2xasynclogin :: bool
  ql2xplogiabsentdevice :: bool
  ql2xmaxqueues :: int
  de_hz :: nat
  de_fx_ready :: "disc \<Rightarrow> (int \<times> disc) option"
  de_fx_devices :: "disc \<Rightarrow> disc option"

definition d_mbx :: "disc \<Rightarrow> mbx_world" where "d_mbx d = ct_mbx (dc_ct d)"

definition d_dt :: "disc \<Rightarrow> u32" where "d_dt d = mw_dt (d_mbx d)"

definition upd_d :: "(mbx_world \<Rightarrow> mbx_world) \<Rightarrow> disc \<Rightarrow> disc" where
  "upd_d f d = d\<lparr>dc_ct := upd_ct f (dc_ct d)\<rparr>"

definition upd_h :: "(host \<Rightarrow> host) \<Rightarrow> disc \<Rightarrow> disc" where
  "upd_h f = upd_d (\<lambda>w. w\<lparr>mw_host := f (mw_host w)\<rparr>)"

definition d_set :: "nat \<Rightarrow> disc \<Rightarrow> disc" where "d_set b = upd_d (mbx_dpc b True)"
definition d_clear :: "nat \<Rightarrow> disc \<Rightarrow> disc" where "d_clear b = upd_d (mbx_dpc b False)"
definition d_test :: "nat \<Rightarrow> disc \<Rightarrow> bool" where "d_test b d = test_dpc b (d_mbx d)"

definition fc_of :: "disc \<Rightarrow> nat \<Rightarrow> fc_state" where "fc_of d f = fc_states (mw_host (d_mbx d)) f"

definition upd_st :: "nat \<Rightarrow> (fc_state \<Rightarrow> fc_state) \<Rightarrow> disc \<Rightarrow> disc" where
  "upd_st f g = upd_h (upd_fc f g)"

definition upd_dev :: "nat \<Rightarrow> (fc_dev \<Rightarrow> fc_dev) \<Rightarrow> disc \<Rightarrow> disc" where
  "upd_dev f g d = d\<lparr>devs := (devs d)(f := g (devs d f))\<rparr>"

definition fc_flag :: "u32 \<Rightarrow> nat \<Rightarrow> disc \<Rightarrow> bool" where
  "fc_flag b f d \<longleftrightarrow> fc_flags (fc_of d f) AND b \<noteq> 0"

definition set_flags :: "u32 \<Rightarrow> nat \<Rightarrow> disc \<Rightarrow> disc" where
  "set_flags b f = upd_st f (\<lambda>x. x\<lparr>fc_flags := fc_flags x OR b\<rparr>)"

definition clear_flags :: "u32 \<Rightarrow> nat \<Rightarrow> disc \<Rightarrow> disc" where
  "clear_flags b f = upd_st f (\<lambda>x. x\<lparr>fc_flags := fc_flags x AND NOT b\<rparr>)"

definition online :: "nat \<Rightarrow> disc \<Rightarrow> bool" where
  "online f d \<longleftrightarrow> fcport_state (fc_of d f) = FCS_ONLINE"

definition LOOP_TRANSITION :: "disc \<Rightarrow> bool" where
  "LOOP_TRANSITION d \<longleftrightarrow> d_test ISP_ABORT_NEEDED d \<or> d_test LOOP_RESYNC_NEEDED d \<or> dc_loop_state d = LOOP_DOWN"

text \<open>A mailbox command, or a request of the servers, and what happened meanwhile.\<close>

definition ask_mbx :: "disc_env \<Rightarrow> (mbx_world \<Rightarrow> ('a \<times> mbx_world) option) \<Rightarrow> disc \<Rightarrow> ('a \<times> disc) option" where
  "ask_mbx e f d = map_option (\<lambda>(r, w). (r, de_others e (upd_d (\<lambda>_. w) d))) (f (d_mbx d))"

definition ask_ct :: "disc_env \<Rightarrow> (ct_world \<Rightarrow> ('a \<times> ct_world) option) \<Rightarrow> disc \<Rightarrow> ('a \<times> disc) option" where
  "ask_ct e f d = map_option (\<lambda>(r, w). (r, de_others e (d\<lparr>dc_ct := w\<rparr>))) (f (dc_ct d))"

definition pair_up :: "('a \<times> 'b \<times> 'w) option \<Rightarrow> (('a \<times> 'b) \<times> 'w) option" where
  "pair_up = map_option (\<lambda>(a, b, w). ((a, b), w))"

abbreviation "d_issue e \<equiv> ce_issue (de_ct e)"
abbreviation "d_junk e \<equiv> ce_junk (de_ct e)"
abbreviation "d_pool e \<equiv> ce_pool (de_ct e)"

section \<open>Loop identifiers\<close>

definition qla2x00_set_reserved_loop_ids :: "disc \<Rightarrow> disc" where
  "qla2x00_set_reserved_loop_ids d =
     (if IS_FWI2_CAPABLE (d_dt d) then d
      else d\<lparr>loop_id_map := (\<lambda>i. i < SNS_FIRST_LOOP_ID \<or> i = MANAGEMENT_SERVER \<or> i = BROADCAST \<or> loop_id_map d i)\<rparr>)"

definition qla2x00_is_reserved_id :: "u16 \<Rightarrow> disc \<Rightarrow> bool" where
  "qla2x00_is_reserved_id loop d \<longleftrightarrow>
     (if IS_FWI2_CAPABLE (d_dt d) then loop > NPH_LAST_HANDLE
      else loop > max_loop_id d \<and> unat loop < SNS_FIRST_LOOP_ID \<or> unat loop = MANAGEMENT_SERVER \<or> unat loop = BROADCAST)"

definition qla2x00_clear_loop_id :: "nat \<Rightarrow> disc \<Rightarrow> disc" where
  "qla2x00_clear_loop_id f d =
     (let id = dv_loop_id (devs d f)
      in if id = FC_NO_LOOP_ID \<or> qla2x00_is_reserved_id id d then d
         else upd_dev f (\<lambda>x. x\<lparr>dv_loop_id := FC_NO_LOOP_ID\<rparr>) (d\<lparr>loop_id_map := (loop_id_map d)(unat id := False)\<rparr>))"

text \<open>\<open>LOOPID_MAP_SIZE\<close> is \<open>max_fibre_devices\<close>.\<close>

definition qla2x00_find_new_loop_id :: "nat \<Rightarrow> disc \<Rightarrow> int \<times> disc" where
  "qla2x00_find_new_loop_id f d =
     (let n = unat (max_fibre_devices (dc_ct d));
          id = (of_nat (find_first_zero_bit (loop_id_map d) n) :: u16)
      in if unat id \<ge> n \<or> qla2x00_is_reserved_id id d
         then (QLA_FUNCTION_FAILED, upd_dev f (\<lambda>x. x\<lparr>dv_loop_id := FC_NO_LOOP_ID\<rparr>) d)
         else (QLA_SUCCESS, upd_dev f (\<lambda>x. x\<lparr>dv_loop_id := id\<rparr>) (d\<lparr>loop_id_map := (loop_id_map d)(unat id := True)\<rparr>)))"

section \<open>Remote ports of the transport\<close>

definition qla2x00_rport_del :: "nat \<Rightarrow> disc \<Rightarrow> disc" where
  "qla2x00_rport_del f = upd_st f (\<lambda>x. let rport = drport x \<or> has_rport x
     in x\<lparr>drport := False, rport_deleted := (rport \<or> rport_deleted x)\<rparr>)"

definition blank_dev :: fc_dev where
  "blank_dev = \<lparr>dv_loop_id = 0, dv_id = (0, 0, 0), dv_node_name = replicate 8 0, dv_port_name = replicate 8 0,
     dv_fabric_name = replicate 8 0, dv_fp_speed = 0, dv_fc4_type = 0, dv_scan_state = 0, dv_fcp_prio = 0, dv_role = 0\<rparr>"

definition blank_fc :: "u16 \<Rightarrow> fc_state" where
  "blank_fc vp = \<lparr>fcport_state = 0, fc_vp_idx = vp, has_rport = False, drport = False, rport_deleted = False,
     login_retry = 0, port_type = FCT_UNKNOWN, fc_flags = 0, supported_classes = 0, retry_delay_timestamp = 0\<rparr>"

definition zero_fcport :: "nat \<Rightarrow> disc \<Rightarrow> disc" where
  "zero_fcport f d = upd_dev f (\<lambda>_. blank_dev) (upd_st f (\<lambda>_. blank_fc (vp_idx (mw_host (d_mbx d)))) d)"

definition qla2x00_alloc_fcport :: "disc_env \<Rightarrow> disc \<Rightarrow> nat option \<times> disc" where
  "qla2x00_alloc_fcport e d =
     (let f = dc_fresh d
      in if \<not> de_alloc e f then (None, d)
         else (Some f, upd_dev f (\<lambda>x. x\<lparr>dv_loop_id := FC_NO_LOOP_ID\<rparr>)
                (upd_st f (\<lambda>x. x\<lparr>fcport_state := FCS_UNCONFIGURED\<rparr>) (zero_fcport f (d\<lparr>dc_fresh := Suc f\<rparr>)))))"

definition qla2x00_reg_remote_port :: "disc_env \<Rightarrow> nat \<Rightarrow> disc \<Rightarrow> disc" where
  "qla2x00_reg_remote_port e f d =
     (let d = qla2x00_rport_del f d
      in if \<not> de_rport e f then upd_st f (\<lambda>x. x\<lparr>has_rport := False\<rparr>) d
         else let t = port_type (fc_of d f)
              in upd_dev f (\<lambda>x. x\<lparr>dv_role := (if t = FCT_INITIATOR then FC_RPORT_ROLE_FCP_INITIATOR
                    else if t = FCT_TARGET then FC_RPORT_ROLE_FCP_TARGET else FC_RPORT_ROLE_UNKNOWN)\<rparr>)
                   (upd_st f (\<lambda>x. x\<lparr>has_rport := True, rport_deleted := False\<rparr>) d))"

definition lose :: "nat \<Rightarrow> bool \<Rightarrow> disc \<Rightarrow> disc" where
  "lose f do_login d = upd_h (qla2x00_mark_device_lost (vp_idx (mw_host (d_mbx d))) f do_login False) d"

section \<open>Speed and priority\<close>

definition qla2x00_iidma_fcport :: "disc_env \<Rightarrow> nat \<Rightarrow> disc \<Rightarrow> disc option" where
  "qla2x00_iidma_fcport e f d =
     (let v = devs d f
      in if \<not> IS_IIDMA_CAPABLE (d_dt d) \<or> \<not> online f d \<or> dv_fp_speed v = PORT_SPEED_UNKNOWN
            \<or> dv_fp_speed v > link_data_rate (mw_fw (d_mbx d)) then Some d
         else map_option snd (ask_mbx e (\<lambda>w. pair_up (qla2x00_set_idma_speed (d_issue e) (d_junk e) (dv_loop_id v) (dv_fp_speed v) w)) d))"

definition b24 :: "port_id \<Rightarrow> u32" where
  "b24 = (\<lambda>(a, b, c). push_bit 16 (ucast a) OR push_bit 8 (ucast b) OR ucast c)"

definition prio_pid :: "u16 \<Rightarrow> u32 \<Rightarrow> port_id \<Rightarrow> prio_entry \<Rightarrow> bool" where
  "prio_pid b p i pe \<longleftrightarrow> pe_flags pe AND b \<noteq> 0 \<and> (p AND 0xFFFFFF = 0xFFFFFF \<or> p AND 0xFFFFFF = b24 i AND 0xFFFFFF)"

definition prio_wwn :: "u16 \<Rightarrow> u8 list \<Rightarrow> u8 list \<Rightarrow> prio_entry \<Rightarrow> bool" where
  "prio_wwn b n name pe \<longleftrightarrow> pe_flags pe AND b \<noteq> 0 \<and> (n = replicate 8 0xFF \<or> n = name)"

definition prio_match :: "disc \<Rightarrow> nat \<Rightarrow> prio_entry \<Rightarrow> bool" where
  "prio_match d f pe \<longleftrightarrow> pe_flags pe AND 0x1 \<noteq> 0
     \<and> (prio_pid 0x4 (pe_src_pid pe) (vha_d_id (mw_host (d_mbx d))) pe \<and> prio_pid 0x8 (pe_dst_pid pe) (dv_id (devs d f)) pe
        \<or> prio_wwn 0x40 (pe_src_wwpn pe) (vha_port_name (mw_host (d_mbx d))) pe
          \<and> prio_wwn 0x80 (pe_dst_wwpn pe) (dv_port_name (devs d f)) pe)"

definition qla24xx_get_fcp_prio :: "disc_env \<Rightarrow> nat \<Rightarrow> disc \<Rightarrow> int" where
  "qla24xx_get_fcp_prio e f d =
     (case de_prio e of
        None \<Rightarrow> -1
      | Some es \<Rightarrow> if \<not> fcp_prio_enabled (mw_fw (d_mbx d)) then -1
          else (case find (prio_match d f) es of
                  None \<Rightarrow> -1
                | Some pe \<Rightarrow> if pe_flags pe AND 0x2 \<noteq> 0 then uint (pe_tag pe) else -1))"

definition qla24xx_update_fcport_fcp_prio :: "disc_env \<Rightarrow> nat \<Rightarrow> disc \<Rightarrow> (int \<times> disc) option" where
  "qla24xx_update_fcport_fcp_prio e f d =
     (let v = devs d f; prio = qla24xx_get_fcp_prio e f d
      in if port_type (fc_of d f) \<noteq> FCT_TARGET \<or> dv_loop_id v = FC_NO_LOOP_ID \<or> prio < 0
         then Some (QLA_FUNCTION_FAILED, d)
         else let note = upd_dev f (\<lambda>x. x\<lparr>dv_fcp_prio := of_int prio AND 0xf\<rparr>)
              in if IS_P3P_TYPE (d_dt d) then Some (QLA_SUCCESS, note d)
                 else do {
                   ((rv, mb), d) \<leftarrow> ask_mbx e (\<lambda>w. pair_up (qla24xx_set_fcp_prio (d_issue e) (d_junk e) (dv_loop_id v) (of_int prio) w)) d;
                   Some (rv, if rv = QLA_SUCCESS then note d else d) })"

fun update_prios :: "disc_env \<Rightarrow> nat list \<Rightarrow> int \<Rightarrow> disc \<Rightarrow> (int \<times> disc) option" where
  "update_prios e [] rv d = Some (rv, d)"
| "update_prios e (f # fs) rv d = do { (rv, d) \<leftarrow> qla24xx_update_fcport_fcp_prio e f d; update_prios e fs rv d }"

definition qla24xx_update_all_fcp_prio :: "disc_env \<Rightarrow> disc \<Rightarrow> (int \<times> disc) option" where
  "qla24xx_update_all_fcp_prio e d = update_prios e (dc_fcports d) QLA_FUNCTION_FAILED d"

definition qla2x00_update_fcport :: "disc_env \<Rightarrow> nat \<Rightarrow> disc \<Rightarrow> disc option" where
  "qla2x00_update_fcport e f d =
     (let vp = vp_idx (mw_host (d_mbx d));
          d = upd_st f (\<lambda>x. x\<lparr>fc_vp_idx := vp\<rparr>) d
      in if IS_QLAFX00 (d_dt d) then Some (qla2x00_reg_remote_port e f (upd_h (qla2x00_set_fcport_state f FCS_ONLINE) d))
         else do {
           let d = upd_st f (\<lambda>x. x\<lparr>login_retry := 0, fc_flags := fc_flags x AND NOT (FCF_LOGIN_NEEDED OR FCF_ASYNC_SENT)\<rparr>) d;
           let d = upd_h (qla2x00_set_fcport_state f FCS_ONLINE) d;
           d \<leftarrow> qla2x00_iidma_fcport e f d;
           (rv, d) \<leftarrow> qla24xx_update_fcport_fcp_prio e f d;
           Some (qla2x00_reg_remote_port e f d) })"

section \<open>Logins\<close>

definition fc_port_of :: "nat \<Rightarrow> disc \<Rightarrow> fc_port" where
  "fc_port_of f d = (case dv_id (devs d f) of (a, b, c) \<Rightarrow>
     \<lparr>fc_id = f, loop_id = dv_loop_id (devs d f), d_id_domain = a, d_id_area = b, d_id_al_pa = c\<rparr>)"

definition fc_rport_of :: "nat \<Rightarrow> disc \<Rightarrow> fc_rport" where
  "fc_rport_of f d = (case dv_id (devs d f) of (a, b, c) \<Rightarrow>
     \<lparr>fc_id = f, loop_id = dv_loop_id (devs d f), d_id_domain = a, d_id_area = b, d_id_al_pa = c,
      rp_node_name = dv_node_name (devs d f), rp_port_name = dv_port_name (devs d f),
      rp_port_type = port_type (fc_of d f), rp_classes = supported_classes (fc_of d f)\<rparr>)"

definition get_pdb :: "disc_env \<Rightarrow> nat \<Rightarrow> u8 \<Rightarrow> disc \<Rightarrow> (int \<times> disc) option" where
  "get_pdb e f opt d = do {
     ((rv, rp), d) \<leftarrow> ask_mbx e (\<lambda>w. pair_up (qla2x00_get_port_database (d_issue e) (d_junk e) (d_pool e) (fc_rport_of f d) opt w)) d;
     Some (rv, if rv = QLA_SUCCESS
       then upd_st f (\<lambda>x. x\<lparr>port_type := rp_port_type rp, supported_classes := rp_classes rp\<rparr>)
              (upd_dev f (\<lambda>x. x\<lparr>dv_node_name := rp_node_name rp, dv_port_name := rp_port_name rp,
                 dv_id := (d_id_domain rp, d_id_area rp, d_id_al_pa rp)\<rparr>) d)
       else d) }"

definition dev_login :: "disc_env \<Rightarrow> nat \<Rightarrow> u8 \<Rightarrow> disc \<Rightarrow> ((int \<times> u16 list) \<times> disc) option" where
  "dev_login e f opt d =
     ask_mbx e (\<lambda>w. pair_up (isp_fabric_login (de_ct e) (dv_loop_id (devs d f)) (fc_port_of f d) opt w)) d"

definition dev_logout :: "disc_env \<Rightarrow> nat \<Rightarrow> disc \<Rightarrow> disc option" where
  "dev_logout e f d = map_option snd (ask_mbx e (\<lambda>w.
     if IS_FWI2_CAPABLE (mw_dt w)
     then qla24xx_fabric_logout (d_issue e) (d_junk e) (d_pool e) (ql2xmaxqueues e) (dv_loop_id (devs d f)) (fc_port_of f d) w
     else qla2x00_fabric_logout (d_issue e) (d_junk e) (dv_loop_id (devs d f)) w) d)"

text \<open>What a completed login says of the remote port.\<close>

definition note_login :: "u16 list \<Rightarrow> fc_state \<Rightarrow> fc_state" where
  "note_login mb x =
     (let x = (if mb ! 1 AND BIT 0 \<noteq> 0 then x\<lparr>port_type := FCT_INITIATOR\<rparr>
               else let x = x\<lparr>port_type := FCT_TARGET\<rparr>
                    in if mb ! 1 AND BIT 1 \<noteq> 0 then x\<lparr>fc_flags := fc_flags x OR FCF_FCP2_DEVICE\<rparr> else x);
          x = (if mb ! 10 AND BIT 0 \<noteq> 0 then x\<lparr>supported_classes := supported_classes x OR FC_COS_CLASS2\<rparr> else x)
      in if mb ! 10 AND BIT 1 \<noteq> 0 then x\<lparr>supported_classes := supported_classes x OR FC_COS_CLASS3\<rparr> else x)"

text \<open>The result, \<open>next_loopid\<close>, and the state; \<open>tmp\<close> is the identifier that was in use, if one was.\<close>

fun qla2x00_fabric_login ::
    "disc_env \<Rightarrow> nat \<Rightarrow> u16 option \<Rightarrow> nat \<Rightarrow> u16 \<Rightarrow> disc \<Rightarrow> ((int \<times> u16) \<times> disc) option" where
  "qla2x00_fabric_login e 0 tmp f nxt d = None"
| "qla2x00_fabric_login e (Suc N) tmp f nxt d = do {
     ((rv, mb), d) \<leftarrow> dev_login e f (BIT 0) d;
     let id = dv_loop_id (devs d f);
     if rv \<noteq> QLA_SUCCESS then Some ((rv, nxt), d)
     else if mb ! 0 = MBS_PORT_ID_USED
     then qla2x00_fabric_login e N (Some id) f nxt (upd_dev f (\<lambda>x. x\<lparr>dv_loop_id := mb ! 1\<rparr>) d)
     else if mb ! 0 = MBS_COMMAND_COMPLETE
     then Some ((QLA_SUCCESS, case tmp of Some t \<Rightarrow> t | None \<Rightarrow> id + 1), upd_st f (note_login mb) d)
     else if mb ! 0 = MBS_LOOP_ID_USED
     then (case qla2x00_find_new_loop_id f d of (rv, d) \<Rightarrow>
             if rv \<noteq> QLA_SUCCESS then Some ((rv, nxt), d) else qla2x00_fabric_login e N tmp f nxt d)
     else if mb ! 0 = MBS_COMMAND_ERROR
     then do { d \<leftarrow> dev_logout e f d; Some ((1, id), lose f True d) }
     else do {
       d \<leftarrow> dev_logout e f d;
       Some ((3, id), upd_st f (\<lambda>x. x\<lparr>login_retry := 0\<rparr>) (qla2x00_clear_loop_id f d)) } }"

definition IS_ALOGIO_CAPABLE :: "u32 \<Rightarrow> bool" where
  "IS_ALOGIO_CAPABLE dt \<longleftrightarrow> IS_QLA23XX dt \<or> IS_FWI2_CAPABLE dt"

text \<open>\<open>de_post\<close>: the work of an asynchronous login could be posted.\<close>

definition sync_login :: "disc_env \<Rightarrow> nat \<Rightarrow> nat \<Rightarrow> u16 \<Rightarrow> disc \<Rightarrow> ((int \<times> u16) \<times> disc) option" where
  "sync_login e N f nxt d = do {
     ((rv, nxt), d) \<leftarrow> qla2x00_fabric_login e N None f nxt (clear_flags FCF_ASYNC_SENT f d);
     if rv = QLA_SUCCESS
     then do {
       (rv, d) \<leftarrow> get_pdb e f (if fc_flag FCF_FCP2_DEVICE f d then BIT 1 else 0) d;
       if rv \<noteq> QLA_SUCCESS
       then do { d \<leftarrow> dev_logout e f d; Some ((rv, nxt), lose f True d) }
       else do { d \<leftarrow> qla2x00_update_fcport e f d; Some ((rv, nxt), d) } }
     else Some ((rv, nxt), lose f True d) }"

definition qla2x00_fabric_dev_login ::
    "disc_env \<Rightarrow> nat \<Rightarrow> nat \<Rightarrow> u16 \<Rightarrow> disc \<Rightarrow> ((int \<times> u16) \<times> disc) option" where
  "qla2x00_fabric_dev_login e N f nxt d =
     (if ql2xasynclogin e \<and> IS_ALOGIO_CAPABLE (d_dt d)
      then if fc_flag FCF_ASYNC_SENT f d then Some ((QLA_SUCCESS, nxt), d)
           else let d = set_flags FCF_ASYNC_SENT f d
                in if de_post e then Some ((QLA_SUCCESS, nxt), d\<lparr>dc_login_work := dc_login_work d @ [f]\<rparr>)
                   else sync_login e N f nxt d
      else sync_login e N f nxt d)"

definition qla2x00_local_device_login :: "disc_env \<Rightarrow> nat \<Rightarrow> disc \<Rightarrow> (int \<times> disc) option" where
  "qla2x00_local_device_login e f d = do {
     ((rv, mb), d) \<leftarrow> ask_mbx e (\<lambda>w. pair_up (qla2x00_login_local_device (d_issue e) (d_junk e) (d_pool e) (fc_port_of f d)
         (replicate 32 0) (BIT 0) w)) d;
     Some (if rv = QLA_SUCCESS
           then if mb ! 0 = MBS_COMMAND_ERROR then 1 else if mb ! 0 = MBS_COMMAND_PARAMETER_ERROR then 3 else rv
           else rv, d) }"


section \<open>The local loop\<close>

definition qla2x00_gid_list_size :: "disc \<Rightarrow> nat" where
  "qla2x00_gid_list_size d =
     (if IS_QLAFX00 (d_dt d) then 4 * 32 else 8 * unat (max_fibre_devices (dc_ct d)))"

definition gid_list_info_size :: "u32 \<Rightarrow> nat" where
  "gid_list_info_size dt =
     (if IS_QLA2100 dt \<or> IS_QLA2200 dt then 4 else if IS_FWI2_CAPABLE dt then 8 else 6)"

text \<open>An entry of the firmware's list: the address of the port and its identifier.\<close>

definition id_list_entry :: "disc_env \<Rightarrow> nat \<Rightarrow> disc \<Rightarrow> port_id \<times> u16" where
  "id_list_entry e i d =
     (let dt = d_dt d; off = i * gid_list_info_size dt; b = (\<lambda>k. get8 0 (off + k) (mw_mem (d_mbx d) (de_gid_list e)))
      in ((b 2, b 1, b 0), if IS_QLA2100 dt \<or> IS_QLA2200 dt then ucast (b 3)
            else push_bit 8 (ucast (b 5)) OR ucast (b 4)))"

definition skip_local :: "disc \<Rightarrow> port_id \<times> u16 \<Rightarrow> bool" where
  "skip_local d = (\<lambda>((domain, area, al_pa), loop).
     domain AND 0xf0 = 0xf0
     \<or> area \<noteq> 0 \<and> domain \<noteq> 0 \<and> (area \<noteq> fst (snd (vha_d_id (mw_host (d_mbx d)))) \<or> domain \<noteq> fst (vha_d_id (mw_host (d_mbx d))))
     \<or> loop > LAST_LOCAL_LOOP_ID)"

definition known_port :: "u8 list \<Rightarrow> disc \<Rightarrow> nat option" where
  "known_port name d = find (\<lambda>f. dv_port_name (devs d f) = name) (dc_fcports d)"

text \<open>A port of the loop that answers: the known one by its name takes over what \<open>new\<close> holds.\<close>

definition take_local :: "nat \<Rightarrow> nat \<Rightarrow> disc \<Rightarrow> disc" where
  "take_local f new d =
     upd_st f (\<lambda>x. x\<lparr>fc_flags := fc_flags x AND NOT FCF_FABRIC_DEVICE, port_type := port_type (fc_of d new)\<rparr>)
       (upd_dev f (\<lambda>x. x\<lparr>dv_loop_id := dv_loop_id (devs d new), dv_id := dv_id (devs d new),
          dv_node_name := dv_node_name (devs d new)\<rparr>) d)"

definition settle_local :: "disc_env \<Rightarrow> nat \<Rightarrow> disc \<Rightarrow> disc option" where
  "settle_local e f d = (let speed = link_data_rate (mw_fw (d_mbx d))
     in qla2x00_update_fcport e f (upd_dev f (\<lambda>x. x\<lparr>dv_fp_speed := speed\<rparr>) d))"

fun local_ports :: "disc_env \<Rightarrow> nat list \<Rightarrow> nat \<Rightarrow> disc \<Rightarrow> (int \<times> disc) option" where
  "local_ports e [] new d = Some (QLA_SUCCESS, d)"
| "local_ports e (i # is) new d =
     (let (pid, loop) = id_list_entry e i d
      in if skip_local d (pid, loop) then local_ports e is new d
         else do {
           let d = upd_dev new (\<lambda>x. x\<lparr>dv_id := pid, dv_loop_id := loop\<rparr>) (zero_fcport new d);
           (rv, d) \<leftarrow> get_pdb e new 0 d;
           if rv \<noteq> QLA_SUCCESS then local_ports e is new (d_set LOOP_RESYNC_NEEDED d)
           else (case known_port (dv_port_name (devs d new)) d of
               Some f \<Rightarrow> do { d \<leftarrow> settle_local e f (take_local f new d); local_ports e is new d }
             | None \<Rightarrow>
                 (case qla2x00_alloc_fcport e (d\<lparr>dc_fcports := dc_fcports d @ [new]\<rparr>) of
                    (None, d) \<Rightarrow> Some (QLA_MEMORY_ALLOC_FAILED, d)
                  | (Some n, d) \<Rightarrow> do { d \<leftarrow> settle_local e new d; local_ports e is n d })) })"

definition lose_local :: "nat \<Rightarrow> disc \<Rightarrow> disc" where
  "lose_local f d =
     (if online f d \<and> port_type (fc_of d f) \<noteq> FCT_BROADCAST \<and> \<not> fc_flag FCF_FABRIC_DEVICE f d
      then upd_h (qla2x00_set_fcport_state f FCS_DEVICE_LOST) d else d)"

definition qla2x00_configure_local_loop :: "disc_env \<Rightarrow> disc \<Rightarrow> (int \<times> disc) option" where
  "qla2x00_configure_local_loop e d = do {
     let d = upd_d (put_mem (de_gid_list e) (replicate (qla2x00_gid_list_size d div 4) 0)) d;
     ((rv, entries), d) \<leftarrow> ask_mbx e (\<lambda>w. pair_up (qla2x00_get_id_list (d_issue e) (d_junk e) (Some (de_gid_list e)) w)) d;
     if rv \<noteq> QLA_SUCCESS then Some (rv, d)
     else (case qla2x00_alloc_fcport e d of
         (None, d) \<Rightarrow> Some (QLA_MEMORY_ALLOC_FAILED, d)
       | (Some new, d) \<Rightarrow> local_ports e [0..<unat (the entries)] new (fold lose_local (dc_fcports d) d)) }"

section \<open>The ports of the fabric\<close>

text \<open>
  The list of the name server, if it was obtained, the next of its entries, whether the first and
  the last have been taken, the address the list closes with, the fresh remote port and the new ones.
\<close>

record scan =
  sc_swl :: "sw_info list option"
  sc_idx :: nat
  sc_first :: bool
  sc_last :: bool
  sc_wrap :: port_id
  sc_cur :: nat
  sc_new :: "nat list"

definition sw_pid :: "sw_info \<Rightarrow> port_id" where "sw_pid s = (sw_domain s, sw_area s, sw_al_pa s)"

definition no_sw_info :: sw_info where
  "no_sw_info = \<lparr>sw_domain = 0, sw_area = 0, sw_al_pa = 0, sw_rsvd_1 = 0, sw_node_name = replicate 8 0,
     sw_port_name = replicate 8 0, sw_fabric_port_name = replicate 8 0, sw_fp_speed = 0, sw_fc4_type = 0\<rparr>"

definition fabric_names :: "disc_env \<Rightarrow> sw_info list \<Rightarrow> disc \<Rightarrow> (sw_info list \<times> disc) option" where
  "fabric_names e l d =
     (if ql2xiidmaenable e
      then do {
        ((rv, l), d) \<leftarrow> ask_ct e (\<lambda>w. pair_up (qla2x00_gfpn_id (de_ct e) l w)) d;
        if rv = QLA_SUCCESS
        then do { ((rv, l), d) \<leftarrow> ask_ct e (\<lambda>w. pair_up (qla2x00_gpsc (de_ct e) l w)) d; Some (l, d) }
        else Some (l, d) }
      else Some (l, d))"

text \<open>\<open>de_swl\<close>: the list is there or could be allocated.\<close>

definition scan_list :: "disc_env \<Rightarrow> disc \<Rightarrow> (sw_info list option \<times> disc) option" where
  "scan_list e d =
     (if \<not> de_swl e then Some (None, d)
      else do {
        let l = replicate (unat (max_fibre_devices (dc_ct d))) no_sw_info;
        ((rv, l), d) \<leftarrow> ask_ct e (\<lambda>w. pair_up (qla2x00_gid_pt (de_ct e) l w)) d;
        if rv \<noteq> QLA_SUCCESS then Some (None, d)
        else do {
          ((rv, l), d) \<leftarrow> ask_ct e (\<lambda>w. pair_up (qla2x00_gpn_id (de_ct e) l w)) d;
          if rv \<noteq> QLA_SUCCESS then Some (None, d)
          else do {
            ((rv, l), d) \<leftarrow> ask_ct e (\<lambda>w. pair_up (qla2x00_gnn_id (de_ct e) l w)) d;
            if rv \<noteq> QLA_SUCCESS then Some (None, d)
            else do {
              (l, d) \<leftarrow> fabric_names e l d;
              (l, d) \<leftarrow> ask_ct e (qla2x00_gff_id (de_ct e) l) d;
              Some (Some l, d) } } } })"

definition take_entry :: "sw_info \<Rightarrow> fc_dev \<Rightarrow> fc_dev" where
  "take_entry s v = v\<lparr>dv_id := sw_pid s, dv_node_name := sw_node_name s, dv_port_name := sw_port_name s,
     dv_fabric_name := sw_fabric_port_name s, dv_fp_speed := sw_fp_speed s, dv_fc4_type := sw_fc4_type s\<rparr>"

definition as_entry :: "fc_dev \<Rightarrow> sw_info" where
  "as_entry v = (case dv_id v of (a, b, c) \<Rightarrow>
     \<lparr>sw_domain = a, sw_area = b, sw_al_pa = c, sw_rsvd_1 = 0, sw_node_name = dv_node_name v,
      sw_port_name = dv_port_name v, sw_fabric_port_name = dv_fabric_name v, sw_fp_speed = dv_fp_speed v,
      sw_fc4_type = dv_fc4_type v\<rparr>)"

text \<open>The next port into the fresh one: from the list, or asked for. False: the switch did not tell.\<close>

definition scan_read :: "disc_env \<Rightarrow> scan \<Rightarrow> disc \<Rightarrow> ((bool \<times> scan) \<times> disc) option" where
  "scan_read e s d =
     (let cur = sc_cur s
      in case sc_swl s of
           Some l \<Rightarrow>
             if sc_last s then Some ((True, s\<lparr>sc_wrap := dv_id (devs d cur)\<rparr>), d)
             else let x = l ! sc_idx s
                  in Some ((True, s\<lparr>sc_last := (sw_rsvd_1 x \<noteq> 0), sc_idx := Suc (sc_idx s)\<rparr>), upd_dev cur (take_entry x) d)
         | None \<Rightarrow> do {
             ((rv, x), d) \<leftarrow> ask_ct e (\<lambda>w. pair_up (qla2x00_ga_nxt (de_ct e) (as_entry (devs d cur)) w)) d;
             Some (if rv \<noteq> QLA_SUCCESS then ((False, s\<lparr>sc_new := []\<rparr>), d)
                   else ((True, s), upd_dev cur (take_entry x) d)) })"

text \<open>The first port is remembered; True: the list has come round.\<close>

definition scan_wrapped :: "scan \<Rightarrow> disc \<Rightarrow> bool \<times> scan" where
  "scan_wrapped s d =
     (if sc_first s then (False, s\<lparr>sc_wrap := dv_id (devs d (sc_cur s)), sc_first := False\<rparr>)
      else (dv_id (devs d (sc_cur s)) = sc_wrap s, s))"

definition skip_fabric :: "disc_env \<Rightarrow> disc \<Rightarrow> fc_dev \<Rightarrow> bool" where
  "skip_fabric e d v =
     (let (domain, area, al_pa) = dv_id v; (own_domain, own_area, own_al_pa) = vha_d_id (mw_host (d_mbx d))
      in dv_id v = de_base_id e \<or> dv_id v \<in> set (de_vp_ids e)
         \<or> domain = own_domain \<and> area = own_area \<and> dc_topology d = ISP_CFG_FL
         \<or> domain AND 0xf0 = 0xf0
         \<or> ql2xgffidenable e \<and> dv_fc4_type v \<noteq> FC4_TYPE_FCP_SCSI \<and> dv_fc4_type v \<noteq> FC4_TYPE_UNKNOWN)"

text \<open>A target that is no initiator, no broadcast port and keeps no state over a login.\<close>

definition logs_out :: "nat \<Rightarrow> disc \<Rightarrow> bool" where
  "logs_out f d \<longleftrightarrow> dv_loop_id (devs d f) \<noteq> FC_NO_LOOP_ID \<and> \<not> fc_flag FCF_FCP2_DEVICE f d
     \<and> port_type (fc_of d f) \<noteq> FCT_INITIATOR \<and> port_type (fc_of d f) \<noteq> FCT_BROADCAST"

definition logout_clear :: "disc_env \<Rightarrow> nat \<Rightarrow> disc \<Rightarrow> disc option" where
  "logout_clear e f d = map_option (qla2x00_clear_loop_id f) (dev_logout e f d)"

definition scan_known :: "disc_env \<Rightarrow> nat \<Rightarrow> fc_dev \<Rightarrow> disc \<Rightarrow> disc option" where
  "scan_known e f v d =
     (let d = upd_dev f (\<lambda>x. x\<lparr>dv_scan_state := QLA_FCPORT_FOUND, dv_fabric_name := dv_fabric_name v,
                 dv_fp_speed := dv_fp_speed v\<rparr>) d
      in if dv_id (devs d f) = dv_id v \<and> online f d then Some d
         else let fabric = fc_flag FCF_FABRIC_DEVICE f d;
                  d = upd_dev f (\<lambda>x. x\<lparr>dv_id := dv_id v\<rparr>) d
              in if \<not> fabric
                 then Some (set_flags (FCF_FABRIC_DEVICE OR FCF_LOGIN_NEEDED) f (qla2x00_clear_loop_id f d))
                 else let d = set_flags FCF_LOGIN_NEEDED f d
                      in if logs_out f d \<and> \<not> fc_flag FCF_ASYNC_SENT f d then logout_clear e f d else Some d)"

text \<open>A new port goes to the list; the next fresh one starts from its address.\<close>

definition fresh_fabric :: "nat \<Rightarrow> disc \<Rightarrow> disc" where
  "fresh_fabric = set_flags (FCF_FABRIC_DEVICE OR FCF_LOGIN_NEEDED)"

fun scan_ports :: "disc_env \<Rightarrow> u16 list \<Rightarrow> scan \<Rightarrow> disc \<Rightarrow> (int \<times> scan \<times> disc) option" where
  "scan_ports e [] s d = Some (QLA_SUCCESS, s, d)"
| "scan_ports e (i # ids) s d =
     (if qla2x00_is_reserved_id i d then scan_ports e ids s d
      else if dc_topology d = ISP_CFG_FL \<and> (dc_loop_down_timer d \<noteq> 0 \<or> LOOP_TRANSITION d)
      then Some (QLA_SUCCESS, s, d_set LOCAL_LOOP_UPDATE (d_set LOOP_RESYNC_NEEDED (d\<lparr>dc_loop_down_timer := 0\<rparr>)))
      else do {
        ((told, s), d) \<leftarrow> scan_read e s d;
        if \<not> told then Some (QLA_SUCCESS, s, d)
        else
          let (round, s) = scan_wrapped s d; v = devs d (sc_cur s)
          in if round then Some (QLA_SUCCESS, s, d)
             else if skip_fabric e d v then scan_ports e ids s d
             else (case known_port (dv_port_name v) d of
                 Some f \<Rightarrow> do { d \<leftarrow> scan_known e f v d; scan_ports e ids s d }
               | None \<Rightarrow>
                   let s = s\<lparr>sc_new := sc_new s @ [sc_cur s]\<rparr>
                   in (case qla2x00_alloc_fcport e d of
                         (None, d) \<Rightarrow> Some (QLA_MEMORY_ALLOC_FAILED, s, d)
                       | (Some n, d) \<Rightarrow>
                           scan_ports e ids (s\<lparr>sc_cur := n\<rparr>)
                             (upd_dev n (\<lambda>x. x\<lparr>dv_id := dv_id v\<rparr>) (fresh_fabric n d)))) })"

text \<open>The identifiers only count the ports that may be read.\<close>

definition scan_ids :: "disc \<Rightarrow> u16 list" where
  "scan_ids d = map of_nat [unat (min_external_loopid d)..<Suc (unat (max_loop_id d))]"

definition scan_from :: "disc_env \<Rightarrow> sw_info list option \<Rightarrow> disc \<Rightarrow> ((int \<times> nat list) \<times> disc) option" where
  "scan_from e swl d =
     (case qla2x00_alloc_fcport e d of
        (None, d) \<Rightarrow> Some ((QLA_MEMORY_ALLOC_FAILED, []), d)
      | (Some n, d) \<Rightarrow> do {
          (rv, s, d) \<leftarrow> scan_ports e (scan_ids d)
             \<lparr>sc_swl = swl, sc_idx = 0, sc_first = True, sc_last = False, sc_wrap = (0, 0, 0), sc_cur = n, sc_new = []\<rparr>
             (fresh_fabric n d);
          Some ((rv, sc_new s), d) })"

definition qla2x00_find_all_fabric_devs :: "disc_env \<Rightarrow> disc \<Rightarrow> ((int \<times> nat list) \<times> disc) option" where
  "qla2x00_find_all_fabric_devs e d = do { (swl, d) \<leftarrow> scan_list e d; scan_from e swl d }"

section \<open>Logging in to the fabric\<close>

fun drop_absent :: "disc_env \<Rightarrow> nat list \<Rightarrow> disc \<Rightarrow> disc option" where
  "drop_absent e [] d = Some d"
| "drop_absent e (f # fs) d =
     (if d_test LOOP_RESYNC_NEEDED d then Some d
      else if fc_flag FCF_FABRIC_DEVICE f d \<and> dv_scan_state (devs d f) = QLA_FCPORT_SCAN \<and> online f d
      then let d = lose f (ql2xplogiabsentdevice e) d
           in if logs_out f d then do { d \<leftarrow> logout_clear e f d; drop_absent e fs d } else drop_absent e fs d
      else drop_absent e fs d)"

definition link_moved :: "disc \<Rightarrow> bool" where
  "link_moved d \<longleftrightarrow> dc_loop_down_timer d \<noteq> 0 \<or> d_test LOOP_RESYNC_NEEDED d"

definition login_wanted :: "nat \<Rightarrow> disc \<Rightarrow> bool" where
  "login_wanted f d \<longleftrightarrow> fc_flag FCF_FABRIC_DEVICE f d \<and> fc_flag FCF_LOGIN_NEEDED f d"

fun login_known :: "disc_env \<Rightarrow> nat \<Rightarrow> nat list \<Rightarrow> u16 \<Rightarrow> disc \<Rightarrow> ((int \<times> u16) \<times> disc) option" where
  "login_known e N [] nxt d = Some ((QLA_SUCCESS, nxt), d)"
| "login_known e N (f # fs) nxt d =
     (if link_moved d then Some ((QLA_SUCCESS, nxt), d)
      else if \<not> login_wanted f d then login_known e N fs nxt d
      else (case (if dv_loop_id (devs d f) = FC_NO_LOOP_ID then qla2x00_find_new_loop_id f d else (QLA_SUCCESS, d)) of
          (rv, d) \<Rightarrow>
            if rv \<noteq> QLA_SUCCESS then Some ((rv, nxt), d)
            else do { ((rv, nxt), d) \<leftarrow> qla2x00_fabric_dev_login e N f nxt d; login_known e N fs nxt d }))"

fun login_new :: "disc_env \<Rightarrow> nat \<Rightarrow> nat list \<Rightarrow> u16 \<Rightarrow> disc \<Rightarrow> (int \<times> disc) option" where
  "login_new e N [] nxt d = Some (QLA_SUCCESS, d)"
| "login_new e N (f # fs) nxt d =
     (if link_moved d then Some (QLA_SUCCESS, d)
      else (case qla2x00_find_new_loop_id f d of
          (rv, d) \<Rightarrow>
            if rv \<noteq> QLA_SUCCESS then Some (rv, d)
            else do {
              ((rv, nxt), d) \<leftarrow> qla2x00_fabric_dev_login e N f nxt d;
              login_new e N fs nxt (d\<lparr>dc_fcports := dc_fcports d @ [f]\<rparr>) }))"

definition ns_port :: fc_port where
  "ns_port = \<lparr>fc_id = 0, loop_id = 0, d_id_domain = 0xff, d_id_area = 0xff, d_id_al_pa = 0xfc\<rparr>"

definition hba_of :: "disc_env \<Rightarrow> disc \<Rightarrow> hba_info" where
  "hba_of e d = (de_hba e)\<lparr>fabric_node_name := dc_fabric_name d\<rparr>"

definition register_fdmi :: "disc_env \<Rightarrow> disc \<Rightarrow> disc option" where
  "register_fdmi e d =
     (if ql2xfdmienable e \<and> d_test REGISTER_FDMI_NEEDED d
      then let d = d_clear REGISTER_FDMI_NEEDED d
           in map_option snd (ask_ct e (qla2x00_fdmi_register (hba_of e d) (de_ct e)) d)
      else Some d)"

definition register_fc4 :: "disc_env \<Rightarrow> disc \<Rightarrow> disc option" where
  "register_fc4 e d =
     (if \<not> d_test REGISTER_FC4_NEEDED d then Some d
      else do {
        (rv, d) \<leftarrow> ask_ct e (qla2x00_rft_id (de_ct e)) (d_clear REGISTER_FC4_NEEDED d);
        (rv, d) \<leftarrow> ask_ct e (qla2x00_rff_id (de_ct e)) d;
        (rv, d) \<leftarrow> ask_ct e (qla2x00_rnn_id (de_ct e)) d;
        if rv \<noteq> QLA_SUCCESS then Some d
        else map_option snd (ask_ct e (qla2x00_rsnn_nn (hba_of e d) (de_ct e)) d) })"

definition scan_and_login :: "disc_env \<Rightarrow> nat \<Rightarrow> disc \<Rightarrow> (int \<times> disc) option" where
  "scan_and_login e N d = do {
     let d = fold (\<lambda>f. upd_dev f (\<lambda>x. x\<lparr>dv_scan_state := QLA_FCPORT_SCAN\<rparr>)) (dc_fcports d) d;
     ((rv, new), d) \<leftarrow> qla2x00_find_all_fabric_devs e d;
     if rv \<noteq> QLA_SUCCESS then Some (rv, d)
     else do {
       d \<leftarrow> drop_absent e (dc_fcports d) d;
       ((rv, nxt), d) \<leftarrow> login_known e N (dc_fcports d) (min_external_loopid d) d;
       if rv \<noteq> QLA_SUCCESS then Some (rv, d) else login_new e N new nxt d } }"

definition qla2x00_configure_fabric :: "disc_env \<Rightarrow> nat \<Rightarrow> disc \<Rightarrow> (int \<times> disc) option" where
  "qla2x00_configure_fabric e N d = do {
     let fwi2 = IS_FWI2_CAPABLE (d_dt d);
     ((rv, name), d) \<leftarrow> ask_mbx e (\<lambda>w. pair_up (qla2x00_get_port_name (d_issue e) (d_junk e)
         (if fwi2 then NPH_F_PORT else SNS_FL_PORT) 1 w)) d;
     if rv \<noteq> QLA_SUCCESS then Some (QLA_SUCCESS, d\<lparr>dc_device_flags := dc_device_flags d AND NOT SWITCH_FOUND\<rparr>)
     else do {
       let d = d\<lparr>dc_fabric_name := the name, dc_device_flags := dc_device_flags d OR SWITCH_FOUND\<rparr>;
       d \<leftarrow> register_fdmi e d;
       ((rv, mb), d) \<leftarrow> ask_mbx e (\<lambda>w. pair_up (isp_fabric_login (de_ct e)
           (if fwi2 then NPH_SNS else SIMPLE_NAME_SERVER) ns_port (BIT 1 OR BIT 0) w)) d;
       if rv \<noteq> QLA_SUCCESS then Some (rv, d_set LOOP_RESYNC_NEEDED d)
       else if mb ! 0 \<noteq> MBS_COMMAND_COMPLETE then Some (QLA_SUCCESS, d)
       else do { d \<leftarrow> register_fc4 e d; scan_and_login e N d } } }"

end
