(* ===== verification/Loop_Resync.thy ===== *)
theory Loop_Resync
  imports Discovery
begin

text \<open>
  The loop and the fabric after a change of the link (qla_init.c: qla2x00_fw_ready,
  qla2x00_configure_hba, qla2x00_configure_loop, qla2x00_loop_resync, qla2x00_perform_loop_resync).
  A resync runs at most 256 rounds; waiting for the firmware is polled on fuel \<open>N\<close>, as are logins.
\<close>

section \<open>The firmware\<close>

definition FSTATE_READY :: u16 where "FSTATE_READY = 3"
definition FSTATE_LOSS_OF_SYNC :: u16 where "FSTATE_LOSS_OF_SYNC = 4"
definition FSTATE_LOGGED_IN :: u16 where "FSTATE_LOGGED_IN = BIT 3"
definition FSTATE_WAITING_FOR_VERIFY :: u16 where "FSTATE_WAITING_FOR_VERIFY = BIT 4"

definition IS_QLA84XX :: "u32 \<Rightarrow> bool" where "IS_QLA84XX dt \<longleftrightarrow> is_dt DT_ISP8432 dt"

definition d_jiffies :: "disc \<Rightarrow> nat" where "d_jiffies d = mw_jiffies (d_mbx d)"

definition d_msleep :: "disc_env \<Rightarrow> nat \<Rightarrow> disc \<Rightarrow> disc" where
  "d_msleep e ms d = upd_d (\<lambda>w. w\<lparr>mw_jiffies := mw_jiffies w + ms * de_hz e div 1000\<rparr>) (de_others e d)"

definition qla84xx_init_chip :: "disc_env \<Rightarrow> disc \<Rightarrow> (int \<times> disc) option" where
  "qla84xx_init_chip e d = do {
     ((rv, st), d) \<leftarrow> ask_mbx e (\<lambda>w. pair_up (qla84xx_verify_chip (d_issue e) (d_junk e) (d_pool e) w)) d;
     Some (if rv \<noteq> QLA_SUCCESS \<or> fst (the st) \<noteq> 0 then QLA_FUNCTION_FAILED else QLA_SUCCESS, d) }"

definition cable :: "bool \<Rightarrow> disc \<Rightarrow> disc" where
  "cable gone d = d\<lparr>dc_device_flags := (if gone then dc_device_flags d OR DFLG_NO_CABLE
     else dc_device_flags d AND NOT DFLG_NO_CABLE)\<rparr>"

definition read_retry_cnt :: "disc_env \<Rightarrow> disc \<Rightarrow> disc option" where
  "read_retry_cnt e d = do {
     let h = mw_host (d_mbx d);
     ((rv, cnt, tov, ra), d) \<leftarrow> ask_mbx e (\<lambda>w. pair_up (qla2x00_get_retry_cnt (d_issue e) (d_junk e)
         (dc_retry_count d) (ucast (login_timeout h)) (r_a_tov h) w)) d;
     Some (upd_h (\<lambda>h. h\<lparr>login_timeout := ucast tov, r_a_tov := ra\<rparr>) (d\<lparr>dc_retry_count := cnt\<rparr>)) }"

text \<open>
  One look at the firmware's state: whether the wait ends, the result, the two limits. The chip
  initialisation of an ISP84xx prolongs both.
\<close>

definition fw_verify :: "disc_env \<Rightarrow> u16 list \<Rightarrow> nat \<Rightarrow> nat \<Rightarrow> disc \<Rightarrow> (int \<times> nat \<times> nat \<times> disc) option" where
  "fw_verify e st mtime wtime d =
     (if st ! 2 AND FSTATE_LOGGED_IN \<noteq> 0 \<and> st ! 2 AND FSTATE_WAITING_FOR_VERIFY \<noteq> 0
      then do {
        (rv, d') \<leftarrow> qla84xx_init_chip e d;
        let spent = d_jiffies d' - d_jiffies d;
        Some (if rv \<noteq> QLA_SUCCESS then (rv, mtime, wtime, d') else (rv, mtime + spent, wtime + spent, d')) }
      else Some (QLA_SUCCESS, mtime, wtime, d))"

definition fw_waiting :: "u16 list \<Rightarrow> nat \<Rightarrow> disc \<Rightarrow> bool \<times> int \<times> disc" where
  "fw_waiting st mtime d =
     (if dc_loop_down_timer d \<noteq> 0 \<and> st ! 0 \<noteq> FSTATE_READY \<and> mtime \<le> d_jiffies d
      then (True, QLA_FUNCTION_FAILED, cable True d) else (False, QLA_FUNCTION_FAILED, d))"

definition fw_judge ::
    "disc_env \<Rightarrow> int \<Rightarrow> u16 list \<Rightarrow> nat \<Rightarrow> nat \<Rightarrow> disc \<Rightarrow> ((bool \<times> int \<times> disc) \<times> nat \<times> nat) option" where
  "fw_judge e rv st mtime wtime d =
     (if rv \<noteq> QLA_SUCCESS
      then Some ((mtime \<le> d_jiffies d \<or> mw_fw_hung (d_mbx d), rv, d), mtime, wtime)
      else let d = (if st ! 0 < FSTATE_LOSS_OF_SYNC then cable False d else d)
           in if IS_QLA84XX (d_dt d) \<and> st ! 0 \<noteq> FSTATE_READY
              then do {
                (rv, mtime, wtime, d) \<leftarrow> fw_verify e st mtime wtime d;
                Some (if rv \<noteq> QLA_SUCCESS then (True, rv, d) else fw_waiting st mtime d, mtime, wtime) }
              else if st ! 0 = FSTATE_READY
              then do { d \<leftarrow> read_retry_cnt e d; Some ((True, QLA_SUCCESS, d), mtime, wtime) }
              else Some (fw_waiting st mtime d, mtime, wtime))"

fun fw_poll :: "disc_env \<Rightarrow> nat \<Rightarrow> nat \<Rightarrow> nat \<Rightarrow> disc \<Rightarrow> (int \<times> disc) option" where
  "fw_poll e 0 mtime wtime d = None"
| "fw_poll e (Suc N) mtime wtime d = do {
     ((rv, st), d) \<leftarrow> ask_mbx e (\<lambda>w. pair_up (qla2x00_get_firmware_state (d_issue e) (d_junk e) (replicate 6 0xFFFF) w)) d;
     ((over, rv, d), mtime, wtime) \<leftarrow> fw_judge e rv st mtime wtime d;
     if over \<or> wtime \<le> d_jiffies d then Some (rv, d) else fw_poll e N mtime wtime (d_msleep e 500 d) }"

definition fw_min_wait :: nat where "fw_min_wait = 20"

definition fw_wait_time :: "disc \<Rightarrow> nat" where
  "fw_wait_time d =
     (let t = unat (of_nat (unat (dc_retry_count d) * unat (login_timeout (mw_host (d_mbx d))) + 5) :: u16)
      in max t fw_min_wait)"

definition qla2x00_fw_ready :: "disc_env \<Rightarrow> nat \<Rightarrow> disc \<Rightarrow> (int \<times> disc) option" where
  "qla2x00_fw_ready e N d =
     (if IS_QLAFX00 (d_dt d) then de_fx_ready e d
      else fw_poll e N (d_jiffies d + fw_min_wait * de_hz e) (d_jiffies d + fw_wait_time d * de_hz e) d)"

section \<open>The adapter's address\<close>

definition note_topology :: "u16 \<Rightarrow> u16 \<Rightarrow> disc \<Rightarrow> disc" where
  "note_topology topo sw_cap d =
     (let mode = (\<lambda>m. upd_d (\<lambda>w. w\<lparr>mw_fw := (mw_fw w)\<lparr>loop_mode := m\<rparr>\<rparr>));
          d = mode True (d\<lparr>min_external_loopid := of_nat SNS_FIRST_LOOP_ID, dc_switch_cap := 0\<rparr>)
      in if topo = 1 then d\<lparr>dc_switch_cap := sw_cap, dc_topology := ISP_CFG_FL\<rparr>
         else if topo = 2 then mode False (d\<lparr>dc_topology := ISP_CFG_N\<rparr>)
         else if topo = 3 then mode False (d\<lparr>dc_switch_cap := sw_cap, dc_topology := ISP_CFG_F\<rparr>)
         else d\<lparr>dc_topology := ISP_CFG_NL\<rparr>)"

definition hba_unknown :: "disc_env \<Rightarrow> int \<Rightarrow> u16 \<Rightarrow> disc \<Rightarrow> disc option" where
  "hba_unknown e rv loop d =
     (if LOOP_TRANSITION d \<or> dc_ha_timer d \<noteq> 0 \<or> IS_CNA_CAPABLE (d_dt d) \<or> rv = QLA_COMMAND_ERROR \<and> loop = 0x7
      then Some d
      else if IS_FWI2_CAPABLE (d_dt d) \<and> vp_idx (mw_host (d_mbx d)) = 0 \<and> rv = QLA_COMMAND_ERROR \<and> loop = 0x1b
      then do {
        (rv, d) \<leftarrow> ask_mbx e (qla24xx_link_initialize (d_issue e) (d_junk e)) d;
        Some (if rv = QLA_SUCCESS then d else d_set ISP_ABORT_NEEDED d) }
      else Some (d_set ISP_ABORT_NEEDED d))"

definition qla2x00_configure_hba :: "disc_env \<Rightarrow> disc \<Rightarrow> (int \<times> disc) option" where
  "qla2x00_configure_hba e d = do {
     ((rv, loop, al_pa, area, domain, topo, sw_cap), d) \<leftarrow>
       ask_mbx e (\<lambda>w. pair_up (qla2x00_get_adapter_id (d_issue e) (d_junk e) w)) d;
     if rv \<noteq> QLA_SUCCESS then do { d \<leftarrow> hba_unknown e rv loop d; Some (rv, d) }
     else if topo = 4 then Some (QLA_FUNCTION_FAILED, d)
     else Some (rv, upd_h (\<lambda>h. h\<lparr>vha_d_id := (domain, area, al_pa)\<rparr>)
                 (note_topology topo sw_cap (upd_h (\<lambda>h. h\<lparr>vha_loop_id := loop\<rparr>) d))) }"

section \<open>The loop\<close>

text \<open>What is to be updated, of what was asked for: the local loop, the fabric.\<close>

definition loop_plan :: "bool \<times> bool \<Rightarrow> bool \<Rightarrow> disc \<Rightarrow> bool \<times> bool" where
  "loop_plan = (\<lambda>(loc, rscn) aborting d.
     if dc_topology d = ISP_CFG_FL \<and> loc then (loc, True)
     else if dc_topology d = ISP_CFG_F \<and> loc then (False, True)
     else if dc_topology d = ISP_CFG_N then (loc, False)
     else if \<not> vha_online (mw_host (d_mbx d)) \<or> aborting then (True, True)
     else (loc, rscn))"

definition configure_ports :: "disc_env \<Rightarrow> nat \<Rightarrow> bool \<times> bool \<Rightarrow> disc \<Rightarrow> (int \<times> disc) option" where
  "configure_ports e N = (\<lambda>(loc, rscn) d. do {
     (rv, d) \<leftarrow> (if \<not> loc then Some (QLA_SUCCESS, d)
       else if d_test LOOP_RESYNC_NEEDED d then Some (QLA_FUNCTION_FAILED, d)
       else qla2x00_configure_local_loop e d);
     (rv, d) \<leftarrow> (if rv \<noteq> QLA_SUCCESS \<or> \<not> rscn then Some (rv, d)
       else if LOOP_TRANSITION d then Some (QLA_FUNCTION_FAILED, d)
       else qla2x00_configure_fabric e N d);
     Some (if rv \<noteq> QLA_SUCCESS then (rv, d)
           else if link_moved d then (QLA_FUNCTION_FAILED, d)
           else (QLA_SUCCESS, d\<lparr>dc_loop_state := LOOP_READY\<rparr>)) })"

definition ask_again :: "bool \<times> bool \<Rightarrow> disc \<Rightarrow> disc" where
  "ask_again = (\<lambda>(loc, rscn) d.
     if \<not> d_test LOOP_RESYNC_NEEDED d then d
     else let d = (if loc then d_set LOCAL_LOOP_UPDATE d else d)
          in if rscn then d_set RSCN_UPDATE d else d)"

definition qla2x00_configure_loop :: "disc_env \<Rightarrow> nat \<Rightarrow> disc \<Rightarrow> (int \<times> disc) option" where
  "qla2x00_configure_loop e N d = do {
     (rv, d) \<leftarrow> (if d_test LOCAL_LOOP_UPDATE d then qla2x00_configure_hba e d else Some (QLA_SUCCESS, d));
     if rv \<noteq> QLA_SUCCESS then Some (rv, d)
     else do {
       let asked = (d_test LOCAL_LOOP_UPDATE d, d_test RSCN_UPDATE d);
       let aborting = d_test ABORT_ISP_ACTIVE d;
       (rv, d) \<leftarrow> ask_mbx e (qla2x00_get_data_rate (d_issue e) (d_junk e)) (d_clear RSCN_UPDATE (d_clear LOCAL_LOOP_UPDATE d));
       (rv, d) \<leftarrow> configure_ports e N (loop_plan asked aborting d) d;
       Some (rv, ask_again asked d) } }"

section \<open>Resync\<close>

definition sync_marker :: "disc_env \<Rightarrow> disc \<Rightarrow> disc" where
  "sync_marker e = upd_h (\<lambda>h. (snd (qla2x00_marker (de_kenv e) 0 0 MK_SYNC_ALL h))\<lparr>marker_needed := False\<rparr>)"

fun resync_rounds :: "disc_env \<Rightarrow> nat \<Rightarrow> nat \<Rightarrow> disc \<Rightarrow> disc option" where
  "resync_rounds e N 0 d = Some d"
| "resync_rounds e N (Suc k) d = do {
     let fx = IS_QLAFX00 (d_dt d);
     let d = d_clear LOOP_RESYNC_NEEDED (if fx then d else sync_marker e d);
     d \<leftarrow> (if fx then de_fx_devices e d else map_option snd (qla2x00_configure_loop e N d));
     if dc_loop_down_timer d = 0 \<and> \<not> d_test ISP_ABORT_NEEDED d \<and> d_test LOOP_RESYNC_NEEDED d
     then resync_rounds e N k d else Some d }"

definition qla2x00_loop_resync :: "disc_env \<Rightarrow> nat \<Rightarrow> disc \<Rightarrow> (int \<times> disc) option" where
  "qla2x00_loop_resync e N d = do {
     let d = d_clear ISP_ABORT_RETRY d;
     (rv, d) \<leftarrow> (if \<not> vha_online (mw_host (d_mbx d)) then Some (QLA_SUCCESS, d)
       else do {
         (rv, d) \<leftarrow> qla2x00_fw_ready e N d;
         if rv \<noteq> QLA_SUCCESS then Some (rv, d)
         else do { d \<leftarrow> resync_rounds e N 256 d; Some (rv, d) } });
     Some (if d_test ISP_ABORT_NEEDED d then QLA_FUNCTION_FAILED else rv, d) }"

definition qla2x00_perform_loop_resync :: "disc_env \<Rightarrow> nat \<Rightarrow> disc \<Rightarrow> (int \<times> disc) option" where
  "qla2x00_perform_loop_resync e N d =
     (if d_test LOOP_RESYNC_ACTIVE d then Some (0, d)
      else do {
        let d = (d_set LOOP_RESYNC_ACTIVE d)\<lparr>dc_loop_down_timer := 0\<rparr>;
        (rv, d) \<leftarrow> (if dc_device_flags d AND DFLG_NO_CABLE = 0
          then qla2x00_loop_resync e N (d_set LOOP_RESYNC_NEEDED (d_set REGISTER_FC4_NEEDED
                 (d_set LOCAL_LOOP_UPDATE (d\<lparr>dc_loop_state := LOOP_UP\<rparr>))))
          else Some (0, d\<lparr>dc_loop_state := LOOP_DEAD\<rparr>));
        Some (rv, d_clear LOOP_RESYNC_ACTIVE d) })"

text \<open>\<open>fs\<close> are the remote ports of every port of the adapter.\<close>

definition qla2x00_update_fcports :: "nat list \<Rightarrow> disc \<Rightarrow> disc" where
  "qla2x00_update_fcports fs d =
     fold (\<lambda>f d. if drport (fc_of d f) \<and> fcport_state (fc_of d f) \<noteq> FCS_UNCONFIGURED then qla2x00_rport_del f d else d) fs d"

end
