(* ===== verification/Ct_Claims.thy ===== *)
theory Ct_Claims
  imports Fdmi Mbx_Props
begin

text \<open>
  What the requests to the fabric's servers show: blocks of attributes read back as they were meant,
  an answer that was not written is never taken for one, the scan of the fabric agrees with
  the name server's data base, and what is read of the vital product data.
\<close>

section \<open>Bytes and packets\<close>

lemma length_be [simp]: "length (be16 x) = 2" "length (be32 y) = 4"
  by (simp_all add: be16_def be32_def)

lemma le32_byte [simp]:
  "get_byte 0 (le32 a b c d) = a" "get_byte (Suc 0) (le32 a b c d) = b"
  "get_byte 2 (le32 a b c d) = c" "get_byte 3 (le32 a b c d) = d"
  by (simp_all add: le32_def)

lemma get8_words_of:
  "4 dvd length bs \<Longrightarrow> off < length bs \<Longrightarrow> get8 0 off (words_of bs) = bs ! off"
proof (induction bs arbitrary: off rule: words_of.induct)
  case (1 a b c d bs)
  show ?case
  proof (cases "off < 4")
    case True
    then have "off = 0 \<or> off = 1 \<or> off = 2 \<or> off = 3" by arith
    then show ?thesis by (auto simp: get8_def)
  next
    case False
    then obtain k where k: "off = k + 4" by (metis add.commute le_Suc_ex not_less)
    have "(k + 4) div 4 = Suc (k div 4)" by simp
    then have "get8 0 off (words_of (a # b # c # d # bs)) = get8 0 k (words_of bs)"
      by (simp add: get8_def k)
    also have "\<dots> = bs ! k"
      using 1 k by (intro "1.IH") (simp_all add: dvd_def, presburger)
    finally show ?thesis by (simp add: k eval_nat_numeral)
  qed
qed (auto dest: dvd_imp_le)

lemma pad_bytes_nth: "off < n \<Longrightarrow> pad_bytes n bs ! off = (if off < length bs then bs ! off else 0)"
  by (simp add: pad_bytes_def nth_append)

lemma length_bytes_at [simp]: "length (bytes_at b off n) = n"
  by (simp add: bytes_at_def)

lemma bytes_at_nth: "k < n \<Longrightarrow> bytes_at b off n ! k = b (off + k)"
  by (simp add: bytes_at_def)

lemma bytes_at_cong: "(\<And>k. k < n \<Longrightarrow> b (off + k) = c (off + k)) \<Longrightarrow> bytes_at b off n = bytes_at c off n"
  by (simp add: bytes_at_def)

lemma ct_packet_length [simp]: "length (ct_packet g s opc r p) = CT_PKT_SIZE"
  by (simp add: ct_packet_def)

lemma upd_ct_simps [simp]:
  "ct_mbx (upd_ct f w) = f (ct_mbx w)" "ms_iocb_dma (upd_ct f w) = ms_iocb_dma w"
  "ct_sns_dma (upd_ct f w) = ct_sns_dma w" "sns_cmd_dma (upd_ct f w) = sns_cmd_dma w"
  "max_fibre_devices (upd_ct f w) = max_fibre_devices w"
  by (simp_all add: upd_ct_def)

lemma put_mem_simps [simp]:
  "mw_mem (put_mem a m w) = (mw_mem w)(a := m)" "mw_host (put_mem a m w) = mw_host w"
  "mw_fw (put_mem a m w) = mw_fw w" "mw_dt (put_mem a m w) = mw_dt w"
  by (simp_all add: put_mem_def mw_dt_def)

lemma ct_byte_set_packet:
  "length bs = CT_PKT_SIZE \<Longrightarrow> off < CT_PKT_SIZE \<Longrightarrow> ct_byte (set_packet bs w) off = bs ! off"
  by (simp add: ct_byte_def set_packet_def get8_words_of CT_PKT_SIZE_def)

lemma ct_byte_set_iocb [simp]:
  "ms_iocb_dma w \<noteq> ct_sns_dma w \<Longrightarrow> ct_byte (set_iocb m w) off = ct_byte w off"
  by (simp add: ct_byte_def set_iocb_def)

lemma ms_iocb_set [simp]:
  "ms_iocb (set_iocb m w) = m"
  "ms_iocb_dma w \<noteq> ct_sns_dma w \<Longrightarrow> ms_iocb (set_packet bs w) = ms_iocb w"
  by (simp_all add: ms_iocb_def set_iocb_def set_packet_def)

lemma set_same [simp]:
  "ms_iocb_dma (set_iocb m w) = ms_iocb_dma w" "ct_sns_dma (set_iocb m w) = ct_sns_dma w"
  "ms_iocb_dma (set_packet b w) = ms_iocb_dma w" "ct_sns_dma (set_packet b w) = ct_sns_dma w"
  "mw_host (ct_mbx (set_iocb m w)) = mw_host (ct_mbx w)" "mw_host (ct_mbx (set_packet b w)) = mw_host (ct_mbx w)"
  "mw_fw (ct_mbx (set_iocb m w)) = mw_fw (ct_mbx w)" "mw_fw (ct_mbx (set_packet b w)) = mw_fw (ct_mbx w)"
  by (simp_all add: set_iocb_def set_packet_def)

lemma length_ct_dsds [simp]: "length (ct_dsds w a b m) = length m"
  by (simp add: ct_dsds_def Let_def)

lemma length_entries [simp]: "length (ms_entry h a b w) = 16" "length (ct_entry h a b w) = 16"
  by (simp_all add: ms_entry_def ct_entry_def Let_def)

section \<open>Attributes read back\<close>

lemma MSB_LSB: "push_bit 8 (ucast (MSB x)) OR ucast (LSB x) = (x :: u16)"
  by (rule bit_word_eqI)
    (auto simp: MSB_def LSB_def bit_simps dest: bit_imp_le_length)

definition be16_of :: "u8 \<Rightarrow> u8 \<Rightarrow> u16" where "be16_of h l = push_bit 8 (ucast h) OR ucast l"

lemma be16_of_be16 [simp]: "be16_of (MSB x) (LSB x) = x"
  by (simp add: be16_of_def MSB_LSB)

text \<open>The reader of a block: as many attributes as the count says, and nothing behind them.\<close>

fun parse_attrs :: "nat \<Rightarrow> u8 list \<Rightarrow> fdmi_attr list option" where
  "parse_attrs 0 bs = (if bs = [] then Some [] else None)"
| "parse_attrs (Suc n) (t1 # t0 # l1 # l0 # bs) =
     (let len = unat (be16_of l1 l0)
      in if len < 4 \<or> length bs < len - 4 then None
         else map_option (\<lambda>as. (be16_of t1 t0, take (len - 4) bs) # as) (parse_attrs n (drop (len - 4) bs)))"
| "parse_attrs (Suc n) _ = None"

definition attr_ok :: "fdmi_attr \<Rightarrow> bool" where
  "attr_ok a \<longleftrightarrow> length (snd a) \<le> 300"

lemma parse_attr_bytes:
  "list_all attr_ok as \<Longrightarrow> parse_attrs (length as) (concat (map attr_bytes as)) = Some as"
proof (induction as)
  case (Cons a as)
  then have "unat (of_nat (4 + length (snd a)) :: u16) = 4 + length (snd a)"
    by (simp only: unat_of_nat) (simp add: attr_ok_def)
  then show ?case using Cons by (simp add: attr_bytes_def be16_def)
qed simp

lemma length_attr_bytes [simp]: "length (attr_bytes a) = 4 + length (snd a)"
  by (simp add: attr_bytes_def be16_def)

lemma attrs_size_eq: "attrs_size sz as = sz + length (concat (map attr_bytes as))"
  by (induction as arbitrary: sz) (simp_all add: attrs_size_def)

lemma length_block: "list_all attr_ok as \<Longrightarrow> length (concat (map attr_bytes as)) \<le> 304 * length as"
  by (induction as) (auto simp: attr_ok_def)

definition be32_of :: "u8 list \<Rightarrow> u32" where
  "be32_of bs = le32 (bs ! 3) (bs ! 2) (bs ! 1) (bs ! 0)"

lemma word_bytes_eq:
  assumes "\<And>k. k < 4 \<Longrightarrow> get_byte k v = get_byte k (w :: u32)"
  shows "v = w"
proof (rule bit_word_eqI)
  fix n assume "n < LENGTH(32)"
  then have "bit (get_byte (n div 8) v) (n mod 8) = bit (get_byte (n div 8) w) (n mod 8)"
    by (simp add: assms)
  then show "bit v n = bit w n"
    by (simp add: get_byte_def bit_simps)
qed

lemma le32_get_byte: "le32 (get_byte 0 w) (get_byte 1 w) (get_byte 2 w) (get_byte 3 w) = w"
proof (rule word_bytes_eq)
  fix k :: nat assume "k < 4"
  then have "k = 0 \<or> k = 1 \<or> k = 2 \<or> k = 3" by arith
  then show "get_byte k (le32 (get_byte 0 w) (get_byte 1 w) (get_byte 2 w) (get_byte 3 w)) = get_byte k w"
    by auto
qed

lemma be32_of_be32 [simp]: "be32_of (be32 x @ bs) = x"
  by (simp add: be32_of_def be32_def le32_get_byte [simplified])

definition parse_block :: "u8 list \<Rightarrow> fdmi_attr list option" where
  "parse_block bs = parse_attrs (unat (be32_of bs)) (drop 4 bs)"

text \<open>What the firmware is told to send of a packet, read as the management server reads it.\<close>

definition fdmi_readable :: "u16 \<Rightarrow> u8 list \<Rightarrow> fdmi_attr list \<Rightarrow> ct_world \<Rightarrow> bool" where
  "fdmi_readable opc ids as w \<longleftrightarrow>
     (let n = get32 0 36 (ms_iocb w); bs = bytes_at (ct_byte w) 0 (unat n)
      in get32 0 48 (ms_iocb w) = n \<and> unat n \<le> CT_PKT_SIZE \<and> take 2 (drop 8 bs) = be16 opc
         \<and> take (length ids) (drop 16 bs) = ids \<and> parse_block (drop (16 + length ids) bs) = Some as)"

lemma bytes_at_packet:
  "length bs = CT_PKT_SIZE \<Longrightarrow> n \<le> CT_PKT_SIZE \<Longrightarrow> bytes_at (ct_byte (set_packet bs w)) 0 n = take n bs"
  by (rule nth_equalityI) (simp_all add: bytes_at_nth ct_byte_set_packet)

lemma take_pad_bytes: "length bs \<le> n \<Longrightarrow> take (length bs) (pad_bytes n bs) = bs"
  by (simp add: pad_bytes_def)

lemma length_ct_head [simp]: "length (ct_head g s opc r) = 16"
  by (simp add: ct_head_def be16_def)

lemma take_ct_packet:
  assumes "16 + length p \<le> CT_PKT_SIZE"
  shows "take (16 + length p) (ct_packet g s opc r p) = ct_head g s opc r @ p"
  using take_pad_bytes [of "ct_head g s opc r @ p" CT_PKT_SIZE] assms by (simp add: ct_packet_def)

lemma req_bytecount:
  "length (ms_iocb w) = 16 \<Longrightarrow> get32 0 36 (ms_iocb (set_req_bytecount n w)) = n"
  "length (ms_iocb w) = 16 \<Longrightarrow> get32 0 48 (ms_iocb (set_req_bytecount n w)) = n"
  "ms_iocb_dma w \<noteq> ct_sns_dma w \<Longrightarrow> ct_byte (set_req_bytecount n w) off = ct_byte w off"
  by (simp_all add: set_req_bytecount_def entry_simps)

lemma prep_fdmi:
  "length (ms_iocb (prep_ms_fdmi_iocb a b w)) = 16"
  "ms_iocb_dma (prep_ms_fdmi_iocb a b w) = ms_iocb_dma w"
  "ct_sns_dma (prep_ms_fdmi_iocb a b w) = ct_sns_dma w"
  "mw_host (ct_mbx (prep_ms_fdmi_iocb a b w)) = mw_host (ct_mbx w)"
  "mw_fw (ct_mbx (prep_ms_fdmi_iocb a b w)) = mw_fw (ct_mbx w)"
  by (simp_all add: prep_ms_fdmi_iocb_def qla24xx_prep_ms_fdmi_iocb_def qla2x00_prep_ms_fdmi_iocb_def)

lemma fdmi_prepare_readable:
  assumes ok: "list_all attr_ok as" and n: "length as = unat count" "length as \<le> 20"
    and ids: "length ids \<le> 20" and dma: "ms_iocb_dma w \<noteq> ct_sns_dma w"
    and as: "attrs (ct_mbx (prep_ms_fdmi_iocb 0 16 w)) = as"
  shows "fdmi_readable opc ids as (fdmi_prepare opc ids count attrs w)"
proof -
  define blk where "blk = concat (map attr_bytes as)"
  define p where "p = ids @ be32 count @ blk"
  have len: "length p = attrs_size (length ids + 4) as"
    by (simp add: p_def attrs_size_eq blk_def be32_def)
  have blk: "length blk \<le> 6080" using length_block [OF ok] n(2) by (simp add: blk_def)
  then have fits: "16 + length p \<le> CT_PKT_SIZE" and small: "length p < 8000"
    using ids by (simp_all add: p_def be32_def CT_PKT_SIZE_def)
  have cnt: "unat (of_nat (length p) + 16 :: u32) = 16 + length p"
    using small by (simp add: unat_word_ariths unat_of_nat)
  define w1 where "w1 = prep_ms_fdmi_iocb 0 16 w"
  define w2 where "w2 = set_packet (ct_packet 0xFA 0x10 opc 16 p) w1"
  define w3 where "w3 = set_req_bytecount (of_nat (length p) + 16) w2"
  have w1: "length (ms_iocb w1) = 16" "ms_iocb_dma w1 \<noteq> ct_sns_dma w1"
    using dma by (simp_all add: w1_def prep_fdmi)
  have w2: "length (ms_iocb w2) = 16" "ms_iocb_dma w2 \<noteq> ct_sns_dma w2"
    using w1 by (simp_all add: w2_def)
  have ready: "fdmi_prepare opc ids count attrs w = w3"
    by (simp add: fdmi_prepare_def Let_def w3_def w2_def w1_def as qla2x00_update_ms_fdmi_iocb_def
        qla2x00_prep_ct_fdmi_req_def len [symmetric] p_def blk_def)
  have size: "get32 0 36 (ms_iocb w3) = of_nat (length p) + 16" "get32 0 48 (ms_iocb w3) = of_nat (length p) + 16"
    using req_bytecount(1,2) [OF w2(1)] by (simp_all add: w3_def)
  have "bytes_at (ct_byte w3) 0 (16 + length p) = bytes_at (ct_byte w2) 0 (16 + length p)"
    using w2(2) by (intro bytes_at_cong) (simp add: w3_def req_bytecount)
  also have "\<dots> = take (16 + length p) (ct_packet 0xFA 0x10 opc 16 p)"
    unfolding w2_def using fits by (rule bytes_at_packet [OF ct_packet_length])
  also have "\<dots> = ct_head 0xFA 0x10 opc 16 @ p" by (rule take_ct_packet [OF fits])
  finally have sent: "bytes_at (ct_byte w3) 0 (16 + length p) = ct_head 0xFA 0x10 opc 16 @ p" .
  have opc: "take 2 (drop 8 (ct_head 0xFA 0x10 opc 16 @ p)) = be16 opc"
    by (simp add: ct_head_def be16_def)
  have "parse_block (be32 count @ blk) = Some as"
    using parse_attr_bytes [OF ok] n(1) by (simp add: parse_block_def blk_def)
  then show ?thesis
    using fits opc unfolding ready fdmi_readable_def Let_def size cnt sent
    by (simp add: p_def)
qed

section \<open>The attributes of the four requests\<close>

lemma length_text_value: "length (text_value s) \<le> length s + 4"
  by (simp add: text_value_def)

lemma text_attr_ok [simp]: "n \<le> 256 \<Longrightarrow> attr_ok (text_attr t n s)"
  using length_text_value [of "snprintf n s"] by (simp add: attr_ok_def text_attr_def snprintf_def)

lemma small_attr_ok [simp]: "attr_ok (word_attr t v)" "attr_ok (t, pad_bytes 32 bs)"
  by (simp_all add: attr_ok_def word_attr_def)

lemma length_hex: "n < 16 ^ Suc k \<Longrightarrow> length (hex n) \<le> Suc k"
proof (induction k arbitrary: n)
  case 0
  then show ?case by (subst hex.simps) (simp add: Let_def)
next
  case (Suc k)
  then have "n div 16 < 16 ^ Suc k" by (simp add: less_mult_imp_div_less mult.commute)
  then show ?case using Suc.IH by (subst hex.simps) (simp add: Let_def)
qed

lemma length_hex_in_brackets: "length (hex_in_brackets a) \<le> 6"
  using length_hex [of "unat a" 3] unsigned_less [of a] by (simp add: hex_in_brackets_def c_str_def)

lemma length_c_str [simp]: "length (c_str s) = length s"
  by (simp add: c_str_def)

lemma length_snprintf: "length (snprintf n s) \<le> n - 1"
  by (simp add: snprintf_def)

lemma length_fw_version: "length (fw_version_str i w 32) \<le> 38"
proof -
  have "length (qla2x00_fw_version_str f 32) \<le> 38" for f
    using length_hex_in_brackets [of "fw_attributes f"] length_snprintf [of 32 "fw_version_digits f @ c_str '' ''"]
    by (simp add: qla2x00_fw_version_str_def Let_def)
  moreover have "length (snprintf 32 s) \<le> 38" for s
    using length_snprintf [of 32 s] by simp
  ultimately show ?thesis
    by (simp add: fw_version_str_def qla24xx_fw_version_str_def)
qed

definition names_ok :: "hba_info \<Rightarrow> ct_world \<Rightarrow> bool" where
  "names_ok i w \<longleftrightarrow> length (vha_port_name (mw_host (ct_mbx w))) = 8
     \<and> length (vha_node_name (mw_fw (ct_mbx w))) = 8 \<and> length (fabric_node_name i) = 8"

lemma hba_attrs_ok:
  assumes "length (vha_node_name (mw_fw w)) = 8" "ms \<le> 256" "hs \<le> 256"
  shows "list_all attr_ok (hba_attrs ms hs i w)"
  using assms length_fw_version [of i w] length_text_value [of "fw_version_str i w 32"]
  by (simp add: hba_attrs_def Let_def attr_ok_def [of "(_, _)"])

lemma attrs_ok:
  assumes "names_ok i w"
  shows "list_all attr_ok (fdmi_hba_attrs i (ct_mbx w))" "list_all attr_ok (fdmiv2_hba_attrs i (ct_mbx w))"
    "list_all attr_ok (fdmi_port_attrs i (ct_mbx w))" "list_all attr_ok (fdmiv2_port_attrs i (ct_mbx w))"
  using assms by (simp_all add: names_ok_def fdmi_hba_attrs_def fdmiv2_hba_attrs_def hba_attrs_ok
      fdmi_port_attrs_def fdmiv2_port_attrs_def attr_ok_def [of "(_, _)"] split: prod.split)

lemma attrs_same:
  assumes "mw_host w = mw_host v" "mw_fw w = mw_fw v"
  shows "fdmi_hba_attrs i w = fdmi_hba_attrs i v" "fdmiv2_hba_attrs i w = fdmiv2_hba_attrs i v"
    "fdmi_port_attrs i w = fdmi_port_attrs i v" "fdmiv2_port_attrs i w = fdmiv2_port_attrs i v"
  using assms by (simp_all add: fdmi_hba_attrs_def fdmiv2_hba_attrs_def hba_attrs_def mw_dt_def
      fw_version_str_def qla2x00_get_sym_node_name_def fdmi_port_attrs_def fdmiv2_port_attrs_def
      cong: if_cong)

lemma attrs_count:
  "length (fdmi_hba_attrs i w) = unat FDMI_HBA_ATTR_COUNT" "length (fdmiv2_hba_attrs i w) = unat FDMIV2_HBA_ATTR_COUNT"
  "length (fdmi_port_attrs i w) = unat FDMI_PORT_ATTR_COUNT" "length (fdmiv2_port_attrs i w) = unat FDMIV2_PORT_ATTR_COUNT"
  by (simp_all add: fdmi_hba_attrs_def fdmiv2_hba_attrs_def hba_attrs_def Let_def fdmi_port_attrs_def
      fdmiv2_port_attrs_def FDMI_HBA_ATTR_COUNT_def FDMIV2_HBA_ATTR_COUNT_def FDMI_PORT_ATTR_COUNT_def
      FDMIV2_PORT_ATTR_COUNT_def)

lemmas count_simps = FDMI_HBA_ATTR_COUNT_def FDMIV2_HBA_ATTR_COUNT_def FDMI_PORT_ATTR_COUNT_def
  FDMIV2_PORT_ATTR_COUNT_def

text \<open>
  C35. What is sent to register the adapter and its port, in both versions of the protocol, is read
  back by the management server as the adapter's identifiers and exactly the attributes the
  driver means: the length the firmware is told ends with the last attribute, the count that
  precedes them is theirs, and each attribute's length leads to the next. No block is longer than the packet.
\<close>

theorem fdmi_blocks_parse:
  assumes "names_ok i w" "ms_iocb_dma w \<noteq> ct_sns_dma w"
  shows "fdmi_readable RHBA_CMD (rhba_ids w) (fdmi_hba_attrs i (ct_mbx w))
           (fdmi_prepare RHBA_CMD (rhba_ids w) FDMI_HBA_ATTR_COUNT (fdmi_hba_attrs i) w)
    \<and> fdmi_readable RHBA_CMD (rhba_ids w) (fdmiv2_hba_attrs i (ct_mbx w))
           (fdmi_prepare RHBA_CMD (rhba_ids w) FDMIV2_HBA_ATTR_COUNT (fdmiv2_hba_attrs i) w)
    \<and> fdmi_readable RPA_CMD (rpa_ids w) (fdmi_port_attrs i (ct_mbx w))
           (fdmi_prepare RPA_CMD (rpa_ids w) FDMI_PORT_ATTR_COUNT (fdmi_port_attrs i) w)
    \<and> fdmi_readable RPA_CMD (rpa_ids w) (fdmiv2_port_attrs i (ct_mbx w))
           (fdmi_prepare RPA_CMD (rpa_ids w) FDMIV2_PORT_ATTR_COUNT (fdmiv2_port_attrs i) w)"
  using assms attrs_ok [OF assms(1)] attrs_count [of i "ct_mbx w"]
    attrs_same [of "ct_mbx (prep_ms_fdmi_iocb 0 16 w)" "ct_mbx w" i]
  by (auto intro!: fdmi_prepare_readable simp: prep_fdmi count_simps names_ok_def rhba_ids_def rpa_ids_def Let_def)

section \<open>An answer that was not written\<close>

text \<open>The firmware leaves the memory at \<open>a\<close> as it is.\<close>

definition unanswered :: "ct_env \<Rightarrow> u64 \<Rightarrow> bool" where
  "unanswered e a \<longleftrightarrow> (\<forall>m w rv m' w'. ce_issue e m w = Some (rv, m', w') \<longrightarrow> mw_mem w' a = mw_mem w a)"

lemma ct_issue_silent:
  assumes "ct_issue e w = Some (rv, w')" "unanswered e (ct_sns_dma w)" "ms_iocb_dma w \<noteq> ct_sns_dma w"
  shows "ct_byte w' off = ct_byte w off"
  using assms unfolding ct_issue_def qla2x00_issue_iocb_def qla2x00_issue_iocb_timeout_def mbx_status_def unanswered_def
  by (auto simp: ct_byte_def Let_def split: option.splits if_splits bind_splits)

lemma bytes_at_2: "bytes_at b off 2 = [b off, b (off + 1)]"
  by (simp add: bytes_at_def upt_rec)

lemma chk_accepts: "qla2x00_chk_ms_status w = QLA_SUCCESS \<Longrightarrow> ct_byte w 8 = 0x80"
  by (auto simp: qla2x00_chk_ms_status_def Let_def bytes_at_2 be16_def CT_ACCEPT_RESPONSE_def MSB_def
      QLA_SUCCESS_def QLA_FUNCTION_FAILED_def QLA_INVALID_COMMAND_def split: if_splits)

lemma ct_packet_opcode: "ct_packet g s opc r p ! 8 = MSB opc"
  by (simp add: ct_packet_def CT_PKT_SIZE_def pad_bytes_nth ct_head_def be16_def)

lemma ct_status_silent:
  assumes iss: "ct_issue e w = Some (rv, w')" and sil: "unanswered e (ct_sns_dma w)"
    and dma: "ms_iocb_dma w \<noteq> ct_sns_dma w" and op: "ct_byte w 8 \<noteq> 0x80"
  shows "ct_status rv w' \<noteq> QLA_SUCCESS" "rv = QLA_SUCCESS \<Longrightarrow> qla2x00_chk_ms_status w' \<noteq> QLA_SUCCESS"
    "fdmi_status rv w' \<noteq> QLA_SUCCESS"
  using chk_accepts [of w'] ct_issue_silent [OF iss sil dma, of 8] op
  by (auto simp: ct_status_def fdmi_status_def QLA_SUCCESS_def QLA_FUNCTION_FAILED_def QLA_ALREADY_REGISTERED_def)

lemma count_request_simps [simp]:
  "ct_mbx (count_request w) = ct_mbx w" "ms_iocb_dma (count_request w) = ms_iocb_dma w"
  "ct_sns_dma (count_request w) = ct_sns_dma w" "ct_byte (count_request w) = ct_byte w"
  "ms_iocb (count_request w) = ms_iocb w" "max_fibre_devices (count_request w) = max_fibre_devices w"
  by (simp_all add: count_request_def ct_byte_def fun_eq_iff ms_iocb_def)

lemma prep_ms [simp]:
  "ms_iocb_dma (prep_ms_iocb a b w) = ms_iocb_dma w" "ct_sns_dma (prep_ms_iocb a b w) = ct_sns_dma w"
  "mw_host (ct_mbx (prep_ms_iocb a b w)) = mw_host (ct_mbx w)" "mw_fw (ct_mbx (prep_ms_iocb a b w)) = mw_fw (ct_mbx w)"
  "length (ms_iocb (prep_ms_iocb a b w)) = 16" "max_fibre_devices (prep_ms_iocb a b w) = max_fibre_devices w"
  by (simp_all add: prep_ms_iocb_def qla24xx_prep_ms_iocb_def qla2x00_prep_ms_iocb_def set_iocb_def ms_iocb_def)

lemma packet_opcode: "ct_byte (set_packet (ct_packet g s opc r p) w) 8 = MSB opc"
  by (subst ct_byte_set_packet) (simp_all add: CT_PKT_SIZE_def ct_packet_opcode)

lemma ns_request_unanswered:
  assumes "ns_request e opc a b p w = Some (rv, w')" "unanswered e (ct_sns_dma w)"
    and "ms_iocb_dma w \<noteq> ct_sns_dma w" "MSB opc \<noteq> 0x80"
  shows "rv \<noteq> QLA_SUCCESS"
  using assms ct_status_silent(1) [of e "qla2x00_prep_ct_req opc b p (prep_ms_iocb a (ucast b) w)"]
  by (auto simp: ns_request_def Let_def qla2x00_prep_ct_req_def packet_opcode split: bind_splits)

lemma fdmi_send_unanswered:
  assumes "fdmi_send e (fdmi_prepare opc ids c attrs w) = Some (rv, w')" "unanswered e (ct_sns_dma w)"
    and "ms_iocb_dma w \<noteq> ct_sns_dma w" "MSB opc \<noteq> 0x80"
  shows "rv \<noteq> QLA_SUCCESS"
proof -
  define v where "v = fdmi_prepare opc ids c attrs w"
  have v: "ct_sns_dma v = ct_sns_dma w" "ms_iocb_dma v = ms_iocb_dma w" "ct_byte v 8 = MSB opc"
    using assms(3) by (simp_all add: v_def fdmi_prepare_def Let_def qla2x00_update_ms_fdmi_iocb_def
        set_req_bytecount_def qla2x00_prep_ct_fdmi_req_def prep_fdmi packet_opcode)
  obtain r where r: "ct_issue e v = Some (r, w')" "rv = fdmi_status r w'"
    using assms(1) by (auto simp: fdmi_send_def v_def split: bind_splits)
  show ?thesis using ct_status_silent(3) [OF r(1)] v assms r(2) by simp
qed

lemma per_port_leaves:
  assumes "per_port ask n i r l w = Some (rv, l', w')" "0 < n"
    and "\<And>rv nx s' v. ask (l ! i) w = Some (rv, nx, s', v) \<Longrightarrow> nx = Leave \<and> s' = l ! i \<and> rv \<noteq> QLA_SUCCESS"
  shows "rv \<noteq> QLA_SUCCESS \<and> l' = l"
  using assms by (cases n) (auto simp: Let_def split: bind_splits if_splits)

lemma id_query_unanswered:
  assumes "unanswered e (ct_sns_dma w)" "ms_iocb_dma w \<noteq> ct_sns_dma w" "MSB opc \<noteq> 0x80" "0 < max_fibre_devices w"
    and "all_ports (id_query e opc r f) QLA_SUCCESS l w = Some (rv, l', w')"
  shows "rv \<noteq> QLA_SUCCESS \<and> l' = l"
  using assms(5) unfolding all_ports_def
  by (rule per_port_leaves)
    (use assms in \<open>auto simp: id_query_def word_less_nat_alt dest: ns_request_unanswered split: bind_splits if_splits\<close>)

lemmas opcode_defs = GA_NXT_CMD_def GID_PT_CMD_def GPN_ID_CMD_def GNN_ID_CMD_def RFT_ID_CMD_def RFF_ID_CMD_def
  RNN_ID_CMD_def RSNN_NN_CMD_def GFPN_ID_CMD_def RHBA_CMD_def RPA_CMD_def DHBA_CMD_def

lemma opcodes [simp]:
  "MSB GA_NXT_CMD \<noteq> 0x80" "MSB GID_PT_CMD \<noteq> 0x80" "MSB GPN_ID_CMD \<noteq> 0x80" "MSB GNN_ID_CMD \<noteq> 0x80"
  "MSB RFT_ID_CMD \<noteq> 0x80" "MSB RFF_ID_CMD \<noteq> 0x80" "MSB RNN_ID_CMD \<noteq> 0x80" "MSB RSNN_NN_CMD \<noteq> 0x80"
  "MSB GFPN_ID_CMD \<noteq> 0x80" "MSB RHBA_CMD \<noteq> 0x80" "MSB RPA_CMD \<noteq> 0x80" "MSB DHBA_CMD \<noteq> 0x80"
  by (simp_all add: opcode_defs MSB_def)

lemma rsnn_unanswered:
  assumes "qla2x00_rsnn_nn i e w = Some (rv, w')" "unanswered e (ct_sns_dma w)"
    and "ms_iocb_dma w \<noteq> ct_sns_dma w" "\<not> is_old w"
  shows "rv \<noteq> QLA_SUCCESS"
proof -
  obtain n p r where r: "ct_issue e (set_req_bytecount n (qla2x00_prep_ct_req RSNN_NN_CMD 16 p (prep_ms_iocb 0 16 w)))
      = Some (r, w')" "rv = ct_status r w'"
    using assms(1,4) by (auto simp: qla2x00_rsnn_nn_def Let_def split: bind_splits)
  show ?thesis using ct_status_silent(1) [OF r(1)] assms r(2)
    by (simp add: set_req_bytecount_def qla2x00_prep_ct_req_def packet_opcode)
qed

lemma dhba_unanswered:
  assumes "qla2x00_fdmi_dhba e w = Some (rv, w')" "unanswered e (ct_sns_dma w)" "ms_iocb_dma w \<noteq> ct_sns_dma w"
  shows "rv \<noteq> QLA_SUCCESS"
proof -
  obtain p r where r: "ct_issue e (qla2x00_prep_ct_fdmi_req DHBA_CMD 16 p (prep_ms_fdmi_iocb (16 + 8) 16 w)) = Some (r, w')"
    "rv = ct_status r w'"
    using assms(1) by (auto simp: qla2x00_fdmi_dhba_def Let_def split: bind_splits)
  show ?thesis using ct_status_silent(1) [OF r(1)] assms r(2)
    by (simp add: qla2x00_prep_ct_fdmi_req_def packet_opcode prep_fdmi)
qed

text \<open>
  C36. The answer arrives in the buffer of the request. On every adapter but the ISP2100 and ISP2200, when
  the firmware reports a request as done without having written an answer, no request to the name server and no
  registration is taken as successful, and what the driver knows of the fabric's ports stays as it was.
\<close>

theorem unanswered_refused:
  assumes "unanswered e (ct_sns_dma w)" "ms_iocb_dma w \<noteq> ct_sns_dma w" "\<not> is_old w" "0 < max_fibre_devices w"
  shows "(\<forall>rv s' w'. qla2x00_ga_nxt e s w = Some (rv, s', w') \<longrightarrow> rv \<noteq> QLA_SUCCESS \<and> s' = s)
    \<and> (\<forall>rv l' w'. Some (rv, l', w') \<in> {qla2x00_gid_pt e l w, qla2x00_gpn_id e l w, qla2x00_gnn_id e l w, qla2x00_gfpn_id e l w}
         \<longrightarrow> rv \<noteq> QLA_SUCCESS \<and> l' = l)
    \<and> (\<forall>rv w'. Some (rv, w') \<in> {qla2x00_rft_id e w, qla2x00_rff_id e w, qla2x00_rnn_id e w, qla2x00_rsnn_nn i e w,
           qla2x00_fdmi_rhba i e w, qla2x00_fdmi_rpa i e w, qla2x00_fdmiv2_rhba i e w, qla2x00_fdmiv2_rpa i e w,
           qla2x00_fdmi_dhba e w} \<longrightarrow> rv \<noteq> QLA_SUCCESS)"
proof (intro conjI allI impI)
  fix rv s' w' assume "qla2x00_ga_nxt e s w = Some (rv, s', w')"
  then show "rv \<noteq> QLA_SUCCESS" "s' = s"
    using assms opcodes by (auto simp: qla2x00_ga_nxt_def dest: ns_request_unanswered split: bind_splits if_splits)
next
  fix rv l' w'
  assume a: "Some (rv, l', w') \<in> {qla2x00_gid_pt e l w, qla2x00_gpn_id e l w, qla2x00_gnn_id e l w, qla2x00_gfpn_id e l w}"
  have "rv \<noteq> QLA_SUCCESS \<and> l' = l" if "qla2x00_gid_pt e l w = Some (rv, l', w')"
    using that assms opcodes
    by (auto simp: qla2x00_gid_pt_def gid_answer_def dest: ns_request_unanswered split: bind_splits if_splits)
  moreover have "rv \<noteq> QLA_SUCCESS \<and> l' = l" if "qla2x00_gpn_id e l w = Some (rv, l', w')"
    using that assms by (intro id_query_unanswered [of e w GPN_ID_CMD]) (simp_all add: qla2x00_gpn_id_def)
  moreover have "rv \<noteq> QLA_SUCCESS \<and> l' = l" if "qla2x00_gnn_id e l w = Some (rv, l', w')"
    using that assms by (intro id_query_unanswered [of e w GNN_ID_CMD]) (simp_all add: qla2x00_gnn_id_def)
  moreover have "rv \<noteq> QLA_SUCCESS \<and> l' = l" if "qla2x00_gfpn_id e l w = Some (rv, l', w')"
  proof (cases "IS_IIDMA_CAPABLE (ct_dt w)")
    case True
    then show ?thesis
      using that assms by (intro id_query_unanswered [of e w GFPN_ID_CMD]) (simp_all add: qla2x00_gfpn_id_def)
  qed (use that in \<open>simp add: qla2x00_gfpn_id_def QLA_FUNCTION_FAILED_def QLA_SUCCESS_def\<close>)
  ultimately show "rv \<noteq> QLA_SUCCESS" "l' = l" using a by (auto simp: eq_commute [of "Some _"])
next
  fix rv w'
  assume a: "Some (rv, w') \<in> {qla2x00_rft_id e w, qla2x00_rff_id e w, qla2x00_rnn_id e w, qla2x00_rsnn_nn i e w,
      qla2x00_fdmi_rhba i e w, qla2x00_fdmi_rpa i e w, qla2x00_fdmiv2_rhba i e w, qla2x00_fdmiv2_rpa i e w, qla2x00_fdmi_dhba e w}"
  have ns: "rv \<noteq> QLA_SUCCESS" if "Some (rv, w') \<in> {qla2x00_rft_id e w, qla2x00_rff_id e w, qla2x00_rnn_id e w}"
    using that assms
    by (auto simp: qla2x00_rft_id_def qla2x00_rff_id_def qla2x00_rnn_id_def dest: ns_request_unanswered [OF sym])
  have fdmi: "rv \<noteq> QLA_SUCCESS" if "Some (rv, w') \<in> {qla2x00_fdmi_rhba i e w, qla2x00_fdmi_rpa i e w, qla2x00_fdmiv2_rhba i e w, qla2x00_fdmiv2_rpa i e w}"
    using that assms
    by (auto simp: qla2x00_fdmi_rhba_def qla2x00_fdmi_rpa_def qla2x00_fdmiv2_rhba_def qla2x00_fdmiv2_rpa_def
        dest: fdmi_send_unanswered [OF sym])
  show "rv \<noteq> QLA_SUCCESS"
    using a ns fdmi rsnn_unanswered [OF _ assms(1-3), of i rv w'] dhba_unanswered [OF _ assms(1,2), of rv w'] by auto
qed

section \<open>Reading the vital product data\<close>

lemma vpd_find_cong:
  assumes "\<And>k. k < e + 2 \<Longrightarrow> b k = c k" "length key \<le> 2"
  shows "vpd_find b e key pos len = vpd_find c e key pos len"
  using assms
proof (induction b e key pos len rule: vpd_find.induct)
  case (1 b e key pos len)
  show ?case
  proof (cases "pos < e")
    case True
    then have same: "b pos = c pos" "b (pos + 1) = c (pos + 1)" "b (pos + 2) = c (pos + 2)"
      using "1.prems" by simp_all
    have "bytes_at b pos (length key) = bytes_at c pos (length key)"
      by (intro bytes_at_cong "1.prems") (use True "1.prems"(2) in linarith)
    then have key: "vpd_key_at b pos key = vpd_key_at c pos key" by (simp add: vpd_key_at_def)
    show ?thesis
      using "1.IH" [OF _ refl _ "1.prems"] "1.prems"(2) same key by (subst (1 2) vpd_find.simps) (simp add: Let_def cong: if_cong)
  qed (subst (1 2) vpd_find.simps, simp)
qed

lemma vpd_valid_cong:
  assumes "\<And>k. k < e + 2 \<Longrightarrow> b k = c k"
  shows "qla2xxx_is_vpd_valid b e = qla2xxx_is_vpd_valid c e"
  using assms [of 0] assms [of 1] assms [of "3 + unat (c 1)"] assms [of "4 + unat (c 1)"]
    assms [of "6 + unat (c 1) + unat (c (4 + unat (c 1)))"]
  by (auto simp: qla2xxx_is_vpd_valid_def Let_def)

definition vpd_pair :: "u8 \<Rightarrow> hba_info" where
  "vpd_pair x = \<lparr>model_number = [], model_desc = [], adapter_id = [], version_str = [], mr_fw_version = [],
     bios_revision = (0, 0), serials = (0, 0, 0), vpd = (!) [0x82, 0, 0, 0x90, 4, 0, 83, 78, 4, 65, 0x78, 66, x],
     vpd_size = 11, icb_frame_payload = 0, icb24_frame_payload = 0, uts_name = None, system_hostname = [],
     host_no = 0, fabric_node_name = []\<rparr>"

lemma vpd_pair_field:
  "x \<noteq> 0 \<Longrightarrow> qla2xxx_get_vpd_field DT_FWI2 (vpd_pair x) (c_str ''SN'') 32 = [65, 0x78, 66, x]"
  by (simp add: qla2xxx_get_vpd_field_def vpd_pair_def qla2xxx_is_vpd_valid_def Let_def IS_FWI2_CAPABLE_def
      DT_FWI2_def BIT_def vpd_find.simps vpd_key_at_def bytes_at_def c_str_def c_text_def snprintf_def upt_rec)

text \<open>
  What is taken from the vital product data depends on the data and the two bytes behind their end, and
  it does depend on the second of these: a field at the end is read past it.
\<close>

theorem vpd_field_reads:
  "(\<forall>i j dt key n. vpd_size i = vpd_size j \<longrightarrow> (\<forall>k < vpd_size i + 2. vpd i k = vpd j k) \<longrightarrow> length key \<le> 2
      \<longrightarrow> qla2xxx_get_vpd_field dt i key n = qla2xxx_get_vpd_field dt j key n)
   \<and> (\<exists>i j dt key n. vpd_size i = vpd_size j \<and> (\<forall>k < vpd_size i + 1. vpd i k = vpd j k) \<and> length key \<le> 2
      \<and> qla2xxx_get_vpd_field dt i key n \<noteq> qla2xxx_get_vpd_field dt j key n)"
proof (intro conjI allI impI)
  fix i j :: hba_info and dt :: u32 and key :: "u8 list" and n :: nat
  assume e: "vpd_size i = vpd_size j" and "\<forall>k < vpd_size i + 2. vpd i k = vpd j k" and key: "length key \<le> 2"
  then have a: "k < vpd_size j + 2 \<Longrightarrow> vpd i k = vpd j k" for k by simp
  have f: "vpd_find (vpd i) (vpd_size j) key 0 0 = vpd_find (vpd j) (vpd_size j) key 0 0"
    using a key by (rule vpd_find_cong)
  have t: "bytes_at (vpd i) (pos + 3) len = bytes_at (vpd j) (pos + 3) len \<and> vpd i pos = vpd j pos"
    if "pos + len < vpd_size j" for pos len
    using that by (auto intro!: bytes_at_cong a)
  show "qla2xxx_get_vpd_field dt i key n = qla2xxx_get_vpd_field dt j key n"
    using t vpd_valid_cong [of "vpd_size j" "vpd i" "vpd j", OF a]
    by (auto simp: qla2xxx_get_vpd_field_def e f split: prod.split)
next
  have "\<forall>k < vpd_size (vpd_pair 1) + 1. vpd (vpd_pair 1) k = vpd (vpd_pair 2) k"
    by (simp add: vpd_pair_def All_less_Suc eval_nat_numeral)
  then show "\<exists>i j dt key n. vpd_size i = vpd_size j \<and> (\<forall>k < vpd_size i + 1. vpd i k = vpd j k) \<and> length key \<le> 2
      \<and> qla2xxx_get_vpd_field dt i key n \<noteq> qla2xxx_get_vpd_field dt j key n"
    using vpd_pair_field [of 1] vpd_pair_field [of 2]
    by (intro exI [of _ "vpd_pair 1"] exI [of _ "vpd_pair 2"] exI [of _ DT_FWI2] exI [of _ "c_str ''SN''"] exI [of _ 32])
      (simp add: vpd_pair_def)
qed

end
