(* ===== verification/Ct_Scan.thy ===== *)
theory Ct_Scan
  imports Ct_Claims
begin

text \<open>
  The scan of the fabric against an abstract name server, and the witnesses of the properties of the requests.
\<close>

section \<open>The scan of the fabric\<close>

text \<open>
  A name server: the identifiers of the ports and the names of a port. Its answers are those of the
  generic-services standard: an accepting header, and the list in which the last entry is marked, or
  the name that is asked for.
\<close>

record name_db =
  db_ports :: "u8 list list"
  db_port_name :: "u8 list \<Rightarrow> u8 list"
  db_node_name :: "u8 list \<Rightarrow> u8 list"

definition accept_head :: "u8 list" where
  "accept_head = [1, 0, 0, 0, 0xFC, 2, 0, 0] @ be16 CT_ACCEPT_RESPONSE @ [0, 0, 0, 0, 0, 0]"

definition id_entries :: "u8 list list \<Rightarrow> u8 list" where
  "id_entries ps = concat (map (\<lambda>k. (if Suc k = length ps then 0x80 else 0) # ps ! k) [0..<length ps])"

definition ns_answer :: "name_db \<Rightarrow> u8 list \<Rightarrow> u8 list" where
  "ns_answer db req =
     (let opc = take 2 (drop 8 req); pid = drop 17 req
      in accept_head @ (if opc = be16 GID_PT_CMD then id_entries (db_ports db)
           else if opc = be16 GPN_ID_CMD then db_port_name db pid
           else if opc = be16 GNN_ID_CMD then db_node_name db pid else []))"

definition db_ok :: "name_db \<Rightarrow> bool" where
  "db_ok db \<longleftrightarrow> db_ports db \<noteq> [] \<and> (\<forall>p \<in> set (db_ports db). length p = 3)
     \<and> (\<forall>p. length (db_port_name db p) = 8 \<and> length (db_node_name db p) = 8)"

text \<open>The firmware hands a request to that name server, and writes its answer and the completion.\<close>

definition same_buffers :: "ct_world \<Rightarrow> ct_world \<Rightarrow> bool" where
  "same_buffers v w \<longleftrightarrow> ms_iocb_dma w = ms_iocb_dma v \<and> ct_sns_dma w = ct_sns_dma v
     \<and> max_fibre_devices w = max_fibre_devices v \<and> ct_dt w = ct_dt v"

definition completed :: "ct_world \<Rightarrow> bool" where
  "completed w \<longleftrightarrow> get8 0 ENTRY_STATUS_OFF (ms_iocb w) = 0
     \<and> get16 0 (if IS_FWI2_CAPABLE (ct_dt w) then 8 else 10) (ms_iocb w) = CS_COMPLETE"

definition serves :: "ct_env \<Rightarrow> (u8 list \<Rightarrow> u8 list) \<Rightarrow> ct_world \<Rightarrow> bool" where
  "serves e ns v \<longleftrightarrow> (\<forall>w. same_buffers v w \<longrightarrow>
     (\<exists>x. ct_issue e w = Some (QLA_SUCCESS, x) \<and> same_buffers v x \<and> completed x
        \<and> (let r = ns (bytes_at (ct_byte w) 0 20) in bytes_at (ct_byte x) 0 (length r) = r)))"

lemma take_request:
  assumes "length p \<le> 4"
  shows "take 20 (ct_packet g s opc r p) = ct_head g s opc r @ pad_bytes 4 p"
  using assms by (intro nth_equalityI) (auto simp: ct_packet_def CT_PKT_SIZE_def pad_bytes_nth nth_append)

lemma head_opcode: "take 2 (drop 8 (ct_head g s opc r)) = be16 opc" "length (ct_head g s opc r) - 8 = 8"
  by (simp_all add: ct_head_def be16_def)

lemma ns_request_served:
  assumes srv: "serves e ns v" and w: "same_buffers v w" and dma: "ms_iocb_dma v \<noteq> ct_sns_dma v" and p: "length p \<le> 4"
    and r: "ns (ct_head 0xFC 0x02 opc b @ pad_bytes 4 p) = accept_head @ body"
  shows "\<exists>x. ns_request e opc a b p w = Some (QLA_SUCCESS, x) \<and> same_buffers v x
    \<and> bytes_at (ct_byte x) 16 (length body) = body"
proof -
  define w1 where "w1 = prep_ms_iocb a (ucast b) w"
  define w2 where "w2 = set_packet (ct_packet 0xFC 0x02 opc b p) w1"
  have dt: "ct_dt w2 = ct_dt w" by (simp add: w2_def w1_def ct_dt_def mw_dt_def)
  have mx: "max_fibre_devices w2 = max_fibre_devices w" by (simp add: w2_def w1_def set_packet_def)
  have w2: "same_buffers v w2" using w dt mx by (simp add: same_buffers_def w2_def w1_def)
  have req: "bytes_at (ct_byte w2) 0 20 = ct_head 0xFC 0x02 opc b @ pad_bytes 4 p"
    unfolding w2_def by (subst bytes_at_packet) (simp_all add: CT_PKT_SIZE_def take_request [OF p])
  obtain x where x: "ct_issue e w2 = Some (QLA_SUCCESS, x)" "same_buffers v x" "completed x"
    "bytes_at (ct_byte x) 0 (length (accept_head @ body)) = accept_head @ body"
    using srv w2 unfolding serves_def req [symmetric] by (auto simp: Let_def req r)
  have at: "ct_byte x k = (accept_head @ body) ! k" if "k < length (accept_head @ body)" for k
    using arg_cong [OF x(4), of "\<lambda>l. l ! k"] that by (simp add: bytes_at_nth)
  have len: "length accept_head = 16" by (simp add: accept_head_def)
  have "bytes_at (ct_byte x) 8 2 = be16 CT_ACCEPT_RESPONSE"
    using at [of 8] at [of 9] len by (simp add: bytes_at_2 nth_append) (simp add: accept_head_def be16_def)
  then have "ct_status QLA_SUCCESS x = QLA_SUCCESS"
    using x(3) by (simp add: ct_status_def qla2x00_chk_ms_status_def Let_def completed_def split: if_splits)
  moreover have "bytes_at (ct_byte x) 16 (length body) = body"
    using len by (intro nth_equalityI) (simp_all add: bytes_at_nth at nth_append)
  ultimately show ?thesis
    using x by (simp add: ns_request_def qla2x00_prep_ct_req_def flip: w1_def) (simp flip: w2_def)
qed

lemma gid_loop_spec:
  assumes "\<And>k. i \<le> k \<Longrightarrow> k < j \<Longrightarrow> \<not> bit (b (16 + 4 * k)) 7" "bit (b (16 + 4 * j)) 7" "i \<le> j" "j < i + n"
    and "j < length l"
  shows "\<exists>l'. gid_loop cl b n i l = (True, l') \<and> length l' = length l
    \<and> (\<forall>k < length l. l' ! k = (if i \<le> k \<and> k \<le> j then gid_entry cl b k (l ! k) else l ! k))"
  using assms
proof (induction n arbitrary: i l)
  case (Suc n)
  define l1 where "l1 = l[i := gid_entry cl b i (l ! i)]"
  show ?case
  proof (cases "i = j")
    case True
    then show ?thesis using Suc.prems by (auto simp: Let_def nth_list_update)
  next
    case False
    then obtain l' where l': "gid_loop cl b n (Suc i) l1 = (True, l')" "length l' = length l1"
      "\<forall>k < length l1. l' ! k = (if Suc i \<le> k \<and> k \<le> j then gid_entry cl b k (l1 ! k) else l1 ! k)"
      using Suc.IH [of "Suc i" l1] Suc.prems by (auto simp: l1_def)
    have "l' ! k = (if i \<le> k \<and> k \<le> j then gid_entry cl b k (l ! k) else l ! k)" if "k < length l" for k
      using l'(3) that Suc.prems False by (cases "k = i") (auto simp: l1_def nth_list_update)
    moreover have "\<not> bit (b (16 + 4 * i)) 7" using Suc.prems False by simp
    ultimately show ?thesis using l'(1,2) by (simp add: Let_def l1_def)
  qed
qed simp

lemma per_port_spec:
  assumes step: "\<And>s w. I w \<Longrightarrow> \<exists>v. ask s w = Some (QLA_SUCCESS, Test_last, g s, v) \<and> I v"
    and keep: "\<And>s. sw_rsvd_1 (g s) = sw_rsvd_1 s" and "I w" "i \<le> j" "j < i + n" "j < length l"
    and "\<And>k. i \<le> k \<Longrightarrow> k < j \<Longrightarrow> sw_rsvd_1 (l ! k) = 0" "sw_rsvd_1 (l ! j) \<noteq> 0"
  shows "\<exists>l' v. per_port ask n i rv l w = Some (QLA_SUCCESS, l', v) \<and> I v \<and> length l' = length l
    \<and> (\<forall>k < length l. l' ! k = (if i \<le> k \<and> k \<le> j then g (l ! k) else l ! k))"
  using assms(3-)
proof (induction n arbitrary: i l rv w)
  case (Suc n)
  obtain v where v: "ask (l ! i) w = Some (QLA_SUCCESS, Test_last, g (l ! i), v)" "I v"
    using step [OF Suc.prems(1)] by blast
  define l1 where "l1 = l[i := g (l ! i)]"
  show ?case
  proof (cases "i = j")
    case True
    then show ?thesis using Suc.prems v keep by (auto simp: Let_def nth_list_update)
  next
    case False
    then obtain l' u where l': "per_port ask n (Suc i) QLA_SUCCESS l1 v = Some (QLA_SUCCESS, l', u)" "I u" "length l' = length l1"
      "\<forall>k < length l1. l' ! k = (if Suc i \<le> k \<and> k \<le> j then g (l1 ! k) else l1 ! k)"
      using Suc.IH [of v "Suc i" l1 QLA_SUCCESS] Suc.prems v by (auto simp: l1_def)
    have "l' ! k = (if i \<le> k \<and> k \<le> j then g (l ! k) else l ! k)" if "k < length l" for k
      using l'(4) that Suc.prems False by (cases "k = i") (auto simp: l1_def nth_list_update)
    moreover have "sw_rsvd_1 (l ! i) = 0" using Suc.prems False by simp
    ultimately show ?thesis using l'(1-3) v(1) keep by (simp add: Let_def l1_def)
  qed
qed simp

lemma nth_concat_4:
  "\<forall>x \<in> set xs. length x = 4 \<Longrightarrow> k < length xs \<Longrightarrow> r < 4 \<Longrightarrow> concat xs ! (4 * k + r) = xs ! k ! r"
proof (induction xs arbitrary: k)
  case (Cons x xs)
  then show ?case by (cases k) (auto simp: nth_append)
qed simp

lemma length_concat_4: "\<forall>x \<in> set xs. length x = 4 \<Longrightarrow> length (concat xs) = 4 * length xs"
  by (induction xs) auto

lemma id_entries_nth:
  assumes "\<forall>p \<in> set ps. length p = 3" "k < length ps" "r < 4"
  shows "id_entries ps ! (4 * k + r) = ((if Suc k = length ps then 0x80 else 0) # ps ! k) ! r"
    and "length (id_entries ps) = 4 * length ps"
proof -
  define xs where "xs = map (\<lambda>k. (if Suc k = length ps then 0x80 else 0) # ps ! k) [0..<length ps]"
  have "\<forall>x \<in> set xs. length x = 4" using assms(1) by (auto simp: xs_def)
  then show "id_entries ps ! (4 * k + r) = ((if Suc k = length ps then 0x80 else 0) # ps ! k) ! r"
    "length (id_entries ps) = 4 * length ps"
    using nth_concat_4 [of xs k r] length_concat_4 [of xs] assms(2,3)
    by (simp_all add: id_entries_def flip: xs_def) (simp_all add: xs_def)
qed

definition scanned :: "name_db \<Rightarrow> nat \<Rightarrow> sw_info \<Rightarrow> bool" where
  "scanned db k s \<longleftrightarrow> sw_id s = db_ports db ! k \<and> sw_port_name s = db_port_name db (db_ports db ! k)
     \<and> sw_node_name s = db_node_name db (db_ports db ! k) \<and> (sw_rsvd_1 s \<noteq> 0 \<longleftrightarrow> Suc k = length (db_ports db))"

lemma gid_served:
  assumes srv: "serves e (ns_answer db) v" and db: "db_ok db" and new: "\<not> is_old v" and dma: "ms_iocb_dma v \<noteq> ct_sns_dma v"
    and fits: "length (db_ports db) \<le> unat (max_fibre_devices v)" "length l = unat (max_fibre_devices v)"
  shows "\<exists>l' x. qla2x00_gid_pt e l v = Some (QLA_SUCCESS, l', x) \<and> same_buffers v x \<and> length l' = length l
    \<and> (\<forall>k < length l. l' ! k = (if k < length (db_ports db) then gid_entry True (ct_byte x) k (l ! k) else l ! k))
    \<and> (\<forall>k < length (db_ports db). \<forall>r < 4. ct_byte x (16 + 4 * k + r)
         = ((if Suc k = length (db_ports db) then 0x80 else 0) # db_ports db ! k) ! r)"
proof -
  define ps where "ps = db_ports db"
  have ps: "ps \<noteq> []" "\<forall>p \<in> set ps. length p = 3" using db by (simp_all add: db_ok_def ps_def)
  have "ns_answer db (ct_head 0xFC 0x02 GID_PT_CMD (qla2x00_gid_pt_rsp_size v) @ pad_bytes 4 [NS_NX_PORT_TYPE])
      = accept_head @ id_entries ps"
    by (simp add: ns_answer_def Let_def head_opcode ps_def)
  then obtain x where x: "ns_request e GID_PT_CMD (16 + 4) (qla2x00_gid_pt_rsp_size v) [NS_NX_PORT_TYPE] v = Some (QLA_SUCCESS, x)"
    "same_buffers v x" "bytes_at (ct_byte x) 16 (length (id_entries ps)) = id_entries ps"
    using ns_request_served [OF srv _ dma, of v "[NS_NX_PORT_TYPE]" GID_PT_CMD "qla2x00_gid_pt_rsp_size v" "id_entries ps"]
    by (auto simp: same_buffers_def)
  have at: "ct_byte x (16 + 4 * k + r) = ((if Suc k = length ps then 0x80 else 0) # ps ! k) ! r" if "k < length ps" "r < 4" for k r
    using arg_cong [OF x(3), of "\<lambda>l. l ! (4 * k + r)"] id_entries_nth [OF ps(2) that] that
    by (simp add: bytes_at_nth add.assoc)
  define j where "j = length ps - 1"
  have j: "Suc j = length ps" using ps(1) by (simp add: j_def)
  have "\<exists>l'. gid_loop True (ct_byte x) (unat (max_fibre_devices v)) 0 l = (True, l') \<and> length l' = length l
    \<and> (\<forall>k < length l. l' ! k = (if 0 \<le> k \<and> k \<le> j then gid_entry True (ct_byte x) k (l ! k) else l ! k))"
    using j fits at [of _ 0] by (intro gid_loop_spec) (auto simp: ps_def [symmetric])
  then obtain l' where l': "gid_loop True (ct_byte x) (unat (max_fibre_devices v)) 0 l = (True, l')" "length l' = length l"
    "\<forall>k < length l. l' ! k = (if k \<le> j then gid_entry True (ct_byte x) k (l ! k) else l ! k)"
    by auto
  have "max_fibre_devices x = max_fibre_devices v" using x(2) by (simp add: same_buffers_def)
  then have "qla2x00_gid_pt e l v = Some (QLA_SUCCESS, l', x)"
    using new x(1) l'(1) by (simp add: qla2x00_gid_pt_def gid_answer_def)
  then show ?thesis using x(2) l' at j unfolding ps_def [symmetric] by (auto simp: less_Suc_eq_le)
qed

lemma query_served:
  assumes srv: "serves e (ns_answer db) v" and dma: "ms_iocb_dma v \<noteq> ct_sns_dma v"
    and ans: "\<And>s. ns_answer db (ct_head 0xFC 0x02 opc b @ pad_bytes 4 (0 # sw_id s)) = accept_head @ nm (sw_id s)"
    and len: "\<And>p. length (nm p) = 8" and keep: "\<And>s n. sw_rsvd_1 (f n s) = sw_rsvd_1 s"
    and w: "same_buffers v w" and j: "j < length l" "length l = unat (max_fibre_devices v)"
    and marks: "\<And>k. k < j \<Longrightarrow> sw_rsvd_1 (l ! k) = 0" "sw_rsvd_1 (l ! j) \<noteq> 0"
  shows "\<exists>l' x. all_ports (id_query e opc b f) QLA_SUCCESS l w = Some (QLA_SUCCESS, l', x) \<and> same_buffers v x
    \<and> length l' = length l \<and> (\<forall>k < length l. l' ! k = (if k \<le> j then f (nm (sw_id (l ! k))) (l ! k) else l ! k))"
proof -
  have step: "\<exists>x. id_query e opc b f s u = Some (QLA_SUCCESS, Test_last, f (nm (sw_id s)) s, x) \<and> same_buffers v x"
    if "same_buffers v u" for s u
    using ns_request_served [OF srv that dma _ ans, of s "16 + 4"] len by (auto simp: id_query_def sw_id_def)
  have "max_fibre_devices w = max_fibre_devices v" using w by (simp add: same_buffers_def)
  then show ?thesis
    using per_port_spec [of "same_buffers v" "id_query e opc b f" "\<lambda>s. f (nm (sw_id s)) s", OF step keep w, of 0 j
        "unat (max_fibre_devices v)" l QLA_SUCCESS] j marks
    by (simp add: all_ports_def)
qed


lemma pad_id: "length p = 3 \<Longrightarrow> drop 1 (pad_bytes 4 (0 # p)) = p"
  by (simp add: pad_bytes_def)

lemma ns_answer_names:
  assumes "length p = 3"
  shows "ns_answer db (ct_head 0xFC 0x02 GPN_ID_CMD b @ pad_bytes 4 (0 # p)) = accept_head @ db_port_name db p"
    and "ns_answer db (ct_head 0xFC 0x02 GNN_ID_CMD b @ pad_bytes 4 (0 # p)) = accept_head @ db_node_name db p"
  using pad_id [OF assms]
  by (simp_all add: ns_answer_def Let_def head_opcode)
    (simp_all add: be16_def MSB_def LSB_def GPN_ID_CMD_def GID_PT_CMD_def GNN_ID_CMD_def)

text \<open>
  C34. The scan of the fabric: of a name server that knows no more ports than the adapter can, the three
  requests one after the other make the list of its ports, in its order, each with its names, and
  mark the last one and no other. What is behind it in the list is left as it was.
\<close>

theorem name_server_scan:
  assumes "serves e (ns_answer db) w" "db_ok db" "\<not> is_old w" "ms_iocb_dma w \<noteq> ct_sns_dma w"
    and "length (db_ports db) \<le> unat (max_fibre_devices w)" "length l = unat (max_fibre_devices w)"
    and "\<forall>s \<in> set l. sw_rsvd_1 s = 0"
  shows "\<exists>l1 l2 l3 w1 w2 w3. qla2x00_gid_pt e l w = Some (QLA_SUCCESS, l1, w1)
    \<and> qla2x00_gpn_id e l1 w1 = Some (QLA_SUCCESS, l2, w2) \<and> qla2x00_gnn_id e l2 w2 = Some (QLA_SUCCESS, l3, w3)
    \<and> length l3 = length l
    \<and> (\<forall>k < length l. if k < length (db_ports db) then scanned db k (l3 ! k) else l3 ! k = l ! k)"
proof -
  define ps where "ps = db_ports db"
  note old = assms(3)
  obtain l1 w1 where g: "qla2x00_gid_pt e l w = Some (QLA_SUCCESS, l1, w1)" "same_buffers w w1" "length l1 = length l"
    "\<forall>k < length l. l1 ! k = (if k < length ps then gid_entry True (ct_byte w1) k (l ! k) else l ! k)"
    "\<forall>k < length ps. \<forall>r < 4. ct_byte w1 (16 + 4 * k + r) = ((if Suc k = length ps then 0x80 else 0) # ps ! k) ! r"
    using gid_served [OF assms(1-6)] unfolding ps_def by blast
  have ps: "ps \<noteq> []" "\<And>k. k < length ps \<Longrightarrow> length (ps ! k) = 3" using assms(2) by (simp_all add: db_ok_def ps_def)
  have zero: "sw_rsvd_1 (l ! k) = 0" if "k < length l" for k using assms(7) that by simp
  have ids: "sw_id (l1 ! k) = ps ! k \<and> (sw_rsvd_1 (l1 ! k) \<noteq> 0 \<longleftrightarrow> Suc k = length ps)" if "k < length ps" for k
  proof -
    have kl: "k < length l" using that assms(5,6) by (simp add: ps_def)
    have b: "ct_byte w1 (16 + 4 * k) = (if Suc k = length ps then 0x80 else 0)"
      "ct_byte w1 (16 + 4 * k + 1) = ps ! k ! 0" "ct_byte w1 (16 + 4 * k + 2) = ps ! k ! 1" "ct_byte w1 (16 + 4 * k + 3) = ps ! k ! 2"
      using g(5) [rule_format, OF that, of 0] g(5) [rule_format, OF that, of 1] g(5) [rule_format, OF that, of 2]
        g(5) [rule_format, OF that, of 3] by simp_all
    have "length (ps ! k) = 3" using ps(2) that by simp
    then obtain x y z where "ps ! k = [x, y, z]" by (auto simp: length_Suc_conv numeral_3_eq_3)
    then show ?thesis using g(4) kl that b zero [OF kl]
      by (auto simp: gid_entry_def Let_def sw_id_def bit_simps)
  qed
  define j where "j = length ps - 1"
  have j1: "Suc j = length ps" using ps(1) by (simp add: j_def)
  have j: "Suc j = length ps" "j < length l" using j1 assms(5,6) unfolding ps_def by linarith+
  have old1: "\<not> is_old w1" using old g(2) by (simp add: same_buffers_def is_old_def)
  have unmarked: "sw_rsvd_1 (l1 ! k) = 0" if "k < j" for k
    using ids [of k] that j by simp
  have marked: "sw_rsvd_1 (l1 ! j) \<noteq> 0" using ids [of j] j by simp
  note marks = marked unmarked
  have gpn: "\<exists>l' x. qla2x00_gpn_id e l1 w1 = Some (QLA_SUCCESS, l', x) \<and> same_buffers w x \<and> length l' = length l1
      \<and> (\<forall>k < length l1. l' ! k = (if k \<le> j then set_port_name (db_port_name db (sw_id (l1 ! k))) (l1 ! k) else l1 ! k))"
    unfolding qla2x00_gpn_id_def if_not_P [OF old1]
    by (rule query_served [OF assms(1,4)])
      (use j marks assms(2,6) g(2,3) in \<open>auto simp: ns_answer_names sw_id_def set_port_name_def db_ok_def\<close>)
  then obtain l2 w2 where p: "qla2x00_gpn_id e l1 w1 = Some (QLA_SUCCESS, l2, w2)" "same_buffers w w2" "length l2 = length l1"
    "\<forall>k < length l1. l2 ! k = (if k \<le> j then set_port_name (db_port_name db (sw_id (l1 ! k))) (l1 ! k) else l1 ! k)"
    by blast
  have same: "sw_id (l2 ! k) = sw_id (l1 ! k) \<and> sw_rsvd_1 (l2 ! k) = sw_rsvd_1 (l1 ! k)" if "k < length l1" for k
    using p(4) that by (simp add: set_port_name_def sw_id_def)
  have old2: "\<not> is_old w2" using old p(2) by (simp add: same_buffers_def is_old_def)
  have "\<exists>l' x. qla2x00_gnn_id e l2 w2 = Some (QLA_SUCCESS, l', x) \<and> same_buffers w x \<and> length l' = length l2
      \<and> (\<forall>k < length l2. l' ! k = (if k \<le> j then set_node_name (db_node_name db (sw_id (l2 ! k))) (l2 ! k) else l2 ! k))"
    unfolding qla2x00_gnn_id_def if_not_P [OF old2]
    by (rule query_served [OF assms(1,4)])
      (use j marks same assms(2,6) g(3) p(2,3) in \<open>auto simp: ns_answer_names sw_id_def set_node_name_def db_ok_def\<close>)
  then obtain l3 w3 where n: "qla2x00_gnn_id e l2 w2 = Some (QLA_SUCCESS, l3, w3)" "length l3 = length l2"
    "\<forall>k < length l2. l3 ! k = (if k \<le> j then set_node_name (db_node_name db (sw_id (l2 ! k))) (l2 ! k) else l2 ! k)"
    by blast
  have "if k < length ps then scanned db k (l3 ! k) else l3 ! k = l ! k" if "k < length l" for k
    using n(3) p(3,4) g(3,4) ids [of k] same [of k] that j
    by (auto simp: scanned_def ps_def [symmetric] set_node_name_def set_port_name_def sw_id_def less_Suc_eq_le)
  then have "\<forall>k < length l. if k < length (db_ports db) then scanned db k (l3 ! k) else l3 ! k = l ! k"
    by (simp add: ps_def)
  then show ?thesis
    using g(1,3) p(1,3) n(1,2)
    by (intro exI [of _ l1] exI [of _ l2] exI [of _ l3] exI [of _ w1] exI [of _ w2] exI [of _ w3]) simp
qed

section \<open>Witnesses\<close>

definition sample_ct :: ct_world where
  "sample_ct = \<lparr>ct_mbx = sample_mw\<lparr>mw_host := sample_host\<lparr>vha_port_name := replicate 8 0x21\<rparr>\<rparr>,
     ms_iocb_dma = 0x1000, ct_sns_dma = 0x2000, sns_cmd_dma = 0x3000, max_fibre_devices = 3, mgmt_svr_loop_id = 10,
     management_server_logged_in = False, ct_gpsc_supported = True, control_requests = 0\<rparr>"

definition sample_hba :: hba_info where
  "sample_hba = (vpd_pair 1)\<lparr>fabric_node_name := replicate 8 0x10\<rparr>"

definition blank_entry :: sw_info where
  "blank_entry = \<lparr>sw_domain = 0, sw_area = 0, sw_al_pa = 0, sw_rsvd_1 = 0, sw_node_name = replicate 8 0,
     sw_port_name = replicate 8 0, sw_fabric_port_name = replicate 8 0, sw_fp_speed = 0, sw_fc4_type = 0\<rparr>"

definition mute_env :: ct_env where
  "mute_env = \<lparr>ce_issue = (\<lambda>m w. Some (QLA_SUCCESS, m, w)), ce_junk = sample_junk, ce_pool = None, ce_mb = []\<rparr>"

definition sample_db :: name_db where
  "sample_db = \<lparr>db_ports = [[1, 2, 3], [1, 2, 4]], db_port_name = (\<lambda>p. replicate 8 (last p)), db_node_name = (\<lambda>p. replicate 8 7)\<rparr>"

definition serving_env :: ct_env where
  "serving_env = \<lparr>ce_issue = (\<lambda>m w. Some (QLA_SUCCESS, m,
       put_mem 0x2000 (words_of (ns_answer sample_db (bytes_at (\<lambda>k. get8 0 k (mw_mem w 0x2000)) 0 20)))
         (put_mem 0x1000 (replicate 16 0) w))), ce_junk = sample_junk, ce_pool = None, ce_mb = []\<rparr>"

lemma sample_ct_simps [simp]:
  "\<not> is_old sample_ct" "ms_iocb_dma sample_ct = 0x1000" "ct_sns_dma sample_ct = 0x2000" "max_fibre_devices sample_ct = 3"
  by (simp_all add: sample_ct_def is_old_def ct_dt_def mw_dt_def sample_host_def dt_defs IS_QLA2100_def is_dt_def
      DT_ISP2100_def BIT_def)

theorem fdmi_blocks_parse_witness:
  "fdmi_readable RHBA_CMD (rhba_ids sample_ct) (fdmi_hba_attrs sample_hba (ct_mbx sample_ct))
     (fdmi_prepare RHBA_CMD (rhba_ids sample_ct) FDMI_HBA_ATTR_COUNT (fdmi_hba_attrs sample_hba) sample_ct)"
proof -
  have "names_ok sample_hba sample_ct"
    by (simp add: names_ok_def sample_ct_def sample_mw_def sample_fw_def sample_hba_def)
  then show ?thesis using fdmi_blocks_parse [of sample_hba sample_ct] by simp
qed

theorem unanswered_refused_witness:
  "map_option fst (qla2x00_rft_id mute_env sample_ct) \<noteq> Some QLA_SUCCESS"
proof -
  have "unanswered mute_env (ct_sns_dma sample_ct)" by (simp add: unanswered_def mute_env_def)
  then show ?thesis using unanswered_refused [of mute_env sample_ct] by fastforce
qed

lemma sample_db_ok: "db_ok sample_db"
  by (simp add: db_ok_def sample_db_def)

lemma ns_answer_4: "4 dvd length (ns_answer sample_db req)"
proof -
  have "length accept_head = 4 * 4" "length (id_entries (db_ports sample_db)) = 4 * length (db_ports sample_db)"
    using sample_db_ok by (simp_all add: accept_head_def id_entries_nth(2) [where k = 0 and r = 0] db_ok_def)
  moreover have "length (db_port_name sample_db p) = 4 * 2" "length (db_node_name sample_db p) = 4 * 2" for p
    using sample_db_ok by (simp_all add: db_ok_def)
  ultimately show ?thesis by (simp add: ns_answer_def Let_def)
qed

lemma serving_serves: "serves serving_env (ns_answer sample_db) sample_ct"
proof -
  have "\<exists>x. ct_issue serving_env w = Some (QLA_SUCCESS, x) \<and> same_buffers sample_ct x \<and> completed x
      \<and> bytes_at (ct_byte x) 0 (length (ns_answer sample_db (bytes_at (ct_byte w) 0 20)))
          = ns_answer sample_db (bytes_at (ct_byte w) 0 20)"
    if w: "same_buffers sample_ct w" for w
  proof -
    define r where "r = ns_answer sample_db (bytes_at (ct_byte w) 0 20)"
    define buf :: "u32 list" where "buf = put8 0 ENTRY_STATUS_OFF 0 (replicate 16 0)"
    define x where "x = upd_ct (\<lambda>v. put_mem 0x1000 buf (put_mem 0x2000 (words_of r) (put_mem 0x1000 (replicate 16 0) v))) w"
    have a: "ms_iocb_dma w = 0x1000" "ct_sns_dma w = 0x2000" using w by (simp_all add: same_buffers_def)
    have "get8 0 ENTRY_STATUS_OFF (replicate 16 0) = (0 :: u8)" by (simp add: get8_def get_byte_def)
    then have iss: "ct_issue serving_env w = Some (QLA_SUCCESS, x)"
      using a unfolding x_def buf_def r_def
      by (simp add: ct_issue_def qla2x00_issue_iocb_def qla2x00_issue_iocb_timeout_def mbx_status_def serving_env_def
          Let_def upd_ct_def ct_byte_def [abs_def])
    have "same_buffers sample_ct x" using w by (simp add: x_def same_buffers_def ct_dt_def)
    moreover have "ms_iocb x = buf" using a by (simp add: x_def ms_iocb_def)
    then have "completed x"
      by (simp add: completed_def buf_def entry_simps CS_COMPLETE_def) (simp add: get16_def get_half_def)
    moreover have "bytes_at (ct_byte x) 0 (length r) = r"
      using a ns_answer_4 by (intro nth_equalityI) (simp_all add: bytes_at_nth x_def ct_byte_def get8_words_of r_def)
    ultimately show ?thesis using iss by (simp add: r_def)
  qed
  then show ?thesis by (simp add: serves_def Let_def)
qed

theorem name_server_scan_witness:
  "\<exists>l1 l2 l3 w1 w2 w3. qla2x00_gid_pt serving_env (replicate 3 blank_entry) sample_ct = Some (QLA_SUCCESS, l1, w1)
    \<and> qla2x00_gpn_id serving_env l1 w1 = Some (QLA_SUCCESS, l2, w2)
    \<and> qla2x00_gnn_id serving_env l2 w2 = Some (QLA_SUCCESS, l3, w3)
    \<and> sw_port_name (l3 ! 1) = replicate 8 4 \<and> sw_rsvd_1 (l3 ! 0) = 0 \<and> sw_rsvd_1 (l3 ! 1) \<noteq> 0"
proof -
  have db: "db_ports sample_db = [[1, 2, 3], [1, 2, 4]]" by (simp add: sample_db_def)
  have n: "unat (max_fibre_devices sample_ct) = 3" by simp
  obtain l1 l2 l3 w1 w2 w3 where run: "qla2x00_gid_pt serving_env (replicate 3 blank_entry) sample_ct = Some (QLA_SUCCESS, l1, w1)"
    "qla2x00_gpn_id serving_env l1 w1 = Some (QLA_SUCCESS, l2, w2)" "qla2x00_gnn_id serving_env l2 w2 = Some (QLA_SUCCESS, l3, w3)"
    and l3: "\<forall>k < length (replicate 3 blank_entry). if k < length (db_ports sample_db) then scanned sample_db k (l3 ! k)
      else l3 ! k = replicate 3 blank_entry ! k"
    using name_server_scan [OF serving_serves sample_db_ok, of "replicate 3 blank_entry", unfolded n] db
    by (auto simp: blank_entry_def)
  have "scanned sample_db 0 (l3 ! 0)" "scanned sample_db 1 (l3 ! 1)"
    using l3 [rule_format, of 0] l3 [rule_format, of 1] by (simp_all add: db)
  then show ?thesis
    using run by (intro exI [of _ l1] exI [of _ l2] exI [of _ l3] exI [of _ w1] exI [of _ w2] exI [of _ w3])
      (simp add: scanned_def db, simp add: sample_db_def eval_nat_numeral)
qed

theorem vpd_field_reads_witness:
  "qla2xxx_get_vpd_field DT_FWI2 (sample_hba\<lparr>vpd := (vpd sample_hba)(20 := 9)\<rparr>) (c_str ''SN'') 32
     = qla2xxx_get_vpd_field DT_FWI2 sample_hba (c_str ''SN'') 32"
proof -
  have "vpd_size sample_hba = 11" by (simp add: sample_hba_def vpd_pair_def)
  then have "\<forall>k < vpd_size (sample_hba\<lparr>vpd := (vpd sample_hba)(20 := 9)\<rparr>) + 2.
      vpd (sample_hba\<lparr>vpd := (vpd sample_hba)(20 := 9)\<rparr>) k = vpd sample_hba k"
    by simp
  then show ?thesis
    using vpd_field_reads [THEN conjunct1, rule_format, of "sample_hba\<lparr>vpd := (vpd sample_hba)(20 := 9)\<rparr>" sample_hba "c_str ''SN''"]
    by simp
qed

end
