(* ===== verification/Discovery_Claims.thy ===== *)
theory Discovery_Claims
  imports Loop_Resync Ct_Scan Vport_Claims
begin

text \<open>
  Properties of the discovery: loop identifiers stay the property of one port each, what the scan of
  the fabric makes of the name server's list, and where logging in departs from both.
\<close>

section \<open>Loop identifiers\<close>

text \<open>Every identifier a port of \<open>P\<close> holds is marked, and no two ports hold the same.\<close>

definition ids_marked :: "nat set \<Rightarrow> disc \<Rightarrow> bool" where
  "ids_marked P d \<longleftrightarrow>
     (\<forall>f\<in>P. dv_loop_id (devs d f) = FC_NO_LOOP_ID \<or> loop_id_map d (unat (dv_loop_id (devs d f))))
     \<and> (\<forall>f\<in>P. \<forall>g\<in>P. f \<noteq> g \<longrightarrow> dv_loop_id (devs d f) = dv_loop_id (devs d g) \<longrightarrow> dv_loop_id (devs d f) = FC_NO_LOOP_ID)"

lemma upd_dev_simps [simp]:
  "devs (upd_dev f g d) h = (if h = f then g (devs d f) else devs d h)"
  "loop_id_map (upd_dev f g d) = loop_id_map d" "dc_ct (upd_dev f g d) = dc_ct d"
  "dc_fcports (upd_dev f g d) = dc_fcports d" "dc_fresh (upd_dev f g d) = dc_fresh d"
  "max_loop_id (upd_dev f g d) = max_loop_id d" "dc_topology (upd_dev f g d) = dc_topology d"
  "d_mbx (upd_dev f g d) = d_mbx d" "d_dt (upd_dev f g d) = d_dt d" "fc_of (upd_dev f g d) h = fc_of d h"
  "online h (upd_dev f g d) = online h d" "min_external_loopid (upd_dev f g d) = min_external_loopid d"
  by (simp_all add: upd_dev_def d_mbx_def d_dt_def fc_of_def online_def)

lemma reserved_simps [simp]:
  "qla2x00_is_reserved_id i (upd_dev f g d) = qla2x00_is_reserved_id i d"
  "qla2x00_is_reserved_id i (d\<lparr>loop_id_map := m\<rparr>) = qla2x00_is_reserved_id i d"
  by (simp_all add: qla2x00_is_reserved_id_def upd_dev_def d_dt_def d_mbx_def)

lemma find_new_cases:
  defines "i \<equiv> (\<lambda>d. (of_nat (find_first_zero_bit (loop_id_map d) (unat (max_fibre_devices (dc_ct d)))) :: u16))"
  shows "qla2x00_find_new_loop_id f d =
    (if unat (max_fibre_devices (dc_ct d)) \<le> unat (i d) \<or> qla2x00_is_reserved_id (i d) d
     then (QLA_FUNCTION_FAILED, upd_dev f (\<lambda>x. x\<lparr>dv_loop_id := FC_NO_LOOP_ID\<rparr>) d)
     else (QLA_SUCCESS, upd_dev f (\<lambda>x. x\<lparr>dv_loop_id := i d\<rparr>) (d\<lparr>loop_id_map := (loop_id_map d)(unat (i d) := True)\<rparr>)))"
  by (simp add: qla2x00_find_new_loop_id_def i_def Let_def)

lemma first_zero_free:
  fixes i :: u16
  assumes "i = of_nat (find_first_zero_bit m n)" "unat i < n" "n < 2 ^ 16"
  shows "find_first_zero_bit m n = unat i" "\<not> m (unat i)" "\<forall>j < unat i. m j"
proof -
  have "find_first_zero_bit m n < 2 ^ 16"
    using find_first_zero_bit_le [of m n] assms(3) by simp
  then show eq: "find_first_zero_bit m n = unat i" using assms(1) by (simp add: unat_of_nat take_bit_eq_mod)
  show "\<not> m (unat i)" using find_first_zero_bit_free [of m n] assms(2) eq by simp
  show "\<forall>j < unat i. m j" using find_first_zero_bit_least [of _ m n] eq assms(2) by simp
qed

text \<open>
  C37. Loop identifiers: an allocation takes the least identifier no port holds, within the map and
  not reserved, or leaves the port without one; releasing marks it free again. Every identifier in
  use stays marked, and no two ports come to hold the same.
\<close>
theorem loop_ids_unique:
  assumes "ids_marked P d" "f \<in> P"
  shows "ids_marked P (snd (qla2x00_find_new_loop_id f d)) \<and> ids_marked P (qla2x00_clear_loop_id f d)
    \<and> (case qla2x00_find_new_loop_id f d of (rv, d') \<Rightarrow>
         let i = dv_loop_id (devs d' f)
         in if rv = QLA_SUCCESS
            then unat i < unat (max_fibre_devices (dc_ct d)) \<and> \<not> qla2x00_is_reserved_id i d
                 \<and> \<not> loop_id_map d (unat i) \<and> (\<forall>j < unat i. loop_id_map d j)
                 \<and> loop_id_map d' = (loop_id_map d)(unat i := True)
            else i = FC_NO_LOOP_ID \<and> loop_id_map d' = loop_id_map d)"
proof (intro conjI)
  let ?n = "unat (max_fibre_devices (dc_ct d))"
  define i :: u16 where "i = of_nat (find_first_zero_bit (loop_id_map d) ?n)"
  have n: "?n < 2 ^ 16" using unsigned_less [of "max_fibre_devices (dc_ct d)"] by simp
  note free = first_zero_free [OF i_def _ n]
  show "ids_marked P (snd (qla2x00_find_new_loop_id f d))"
    using assms free unfolding ids_marked_def find_new_cases i_def [symmetric] by (auto simp: Let_def)
  show "ids_marked P (qla2x00_clear_loop_id f d)"
    using assms unfolding ids_marked_def qla2x00_clear_loop_id_def by (auto simp: Let_def dest: unsigned_word_eqI)
  show "case qla2x00_find_new_loop_id f d of (rv, d') \<Rightarrow>
         let i = dv_loop_id (devs d' f)
         in if rv = QLA_SUCCESS
            then unat i < ?n \<and> \<not> qla2x00_is_reserved_id i d
                 \<and> \<not> loop_id_map d (unat i) \<and> (\<forall>j < unat i. loop_id_map d j)
                 \<and> loop_id_map d' = (loop_id_map d)(unat i := True)
            else i = FC_NO_LOOP_ID \<and> loop_id_map d' = loop_id_map d"
    using free unfolding find_new_cases i_def [symmetric] by (auto simp: Let_def)
qed

section \<open>Logins\<close>

lemma upd_d_simps [simp]:
  "devs (upd_d f d) = devs d" "loop_id_map (upd_d f d) = loop_id_map d" "dc_fcports (upd_d f d) = dc_fcports d"
  "dc_fresh (upd_d f d) = dc_fresh d" "max_loop_id (upd_d f d) = max_loop_id d" "dc_topology (upd_d f d) = dc_topology d"
  "max_fibre_devices (dc_ct (upd_d f d)) = max_fibre_devices (dc_ct d)" "d_mbx (upd_d f d) = f (d_mbx d)"
  "min_external_loopid (upd_d f d) = min_external_loopid d"
  by (simp_all add: upd_d_def upd_ct_def d_mbx_def)

lemma upd_st_simps [simp]:
  "devs (upd_st f g d) = devs d" "loop_id_map (upd_st f g d) = loop_id_map d" "dc_fcports (upd_st f g d) = dc_fcports d"
  "dc_fresh (upd_st f g d) = dc_fresh d" "max_loop_id (upd_st f g d) = max_loop_id d" "dc_topology (upd_st f g d) = dc_topology d"
  "max_fibre_devices (dc_ct (upd_st f g d)) = max_fibre_devices (dc_ct d)" "d_dt (upd_st f g d) = d_dt d"
  "min_external_loopid (upd_st f g d) = min_external_loopid d"
  "fc_of (upd_st f g d) h = (if h = f then g (fc_of d f) else fc_of d h)"
  "vha_d_id (mw_host (d_mbx (upd_st f g d))) = vha_d_id (mw_host (d_mbx d))"
  by (simp_all add: upd_st_def upd_h_def fc_of_def d_dt_def mw_dt_def upd_fc_def)

lemma reserved_st [simp]: "qla2x00_is_reserved_id i (upd_st f g d) = qla2x00_is_reserved_id i d"
  by (simp add: qla2x00_is_reserved_id_def)

lemma dev_login_quiet:
  assumes "de_others e = (\<lambda>d. d)" "dev_login e f opt d = Some (r, d')"
  shows "devs d' = devs d" "loop_id_map d' = loop_id_map d" "max_loop_id d' = max_loop_id d"
    "max_fibre_devices (dc_ct d') = max_fibre_devices (dc_ct d)"
  using assms by (auto simp: dev_login_def ask_mbx_def)

declare qla2x00_fabric_login.simps [simp del]

lemma fabric_login_other_id:
  assumes "dev_login e f (BIT 0) d = Some ((QLA_SUCCESS, mb), d1)" "mb ! 0 = MBS_PORT_ID_USED"
  shows "qla2x00_fabric_login e (Suc N) tmp f nxt d =
    qla2x00_fabric_login e N (Some (dv_loop_id (devs d1 f))) f nxt (upd_dev f (\<lambda>x. x\<lparr>dv_loop_id := mb ! 1\<rparr>) d1)"
  by (subst qla2x00_fabric_login.simps) (simp add: assms)

lemma fabric_login_complete:
  assumes "dev_login e f (BIT 0) d = Some ((QLA_SUCCESS, mb), d1)" "mb ! 0 = MBS_COMMAND_COMPLETE"
  shows "qla2x00_fabric_login e (Suc N) (Some t) f nxt d = Some ((QLA_SUCCESS, t), upd_st f (note_login mb) d1)"
proof -
  have "MBS_COMMAND_COMPLETE \<noteq> MBS_PORT_ID_USED" by (simp add: MBS_PORT_ID_USED_def MBS_COMMAND_COMPLETE_def)
  then show ?thesis by (subst qla2x00_fabric_login.simps) (simp add: assms)
qed

text \<open>
  C39. A port the switch already knows under another identifier: the login ends successfully with the
  firmware's identifier, which is not marked, while the one allocated before stays marked though no
  port holds it. The next port without an identifier is given the identifier of the first.
\<close>
theorem port_id_used_shares_id:
  assumes "de_others e = (\<lambda>d. d)"
    and "dev_login e f (BIT 0) d = Some ((QLA_SUCCESS, mb), d1)" "mb ! 0 = MBS_PORT_ID_USED"
    and "dev_login e f (BIT 0) (upd_dev f (\<lambda>x. x\<lparr>dv_loop_id := mb ! 1\<rparr>) d1) = Some ((QLA_SUCCESS, mb2), d2)"
    and "mb2 ! 0 = MBS_COMMAND_COMPLETE" "d_dt d2 = d_dt d"
    and "unat (mb ! 1) < unat (max_fibre_devices (dc_ct d))" "\<not> loop_id_map d (unat (mb ! 1))"
    and "\<forall>j < unat (mb ! 1). loop_id_map d j" "\<not> qla2x00_is_reserved_id (mb ! 1) d" "f \<noteq> g"
  shows "\<exists>d'. qla2x00_fabric_login e (Suc (Suc N)) None f nxt d = Some ((QLA_SUCCESS, dv_loop_id (devs d f)), d')
    \<and> dv_loop_id (devs d' f) = mb ! 1 \<and> loop_id_map d' = loop_id_map d
    \<and> (case qla2x00_find_new_loop_id g d' of (rv, d'') \<Rightarrow>
         rv = QLA_SUCCESS \<and> dv_loop_id (devs d'' g) = mb ! 1 \<and> dv_loop_id (devs d'' f) = mb ! 1)"
proof -
  define d' where "d' = upd_st f (note_login mb2) d2"
  note q1 = dev_login_quiet [OF assms(1,2)] and q2 = dev_login_quiet [OF assms(1,4)]
  have run: "qla2x00_fabric_login e (Suc (Suc N)) None f nxt d = Some ((QLA_SUCCESS, dv_loop_id (devs d f)), d')"
    unfolding fabric_login_other_id [OF assms(2,3)] fabric_login_complete [OF assms(4,5)] d'_def by (simp only: q1)
  have d': "dv_loop_id (devs d' f) = mb ! 1" "loop_id_map d' = loop_id_map d"
      "max_fibre_devices (dc_ct d') = max_fibre_devices (dc_ct d)"
      "qla2x00_is_reserved_id (mb ! 1) d' = qla2x00_is_reserved_id (mb ! 1) d"
    using q1 q2 assms(6) by (simp_all add: d'_def qla2x00_is_reserved_id_def)
  have "find_first_zero_bit (loop_id_map d) (unat (max_fibre_devices (dc_ct d))) = unat (mb ! 1)"
    using assms(7-9) by (intro find_first_zero_bit_at) auto
  then have "case qla2x00_find_new_loop_id g d' of (rv, d'') \<Rightarrow>
         rv = QLA_SUCCESS \<and> dv_loop_id (devs d'' g) = mb ! 1 \<and> dv_loop_id (devs d'' f) = mb ! 1"
    using assms(7,10,11) d' by (simp add: find_new_cases)
  with run d'(1,2) show ?thesis by (intro exI [of _ d'] conjI)
qed

text \<open>
  C40. Before the ISP24xx a login is tried once: the mailbox command reports failure for the answers
  "port identifier used" and "loop identifier used", so that the caller's handling of them, with
  another identifier, is never reached.
\<close>
theorem old_login_tried_once:
  assumes "\<not> IS_FWI2_CAPABLE (d_dt d)" "ce_issue (de_ct e) = qla2x00_mailbox_command io M" "quiet io"
    and "stack_cmd (ce_junk (de_ct e))" "length (ce_mb (de_ct e)) = 32"
    and "length (mw_mailbox_out (d_mbx d)) = 32" "0 < mw_mbx_count (d_mbx d)" "mw_mbx_count (d_mbx d) \<le> 32"
  shows "qla2x00_fabric_login e (Suc N) tmp f nxt d = qla2x00_fabric_login e 1 tmp f nxt d
    \<and> (\<forall>mb d'. dev_login e f (BIT 0) d = Some ((QLA_SUCCESS, mb), d')
         \<longrightarrow> mb ! 0 \<in> {MBS_COMMAND_COMPLETE, 0x4001, 0x4002, 0x4003, MBS_COMMAND_ERROR, MBS_COMMAND_PARAMETER_ERROR})"
proof -
  have ok: "mb ! 0 \<in> {MBS_COMMAND_COMPLETE, 0x4001, 0x4002, 0x4003, MBS_COMMAND_ERROR, MBS_COMMAND_PARAMETER_ERROR}"
    if login: "dev_login e f (BIT 0) d = Some ((QLA_SUCCESS, mb), d')" for mb d'
  proof -
    obtain req rv m w where m: "qla2x00_mailbox_command io M req (d_mbx d) = Some (rv, m, w)" "stack_cmd req"
        "bit (mc_in req) 0" "mb ! 0 = mbx_reg m 0" "rv = QLA_SUCCESS \<or> mbx_reg m 0 \<in> {0x4001, 0x4002, 0x4003, 0x4005, 0x4006}"
      using login assms(1,2,4,5)
      by (auto simp: dev_login_def ask_mbx_def pair_up_def isp_fabric_login_def qla2x00_login_fabric_def d_dt_def Let_def
          stack_cmd_def mbx_req_def bit_MBXS length_set_regs split: bind_splits if_splits)
    show ?thesis
    proof (cases "rv = QLA_SUCCESS")
      case True
      then have "mc_mb m ! 0 = MBS_COMMAND_COMPLETE"
        using success_answered [OF assms(3) m(2) assms(6-8) m(1) [unfolded True]] m(3) assms(7) by metis
      then show ?thesis using m(4) by (simp add: mbx_reg_def)
    qed (use m(4,5) in \<open>auto simp: MBS_COMMAND_ERROR_def MBS_COMMAND_PARAMETER_ERROR_def\<close>)
  qed
  have no: "mb ! 0 \<noteq> MBS_PORT_ID_USED \<and> mb ! 0 \<noteq> MBS_LOOP_ID_USED"
    if "dev_login e f (BIT 0) d = Some ((QLA_SUCCESS, mb), d')" for mb d'
    using ok [OF that] by (auto simp: MBS_COMMAND_COMPLETE_def MBS_COMMAND_ERROR_def MBS_COMMAND_PARAMETER_ERROR_def
        MBS_PORT_ID_USED_def MBS_LOOP_ID_USED_def)
  have "qla2x00_fabric_login e (Suc N) tmp f nxt d = qla2x00_fabric_login e (Suc 0) tmp f nxt d"
  proof (cases "dev_login e f (BIT 0) d")
    case (Some r)
    then obtain rv mb d' where r: "dev_login e f (BIT 0) d = Some ((rv, mb), d')" by (cases r) auto
    then show ?thesis using no [of mb d']
      by (cases "rv = QLA_SUCCESS") (simp_all add: qla2x00_fabric_login.simps Let_def)
  qed (simp add: qla2x00_fabric_login.simps)
  then show ?thesis using ok by simp
qed

end
