(* ===== verification/Discovery_Scan.thy ===== *)
theory Discovery_Scan
  imports Discovery_Claims
begin

text \<open>
  The scan of the fabric (scan_from, the loop of qla2x00_find_all_fabric_devs) against what the name
  server listed: which ports are found again, which are new.
\<close>

section \<open>The reference\<close>

text \<open>An entry that stands for no remote port of interest: the adapter's own ports and the like.\<close>

definition skip_entry :: "disc_env \<Rightarrow> disc \<Rightarrow> sw_info \<Rightarrow> bool" where
  "skip_entry e d x = skip_fabric e d (take_entry x blank_dev)"

definition known_names :: "disc \<Rightarrow> u8 list set" where
  "known_names d = (\<lambda>f. dv_port_name (devs d f)) ` set (dc_fcports d)"

text \<open>The entries a port is to be made for, and the names that are found again.\<close>

definition entries_new :: "disc_env \<Rightarrow> disc \<Rightarrow> sw_info list \<Rightarrow> sw_info list" where
  "entries_new e d l = filter (\<lambda>x. \<not> skip_entry e d x \<and> sw_port_name x \<notin> known_names d) l"

definition entries_found :: "disc_env \<Rightarrow> disc \<Rightarrow> sw_info list \<Rightarrow> u8 list set" where
  "entries_found e d l = {sw_port_name x | x. x \<in> set l \<and> \<not> skip_entry e d x}"

text \<open>A list as the name server's scan leaves it: the last port is marked, and no address comes twice.\<close>

definition complete_list :: "sw_info list \<Rightarrow> sw_info list \<Rightarrow> bool" where
  "complete_list l ps \<longleftrightarrow> ps \<noteq> [] \<and> ps = take (length ps) l \<and> sw_rsvd_1 (last ps) \<noteq> 0
     \<and> (\<forall>x\<in>set (butlast ps). sw_rsvd_1 x = 0) \<and> distinct (map sw_pid ps)"

text \<open>The known ports are told apart by name; those listed are online where the list says they are.\<close>

definition steady_ports :: "disc_env \<Rightarrow> disc \<Rightarrow> sw_info list \<Rightarrow> bool" where
  "steady_ports e d ps \<longleftrightarrow> inj_on (\<lambda>f. dv_port_name (devs d f)) (set (dc_fcports d))
     \<and> (\<forall>f\<in>set (dc_fcports d). f < dc_fresh d)
     \<and> (\<forall>x\<in>set ps. \<forall>f\<in>set (dc_fcports d). \<not> skip_entry e d x \<and> dv_port_name (devs d f) = sw_port_name x
          \<longrightarrow> online f d \<and> dv_id (devs d f) = sw_pid x)"

section \<open>One entry\<close>

text \<open>What the scan leaves as it was.\<close>

definition same_scan :: "disc \<Rightarrow> disc \<Rightarrow> bool" where
  "same_scan d0 d \<longleftrightarrow> dc_fcports d = dc_fcports d0 \<and> dc_topology d = dc_topology d0 \<and> max_loop_id d = max_loop_id d0
     \<and> d_dt d = d_dt d0 \<and> vha_d_id (mw_host (d_mbx d)) = vha_d_id (mw_host (d_mbx d0)) \<and> loop_id_map d = loop_id_map d0
     \<and> (\<forall>f\<in>set (dc_fcports d0). fc_of d f = fc_of d0 f \<and> dv_id (devs d f) = dv_id (devs d0 f)
          \<and> dv_port_name (devs d f) = dv_port_name (devs d0 f) \<and> dv_loop_id (devs d f) = dv_loop_id (devs d0 f))"

definition new_ports :: "disc \<Rightarrow> nat list \<Rightarrow> (port_id \<times> u8 list) list" where
  "new_ports d ns = map (\<lambda>f. (dv_id (devs d f), dv_port_name (devs d f))) ns"

definition entry_ports :: "sw_info list \<Rightarrow> (port_id \<times> u8 list) list" where
  "entry_ports xs = map (\<lambda>x. (sw_pid x, sw_port_name x)) xs"

text \<open>After \<open>k\<close> entries of \<open>ps\<close>.\<close>

definition scan_at :: "disc_env \<Rightarrow> sw_info list \<Rightarrow> sw_info list \<Rightarrow> disc \<Rightarrow> nat \<Rightarrow> scan \<Rightarrow> disc \<Rightarrow> bool" where
  "scan_at e l ps d0 k s d \<longleftrightarrow>
     sc_swl s = Some l \<and> sc_idx s = k \<and> (sc_last s \<longleftrightarrow> k = length ps) \<and> (sc_first s \<longleftrightarrow> k = 0)
     \<and> (0 < k \<longrightarrow> sc_wrap s = sw_pid (ps ! 0)) \<and> same_scan d0 d
     \<and> sc_cur s \<notin> set (dc_fcports d0) \<union> set (sc_new s) \<and> set (sc_new s) \<inter> set (dc_fcports d0) = {}
     \<and> (\<forall>f\<in>insert (sc_cur s) (set (dc_fcports d0) \<union> set (sc_new s)). f < dc_fresh d)
     \<and> new_ports d (sc_new s) = entry_ports (entries_new e d0 (take k ps))
     \<and> (\<forall>f\<in>set (dc_fcports d0). dv_scan_state (devs d f) =
          (if dv_port_name (devs d0 f) \<in> entries_found e d0 (take k ps) then QLA_FCPORT_FOUND else dv_scan_state (devs d0 f)))"

lemma skip_take: "skip_fabric e d (take_entry x v) = skip_entry e d x"
  by (simp add: skip_entry_def skip_fabric_def take_entry_def)

lemma skip_same: "same_scan d0 d \<Longrightarrow> skip_entry e d x = skip_entry e d0 x"
  by (simp add: same_scan_def skip_entry_def skip_fabric_def)

lemma reserved_same: "same_scan d0 d \<Longrightarrow> qla2x00_is_reserved_id i d = qla2x00_is_reserved_id i d0"
  by (simp add: same_scan_def qla2x00_is_reserved_id_def)

lemma known_port_cases:
  assumes "same_scan d0 d"
  obtains "known_port name d = None" "name \<notin> known_names d0"
    | f where "known_port name d = Some f" "f \<in> set (dc_fcports d0)" "dv_port_name (devs d0 f) = name" "name \<in> known_names d0"
proof (cases "known_port name d")
  case None
  then show ?thesis using assms that(1) by (auto simp: known_port_def known_names_def same_scan_def find_None_iff)
next
  case (Some f)
  then have "f \<in> set (dc_fcports d0)" "dv_port_name (devs d0 f) = name"
    using assms by (auto simp: known_port_def same_scan_def find_Some_iff)
  then show ?thesis using that(2) Some by (auto simp: known_names_def)
qed

text \<open>A fresh port.\<close>

definition fresh_port :: "port_id \<Rightarrow> disc \<Rightarrow> disc" where
  "fresh_port i d = (let n = dc_fresh d in upd_dev n (\<lambda>x. x\<lparr>dv_id := i\<rparr>) (fresh_fabric n
     (upd_dev n (\<lambda>x. x\<lparr>dv_loop_id := FC_NO_LOOP_ID\<rparr>)
       (upd_st n (\<lambda>x. x\<lparr>fcport_state := FCS_UNCONFIGURED\<rparr>) (zero_fcport n (d\<lparr>dc_fresh := Suc n\<rparr>))))))"

lemma dc_fresh_simps [simp]:
  "devs (d\<lparr>dc_fresh := n\<rparr>) = devs d" "d_mbx (d\<lparr>dc_fresh := n\<rparr>) = d_mbx d" "d_dt (d\<lparr>dc_fresh := n\<rparr>) = d_dt d"
  "fc_of (d\<lparr>dc_fresh := n\<rparr>) f = fc_of d f"
  by (simp_all add: d_mbx_def d_dt_def fc_of_def)

lemma fresh_port_simps:
  "h \<noteq> dc_fresh d \<Longrightarrow> devs (fresh_port i d) h = devs d h" "h \<noteq> dc_fresh d \<Longrightarrow> fc_of (fresh_port i d) h = fc_of d h"
  "dv_id (devs (fresh_port i d) (dc_fresh d)) = i" "dc_fresh (fresh_port i d) = Suc (dc_fresh d)"
  "dc_fcports (fresh_port i d) = dc_fcports d" "dc_topology (fresh_port i d) = dc_topology d"
  "max_loop_id (fresh_port i d) = max_loop_id d" "loop_id_map (fresh_port i d) = loop_id_map d"
  "d_dt (fresh_port i d) = d_dt d" "vha_d_id (mw_host (d_mbx (fresh_port i d))) = vha_d_id (mw_host (d_mbx d))"
  "min_external_loopid (fresh_port i d) = min_external_loopid d"
  by (simp_all add: fresh_port_def Let_def fresh_fabric_def set_flags_def zero_fcport_def)

lemma fresh_port_start:
  "fresh_fabric (dc_fresh d) (upd_dev (dc_fresh d) (\<lambda>x. x\<lparr>dv_loop_id := FC_NO_LOOP_ID\<rparr>)
     (upd_st (dc_fresh d) (\<lambda>x. x\<lparr>fcport_state := FCS_UNCONFIGURED\<rparr>)
       (zero_fcport (dc_fresh d) (d\<lparr>dc_fresh := Suc (dc_fresh d)\<rparr>)))) = fresh_port (0, 0, 0) d"
  by (simp add: fresh_port_def Let_def fresh_fabric_def set_flags_def zero_fcport_def blank_dev_def upd_dev_def
      upd_st_def upd_h_def upd_d_def)

lemma scan_ids_simps [simp]:
  "scan_ids (upd_dev f g d) = scan_ids d" "scan_ids (upd_st f h d) = scan_ids d" "scan_ids (zero_fcport f d) = scan_ids d"
  "scan_ids (d\<lparr>dc_fresh := n\<rparr>) = scan_ids d"
  by (simp_all add: scan_ids_def zero_fcport_def)

lemma same_scan_refl: "same_scan d d"
  by (simp add: same_scan_def)

lemma entries_snoc:
  "entries_new e d (xs @ [x]) =
     entries_new e d xs @ (if \<not> skip_entry e d x \<and> sw_port_name x \<notin> known_names d then [x] else [])"
  "entries_found e d (xs @ [x]) =
     entries_found e d xs \<union> (if skip_entry e d x then {} else {sw_port_name x})"
  by (auto simp: entries_new_def entries_found_def)

lemma complete_nth:
  assumes "complete_list l ps" "k < length ps"
  shows "l ! k = ps ! k" "sw_rsvd_1 (ps ! k) \<noteq> 0 \<longleftrightarrow> Suc k = length ps" "0 < k \<Longrightarrow> sw_pid (ps ! k) \<noteq> sw_pid (ps ! 0)"
proof -
  have "ps ! k = take (length ps) l ! k" using assms(1) by (simp add: complete_list_def)
  then show "l ! k = ps ! k" using assms(2) by simp
  show "sw_rsvd_1 (ps ! k) \<noteq> 0 \<longleftrightarrow> Suc k = length ps"
  proof (cases "Suc k = length ps")
    case True
    have "ps \<noteq> []" using assms(2) by auto
    then have "last ps = ps ! k" by (simp add: last_conv_nth flip: True)
    then show ?thesis using True assms(1) by (simp add: complete_list_def)
  next
    case False
    then have "ps ! k \<in> set (butlast ps)" using assms(2) by (auto simp: in_set_conv_nth nth_butlast intro!: exI [of _ k])
    then show ?thesis using False assms(1) by (simp add: complete_list_def)
  qed
  have "distinct (map sw_pid ps)" using assms(1) by (simp add: complete_list_def)
  then show "sw_pid (ps ! k) \<noteq> sw_pid (ps ! 0)" if "0 < k"
  proof -
    have "0 < length ps" using assms(2) by linarith
    then have "map sw_pid ps ! k \<noteq> map sw_pid ps ! 0"
      using that assms(2) \<open>distinct (map sw_pid ps)\<close> by (simp add: nth_eq_iff_index_eq del: nth_map)
    then show ?thesis using assms(2) \<open>0 < length ps\<close> by auto
  qed
qed

text \<open>The entry is in the fresh port, and it does not close the list.\<close>

lemma scan_at_read:
  assumes c: "complete_list l ps" and at: "scan_at e l ps d0 k s d" and k: "k < length ps"
  defines "x \<equiv> ps ! k"
  obtains s1 s2 where "scan_read e s d = Some ((True, s1), upd_dev (sc_cur s) (take_entry x) d)"
    "scan_wrapped s1 (upd_dev (sc_cur s) (take_entry x) d) = (False, s2)" "sc_cur s1 = sc_cur s"
    "sc_cur s2 = sc_cur s" "sc_new s2 = sc_new s" "sc_swl s2 = Some l" "sc_idx s2 = Suc k" "\<not> sc_first s2"
    "sc_last s2 \<longleftrightarrow> Suc k = length ps" "sc_wrap s2 = sw_pid (ps ! 0)"
proof -
  note n = complete_nth [OF c k]
  define s1 where "s1 = s\<lparr>sc_last := (sw_rsvd_1 x \<noteq> 0), sc_idx := Suc k\<rparr>"
  have "scan_read e s d = Some ((True, s1), upd_dev (sc_cur s) (take_entry x) d)"
    using at k n(1) by (simp add: scan_at_def scan_read_def s1_def x_def Let_def)
  moreover have "scan_wrapped s1 (upd_dev (sc_cur s) (take_entry x) d)
      = (False, if k = 0 then s1\<lparr>sc_wrap := sw_pid x, sc_first := False\<rparr> else s1)"
    using at n(3) by (auto simp: scan_at_def scan_wrapped_def s1_def x_def take_entry_def)
  ultimately show ?thesis
  proof (rule that)
    let ?s = "if k = 0 then s1\<lparr>sc_wrap := sw_pid x, sc_first := False\<rparr> else s1"
    show "sc_cur s1 = sc_cur s" "sc_cur ?s = sc_cur s" "sc_new ?s = sc_new s" "sc_idx ?s = Suc k"
      by (simp_all add: s1_def)
    show "sc_swl ?s = Some l" "\<not> sc_first ?s" "sc_wrap ?s = sw_pid (ps ! 0)"
      using at by (auto simp: scan_at_def s1_def x_def)
    show "sc_last ?s \<longleftrightarrow> Suc k = length ps" using n(2) by (auto simp: s1_def x_def)
  qed
qed

lemma same_scan_cur:
  assumes "same_scan d0 d" "c \<notin> set (dc_fcports d0)"
  shows "same_scan d0 (upd_dev c g d)"
  using assms by (auto simp: same_scan_def)

lemma same_scan_found:
  assumes "same_scan d0 d"
  shows "same_scan d0 (upd_dev f (\<lambda>x. x\<lparr>dv_scan_state := q, dv_fabric_name := a, dv_fp_speed := v\<rparr>) d)"
  using assms by (auto simp: same_scan_def)

lemma same_scan_fresh:
  assumes "same_scan d0 d" "\<forall>f\<in>set (dc_fcports d0). f < dc_fresh d"
  shows "same_scan d0 (fresh_port i d)"
proof -
  have "f \<noteq> dc_fresh d" if "f \<in> set (dc_fcports d0)" for f using assms(2) that by auto
  then show ?thesis using assms(1) by (simp add: same_scan_def fresh_port_simps)
qed

lemma new_ports_cong: "\<forall>f\<in>set ns. devs d f = devs d' f \<Longrightarrow> new_ports d ns = new_ports d' ns"
  by (simp add: new_ports_def)

text \<open>Each of the three ways on from there, towards the state after the entry.\<close>

lemma scan_at_Suc:
  assumes k: "k < length ps" and at: "scan_at e l ps d0 k s d"
    and s2: "sc_swl s2 = Some l" "sc_idx s2 = Suc k" "\<not> sc_first s2" "sc_last s2 \<longleftrightarrow> Suc k = length ps"
      "sc_wrap s2 = sw_pid (ps ! 0)"
    and d2: "same_scan d0 d2" "sc_cur s2 \<notin> set (dc_fcports d0) \<union> set (sc_new s2)" "set (sc_new s2) \<inter> set (dc_fcports d0) = {}"
      "\<forall>f\<in>insert (sc_cur s2) (set (dc_fcports d0) \<union> set (sc_new s2)). f < dc_fresh d2"
    and new: "new_ports d2 (sc_new s2) = new_ports d (sc_new s) @ entry_ports
      (if \<not> skip_entry e d0 (ps ! k) \<and> sw_port_name (ps ! k) \<notin> known_names d0 then [ps ! k] else [])"
    and found: "\<And>f. f \<in> set (dc_fcports d0) \<Longrightarrow> dv_scan_state (devs d2 f) =
      (if \<not> skip_entry e d0 (ps ! k) \<and> dv_port_name (devs d0 f) = sw_port_name (ps ! k) then QLA_FCPORT_FOUND
       else dv_scan_state (devs d f))"
  shows "scan_at e l ps d0 (Suc k) s2 d2"
  using k at s2 d2 new found
  by (auto simp: scan_at_def take_Suc_conv_app_nth entries_snoc entry_ports_def)

lemma scan_entry:
  assumes c: "complete_list l ps" and st: "steady_ports e d0 ps" and at: "scan_at e l ps d0 k s d" and k: "k < length ps"
    and free: "\<not> qla2x00_is_reserved_id i d0" and topo: "dc_topology d0 \<noteq> ISP_CFG_FL" and alloc: "\<forall>n. de_alloc e n"
  shows "\<exists>s' d'. scan_at e l ps d0 (Suc k) s' d' \<and> scan_ports e (i # ids) s d = scan_ports e ids s' d'"
proof -
  let ?x = "ps ! k" and ?d = "upd_dev (sc_cur s) (take_entry (ps ! k)) d"
  obtain s1 s2 where r: "scan_read e s d = Some ((True, s1), ?d)" "scan_wrapped s1 ?d = (False, s2)" "sc_cur s1 = sc_cur s"
      and s2: "sc_cur s2 = sc_cur s" "sc_new s2 = sc_new s" "sc_swl s2 = Some l" "sc_idx s2 = Suc k" "\<not> sc_first s2"
        "sc_last s2 \<longleftrightarrow> Suc k = length ps" "sc_wrap s2 = sw_pid (ps ! 0)"
    using scan_at_read [OF c at k] by metis
  have same: "same_scan d0 d" and cur: "sc_cur s \<notin> set (dc_fcports d0) \<union> set (sc_new s)"
    and apart: "set (sc_new s) \<inter> set (dc_fcports d0) = {}"
    and less: "\<forall>f\<in>insert (sc_cur s) (set (dc_fcports d0) \<union> set (sc_new s)). f < dc_fresh d"
    using at by (simp_all add: scan_at_def)
  have same1: "same_scan d0 ?d" using same cur by (simp add: same_scan_cur)
  define w where "w = take_entry ?x (devs d (sc_cur s))"
  have w: "devs ?d (sc_cur s) = w" "dv_port_name w = sw_port_name ?x" "dv_id w = sw_pid ?x"
      "skip_fabric e ?d w = skip_entry e d0 ?x"
    by (simp add: w_def, simp_all add: w_def skip_take skip_same [OF same1]) (simp_all add: take_entry_def)
  have here: "dc_topology d \<noteq> ISP_CFG_FL" "\<not> qla2x00_is_reserved_id i d"
    using same topo free reserved_same [OF same] by (simp_all add: same_scan_def)
  have run: "scan_ports e (i # ids) s d =
     (if skip_entry e d0 ?x then scan_ports e ids s2 ?d
      else (case known_port (sw_port_name ?x) ?d of
          Some f \<Rightarrow> do { d \<leftarrow> scan_known e f w ?d; scan_ports e ids s2 d }
        | None \<Rightarrow> scan_ports e ids (s2\<lparr>sc_new := sc_new s @ [sc_cur s], sc_cur := dc_fresh d\<rparr>) (fresh_port (sw_pid ?x) ?d)))"
    using here alloc
    by (simp add: r s2(1,2) w qla2x00_alloc_fcport_def fresh_port_def Let_def del: upd_dev_simps(1) split: option.splits)
  have frame: "new_ports ?d (sc_new s) = new_ports d (sc_new s)"
    using cur by (intro new_ports_cong) auto
  have old: "devs ?d f = devs d f" if "f \<in> set (dc_fcports d0)" for f using that cur by auto
  show ?thesis
  proof (cases "skip_entry e d0 ?x")
    case True
    have "scan_at e l ps d0 (Suc k) s2 ?d"
      using s2 same1 cur apart less frame old True by (intro scan_at_Suc [OF k at]) (auto simp: entry_ports_def)
    then show ?thesis using run True by auto
  next
    case False
    show ?thesis
    proof (rule known_port_cases [OF same1, of "sw_port_name ?x"])
      fix f assume f: "known_port (sw_port_name ?x) ?d = Some f" "f \<in> set (dc_fcports d0)"
        "dv_port_name (devs d0 f) = sw_port_name ?x" "sw_port_name ?x \<in> known_names d0"
      let ?f = "upd_dev f (\<lambda>x. x\<lparr>dv_scan_state := QLA_FCPORT_FOUND, dv_fabric_name := dv_fabric_name w, dv_fp_speed := dv_fp_speed w\<rparr>) ?d"
      have "online f d0" "dv_id (devs d0 f) = sw_pid ?x"
        using st False f(2,3) k by (auto simp: steady_ports_def)
      then have "scan_known e f w ?d = Some ?f"
        using same f(2) old [OF f(2)] w(3) by (auto simp: scan_known_def same_scan_def online_def)
      moreover have "scan_at e l ps d0 (Suc k) s2 ?f"
      proof (rule scan_at_Suc [OF k at])
        have f_new: "f \<notin> set (sc_new s)" "f \<noteq> sc_cur s" using f(2) apart cur by auto
        show "same_scan d0 ?f" by (rule same_scan_found [OF same1])
        show "sc_cur s2 \<notin> set (dc_fcports d0) \<union> set (sc_new s2)" "set (sc_new s2) \<inter> set (dc_fcports d0) = {}"
          "\<forall>f\<in>insert (sc_cur s2) (set (dc_fcports d0) \<union> set (sc_new s2)). f < dc_fresh ?f"
          using cur less apart s2 by auto
        have "new_ports ?f (sc_new s) = new_ports ?d (sc_new s)" using f_new by (intro new_ports_cong) auto
        then show "new_ports ?f (sc_new s2) = new_ports d (sc_new s) @ entry_ports
            (if \<not> skip_entry e d0 ?x \<and> sw_port_name ?x \<notin> known_names d0 then [?x] else [])"
          using f(4) s2(2) frame by (simp add: entry_ports_def)
        show "dv_scan_state (devs ?f g) = (if \<not> skip_entry e d0 ?x \<and> dv_port_name (devs d0 g) = sw_port_name ?x
            then QLA_FCPORT_FOUND else dv_scan_state (devs d g))" if "g \<in> set (dc_fcports d0)" for g
          using that f(2,3) st False old f_new by (auto simp: steady_ports_def inj_on_def)
      qed (use s2 in simp_all)
      ultimately show ?thesis using run False f(1) by auto
    next
      assume n: "known_port (sw_port_name ?x) ?d = None" "sw_port_name ?x \<notin> known_names d0"
      let ?s = "s2\<lparr>sc_new := sc_new s @ [sc_cur s], sc_cur := dc_fresh d\<rparr>" and ?n = "fresh_port (sw_pid ?x) ?d"
      have "scan_at e l ps d0 (Suc k) ?s ?n"
      proof (rule scan_at_Suc [OF k at])
        have fresh: "g \<noteq> dc_fresh d" if "g \<in> insert (sc_cur s) (set (dc_fcports d0) \<union> set (sc_new s))" for g
          using less that by auto
        show "same_scan d0 ?n" using same1 less by (intro same_scan_fresh) auto
        show "sc_cur ?s \<notin> set (dc_fcports d0) \<union> set (sc_new ?s)" "set (sc_new ?s) \<inter> set (dc_fcports d0) = {}"
          using cur apart fresh by auto
        show "\<forall>f\<in>insert (sc_cur ?s) (set (dc_fcports d0) \<union> set (sc_new ?s)). f < dc_fresh ?n"
          using less by (auto simp: fresh_port_simps intro: less_SucI)
        have "new_ports ?n (sc_new s @ [sc_cur s]) = new_ports ?d (sc_new s @ [sc_cur s])"
          using fresh by (intro new_ports_cong) (auto simp: fresh_port_simps)
        then show "new_ports ?n (sc_new ?s) = new_ports d (sc_new s) @ entry_ports
            (if \<not> skip_entry e d0 ?x \<and> sw_port_name ?x \<notin> known_names d0 then [?x] else [])"
          using n(2) False frame w by (simp add: entry_ports_def new_ports_def)
        show "dv_scan_state (devs ?n g) = (if \<not> skip_entry e d0 ?x \<and> dv_port_name (devs d0 g) = sw_port_name ?x
            then QLA_FCPORT_FOUND else dv_scan_state (devs d g))" if "g \<in> set (dc_fcports d0)" for g
        proof -
          have "dv_port_name (devs d0 g) \<noteq> sw_port_name ?x" using that n(2) by (metis known_names_def image_eqI)
          then show ?thesis using that fresh [of g] old [OF that] by (simp add: fresh_port_simps)
        qed
      qed (use s2 in simp_all)
      then show ?thesis using run False n(1) by auto
    qed
  qed
qed

section \<open>The scan\<close>

lemma scan_close:
  assumes "scan_at e l ps d0 (length ps) s d" "\<not> qla2x00_is_reserved_id i d0" "dc_topology d0 \<noteq> ISP_CFG_FL" "ps \<noteq> []"
  shows "\<exists>s'. scan_ports e (i # ids) s d = Some (QLA_SUCCESS, s', d) \<and> sc_new s' = sc_new s"
proof -
  have same: "same_scan d0 d" using assms(1) by (simp add: scan_at_def)
  have "dc_topology d \<noteq> ISP_CFG_FL" "\<not> qla2x00_is_reserved_id i d"
    using same assms(2,3) reserved_same [OF same] by (simp_all add: same_scan_def)
  then show ?thesis
    using assms(1,4) by (simp add: scan_at_def scan_read_def scan_wrapped_def)
qed

lemma scan_rest:
  assumes c: "complete_list l ps" and st: "steady_ports e d0 ps" and topo: "dc_topology d0 \<noteq> ISP_CFG_FL" and alloc: "\<forall>n. de_alloc e n"
  shows "scan_at e l ps d0 k s d \<Longrightarrow> k \<le> length ps
    \<Longrightarrow> length ps - k < length (filter (\<lambda>i. \<not> qla2x00_is_reserved_id i d0) ids)
    \<Longrightarrow> \<exists>s' s'' d'. scan_ports e ids s d = Some (QLA_SUCCESS, s', d') \<and> scan_at e l ps d0 (length ps) s'' d' \<and> sc_new s' = sc_new s''"
proof (induction ids arbitrary: k s d)
  case (Cons i ids)
  have same: "same_scan d0 d" using Cons.prems(1) by (simp add: scan_at_def)
  consider "qla2x00_is_reserved_id i d0" | "\<not> qla2x00_is_reserved_id i d0" "k = length ps" | "\<not> qla2x00_is_reserved_id i d0" "k < length ps"
    using Cons.prems(2) by linarith
  then show ?case
  proof cases
    case 1
    then have "scan_ports e (i # ids) s d = scan_ports e ids s d" using reserved_same [OF same] by simp
    then show ?thesis using Cons.IH [OF Cons.prems(1,2)] Cons.prems(3) 1 by simp
  next
    case 2
    have "ps \<noteq> []" using c by (simp add: complete_list_def)
    then show ?thesis using scan_close [OF _ 2(1) topo] Cons.prems(1) 2(2) by blast
  next
    case 3
    then obtain s' d' where n: "scan_at e l ps d0 (Suc k) s' d'" "scan_ports e (i # ids) s d = scan_ports e ids s' d'"
      using scan_entry [OF c st Cons.prems(1) 3(2,1) topo alloc] by blast
    show ?thesis using Cons.IH [OF n(1)] Cons.prems(3) 3 n(2) by simp
  qed
qed simp


section \<open>Witnesses\<close>

text \<open>
  A fabric with one known port, 0, and a list of two. \<open>knows_7\<close> is a switch that knows every
  port under the identifier 7.
\<close>

definition sample_dev :: "u16 \<Rightarrow> u8 \<Rightarrow> fc_dev" where
  "sample_dev loop n = blank_dev\<lparr>dv_loop_id := loop, dv_id := (1, 2, n), dv_port_name := replicate 8 n\<rparr>"

definition sample_entry :: "u8 \<Rightarrow> u8 \<Rightarrow> sw_info" where
  "sample_entry n r = no_sw_info\<lparr>sw_domain := 1, sw_area := 2, sw_al_pa := n, sw_rsvd_1 := r, sw_port_name := replicate 8 n\<rparr>"

definition sample_disc :: disc where
  "sample_disc = \<lparr>dc_ct = sample_ct\<lparr>max_fibre_devices := 2048,
       ct_mbx := sample_mw\<lparr>mw_host := sample_host\<lparr>fc_states := (\<lambda>_. (blank_fc 0)\<lparr>fcport_state := FCS_ONLINE\<rparr>)\<rparr>\<rparr>\<rparr>,
     devs = (\<lambda>f. if f = 0 then sample_dev 3 3 else sample_dev FC_NO_LOOP_ID 0), dc_fcports = [0], dc_fresh = 1,
     loop_id_map = (\<lambda>i. i < 7), min_external_loopid = 0x81, max_loop_id = 0x84, dc_loop_state = LOOP_UP,
     dc_loop_down_timer = 0, dc_topology = ISP_CFG_F, dc_device_flags = 0, dc_login_work = [], dc_ha_timer = 0,
     dc_switch_cap = 0, dc_fabric_name = replicate 8 0, dc_retry_count = 3\<rparr>"

definition known_as_7 :: "u32 list \<Rightarrow> u32 list" where
  "known_as_7 m = (if get16 0 10 m = 7 then m
     else put16 0 8 CS_PORT_UNAVAILABLE (put32 0 20 LSC_SCODE_PORTID_USED (put32 0 24 7 m)))"

definition knows_7 :: ct_env where
  "knows_7 = \<lparr>ce_issue = (\<lambda>m w. Some (QLA_SUCCESS, m, put_mem 0x5000 (known_as_7 (mw_mem w 0x5000)) w)),
     ce_junk = sample_junk, ce_pool = Some 0x5000, ce_mb = replicate 32 0\<rparr>"

definition sample_denv :: "ct_env \<Rightarrow> disc_env" where
  "sample_denv c = \<lparr>de_ct = c, de_hba = sample_hba, de_others = (\<lambda>d. d), de_kenv = sample_kenv, de_alloc = (\<lambda>_. True),
     de_swl = True, de_post = True, de_rport = (\<lambda>_. True), de_prio = None, de_gid_list = 0x6000, de_base_id = (1, 1, 1),
     de_vp_ids = [], ql2xfdmienable = True, ql2xiidmaenable = True, ql2xgffidenable = False, ql2xasynclogin = False,
     ql2xplogiabsentdevice = False, ql2xmaxqueues = 1, de_hz = 1000, de_fx_ready = (\<lambda>d. None), de_fx_devices = (\<lambda>d. None)\<rparr>"

theorem loop_ids_unique_witness:
  "ids_marked {0, 1} (snd (qla2x00_find_new_loop_id 1 sample_disc))"
proof -
  have "ids_marked {0, 1} sample_disc" by (simp add: ids_marked_def sample_disc_def sample_dev_def blank_dev_def)
  then show ?thesis using loop_ids_unique [of "{0, 1}" sample_disc 1] by simp
qed


text \<open>The two logins of the sample run: refused with another identifier, then accepted.\<close>

definition login_entry_for :: "u16 \<Rightarrow> u32 list" where
  "login_entry_for loop = logio_entry 0 loop (LCF_COMMAND_PLOGI OR LCF_COND_PLOGI)
     \<lparr>fc_id = 0, loop_id = loop, d_id_domain = 1, d_id_area = 2, d_id_al_pa = 3\<rparr> 0"

definition answer_to :: "u16 \<Rightarrow> u32 list" where
  "answer_to loop = (let m = known_as_7 (login_entry_for loop)
     in put8 0 ENTRY_STATUS_OFF (get8 0 ENTRY_STATUS_OFF m AND RF_MASK_24XX) m)"

lemma answers:
  "login_result (answer_to 3) (replicate 32 0) = (QLA_SUCCESS, (replicate 32 0)[0 := MBS_PORT_ID_USED, 1 := 7])"
  "fst (login_result (answer_to 7) (replicate 32 0)) = QLA_SUCCESS"
  "snd (login_result (answer_to 7) (replicate 32 0)) ! 0 = MBS_COMMAND_COMPLETE"
  by code_simp+

lemma sample_disc_fwi2 [simp]: "d_dt sample_disc = DT_FWI2"
  by (simp add: sample_disc_def d_dt_def d_mbx_def mw_dt_def sample_host_def)

lemma knows_7_login:
  assumes "d_dt d = DT_FWI2" "mw_host (d_mbx d) = mw_host (d_mbx sample_disc)" "dv_id (devs d 0) = (1, 2, 3)"
  shows "\<exists>d'. dev_login (sample_denv knows_7) 0 (BIT 0) d
     = Some (login_result (answer_to (dv_loop_id (devs d 0))) (replicate 32 0), d')
     \<and> d_dt d' = DT_FWI2 \<and> mw_host (d_mbx d') = mw_host (d_mbx d) \<and> devs d' = devs d"
proof -
  have dt: "IS_FWI2_CAPABLE (mw_dt (d_mbx d))" using assms(1) by (simp add: d_dt_def dt_defs)
  have same: "d_dt (upd_d (\<lambda>_. put_mem a m (put_mem b n (put_mem c k (d_mbx d)))) d) = DT_FWI2" for a m b n c k
    using assms(1) by (simp add: d_dt_def)
  have h: "iocb_queue b (mw_host (d_mbx d)) = sample_ring" "vp_idx (mw_host (d_mbx d)) = 0" "que_id sample_ring = 0" for b
    unfolding assms(2)
    by (simp_all add: sample_disc_def d_mbx_def sample_host_def iocb_queue_def get_req_def sample_ring_def)
  have bits: "BIT 0 AND BIT (Suc 0) = (0 :: u8)" "BIT 0 AND BIT 0 \<noteq> (0 :: u8)" "BIT 0 \<noteq> (0 :: u8)"
    by (simp_all add: BIT_def)
  obtain rv mb where "login_result (answer_to (dv_loop_id (devs d 0))) (replicate 32 0) = (rv, mb)" by fastforce
  then show ?thesis
    using assms(3) dt
    by (simp add: dev_login_def ask_mbx_def sample_denv_def knows_7_def isp_fabric_login_def h bits same
        qla24xx_login_fabric_def qla2x00_issue_iocb_timeout_def pair_up_def Let_def fc_port_of_def answer_to_def
        login_entry_for_def)
qed

theorem port_id_used_shares_id_witness:
  "\<exists>d'. qla2x00_fabric_login (sample_denv knows_7) 2 None 0 0x81 sample_disc = Some ((QLA_SUCCESS, 3), d')
     \<and> dv_loop_id (devs d' 0) = 7 \<and> dv_loop_id (devs (snd (qla2x00_find_new_loop_id 1 d')) 1) = 7
     \<and> dv_loop_id (devs (snd (qla2x00_find_new_loop_id 1 d')) 0) = 7"
proof -
  let ?e = "sample_denv knows_7" and ?mb = "(replicate 32 0)[0 := MBS_PORT_ID_USED, 1 := 7] :: u16 list"
  have id: "dv_id (devs sample_disc 0) = (1, 2, 3)" "dv_loop_id (devs sample_disc 0) = 3"
    by (simp_all add: sample_disc_def sample_dev_def)
  obtain d1 where d1: "dev_login ?e 0 (BIT 0) sample_disc = Some ((QLA_SUCCESS, ?mb), d1)" "d_dt d1 = DT_FWI2"
      "mw_host (d_mbx d1) = mw_host (d_mbx sample_disc)" "devs d1 = devs sample_disc"
    using knows_7_login [of sample_disc] id answers(1) by auto
  let ?d = "upd_dev 0 (\<lambda>x. x\<lparr>dv_loop_id := ?mb ! 1\<rparr>) d1"
  have mb: "?mb ! 0 = MBS_PORT_ID_USED" "?mb ! 1 = 7" by simp_all
  obtain d2 where d2: "dev_login ?e 0 (BIT 0) ?d = Some (login_result (answer_to 7) (replicate 32 0), d2)" "d_dt d2 = DT_FWI2"
    using knows_7_login [of ?d] d1 id mb(2) by auto
  obtain mb2 where mb2: "login_result (answer_to 7) (replicate 32 0) = (QLA_SUCCESS, mb2)" "mb2 ! 0 = MBS_COMMAND_COMPLETE"
    using answers(2,3) by (metis prod.collapse)
  have "de_others ?e = (\<lambda>d. d)" by (simp add: sample_denv_def)
  moreover have "unat (7 :: u16) < unat (max_fibre_devices (dc_ct sample_disc))" "\<not> loop_id_map sample_disc (unat (7 :: u16))"
    "\<forall>j < unat (7 :: u16). loop_id_map sample_disc j" "\<not> qla2x00_is_reserved_id 7 sample_disc"
    by (simp_all add: sample_disc_def qla2x00_is_reserved_id_def d_dt_def d_mbx_def mw_dt_def sample_host_def dt_defs NPH_LAST_HANDLE_def)
  ultimately have "\<exists>d'. qla2x00_fabric_login ?e (Suc (Suc 0)) None 0 0x81 sample_disc
      = Some ((QLA_SUCCESS, dv_loop_id (devs sample_disc 0)), d') \<and> dv_loop_id (devs d' 0) = ?mb ! 1
      \<and> loop_id_map d' = loop_id_map sample_disc
      \<and> (case qla2x00_find_new_loop_id 1 d' of (rv, d'') \<Rightarrow>
           rv = QLA_SUCCESS \<and> dv_loop_id (devs d'' 1) = ?mb ! 1 \<and> dv_loop_id (devs d'' 0) = ?mb ! 1)"
    using port_id_used_shares_id [of ?e 0 sample_disc ?mb d1 mb2 d2 1 0 "0x81"] d1(1) d2 mb mb2 by simp
  then show ?thesis using id mb(2) by (auto simp: numeral_2_eq_2)
qed

theorem old_login_tried_once_witness:
  "qla2x00_fabric_login (sample_denv (knows_7\<lparr>ce_issue := qla2x00_mailbox_command prompt_io 0\<rparr>)) 5 None 0 0x81
      (upd_h (\<lambda>h. h\<lparr>device_type := 0x10\<rparr>) sample_disc)
   = qla2x00_fabric_login (sample_denv (knows_7\<lparr>ce_issue := qla2x00_mailbox_command prompt_io 0\<rparr>)) 1 None 0 0x81
      (upd_h (\<lambda>h. h\<lparr>device_type := 0x10\<rparr>) sample_disc)"
proof -
  let ?e = "sample_denv (knows_7\<lparr>ce_issue := qla2x00_mailbox_command prompt_io 0\<rparr>)"
  let ?d = "upd_h (\<lambda>h. h\<lparr>device_type := 0x10\<rparr>) sample_disc"
  have e: "ce_issue (de_ct ?e) = qla2x00_mailbox_command prompt_io 0" "stack_cmd (ce_junk (de_ct ?e))" "length (ce_mb (de_ct ?e)) = 32"
    by (simp_all add: sample_denv_def knows_7_def)
  have d: "\<not> IS_FWI2_CAPABLE (d_dt ?d)" "length (mw_mailbox_out (d_mbx ?d)) = 32" "mw_mbx_count (d_mbx ?d) = 32"
    by (simp_all add: upd_h_def d_dt_def mw_dt_def dt_defs) (simp_all add: sample_disc_def d_mbx_def)
  show ?thesis
    using old_login_tried_once [OF d(1) e(1) _ e(2,3) d(2), of 4 None 0 "0x81"] d(3) by simp
qed

end
