(* ===== verification/Spec2Isabelle.thy ===== *)
theory Spec2Isabelle
  imports Control_Props Fwdt_Claims Isr_Sense Idc_Claims Host_Claims Mbx_Props Aen_Claims Discovery_Scan
begin

text \<open>
  A model of qla2xxx, the Linux driver for QLogic Fibre Channel adapters. All files named here are
  under src/drivers/scsi/qla2xxx. The driver and the adapter's firmware share two rings of 64-byte
  entries in host memory: the driver puts commands on the request ring and rings a doorbell, the
  firmware puts status entries on the response ring and interrupts. Beside this path there is the
  control traffic (logins, task management, pass-through), the capture of firmware dumps, and the
  coordination of adapter resets between functions of one adapter. The development models these
  parts; definitions carry the names of the C functions they translate.

  Conventions. Machine integers are words of their C width, so that wrap-around is the code's;
  \<open>jiffies\<close> alone is a natural number. A ring or a DMA buffer is a list of 32-bit little-endian
  words, a template or dump buffer a list of bytes. The driver's state is the record \<open>host\<close>
  (\<open>scsi_qla_host\<close>, \<open>qla_hw_data\<close> and the queues), passed through every operation; pointers to
  commands are indices into \<open>srbs\<close>. What the code gets from outside is a parameter: \<open>kenv\<close> holds
  the mid-layer, DMA mapping and the adapter's out pointers, \<open>idc_io\<close> the firmware and the other
  functions of the adapter. A crash (\<open>BUG\<close>, wild pointer) is \<open>None\<close>.

  Foundations.
    Qla_Prelude: word and half-word macros, access to queue entries, generic list and word lemmas,
      the collections \<open>entry_simps\<close> and \<open>ring_simps\<close>.
    Qla_Types: qla_def.h as records (\<open>srb\<close>, \<open>scsi_cmnd\<close>, \<open>fc_port\<close>, \<open>req_que\<close>, \<open>rsp_que\<close>,
      \<open>host\<close>) and the adapter-type predicates.

  Submission (qla_iocb.c, qla_inline.h).
    Iocb_Ring: entry counts per command, the ring step, the head-room check, the handle scan; the
      invariant \<open>ring_inv\<close> that keeps unfetched entries apart from free ones. The locale on head
      room is interpreted on both checks of the code.
    Handle_Table: the scan returns a free handle if there is one and wraps past the reserved
      handle 0; storing and releasing keep the table injective.
    Iocb_Build: command types 2, 3 and 7 with continuation entries. The descriptors the firmware
      reads (\<open>seg_word\<close>) are exactly the mapped segments, for each of the three layouts.
    Iocb_Control: allocation of entries for control requests, the marker, the builders of logins,
      logouts, task management, aborts and pass-through entries, \<open>qla2x00_start_sp\<close>.
    Iocb_Submit, Start_Scsi: the handlers \<open>qla2x00_start_scsi\<close>, \<open>qla24xx_start_scsi\<close> and
      \<open>qla2x00_start_bidir\<close>; when they succeed, what is queued then, and that a failure leaves
      ring and table as they were.
    Ring_Fifo: the ring refines a queue of commands under every interleaving of submissions,
      completions and fetches by the firmware.
    Control_Props: guarantees of the control path, and the two ways in which
      \<open>qla2x00_alloc_iocbs\<close> departs from them.

  Descriptors in memory and protection (qla_iocb.c, qla_inline.h, qla_os.c).
    Dsd_Lists: lists of data descriptors outside the ring, chained by their last descriptor, for
      protected commands (type CRC_2) and type 6; the cutting of data at protection intervals.
      Its fuel \<open>block_fuel\<close>, segments plus bytes plus one, is enough: every step consumes a byte.
    Dsd_Props, Dsd_Blocks: \<open>dsd_decode\<close> reads a chain the way the adapter does; building and
      reading agree; the pieces cover the data and never cross a block.
    Iocb_Crc, Iocb_Type6: the protection options, the T10 tags, the CRC context, the FCP command,
      \<open>qla24xx_dif_start_scsi\<close> and \<open>qla82xx_start_scsi\<close> with its pool of lists.
    Host_Queue: \<open>qla2xxx_queuecommand\<close>, the release of what a command holds, its completion. The
      pointer \<open>CMD_SP(cmd)\<close> is not kept. The waiting for the doorbell of the 82xx to read back is
      one write. Dsd_Claims, Type6_Claims, Host_Claims: the properties.

  Completion (qla_isr.c, qla_mbx.c, qla_os.c, qla_inline.h).
    Isr_Status: lookup by handle, the translation of firmware status into a command result, sense
      data, protection errors, every kind of response entry. \<open>sp->done\<close> is an entry of \<open>done_log\<close>.
    Isr_Queue: the loops over a response ring and their dispatch. Their fuel is the number of
      entries of the ring plus one; a run over a ring with at least one processed entry needs no
      more, and the drain theorems say so.
    Isr_Once, Isr_Loop: no command is completed twice; a run ends and consumes exactly the pending
      entries, in order. Isr_Claims and Isr_Sense state the properties and the failures found.

  Firmware dumps of the ISP27xx (qla_tmpl.c, qla_tmpl.h).
    Fwdt_Template: template entries, the dispatch table, the walk; one run computes the size, a
      second captures. Registers and RAM are behind parameters. The walk's fuel is the entry count
      of the template's header, which bounds the loop of the code as well.
    Fwdt_Props, Fwdt_Walk, Fwdt_Claims: the computed size bounds the capture, no byte outside the
      buffer is written, the checksum is the one's-complement sum.

  Inter-driver communication of the ISP83xx (qla_os.c, qla_init.c, qla_mbx.c, qla_isr.c, qla_attr.c).
    Idc_83xx, Idc_State: remote registers, the lock with its recovery, presence and acknowledge
      bits, the election of the reset owner, the state handler and all its entry points. A loop
      that the adapter can keep going runs on fuel \<open>N\<close>, \<open>None\<close> is "still running"; the liveness
      theorem states the fuel that suffices (the time-outs count \<open>jiffies\<close>, and each turn waits).
    Idc_Lock: shared registers are written under the lock only, whatever the adapter answers.
    Idc_Owner: at most one function claims the reset.
    Idc_Reset, Idc_Device: locales \<open>idc_regs\<close> and \<open>idc_granted\<close> state what the code relies on
      (registers that keep their value while the lock is held, a lock that is granted); they are
      interpreted on a register bank. Idc_Claims: the properties and the deviations.

  Mailbox commands (qla_mbx.c; interrupts in qla_isr.c, qla_nx.c, qla_inline.h).
    Mbx_Command: the handshake \<open>qla2x00_mailbox_command\<close> on the record \<open>mbx_world\<close>: the slot
      (\<open>mbx_cmd_comp\<close>), the registers, the interrupt side with the pending command's mask \<open>mw_mcp\<close>,
      waiting or polling, the time-out with its dump and reset. Other contexts, the firmware, the
      doorbell register and \<open>abort_isp\<close> are the parameters \<open>mbx_io\<close>. Polling runs on fuel; the
      termination theorem states what suffices, one round per 10 ms of the command's time-out.
    Mbx_Fw, Mbx_Port, Mbx_Login, Mbx_Adapter, Mbx_Diag, Mbx_Misc: every command of qla_mbx.c, in the
      order of the file. \<open>junk\<close> is what the stack holds in the uninitialised \<open>mbx_cmd_t\<close>, \<open>issue\<close>
      the mailbox command, DMA buffers are addresses into \<open>mw_mem\<close>, \<open>pool\<close> is the allocation of one.
    Mbx_Handshake: the interface \<open>mailbox\<close> that the commands rely on (the outcome depends on the
      registers sent only), interpreted on the handshake; the locale \<open>untouched\<close> for the parts of
      the state the handshake leaves alone. Mbx_Claims, Mbx_Props: the slot, termination, soundness
      of a success, what a silent firmware leads to, and the deviations.

  Virtual ports, events, interrupts (qla_mid.c, qla_isr.c, qla_attr.c, qla_os.c, qla_nx.c, qla_nx2.c).
    Vport: the record \<open>adapter\<close> around the mailbox world, with its ports by index (0 is the physical
      one); \<open>port_in\<close> and \<open>port_out\<close> make a port the host that the mailbox commands run on. Work
      posted for the DPC thread, remote ports that are lost.
    Vport_Ops, Vport_Queues: numbers, creation, deletion, enabling; further queues. The waits run
      on fuel, \<open>None\<close> is "still waiting"; what other contexts do meanwhile is a parameter.
    Aen: every asynchronous event, and its distribution to the virtual ports.
    Isr_Handlers: the interrupt handlers; what the registers read in a round is a parameter.
    Vport_Claims, Aen_Claims: the locale \<open>number_map\<close> on the search in bit maps, the invariant
      \<open>vports_wf\<close>, references on ports as an inductive step relation, the events, and that the
      handlers refine what the mailbox command's model assumes of an interrupt.

  Servers of the fabric (qla_gs.c; qla_sup.c for the vital product data).
    Ct_Requests: the packets and entries of requests, the checks of the answers, the name server,
      the symbolic name, port speeds; \<open>ct_world\<close> is the port's mailbox world with the buffers.
    Fdmi: the attributes of adapter and port and their registration, in two versions.
    Ct_Claims: attributes read back, answers that were not written, reads of the product data.
    Ct_Scan: the scan of the fabric agrees with the data base of any name server \<open>ns_answer\<close>.

  Remote ports and the loop (qla_init.c; loop identifiers in qla_inline.h).
    Discovery: \<open>disc\<close> is the adapter as one port sees it, with its list \<open>vp_fcports\<close> and the map of
      loop identifiers; the local loop, the scan of the fabric (\<open>scan\<close> is the local state of its
      loop), logins, speeds and FCP priorities. A login retries on fuel \<open>N\<close>.
    Loop_Resync: the wait for the firmware (fuel \<open>N\<close>), the adapter's address, and at most 256 rounds
      of updating loop and fabric.
    Discovery_Claims: identifiers belong to one port each, and what logins do to that.
    Discovery_Scan: the scan agrees with a filter of the name server's list.

  Hypotheses. Theorems on the rings assume well-formed queues (length, index in range, table
  sized as allocated); \<open>kenv\<close> functions are unrestricted unless a theorem names a law, such as the
  out pointer staying between the consumed and the produced index.

  Not modelled. Chip set-up, NVRAM and firmware loading (the rest of qla_init.c), error handling and the
  DPC thread (qla_os.c), option ROM access (qla_sup.c), the older dump formats (qla_dbg.c), P3P
  adapters (qla_nx.c, qla_nx2.c), the ISPFX00 (qla_mr.c), the sysfs, bsg and debugfs interfaces
  and PCI probing. Some of these are left for later (PROJECT.json says which), the
  others are register sequences or kernel glue without a contract that could be stated.
\<close>

end
